(* ===== verification/Js_Prelude.thy ===== *)
theory Js_Prelude
  imports Complex_Main "HOL-Library.AList" "HOL-Library.Multiset" "HOL-Library.Sublist"
begin

text \<open>
  What the components share: JavaScript strings as lists of UTF-16 code units, the string
  operations the sources call, numbers and JSON values, and effectful code as functions on an
  explicit world that return, throw or are cut short because the process stops.
  Insertion-ordered \<open>Map\<close> objects are association lists updated with \<open>AList.update\<close>.
\<close>

named_theorems io_defs \<open>unfolding equations of the effect combinators\<close>
named_theorems io_rules \<open>introduction rules for specifications of effectful code\<close>

section \<open>Strings\<close>

text \<open>
  A JavaScript string is a sequence of 16-bit code units; \<open>length\<close>, \<open>slice\<close> and the padding
  functions count code units. \<open>js\<close> turns an ASCII literal into one. \<open>jt\<close> does the same for
  Turkish text: a tilde and an ASCII letter stand for the Turkish letter of that shape
  (\<open>~g\<close> is g with breve, \<open>~i\<close> dotless i, \<open>~I\<close> dotted capital I, \<open>~-\<close> the en dash).
\<close>

type_synonym jstr = "nat list"

definition js :: "string \<Rightarrow> jstr" where
  "js s = map of_char s"

definition turkish :: "char \<Rightarrow> nat" where
  "turkish c =
     (if c = CHR ''c'' then 231 else if c = CHR ''C'' then 199
      else if c = CHR ''g'' then 287 else if c = CHR ''G'' then 286
      else if c = CHR ''i'' then 305 else if c = CHR ''I'' then 304
      else if c = CHR ''o'' then 246 else if c = CHR ''O'' then 214
      else if c = CHR ''s'' then 351 else if c = CHR ''S'' then 350
      else if c = CHR ''u'' then 252 else if c = CHR ''U'' then 220
      else if c = CHR ''-'' then 8211
      else of_char c)"

fun jt :: "string \<Rightarrow> jstr" where
  "jt [] = []"
| "jt [c] = [of_char c]"
| "jt (c # d # cs) = (if c = CHR 0x7E then turkish d # jt cs else of_char c # jt (d # cs))"

lemma js_eq_iff [simp]: "js a = js b \<longleftrightarrow> a = b"
proof -
  have "inj (of_char :: char \<Rightarrow> nat)"
    by (simp add: inj_def)
  then show ?thesis
    by (simp add: js_def inj_map_eq_map)
qed

lemma js_Nil_iff [simp]: "js a = [] \<longleftrightarrow> a = []" "[] = js a \<longleftrightarrow> a = []"
  by (auto simp: js_def)

lemma length_js [simp]: "length (js a) = length a"
  by (simp add: js_def)

lemma js_append: "js (a @ b) = js a @ js b"
  by (simp add: js_def)

text \<open>Code units that \<open>trim\<close> removes and \<open>\\s\<close> matches.\<close>

definition is_space :: "nat \<Rightarrow> bool" where
  "is_space c \<longleftrightarrow> (9 \<le> c \<and> c \<le> 13) \<or> c = 32 \<or> c = 160 \<or> c = 5760
     \<or> (8192 \<le> c \<and> c \<le> 8202) \<or> c = 8232 \<or> c = 8233 \<or> c = 8239 \<or> c = 8287
     \<or> c = 12288 \<or> c = 65279"

definition js_trim :: "jstr \<Rightarrow> jstr" where
  "js_trim s = rev (dropWhile is_space (rev (dropWhile is_space s)))"

definition starts_with :: "jstr \<Rightarrow> jstr \<Rightarrow> bool" where
  "starts_with s p \<longleftrightarrow> take (length p) s = p"

definition ends_with :: "jstr \<Rightarrow> jstr \<Rightarrow> bool" where
  "ends_with s p \<longleftrightarrow> starts_with (rev s) (rev p)"

fun contains :: "jstr \<Rightarrow> jstr \<Rightarrow> bool" where
  "contains s p = (starts_with s p \<or> (case s of [] \<Rightarrow> False | _ # s' \<Rightarrow> contains s' p))"

declare contains.simps [simp del]

text \<open>\<open>indexOf\<close> of one code unit, \<open>None\<close> for -1.\<close>

fun index_of :: "nat \<Rightarrow> jstr \<Rightarrow> nat option" where
  "index_of c [] = None"
| "index_of c (x # xs) = (if x = c then Some 0 else map_option Suc (index_of c xs))"

text \<open>\<open>split\<close> with a one-unit separator: always at least one piece.\<close>

fun split_on :: "nat \<Rightarrow> jstr \<Rightarrow> jstr list" where
  "split_on c [] = [[]]"
| "split_on c (x # xs) =
     (if x = c then [] # split_on c xs
      else (case split_on c xs of [] \<Rightarrow> [[x]] | p # ps \<Rightarrow> (x # p) # ps))"

fun join_with :: "jstr \<Rightarrow> jstr list \<Rightarrow> jstr" where
  "join_with sep [] = []"
| "join_with sep [p] = p"
| "join_with sep (p # q # ps) = p @ sep @ join_with sep (q # ps)"

text \<open>
  \<open>toLowerCase\<close> as far as it can change a comparison with ASCII text: the ASCII capitals and the
  Kelvin sign, the only other code unit whose lower case is one ASCII letter.
\<close>

definition lower_unit :: "nat \<Rightarrow> nat" where
  "lower_unit c = (if 65 \<le> c \<and> c \<le> 90 then c + 32 else if c = 8490 then 107 else c)"

definition to_lower :: "jstr \<Rightarrow> jstr" where
  "to_lower s = map lower_unit s"

definition pad_end :: "nat \<Rightarrow> jstr \<Rightarrow> jstr" where
  "pad_end n s = s @ replicate (n - length s) 32"

definition pad_start :: "nat \<Rightarrow> jstr \<Rightarrow> jstr" where
  "pad_start n s = replicate (n - length s) 32 @ s"

text \<open>Truthiness of an optional string: absent, null and the empty string are falsy.\<close>

definition truthy :: "jstr option \<Rightarrow> bool" where
  "truthy s \<longleftrightarrow> (case s of None \<Rightarrow> False | Some t \<Rightarrow> t \<noteq> [])"

definition or_else :: "jstr option \<Rightarrow> jstr \<Rightarrow> jstr" where
  "or_else s d = (case s of None \<Rightarrow> d | Some t \<Rightarrow> if t = [] then d else t)"

lemma truthy_simps [simp]: "\<not> truthy None" "truthy (Some t) \<longleftrightarrow> t \<noteq> []"
  by (simp_all add: truthy_def)

lemma or_else_simps [simp]: "or_else None d = d" "or_else (Some []) d = d"
  "t \<noteq> [] \<Longrightarrow> or_else (Some t) d = t"
  by (simp_all add: or_else_def)

lemma split_on_nonempty [simp]: "split_on c s \<noteq> []"
  by (induction s) (auto split: list.splits)

lemma join_split [simp]: "join_with [c] (split_on c s) = s"
proof (induction s)
  case (Cons x xs)
  then show ?case
    by (cases "split_on c xs"; cases "tl (split_on c xs)") auto
qed simp

lemma split_on_pieces: "p \<in> set (split_on c s) \<Longrightarrow> c \<notin> set p"
  by (induction s arbitrary: p) (auto split: if_splits list.splits)

lemma split_on_append_sep: "c \<notin> set p \<Longrightarrow> split_on c (p @ c # s) = p # split_on c s"
  by (induction p) auto

lemma split_on_plain: "c \<notin> set p \<Longrightarrow> split_on c p = [p]"
  by (induction p) auto

lemma split_on_join:
  "ps \<noteq> [] \<Longrightarrow> \<forall>p\<in>set ps. c \<notin> set p \<Longrightarrow> split_on c (join_with [c] ps) = ps"
proof (induction ps)
  case (Cons p ps)
  then show ?case
    by (cases ps) (auto simp: split_on_append_sep split_on_plain)
qed simp

lemma starts_with_append [simp]: "starts_with (p @ s) p"
  by (simp add: starts_with_def)

lemma starts_with_prefix: "starts_with s p \<longleftrightarrow> prefix p s"
  by (metis append_take_drop_id append_eq_conv_conj prefix_def starts_with_def)

lemma length_pad_end: "length s \<le> n \<Longrightarrow> length (pad_end n s) = n"
  by (simp add: pad_end_def)

lemma length_pad_start: "length s \<le> n \<Longrightarrow> length (pad_start n s) = n"
  by (simp add: pad_start_def)

lemma contains_Nil: "contains [] p \<longleftrightarrow> p = []"
  by (subst contains.simps) (auto simp: starts_with_def)

lemma contains_Cons: "contains (x # xs) p \<longleftrightarrow> starts_with (x # xs) p \<or> contains xs p"
  by (subst contains.simps) simp

lemma contains_refl: "contains s s"
  by (subst contains.simps) (simp add: starts_with_def)

lemma contains_unit: "contains s [c] \<longleftrightarrow> c \<in> set s"
  by (induction s) (auto simp: contains_Nil contains_Cons starts_with_def)

lemma set_alist_update: "set (AList.update k v m) \<subseteq> insert (k, v) (set m)"
  by (induction m) auto

lemma alist_update_new: "k \<notin> fst ` set m \<Longrightarrow> AList.update k v m = m @ [(k, v)]"
  by (induction m) auto

section \<open>Numbers\<close>

text \<open>
  A JavaScript number: a finite double is the rational it stands for. Integers up to
  \<open>2\<^sup>5\<^sup>3 - 1\<close> are the safe ones.
\<close>

datatype jsnum = Fin rat | PInf | NInf | NaN

definition max_safe :: int where
  "max_safe = 9007199254740991"

fun is_integer :: "jsnum \<Rightarrow> bool" where
  "is_integer (Fin r) = (of_int \<lfloor>r\<rfloor> = r)"
| "is_integer _ = False"

fun int_of_num :: "jsnum \<Rightarrow> int" where
  "int_of_num (Fin r) = \<lfloor>r\<rfloor>"
| "int_of_num _ = 0"

fun is_safe_integer :: "jsnum \<Rightarrow> bool" where
  "is_safe_integer (Fin r) = (of_int \<lfloor>r\<rfloor> = r \<and> \<bar>\<lfloor>r\<rfloor>\<bar> \<le> max_safe)"
| "is_safe_integer _ = False"

fun is_finite :: "jsnum \<Rightarrow> bool" where
  "is_finite (Fin r) = True"
| "is_finite _ = False"

abbreviation num_of_int :: "int \<Rightarrow> jsnum" where
  "num_of_int i \<equiv> Fin (of_int i)"

text \<open>Decimal text of an integer, as \<open>String(n)\<close> prints a safe integer.\<close>

fun nat_digits :: "nat \<Rightarrow> jstr" where
  "nat_digits n = (if n < 10 then [48 + n] else nat_digits (n div 10) @ [48 + n mod 10])"

declare nat_digits.simps [simp del]

definition int_text :: "int \<Rightarrow> jstr" where
  "int_text i = (if i < 0 then 45 # nat_digits (nat (- i)) else nat_digits (nat i))"

definition is_digit :: "nat \<Rightarrow> bool" where
  "is_digit c \<longleftrightarrow> 48 \<le> c \<and> c \<le> 57"

definition digits_value :: "jstr \<Rightarrow> nat" where
  "digits_value ds = foldl (\<lambda>n d. 10 * n + (d - 48)) 0 ds"

text \<open>
  \<open>Number.parseInt(s, 10)\<close>: leading white space, an optional sign and the longest run of digits;
  \<open>None\<close> is NaN.
\<close>

definition parse_int :: "jstr \<Rightarrow> int option" where
  "parse_int s =
     (let t = dropWhile is_space s;
          neg = (case t of c # _ \<Rightarrow> c = 45 | [] \<Rightarrow> False);
          u = (case t of c # r \<Rightarrow> if c = 45 \<or> c = 43 then r else t | [] \<Rightarrow> t);
          ds = takeWhile is_digit u
      in if ds = [] then None
         else Some (if neg then - int (digits_value ds) else int (digits_value ds)))"

lemma nat_digits_are_digits: "\<forall>c\<in>set (nat_digits n). is_digit c"
proof (induction n rule: nat_digits.induct)
  case (1 n)
  show ?case
  proof (cases "n < 10")
    case True
    then show ?thesis by (simp add: nat_digits.simps [of n] is_digit_def)
  next
    case False
    have "n mod 10 < 10" by simp
    then have "is_digit (48 + n mod 10)" by (simp add: is_digit_def)
    with 1 False show ?thesis by (simp add: nat_digits.simps [of n])
  qed
qed

lemma nat_digits_nonempty [simp]: "nat_digits n \<noteq> []"
  by (subst nat_digits.simps) simp

lemma digits_value_nat_digits [simp]: "digits_value (nat_digits n) = n"
proof (induction n rule: nat_digits.induct)
  case (1 n)
  then show ?case
    by (cases "n < 10") (simp_all add: nat_digits.simps [of n] digits_value_def)
qed

lemma nat_digits_inj [simp]: "nat_digits m = nat_digits n \<longleftrightarrow> m = n"
  by (metis digits_value_nat_digits)

lemma parse_int_text_nonneg: "0 \<le> i \<Longrightarrow> parse_int (int_text i) = Some i"
proof -
  assume i: "0 \<le> i"
  obtain c r where cr: "nat_digits (nat i) = c # r"
    by (cases "nat_digits (nat i)") auto
  have d: "\<forall>x\<in>set (c # r). is_digit x"
    using nat_digits_are_digits [of "nat i"] cr by simp
  then have c: "\<not> is_space c" "c \<noteq> 45" "c \<noteq> 43"
    by (auto simp: is_digit_def is_space_def)
  have tw: "is_digit c" "takeWhile is_digit r = r"
    using d by (simp_all add: takeWhile_eq_all_conv)
  have "digits_value (c # takeWhile is_digit r) = nat i"
    unfolding tw(2) using cr digits_value_nat_digits [of "nat i"] by simp
  with i cr c tw(1) show ?thesis
    by (simp add: parse_int_def int_text_def Let_def)
qed

lemma int_text_inj: "0 \<le> i \<Longrightarrow> 0 \<le> j \<Longrightarrow> int_text i = int_text j \<longleftrightarrow> i = j"
  by (auto simp: int_text_def)

section \<open>Numeric text\<close>

text \<open>
  The unsigned decimal literal at the front of a text: digits, a fraction, an exponent; with the
  text behind it. \<open>str_number\<close> is the conversion \<open>Number(s)\<close>, \<open>parse_float\<close> is \<open>parseFloat\<close>. Both
  take the rounding of a rational to the nearest double as an argument.
\<close>

definition exponent_part :: "jstr \<Rightarrow> int \<times> jstr" where
  "exponent_part s =
     (case s of
        e # r \<Rightarrow>
          if e = 101 \<or> e = 69 then
            (let neg = (case r of c # _ \<Rightarrow> c = 45 | [] \<Rightarrow> False);
                 u = (case r of c # t \<Rightarrow> if c = 45 \<or> c = 43 then t else r | [] \<Rightarrow> r);
                 ds = takeWhile is_digit u
             in if ds = [] then (0, s)
                else ((if neg then - int (digits_value ds) else int (digits_value ds)),
                      dropWhile is_digit u))
          else (0, s)
      | [] \<Rightarrow> (0, s))"

definition unsigned_decimal :: "jstr \<Rightarrow> (rat \<times> jstr) option" where
  "unsigned_decimal s =
     (let ds = takeWhile is_digit s; r = dropWhile is_digit s;
          dot = (case r of c # _ \<Rightarrow> c = 46 | [] \<Rightarrow> False);
          fs = (if dot then takeWhile is_digit (tl r) else []);
          r' = (if dot then dropWhile is_digit (tl r) else r);
          (e, rest) = exponent_part r';
          m = of_nat (digits_value (ds @ fs)) / 10 ^ length fs
      in if ds = [] \<and> fs = [] then None
         else Some (if 0 \<le> e then m * 10 ^ nat e else m / 10 ^ nat (- e), rest))"

definition signed_decimal :: "jstr \<Rightarrow> (jsnum \<times> jstr) option" where
  "signed_decimal s =
     (let neg = (case s of c # _ \<Rightarrow> c = 45 | [] \<Rightarrow> False);
          u = (case s of c # t \<Rightarrow> if c = 45 \<or> c = 43 then t else s | [] \<Rightarrow> s)
      in if starts_with u (js ''Infinity'')
         then Some (if neg then NInf else PInf, drop 8 u)
         else map_option (\<lambda>(q, r). (Fin (if neg then - q else q), r)) (unsigned_decimal u))"

fun round_num :: "(rat \<Rightarrow> jsnum) \<Rightarrow> jsnum \<Rightarrow> jsnum" where
  "round_num rnd (Fin q) = rnd q"
| "round_num rnd v = v"

definition parse_float :: "(rat \<Rightarrow> jsnum) \<Rightarrow> jstr \<Rightarrow> jsnum" where
  "parse_float rnd s = (case signed_decimal (dropWhile is_space s) of
       None \<Rightarrow> NaN | Some (v, _) \<Rightarrow> round_num rnd v)"

definition digit_of :: "nat \<Rightarrow> nat" where
  "digit_of c = (if is_digit c then c - 48 else if 97 \<le> c \<and> c \<le> 122 then c - 87
     else if 65 \<le> c \<and> c \<le> 90 then c - 55 else 99)"

definition radix_literal :: "nat \<Rightarrow> jstr \<Rightarrow> jsnum" where
  "radix_literal b ds =
     (if ds = [] \<or> (\<exists>c\<in>set ds. b \<le> digit_of c) then NaN
      else Fin (of_nat (foldl (\<lambda>n c. b * n + digit_of c) 0 ds)))"

definition str_number :: "(rat \<Rightarrow> jsnum) \<Rightarrow> jstr \<Rightarrow> jsnum" where
  "str_number rnd s =
     (let t = js_trim s; p = to_lower (take 2 t) in
      if t = [] then Fin 0
      else if p = js ''0x'' then round_num rnd (radix_literal 16 (drop 2 t))
      else if p = js ''0o'' then round_num rnd (radix_literal 8 (drop 2 t))
      else if p = js ''0b'' then round_num rnd (radix_literal 2 (drop 2 t))
      else (case signed_decimal t of Some (v, []) \<Rightarrow> round_num rnd v | _ \<Rightarrow> NaN))"

fun num_less :: "jsnum \<Rightarrow> jsnum \<Rightarrow> bool" where
  "num_less (Fin a) (Fin b) = (a < b)"
| "num_less (Fin a) PInf = True"
| "num_less NInf (Fin a) = True"
| "num_less NInf PInf = True"
| "num_less _ _ = False"

section \<open>JSON values\<close>

text \<open>
  What \<open>JSON.parse\<close> returns. An object keeps its members in order; a property that is absent
  (\<open>undefined\<close>) is \<open>None\<close> on lookup, while \<open>null\<close> is a value of its own.
\<close>

datatype json =
    JNull
  | JBool bool
  | JNum jsnum
  | JStr jstr
  | JArr "json list"
  | JObj "(jstr \<times> json) list"

type_synonym jobj = "(jstr \<times> json) list"

definition fld :: "jobj \<Rightarrow> string \<Rightarrow> json option" where
  "fld r k = map_of r (js k)"

text \<open>The operator \<open>??\<close>: absent and null fall through to the second operand.\<close>

definition nullish :: "json option \<Rightarrow> json option \<Rightarrow> json option" where
  "nullish a b = (case a of None \<Rightarrow> b | Some JNull \<Rightarrow> b | Some v \<Rightarrow> Some v)"

definition opt_member :: "string \<Rightarrow> json option \<Rightarrow> jobj" where
  "opt_member k v = (case v of None \<Rightarrow> [] | Some x \<Rightarrow> [(js k, x)])"

definition null_or_str :: "jstr option \<Rightarrow> json" where
  "null_or_str s = (case s of None \<Rightarrow> JNull | Some t \<Rightarrow> JStr t)"

lemma fld_Nil [simp]: "fld [] k = None"
  by (simp add: fld_def)

lemma fld_Cons [simp]: "fld ((js a, v) # r) k = (if a = k then Some v else fld r k)"
  by (simp add: fld_def)

definition first_of :: "'a option \<Rightarrow> 'a option \<Rightarrow> 'a option" where
  "first_of a b = (case a of None \<Rightarrow> b | Some v \<Rightarrow> Some v)"

lemma first_of_simps [simp]: "first_of None b = b" "first_of a None = a" "first_of (Some v) b = Some v"
  by (simp_all add: first_of_def split: option.splits)

lemma fld_append: "fld (r @ s) k = first_of (fld r k) (fld s k)"
  by (simp add: fld_def map_add_def first_of_def split: option.splits)

lemma fld_opt_member [simp]: "fld (opt_member a v) k = (if a = k then v else None)"
  by (simp add: opt_member_def split: option.splits)

lemma nullish_simps [simp]: "nullish None b = b" "nullish (Some JNull) b = b"
  "v \<noteq> JNull \<Longrightarrow> nullish (Some v) b = Some v"
  by (auto simp: nullish_def split: json.splits)

section \<open>Pure fallible code\<close>

text \<open>A thrown value: an \<open>Error\<close> with its message, one of a subclass that carries a kind, or something
  that is not an \<open>Error\<close>.\<close>

datatype exn = Err jstr | KindErr string jstr | NonError

text \<open>\<open>Inl\<close> is a thrown error. \<open>try_map\<close> is \<open>Array.prototype.map\<close> with a callback that may throw.\<close>

definition throw :: "jstr \<Rightarrow> exn + 'a" where
  "throw m = Inl (Err m)"

definition sb :: "exn + 'a \<Rightarrow> ('a \<Rightarrow> exn + 'b) \<Rightarrow> exn + 'b" where
  "sb r k = (case r of Inl e \<Rightarrow> Inl e | Inr x \<Rightarrow> k x)"

definition guard :: "bool \<Rightarrow> jstr \<Rightarrow> exn + unit" where
  "guard ok m = (if ok then Inr () else throw m)"

fun try_map_from :: "nat \<Rightarrow> (nat \<Rightarrow> 'a \<Rightarrow> exn + 'b) \<Rightarrow> 'a list \<Rightarrow> exn + 'b list" where
  "try_map_from i f [] = Inr []"
| "try_map_from i f (x # xs) =
     sb (f i x) (\<lambda>y. sb (try_map_from (Suc i) f xs) (\<lambda>ys. Inr (y # ys)))"

abbreviation try_map :: "(nat \<Rightarrow> 'a \<Rightarrow> exn + 'b) \<Rightarrow> 'a list \<Rightarrow> exn + 'b list" where
  "try_map \<equiv> try_map_from 0"

lemma sb_simps [simp]: "sb (Inl e) k = Inl e" "sb (Inr x) k = k x"
  by (simp_all add: sb_def)

lemma sb_Inr_iff: "sb r k = Inr y \<longleftrightarrow> (\<exists>x. r = Inr x \<and> k x = Inr y)"
  by (cases r) auto

lemma guard_simps [simp]: "guard True m = Inr ()" "guard ok m = Inr u \<longleftrightarrow> ok"
  by (simp_all add: guard_def throw_def)

lemma throw_neq [simp]: "throw m \<noteq> Inr x"
  by (simp add: throw_def)

lemma try_map_all:
  "try_map_from i f xs = Inr ys \<Longrightarrow> length ys = length xs \<and> (\<forall>y\<in>set ys. \<exists>j. \<exists>x\<in>set xs. f j x = Inr y)"
  by (induction xs arbitrary: i ys) (fastforce simp: sb_Inr_iff)+

lemma try_map_ok:
  "(\<And>j x. x \<in> set xs \<Longrightarrow> f j (g x) = Inr x) \<Longrightarrow> try_map_from i f (map g xs) = Inr xs"
  by (induction xs arbitrary: i) auto

section \<open>Effects\<close>

text \<open>
  Effectful code is a function on the world. It returns a value, throws, or the process stops in the middle of it: a crash
  or a kill, which no handler sees.
\<close>

datatype 'a res = Ok 'a | Exn exn | Stop

type_synonym ('w, 'a) io = "'w \<Rightarrow> 'a res \<times> 'w"

definition io_ret :: "'a \<Rightarrow> ('w, 'a) io" where
  [io_defs]: "io_ret x = (\<lambda>w. (Ok x, w))"

definition io_raise :: "exn \<Rightarrow> ('w, 'a) io" where
  [io_defs]: "io_raise e = (\<lambda>w. (Exn e, w))"

definition io_upd :: "('w \<Rightarrow> 'w) \<Rightarrow> ('w, unit) io" where
  [io_defs]: "io_upd f = (\<lambda>w. (Ok (), f w))"

definition io_get :: "('w \<Rightarrow> 'a) \<Rightarrow> ('w, 'a) io" where
  [io_defs]: "io_get f = (\<lambda>w. (Ok (f w), w))"

text \<open>\<open>try { x = m } catch (e) { return h(e) }; return k(x)\<close>: only \<open>m\<close> is guarded.\<close>

definition io_try :: "('w, 'a) io \<Rightarrow> ('a \<Rightarrow> ('w, 'b) io) \<Rightarrow> (exn \<Rightarrow> ('w, 'b) io) \<Rightarrow> ('w, 'b) io"
  where [io_defs]: "io_try m k h =
     (\<lambda>w. case m w of (Ok x, w') \<Rightarrow> k x w' | (Exn e, w') \<Rightarrow> h e w' | (Stop, w') \<Rightarrow> (Stop, w'))"

definition io_bind :: "('w, 'a) io \<Rightarrow> ('a \<Rightarrow> ('w, 'b) io) \<Rightarrow> ('w, 'b) io" where
  [io_defs]: "io_bind m k =
     (\<lambda>w. case m w of (Ok x, w') \<Rightarrow> k x w' | (Exn e, w') \<Rightarrow> (Exn e, w') | (Stop, w') \<Rightarrow> (Stop, w'))"

definition io_catch :: "('w, 'a) io \<Rightarrow> (exn \<Rightarrow> ('w, 'a) io) \<Rightarrow> ('w, 'a) io" where
  [io_defs]: "io_catch m h =
     (\<lambda>w. case m w of (Ok x, w') \<Rightarrow> (Ok x, w') | (Exn e, w') \<Rightarrow> h e w' | (Stop, w') \<Rightarrow> (Stop, w'))"

text \<open>\<open>finally\<close>: the cleanup runs after a return and after a throw; if it throws, that wins.\<close>

definition io_finally :: "('w, 'a) io \<Rightarrow> ('w, unit) io \<Rightarrow> ('w, 'a) io" where
  [io_defs]: "io_finally m f =
     (\<lambda>w. case m w of
         (Stop, w') \<Rightarrow> (Stop, w')
       | (r, w') \<Rightarrow> (case f w' of (Ok _, w'') \<Rightarrow> (r, w'') | (Exn e, w'') \<Rightarrow> (Exn e, w'')
                     | (Stop, w'') \<Rightarrow> (Stop, w'')))"

fun io_each :: "('x \<Rightarrow> ('w, unit) io) \<Rightarrow> 'x list \<Rightarrow> ('w, unit) io" where
  "io_each f [] = io_ret ()"
| "io_each f (x # xs) = io_bind (f x) (\<lambda>_. io_each f xs)"

definition io_seq :: "('w, unit) io \<Rightarrow> ('w, 'b) io \<Rightarrow> ('w, 'b) io" where
  [io_defs]: "io_seq m k = io_bind m (\<lambda>_. k)"

lemma io_run_simps [simp]:
  "io_seq (io_upd f) m w = m (f w)"
  "io_bind (io_get g) k w = k (g w) w"
  "io_bind (io_ret x) k w = k x w"
  "io_ret x w = (Ok x, w)" "io_raise e w = (Exn e, w)"
  by (simp_all add: io_defs io_seq_def)

text \<open>Pure fallible code used inside effectful code.\<close>

definition io_lift :: "exn + 'a \<Rightarrow> ('w, 'a) io" where
  [io_defs]: "io_lift r = (\<lambda>w. (case r of Inl e \<Rightarrow> Exn e | Inr x \<Rightarrow> Ok x, w))"

text \<open>
  \<open>spec P m Q\<close>: started in a world with \<open>P\<close>, \<open>m\<close> ends with a result and a world related by
  \<open>Q\<close>, however it ends.
\<close>

definition spec :: "('w \<Rightarrow> bool) \<Rightarrow> ('w, 'a) io \<Rightarrow> ('a res \<Rightarrow> 'w \<Rightarrow> bool) \<Rightarrow> bool" where
  "spec P m Q \<longleftrightarrow> (\<forall>w. P w \<longrightarrow> (case m w of (r, w') \<Rightarrow> Q r w'))"

lemma specI: "(\<And>w r w'. P w \<Longrightarrow> m w = (r, w') \<Longrightarrow> Q r w') \<Longrightarrow> spec P m Q"
  by (auto simp: spec_def split: prod.splits)

lemma specD: "spec P m Q \<Longrightarrow> P w \<Longrightarrow> m w = (r, w') \<Longrightarrow> Q r w'"
  by (auto simp: spec_def)

lemma spec_conseq:
  "spec P' m Q' \<Longrightarrow> (\<And>w. P w \<Longrightarrow> P' w) \<Longrightarrow> (\<And>r w. Q' r w \<Longrightarrow> Q r w) \<Longrightarrow> spec P m Q"
  by (fastforce simp: spec_def)

lemma spec_try:
  assumes "spec P m R"
    and "\<And>x. spec (R (Ok x)) (k x) Q"
    and "\<And>e. spec (R (Exn e)) (h e) Q"
    and "\<And>w. R Stop w \<Longrightarrow> Q Stop w"
  shows "spec P (io_try m k h) Q"
proof (rule specI)
  fix w r w'
  assume P: "P w" and run: "io_try m k h w = (r, w')"
  obtain r1 w1 where m: "m w = (r1, w1)" by fastforce
  with P assms(1) have R: "R r1 w1" by (auto dest: specD)
  show "Q r w'"
  proof (cases r1)
    case (Ok x)
    with m run R assms(2) show ?thesis by (auto simp: io_try_def dest: specD)
  next
    case (Exn e)
    with m run R assms(3) show ?thesis by (auto simp: io_try_def dest: specD)
  next
    case Stop
    with m run R assms(4) show ?thesis by (auto simp: io_try_def)
  qed
qed

lemma io_bind_try: "io_bind m k = io_try m k io_raise"
  by (auto simp: io_defs fun_eq_iff split: res.splits prod.splits)

lemma io_catch_try: "io_catch m h = io_try m io_ret h"
  by (auto simp: io_defs fun_eq_iff split: res.splits prod.splits)

lemma spec_raise: "(\<And>w. P w \<Longrightarrow> Q (Exn e) w) \<Longrightarrow> spec P (io_raise e) Q"
  by (auto simp: spec_def io_raise_def)

lemma spec_ret: "(\<And>w. P w \<Longrightarrow> Q (Ok x) w) \<Longrightarrow> spec P (io_ret x) Q"
  by (auto simp: spec_def io_ret_def)

lemma spec_upd: "(\<And>w. P w \<Longrightarrow> Q (Ok ()) (f w)) \<Longrightarrow> spec P (io_upd f) Q"
  by (auto simp: spec_def io_upd_def)

lemma spec_bind:
  assumes "spec P m R"
    and "\<And>x. spec (R (Ok x)) (k x) Q"
    and "\<And>e w. R (Exn e) w \<Longrightarrow> Q (Exn e) w"
    and "\<And>w. R Stop w \<Longrightarrow> Q Stop w"
  shows "spec P (io_bind m k) Q"
  unfolding io_bind_try by (rule spec_try [OF assms(1,2)]) (auto intro: spec_raise assms(3,4))

lemma spec_catch:
  assumes "spec P m R"
    and "\<And>x w. R (Ok x) w \<Longrightarrow> Q (Ok x) w"
    and "\<And>e. spec (R (Exn e)) (h e) Q"
    and "\<And>w. R Stop w \<Longrightarrow> Q Stop w"
  shows "spec P (io_catch m h) Q"
  unfolding io_catch_try
  by (rule spec_try [OF assms(1) _ assms(3)]) (auto intro: spec_ret assms(2,4))

lemma spec_finally:
  assumes "spec P m R"
    and "\<And>x. spec (R (Ok x)) f
      (\<lambda>s. case s of Ok _ \<Rightarrow> Q (Ok x) | Exn e \<Rightarrow> Q (Exn e) | Stop \<Rightarrow> Q Stop)"
    and "\<And>e0. spec (R (Exn e0)) f
      (\<lambda>s. case s of Ok _ \<Rightarrow> Q (Exn e0) | Exn e \<Rightarrow> Q (Exn e) | Stop \<Rightarrow> Q Stop)"
    and "\<And>w. R Stop w \<Longrightarrow> Q Stop w"
  shows "spec P (io_finally m f) Q"
proof (rule specI)
  fix w r w'
  assume P: "P w" and run: "io_finally m f w = (r, w')"
  obtain r1 w1 where m: "m w = (r1, w1)" by fastforce
  obtain r2 w2 where f: "f w1 = (r2, w2)" by fastforce
  from P m assms(1) have R: "R r1 w1" by (auto dest: specD)
  show "Q r w'"
  proof (cases r1)
    case (Ok x)
    with R f have "case r2 of Ok _ \<Rightarrow> Q (Ok x) w2 | Exn e \<Rightarrow> Q (Exn e) w2 | Stop \<Rightarrow> Q Stop w2"
      using specD [OF assms(2) [of x], of w1 r2 w2] by (cases r2) auto
    with Ok m f run show ?thesis by (auto simp: io_finally_def split: res.splits)
  next
    case (Exn e0)
    with R f have "case r2 of Ok _ \<Rightarrow> Q (Exn e0) w2 | Exn e \<Rightarrow> Q (Exn e) w2 | Stop \<Rightarrow> Q Stop w2"
      using specD [OF assms(3) [of e0], of w1 r2 w2] by (cases r2) auto
    with Exn m f run show ?thesis by (auto simp: io_finally_def split: res.splits)
  next
    case Stop
    with m run R assms(4) show ?thesis by (auto simp: io_finally_def)
  qed
qed

lemma spec_seq:
  assumes "spec P m R"
    and "spec (R (Ok ())) k Q"
    and "\<And>e w. R (Exn e) w \<Longrightarrow> Q (Exn e) w"
    and "\<And>w. R Stop w \<Longrightarrow> Q Stop w"
  shows "spec P (io_seq m k) Q"
  unfolding io_seq_def by (rule spec_bind [OF assms(1) _ assms(3,4)]) (use assms(2) in auto)

text \<open>Invariants of effectful code: kept by every way the code can end.\<close>

definition keeps :: "('w \<Rightarrow> bool) \<Rightarrow> ('w, 'a) io \<Rightarrow> bool" where
  "keeps I m \<longleftrightarrow> (\<forall>w. I w \<longrightarrow> I (snd (m w)))"

lemma keeps_spec: "keeps I m \<longleftrightarrow> spec I m (\<lambda>_. I)"
  by (auto simp: keeps_def spec_def case_prod_unfold)

lemma keepsD: "keeps I m \<Longrightarrow> I w \<Longrightarrow> m w = (r, w') \<Longrightarrow> I w'"
  by (metis keeps_def snd_conv)

lemma keeps_ret [io_rules]: "keeps I (io_ret x)"
  by (simp add: keeps_def io_defs)

lemma keeps_raise [io_rules]: "keeps I (io_raise e)"
  by (simp add: keeps_def io_defs)

lemma keeps_get [io_rules]: "keeps I (io_get f)"
  by (simp add: keeps_def io_defs)

lemma keeps_lift [io_rules]: "keeps I (io_lift r)"
  by (simp add: keeps_def io_defs)

lemma keeps_upd: "(\<And>w. I w \<Longrightarrow> I (f w)) \<Longrightarrow> keeps I (io_upd f)"
  by (simp add: keeps_def io_defs)

lemma keeps_try [io_rules]:
  "keeps I m \<Longrightarrow> (\<And>x. keeps I (k x)) \<Longrightarrow> (\<And>e. keeps I (h e)) \<Longrightarrow> keeps I (io_try m k h)"
  unfolding keeps_spec by (rule spec_try [where R = "\<lambda>_. I"]) auto

lemma keeps_bind [io_rules]: "keeps I m \<Longrightarrow> (\<And>x. keeps I (k x)) \<Longrightarrow> keeps I (io_bind m k)"
  unfolding io_bind_try by (intro keeps_try keeps_raise)

lemma keeps_catch [io_rules]: "keeps I m \<Longrightarrow> (\<And>e. keeps I (h e)) \<Longrightarrow> keeps I (io_catch m h)"
  unfolding io_catch_try by (intro keeps_try keeps_ret)

lemma keeps_seq [io_rules]: "keeps I m \<Longrightarrow> keeps I k \<Longrightarrow> keeps I (io_seq m k)"
  unfolding io_seq_def by (intro keeps_bind)

lemma keeps_finally [io_rules]: "keeps I m \<Longrightarrow> keeps I f \<Longrightarrow> keeps I (io_finally m f)"
  unfolding keeps_def io_finally_def
  by (fastforce split: res.splits prod.splits dest: spec [where x = "snd (m _)"])

lemma keeps_each [io_rules]: "(\<And>x. x \<in> set xs \<Longrightarrow> keeps I (f x)) \<Longrightarrow> keeps I (io_each f xs)"
  by (induction xs) (auto intro!: keeps_ret keeps_bind)

lemma keeps_if [io_rules]: "keeps I m \<Longrightarrow> keeps I k \<Longrightarrow> keeps I (if b then m else k)"
  by simp

lemma keeps_option [io_rules]:
  "keeps I m \<Longrightarrow> (\<And>x. keeps I (k x)) \<Longrightarrow> keeps I (case o' of None \<Rightarrow> m | Some x \<Rightarrow> k x)"
  by (cases o') auto

section \<open>Sorting\<close>

text \<open>\<open>Array.prototype.sort\<close> with a comparator is a stable sort.\<close>

fun insert_cmp :: "('a \<Rightarrow> 'a \<Rightarrow> int) \<Rightarrow> 'a \<Rightarrow> 'a list \<Rightarrow> 'a list" where
  "insert_cmp cmp x [] = [x]"
| "insert_cmp cmp x (y # ys) = (if 0 < cmp x y then y # insert_cmp cmp x ys else x # y # ys)"

definition sort_cmp :: "('a \<Rightarrow> 'a \<Rightarrow> int) \<Rightarrow> 'a list \<Rightarrow> 'a list" where
  "sort_cmp cmp xs = foldr (insert_cmp cmp) xs []"

lemma mset_insert_cmp: "mset (insert_cmp cmp x ys) = add_mset x (mset ys)"
  by (induction ys) auto

lemma mset_sort_cmp [simp]: "mset (sort_cmp cmp xs) = mset xs"
  by (induction xs) (auto simp: sort_cmp_def mset_insert_cmp)

lemma set_sort_cmp [simp]: "set (sort_cmp cmp xs) = set xs"
  by (metis mset_sort_cmp set_mset_mset)

lemma distinct_sort_cmp [simp]: "distinct (map f (sort_cmp cmp xs)) \<longleftrightarrow> distinct (map f xs)"
  by (rule mset_eq_imp_distinct_iff) simp

lemma length_sort_cmp [simp]: "length (sort_cmp cmp xs) = length xs"
  by (metis mset_sort_cmp size_mset)

lemma insert_cmp_sorted:
  assumes "\<And>a b. cmp a b \<le> 0 \<or> cmp b a \<le> (0 :: int)" and "\<And>a b c. cmp a b \<le> 0 \<Longrightarrow> cmp b c \<le> 0 \<Longrightarrow> cmp a c \<le> 0"
  shows "sorted_wrt (\<lambda>a b. cmp a b \<le> 0) ys \<Longrightarrow> sorted_wrt (\<lambda>a b. cmp a b \<le> 0) (insert_cmp cmp x ys)"
proof (induction ys)
  case (Cons y ys)
  have set: "set (insert_cmp cmp x ys) = insert x (set ys)"
    using arg_cong [OF mset_insert_cmp, of set_mset cmp x ys] by simp
  show ?case
  proof (cases "0 < cmp x y")
    case True
    then have "cmp y x \<le> 0" using assms(1) [of y x] by auto
    with True Cons show ?thesis by (auto simp: set)
  next
    case False
    with Cons.prems show ?thesis by (auto intro: assms(2) [of x y])
  qed
qed simp

lemma sort_cmp_sorted:
  assumes "\<And>a b. cmp a b \<le> 0 \<or> cmp b a \<le> (0 :: int)" and "\<And>a b c. cmp a b \<le> 0 \<Longrightarrow> cmp b c \<le> 0 \<Longrightarrow> cmp a c \<le> 0"
  shows "sorted_wrt (\<lambda>a b. cmp a b \<le> 0) (sort_cmp cmp xs)"
  unfolding sort_cmp_def
proof (induction xs)
  case (Cons x xs)
  then show ?case by (simp add: insert_cmp_sorted [of cmp, OF assms])
qed simp

lemma sorted_unique:
  "sorted_wrt R xs \<Longrightarrow> sorted_wrt R ys \<Longrightarrow> mset xs = mset ys
    \<Longrightarrow> (\<And>a b. a \<in> set xs \<Longrightarrow> b \<in> set xs \<Longrightarrow> R a b \<Longrightarrow> R b a \<Longrightarrow> a = b) \<Longrightarrow> xs = ys"
proof (induction xs arbitrary: ys)
  case (Cons x xs)
  then obtain y ys' where ys: "ys = y # ys'" by (cases ys) auto
  have sets: "set (x # xs) = set ys" using Cons.prems(3) by (metis set_mset_mset)
  have "x = y"
  proof (rule ccontr)
    assume ne: "x \<noteq> y"
    then have "y \<in> set xs" "x \<in> set ys'" using sets ys by auto
    then have "R x y" "R y x" using Cons.prems(1,2) ys by auto
    with ne Cons.prems(4) [of x y] \<open>y \<in> set xs\<close> show False by simp
  qed
  with Cons ys show ?case by auto
qed simp

end
