(* ===== verification/Host.thy ===== *)
theory Host
  imports Js_Prelude "HOL-Library.Word"
begin

text \<open>
  The machine the print bridge runs on, as far as the sources can see it: the file system, the
  network, subprocesses and the clock. None of it is code under \<open>src/\<close>. Every call consumes the
  next reply of a plan that is part of the world, so a theorem that holds for every world holds for
  every behaviour of the machine; an exhausted plan means that the process stops there.
  \<open>hist\<close> is a ghost history of what crossed the process boundary.
\<close>

section \<open>Fixed functions of the runtime\<close>

text \<open>
  \<open>hash_json v\<close> is the hexadecimal SHA-256 of \<open>JSON.stringify(v)\<close>, \<open>date_ok s\<close> says that
  \<open>Date.parse(s)\<close> is finite, \<open>locale_cmp\<close> is \<open>localeCompare\<close>, \<open>upper\<close> is \<open>toUpperCase\<close>,
  \<open>form_enc\<close> the percent-encoding of \<open>URLSearchParams\<close>, \<open>iso_time\<close> the ISO text of a clock tick,
  \<open>millis\<close> its milliseconds. \<open>to_double\<close> rounds to the nearest double, \<open>num_text\<close> is \<open>String(n)\<close>,
  \<open>upper_tr\<close> is \<open>toLocaleUpperCase("tr")\<close>, \<open>intl_plain\<close> the Turkish \<open>Intl.NumberFormat\<close> with two
  fraction digits, \<open>intl_currency\<close> the one for a currency code (\<open>None\<close>: it throws), \<open>tr_time\<close> and \<open>tr_date\<close> the local
  time and date of a valid date text, \<open>temp_dir\<close> the directory \<open>mkdtemp\<close> makes at a tick,
  \<open>uuid\<close> a random UUID, \<open>windows_script\<close> the text of the PowerShell script.
\<close>

datatype os = Win32 | Darwin | OtherOs

record env =
  hash_json :: "json \<Rightarrow> jstr"
  date_ok :: "jstr \<Rightarrow> bool"
  locale_cmp :: "jstr \<Rightarrow> jstr \<Rightarrow> int"
  upper :: "jstr \<Rightarrow> jstr"
  form_enc :: "jstr \<Rightarrow> jstr"
  iso_time :: "nat \<Rightarrow> jstr"
  millis :: "nat \<Rightarrow> int"
  os_platform :: os
  process_id :: int
  to_double :: "rat \<Rightarrow> jsnum"
  num_text :: "jsnum \<Rightarrow> jstr"
  upper_tr :: "jstr \<Rightarrow> jstr"
  intl_plain :: "rat \<Rightarrow> jstr"
  intl_currency :: "jstr \<Rightarrow> rat \<Rightarrow> jstr option"
  tr_time :: "jstr \<Rightarrow> jstr"
  tr_date :: "jstr \<Rightarrow> jstr"
  temp_dir :: "nat \<Rightarrow> jstr"
  uuid :: "nat \<Rightarrow> jstr"
  windows_script :: jstr

section \<open>The world\<close>

text \<open>
  A file holds one JSON document, plain text the bridge wrote, or something else. Node's \<open>fetch\<close> either resolves
  to a response or rejects. \<open>execFile\<close> calls back with the output or with an error.
\<close>

datatype fdata = Garbage | Text jstr | Doc json

datatype fs_reply = FsOk | FsErr jstr | FsStop

record http_response =
  http_status :: int
  http_type :: "jstr option"
  http_text :: jstr
  http_json :: "json option"

datatype net_reply = NetResponse http_response | NetErr jstr | NetStop

record exec_error =
  ex_stderr :: jstr
  ex_killed :: bool
  ex_code :: "int option"
  ex_message :: jstr

datatype exec_reply = ExecOk jstr | ExecFail exec_error | ExecStop

datatype cups_reply = CupsAnswer bool "8 word list" | CupsErr jstr | CupsStop

record http_request =
  rq_method :: string
  rq_url :: jstr
  rq_headers :: "(string \<times> jstr) list"
  rq_body :: "json option"

datatype event =
    EvFetch http_request bool
  | EvExec jstr "jstr list"
  | EvPrint jstr int "fdata option"

record host =
  files :: "jstr \<Rightarrow> fdata option"
  fs_plan :: "fs_reply list"
  net_plan :: "net_reply list"
  exec_plan :: "exec_reply list"
  cups_plan :: "cups_reply list"
  random_plan :: "rat list"
  ticks :: nat
  hist :: "event list"

definition http_ok :: "http_response \<Rightarrow> bool" where
  "http_ok r \<longleftrightarrow> 200 \<le> http_status r \<and> http_status r \<le> 299"

section \<open>File system calls\<close>

text \<open>\<open>fs_effect ok bad\<close>: the effect of success, and what a failure or a crash may leave behind.\<close>

definition fs_effect ::
  "('z host_scheme \<Rightarrow> 'z host_scheme) \<Rightarrow> ('z host_scheme \<Rightarrow> 'z host_scheme) \<Rightarrow>
   ('z host_scheme, unit) io" where
  "fs_effect ok bad = (\<lambda>w. case fs_plan w of
       [] \<Rightarrow> (Stop, bad w)
     | FsOk # p \<Rightarrow> (Ok (), ok (w\<lparr>fs_plan := p\<rparr>))
     | FsErr m # p \<Rightarrow> (Exn (Err m), bad (w\<lparr>fs_plan := p\<rparr>))
     | FsStop # p \<Rightarrow> (Stop, bad (w\<lparr>fs_plan := p\<rparr>)))"

definition put_file :: "jstr \<Rightarrow> fdata option \<Rightarrow> 'z host_scheme \<Rightarrow> 'z host_scheme" where
  "put_file p d = (\<lambda>w. w\<lparr>files := (files w)(p := d)\<rparr>)"

text \<open>\<open>mkdir\<close>, \<open>sync\<close>, \<open>close\<close>, \<open>chmod\<close>, opening a directory: no content changes.\<close>

definition fs_plain :: "('z host_scheme, unit) io" where
  "fs_plain = fs_effect id id"

definition fs_open_trunc :: "jstr \<Rightarrow> ('z host_scheme, unit) io" where
  "fs_open_trunc p = fs_effect (put_file p (Some Garbage)) id"

definition fs_write :: "jstr \<Rightarrow> fdata \<Rightarrow> ('z host_scheme, unit) io" where
  "fs_write p d = fs_effect (put_file p (Some d)) (put_file p (Some Garbage))"

definition fs_rename :: "jstr \<Rightarrow> jstr \<Rightarrow> ('z host_scheme, unit) io" where
  "fs_rename a b = fs_effect (\<lambda>w. w\<lparr>files := (files w)(a := None, b := files w a)\<rparr>) id"

definition fs_unlink :: "jstr \<Rightarrow> ('z host_scheme, unit) io" where
  "fs_unlink p = fs_effect (put_file p None) id"

text \<open>\<open>readFile\<close>: \<open>None\<close> stands for the error ENOENT, other failures throw.\<close>

definition fs_read :: "jstr \<Rightarrow> ('z host_scheme, fdata option) io" where
  "fs_read p = io_bind (fs_effect id id) (\<lambda>_ w. (Ok (files w p), w))"

text \<open>\<open>open(p, "wx")\<close>: fails when the file exists.\<close>

definition fs_open_excl :: "jstr \<Rightarrow> ('z host_scheme, unit) io" where
  "fs_open_excl p = (\<lambda>w. if files w p \<noteq> None then (Exn (Err (js ''EEXIST'')), w)
                         else fs_effect (put_file p (Some Garbage)) id w)"

section \<open>Network, subprocesses, clock\<close>

definition log_event :: "event \<Rightarrow> 'z host_scheme \<Rightarrow> 'z host_scheme" where
  "log_event e = (\<lambda>w. w\<lparr>hist := hist w @ [e]\<rparr>)"

definition fetch :: "http_request \<Rightarrow> ('z host_scheme, http_response) io" where
  "fetch rq = (\<lambda>w. case net_plan w of
       [] \<Rightarrow> (Stop, log_event (EvFetch rq False) w)
     | NetResponse r # p \<Rightarrow> (Ok r, log_event (EvFetch rq (http_ok r)) (w\<lparr>net_plan := p\<rparr>))
     | NetErr m # p \<Rightarrow> (Exn (Err m), log_event (EvFetch rq False) (w\<lparr>net_plan := p\<rparr>))
     | NetStop # p \<Rightarrow> (Stop, log_event (EvFetch rq False) (w\<lparr>net_plan := p\<rparr>)))"

definition exec_file :: "jstr \<Rightarrow> jstr list \<Rightarrow> ('z host_scheme, exec_error + jstr) io" where
  "exec_file cmd args = (\<lambda>w. case exec_plan w of
       [] \<Rightarrow> (Stop, log_event (EvExec cmd args) w)
     | ExecOk out # p \<Rightarrow> (Ok (Inr out), log_event (EvExec cmd args) (w\<lparr>exec_plan := p\<rparr>))
     | ExecFail e # p \<Rightarrow> (Ok (Inl e), log_event (EvExec cmd args) (w\<lparr>exec_plan := p\<rparr>))
     | ExecStop # p \<Rightarrow> (Stop, log_event (EvExec cmd args) (w\<lparr>exec_plan := p\<rparr>)))"

text \<open>\<open>mkdtemp\<close> and \<open>randomUUID\<close>, chosen by the machine.\<close>

definition mkdtemp :: "env \<Rightarrow> ('z host_scheme, jstr) io" where
  "mkdtemp E = io_bind fs_plain (\<lambda>_ w. (Ok (temp_dir E (ticks w)), w\<lparr>ticks := Suc (ticks w)\<rparr>))"

definition random_uuid :: "env \<Rightarrow> ('z host_scheme, jstr) io" where
  "random_uuid E = (\<lambda>w. (Ok (uuid E (ticks w)), w\<lparr>ticks := Suc (ticks w)\<rparr>))"

definition next_random :: "('z host_scheme, rat) io" where
  "next_random = (\<lambda>w. case random_plan w of
       [] \<Rightarrow> (Stop, w) | r # p \<Rightarrow> (Ok r, w\<lparr>random_plan := p\<rparr>))"

definition new_date_iso :: "env \<Rightarrow> ('z host_scheme, jstr) io" where
  "new_date_iso E = (\<lambda>w. (Ok (iso_time E (ticks w)), w\<lparr>ticks := Suc (ticks w)\<rparr>))"

definition date_now :: "env \<Rightarrow> ('z host_scheme, int) io" where
  "date_now E = (\<lambda>w. (Ok (millis E (ticks w)), w\<lparr>ticks := Suc (ticks w)\<rparr>))"

lemmas host_defs = fs_plain_def fs_open_trunc_def fs_write_def fs_rename_def fs_unlink_def
  fs_effect_def put_file_def log_event_def

text \<open>A file call changes nothing but the files it names and the plan.\<close>

lemma put_file_simps [simp]:
  "files (put_file p d w) = (files w)(p := d)" "hist (put_file p d w) = hist w"
  "net_plan (put_file p d w) = net_plan w" "ticks (put_file p d w) = ticks w"
  "fs_plan (put_file p d w) = fs_plan w" "exec_plan (put_file p d w) = exec_plan w"
  "cups_plan (put_file p d w) = cups_plan w" "random_plan (put_file p d w) = random_plan w"
  by (simp_all add: put_file_def)

lemma log_event_simps [simp]:
  "files (log_event e w) = files w" "hist (log_event e w) = hist w @ [e]"
  "net_plan (log_event e w) = net_plan w" "ticks (log_event e w) = ticks w"
  "fs_plan (log_event e w) = fs_plan w" "exec_plan (log_event e w) = exec_plan w"
  by (simp_all add: log_event_def)

lemma clock_run_simps [simp]:
  "io_bind (new_date_iso E) k w = k (iso_time E (ticks w)) (w\<lparr>ticks := Suc (ticks w)\<rparr>)"
  "io_bind (date_now E) l w = l (millis E (ticks w)) (w\<lparr>ticks := Suc (ticks w)\<rparr>)"
  by (simp_all add: new_date_iso_def date_now_def io_bind_def)

lemma spec_fs_effect:
  assumes "\<And>w p. P w \<Longrightarrow> Q (Ok ()) (ok (w\<lparr>fs_plan := p\<rparr>))"
    and "\<And>w p m. P w \<Longrightarrow> Q (Exn (Err m)) (bad (w\<lparr>fs_plan := p\<rparr>))"
    and "\<And>w p. P w \<Longrightarrow> Q Stop (bad (w\<lparr>fs_plan := p\<rparr>))"
    and "\<And>w. P w \<Longrightarrow> Q Stop (bad w)"
  shows "spec P (fs_effect ok bad) Q"
  using assms by (auto simp: spec_def fs_effect_def split: list.splits fs_reply.splits)

lemma keeps_fs_effect:
  assumes "\<And>w p. I w \<Longrightarrow> I (ok (w\<lparr>fs_plan := p\<rparr>))"
    and "\<And>w p. I w \<Longrightarrow> I (bad (w\<lparr>fs_plan := p\<rparr>))"
    and "\<And>w. I w \<Longrightarrow> I (bad w)"
  shows "keeps I (fs_effect ok bad)"
  unfolding keeps_spec using assms by (intro spec_fs_effect) auto

lemma keeps_fetch:
  assumes "\<And>w b p. I w \<Longrightarrow> I (log_event (EvFetch rq b) (w\<lparr>net_plan := p\<rparr>))"
    and "\<And>w. I w \<Longrightarrow> I (log_event (EvFetch rq False) w)"
  shows "keeps I (fetch rq)"
  using assms by (auto simp: keeps_def fetch_def split: list.splits net_reply.splits)

lemma keeps_exec_file:
  assumes "\<And>w p. I w \<Longrightarrow> I (log_event (EvExec cmd args) (w\<lparr>exec_plan := p\<rparr>))"
    and "\<And>w. I w \<Longrightarrow> I (log_event (EvExec cmd args) w)"
  shows "keeps I (exec_file cmd args)"
  using assms by (auto simp: keeps_def exec_file_def split: list.splits exec_reply.splits)

lemma keeps_new_date_iso:
  "(\<And>w t. I w \<Longrightarrow> I (w\<lparr>ticks := t\<rparr>)) \<Longrightarrow> keeps I (new_date_iso E)"
  by (simp add: keeps_def new_date_iso_def)

lemma keeps_date_now:
  "(\<And>w t. I w \<Longrightarrow> I (w\<lparr>ticks := t\<rparr>)) \<Longrightarrow> keeps I (date_now E)"
  by (simp add: keeps_def date_now_def)

lemma keeps_mkdtemp:
  "(\<And>w p. I w \<Longrightarrow> I (w\<lparr>fs_plan := p\<rparr>)) \<Longrightarrow> (\<And>w t. I w \<Longrightarrow> I (w\<lparr>ticks := t\<rparr>)) \<Longrightarrow> keeps I (mkdtemp E)"
  unfolding mkdtemp_def fs_plain_def by (intro keeps_bind keeps_fs_effect) (auto simp: keeps_def)

lemma keeps_random_uuid:
  "(\<And>w t. I w \<Longrightarrow> I (w\<lparr>ticks := t\<rparr>)) \<Longrightarrow> keeps I (random_uuid E)"
  by (simp add: keeps_def random_uuid_def)

lemma keeps_next_random:
  "(\<And>w p. I w \<Longrightarrow> I (w\<lparr>random_plan := p\<rparr>)) \<Longrightarrow> keeps I next_random"
  by (auto simp: keeps_def next_random_def split: list.splits)

section \<open>A concrete machine\<close>

text \<open>A machine for the examples: every date is valid, hashes are constant, the clock counts ticks.\<close>

definition demo_env :: env where
  "demo_env = \<lparr>hash_json = (\<lambda>_. replicate 64 48), date_ok = (\<lambda>_. True), locale_cmp = (\<lambda>_ _. 0),
     upper = id, form_enc = id, iso_time = nat_digits, millis = int, os_platform = Darwin,
     process_id = 7, to_double = Fin, num_text = (\<lambda>n. int_text (int_of_num n)), upper_tr = id,
     intl_plain = (\<lambda>q. int_text \<lfloor>q\<rfloor>),
     intl_currency = (\<lambda>_ q. Some (int_text \<lfloor>q\<rfloor>)), tr_time = id, tr_date = id,
     temp_dir = (\<lambda>t. js ''/tmp/p'' @ nat_digits t),
     uuid = nat_digits, windows_script = js ''script''\<rparr>"

definition demo_host :: "fs_reply list \<Rightarrow> net_reply list \<Rightarrow> host" where
  "demo_host fs net = \<lparr>files = (\<lambda>_. None), fs_plan = fs, net_plan = net, exec_plan = [],
     cups_plan = [], random_plan = [], ticks = 0, hist = []\<rparr>"

lemma demo_env_simps [simp]:
  "date_ok demo_env s" "hash_json demo_env v = replicate 64 48" "iso_time demo_env t = nat_digits t"
  "millis demo_env t = int t" "os_platform demo_env = Darwin" "form_enc demo_env s = s"
  by (simp_all add: demo_env_def)

end
