(* ===== verification/Bridge_State.thy ===== *)
theory Bridge_State
  imports Host
begin

text \<open>
  The health state of the bridge, \<open>apps/print-bridge/src/state.ts\<close>, and the answers of the loopback
  diagnostics server, \<open>health-server.ts\<close>.
\<close>

datatype bridge_status = Starting | Ok_Status | Degraded | Stopping

record bridge_state =
  bs_bridgeId :: jstr
  bs_failedJobs :: int
  bs_lastError :: "jstr option"
  bs_lastPrintedAt :: "jstr option"
  bs_lastSuccessfulPollAt :: "jstr option"
  bs_processedJobs :: int
  bs_startedAt :: jstr
  bs_status :: bridge_status

definition new_bridge_state :: "jstr \<Rightarrow> jstr \<Rightarrow> bridge_state" where
  "new_bridge_state bridgeId now = \<lparr>bs_bridgeId = bridgeId, bs_failedJobs = 0, bs_lastError = None,
     bs_lastPrintedAt = None, bs_lastSuccessfulPollAt = None, bs_processedJobs = 0,
     bs_startedAt = now, bs_status = Starting\<rparr>"

definition recordPollSuccess :: "jstr \<Rightarrow> bridge_state \<Rightarrow> bridge_state" where
  "recordPollSuccess now s = s\<lparr>bs_status := Ok_Status, bs_lastSuccessfulPollAt := Some now\<rparr>"

definition recordJobStarted :: "bridge_state \<Rightarrow> bridge_state" where
  "recordJobStarted s = s\<lparr>bs_status := Ok_Status\<rparr>"

definition recordPollFailure :: "jstr \<Rightarrow> bridge_state \<Rightarrow> bridge_state" where
  "recordPollFailure message s = s\<lparr>bs_status := Degraded, bs_lastError := Some message\<rparr>"

definition state_recordPrinted :: "bridge_state \<Rightarrow> bridge_state" where
  "state_recordPrinted s = s\<lparr>bs_processedJobs := bs_processedJobs s + 1, bs_lastError := None\<rparr>"

definition recordLastPrintedAt :: "jstr \<Rightarrow> bridge_state \<Rightarrow> bridge_state" where
  "recordLastPrintedAt now s = s\<lparr>bs_lastPrintedAt := Some now\<rparr>"

definition recordFailedJob :: "jstr \<Rightarrow> bridge_state \<Rightarrow> bridge_state" where
  "recordFailedJob message s = s\<lparr>bs_failedJobs := bs_failedJobs s + 1, bs_lastError := Some message\<rparr>"

definition recordStopping :: "bridge_state \<Rightarrow> bridge_state" where
  "recordStopping s = s\<lparr>bs_status := Stopping\<rparr>"

fun status_name :: "bridge_status \<Rightarrow> string" where
  "status_name Starting = ''starting''"
| "status_name Ok_Status = ''ok''"
| "status_name Degraded = ''degraded''"
| "status_name Stopping = ''stopping''"

definition snapshot_json :: "bridge_state \<Rightarrow> json" where
  "snapshot_json s = JObj
     [(js ''bridgeId'', JStr (bs_bridgeId s)),
      (js ''failedJobs'', JNum (num_of_int (bs_failedJobs s))),
      (js ''lastError'', null_or_str (bs_lastError s)),
      (js ''lastPrintedAt'', null_or_str (bs_lastPrintedAt s)),
      (js ''lastSuccessfulPollAt'', null_or_str (bs_lastSuccessfulPollAt s)),
      (js ''processedJobs'', JNum (num_of_int (bs_processedJobs s))),
      (js ''startedAt'', JStr (bs_startedAt s)),
      (js ''status'', JStr (js (status_name (bs_status s))))]"

text \<open>The status code and the body of an answer.\<close>

definition health_answer :: "bridge_state \<Rightarrow> jstr option \<Rightarrow> int \<times> json" where
  "health_answer s url =
     (if url = Some (js ''/healthz'') then (200, snapshot_json s)
      else if url = Some (js ''/readyz'')
      then (if bs_status s = Ok_Status then 200 else 503, snapshot_json s)
      else (404, JObj [(js ''error'', JStr (js ''not_found''))]))"

text \<open>The counters and the status after the events of a cycle.\<close>

datatype state_event = PollOk jstr | JobStarted | PollFailed jstr | Printed | PrintedAt jstr
  | JobFailed jstr | StopRequested

fun state_step :: "state_event \<Rightarrow> bridge_state \<Rightarrow> bridge_state" where
  "state_step (PollOk now) s = recordPollSuccess now s"
| "state_step JobStarted s = recordJobStarted s"
| "state_step (PollFailed m) s = recordPollFailure m s"
| "state_step Printed s = state_recordPrinted s"
| "state_step (PrintedAt now) s = recordLastPrintedAt now s"
| "state_step (JobFailed m) s = recordFailedJob m s"
| "state_step StopRequested s = recordStopping s"

lemmas state_ops = recordPollSuccess_def recordJobStarted_def recordPollFailure_def
  state_recordPrinted_def recordLastPrintedAt_def recordFailedJob_def recordStopping_def

fun status_of_event :: "state_event \<Rightarrow> bridge_status option" where
  "status_of_event (PollOk _) = Some Ok_Status"
| "status_of_event JobStarted = Some Ok_Status"
| "status_of_event (PollFailed _) = Some Degraded"
| "status_of_event StopRequested = Some Stopping"
| "status_of_event _ = None"

definition last_status :: "state_event list \<Rightarrow> bridge_status" where
  "last_status es = (case List.map_filter status_of_event (rev es) of [] \<Rightarrow> Starting | s # _ \<Rightarrow> s)"

lemma fold_state_counts:
  "bs_processedJobs (fold state_step es s) = bs_processedJobs s + int (length (filter (\<lambda>e. e = Printed) es))
   \<and> bs_failedJobs (fold state_step es s)
     = bs_failedJobs s + int (length (filter (\<lambda>e. \<exists>m. e = JobFailed m) es))"
proof (induction es arbitrary: s)
  case (Cons e es)
  show ?case using Cons.IH [of "state_step e s"] by (cases e) (auto simp: state_ops)
qed simp

lemma fold_state_status:
  "bs_status (fold state_step es (new_bridge_state b now)) = last_status es"
proof (induction es rule: rev_induct)
  case (snoc e es)
  then show ?case
    by (cases e) (auto simp: last_status_def map_filter_def state_ops)
qed (simp add: last_status_def map_filter_def new_bridge_state_def)

section \<open>Properties\<close>

text \<open>Readiness tells the truth about the history of the bridge. After any sequence of its events
  \<open>/readyz\<close> answers 200 exactly when the last event that bears on the status was a successful poll or
  a started job, so not before the first poll, not after a failed one and not while stopping; the
  counters count the printed and the failed jobs.\<close>

theorem readiness_reflects_events:
  "fst (health_answer (fold state_step es (new_bridge_state b now)) (Some (js ''/readyz'')))
      = (if last_status es = Ok_Status then 200 else 503)
    \<and> bs_processedJobs (fold state_step es (new_bridge_state b now))
      = int (length (filter (\<lambda>e. e = Printed) es))
    \<and> bs_failedJobs (fold state_step es (new_bridge_state b now))
      = int (length (filter (\<lambda>e. \<exists>m. e = JobFailed m) es))"
  using fold_state_counts [of es "new_bridge_state b now"] fold_state_status [of es b now]
  by (simp add: health_answer_def) (simp add: new_bridge_state_def)

end
