(* ===== verification/Bridge_Config.thy ===== *)
theory Bridge_Config
  imports Host
begin

text \<open>
  Configuration: the environment readers of \<open>packages/config/src/index.ts\<close>, and the bridge's
  \<open>apps/print-bridge/src/config.ts\<close> built from them. An environment is a function from names to
  optional texts.
\<close>

type_synonym environment = "string \<Rightarrow> jstr option"

section \<open>Environment readers\<close>

definition trimmed_value :: "environment \<Rightarrow> string \<Rightarrow> jstr option" where
  "trimmed_value environment key = map_option js_trim (environment key)"

definition requireEnvironmentValue :: "environment \<Rightarrow> string \<Rightarrow> exn + jstr" where
  "requireEnvironmentValue environment key =
     (let v = trimmed_value environment key in
      if truthy v then Inr (the v)
      else throw (js (''Missing required environment variable: '' @ key)))"

definition readEnvironmentValue :: "environment \<Rightarrow> string \<Rightarrow> jstr \<Rightarrow> jstr" where
  "readEnvironmentValue environment key fallback = or_else (trimmed_value environment key) fallback"

text \<open>\<open>None\<close> for \<open>Number.parseInt\<close> stands for NaN, which is no safe integer.\<close>

definition readInteger ::
  "environment \<Rightarrow> string \<Rightarrow> int \<Rightarrow> int option \<Rightarrow> int option \<Rightarrow> exn + int" where
  "readInteger environment key fallback mn mx =
     (let raw = trimmed_value environment key;
          v = (if truthy raw then parse_int (the raw) else Some fallback)
      in case v of
           None \<Rightarrow> throw (js (key @ '' must be an integer''))
         | Some n \<Rightarrow>
             if max_safe < \<bar>n\<bar> then throw (js (key @ '' must be an integer''))
             else if mn \<noteq> None \<and> n < the mn
             then throw (js (key @ '' must be at least '') @ int_text (the mn))
             else if mx \<noteq> None \<and> the mx < n
             then throw (js (key @ '' must be at most '') @ int_text (the mx))
             else Inr n)"

definition readFloat ::
  "env \<Rightarrow> environment \<Rightarrow> string \<Rightarrow> rat \<Rightarrow> rat option \<Rightarrow> rat option \<Rightarrow> exn + rat" where
  "readFloat E environment key fallback mn mx =
     (let raw = trimmed_value environment key;
          v = (if truthy raw then parse_float (to_double E) (the raw) else Fin fallback)
      in case v of
           Fin q \<Rightarrow>
             if mn \<noteq> None \<and> q < the mn
             then throw (js (key @ '' must be at least '') @ num_text E (Fin (the mn)))
             else if mx \<noteq> None \<and> the mx < q
             then throw (js (key @ '' must be at most '') @ num_text E (Fin (the mx)))
             else Inr q
         | _ \<Rightarrow> throw (js (key @ '' must be a finite number'')))"

definition readBoolean :: "environment \<Rightarrow> string \<Rightarrow> bool \<Rightarrow> exn + bool" where
  "readBoolean environment key fallback =
     (let raw = map_option to_lower (trimmed_value environment key) in
      if \<not> truthy raw then Inr fallback
      else if the raw \<in> set (map js [''1'', ''true'', ''yes'', ''on'']) then Inr True
      else if the raw \<in> set (map js [''0'', ''false'', ''no'', ''off'']) then Inr False
      else throw (js (key @ '' must be a boolean'')))"

text \<open>A \<open>Set\<close> keeps the first occurrence of each item.\<close>

fun unique_first :: "'a list \<Rightarrow> 'a list" where
  "unique_first [] = []"
| "unique_first (x # xs) = x # filter (\<lambda>y. y \<noteq> x) (unique_first xs)"

definition readCsv :: "environment \<Rightarrow> string \<Rightarrow> jstr list \<Rightarrow> jstr list" where
  "readCsv environment key fallback =
     (let raw = trimmed_value environment key in
      if \<not> truthy raw then fallback
      else unique_first (filter (\<lambda>i. i \<noteq> []) (map js_trim (split_on 44 (the raw)))))"

section \<open>The bridge configuration\<close>

datatype transport_setting = Auto | Only_Mock | Only_Windows | Only_Macos

record bridge_config =
  cf_apiKey :: jstr
  cf_apiToken :: "jstr option"
  cf_apiUrl :: jstr
  cf_allowInsecureMock :: bool
  cf_branchId :: "jstr option"
  cf_bridgeId :: jstr
  cf_healthPort :: int
  cf_maxClaim :: int
  cf_mockDelayMs :: int
  cf_mockFailureRate :: rat
  cf_pollIntervalMs :: int
  cf_printerIds :: "jstr list"
  cf_requestTimeoutMs :: int
  cf_receiptColumns :: int
  cf_version :: jstr
  cf_transport :: transport_setting
  cf_printerNameMap :: "(jstr \<times> jstr) list"
  cf_heartbeatIntervalMs :: int
  cf_credentialsPath :: jstr
  cf_journalPath :: jstr

record bridge_credential =
  cr_bridgeId :: jstr
  cr_tenantId :: jstr
  cr_branchId :: jstr
  cr_name :: jstr
  cr_token :: jstr

text \<open>One entry \<open>CODE=local name\<close>; entries without a code or a name are skipped.\<close>

definition add_printer_name :: "env \<Rightarrow> (jstr \<times> jstr) list \<Rightarrow> jstr \<Rightarrow> (jstr \<times> jstr) list" where
  "add_printer_name E m entry =
     (let trimmed = js_trim entry in
      case index_of 61 trimmed of
        None \<Rightarrow> m
      | Some 0 \<Rightarrow> m
      | Some i \<Rightarrow>
          (let code = upper E (js_trim (take i trimmed));
               localName = js_trim (drop (Suc i) trimmed)
           in if code \<noteq> [] \<and> localName \<noteq> [] then AList.update code localName m else m))"

definition parsePrinterNameMap :: "env \<Rightarrow> jstr \<Rightarrow> (jstr \<times> jstr) list" where
  "parsePrinterNameMap E s = foldl (add_printer_name E) [] (split_on 44 s)"

definition readTransportSetting :: "environment \<Rightarrow> transport_setting" where
  "readTransportSetting environment =
     (let raw = to_lower (readEnvironmentValue environment ''PRINT_BRIDGE_TRANSPORT'' (js ''auto'')) in
      if raw = js ''mock'' then Only_Mock else if raw = js ''windows'' then Only_Windows
      else if raw = js ''macos'' then Only_Macos else Auto)"

text \<open>\<open>s.replace(/\\/+$/, "")\<close>\<close>

definition strip_slashes :: "jstr \<Rightarrow> jstr" where
  "strip_slashes s = rev (dropWhile (\<lambda>c. c = 47) (rev s))"

text \<open>
  \<open>state_file\<close> gives the default file of a name in the state directory under the home directory.
\<close>

definition loadBridgeConfig ::
  "env \<Rightarrow> (string \<Rightarrow> jstr) \<Rightarrow> environment \<Rightarrow> bool \<Rightarrow> bool \<Rightarrow> exn + bridge_config" where
  "loadBridgeConfig E state_file environment requireCredentials requirePrinterIds =
     sb (readBoolean environment ''PRINT_BRIDGE_ALLOW_INSECURE_MOCK'' False) (\<lambda>allowInsecureMock.
     (let apiKey = readEnvironmentValue environment ''PRINT_BRIDGE_API_KEY'' [];
          apiToken = readEnvironmentValue environment ''PRINT_BRIDGE_TOKEN'' [];
          branchId = readEnvironmentValue environment ''PRINT_BRIDGE_BRANCH_ID'' [];
          printerIds = map (upper E) (readCsv environment ''PRINT_BRIDGE_PRINTER_IDS'' []) in
     sb (guard (\<not> (requireCredentials \<and> apiToken = [] \<and> apiKey = [] \<and> \<not> allowInsecureMock))
           (js ''PRINT_BRIDGE_TOKEN (or the development-only PRINT_BRIDGE_API_KEY) is required unless PRINT_BRIDGE_ALLOW_INSECURE_MOCK=true'')) (\<lambda>_.
     sb (guard (\<not> (apiToken = [] \<and> apiKey \<noteq> [] \<and> branchId = []))
           (js ''PRINT_BRIDGE_BRANCH_ID is required when using the legacy development API key'')) (\<lambda>_.
     sb (guard (\<not> (requirePrinterIds \<and> printerIds = []))
           (js ''PRINT_BRIDGE_PRINTER_IDS must contain at least one printer'')) (\<lambda>_.
     sb (readInteger environment ''PRINT_BRIDGE_PORT'' 0 (Some 0) (Some 65535)) (\<lambda>healthPort.
     sb (readInteger environment ''PRINT_BRIDGE_MAX_CLAIM'' 5 (Some 1) (Some 25)) (\<lambda>maxClaim.
     sb (readInteger environment ''PRINT_BRIDGE_MOCK_DELAY_MS'' 250 (Some 0) (Some 60000)) (\<lambda>mockDelayMs.
     sb (readFloat E environment ''PRINT_BRIDGE_MOCK_FAILURE_RATE'' 0 (Some 0) (Some 1)) (\<lambda>mockFailureRate.
     sb (readInteger environment ''PRINT_BRIDGE_POLL_INTERVAL_MS'' 2000 (Some 250) (Some 60000)) (\<lambda>pollIntervalMs.
     sb (readInteger environment ''PRINT_BRIDGE_REQUEST_TIMEOUT_MS'' 5000 (Some 250) (Some 60000)) (\<lambda>requestTimeoutMs.
     sb (readInteger environment ''PRINT_BRIDGE_RECEIPT_COLUMNS'' 42 (Some 32) (Some 64)) (\<lambda>receiptColumns.
     sb (readInteger environment ''PRINT_BRIDGE_HEARTBEAT_INTERVAL_MS'' 20000 (Some 1000) (Some 300000)) (\<lambda>heartbeatIntervalMs.
     Inr \<lparr>cf_apiKey = apiKey,
       cf_apiToken = (if apiToken \<noteq> [] then Some apiToken else None),
       cf_apiUrl = strip_slashes (readEnvironmentValue environment ''PRINT_BRIDGE_API_URL'' (js ''http://localhost:8000'')),
       cf_allowInsecureMock = allowInsecureMock,
       cf_branchId = (if branchId \<noteq> [] then Some branchId else None),
       cf_bridgeId = readEnvironmentValue environment ''PRINT_BRIDGE_ID'' (js ''local-mock-bridge''),
       cf_healthPort = healthPort, cf_maxClaim = maxClaim, cf_mockDelayMs = mockDelayMs,
       cf_mockFailureRate = mockFailureRate, cf_pollIntervalMs = pollIntervalMs,
       cf_printerIds = printerIds, cf_requestTimeoutMs = requestTimeoutMs,
       cf_receiptColumns = receiptColumns,
       cf_version = readEnvironmentValue environment ''PRINT_BRIDGE_VERSION'' (js ''0.1.0''),
       cf_transport = readTransportSetting environment,
       cf_printerNameMap =
         parsePrinterNameMap E (readEnvironmentValue environment ''PRINT_BRIDGE_PRINTER_MAP'' []),
       cf_heartbeatIntervalMs = heartbeatIntervalMs,
       cf_credentialsPath = readEnvironmentValue environment ''PRINT_BRIDGE_CREDENTIALS_PATH'' (state_file ''credentials.json''),
       cf_journalPath = readEnvironmentValue environment ''PRINT_BRIDGE_JOURNAL_PATH'' (state_file ''journal.json'')\<rparr>)))))))))))))"

definition applyCredential :: "bridge_config \<Rightarrow> bridge_credential option \<Rightarrow> bridge_config" where
  "applyCredential config credential =
     (if truthy (cf_apiToken config) \<or> cf_apiKey config \<noteq> [] then config
      else case credential of
        None \<Rightarrow> config
      | Some c \<Rightarrow> config\<lparr>cf_apiToken := Some (cr_token c), cf_bridgeId := cr_bridgeId c,
                         cf_branchId := Some (cr_branchId c)\<rparr>)"

section \<open>What a loaded configuration guarantees\<close>

lemma readInteger_bounds:
  "readInteger environment key d (Some a) (Some b) = Inr n \<Longrightarrow> a \<le> n \<and> n \<le> b"
  by (auto simp: readInteger_def Let_def split: option.splits if_splits)

lemma readFloat_bounds:
  "readFloat E environment key d (Some a) (Some b) = Inr q \<Longrightarrow> a \<le> q \<and> q \<le> b"
  by (auto simp: readFloat_def Let_def split: jsnum.splits if_splits)

lemma set_unique_first [simp]: "set (unique_first xs) = set xs"
  by (induction xs) auto

lemma distinct_unique_first [simp]: "distinct (unique_first xs)"
  by (induction xs) (auto simp: distinct_filter)

lemma js_trim_idem_Nil [simp]: "js_trim [] = []"
  by (simp add: js_trim_def)

lemma strip_slashes_end: "\<not> ends_with (strip_slashes s) [47]"
proof -
  obtain d where d: "d = dropWhile (\<lambda>c. c = 47) (rev s)" by blast
  then have "d = [] \<or> hd d \<noteq> 47" using hd_dropWhile [of "\<lambda>c. c = 47" "rev s"] by auto
  then have "take 1 d \<noteq> [47]" by (cases d) auto
  then show ?thesis by (simp add: strip_slashes_def ends_with_def starts_with_def d)
qed

definition name_map_ok :: "(jstr \<times> jstr) list \<Rightarrow> bool" where
  "name_map_ok m \<longleftrightarrow> distinct (map fst m) \<and> (\<forall>(code, name)\<in>set m. code \<noteq> [] \<and> name \<noteq> [])"

lemma add_printer_name_ok: "name_map_ok m \<Longrightarrow> name_map_ok (add_printer_name E m entry)"
  using set_alist_update
  by (fastforce simp: add_printer_name_def name_map_ok_def Let_def distinct_update
      split: option.splits nat.splits)

lemma parsePrinterNameMap_ok: "name_map_ok (parsePrinterNameMap E s)"
proof -
  have "name_map_ok m \<Longrightarrow> name_map_ok (foldl (add_printer_name E) m xs)" for m xs
    by (induction xs arbitrary: m) (auto intro: add_printer_name_ok)
  moreover have "name_map_ok []" by (simp add: name_map_ok_def)
  ultimately show ?thesis unfolding parsePrinterNameMap_def by blast
qed

text \<open>The bounds the rest of the bridge relies on.\<close>

definition config_ok :: "bridge_config \<Rightarrow> bool" where
  "config_ok c \<longleftrightarrow> 0 \<le> cf_healthPort c \<and> cf_healthPort c \<le> 65535
     \<and> 1 \<le> cf_maxClaim c \<and> cf_maxClaim c \<le> 25
     \<and> 0 \<le> cf_mockDelayMs c \<and> cf_mockDelayMs c \<le> 60000
     \<and> 0 \<le> cf_mockFailureRate c \<and> cf_mockFailureRate c \<le> 1
     \<and> 250 \<le> cf_pollIntervalMs c \<and> cf_pollIntervalMs c \<le> 60000
     \<and> 250 \<le> cf_requestTimeoutMs c \<and> cf_requestTimeoutMs c \<le> 60000
     \<and> 32 \<le> cf_receiptColumns c \<and> cf_receiptColumns c \<le> 64
     \<and> 1000 \<le> cf_heartbeatIntervalMs c \<and> cf_heartbeatIntervalMs c \<le> 300000
     \<and> name_map_ok (cf_printerNameMap c) \<and> \<not> ends_with (cf_apiUrl c) [47]"

definition has_credential :: "bridge_config \<Rightarrow> bool" where
  "has_credential c \<longleftrightarrow> truthy (cf_apiToken c) \<or> cf_apiKey c \<noteq> []"

lemma sb_guardE: "sb (guard b m) k = Inr y \<Longrightarrow> (b \<Longrightarrow> k () = Inr y \<Longrightarrow> P) \<Longrightarrow> P"
  by (cases b) (auto simp: guard_def throw_def)

lemma sb_readIntegerE:
  "sb (readInteger environment key d (Some a) (Some b)) k = Inr y \<Longrightarrow>
     (\<And>n. a \<le> n \<Longrightarrow> n \<le> b \<Longrightarrow> k n = Inr y \<Longrightarrow> P) \<Longrightarrow> P"
  by (auto simp: sb_Inr_iff dest!: readInteger_bounds)

lemma sb_readFloatE:
  "sb (readFloat E environment key d (Some a) (Some b)) k = Inr y \<Longrightarrow>
     (\<And>q. a \<le> q \<Longrightarrow> q \<le> b \<Longrightarrow> k q = Inr y \<Longrightarrow> P) \<Longrightarrow> P"
  by (auto simp: sb_Inr_iff dest!: readFloat_bounds)

lemma sb_readBooleanE:
  "sb (readBoolean environment key d) k = Inr y \<Longrightarrow> (\<And>b. k b = Inr y \<Longrightarrow> P) \<Longrightarrow> P"
  by (auto simp: sb_Inr_iff)

section \<open>Properties\<close>

text \<open>Configuration bounds. Whatever the environment holds, loading either throws or gives a
  configuration within the bounds of every setting, with an API address that does not end in a slash
  and a printer map of distinct non-empty codes; with the requirements switched on there is a printer,
  and a credential unless the insecure mock is allowed. A saved credential never replaces one given by
  the environment and keeps all of this.\<close>

theorem bridge_config_sound:
  assumes "loadBridgeConfig E state_file environment requireCredentials requirePrinterIds = Inr c"
  shows "config_ok c \<and> (requirePrinterIds \<longrightarrow> cf_printerIds c \<noteq> [])
    \<and> (requireCredentials \<longrightarrow> has_credential c \<or> cf_allowInsecureMock c)
    \<and> config_ok (applyCredential c credential)
    \<and> (has_credential c \<longrightarrow> applyCredential c credential = c)"
proof -
  have c: "config_ok c \<and> (requirePrinterIds \<longrightarrow> cf_printerIds c \<noteq> [])
    \<and> (requireCredentials \<longrightarrow> has_credential c \<or> cf_allowInsecureMock c)"
    using assms unfolding loadBridgeConfig_def Let_def
    by (elim sb_guardE sb_readIntegerE sb_readFloatE sb_readBooleanE)
      (clarsimp simp: config_ok_def has_credential_def parsePrinterNameMap_ok strip_slashes_end)
  have "config_ok (applyCredential c credential)"
    using c by (simp add: applyCredential_def config_ok_def split: option.splits)
  with c show ?thesis
    by (simp add: applyCredential_def has_credential_def)
qed

definition demo_config :: bridge_config where
  "demo_config = \<lparr>cf_apiKey = [], cf_apiToken = Some (js ''tok''), cf_apiUrl = js ''http://api'',
     cf_allowInsecureMock = False, cf_branchId = None, cf_bridgeId = js ''b1'', cf_healthPort = 0,
     cf_maxClaim = 5, cf_mockDelayMs = 250, cf_mockFailureRate = 0, cf_pollIntervalMs = 2000,
     cf_printerIds = [js ''KITCHEN''], cf_requestTimeoutMs = 5000, cf_receiptColumns = 42,
     cf_version = js ''0.1.0'', cf_transport = Auto, cf_printerNameMap = [],
     cf_heartbeatIntervalMs = 20000, cf_credentialsPath = js ''c'', cf_journalPath = js ''j''\<rparr>"

definition demo_environment :: environment where
  "demo_environment = map_of [(''PRINT_BRIDGE_TOKEN'', js ''tok''),
     (''PRINT_BRIDGE_PRINTER_IDS'', js '' KITCHEN, KITCHEN''),
     (''PRINT_BRIDGE_API_URL'', js ''http://api//''), (''PRINT_BRIDGE_ID'', js ''b1'')]"

lemma demo_texts:
  "js_trim (js ''tok'') = js ''tok''" "js_trim (js ''http://api//'') = js ''http://api//''"
  "js_trim (js ''b1'') = js ''b1''" "js_trim (js '' KITCHEN, KITCHEN'') = js ''KITCHEN, KITCHEN''"
  "strip_slashes (js ''http://api//'') = js ''http://api''"
  "unique_first (filter (\<lambda>i. i \<noteq> []) (map js_trim (split_on 44 (js ''KITCHEN, KITCHEN''))))
     = [js ''KITCHEN'']"
  "to_lower (js ''auto'') = js ''auto''"
  by (simp_all add: js_def js_trim_def is_space_def strip_slashes_def to_lower_def lower_unit_def)

lemma demo_config_loads:
  "loadBridgeConfig demo_env (\<lambda>f. if f = ''journal.json'' then js ''j'' else js ''c'')
     demo_environment True True = Inr demo_config"
  by (simp add: loadBridgeConfig_def readBoolean_def trimmed_value_def demo_environment_def
      readEnvironmentValue_def readCsv_def readInteger_def readFloat_def max_safe_def guard_def
      readTransportSetting_def parsePrinterNameMap_def add_printer_name_def demo_texts
      demo_config_def Let_def demo_env_def)

lemma bridge_config_sound_witness: "config_ok demo_config \<and> cf_printerIds demo_config = [js ''KITCHEN'']"
  using bridge_config_sound [OF demo_config_loads, of None] by (simp add: demo_config_def)

end
