(* ===== verification/Print_Types.thy ===== *)
theory Print_Types
  imports Js_Prelude
begin

text \<open>
  The wire and domain types of a print job, from \<open>packages/shared-types/src/index.ts\<close>. A field the
  source marks optional or nullable is an \<open>option\<close>; a job's \<open>attemptCount\<close> and \<open>copies\<close> are
  integers, because the parser admits safe integers only.
\<close>

record receipt_line =
  rl_name :: jstr
  rl_quantity :: jstr
  rl_unitPrice :: "jstr option"
  rl_lineTotal :: "jstr option"
  rl_modifiers :: "jstr list option"
  rl_note :: "jstr option"
  rl_complimentary :: bool
  rl_adjustmentLabel :: "jstr option"

record receipt_totals =
  rt_subtotal :: "jstr option"
  rt_discount :: "jstr option"
  rt_tax :: "jstr option"
  rt_serviceCharge :: "jstr option"
  rt_coverCharge :: "jstr option"
  rt_total :: jstr
  rt_paid :: "jstr option"
  rt_remaining :: "jstr option"

datatype document_type = PREPARATION | BILL | COURIER | TEST

record receipt_document =
  rd_documentType :: "document_type option"
  rd_title :: jstr
  rd_businessName :: "jstr option"
  rd_branchName :: jstr
  rd_stationName :: jstr
  rd_orderNumber :: jstr
  rd_receiptNumber :: "jsnum option"
  rd_businessDate :: "jstr option"
  rd_tableName :: "jstr option"
  rd_waiterName :: "jstr option"
  rd_staffLabel :: "jstr option"
  rd_sourceLabel :: "jstr option"
  rd_orderLabel :: "jstr option"
  rd_customerName :: "jstr option"
  rd_customerPhone :: "jstr option"
  rd_deliveryAddress :: "jstr option"
  rd_paymentLabel :: "jstr option"
  rd_submittedAt :: jstr
  rd_currency :: "jstr option"
  rd_lines :: "receipt_line list"
  rd_totals :: "receipt_totals option"
  rd_footer :: "jstr list option"

record print_job_claim =
  pj_id :: jstr
  pj_tenantId :: jstr
  pj_branchId :: jstr
  pj_printerDeviceId :: jstr
  pj_localPrinterName :: "jstr option"
  pj_preparationStationId :: "jstr option"
  pj_orderId :: "jstr option"
  pj_kitchenTicketId :: "jstr option"
  pj_document :: receipt_document
  pj_copies :: int
  pj_isReprint :: bool
  pj_isTestPrint :: bool
  pj_attemptCount :: int
  pj_claimedAt :: jstr

datatype print_transport_kind = TMock | TWindows | TMacos

record print_result =
  pr_externalReference :: jstr
  pr_printedAt :: jstr
  pr_transport :: print_transport_kind

fun transport_name :: "print_transport_kind \<Rightarrow> string" where
  "transport_name TMock = ''mock''"
| "transport_name TWindows = ''windows''"
| "transport_name TMacos = ''macos''"

fun document_type_name :: "document_type \<Rightarrow> string" where
  "document_type_name PREPARATION = ''PREPARATION''"
| "document_type_name BILL = ''BILL''"
| "document_type_name COURIER = ''COURIER''"
| "document_type_name TEST = ''TEST''"

section \<open>JSON of a document\<close>

text \<open>The object \<open>JSON.stringify\<close> writes: members in the order the parser builds them.\<close>

definition str_member :: "string \<Rightarrow> jstr option \<Rightarrow> jobj" where
  "str_member k v = opt_member k (map_option JStr v)"

definition line_json :: "receipt_line \<Rightarrow> json" where
  "line_json l = JObj (
     [(js ''name'', JStr (rl_name l)), (js ''quantity'', JStr (rl_quantity l))]
     @ str_member ''unitPrice'' (rl_unitPrice l)
     @ str_member ''lineTotal'' (rl_lineTotal l)
     @ opt_member ''modifiers'' (map_option (\<lambda>ms. JArr (map JStr ms)) (rl_modifiers l))
     @ str_member ''note'' (rl_note l)
     @ (if rl_complimentary l then [(js ''complimentary'', JBool True)] else [])
     @ str_member ''adjustmentLabel'' (rl_adjustmentLabel l))"

definition totals_json :: "receipt_totals \<Rightarrow> json" where
  "totals_json t = JObj (
     str_member ''subtotal'' (rt_subtotal t)
     @ str_member ''discount'' (rt_discount t)
     @ str_member ''tax'' (rt_tax t)
     @ str_member ''serviceCharge'' (rt_serviceCharge t)
     @ str_member ''coverCharge'' (rt_coverCharge t)
     @ [(js ''total'', JStr (rt_total t))]
     @ str_member ''paid'' (rt_paid t)
     @ str_member ''remaining'' (rt_remaining t))"

definition document_json :: "receipt_document \<Rightarrow> json" where
  "document_json d = JObj (
     str_member ''documentType'' (map_option (\<lambda>t. js (document_type_name t)) (rd_documentType d))
     @ [(js ''title'', JStr (rd_title d))]
     @ str_member ''businessName'' (rd_businessName d)
     @ [(js ''branchName'', JStr (rd_branchName d)),
        (js ''stationName'', JStr (rd_stationName d)),
        (js ''orderNumber'', JStr (rd_orderNumber d))]
     @ opt_member ''receiptNumber'' (map_option JNum (rd_receiptNumber d))
     @ str_member ''businessDate'' (rd_businessDate d)
     @ str_member ''tableName'' (rd_tableName d)
     @ str_member ''waiterName'' (rd_waiterName d)
     @ str_member ''staffLabel'' (rd_staffLabel d)
     @ str_member ''sourceLabel'' (rd_sourceLabel d)
     @ str_member ''orderLabel'' (rd_orderLabel d)
     @ str_member ''customerName'' (rd_customerName d)
     @ str_member ''customerPhone'' (rd_customerPhone d)
     @ str_member ''deliveryAddress'' (rd_deliveryAddress d)
     @ str_member ''paymentLabel'' (rd_paymentLabel d)
     @ [(js ''submittedAt'', JStr (rd_submittedAt d))]
     @ str_member ''currency'' (rd_currency d)
     @ [(js ''lines'', JArr (map line_json (rd_lines d)))]
     @ opt_member ''totals'' (map_option totals_json (rd_totals d))
     @ opt_member ''footer'' (map_option (\<lambda>f. JArr (map JStr f)) (rd_footer d)))"

definition result_json :: "print_result \<Rightarrow> json" where
  "result_json r = JObj
     [(js ''externalReference'', JStr (pr_externalReference r)),
      (js ''printedAt'', JStr (pr_printedAt r)),
      (js ''transport'', JStr (js (transport_name (pr_transport r))))]"

lemma fld_str_member [simp]:
  "fld (str_member a v) k = (if a = k then map_option JStr v else None)"
  by (simp add: str_member_def)

lemma transport_name_inj [simp]: "transport_name a = transport_name b \<longleftrightarrow> a = b"
  by (cases a; cases b) auto

end
