(* ===== verification/Print_Protocol.thy ===== *)
theory Print_Protocol
  imports Print_Types Host
begin

text \<open>
  The wire protocol of the print bridge, \<open>apps/print-bridge/src/protocol.ts\<close>: the API paths, the
  parser that turns an unknown payload into print jobs, the legacy document, the reference to a
  malformed claim, and error messages. Every throw is an \<open>Inl\<close> with the source's message, in the
  source's order of evaluation.
\<close>

section \<open>Paths and errors\<close>

definition claim_path :: "env \<Rightarrow> jstr list \<Rightarrow> jstr option \<Rightarrow> jstr" where
  "claim_path E printerCodes branchId =
     (let parameters =
            (if printerCodes \<noteq> [] then [js ''printer_codes='' @ form_enc E (join_with (js '','') printerCodes)]
             else [])
            @ (case branchId of
                 Some b \<Rightarrow> if b \<noteq> [] then [js ''branch_id='' @ form_enc E b] else []
               | None \<Rightarrow> []);
          query = join_with (js ''&'') parameters
      in if query \<noteq> [] then js ''/api/v1/printing/bridge/claim?'' @ query
         else js ''/api/v1/printing/bridge/claim'')"

definition update_path :: "jstr \<Rightarrow> jstr" where
  "update_path jobId = js ''/api/v1/printing/bridge/jobs/'' @ jobId"

definition heartbeat_path :: jstr where
  "heartbeat_path = js ''/api/v1/printing/bridge/heartbeat''"

definition enroll_path :: jstr where
  "enroll_path = js ''/api/v1/printing/bridge/enroll''"

fun safeErrorMessage :: "exn \<Rightarrow> jstr" where
  "safeErrorMessage (Err m) = take 500 m"
| "safeErrorMessage (KindErr k m) = take 500 m"
| "safeErrorMessage NonError = js ''Unknown print transport error''"

section \<open>Reading fields\<close>

text \<open>A message that names a field in apostrophes.\<close>

definition quoted :: "string \<Rightarrow> string \<Rightarrow> string \<Rightarrow> string" where
  "quoted before name after = before @ [CHR 0x27] @ name @ [CHR 0x27] @ after"

definition isRecord :: "json option \<Rightarrow> jobj option" where
  "isRecord v = (case v of Some (JObj r) \<Rightarrow> Some r | _ \<Rightarrow> None)"

text \<open>The snake-case member wins; a missing or null one falls back to the camel-case member.\<close>

definition readAliasedValue :: "jobj \<Rightarrow> string \<Rightarrow> string \<Rightarrow> json option" where
  "readAliasedValue r camel snake = nullish (fld r snake) (fld r camel)"

definition requireString :: "jobj \<Rightarrow> string \<Rightarrow> string \<Rightarrow> exn + jstr" where
  "requireString r camel snake = (case readAliasedValue r camel snake of
       Some (JStr (c # cs)) \<Rightarrow> Inr (c # cs)
     | _ \<Rightarrow> throw (js (quoted ''Print job field '' snake '' must be a non-empty string'')))"

definition readNullableString :: "jobj \<Rightarrow> string \<Rightarrow> string \<Rightarrow> exn + jstr option" where
  "readNullableString r camel snake = (case readAliasedValue r camel snake of
       None \<Rightarrow> Inr None
     | Some JNull \<Rightarrow> Inr None
     | Some (JStr (c # cs)) \<Rightarrow> Inr (Some (c # cs))
     | _ \<Rightarrow> throw (js (quoted ''Print job field '' snake '' must be a string or null'')))"

definition readNonNegativeInteger :: "jobj \<Rightarrow> string \<Rightarrow> string \<Rightarrow> exn + int" where
  "readNonNegativeInteger r camel snake = (case readAliasedValue r camel snake of
       Some (JNum n) \<Rightarrow>
         if is_safe_integer n \<and> 0 \<le> int_of_num n then Inr (int_of_num n)
         else throw (js (quoted ''Print job field '' snake '' must be a non-negative integer''))
     | _ \<Rightarrow> throw (js (quoted ''Print job field '' snake '' must be a non-negative integer'')))"

definition readOptionalString :: "jobj \<Rightarrow> string \<Rightarrow> string \<Rightarrow> exn + jstr option" where
  "readOptionalString r camel snake = (case readAliasedValue r camel snake of
       None \<Rightarrow> Inr None
     | Some JNull \<Rightarrow> Inr None
     | Some (JStr s) \<Rightarrow> Inr (Some s)
     | _ \<Rightarrow> throw (js (quoted ''Field '' snake '' must be a string'')))"

definition all_strings :: "json list \<Rightarrow> jstr list option" where
  "all_strings vs = (if \<forall>v\<in>set vs. (case v of JStr _ \<Rightarrow> True | _ \<Rightarrow> False)
     then Some (map (\<lambda>v. case v of JStr s \<Rightarrow> s | _ \<Rightarrow> []) vs) else None)"

section \<open>Documents\<close>

definition at_index :: "string \<Rightarrow> nat \<Rightarrow> string \<Rightarrow> jstr" where
  "at_index before i after = js before @ nat_digits i @ js after"

definition parse_document_type :: "nat \<Rightarrow> jstr option \<Rightarrow> exn + document_type option" where
  "parse_document_type jobIndex t = (case t of
       None \<Rightarrow> Inr None
     | Some s \<Rightarrow>
         if s = js ''PREPARATION'' then Inr (Some PREPARATION)
         else if s = js ''BILL'' then Inr (Some BILL)
         else if s = js ''COURIER'' then Inr (Some COURIER)
         else if s = js ''TEST'' then Inr (Some TEST)
         else throw (at_index ''Print job at index '' jobIndex '' has invalid document type''))"

text \<open>\<open>undefined\<close> modifiers stay undefined, an array of strings is kept, anything else throws.\<close>

definition normalizeLine :: "nat \<Rightarrow> nat \<Rightarrow> json \<Rightarrow> exn + receipt_line" where
  "normalizeLine jobIndex lineIndex line = (case isRecord (Some line) of
     None \<Rightarrow> throw (at_index ''Receipt line '' lineIndex '' in job '' @ nat_digits jobIndex
                     @ js '' must be an object'')
   | Some r \<Rightarrow>
       sb (case fld r ''modifiers'' of
             None \<Rightarrow> Inr None
           | Some v \<Rightarrow> (case v of
               JArr ms \<Rightarrow> (case all_strings ms of Some ss \<Rightarrow> Inr (Some ss)
                  | None \<Rightarrow> throw (at_index ''Receipt line '' lineIndex '' in job ''
                      @ nat_digits jobIndex @ js '' has invalid modifiers''))
             | _ \<Rightarrow> throw (at_index ''Receipt line '' lineIndex '' in job ''
                      @ nat_digits jobIndex @ js '' has invalid modifiers''))) (\<lambda>modifiers.
       sb (readOptionalString r ''unitPrice'' ''unit_price'') (\<lambda>unitPrice.
       sb (readOptionalString r ''lineTotal'' ''line_total'') (\<lambda>lineTotal.
       sb (readOptionalString r ''note'' ''note'') (\<lambda>note.
       sb (readOptionalString r ''adjustmentLabel'' ''adjustment_label'') (\<lambda>adjustmentLabel.
       sb (requireString r ''name'' ''name'') (\<lambda>name.
       sb (requireString r ''quantity'' ''quantity'') (\<lambda>quantity.
       Inr \<lparr>rl_name = name, rl_quantity = quantity, rl_unitPrice = unitPrice,
            rl_lineTotal = lineTotal, rl_modifiers = modifiers, rl_note = note,
            rl_complimentary =
              (readAliasedValue r ''complimentary'' ''complimentary'' = Some (JBool True)),
            rl_adjustmentLabel = adjustmentLabel\<rparr>))))))))"

definition normalizeTotals :: "json option \<Rightarrow> exn + receipt_totals option" where
  "normalizeTotals rawTotals = (case isRecord rawTotals of
     None \<Rightarrow> Inr None
   | Some t \<Rightarrow>
       sb (readOptionalString t ''subtotal'' ''subtotal'') (\<lambda>subtotal.
       sb (readOptionalString t ''discount'' ''discount'') (\<lambda>discount.
       sb (readOptionalString t ''tax'' ''tax'') (\<lambda>tax.
       sb (readOptionalString t ''serviceCharge'' ''service_charge'') (\<lambda>serviceCharge.
       sb (readOptionalString t ''coverCharge'' ''cover_charge'') (\<lambda>coverCharge.
       sb (readOptionalString t ''paid'' ''paid'') (\<lambda>paid.
       sb (readOptionalString t ''remaining'' ''remaining'') (\<lambda>remaining.
       sb (requireString t ''total'' ''total'') (\<lambda>total.
       Inr (Some \<lparr>rt_subtotal = subtotal, rt_discount = discount, rt_tax = tax,
         rt_serviceCharge = serviceCharge, rt_coverCharge = coverCharge, rt_total = total,
         rt_paid = paid, rt_remaining = remaining\<rparr>))))))))))"

definition number_member :: "json option \<Rightarrow> jsnum option" where
  "number_member v = (case v of Some (JNum n) \<Rightarrow> Some n | _ \<Rightarrow> None)"

definition string_member :: "json option \<Rightarrow> jstr option" where
  "string_member v = (case v of Some (JStr s) \<Rightarrow> Some s | _ \<Rightarrow> None)"

definition normalizeDocument :: "jobj \<Rightarrow> nat \<Rightarrow> exn + receipt_document" where
  "normalizeDocument d jobIndex = (case fld d ''lines'' of
     Some (JArr lines) \<Rightarrow>
       sb (readOptionalString d ''tableName'' ''table_name'') (\<lambda>tableName.
       sb (readOptionalString d ''businessName'' ''business_name'') (\<lambda>businessName.
       sb (readOptionalString d ''waiterName'' ''waiter_name'') (\<lambda>waiterName.
       sb (readOptionalString d ''staffLabel'' ''staff_label'') (\<lambda>staffLabel.
       sb (readOptionalString d ''sourceLabel'' ''source_label'') (\<lambda>sourceLabel.
       sb (readOptionalString d ''orderLabel'' ''order_label'') (\<lambda>orderLabel.
       sb (readOptionalString d ''documentType'' ''document_type'') (\<lambda>rawType.
       sb (parse_document_type jobIndex rawType) (\<lambda>documentType.
       sb (readOptionalString d ''customerName'' ''customer_name'') (\<lambda>customerName.
       sb (readOptionalString d ''customerPhone'' ''customer_phone'') (\<lambda>customerPhone.
       sb (readOptionalString d ''deliveryAddress'' ''delivery_address'') (\<lambda>deliveryAddress.
       sb (readOptionalString d ''paymentLabel'' ''payment_label'') (\<lambda>paymentLabel.
       sb (readOptionalString d ''currency'' ''currency'') (\<lambda>currency.
       sb (normalizeTotals (fld d ''totals'')) (\<lambda>totals.
       sb (requireString d ''title'' ''title'') (\<lambda>title.
       sb (requireString d ''branchName'' ''branch_name'') (\<lambda>branchName.
       sb (requireString d ''stationName'' ''station_name'') (\<lambda>stationName.
       sb (requireString d ''orderNumber'' ''order_number'') (\<lambda>orderNumber.
       sb (requireString d ''submittedAt'' ''submitted_at'') (\<lambda>submittedAt.
       sb (try_map (normalizeLine jobIndex) lines) (\<lambda>normalized.
       Inr \<lparr>rd_documentType = documentType, rd_title = title, rd_businessName = businessName,
         rd_branchName = branchName, rd_stationName = stationName, rd_orderNumber = orderNumber,
         rd_receiptNumber =
           number_member (nullish (fld d ''receiptNumber'') (fld d ''receipt_number'')),
         rd_businessDate =
           string_member (nullish (fld d ''businessDate'') (fld d ''business_date'')),
         rd_tableName = tableName, rd_waiterName = waiterName, rd_staffLabel = staffLabel,
         rd_sourceLabel = sourceLabel, rd_orderLabel = orderLabel,
         rd_customerName = customerName, rd_customerPhone = customerPhone,
         rd_deliveryAddress = deliveryAddress, rd_paymentLabel = paymentLabel,
         rd_submittedAt = submittedAt, rd_currency = currency, rd_lines = normalized,
         rd_totals = totals,
         rd_footer = (case fld d ''footer'' of Some (JArr f) \<Rightarrow> all_strings f | _ \<Rightarrow> None)\<rparr>
       ))))))))))))))))))))
   | _ \<Rightarrow> throw (at_index ''Print job at index '' jobIndex '' has invalid receipt lines''))"

text \<open>
  The document of a payload that has none: built from the job and its items. \<open>now\<close> is the clock,
  read when the job carries no time of its own.
\<close>

definition legacy_line :: "nat \<Rightarrow> json \<Rightarrow> exn + json" where
  "legacy_line i item = (case isRecord (Some item) of
     None \<Rightarrow> throw (js ''Legacy print payload contains an invalid item'')
   | Some r \<Rightarrow>
       sb (requireString r ''name'' ''name'') (\<lambda>name.
       sb (requireString r ''quantity'' ''quantity'') (\<lambda>quantity.
       sb (readOptionalString r ''note'' ''note'') (\<lambda>note.
       Inr (JObj ([(js ''name'', JStr name), (js ''quantity'', JStr quantity)]
             @ str_member ''note'' note))))))"

definition createLegacyDocument :: "jstr \<Rightarrow> jobj \<Rightarrow> jobj \<Rightarrow> exn + json" where
  "createLegacyDocument now job payload =
     sb (case fld payload ''items'' of Some (JArr items) \<Rightarrow> try_map legacy_line items
         | _ \<Rightarrow> Inr []) (\<lambda>lines.
     sb (sb (readOptionalString job ''branchName'' ''branch_name'') (\<lambda>b.
           case b of Some s \<Rightarrow> Inr s | None \<Rightarrow> requireString job ''branchId'' ''branch_id''))
        (\<lambda>branchName.
     sb (readOptionalString job ''preparationStationId'' ''preparation_station_id'')
        (\<lambda>station.
     sb (sb (readOptionalString job ''orderId'' ''order_id'') (\<lambda>o1.
           case o1 of Some s \<Rightarrow> Inr s
           | None \<Rightarrow> sb (readOptionalString payload ''orderId'' ''order_id'') (\<lambda>o2.
               Inr (case o2 of Some s \<Rightarrow> s | None \<Rightarrow> js ''Unknown order'')))) (\<lambda>orderNumber.
     sb (sb (readOptionalString job ''claimedAt'' ''claimed_at'') (\<lambda>t1.
           case t1 of Some s \<Rightarrow> Inr s
           | None \<Rightarrow> sb (readOptionalString job ''createdAt'' ''created_at'') (\<lambda>t2.
               Inr (case t2 of Some s \<Rightarrow> s | None \<Rightarrow> now)))) (\<lambda>submittedAt.
     Inr (JObj
       [(js ''title'', JStr (js ''PREPARATION'')),
        (js ''branch_name'', JStr branchName),
        (js ''station_name'',
           JStr (case station of Some s \<Rightarrow> s | None \<Rightarrow> js ''Unassigned station'')),
        (js ''order_number'', JStr orderNumber),
        (js ''submitted_at'', JStr submittedAt),
        (js ''lines'', JArr lines)]))))))"

section \<open>Jobs\<close>

definition receipt_content_type :: jstr where
  "receipt_content_type = js ''application/vnd.dixora.receipt+json''"

definition parse_copies :: "nat \<Rightarrow> json \<Rightarrow> exn + int" where
  "parse_copies index v =
     (let bad = throw (at_index ''Print job at index '' index '' has an invalid copy count'') in
      case v of
        JNum n \<Rightarrow> if is_safe_integer n \<and> 1 \<le> int_of_num n \<and> int_of_num n \<le> 10
                 then Inr (int_of_num n) else bad
      | _ \<Rightarrow> bad)"

definition require_document :: "nat \<Rightarrow> json \<Rightarrow> exn + jobj" where
  "require_document index v =
     (let bad = throw (at_index ''Print job at index '' index '' has an invalid receipt document'') in
      case isRecord (Some v) of
        Some d \<Rightarrow> (case fld d ''lines'' of Some (JArr _) \<Rightarrow> Inr d | _ \<Rightarrow> bad)
      | None \<Rightarrow> bad)"

definition read_printer_device :: "jobj \<Rightarrow> exn + jstr" where
  "read_printer_device c =
     sb (readNullableString c ''printerCode'' ''printer_code'') (\<lambda>code. case code of
         Some s \<Rightarrow> Inr s
       | None \<Rightarrow> requireString c ''printerDeviceId'' ''printer_device_id'')"

definition read_order_id :: "jobj \<Rightarrow> bool \<Rightarrow> exn + jstr option" where
  "read_order_id c isTestPrint =
     (if isTestPrint then readNullableString c ''orderId'' ''order_id''
      else sb (requireString c ''orderId'' ''order_id'') (\<lambda>s. Inr (Some s)))"

definition read_claimed_at :: "jobj \<Rightarrow> exn + jstr" where
  "read_claimed_at c =
     sb (readOptionalString c ''claimedAt'' ''claimed_at'') (\<lambda>t. case t of
         Some s \<Rightarrow> Inr s
       | None \<Rightarrow> requireString c ''createdAt'' ''created_at'')"

definition parse_job :: "jstr \<Rightarrow> nat \<Rightarrow> json \<Rightarrow> exn + print_job_claim" where
  "parse_job now index candidate = (case isRecord (Some candidate) of
     None \<Rightarrow> throw (at_index ''Print job at index '' index '' must be an object'')
   | Some c \<Rightarrow>
     (let jobPayload = (case isRecord (fld c ''payload'') of Some p \<Rightarrow> p | None \<Rightarrow> c) in
       sb (readOptionalString jobPayload ''documentType'' ''document_type'') (\<lambda>docType.
       (let isTestPrint = (docType = Some (js ''PRINTER_TEST''));
            contentType = nullish (readAliasedValue jobPayload ''contentType'' ''content_type'')
                            (Some (JStr receipt_content_type));
            copies = nullish (readAliasedValue jobPayload ''copies'' ''copies'')
                       (Some (JNum (num_of_int 1))) in
       sb (case nullish (readAliasedValue jobPayload ''document'' ''document'') None of
             Some v \<Rightarrow> Inr v | None \<Rightarrow> createLegacyDocument now c jobPayload) (\<lambda>documentValue.
       sb (guard (contentType = Some (JStr receipt_content_type))
             (at_index ''Print job at index '' index '' has an unsupported content type'')) (\<lambda>_.
       sb (parse_copies index (the copies)) (\<lambda>copyCount.
       sb (require_document index documentValue) (\<lambda>d.
       sb (normalizeDocument d index) (\<lambda>document.
       (let isReprint = (readAliasedValue jobPayload ''isReprint'' ''is_reprint'' = Some (JBool True)
              \<or> readAliasedValue c ''kind'' ''kind'' = Some (JStr (js ''REPRINT''))) in
       sb (readNullableString c ''localPrinterName'' ''local_printer_name'') (\<lambda>localPrinterName.
       sb (requireString c ''id'' ''id'') (\<lambda>id.
       sb (requireString c ''tenantId'' ''tenant_id'') (\<lambda>tenantId.
       sb (requireString c ''branchId'' ''branch_id'') (\<lambda>branchId.
       sb (read_printer_device c) (\<lambda>printerDeviceId.
       sb (readNullableString c ''preparationStationId'' ''preparation_station_id'') (\<lambda>station.
       sb (read_order_id c isTestPrint) (\<lambda>orderId.
       sb (readNullableString c ''kitchenTicketId'' ''kitchen_ticket_id'') (\<lambda>ticket.
       sb (readNonNegativeInteger c ''attemptCount'' ''attempt_count'') (\<lambda>attemptCount.
       sb (read_claimed_at c) (\<lambda>claimedAt.
       Inr \<lparr>pj_id = id, pj_tenantId = tenantId, pj_branchId = branchId,
         pj_printerDeviceId = printerDeviceId, pj_localPrinterName = localPrinterName,
         pj_preparationStationId = station, pj_orderId = orderId, pj_kitchenTicketId = ticket,
         pj_document = document, pj_copies = copyCount, pj_isReprint = isReprint,
         pj_isTestPrint = isTestPrint, pj_attemptCount = attemptCount,
         pj_claimedAt = claimedAt\<rparr>))))))))))))))))))))"

definition items_of :: "json \<Rightarrow> json list option" where
  "items_of payload = (case payload of
       JObj r \<Rightarrow> (case fld r ''items'' of Some (JArr items) \<Rightarrow> Some items | _ \<Rightarrow> None)
     | JArr items \<Rightarrow> Some items
     | _ \<Rightarrow> None)"

definition parseClaimedJobs :: "jstr \<Rightarrow> json \<Rightarrow> exn + print_job_claim list" where
  "parseClaimedJobs now payload = (case items_of payload of
     None \<Rightarrow> throw (js ''Print job claim response must be an array or an items envelope'')
   | Some candidateItems \<Rightarrow> try_map (parse_job now) candidateItems)"

text \<open>
  \<open>Inl\<close>: reading \<open>id\<close> throws when it is present and not a string. \<open>Inr None\<close>: no usable reference.
\<close>

definition malformedClaimReference :: "json \<Rightarrow> exn + (jstr \<times> int) option" where
  "malformedClaimReference payload =
     (let candidate = (case payload of
            JObj r \<Rightarrow> (case fld r ''items'' of
                Some (JArr items) \<Rightarrow> (case items of x # _ \<Rightarrow> Some x | [] \<Rightarrow> None)
              | _ \<Rightarrow> Some payload)
          | _ \<Rightarrow> Some payload)
      in case isRecord candidate of
           None \<Rightarrow> Inr None
         | Some c \<Rightarrow>
             sb (readOptionalString c ''id'' ''id'') (\<lambda>id.
             case readAliasedValue c ''attemptCount'' ''attempt_count'' of
               Some (JNum n) \<Rightarrow>
                 Inr (if truthy id \<and> is_safe_integer n \<and> 1 \<le> int_of_num n
                      then Some (the id, int_of_num n) else None)
             | _ \<Rightarrow> Inr None))"

section \<open>Well-formed jobs\<close>

definition wf_line :: "receipt_line \<Rightarrow> bool" where
  "wf_line l \<longleftrightarrow> rl_name l \<noteq> [] \<and> rl_quantity l \<noteq> []"

definition wf_document :: "receipt_document \<Rightarrow> bool" where
  "wf_document d \<longleftrightarrow> rd_title d \<noteq> [] \<and> rd_branchName d \<noteq> [] \<and> rd_stationName d \<noteq> []
     \<and> rd_orderNumber d \<noteq> [] \<and> rd_submittedAt d \<noteq> [] \<and> (\<forall>l\<in>set (rd_lines d). wf_line l)
     \<and> (case rd_totals d of None \<Rightarrow> True | Some t \<Rightarrow> rt_total t \<noteq> [])"

text \<open>What the rest of the bridge may rely on. \<open>claimedAt\<close> alone may be empty.\<close>

definition wf_job :: "print_job_claim \<Rightarrow> bool" where
  "wf_job j \<longleftrightarrow> pj_id j \<noteq> [] \<and> pj_tenantId j \<noteq> [] \<and> pj_branchId j \<noteq> []
     \<and> pj_printerDeviceId j \<noteq> [] \<and> pj_localPrinterName j \<noteq> Some []
     \<and> pj_preparationStationId j \<noteq> Some [] \<and> pj_orderId j \<noteq> Some []
     \<and> pj_kitchenTicketId j \<noteq> Some [] \<and> (pj_orderId j = None \<longrightarrow> pj_isTestPrint j)
     \<and> 1 \<le> pj_copies j \<and> pj_copies j \<le> 10
     \<and> 0 \<le> pj_attemptCount j \<and> pj_attemptCount j \<le> max_safe
     \<and> wf_document (pj_document j)"

lemma sb_InrE: "sb r k = Inr y \<Longrightarrow> (\<And>x. r = Inr x \<Longrightarrow> k x = Inr y \<Longrightarrow> P) \<Longrightarrow> P"
  by (auto simp: sb_Inr_iff)

lemma requireString_nonempty: "requireString r a b = Inr s \<Longrightarrow> s \<noteq> []"
  by (auto simp: requireString_def split: option.splits json.splits list.splits)

lemma readNullableString_nonempty: "readNullableString r a b \<noteq> Inr (Some [])"
  by (auto simp: readNullableString_def split: option.splits json.splits list.splits)

lemma readNonNegativeInteger_bounds:
  assumes "readNonNegativeInteger r a b = Inr n"
  shows "0 \<le> n \<and> n \<le> max_safe"
proof -
  obtain x where "is_safe_integer x" "0 \<le> int_of_num x" "n = int_of_num x"
    using assms by (auto simp: readNonNegativeInteger_def split: option.splits json.splits if_splits)
  then show ?thesis by (cases x) auto
qed

lemma parse_copies_bounds: "parse_copies i v = Inr n \<Longrightarrow> 1 \<le> n \<and> n \<le> 10"
  by (auto simp: parse_copies_def Let_def split: json.splits if_splits)

lemma read_printer_device_nonempty: "read_printer_device c = Inr s \<Longrightarrow> s \<noteq> []"
  using readNullableString_nonempty
  by (auto simp: read_printer_device_def split: option.splits
      elim!: sb_InrE dest: requireString_nonempty)

lemma read_order_id_ok:
  "read_order_id c b = Inr v \<Longrightarrow> v \<noteq> Some [] \<and> (v = None \<longrightarrow> b)"
  using readNullableString_nonempty
  by (auto simp: read_order_id_def split: if_splits elim!: sb_InrE dest: requireString_nonempty)

lemma normalizeLine_wf: "normalizeLine i k v = Inr l \<Longrightarrow> wf_line l"
  unfolding normalizeLine_def wf_line_def
  by (auto split: option.splits elim!: sb_InrE dest: requireString_nonempty)

lemma normalizeTotals_wf: "normalizeTotals v = Inr (Some t) \<Longrightarrow> rt_total t \<noteq> []"
  unfolding normalizeTotals_def
  by (auto split: option.splits elim!: sb_InrE dest: requireString_nonempty)

lemma normalizeDocument_wf:
  assumes "normalizeDocument d i = Inr doc"
  shows "wf_document doc"
proof -
  obtain lines where "fld d ''lines'' = Some (JArr lines)"
    using assms by (auto simp: normalizeDocument_def split: option.splits json.splits)
  with assms have "normalizeTotals (fld d ''totals'') = Inr (rd_totals doc)
      \<and> requireString d ''title'' ''title'' = Inr (rd_title doc)
      \<and> requireString d ''branchName'' ''branch_name'' = Inr (rd_branchName doc)
      \<and> requireString d ''stationName'' ''station_name'' = Inr (rd_stationName doc)
      \<and> requireString d ''orderNumber'' ''order_number'' = Inr (rd_orderNumber doc)
      \<and> requireString d ''submittedAt'' ''submitted_at'' = Inr (rd_submittedAt doc)
      \<and> try_map (normalizeLine i) lines = Inr (rd_lines doc)"
    by (simp add: normalizeDocument_def) (elim sb_InrE, auto)
  then show ?thesis
    by (auto simp: wf_document_def dest: requireString_nonempty normalizeLine_wf dest!: try_map_all
        dest: normalizeTotals_wf split: option.splits)
qed

lemma parse_job_wf:
  assumes "parse_job now i v = Inr job"
  shows "wf_job job"
proof -
  obtain c where c: "isRecord (Some v) = Some c"
    using assms by (auto simp: parse_job_def split: option.splits)
  note facts = requireString_nonempty read_printer_device_nonempty
    read_order_id_ok readNonNegativeInteger_bounds parse_copies_bounds normalizeDocument_wf
  show ?thesis
    using assms readNullableString_nonempty
    unfolding parse_job_def Let_def c option.case
    by (elim sb_InrE) (auto simp only: wf_job_def sum.inject print_job_claim.simps dest: facts)
qed

section \<open>The wire form of a job\<close>

text \<open>A job as the server sends it: snake-case members, the document inside \<open>payload\<close>.\<close>

definition claim_json :: "print_job_claim \<Rightarrow> json" where
  "claim_json j = JObj
     [(js ''id'', JStr (pj_id j)),
      (js ''tenant_id'', JStr (pj_tenantId j)),
      (js ''branch_id'', JStr (pj_branchId j)),
      (js ''printer_code'', JStr (pj_printerDeviceId j)),
      (js ''local_printer_name'', null_or_str (pj_localPrinterName j)),
      (js ''preparation_station_id'', null_or_str (pj_preparationStationId j)),
      (js ''order_id'', null_or_str (pj_orderId j)),
      (js ''kitchen_ticket_id'', null_or_str (pj_kitchenTicketId j)),
      (js ''attempt_count'', JNum (num_of_int (pj_attemptCount j))),
      (js ''claimed_at'', JStr (pj_claimedAt j)),
      (js ''payload'', JObj
         [(js ''document_type'',
             JStr (js (if pj_isTestPrint j then ''PRINTER_TEST'' else ''KITCHEN_TICKET''))),
          (js ''content_type'', JStr receipt_content_type),
          (js ''copies'', JNum (num_of_int (pj_copies j))),
          (js ''is_reprint'', JBool (pj_isReprint j)),
          (js ''document'', document_json (pj_document j))])]"

lemma all_strings_map [simp]: "all_strings (map JStr ss) = Some ss"
  by (simp add: all_strings_def comp_def)

lemma isRecord_JObj [simp]: "isRecord (Some (JObj r)) = Some r" "isRecord None = None"
  by (simp_all add: isRecord_def)

definition optional_string :: "string \<Rightarrow> json option \<Rightarrow> exn + jstr option" where
  "optional_string k v = (case v of
       None \<Rightarrow> Inr None
     | Some JNull \<Rightarrow> Inr None
     | Some (JStr s) \<Rightarrow> Inr (Some s)
     | _ \<Rightarrow> throw (js (quoted ''Field '' k '' must be a string'')))"

lemma optional_string_simps [simp]:
  "optional_string k (map_option JStr s) = Inr s" "optional_string k None = Inr None"
  "optional_string k (Some (JStr t)) = Inr (Some t)"
  "optional_string k (Some (null_or_str s)) = Inr s"
  by (cases s; simp add: optional_string_def null_or_str_def)+

lemma readOptionalString_value:
  "readOptionalString r a b = optional_string b (readAliasedValue r a b)"
  by (simp add: readOptionalString_def optional_string_def)

lemma requireString_ok:
  "readAliasedValue r a b = Some (JStr s) \<Longrightarrow> s \<noteq> [] \<Longrightarrow> requireString r a b = Inr s"
  by (auto simp: requireString_def neq_Nil_conv)

lemma readNullableString_ok:
  "readAliasedValue r a b = Some (null_or_str s) \<or> readAliasedValue r a b = None \<and> s = None \<Longrightarrow>
     s \<noteq> Some [] \<Longrightarrow> readNullableString r a b = Inr s"
  by (cases s) (auto simp: readNullableString_def null_or_str_def neq_Nil_conv)

lemma nullish_strings [simp]:
  "nullish (map_option JStr s) None = map_option JStr s"
  "nullish (map_option JStr s) (map_option JStr s) = map_option JStr s"
  "nullish (map_option JNum n) None = map_option JNum n"
  by (cases s; simp)+ (cases n; simp)

lemmas wire_simps = readAliasedValue_def fld_append requireString_ok readOptionalString_value

lemma normalizeLine_line_json: "wf_line l \<Longrightarrow> normalizeLine i k (line_json l) = Inr l"
  by (cases "rl_modifiers l"; cases "rl_complimentary l")
    (simp_all add: normalizeLine_def line_json_def wf_line_def wire_simps)

lemma normalizeTotals_totals_json:
  "rt_total t \<noteq> [] \<Longrightarrow> normalizeTotals (Some (totals_json t)) = Inr (Some t)"
  by (simp add: normalizeTotals_def totals_json_def wire_simps)

lemma string_number_members [simp]:
  "string_member (map_option JStr s) = s" "number_member (map_option JNum n) = n"
  by (cases s; simp add: string_member_def) (cases n; simp add: number_member_def)

lemma document_type_roundtrip [simp]:
  "parse_document_type i (map_option (\<lambda>t. js (document_type_name t)) ty) = Inr ty"
proof (cases ty)
  case (Some t)
  then show ?thesis by (cases t) (simp_all add: parse_document_type_def)
qed (simp add: parse_document_type_def)

lemma normalizeTotals_member:
  "(\<And>t. s = Some t \<Longrightarrow> rt_total t \<noteq> []) \<Longrightarrow> normalizeTotals (map_option totals_json s) = Inr s"
  by (cases s) (simp_all add: normalizeTotals_totals_json, simp add: normalizeTotals_def isRecord_def)

lemma normalizeLine_lines:
  "\<forall>l\<in>set ls. wf_line l \<Longrightarrow> try_map (normalizeLine i) (map line_json ls) = Inr ls"
  by (rule try_map_ok) (simp add: normalizeLine_line_json)

definition document_members :: "receipt_document \<Rightarrow> jobj" where
  "document_members d = (case document_json d of JObj r \<Rightarrow> r | _ \<Rightarrow> [])"

lemma document_json_members: "document_json d = JObj (document_members d)"
  by (simp add: document_members_def document_json_def)

lemma document_fields:
  "fld (document_members d) k =
     (if k = ''documentType'' then map_option (\<lambda>t. JStr (js (document_type_name t))) (rd_documentType d)
      else if k = ''title'' then Some (JStr (rd_title d))
      else if k = ''businessName'' then map_option JStr (rd_businessName d)
      else if k = ''branchName'' then Some (JStr (rd_branchName d))
      else if k = ''stationName'' then Some (JStr (rd_stationName d))
      else if k = ''orderNumber'' then Some (JStr (rd_orderNumber d))
      else if k = ''receiptNumber'' then map_option JNum (rd_receiptNumber d)
      else if k = ''businessDate'' then map_option JStr (rd_businessDate d)
      else if k = ''tableName'' then map_option JStr (rd_tableName d)
      else if k = ''waiterName'' then map_option JStr (rd_waiterName d)
      else if k = ''staffLabel'' then map_option JStr (rd_staffLabel d)
      else if k = ''sourceLabel'' then map_option JStr (rd_sourceLabel d)
      else if k = ''orderLabel'' then map_option JStr (rd_orderLabel d)
      else if k = ''customerName'' then map_option JStr (rd_customerName d)
      else if k = ''customerPhone'' then map_option JStr (rd_customerPhone d)
      else if k = ''deliveryAddress'' then map_option JStr (rd_deliveryAddress d)
      else if k = ''paymentLabel'' then map_option JStr (rd_paymentLabel d)
      else if k = ''submittedAt'' then Some (JStr (rd_submittedAt d))
      else if k = ''currency'' then map_option JStr (rd_currency d)
      else if k = ''lines'' then Some (JArr (map line_json (rd_lines d)))
      else if k = ''totals'' then map_option totals_json (rd_totals d)
      else if k = ''footer'' then map_option (\<lambda>f. JArr (map JStr f)) (rd_footer d)
      else None)"
  by (simp add: document_members_def document_json_def fld_append option.map_comp comp_def
      del: list.inject)

lemma normalizeDocument_json:
  assumes "wf_document d"
  shows "normalizeDocument (document_members d) i = Inr d"
proof -
  have lines: "try_map (normalizeLine i) (map line_json (rd_lines d)) = Inr (rd_lines d)"
    using assms by (intro normalizeLine_lines) (simp add: wf_document_def)
  have totals: "normalizeTotals (map_option totals_json (rd_totals d)) = Inr (rd_totals d)"
    using assms by (intro normalizeTotals_member) (simp add: wf_document_def)
  have ty: "optional_string k (map_option (\<lambda>t. JStr (js (document_type_name t))) x)
      = Inr (map_option (\<lambda>t. js (document_type_name t)) x)" for k x
    by (cases x) simp_all
  have ty': "nullish (map_option (\<lambda>t. JStr (js (document_type_name t))) x) None
      = map_option (\<lambda>t. JStr (js (document_type_name t))) x" for x
    by (cases x) simp_all
  show ?thesis
    using assms lines totals
    by (cases "rd_footer d")
      (simp_all add: normalizeDocument_def wf_document_def wire_simps document_fields ty ty')
qed

lemma readNonNegativeInteger_ok:
  "readAliasedValue r a b = Some (JNum (num_of_int n)) \<Longrightarrow> 0 \<le> n \<Longrightarrow> n \<le> max_safe \<Longrightarrow>
     readNonNegativeInteger r a b = Inr n"
  by (simp add: readNonNegativeInteger_def)

lemma readNullable_present:
  "readAliasedValue r a b = Some (JStr s) \<Longrightarrow> s \<noteq> [] \<Longrightarrow> readNullableString r a b = Inr (Some s)"
  by (auto simp: readNullableString_def neq_Nil_conv)

lemma nullable_alias:
  "fld r b = Some (null_or_str s) \<Longrightarrow> fld r a = None \<Longrightarrow> s \<noteq> Some [] \<Longrightarrow>
     readNullableString r a b = Inr s"
  by (cases s) (auto simp: readNullableString_def readAliasedValue_def null_or_str_def neq_Nil_conv)

lemma require_nullable:
  "fld r b = Some (null_or_str (Some s)) \<Longrightarrow> s \<noteq> [] \<Longrightarrow> requireString r a b = Inr s"
  by (auto simp: requireString_def readAliasedValue_def null_or_str_def neq_Nil_conv)

lemma document_json_record [simp]:
  "isRecord (Some (document_json d)) = Some (document_members d)" "document_json d \<noteq> JNull"
  by (simp_all add: document_json_members)

lemma claim_copies:
  "1 \<le> n \<Longrightarrow> n \<le> 10 \<Longrightarrow> parse_copies i (JNum (num_of_int n)) = Inr n"
  by (simp add: parse_copies_def max_safe_def)

definition claim_payload :: "print_job_claim \<Rightarrow> jobj" where
  "claim_payload j =
     [(js ''document_type'',
         JStr (js (if pj_isTestPrint j then ''PRINTER_TEST'' else ''KITCHEN_TICKET''))),
      (js ''content_type'', JStr receipt_content_type),
      (js ''copies'', JNum (num_of_int (pj_copies j))),
      (js ''is_reprint'', JBool (pj_isReprint j)),
      (js ''document'', document_json (pj_document j))]"

lemma payload_reads:
  "readOptionalString (claim_payload j) ''documentType'' ''document_type''
     = Inr (Some (js (if pj_isTestPrint j then ''PRINTER_TEST'' else ''KITCHEN_TICKET'')))"
  "readAliasedValue (claim_payload j) ''contentType'' ''content_type'' = Some (JStr receipt_content_type)"
  "readAliasedValue (claim_payload j) ''copies'' ''copies'' = Some (JNum (num_of_int (pj_copies j)))"
  "readAliasedValue (claim_payload j) ''isReprint'' ''is_reprint'' = Some (JBool (pj_isReprint j))"
  "readAliasedValue (claim_payload j) ''document'' ''document'' = Some (document_json (pj_document j))"
  by (simp_all add: claim_payload_def wire_simps)

lemma parse_job_claim_json:
  assumes "wf_job j"
  shows "parse_job now i (claim_json j) = Inr j"
proof -
  obtain c where c: "claim_json j = JObj c" by (simp add: claim_json_def)
  note fields = c [unfolded claim_json_def json.inject, symmetric]
  have payload: "fld c ''payload'' = Some (JObj (claim_payload j))"
    unfolding fields by (simp add: claim_payload_def)
  have "read_printer_device c = Inr (pj_printerDeviceId j)"
    using assms unfolding read_printer_device_def wf_job_def fields
    by (subst readNullable_present [where s = "pj_printerDeviceId j"])
      (auto simp: readAliasedValue_def)
  moreover have "read_order_id c (pj_isTestPrint j) = Inr (pj_orderId j)"
    using assms unfolding read_order_id_def wf_job_def fields
    by (cases "pj_orderId j") (auto simp: nullable_alias require_nullable)
  moreover have "read_claimed_at c = Inr (pj_claimedAt j)"
    unfolding read_claimed_at_def fields by (simp add: wire_simps)
  moreover have "require_document i (document_json (pj_document j))
      = Inr (document_members (pj_document j))"
    by (simp add: require_document_def document_fields)
  moreover have "normalizeDocument (document_members (pj_document j)) i = Inr (pj_document j)"
    using assms by (intro normalizeDocument_json) (simp add: wf_job_def)
  moreover have "parse_copies i (JNum (num_of_int (pj_copies j))) = Inr (pj_copies j)"
    using assms by (intro claim_copies) (simp_all add: wf_job_def)
  moreover have "requireString c ''id'' ''id'' = Inr (pj_id j)"
      "requireString c ''tenantId'' ''tenant_id'' = Inr (pj_tenantId j)"
      "requireString c ''branchId'' ''branch_id'' = Inr (pj_branchId j)"
    using assms unfolding fields by (simp_all add: wf_job_def wire_simps)
  moreover have "readNullableString c ''localPrinterName'' ''local_printer_name''
        = Inr (pj_localPrinterName j)"
      "readNullableString c ''preparationStationId'' ''preparation_station_id''
        = Inr (pj_preparationStationId j)"
      "readNullableString c ''kitchenTicketId'' ''kitchen_ticket_id'' = Inr (pj_kitchenTicketId j)"
    using assms unfolding fields by (simp_all add: wf_job_def nullable_alias)
  moreover have "readNonNegativeInteger c ''attemptCount'' ''attempt_count'' = Inr (pj_attemptCount j)"
    using assms unfolding fields
    by (simp add: wf_job_def readNonNegativeInteger_ok readAliasedValue_def)
  moreover have "readAliasedValue c ''kind'' ''kind'' = None"
    unfolding fields by (simp add: readAliasedValue_def)
  ultimately show ?thesis
    unfolding parse_job_def c
    by (cases "pj_isTestPrint j") (simp_all add: payload payload_reads Let_def)
qed

lemma parseClaimedJobs_items:
  "parseClaimedJobs now payload = Inr jobs \<Longrightarrow> \<exists>items. items_of payload = Some items \<and>
     length jobs = length items \<and> (\<forall>j\<in>set jobs. wf_job j)"
  by (auto simp: parseClaimedJobs_def split: option.splits dest!: try_map_all dest: parse_job_wf)

section \<open>Properties\<close>

text \<open>C36: Whatever the server answers, a payload that parses gives one job per item, and every job is
  well formed: identifiers are non-empty, there are 1 to 10 copies, the attempt is a non-negative safe
  integer, only a test print may lack an order, the document has its required texts.\<close>

theorem parsed_jobs_wf:
  assumes "parseClaimedJobs now payload = Inr jobs"
  shows "(\<exists>items. items_of payload = Some items \<and> length jobs = length items)
    \<and> (\<forall>j\<in>set jobs. wf_job j)"
  using parseClaimedJobs_items [OF assms] by blast


definition sample_claim :: json where
  "sample_claim = JObj
     [(js ''id'', JStr (js ''j1'')), (js ''tenant_id'', JStr (js ''t1'')),
      (js ''branch_id'', JStr (js ''b1'')), (js ''printer_code'', JStr (js ''KITCHEN'')),
      (js ''order_id'', JStr (js ''o1'')), (js ''attempt_count'', JNum (Fin 1)),
      (js ''created_at'', JStr (js ''2026-01-01'')),
      (js ''payload'', JObj [(js ''copies'', JNum (Fin 2)),
         (js ''items'', JArr [JObj [(js ''name'', JStr (js ''Tea'')), (js ''quantity'', JStr (js ''1''))]])])]"

definition sample_job :: print_job_claim where
  "sample_job = \<lparr>pj_id = js ''j1'', pj_tenantId = js ''t1'', pj_branchId = js ''b1'',
     pj_printerDeviceId = js ''KITCHEN'', pj_localPrinterName = None,
     pj_preparationStationId = None, pj_orderId = Some (js ''o1''), pj_kitchenTicketId = None,
     pj_document = \<lparr>rd_documentType = None, rd_title = js ''PREPARATION'', rd_businessName = None,
       rd_branchName = js ''b1'', rd_stationName = js ''Unassigned station'',
       rd_orderNumber = js ''o1'', rd_receiptNumber = None, rd_businessDate = None,
       rd_tableName = None, rd_waiterName = None, rd_staffLabel = None, rd_sourceLabel = None,
       rd_orderLabel = None, rd_customerName = None, rd_customerPhone = None,
       rd_deliveryAddress = None, rd_paymentLabel = None, rd_submittedAt = js ''2026-01-01'',
       rd_currency = None,
       rd_lines = [\<lparr>rl_name = js ''Tea'', rl_quantity = js ''1'', rl_unitPrice = None,
         rl_lineTotal = None, rl_modifiers = None, rl_note = None, rl_complimentary = False,
         rl_adjustmentLabel = None\<rparr>],
       rd_totals = None, rd_footer = None\<rparr>,
     pj_copies = 2, pj_isReprint = False, pj_isTestPrint = False, pj_attemptCount = 1,
     pj_claimedAt = js ''2026-01-01''\<rparr>"

text \<open>A legacy payload without a document is parsed into a job with a generated document.\<close>

lemma sample_parses: "parseClaimedJobs now (JArr [sample_claim]) = Inr [sample_job]"
  by code_simp

lemma sample_wf: "wf_job sample_job"
  using parseClaimedJobs_items [OF sample_parses] by (simp only: list.set) blast

lemma parsed_jobs_wf_witness: "wf_job sample_job \<and> pj_copies sample_job = 2"
  using parsed_jobs_wf [OF sample_parses] by (simp add: sample_job_def)


lemma parse_job_reference:
  assumes "parse_job now i (JObj c) = Inr job"
  shows "requireString c ''id'' ''id'' = Inr (pj_id job)
    \<and> readNonNegativeInteger c ''attemptCount'' ''attempt_count'' = Inr (pj_attemptCount job)"
  using assms unfolding parse_job_def Let_def isRecord_JObj option.case
  by (elim sb_InrE) (auto simp only: sum.inject print_job_claim.simps)

lemma require_optional: "requireString r a b = Inr s \<Longrightarrow> readOptionalString r a b = Inr (Some s) \<and> s \<noteq> []"
  by (auto simp: requireString_def readOptionalString_def split: option.splits json.splits list.splits)

text \<open>The reference by which a malformed claim is reported as failed is usable: a non-empty id
  and an attempt of at least one. For an envelope whose first job does parse it is the reference of
  exactly that job, so the failure is reported against the job the server has leased.\<close>

theorem malformed_reference_sound:
  assumes "malformedClaimReference payload = Inr (Some (k, n))"
  shows "k \<noteq> [] \<and> 1 \<le> n \<and> n \<le> max_safe
    \<and> (\<forall>now job jobs r. payload = JObj r \<and> parseClaimedJobs now payload = Inr (job # jobs)
         \<longrightarrow> (k, n) = (pj_id job, pj_attemptCount job))"
proof -
  obtain c where c: "(case payload of
            JObj r \<Rightarrow> (case fld r ''items'' of
                Some (JArr items) \<Rightarrow> (case items of x # _ \<Rightarrow> Some x | [] \<Rightarrow> None)
              | _ \<Rightarrow> Some payload)
          | _ \<Rightarrow> Some payload) = Some (JObj c)"
    and k: "readOptionalString c ''id'' ''id'' = Inr (Some k)" "k \<noteq> []"
    and n: "\<exists>x. readAliasedValue c ''attemptCount'' ''attempt_count'' = Some (JNum x)
              \<and> is_safe_integer x \<and> 1 \<le> int_of_num x \<and> n = int_of_num x"
    using assms unfolding malformedClaimReference_def Let_def isRecord_def
    by (auto split: option.splits json.splits list.splits if_splits elim!: sb_InrE simp: truthy_def)
  have bound: "is_safe_integer x \<Longrightarrow> int_of_num x \<le> max_safe" for x by (cases x) auto
  have "(k, n) = (pj_id job, pj_attemptCount job)"
    if "payload = JObj r" and parse: "parseClaimedJobs now payload = Inr (job # jobs)"
    for now job jobs r
  proof -
    have "parse_job now 0 (JObj c) = Inr job"
      using c that
      by (auto simp: parseClaimedJobs_def items_of_def sb_Inr_iff split: option.splits json.splits list.splits)
    from parse_job_reference [OF this] k n show ?thesis
      by (auto simp: readNonNegativeInteger_def dest!: require_optional)
  qed
  with k n bound show ?thesis by blast
qed

lemma malformed_reference_sound_witness:
  "malformedClaimReference (JObj [(js ''id'', JStr (js ''j1'')), (js ''attempt_count'', JNum (Fin 2))])
     = Inr (Some (js ''j1'', 2)) \<and> (2::int) \<le> max_safe"
proof -
  have r: "malformedClaimReference
      (JObj [(js ''id'', JStr (js ''j1'')), (js ''attempt_count'', JNum (Fin 2))])
    = Inr (Some (js ''j1'', 2))"
    by (simp add: malformedClaimReference_def readAliasedValue_def readOptionalString_def max_safe_def)
  then show ?thesis using malformed_reference_sound [OF r] by simp
qed

end
