(* ===== verification/Bridge_Api.thy ===== *)
theory Bridge_Api
  imports Bridge_Config Print_Protocol
begin

text \<open>
  The bridge's API client, \<open>apps/print-bridge/src/api-client.ts\<close>: the authenticated request, the
  claim loop, and the status reports with their idempotency keys. A request is one \<open>fetch\<close> of the
  host plan; the abort timer shows as a rejected fetch.
\<close>

section \<open>Requests\<close>

definition auth_headers :: "bridge_config \<Rightarrow> (string \<times> jstr) list" where
  "auth_headers cfg =
     (let credential = or_else (cf_apiToken cfg) (cf_apiKey cfg) in
      [(''Accept'', js ''application/json'')]
      @ (if credential \<noteq> [] then [(''Authorization'', js ''Bearer '' @ credential)] else [])
      @ (if truthy (cf_apiToken cfg) then [(''X-Print-Bridge-Token'', the (cf_apiToken cfg))]
         else if cf_apiKey cfg \<noteq> [] then [(''X-Print-Bridge-Key'', cf_apiKey cfg)] else [])
      @ [(''X-Dixora-Bridge-Id'', cf_bridgeId cfg)])"

definition api_failure :: "http_response \<Rightarrow> jstr \<Rightarrow> exn" where
  "api_failure r path = Err (js ''Dixora API returned '' @ int_text (http_status r) @ js '' for ''
     @ path @ js '': '' @ (let body = take 500 (http_text r) in
                         if body \<noteq> [] then body else js ''empty body''))"

text \<open>\<open>None\<close> is \<open>undefined\<close>: a 204, or an answer that is not JSON.\<close>

definition read_answer :: "jstr \<Rightarrow> http_response \<Rightarrow> exn + json option" where
  "read_answer path r =
     (if \<not> http_ok r then Inl (api_failure r path)
      else if http_status r = 204 then Inr None
      else if contains (or_else (http_type r) []) (js ''application/json'')
      then (case http_json r of Some v \<Rightarrow> Inr (Some v)
            | None \<Rightarrow> throw (js ''Unexpected token in JSON''))
      else Inr None)"

definition api_request ::
  "bridge_config \<Rightarrow> jstr \<Rightarrow> string \<Rightarrow> json option \<Rightarrow> (string \<times> jstr) list \<Rightarrow>
   ('z host_scheme, json option) io" where
  "api_request cfg path verb body extra =
     io_bind (fetch \<lparr>rq_method = verb, rq_url = cf_apiUrl cfg @ path,
                rq_headers = auth_headers cfg @ extra, rq_body = body\<rparr>)
       (\<lambda>r. io_lift (read_answer path r))"

section \<open>Status reports\<close>

datatype report_status = SENT | REPORT_PRINTED | FAILED

fun report_name :: "report_status \<Rightarrow> string" where
  "report_name SENT = ''SENT''"
| "report_name REPORT_PRINTED = ''PRINTED''"
| "report_name FAILED = ''FAILED''"

definition report_json ::
  "int \<Rightarrow> jstr option \<Rightarrow> bool \<Rightarrow> print_result option \<Rightarrow> report_status \<Rightarrow> json" where
  "report_json attempt error manual result status = JObj (
     [(js ''attempt_count'', JNum (num_of_int attempt)), (js ''error'', null_or_str error)]
     @ (if manual then [(js ''manual_retry_required'', JBool True)] else [])
     @ (case result of None \<Rightarrow> [] | Some r \<Rightarrow> [(js ''result'', JObj
          [(js ''external_reference'', JStr (pr_externalReference r)),
           (js ''printed_at'', JStr (pr_printedAt r)),
           (js ''transport'', JStr (js (transport_name (pr_transport r))))])])
     @ [(js ''status'', JStr (js (report_name status)))])"

text \<open>\<open>[a, b, ...].join(":")\<close>\<close>

definition idempotency_key :: "bridge_config \<Rightarrow> jstr \<Rightarrow> int \<Rightarrow> string \<Rightarrow> jstr" where
  "idempotency_key cfg jobId attempt transition =
     join_with (js '':'') [js ''print-bridge'', cf_bridgeId cfg, jobId, int_text attempt, js transition]"

definition idempotencyKey :: "bridge_config \<Rightarrow> print_job_claim \<Rightarrow> string \<Rightarrow> jstr" where
  "idempotencyKey cfg job transition = idempotency_key cfg (pj_id job) (pj_attemptCount job) transition"

definition recoveryIdempotencyKey :: "bridge_config \<Rightarrow> jstr \<Rightarrow> int \<Rightarrow> string \<Rightarrow> jstr" where
  "recoveryIdempotencyKey cfg jobId attempt transition = idempotency_key cfg jobId attempt transition"

definition send_report ::
  "bridge_config \<Rightarrow> jstr \<Rightarrow> json \<Rightarrow> jstr \<Rightarrow> ('z host_scheme, unit) io" where
  "send_report cfg jobId body key =
     io_bind (api_request cfg (update_path jobId) ''PATCH'' (Some body)
        [(''Content-Type'', js ''application/json''), (''Idempotency-Key'', key)]) (\<lambda>_. io_ret ())"

definition markSent :: "bridge_config \<Rightarrow> print_job_claim \<Rightarrow> ('z host_scheme, unit) io" where
  "markSent cfg job = send_report cfg (pj_id job)
     (report_json (pj_attemptCount job) None False None SENT) (idempotencyKey cfg job ''sent'')"

definition markPrinted ::
  "bridge_config \<Rightarrow> print_job_claim \<Rightarrow> print_result \<Rightarrow> ('z host_scheme, unit) io" where
  "markPrinted cfg job result = send_report cfg (pj_id job)
     (report_json (pj_attemptCount job) None False (Some result) REPORT_PRINTED)
     (idempotencyKey cfg job ''printed'')"

definition markFailed ::
  "bridge_config \<Rightarrow> print_job_claim \<Rightarrow> jstr \<Rightarrow> bool \<Rightarrow> ('z host_scheme, unit) io" where
  "markFailed cfg job errorMessage manualRetryRequired = send_report cfg (pj_id job)
     (report_json (pj_attemptCount job) (Some errorMessage) manualRetryRequired None FAILED)
     (idempotencyKey cfg job ''failed'')"

definition recoverPrinted ::
  "bridge_config \<Rightarrow> jstr \<Rightarrow> int \<Rightarrow> print_result \<Rightarrow> ('z host_scheme, unit) io" where
  "recoverPrinted cfg jobId attemptCount result = send_report cfg jobId
     (report_json attemptCount None False (Some result) REPORT_PRINTED)
     (recoveryIdempotencyKey cfg jobId attemptCount ''printed'')"

definition recoverUncertainDispatch ::
  "bridge_config \<Rightarrow> jstr \<Rightarrow> int \<Rightarrow> jstr \<Rightarrow> ('z host_scheme, unit) io" where
  "recoverUncertainDispatch cfg jobId attemptCount message = send_report cfg jobId
     (report_json attemptCount (Some message) True None FAILED)
     (recoveryIdempotencyKey cfg jobId attemptCount ''failed'')"

definition exn_message :: "exn \<Rightarrow> jstr" where
  "exn_message e = (case e of Err m \<Rightarrow> m | KindErr k m \<Rightarrow> m | NonError \<Rightarrow> [])"

definition markMalformedClaimFailed ::
  "bridge_config \<Rightarrow> json \<Rightarrow> jstr \<Rightarrow> ('z host_scheme, unit) io" where
  "markMalformedClaimFailed cfg payload reason =
     io_bind (io_lift (malformedClaimReference payload)) (\<lambda>reference. case reference of
         None \<Rightarrow> io_raise (Err (js ''Claimed print job could not be parsed: '' @ reason))
       | Some (k, attempt) \<Rightarrow> send_report cfg k
           (report_json attempt (Some (js ''Print Bridge job validation failed: '' @ reason)) True
              None FAILED)
           (idempotency_key cfg k attempt ''validation-failed''))"

section \<open>Claiming\<close>

definition claim_request :: "env \<Rightarrow> bridge_config \<Rightarrow> ('z host_scheme, json option) io" where
  "claim_request E cfg = api_request cfg
     (claim_path E (cf_printerIds cfg) (if truthy (cf_apiToken cfg) then None else cf_branchId cfg))
     ''POST'' None []"

text \<open>
  The claim loop with the number of iterations left. The clock is read where the parser needs it.
\<close>

fun claim_loop ::
  "env \<Rightarrow> bridge_config \<Rightarrow> nat \<Rightarrow> print_job_claim list \<Rightarrow> ('z host_scheme, print_job_claim list) io"
  where
  "claim_loop E cfg 0 jobs = io_ret jobs"
| "claim_loop E cfg (Suc n) jobs =
     io_bind (claim_request E cfg) (\<lambda>payload. case nullish payload None of
         None \<Rightarrow> io_ret jobs
       | Some v \<Rightarrow>
           io_bind (io_get (\<lambda>w. iso_time E (ticks w))) (\<lambda>now.
             (case parseClaimedJobs now (JArr [v]) of
                Inr parsed \<Rightarrow> claim_loop E cfg n (jobs @ parsed)
              | Inl e \<Rightarrow> io_seq (markMalformedClaimFailed cfg v (exn_message e))
                          (claim_loop E cfg n jobs))))"

definition claimJobs ::
  "env \<Rightarrow> bridge_config \<Rightarrow> int \<Rightarrow> ('z host_scheme, print_job_claim list) io" where
  "claimJobs E cfg limit = claim_loop E cfg (nat (min limit (cf_maxClaim cfg))) []"

section \<open>Heartbeat\<close>

definition hostPlatform :: "env \<Rightarrow> string" where
  "hostPlatform E = (case os_platform E of Win32 \<Rightarrow> ''windows'' | Darwin \<Rightarrow> ''macos''
     | OtherOs \<Rightarrow> ''linux'')"

definition heartbeat :: "env \<Rightarrow> bridge_config \<Rightarrow> jstr list \<Rightarrow> ('z host_scheme, unit) io" where
  "heartbeat E cfg printers =
     io_bind (api_request cfg heartbeat_path ''POST''
        (Some (JObj [(js ''platform'', JStr (js (hostPlatform E))),
                     (js ''printers'', JArr (map JStr printers)),
                     (js ''version'', JStr (cf_version cfg))]))
        [(''Content-Type'', js ''application/json'')]) (\<lambda>_. io_ret ())"

section \<open>What a report tells the server\<close>

text \<open>The job a request settles: a PATCH of that job with status PRINTED or FAILED.\<close>

definition settles :: "bridge_config \<Rightarrow> http_request \<Rightarrow> jstr \<Rightarrow> bool" where
  "settles cfg rq k \<longleftrightarrow> rq_method rq = ''PATCH'' \<and> rq_url rq = cf_apiUrl cfg @ update_path k
     \<and> (case rq_body rq of
          Some (JObj r) \<Rightarrow> fld r ''status'' \<in> {Some (JStr (js ''PRINTED'')), Some (JStr (js ''FAILED''))}
        | _ \<Rightarrow> False)"

definition report_request :: "bridge_config \<Rightarrow> jstr \<Rightarrow> json \<Rightarrow> jstr \<Rightarrow> http_request" where
  "report_request cfg k body key = \<lparr>rq_method = ''PATCH'', rq_url = cf_apiUrl cfg @ update_path k,
     rq_headers = auth_headers cfg @ [(''Content-Type'', js ''application/json''), (''Idempotency-Key'', key)],
     rq_body = Some body\<rparr>"

lemma report_status_field [simp]:
  "(case report_json a e m res st of JObj r \<Rightarrow> fld r ''status'' | _ \<Rightarrow> None)
     = Some (JStr (js (report_name st)))"
  by (simp add: report_json_def fld_append split: option.splits)

lemma settles_report:
  "settles cfg (report_request cfg k (report_json a e m res st) key) k' \<longleftrightarrow>
     k' = k \<and> st \<noteq> SENT"
proof -
  obtain r where r: "report_json a e m res st = JObj r" by (simp add: report_json_def)
  then have f: "fld r ''status'' = Some (JStr (js (report_name st)))"
    using report_status_field [of a e m res st] by simp
  show ?thesis
    by (simp add: settles_def report_request_def update_path_def r f) (cases st; auto)
qed

lemma fetch_run:
  assumes "fetch rq w = (res, w')"
  shows "\<exists>ok p. w' = log_event (EvFetch rq ok) (w\<lparr>net_plan := p\<rparr>)
    \<and> (\<forall>r. res = Ok r \<longrightarrow> ok = http_ok r)"
proof (cases "net_plan w")
  case Nil
  then have same: "w\<lparr>net_plan := []\<rparr> = w" by (cases w) simp
  have "w' = log_event (EvFetch rq False) w" "res = Stop"
    using assms Nil by (auto simp: fetch_def)
  then show ?thesis by (intro exI [of _ False] exI [of _ "[]"]) (simp only: same, simp)
next
  case (Cons r p)
  then show ?thesis using assms by (cases r) (auto simp: fetch_def intro: exI [of _ p])
qed

lemma send_report_run:
  assumes "send_report cfg k body key w = (res, w')"
  shows "\<exists>ok p. w' = log_event (EvFetch (report_request cfg k body key) ok) (w\<lparr>net_plan := p\<rparr>)
    \<and> (res = Ok () \<longrightarrow> ok)"
proof -
  obtain f w1 where f: "fetch (report_request cfg k body key) w = (f, w1)" by fastforce
  have "w' = w1 \<and> (res = Ok () \<longrightarrow> (\<exists>r. f = Ok r \<and> http_ok r))"
    using assms f [unfolded report_request_def]
    by (auto simp: send_report_def api_request_def io_defs read_answer_def
        split: res.splits sum.splits if_splits)
  with fetch_run [OF f] show ?thesis by blast
qed

lemma idempotency_key_inj:
  assumes "58 \<notin> set k" "58 \<notin> set k'" "58 \<notin> set (cf_bridgeId cfg)"
    and "58 \<notin> set (js t)" "58 \<notin> set (js t')" "0 \<le> n" "0 \<le> n'"
    and "idempotency_key cfg k n t = idempotency_key cfg k' n' t'"
  shows "k = k' \<and> n = n' \<and> t = t'"
proof -
  have d: "58 \<notin> set (int_text i)" if "0 \<le> i" for i
    using that nat_digits_are_digits [of "nat i"] by (auto simp: int_text_def is_digit_def)
  have b: "58 \<notin> set (js ''print-bridge'')" by (simp add: js_def)
  have key: "split_on 58 (idempotency_key cfg x i u)
      = [js ''print-bridge'', cf_bridgeId cfg, x, int_text i, js u]"
    if "58 \<notin> set x" "58 \<notin> set (js u)" "0 \<le> i" for x i u
    using that assms(3) d b unfolding idempotency_key_def
    by (simp add: js_def [of "'':''"] split_on_append_sep split_on_plain)
  have "[js ''print-bridge'', cf_bridgeId cfg, k, int_text n, js t]
      = [js ''print-bridge'', cf_bridgeId cfg, k', int_text n', js t']"
    using key [of k t n] key [of k' t' n'] assms by metis
  then have "k = k'" "int_text n = int_text n'" "t = t'" by simp_all
  then show ?thesis using assms(6,7) by (simp add: int_text_inj)
qed

lemma parse_one:
  "parseClaimedJobs now (JArr [v]) = Inr jobs \<Longrightarrow> length jobs = 1 \<and> (\<forall>j\<in>set jobs. wf_job j)"
  using parseClaimedJobs_items by (fastforce simp: items_of_def)

lemma claim_loop_bound:
  assumes "claim_loop E cfg n jobs w = (Ok jobs', w')"
  shows "length jobs' \<le> length jobs + n \<and> (\<forall>j\<in>set jobs'. j \<in> set jobs \<or> wf_job j)"
  using assms
proof (induction n arbitrary: jobs w)
  case (Suc n)
  obtain p w1 where p: "claim_request E cfg w = (Ok p, w1)"
    using Suc.prems by (auto simp: io_bind_def split: prod.splits res.splits)
  show ?case
  proof (cases "nullish p None")
    case None
    with Suc.prems p show ?thesis by (simp add: io_bind_def io_ret_def)
  next
    case (Some v)
    show ?thesis
    proof (cases "parseClaimedJobs (iso_time E (ticks w1)) (JArr [v])")
      case (Inl e)
      with Suc.prems p Some obtain w2 where "claim_loop E cfg n jobs w2 = (Ok jobs', w')"
        by (auto simp: io_bind_def io_get_def io_seq_def split: prod.splits res.splits)
      from Suc.IH [OF this] show ?thesis by auto
    next
      case (Inr parsed)
      with Suc.prems p Some have "claim_loop E cfg n (jobs @ parsed) w1 = (Ok jobs', w')"
        by (simp add: io_bind_def io_get_def)
      from Suc.IH [OF this] parse_one [OF Inr] show ?thesis by fastforce
    qed
  qed
qed simp

section \<open>Properties\<close>

text \<open>Recovery repeats the original report. What the bridge sends for a journal entry after a
  restart is the very request it would have sent for the claimed job: same path, same body, same
  idempotency key. So the server can recognise the repetition.\<close>

theorem recovery_repeats_report:
  "recoverPrinted cfg (pj_id job) (pj_attemptCount job) result = markPrinted cfg job result
   \<and> recoverUncertainDispatch cfg (pj_id job) (pj_attemptCount job) m = markFailed cfg job m True"
  by (simp add: recoverPrinted_def markPrinted_def recoverUncertainDispatch_def markFailed_def
      recoveryIdempotencyKey_def idempotencyKey_def)

text \<open>Idempotency keys separate reports. As long as the identifiers hold no colon, two reports of a
  bridge have the same key only when they are about the same job, the same attempt and the same
  transition.\<close>

theorem idempotency_keys_separate:
  assumes "58 \<notin> set (cf_bridgeId cfg)" and "58 \<notin> set (pj_id j)" and "58 \<notin> set (pj_id j')"
    and "wf_job j" and "wf_job j'" and "t \<in> {''sent'', ''printed'', ''failed''}"
    and "t' \<in> {''sent'', ''printed'', ''failed'', ''validation-failed''}"
    and "idempotencyKey cfg j t = idempotency_key cfg (pj_id j') (pj_attemptCount j') t'"
  shows "pj_id j = pj_id j' \<and> pj_attemptCount j = pj_attemptCount j' \<and> t = t'"
proof (rule idempotency_key_inj)
  show "58 \<notin> set (js t)" "58 \<notin> set (js t')" using assms(6,7) by (auto simp: js_def)
qed (use assms in \<open>auto simp: wf_job_def idempotencyKey_def\<close>)

text \<open>Claims are bounded and validated. A claim call that returns gives at most the asked number of
  jobs and at most \<open>maxClaim\<close>, and every one of them is well formed, whatever the server answers.\<close>

theorem claims_bounded:
  assumes "claimJobs E cfg limit w = (Ok jobs, w')"
  shows "length jobs \<le> nat (min limit (cf_maxClaim cfg)) \<and> (\<forall>j\<in>set jobs. wf_job j)"
  using claim_loop_bound [OF assms [unfolded claimJobs_def]] by simp

lemma idempotency_keys_separate_witness:
  "idempotencyKey demo_config sample_job ''sent''
     = idempotency_key demo_config (js ''j1'') 1 ''sent''"
  using idempotency_keys_separate [of demo_config sample_job sample_job "''sent''" "''sent''"]
    sample_wf
  by (simp add: idempotencyKey_def sample_job_def demo_config_def js_def)

lemma claims_bounded_witness:
  "\<exists>w'. claimJobs demo_env demo_config 1
      (demo_host [] [NetResponse \<lparr>http_status = 200, http_type = Some (js ''application/json''),
         http_text = [], http_json = Some sample_claim\<rparr>]) = (Ok [sample_job], w')
   \<and> length [sample_job] \<le> nat (min 1 (cf_maxClaim demo_config))"
proof -
  let ?w = "demo_host [] [NetResponse \<lparr>http_status = 200, http_type = Some (js ''application/json''),
         http_text = [], http_json = Some sample_claim\<rparr>]"
  have m: "nat (min 1 (cf_maxClaim demo_config)) = Suc 0" by (simp add: demo_config_def)
  have "sample_claim \<noteq> JNull" by (simp add: sample_claim_def)
  then obtain w' where "claimJobs demo_env demo_config 1 ?w = (Ok [sample_job], w')"
    unfolding claimJobs_def m
    by (auto simp: claim_request_def api_request_def fetch_def io_defs demo_host_def read_answer_def
        http_ok_def contains_refl sample_parses)
  with claims_bounded [OF this] show ?thesis by blast
qed

end
