(* ===== verification/Receipt_Text.thy ===== *)
theory Receipt_Text
  imports Host Print_Types
begin

text \<open>
  The text of a receipt, \<open>apps/print-bridge/src/receipt-text.ts\<close>: word wrapping, column layout, the
  preparation and the priced layouts, totals and footer. Widths are in UTF-16 code units, as in the
  source. The bridge's configuration keeps the width between 32 and 64.
\<close>

section \<open>Wrapping\<close>

text \<open>
  The loop that cuts a word longer than the width. With width 0 it never ends: the value is \<open>None\<close>.
  \<open>chop\<close> is its result for every positive width.
\<close>

partial_function (option) chop_loop :: "nat \<Rightarrow> jstr \<Rightarrow> (jstr list \<times> jstr) option" where
  "chop_loop w remaining =
     (if length remaining \<le> w then Some ([], remaining)
      else Option.bind (chop_loop w (drop w remaining))
             (\<lambda>(pieces, rest). Some (take w remaining # pieces, rest)))"

function chop :: "nat \<Rightarrow> jstr \<Rightarrow> jstr list \<times> jstr" where
  "chop w remaining =
     (if w = 0 \<or> length remaining \<le> w then ([], remaining)
      else (case chop w (drop w remaining) of (pieces, rest) \<Rightarrow> (take w remaining # pieces, rest)))"
  by auto
termination by (relation "measure (\<lambda>(w, s). length s)") auto

declare chop.simps [simp del]

definition flush_line :: "jstr list \<Rightarrow> jstr \<Rightarrow> jstr list" where
  "flush_line wrapped current = (if current \<noteq> [] then wrapped @ [current] else wrapped)"

definition wrap_word :: "nat \<Rightarrow> jstr list \<times> jstr \<Rightarrow> jstr \<Rightarrow> jstr list \<times> jstr" where
  "wrap_word w st word = (case st of (wrapped, current) \<Rightarrow>
     if w < length word
     then (case chop w word of (pieces, rest) \<Rightarrow> (flush_line wrapped current @ pieces, rest))
     else (let candidate = (if current \<noteq> [] then current @ 32 # word else word) in
           if w < length candidate then (flush_line wrapped current, word)
           else (wrapped, candidate)))"

definition wrap :: "jstr \<Rightarrow> nat \<Rightarrow> jstr list" where
  "wrap s w =
     (case foldl (wrap_word w) ([], []) (split_on 32 s) of (wrapped, current) \<Rightarrow>
        (let out = flush_line wrapped current in if out \<noteq> [] then out else [[]]))"

definition center :: "jstr \<Rightarrow> nat \<Rightarrow> jstr list" where
  "center s w = map (\<lambda>l. replicate ((w - length l) div 2) 32 @ l) (wrap s w)"

definition twoColumns :: "jstr \<Rightarrow> jstr \<Rightarrow> nat \<Rightarrow> jstr" where
  "twoColumns left right w =
     (if w \<le> length right then take w right
      else if w < length left + length right + 1
      then take (w - length right - 1) left @ 32 # right
      else left @ replicate (w - length left - length right) 32 @ right)"

definition meta :: "jstr \<Rightarrow> jstr \<Rightarrow> nat \<Rightarrow> jstr list" where
  "meta label v w =
     (let heading = label @ js '':'' in
      if length heading + length v + 1 \<le> w then [twoColumns heading v w]
      else heading # wrap v w)"

definition columns :: "(jstr \<times> nat) list \<Rightarrow> jstr" where
  "columns vs = join_with (js '' '')
     (map (\<lambda>(i, v, width). let safe = (if width < length v then take width v else v) in
            if i = 0 then pad_end width safe else pad_start width safe)
        (enumerate 0 vs))"

section \<open>Amounts and dates\<close>

definition formatAmount :: "env \<Rightarrow> jstr \<Rightarrow> jstr option \<Rightarrow> jstr" where
  "formatAmount E amount currency = (case str_number (to_double E) amount of
       Fin q \<Rightarrow>
         if \<not> truthy currency then intl_plain E q
         else (case intl_currency E (the currency) q of
                 Some t \<Rightarrow> t | None \<Rightarrow> amount @ js '' '' @ the currency)
     | _ \<Rightarrow> if truthy currency then amount @ js '' '' @ the currency else amount)"

definition formatTime :: "env \<Rightarrow> jstr \<Rightarrow> jstr" where
  "formatTime E stamp = (if date_ok E stamp then tr_time E stamp else stamp)"

definition formatDate :: "env \<Rightarrow> jstr \<Rightarrow> jstr" where
  "formatDate E stamp = (if date_ok E stamp then tr_date E stamp else stamp)"

definition totalLine :: "env \<Rightarrow> jstr \<Rightarrow> jstr \<Rightarrow> jstr option \<Rightarrow> nat \<Rightarrow> jstr" where
  "totalLine E label v currency w = twoColumns (upper_tr E label) (formatAmount E v currency) w"

section \<open>Lines\<close>

definition adjustment_lines :: "env \<Rightarrow> receipt_line \<Rightarrow> nat \<Rightarrow> jstr list" where
  "adjustment_lines E l w =
     (if truthy (rl_adjustmentLabel l)
      then center (js ''*** '' @ upper_tr E (the (rl_adjustmentLabel l)) @ js '' ***'') w else [])"

definition detail_lines :: "receipt_line \<Rightarrow> nat \<Rightarrow> jstr list" where
  "detail_lines l w =
     concat (map (\<lambda>m. wrap (js ''  + '' @ m) w) (case rl_modifiers l of Some ms \<Rightarrow> ms | None \<Rightarrow> []))
     @ (if truthy (rl_note l) then wrap (jt ''  A~c~iklama: '' @ the (rl_note l)) w else [])"

definition preparationLine :: "env \<Rightarrow> receipt_line \<Rightarrow> nat \<Rightarrow> jstr list" where
  "preparationLine E l w =
     (let quantity = rl_quantity l @ js ''x'';
          nameWidth = max 8 (w - length quantity - 1);
          names = wrap (rl_name l) nameWidth
      in adjustment_lines E l w
         @ (case names of [] \<Rightarrow> [] | n # ns \<Rightarrow> twoColumns n quantity w # ns)
         @ detail_lines l w)"

text \<open>A rendered line: the line with its quantity, unit price and total as text.\<close>

record rendered_line =
  ri_line :: receipt_line
  ri_quantity :: jstr
  ri_unit :: jstr
  ri_total :: jstr

definition render_line :: "env \<Rightarrow> jstr option \<Rightarrow> receipt_line \<Rightarrow> rendered_line" where
  "render_line E currency l = \<lparr>ri_line = l, ri_quantity = rl_quantity l,
     ri_unit = formatAmount E (case rl_unitPrice l of Some p \<Rightarrow> p | None \<Rightarrow> js ''0'') currency,
     ri_total = (if rl_complimentary l then jt ''~IKRAM''
       else formatAmount E (case rl_lineTotal l of Some t \<Rightarrow> t
              | None \<Rightarrow> (case rl_unitPrice l of Some p \<Rightarrow> p | None \<Rightarrow> js ''0'')) currency)\<rparr>"

definition compactPricedTable ::
  "env \<Rightarrow> rendered_line list \<Rightarrow> nat \<Rightarrow> bool \<Rightarrow> jstr list" where
  "compactPricedTable E rendered w showUnitPrice =
     twoColumns (jt ''~Ur~un'') (js ''Adet'') w #
     concat (map (\<lambda>item.
       (let quantity = ri_quantity item @ js ''x'';
            names = wrap (rl_name (ri_line item)) (max 6 (w - length quantity - 1))
        in adjustment_lines E (ri_line item) w
           @ (twoColumns (case names of n # _ \<Rightarrow> n | [] \<Rightarrow> []) quantity w # tl names)
           @ (if showUnitPrice then meta (js ''Birim'') (ri_unit item) w else [])
           @ meta (js ''Toplam'') (ri_total item) w
           @ detail_lines (ri_line item) w)) rendered)"

definition max_length :: "nat \<Rightarrow> jstr list \<Rightarrow> nat" where
  "max_length n ss = foldl max n (map length ss)"

definition pricedTable ::
  "env \<Rightarrow> receipt_line list \<Rightarrow> jstr option \<Rightarrow> nat \<Rightarrow> bool \<Rightarrow> jstr list" where
  "pricedTable E ls currency w showUnitPrice =
     (let rendered = map (render_line E currency) ls;
          quantityWidth = min 5 (max_length 4 (map ri_quantity rendered));
          totalWidth = max_length 6 (map ri_total rendered);
          unitWidth = (if showUnitPrice then max_length 5 (map ri_unit rendered) else 0);
          nameWidth = int w - int quantityWidth - int totalWidth - 2
                      - (if showUnitPrice then int unitWidth + 1 else 0)
      in if nameWidth < 6 then compactPricedTable E rendered w showUnitPrice
         else
           (let row = (\<lambda>n q u t. columns ([(n, nat nameWidth), (q, quantityWidth)]
                  @ (if showUnitPrice then [(u, unitWidth)] else []) @ [(t, totalWidth)]))
            in row (jt ''~Ur~un'') (js ''Adet'') (js ''Birim'') (js ''Toplam'') #
               concat (map (\<lambda>item.
                 (let names = wrap (rl_name (ri_line item)) (nat nameWidth) in
                  adjustment_lines E (ri_line item) w
                  @ (row (case names of n # _ \<Rightarrow> n | [] \<Rightarrow> []) (ri_quantity item) (ri_unit item)
                       (ri_total item) # tl names)
                  @ detail_lines (ri_line item) w)) rendered)))"

definition renderFooterLine :: "env \<Rightarrow> jstr \<Rightarrow> nat \<Rightarrow> jstr list" where
  "renderFooterLine E line w = (case index_of 58 line of
       None \<Rightarrow> center line w
     | Some separator \<Rightarrow>
         (let label = js_trim (take separator line); v = js_trim (drop (Suc separator) line) in
          if v = [] then wrap line w
          else
            (let upperLabel = upper_tr E label in
             if length upperLabel + length v + 1 \<le> w then [twoColumns upperLabel v w]
             else upperLabel # wrap v w)))"

section \<open>The receipt\<close>

definition effective_type :: "env \<Rightarrow> print_job_claim \<Rightarrow> document_type" where
  "effective_type E job =
     (let d = pj_document job in
      case rd_documentType d of Some t \<Rightarrow> t
      | None \<Rightarrow>
          if rd_totals d \<noteq> None
             \<or> (pj_preparationStationId job = None \<and> upper_tr E (rd_stationName d) = js ''KASA'')
          then BILL else if pj_isTestPrint job then TEST else PREPARATION)"

definition header_lines :: "env \<Rightarrow> print_job_claim \<Rightarrow> nat \<Rightarrow> jstr list" where
  "header_lines E job w =
     (let d = pj_document job; isPreparation = (effective_type E job = PREPARATION) in
      [replicate w 61]
      @ (if isPreparation then []
         else (if truthy (rd_businessName d) then center (upper_tr E (the (rd_businessName d))) w else [])
              @ center (upper_tr E (rd_branchName d)) w)
      @ center (upper_tr E (rd_title d)) w
      @ (if pj_isReprint job
         then center (if 1 < pj_copies job then js ''KOPYA'' else js ''TEKRAR YAZDIRILDI'') w else [])
      @ (if pj_isTestPrint job then center (jt ''TEST ~CIKTISI'') w else [])
      @ [replicate w 61])"

definition optional_meta :: "jstr \<Rightarrow> jstr option \<Rightarrow> nat \<Rightarrow> jstr list" where
  "optional_meta label v w = (if truthy v then meta label (the v) w else [])"

definition meta_lines :: "env \<Rightarrow> print_job_claim \<Rightarrow> nat \<Rightarrow> jstr list" where
  "meta_lines E job w =
     (let d = pj_document job; ty = effective_type E job in
      (case rd_receiptNumber d of
         Some n \<Rightarrow> if ty \<noteq> PREPARATION then meta (jt ''F~I~S NO'') (num_text E n) w else []
       | None \<Rightarrow> [])
      @ meta (jt ''Sipari~s No'') (rd_orderNumber d) w
      @ (if truthy (rd_tableName d) then meta (js ''Masa'') (the (rd_tableName d)) w
         else optional_meta (jt ''Sipari~s'') (rd_orderLabel d) w)
      @ (if truthy (rd_sourceLabel d)
            \<and> (\<not> truthy (rd_waiterName d)
               \<or> the (rd_sourceLabel d) \<notin> {js ''GARSON'', js ''KASA''})
         then meta (js ''Kaynak'') (the (rd_sourceLabel d)) w else [])
      @ optional_meta (case rd_staffLabel d of Some s \<Rightarrow> s | None \<Rightarrow> js ''Garson'') (rd_waiterName d) w
      @ (if ty = COURIER
         then optional_meta (jt ''M~u~steri'') (rd_customerName d) w
              @ optional_meta (js ''Telefon'') (rd_customerPhone d) w
              @ optional_meta (js ''Adres'') (rd_deliveryAddress d) w
              @ optional_meta (jt ''~Odeme'') (rd_paymentLabel d) w
         else [])
      @ meta (js ''Tarih'') (formatDate E (rd_submittedAt d)) w
      @ meta (js ''Saat'') (formatTime E (rd_submittedAt d)) w
      @ [replicate w 45])"

text \<open>\<open>Number(v ?? 0) > 0\<close>\<close>

definition positive_amount :: "env \<Rightarrow> jstr option \<Rightarrow> bool" where
  "positive_amount E v = num_less (Fin 0)
     (case v of None \<Rightarrow> Fin 0 | Some t \<Rightarrow> str_number (to_double E) t)"

definition total_lines :: "env \<Rightarrow> receipt_totals \<Rightarrow> jstr option \<Rightarrow> nat \<Rightarrow> jstr list" where
  "total_lines E t currency w =
     (let line = (\<lambda>label v. totalLine E label v currency w) in
      [replicate w 45]
      @ (case rt_subtotal t of Some s \<Rightarrow> [line (js ''Ara toplam'') s] | None \<Rightarrow> [])
      @ (if positive_amount E (rt_discount t)
         then [line (jt ''~Indirim'') (js ''-'' @ the (rt_discount t))] else [])
      @ (if positive_amount E (rt_tax t) then [line (js ''Vergi'') (the (rt_tax t))] else [])
      @ (if positive_amount E (rt_serviceCharge t)
         then [line (jt ''Servis ~ucreti'') (the (rt_serviceCharge t))] else [])
      @ (if positive_amount E (rt_coverCharge t)
         then [line (jt ''Kuver ~ucreti'') (the (rt_coverCharge t))] else [])
      @ [line (js ''GENEL TOPLAM'') (rt_total t)]
      @ (if positive_amount E (rt_paid t) then [line (jt ''~Odenen'') (the (rt_paid t))] else [])
      @ (case rt_remaining t of Some r \<Rightarrow> [line (js ''Kalan'') r] | None \<Rightarrow> []))"

definition receipt_lines :: "env \<Rightarrow> print_job_claim \<Rightarrow> nat \<Rightarrow> jstr list" where
  "receipt_lines E job w =
     (let d = pj_document job; ty = effective_type E job in
      header_lines E job w @ meta_lines E job w
      @ (if ty = BILL \<or> ty = COURIER
         then pricedTable E (rd_lines d) (rd_currency d) w (ty = COURIER) @ [replicate w 45]
         else concat (map (\<lambda>l. preparationLine E l w) (rd_lines d)))
      @ (case rd_totals d of None \<Rightarrow> [] | Some t \<Rightarrow> total_lines E t (rd_currency d) w)
      @ (case rd_footer d of
           Some (f # fs) \<Rightarrow> replicate w 45 # concat (map (\<lambda>l. renderFooterLine E l w) (f # fs))
         | _ \<Rightarrow> [])
      @ [replicate w 61, [], [], []])"

definition renderReceiptText :: "env \<Rightarrow> print_job_claim \<Rightarrow> nat \<Rightarrow> jstr" where
  "renderReceiptText E job columnWidth = join_with [10] (receipt_lines E job columnWidth)"

section \<open>Widths\<close>

definition fits :: "nat \<Rightarrow> jstr list \<Rightarrow> bool" where
  "fits w ls \<longleftrightarrow> (\<forall>l\<in>set ls. length l \<le> w)"

lemma fits_simps [simp]: "fits w []" "fits w (l # ls) \<longleftrightarrow> length l \<le> w \<and> fits w ls"
  "fits w (ls @ ms) \<longleftrightarrow> fits w ls \<and> fits w ms"
  "fits w (concat lss) \<longleftrightarrow> (\<forall>ls\<in>set lss. fits w ls)"
  by (auto simp: fits_def)

lemma fits_mono: "fits v ls \<Longrightarrow> v \<le> w \<Longrightarrow> fits w ls"
  by (auto simp: fits_def)

lemma chop_loop_chop: "0 < w \<Longrightarrow> chop_loop w s = Some (chop w s)"
proof (induction w s rule: chop.induct)
  case (1 w s)
  then show ?case
    by (subst chop_loop.simps, subst chop.simps) (auto split: prod.splits)
qed

lemma chop_fits: "0 < w \<Longrightarrow> chop w s = (ps, r) \<Longrightarrow> fits w ps \<and> length r \<le> w"
proof (induction w s arbitrary: ps rule: chop.induct)
  case (1 w s)
  show ?case
  proof (cases "length s \<le> w")
    case True
    with 1 show ?thesis by (simp add: chop.simps [of w s])
  next
    case False
    obtain qs t where q: "chop w (drop w s) = (qs, t)" by fastforce
    with 1 False have "ps = take w s # qs" "r = t" by (simp_all add: chop.simps [of w s])
    with "1.IH" [of qs] 1 False q show ?thesis by simp
  qed
qed

lemma fits_flush_line: "fits w ls \<Longrightarrow> length c \<le> w \<Longrightarrow> fits w (flush_line ls c)"
  by (simp add: flush_line_def)

lemma wrap_word_fits:
  assumes "0 < w" "fits w ls" "length c \<le> w" "wrap_word w (ls, c) word = (ls', c')"
  shows "fits w ls' \<and> length c' \<le> w"
proof (cases "w < length word")
  case True
  obtain ps r where p: "chop w word = (ps, r)" by fastforce
  with True assms chop_fits [OF assms(1) p] show ?thesis
    by (auto simp: wrap_word_def fits_flush_line)
next
  case False
  with assms show ?thesis
    by (auto simp: wrap_word_def Let_def fits_flush_line split: if_splits)
qed

lemma wrap_words_fit:
  assumes "0 < w" "fits w ls" "length c \<le> w" "foldl (wrap_word w) (ls, c) ws = (ls', c')"
  shows "fits w ls' \<and> length c' \<le> w"
  using assms(2-)
proof (induction ws arbitrary: ls c)
  case (Cons x ws)
  obtain ls1 c1 where s: "wrap_word w (ls, c) x = (ls1, c1)" by fastforce
  with wrap_word_fits [OF assms(1) Cons.prems(1,2) s] Cons.IH [of ls1 c1] Cons.prems(3)
  show ?case by simp
qed simp

lemma wrap_fits: "0 < w \<Longrightarrow> fits w (wrap s w)"
proof -
  assume w: "0 < w"
  obtain ls c where f: "foldl (wrap_word w) ([], []) (split_on 32 s) = (ls, c)" by fastforce
  from wrap_words_fit [OF w _ _ f] show ?thesis
    by (simp add: wrap_def f Let_def fits_flush_line)
qed

lemma wrap_nonempty [simp]: "wrap s w \<noteq> []"
  by (simp add: wrap_def Let_def split: prod.splits)

lemma center_fits: "0 < w \<Longrightarrow> fits w (center s w)"
  using wrap_fits [of w s] by (fastforce simp: fits_def center_def)

lemma twoColumns_fits: "length (twoColumns l r w) \<le> w"
  by (simp add: twoColumns_def)

lemma meta_fits: "0 < w \<Longrightarrow> length label < w \<Longrightarrow> fits w (meta label v w)"
  using wrap_fits by (simp add: meta_def Let_def twoColumns_fits)

lemma optional_meta_fits: "0 < w \<Longrightarrow> length label < w \<Longrightarrow> fits w (optional_meta label v w)"
  by (simp add: optional_meta_def meta_fits)

lemma adjustment_fits: "0 < w \<Longrightarrow> fits w (adjustment_lines E l w)"
  by (simp add: adjustment_lines_def center_fits)

lemma detail_fits: "0 < w \<Longrightarrow> fits w (detail_lines l w)"
  using wrap_fits by (auto simp: detail_lines_def)

lemma wrap_mono_fits: "0 < v \<Longrightarrow> v \<le> w \<Longrightarrow> fits w (wrap s v)"
  using fits_mono wrap_fits by blast

lemma fits_tl: "fits w ls \<Longrightarrow> fits w (tl ls)"
  by (cases ls) simp_all

lemma preparationLine_fits: "8 \<le> w \<Longrightarrow> fits w (preparationLine E l w)"
  using wrap_mono_fits [of "max 8 (w - length (rl_quantity l @ js ''x'') - 1)" w "rl_name l"]
  by (auto simp: preparationLine_def Let_def adjustment_fits detail_fits twoColumns_fits
      split: list.splits)

lemma columns_length:
  "vs \<noteq> [] \<Longrightarrow> length (columns vs) = sum_list (map snd vs) + length vs - 1"
proof -
  have cell: "length (let safe = (if k < length v then take k v else v) in
      if i = (0::nat) then pad_end k safe else pad_start k safe) = k" for i k v
    by (simp add: Let_def pad_end_def pad_start_def)
  have join: "ps \<noteq> [] \<Longrightarrow>
      length (join_with (js '' '') ps) = sum_list (map length ps) + length ps - 1" for ps
  proof (induction ps)
    case (Cons p ps)
    then show ?case by (cases ps) simp_all
  qed simp
  have widths: "map (\<lambda>p. snd (snd p)) (enumerate n vs) = map snd vs" for n
    by (induction vs arbitrary: n) simp_all
  assume "vs \<noteq> []"
  then have "enumerate (0::nat) vs \<noteq> []" by (simp add: enumerate_eq_zip)
  moreover have "map (\<lambda>(i, v, k). length (let safe = (if k < length v then take k v else v) in
      if i = (0::nat) then pad_end k safe else pad_start k safe)) (enumerate 0 vs) = map snd vs"
    using widths [of 0] by (simp only: cell) (simp add: case_prod_unfold)
  ultimately show ?thesis
    unfolding columns_def by (subst join) (simp_all add: case_prod_unfold o_def)
qed

lemma compact_fits: "7 \<le> w \<Longrightarrow> fits w (compactPricedTable E rendered w b)"
proof -
  assume w: "7 \<le> w"
  have n: "fits w (tl (wrap s (max 6 (w - k - 1))))" for s k
    using w by (intro fits_tl wrap_mono_fits) auto
  have labels: "length (js ''Birim'') < 7" "length (js ''Toplam'') < 7" by simp_all
  show ?thesis
    using w n by (auto simp: compactPricedTable_def Let_def twoColumns_fits adjustment_fits
        detail_fits meta_fits)
qed

lemma pricedTable_fits: "7 \<le> w \<Longrightarrow> fits w (pricedTable E ls currency w b)"
proof -
  assume w: "7 \<le> w"
  let ?r = "map (render_line E currency) ls"
  let ?q = "min 5 (max_length 4 (map ri_quantity ?r))"
  let ?t = "max_length 6 (map ri_total ?r)"
  let ?u = "if b then max_length 5 (map ri_unit ?r) else 0"
  let ?n = "int w - int ?q - int ?t - 2 - (if b then int ?u + 1 else 0)"
  show ?thesis
  proof (cases "?n < 6")
    case True
    then show ?thesis
      unfolding pricedTable_def Let_def using w by (simp only: if_True compact_fits)
  next
    case False
    have row: "length (columns ([(n, nat ?n), (q, ?q)] @ (if b then [(u, ?u)] else []) @ [(t, ?t)])) \<le> w"
      for n q u t
      using False by (subst columns_length) auto
    have names: "fits w (tl (wrap s (nat ?n)))" for s
      using False by (intro fits_tl wrap_mono_fits) auto
    show ?thesis
      unfolding pricedTable_def Let_def using False w row names
      by (auto simp only: if_False fits_simps adjustment_fits detail_fits set_map)
  qed
qed

lemma footer_fits:
  assumes "0 < w"
    and "\<And>i. index_of 58 l = Some i \<Longrightarrow> length (upper_tr E (js_trim (take i l))) \<le> w"
  shows "fits w (renderFooterLine E l w)"
  using assms wrap_fits
  by (auto simp: renderFooterLine_def Let_def center_fits twoColumns_fits split: option.splits)

lemma header_fits: "0 < w \<Longrightarrow> fits w (header_lines E job w)"
  by (simp add: header_lines_def Let_def center_fits)

lemma meta_lines_fit:
  assumes "12 \<le> w" and "\<forall>s. rd_staffLabel (pj_document job) = Some s \<longrightarrow> length s < w"
  shows "fits w (meta_lines E job w)"
proof -
  have staff: "length (case rd_staffLabel (pj_document job) of Some s \<Rightarrow> s | None \<Rightarrow> js ''Garson'') < w"
    using assms by (cases "rd_staffLabel (pj_document job)") auto
  show ?thesis
    using assms(1) staff
    by (auto simp: meta_lines_def Let_def meta_fits optional_meta_fits split: option.splits)
qed

lemma total_lines_fit: "fits w (total_lines E t currency w)"
  by (simp add: total_lines_def Let_def totalLine_def twoColumns_fits split: option.splits)

text \<open>The only texts that can be wider than the paper are unwrapped headings that come with the
  document: the staff label and the labels of footer lines.\<close>

definition headings_fit :: "env \<Rightarrow> receipt_document \<Rightarrow> nat \<Rightarrow> bool" where
  "headings_fit E d w \<longleftrightarrow> (\<forall>s. rd_staffLabel d = Some s \<longrightarrow> length s < w)
     \<and> (\<forall>f. rd_footer d = Some f \<longrightarrow> (\<forall>l\<in>set f. \<forall>i. index_of 58 l = Some i \<longrightarrow>
          length (upper_tr E (js_trim (take i l))) \<le> w))"

lemma receipt_lines_fit:
  assumes "12 \<le> w" and "headings_fit E (pj_document job) w"
  shows "fits w (receipt_lines E job w)"
proof -
  have "fits w (case rd_footer (pj_document job) of
      Some (f # fs) \<Rightarrow> replicate w 45 # concat (map (\<lambda>l. renderFooterLine E l w) (f # fs)) | _ \<Rightarrow> [])"
    using assms by (auto simp: headings_fit_def intro!: footer_fits split: option.splits list.splits)
  with assms show ?thesis
    by (auto simp: receipt_lines_def Let_def headings_fit_def header_fits meta_lines_fit
        total_lines_fit pricedTable_fits preparationLine_fits split: option.splits)
qed

lemma split_join_pieces:
  "p \<in> set (split_on c (join_with [c] ls)) \<Longrightarrow> ls \<noteq> [] \<Longrightarrow> \<exists>l\<in>set ls. length p \<le> length l"
proof (induction ls arbitrary: p)
  case (Cons l ls)
  have piece: "p \<in> set (split_on c s) \<Longrightarrow> length p \<le> length s" for s p :: jstr
    by (induction s arbitrary: p) (fastforce split: if_splits list.splits)+
  have app: "split_on c (s @ c # t) = split_on c s @ split_on c t" for s t
    by (induction s) (auto split: list.splits)
  show ?case
    using Cons piece by (cases ls) (auto simp: app)
qed simp

section \<open>Nothing is lost\<close>

text \<open>The printed units other than blanks, with their multiplicities.\<close>

definition ink :: "jstr \<Rightarrow> nat multiset" where
  "ink s = mset (filter (\<lambda>c. c \<noteq> 32) s)"

definition inks :: "jstr list \<Rightarrow> nat multiset" where
  "inks ls = sum_list (map ink ls)"

lemma ink_simps [simp]: "ink [] = {#}" "ink (a @ b) = ink a + ink b" "ink (32 # s) = ink s"
  "ink (replicate n 32) = {#}"
  by (simp_all add: ink_def)

lemma inks_simps [simp]: "inks [] = {#}" "inks (l # ls) = ink l + inks ls"
  "inks (ls @ ms) = inks ls + inks ms"
  by (simp_all add: inks_def)

lemma ink_take_drop: "ink (take n s) + ink (drop n s) = ink s"
  by (metis append_take_drop_id ink_simps(2))

lemma chop_ink: "chop w s = (ps, r) \<Longrightarrow> inks ps + ink r = ink s"
proof (induction w s arbitrary: ps rule: chop.induct)
  case (1 w s)
  show ?case
  proof (cases "w = 0 \<or> length s \<le> w")
    case True
    with 1 show ?thesis by (simp add: chop.simps [of w s])
  next
    case False
    obtain qs t where q: "chop w (drop w s) = (qs, t)" by fastforce
    with 1 False have "ps = take w s # qs" "r = t" by (simp_all add: chop.simps [of w s])
    with "1.IH" [of qs] False q ink_take_drop [of w s] show ?thesis by (simp add: add.assoc)
  qed
qed

lemma inks_flush_line [simp]: "inks (flush_line ls c) = inks ls + ink c"
  by (simp add: flush_line_def)

lemma wrap_word_ink:
  "wrap_word w (ls, c) word = (ls', c') \<Longrightarrow> inks ls' + ink c' = inks ls + ink c + ink word"
  by (auto simp: wrap_word_def Let_def add.assoc dest: chop_ink split: if_splits prod.splits)

lemma wrap_words_ink:
  "foldl (wrap_word w) (ls, c) ws = (ls', c') \<Longrightarrow> inks ls' + ink c' = inks ls + ink c + inks ws"
proof (induction ws arbitrary: ls c)
  case (Cons x ws)
  obtain ls1 c1 where s: "wrap_word w (ls, c) x = (ls1, c1)" by fastforce
  with Cons.IH [of ls1 c1] Cons.prems wrap_word_ink [OF s] show ?case by (simp add: add.assoc)
qed simp

lemma split_on_ink: "inks (split_on 32 s) = ink s"
proof (induction s)
  case (Cons x s)
  then show ?case by (cases "split_on 32 s") (auto simp: ink_def)
qed simp

lemma wrap_ink: "inks (wrap s w) = ink s"
proof -
  obtain ls c where f: "foldl (wrap_word w) ([], []) (split_on 32 s) = (ls, c)" by fastforce
  have "inks (flush_line ls c) = ink s"
    using wrap_words_ink [OF f] by (simp add: split_on_ink)
  moreover have "flush_line ls c = [] \<Longrightarrow> ink s = {#}" using calculation by simp
  ultimately show ?thesis by (auto simp: wrap_def f Let_def)
qed

lemma center_ink: "inks (center s w) = ink s"
proof -
  have "inks (map (\<lambda>l. replicate (f l) 32 @ l) ls) = inks ls" for f :: "jstr \<Rightarrow> nat" and ls
    by (induction ls) simp_all
  then show ?thesis by (simp add: center_def wrap_ink)
qed

lemma twoColumns_ink:
  "length l + length r + 1 \<le> w \<Longrightarrow> ink (twoColumns l r w) = ink l + ink r"
  by (simp add: twoColumns_def)

lemma meta_ink: "inks (meta label v w) = ink (label @ js '':'') + ink v"
  by (simp add: meta_def Let_def twoColumns_ink wrap_ink)

definition label_ink :: "env \<Rightarrow> receipt_line \<Rightarrow> nat multiset" where
  "label_ink E l = (if truthy (rl_adjustmentLabel l)
     then ink (js ''*** '' @ upper_tr E (the (rl_adjustmentLabel l)) @ js '' ***'') else {#})"

definition details_ink :: "receipt_line \<Rightarrow> nat multiset" where
  "details_ink l =
     sum_list (map (\<lambda>m. ink (js ''  + '' @ m)) (case rl_modifiers l of Some ms \<Rightarrow> ms | None \<Rightarrow> []))
     + (if truthy (rl_note l) then ink (jt ''  A~c~iklama: '' @ the (rl_note l)) else {#})"

lemma detail_ink: "inks (detail_lines l w) = details_ink l"
proof -
  have "inks (concat (map f xs)) = sum_list (map (inks \<circ> f) xs)" for f :: "jstr \<Rightarrow> jstr list" and xs
    by (induction xs) simp_all
  then show ?thesis by (simp add: detail_lines_def details_ink_def wrap_ink o_def)
qed

lemma adjustment_ink: "inks (adjustment_lines E l w) = label_ink E l"
  by (simp add: adjustment_lines_def label_ink_def center_ink)

section \<open>Properties\<close>

lemma chop_loop_zero: "chop_loop w s = Some r \<Longrightarrow> 0 < w \<or> s = []"
proof (rule chop_loop.raw_induct [where P = "\<lambda>w s r. 0 < w \<or> s = []"])
  fix f :: "nat \<Rightarrow> jstr \<Rightarrow> (jstr list \<times> jstr) option" and v t q
  assume IH: "\<And>v t q. f v t = Some q \<Longrightarrow> 0 < v \<or> t = []"
    and body: "(if length t \<le> v then Some ([], t)
      else Option.bind (f v (drop v t)) (\<lambda>(pieces, rest). Some (take v t # pieces, rest))) = Some q"
  show "0 < v \<or> t = []"
  proof (cases "length t \<le> v")
    case False
    then obtain q' where "f v (drop v t) = Some q'" using body by (cases "f v (drop v t)") auto
    with IH [OF this] show ?thesis by (cases v) auto
  next
    case True
    then show ?thesis by (cases t) auto
  qed
qed

text \<open>C40: The cutting loop ends exactly when it can: for every positive width it returns, with pieces
  of at most that width that together are the word; for width 0 and a non-empty word it never
  returns.\<close>

theorem cutting_terminates:
  "(chop_loop w s \<noteq> None) = (0 < w \<or> s = [])
   \<and> (0 < w \<longrightarrow> (\<exists>ps r. chop_loop w s = Some (ps, r) \<and> concat ps @ r = s \<and> fits w ps \<and> length r \<le> w))"
proof -
  have cat: "chop w s = (ps, r) \<Longrightarrow> concat ps @ r = s" for ps r
  proof (induction w s arbitrary: ps rule: chop.induct)
    case (1 w s)
    then show ?case
      by (cases "w = 0 \<or> length s \<le> w"; cases "chop w (drop w s)") (auto simp: chop.simps [of w s])
  qed
  obtain ps r where c: "chop w s = (ps, r)" by fastforce
  have empty: "chop_loop w [] = Some ([], [])" by (subst chop_loop.simps) simp
  show ?thesis
  proof (cases "0 < w")
    case True
    then show ?thesis
      using chop_loop_chop [of w s] c cat [OF c] chop_fits [OF _ c] by auto
  next
    case False
    then show ?thesis using chop_loop_zero [of w s] empty by (cases "chop_loop w s") auto
  qed
qed

lemma cutting_terminates_witness:
  "\<exists>ps r. chop_loop 2 (js ''abcde'') = Some (ps, r) \<and> concat ps @ r = js ''abcde''"
  using cutting_terminates [of 2 "js ''abcde''"] by auto


text \<open>A preparation ticket loses nothing of a line. When the quantity leaves room for eight units of
  the name, the printed lines of an ordered item hold exactly the non-blank units of its adjustment
  label, name, quantity, modifiers and note.\<close>

theorem preparation_line_complete:
  assumes "length (rl_quantity l) + 10 \<le> w"
  shows "inks (preparationLine E l w) =
    label_ink E l + ink (rl_name l) + ink (rl_quantity l @ js ''x'') + details_ink l"
proof -
  define v where "v = max 8 (w - length (rl_quantity l @ js ''x'') - 1)"
  obtain n ns where n: "wrap (rl_name l) v = n # ns" by (cases "wrap (rl_name l) v") auto
  have "fits v (n # ns)" unfolding n [symmetric] by (rule wrap_fits) (simp add: v_def)
  then have "length n \<le> v" by simp
  then have "length n + length (rl_quantity l @ js ''x'') + 1 \<le> w"
    using assms by (simp add: v_def)
  from twoColumns_ink [OF this] wrap_ink [of "rl_name l" v]
  show ?thesis
    unfolding preparationLine_def Let_def v_def [symmetric] n
    by (simp add: adjustment_ink detail_ink ac_simps del: ink_simps(2))
qed

definition demo_line :: "string \<Rightarrow> receipt_line" where
  "demo_line q = \<lparr>rl_name = js ''Tea'', rl_quantity = js q, rl_unitPrice = Some (js ''3''),
     rl_lineTotal = Some (js ''6''), rl_modifiers = None, rl_note = None, rl_complimentary = False,
     rl_adjustmentLabel = None\<rparr>"

lemma preparation_line_complete_witness:
  "inks (preparationLine demo_env (demo_line ''2'') 42) =
     label_ink demo_env (demo_line ''2'') + ink (js ''Tea'') + ink (js ''2'' @ js ''x'')
     + details_ink (demo_line ''2'')"
  using preparation_line_complete [of "demo_line ''2''" 42 demo_env] by (simp add: demo_line_def)

lemma blanks: "replicate 5 (x::nat) = [x, x, x, x, x]" "replicate 6 x = [x, x, x, x, x, x]"
  by (simp_all add: eval_nat_numeral)

text \<open>The priced table does lose text: the quantity column is at most five units wide and a longer
  quantity is cut, so that 12.500 is printed as 12.50. The module's comment promises a rendering
  without truncation.\<close>

theorem priced_table_cuts_quantity:
  "pricedTable demo_env [demo_line ''12.500''] None 22 False =
     [jt ''~Ur~un       Adet Toplam'', js ''Tea       12.50      6'']"
  by (simp add: pricedTable_def Let_def render_line_def demo_line_def formatAmount_def demo_env_def
      str_number_def js_def js_trim_def is_space_def to_lower_def lower_unit_def signed_decimal_def
      starts_with_def unsigned_decimal_def exponent_part_def is_digit_def digits_value_def
      max_length_def columns_def pad_end_def pad_start_def wrap_def wrap_word_def flush_line_def
      adjustment_lines_def detail_lines_def turkish_def int_text_def nat_digits.simps [of 6] blanks)

end
