(* ===== verification/Cups_Job.thy ===== *)
theory Cups_Job
  imports Host
begin

text \<open>
  The IPP exchange with the local CUPS scheduler, \<open>apps/print-bridge/src/cups-job.ts\<close>: the request
  as bytes, and the parser that finds the job state in the answer.
\<close>

section \<open>Bytes\<close>

text \<open>The UTF-8 bytes of an ASCII text.\<close>

definition ascii :: "string \<Rightarrow> 8 word list" where
  "ascii s = map (\<lambda>c. word_of_nat (of_char c)) s"

definition write16 :: "nat \<Rightarrow> 8 word list" where
  "write16 n = [word_of_nat (n div 256), word_of_nat (n mod 256)]"

definition read16 :: "8 word list \<Rightarrow> nat \<Rightarrow> nat" where
  "read16 data i = unat (data ! i) * 256 + unat (data ! Suc i)"

definition readInt32BE :: "8 word list \<Rightarrow> nat \<Rightarrow> int" where
  "readInt32BE data i =
     (let n = int (read16 data i) * 65536 + int (read16 data (i + 2))
      in if n < 2 ^ 31 then n else n - 2 ^ 32)"

definition attribute :: "8 word \<Rightarrow> 8 word list \<Rightarrow> 8 word list \<Rightarrow> 8 word list" where
  "attribute tag key data = tag # write16 (length key) @ key @ write16 (length data) @ data"

definition cups_request :: "int \<Rightarrow> 8 word list" where
  "cups_request jobId =
     [2, 0, 0, 9, 0, 0, 0, 1, 1]
     @ attribute 0x47 (ascii ''attributes-charset'') (ascii ''utf-8'')
     @ attribute 0x48 (ascii ''attributes-natural-language'') (ascii ''en'')
     @ attribute 0x45 (ascii ''job-uri'')
         (ascii ''ipp://localhost/jobs/'' @ map word_of_nat (int_text jobId))
     @ attribute 0x44 (ascii ''requested-attributes'') (ascii ''job-state'')
     @ [3]"

section \<open>Parsing\<close>

text \<open>The loop over the attributes; \<open>None\<close> is \<open>break\<close>.\<close>

function cups_scan :: "8 word list \<Rightarrow> nat \<Rightarrow> 8 word list \<Rightarrow> int option" where
  "cups_scan data offset name =
     (if length data \<le> offset then None
      else
        (let tag = data ! offset; offset = offset + 1 in
         if tag = 3 then None
         else if tag < 0x10 then cups_scan data offset []
         else if length data < offset + 2 then None
         else
           (let nameSize = read16 data offset; offset = offset + 2 in
            if length data < offset + nameSize + 2 then None
            else
              (let name = (if 0 < nameSize then take nameSize (drop offset data) else name);
                   offset = offset + nameSize;
                   valueSize = read16 data offset;
                   offset = offset + 2
               in if length data < offset + valueSize then None
                  else if name = ascii ''job-state'' \<and> tag = 0x23 \<and> valueSize = 4
                  then (let state = readInt32BE data offset in
                        if 3 \<le> state \<and> state \<le> 9 then Some state else None)
                  else cups_scan data (offset + valueSize) name))))"
  by pat_completeness auto
termination by (relation "measure (\<lambda>(data, offset, name). length data - offset)") auto

declare cups_scan.simps [simp del]

definition parseCupsJobState :: "8 word list \<Rightarrow> exn + int" where
  "parseCupsJobState data =
     (if length data < 9 \<or> 65536 < length data \<or> 0xff < read16 data 2
      then throw (jt ''CUPS ge~cerli bir i~s durumu d~ond~urmedi'')
      else case cups_scan data 8 [] of
        Some state \<Rightarrow> Inr state
      | None \<Rightarrow> throw (jt ''CUPS i~s durumu eksik veya ge~cersiz''))"

text \<open>\<open>cupsJobState\<close>: one exchange of the plan.\<close>

definition cups_state :: "cups_reply \<Rightarrow> exn + int" where
  "cups_state r = (case r of
       CupsAnswer ok body \<Rightarrow>
         if ok then parseCupsJobState body else throw (jt ''CUPS i~s durumu okunamad~i'')
     | CupsErr m \<Rightarrow> throw m
     | CupsStop \<Rightarrow> throw [])"

section \<open>What the parser finds\<close>

lemma cups_scan_range: "cups_scan data offset name = Some s \<Longrightarrow> 3 \<le> s \<and> s \<le> 9"
proof (induction data offset name rule: cups_scan.induct)
  case (1 data offset name)
  then show ?case
    by (subst (asm) (3) cups_scan.simps) (auto simp: Let_def split: if_splits)
qed

lemma length_write16 [simp]: "length (write16 n) = 2"
  by (simp add: write16_def)

lemma read16_write16 [simp]:
  "n < 65536 \<Longrightarrow> read16 (pre @ write16 n @ post) (length pre) = n"
  by (simp add: read16_def write16_def nth_append unat_of_nat)

lemma attribute_length [simp]: "length (attribute t k v) = 5 + length k + length v"
  by (simp add: attribute_def)

lemma read16_at:
  "n < 65536 \<Longrightarrow> i = length pre \<Longrightarrow> data = pre @ write16 n @ post \<Longrightarrow> read16 data i = n"
  by simp

lemma attribute_reads:
  assumes "data = pre @ attribute t k v @ post" and "length k < 65536" and "length v < 65536"
  shows "data ! length pre = t"
    and "read16 data (length pre + 1) = length k"
    and "take (length k) (drop (length pre + 3) data) = k"
    and "read16 data (length pre + 3 + length k) = length v"
    and "length pre + 5 + length k + length v \<le> length data"
proof -
  show "data ! length pre = t" by (simp add: assms(1) attribute_def nth_append)
  show "read16 data (length pre + 1) = length k"
    by (rule read16_at [where pre = "pre @ [t]" and post = "k @ write16 (length v) @ v @ post"])
      (simp_all add: assms attribute_def)
  have "data = (pre @ t # write16 (length k)) @ k @ write16 (length v) @ v @ post"
    by (simp add: assms(1) attribute_def)
  then show "take (length k) (drop (length pre + 3) data) = k" by simp
  show "read16 data (length pre + 3 + length k) = length v"
    by (rule read16_at [where pre = "pre @ t # write16 (length k) @ k" and post = "v @ post"])
      (simp_all add: assms attribute_def)
  show "length pre + 5 + length k + length v \<le> length data"
    by (simp add: assms(1))
qed

lemma cups_scan_attribute:
  assumes "data = pre @ attribute t k v @ post" and "length k < 65536" and "length v < 65536"
    and "k \<noteq> []" and "\<not> t < 16" and "t \<noteq> 3"
  shows "cups_scan data (length pre) nm =
     (if k = ascii ''job-state'' \<and> t = 0x23 \<and> length v = 4
      then (let state = readInt32BE data (length pre + 5 + length k) in
            if 3 \<le> state \<and> state \<le> 9 then Some state else None)
      else cups_scan data (length pre + 5 + length k + length v) k)"
proof -
  note reads = attribute_reads [OF assms(1-3)]
  have o: "length pre + 1 + 2 = length pre + 3" "length pre + 3 + length k + 2 = length pre + 5 + length k"
    by simp_all
  have "\<not> length data \<le> length pre" "\<not> length data < length pre + 3"
      "\<not> length data < length pre + 3 + length k + 2"
      "\<not> length data < length pre + 5 + length k + length v"
    using reads(5) by simp_all
  then show ?thesis
    using reads(1-4) assms(4-6)
    by (subst cups_scan.simps) (simp only: Let_def o if_False simp_thms length_greater_0_conv if_True)
qed

lemma cups_scan_skip:
  assumes "data = pre @ attribute t k v @ post" and "length k < 65536" and "length v < 65536"
    and "k \<noteq> []" and "k \<noteq> ascii ''job-state''" and "16 \<le> t"
  shows "cups_scan data (length pre) nm = cups_scan data (length (pre @ attribute t k v)) k"
proof -
  have "\<not> t < 16" "t \<noteq> 3" using assms(6) by auto
  from cups_scan_attribute [OF assms(1-4) this] assms(5) show ?thesis by (simp add: add.assoc)
qed

lemma cups_scan_found:
  assumes "data = pre @ attribute 0x23 (ascii ''job-state'') (write16 0 @ write16 n) @ post"
    and "3 \<le> n" and "n \<le> 9"
  shows "cups_scan data (length pre) nm = Some (int n)"
proof -
  let ?k = "ascii ''job-state''"
  have lk: "length ?k = 9" by (simp add: ascii_def)
  have k: "length ?k < 65536" "length (write16 0 @ write16 n) < 65536" "?k \<noteq> []"
    by (simp_all add: lk) (simp add: ascii_def)
  have "read16 data (length pre + 14) = 0"
    by (rule read16_at [where pre = "pre @ 0x23 # write16 9 @ ?k @ write16 4" and post = "write16 n @ post"])
      (simp_all add: assms(1) attribute_def lk)
  moreover have "read16 data (length pre + 16) = n"
    by (rule read16_at [where pre = "pre @ 0x23 # write16 9 @ ?k @ write16 4 @ write16 0" and post = post])
      (use assms(3) in \<open>simp_all add: assms(1) attribute_def lk\<close>)
  ultimately have "readInt32BE data (length pre + 5 + length ?k) = int n"
    using assms(3) by (simp add: readInt32BE_def Let_def add.commute lk)
  with cups_scan_attribute [OF assms(1) k, of nm] assms(2,3) show ?thesis
    by (simp add: Let_def)
qed

text \<open>Attributes before the job state: each with a name of its own.\<close>

definition plain_attribute :: "8 word \<times> 8 word list \<times> 8 word list \<Rightarrow> bool" where
  "plain_attribute a \<longleftrightarrow> (case a of (t, k, v) \<Rightarrow> 16 \<le> t \<and> k \<noteq> [] \<and> k \<noteq> ascii ''job-state''
     \<and> length k < 65536 \<and> length v < 65536)"

definition encode_attributes :: "(8 word \<times> 8 word list \<times> 8 word list) list \<Rightarrow> 8 word list" where
  "encode_attributes as = concat (map (\<lambda>(t, k, v). attribute t k v) as)"

lemma cups_scan_attributes:
  assumes "\<forall>a\<in>set as. plain_attribute a"
    and "data = pre @ encode_attributes as @ attribute 0x23 (ascii ''job-state'') (write16 0 @ write16 n) @ post"
    and "3 \<le> n" and "n \<le> 9"
  shows "cups_scan data (length pre) nm = Some (int n)"
  using assms(1,2)
proof (induction as arbitrary: pre nm)
  case Nil
  then show ?case using cups_scan_found assms(3,4) by (simp add: encode_attributes_def)
next
  case (Cons a as)
  obtain t k v where a: "a = (t, k, v)" by (cases a) auto
  have p: "16 \<le> t" "k \<noteq> []" "k \<noteq> ascii ''job-state''" "length k < 65536" "length v < 65536"
    using Cons.prems(1) by (simp_all add: a plain_attribute_def)
  have "cups_scan data (length pre) nm = cups_scan data (length (pre @ attribute t k v)) k"
    by (rule cups_scan_skip) (use Cons.prems(2) p a in \<open>simp_all add: encode_attributes_def\<close>)
  also have "\<dots> = Some (int n)"
    by (rule Cons.IH) (use Cons.prems a in \<open>simp_all add: encode_attributes_def\<close>)
  finally show ?case .
qed

definition demo_cups_answer :: "8 word list" where
  "demo_cups_answer = [2, 0, 0, 0, 0, 0, 0, 1]
     @ attribute 0x23 (ascii ''job-state'') (write16 0 @ write16 9) @ [3]"

lemma demo_cups_answer_parses: "parseCupsJobState demo_cups_answer = Inr 9"
proof -
  have "cups_scan demo_cups_answer (length [2, 0, 0, 0, 0, 0, 0, 1 :: 8 word]) [] = Some (int 9)"
    by (rule cups_scan_found [where post = "[3]"]) (simp_all add: demo_cups_answer_def)
  then have "cups_scan demo_cups_answer 8 [] = Some 9" by (simp add: eval_nat_numeral)
  moreover have "length demo_cups_answer = 27" "read16 demo_cups_answer 2 = 0"
    by (simp_all add: demo_cups_answer_def read16_def ascii_def)
  ultimately show ?thesis by (simp add: parseCupsJobState_def)
qed

section \<open>Properties\<close>

text \<open>The state CUPS reports is the state the bridge reads. From an answer with any attributes in
  front, encoded as the bridge encodes its own, and anything behind it, the parser returns exactly the
  job state 3 to 9 that the answer holds; whatever bytes come back, it never returns anything
  outside 3 to 9.\<close>

theorem cups_state_roundtrip:
  assumes "\<forall>a\<in>set as. plain_attribute a" and "3 \<le> n" and "n \<le> 9" and "length status = 8"
    and "read16 status 2 \<le> 0xff"
    and "data = status @ encode_attributes as
           @ attribute 0x23 (ascii ''job-state'') (write16 0 @ write16 n) @ post"
    and "length data \<le> 65536"
  shows "parseCupsJobState data = Inr (int n)
    \<and> (\<forall>other s. parseCupsJobState other = Inr s \<longrightarrow> 3 \<le> s \<and> s \<le> 9)"
proof
  have "read16 data 2 = read16 status 2"
    using assms(4) by (simp add: assms(6) read16_def nth_append)
  moreover have "cups_scan data 8 [] = Some (int n)"
    using cups_scan_attributes [OF assms(1,6,2,3), of "[]"] assms(4) by simp
  ultimately show "parseCupsJobState data = Inr (int n)"
    using assms(4,5,7) by (simp add: parseCupsJobState_def assms(6))
  show "\<forall>other s. parseCupsJobState other = Inr s \<longrightarrow> 3 \<le> s \<and> s \<le> 9"
    by (auto simp: parseCupsJobState_def split: if_splits option.splits dest: cups_scan_range)
qed

lemma cups_state_roundtrip_witness:
  "parseCupsJobState ([2, 0, 0, 0, 0, 0, 0, 1]
     @ encode_attributes [(0x47, ascii ''attributes-charset'', ascii ''utf-8'')]
     @ attribute 0x23 (ascii ''job-state'') (write16 0 @ write16 9) @ [3]) = Inr (int 9)"
  by (rule cups_state_roundtrip [THEN conjunct1,
        of "[(0x47, ascii ''attributes-charset'', ascii ''utf-8'')]" 9 "[2, 0, 0, 0, 0, 0, 0, 1]" _ "[3]"])
    (simp_all add: plain_attribute_def ascii_def read16_def encode_attributes_def)

end
