(* ===== verification/Interfaces.thy ===== *)
theory Interfaces
  imports Host
begin

text \<open>
  The interfaces between the components of the bridge, as locales: the store that guards against
  duplicate prints, which the journal provides and the job loop relies on, and the printer
  transport, which the three transports provide.
\<close>

section \<open>The duplicate-print guard\<close>

text \<open>
  \<open>guarded S w\<close>: every key of \<open>S\<close> is held by the store, in memory and durably. \<open>dispatch\<close> adds the
  key of its job when it returns, \<open>printed\<close> removes none, \<open>acknowledge k\<close> may remove \<open>k\<close> only. None
  of them touches what \<open>frame\<close> observes, however it ends.
\<close>

locale duplicate_guard =
  fixes guarded :: "'k set \<Rightarrow> 'w \<Rightarrow> bool"
    and frame :: "'w \<Rightarrow> 'f"
    and dispatch :: "'j \<Rightarrow> ('w, unit) io"
    and printed :: "'j \<Rightarrow> 'r \<Rightarrow> ('w, unit) io"
    and acknowledge :: "'k \<Rightarrow> ('w, unit) io"
    and key :: "'j \<Rightarrow> 'k"
  assumes dispatch_spec:
    "spec (\<lambda>w. guarded S w \<and> frame w = f) (dispatch j)
       (\<lambda>r w. guarded (if r = Ok () then insert (key j) S else S) w \<and> frame w = f)"
    and printed_spec:
    "spec (\<lambda>w. guarded S w \<and> frame w = f) (printed j x) (\<lambda>_ w. guarded S w \<and> frame w = f)"
    and acknowledge_spec:
    "spec (\<lambda>w. guarded S w \<and> frame w = f) (acknowledge k)
       (\<lambda>_ w. guarded (S - {k}) w \<and> frame w = f)"
    and guarded_mono: "guarded S w \<Longrightarrow> T \<subseteq> S \<Longrightarrow> guarded T w"

text \<open>
  A client that reads off its observable history which keys must not be printed again
  (\<open>pending\<close>) keeps all of them guarded.
\<close>

locale pending_guard = duplicate_guard guarded frame dispatch printed acknowledge key
  for guarded :: "'k set \<Rightarrow> 'w \<Rightarrow> bool"
    and frame :: "'w \<Rightarrow> 'f"
    and dispatch :: "'j \<Rightarrow> ('w, unit) io"
    and printed :: "'j \<Rightarrow> 'r \<Rightarrow> ('w, unit) io"
    and acknowledge :: "'k \<Rightarrow> ('w, unit) io"
    and key :: "'j \<Rightarrow> 'k" +
  fixes pending :: "'f \<Rightarrow> 'k set"
begin

definition all_guarded :: "'w \<Rightarrow> bool" where
  "all_guarded w \<longleftrightarrow> guarded (pending (frame w)) w"

lemma dispatch_guards:
  "spec (\<lambda>w. all_guarded w \<and> frame w = f) (dispatch j)
     (\<lambda>r w. all_guarded w \<and> frame w = f
        \<and> (r = Ok () \<longrightarrow> guarded (insert (key j) (pending f)) w))"
  by (rule spec_conseq [OF dispatch_spec [of "pending f" f]])
    (auto simp: all_guarded_def split: if_splits intro: guarded_mono)

lemma printed_guards:
  "spec (\<lambda>w. all_guarded w \<and> frame w = f) (printed j x) (\<lambda>_ w. all_guarded w \<and> frame w = f)"
  by (rule spec_conseq [OF printed_spec [of "pending f" f]]) (auto simp: all_guarded_def)

lemma acknowledge_guards:
  "k \<notin> pending f \<Longrightarrow>
     spec (\<lambda>w. all_guarded w \<and> frame w = f) (acknowledge k) (\<lambda>_ w. all_guarded w \<and> frame w = f)"
  by (rule spec_conseq [OF acknowledge_spec [of "pending f" f]]) (auto simp: all_guarded_def)

end

section \<open>Printer transports\<close>

text \<open>
  What the job loop relies on when it calls \<open>print(job)\<close>: provided the transport's temporary files
  are apart from the journal, it does not touch what the journal and the loop own, and a result it
  returns names the job and the attempt it was asked to print.
\<close>

locale printer_transport =
  fixes print :: "'j \<Rightarrow> ('w, 'r) io"
    and apart :: bool
    and owned :: "'w \<Rightarrow> 'f"
    and result_for :: "'j \<Rightarrow> 'r \<Rightarrow> bool"
  assumes print_keeps: "apart \<Longrightarrow> keeps (\<lambda>w. owned w = f) (print j)"
    and print_result: "print j w = (Ok x, w') \<Longrightarrow> result_for j x"
begin

lemma print_spec:
  "apart \<Longrightarrow> spec (\<lambda>w. owned w = f) (print j)
     (\<lambda>r w. owned w = f \<and> (\<forall>x. r = Ok x \<longrightarrow> result_for j x))"
  using print_keeps [of f j] print_result [of j] unfolding keeps_spec spec_def by fastforce

text \<open>Whatever is decided by the owned part alone survives a print.\<close>

lemma print_preserves:
  "apart \<Longrightarrow> (\<And>w w'. owned w = owned w' \<Longrightarrow> P w \<Longrightarrow> P w') \<Longrightarrow> keeps P (print j)"
  using print_keeps unfolding keeps_def by metis

end

end
