(* ===== verification/Print_Journal.thy ===== *)
theory Print_Journal
  imports Interfaces Print_Types
begin

text \<open>
  The crash-safe journal of the print bridge, \<open>apps/print-bridge/src/journal.ts\<close>: its entries, the
  check that reads an entry back, the write-to-temporary-then-rename persistence with every failure
  and crash point, trimming, and acknowledgement with rollback. The theorems say that an
  unacknowledged entry survives everything but its own acknowledgement, in memory and on disk.
\<close>

section \<open>Entries\<close>

datatype journal_state = DISPATCHING | PRINTED

record journal_entry =
  je_jobId :: jstr
  je_attemptCount :: int
  je_printerCode :: jstr
  je_documentHash :: jstr
  je_state :: journal_state
  je_result :: "print_result option"
  je_acknowledged :: bool
  je_recordedAt :: jstr

type_synonym journal_map = "(jstr \<times> journal_entry) list"

record jworld = host +
  jn_entries :: journal_map
  jn_loaded :: bool

fun journal_state_name :: "journal_state \<Rightarrow> string" where
  "journal_state_name DISPATCHING = ''DISPATCHING''"
| "journal_state_name PRINTED = ''PRINTED''"

definition hashDocument :: "env \<Rightarrow> print_job_claim \<Rightarrow> jstr" where
  "hashDocument E job = hash_json E (document_json (pj_document job))"

definition entry_json :: "journal_entry \<Rightarrow> json" where
  "entry_json e = JObj
     [(js ''jobId'', JStr (je_jobId e)),
      (js ''attemptCount'', JNum (num_of_int (je_attemptCount e))),
      (js ''printerCode'', JStr (je_printerCode e)),
      (js ''documentHash'', JStr (je_documentHash e)),
      (js ''state'', JStr (js (journal_state_name (je_state e)))),
      (js ''result'', case je_result e of None \<Rightarrow> JNull | Some r \<Rightarrow> result_json r),
      (js ''acknowledged'', JBool (je_acknowledged e)),
      (js ''recordedAt'', JStr (je_recordedAt e))]"

text \<open>\<open>/^[a-f0-9]{64}$/\<close>\<close>

definition is_sha256_hex :: "jstr \<Rightarrow> bool" where
  "is_sha256_hex s \<longleftrightarrow> length s = 64 \<and> (\<forall>c\<in>set s. is_digit c \<or> (97 \<le> c \<and> c \<le> 102))"

text \<open>
  \<open>["mock", "windows", "macos"].includes(String(t))\<close>. A one-element array of such a string also
  prints as the string; the model keeps the word.
\<close>

fun transport_of_json :: "json \<Rightarrow> print_transport_kind option" where
  "transport_of_json (JStr s) =
     (if s = js ''mock'' then Some TMock else if s = js ''windows'' then Some TWindows
      else if s = js ''macos'' then Some TMacos else None)"
| "transport_of_json (JArr [v]) = transport_of_json v"
| "transport_of_json _ = None"

definition result_of_json :: "env \<Rightarrow> json option \<Rightarrow> print_result option" where
  "result_of_json E v = (case v of
       Some (JObj r) \<Rightarrow>
         (case (fld r ''externalReference'', fld r ''printedAt'',
                Option.bind (fld r ''transport'') transport_of_json) of
            (Some (JStr x), Some (JStr p), Some t) \<Rightarrow>
              if date_ok E p
              then Some \<lparr>pr_externalReference = x, pr_printedAt = p, pr_transport = t\<rparr>
              else None
          | _ \<Rightarrow> None)
     | _ \<Rightarrow> None)"

text \<open>
  The check of a stored entry. Entries written before the field \<open>state\<close> existed carry a result and
  count as printed. Members the check does not name are not kept by the model.
\<close>

definition asJournalEntry :: "env \<Rightarrow> json \<Rightarrow> journal_entry option" where
  "asJournalEntry E value = (case value of
     JObj r \<Rightarrow>
       (case (fld r ''jobId'', fld r ''attemptCount'', fld r ''printerCode'',
              fld r ''documentHash'', fld r ''acknowledged'', fld r ''recordedAt'') of
          (Some (JStr jobId), Some (JNum n), Some (JStr code), Some (JStr h), Some (JBool ack),
           Some (JStr recordedAt)) \<Rightarrow>
            if jobId = [] \<or> \<not> is_integer n \<or> int_of_num n < 1 \<or> \<not> is_sha256_hex h
               \<or> \<not> date_ok E recordedAt
            then None
            else
              (let entry = (\<lambda>st res. \<lparr>je_jobId = jobId, je_attemptCount = int_of_num n,
                     je_printerCode = code, je_documentHash = h, je_state = st, je_result = res,
                     je_acknowledged = ack, je_recordedAt = recordedAt\<rparr>);
                   result = result_of_json E (fld r ''result'')
               in if fld r ''state'' \<noteq> Some (JStr (js ''DISPATCHING'')) \<and> result = None
                  then None
                  else if fld r ''state'' = None
                  then Some (entry PRINTED result)
                  else if fld r ''state'' = Some (JStr (js ''DISPATCHING''))
                          \<and> fld r ''result'' = Some JNull
                  then Some (entry DISPATCHING None)
                  else if fld r ''state'' = Some (JStr (js ''PRINTED''))
                  then Some (entry PRINTED result)
                  else None)
        | _ \<Rightarrow> None)
   | _ \<Rightarrow> None)"

section \<open>Loading\<close>

text \<open>The loop of \<open>load\<close>: any invalid or duplicate entry rejects the whole file.\<close>

fun recover_entries :: "env \<Rightarrow> journal_map \<Rightarrow> json list \<Rightarrow> journal_map option" where
  "recover_entries E recovered [] = Some recovered"
| "recover_entries E recovered (candidate # rest) =
     (case asJournalEntry E candidate of
        None \<Rightarrow> None
      | Some entry \<Rightarrow>
          if map_of recovered (je_jobId entry) \<noteq> None then None
          else recover_entries E (AList.update (je_jobId entry) entry recovered) rest)"

definition parse_journal :: "env \<Rightarrow> fdata \<Rightarrow> journal_map option" where
  "parse_journal E d = (case d of Doc (JArr parsed) \<Rightarrow> recover_entries E [] parsed | _ \<Rightarrow> None)"

definition load_failed :: exn where
  "load_failed = Err (jt ''Bask~i g~unl~u~g~u okunam~iyor. ~Cift bask~iy~i ~onlemek i~cin yazd~irma durduruldu; g~unl~u~g~u ve fiziksel ~c~ikt~ilar~i kontrol edin.'')"

definition load :: "env \<Rightarrow> jstr \<Rightarrow> ('z jworld_scheme, unit) io" where
  "load E path =
     io_seq (io_upd (\<lambda>w. w\<lparr>jn_loaded := False\<rparr>))
      (io_try
        (io_bind (fs_read path) (\<lambda>raw. case raw of
             None \<Rightarrow> io_ret ()
           | Some d \<Rightarrow> (case parse_journal E d of
               None \<Rightarrow> io_raise (Err (js ''Invalid or duplicate journal entry''))
             | Some recovered \<Rightarrow> io_upd (\<lambda>w. w\<lparr>jn_entries := recovered\<rparr>))))
        (\<lambda>_. io_upd (\<lambda>w. w\<lparr>jn_loaded := True\<rparr>))
        (\<lambda>_. io_raise load_failed))"

section \<open>Trimming and persistence\<close>

definition entries_map :: "journal_entry list \<Rightarrow> journal_map" where
  "entries_map es = foldl (\<lambda>m e. AList.update (je_jobId e) e m) [] es"

definition trimToLimit :: "env \<Rightarrow> nat \<Rightarrow> journal_map \<Rightarrow> journal_map" where
  "trimToLimit E limit entries =
     (let all = map snd entries in
      if length all \<le> limit then entries
      else
        let unacked = filter (\<lambda>e. \<not> je_acknowledged e) all;
            acked = sort_cmp (\<lambda>a b. locale_cmp E (je_recordedAt b) (je_recordedAt a))
                      (filter je_acknowledged all);
            kept = unacked @ take (limit - length unacked) acked
        in entries_map kept)"

definition journal_limit :: nat where
  "journal_limit = 2000"

definition journal_doc :: "journal_map \<Rightarrow> fdata" where
  "journal_doc m = Doc (JArr (map (\<lambda>(k, e). entry_json e) m))"

definition temp_path :: "env \<Rightarrow> jstr \<Rightarrow> jstr" where
  "temp_path E path = path @ js ''.tmp-'' @ int_text (process_id E)"

definition persist :: "env \<Rightarrow> jstr \<Rightarrow> ('z jworld_scheme, unit) io" where
  "persist E path = (\<lambda>w.
     if \<not> jn_loaded w then (Ok (), w)
     else
       (let trimmed = trimToLimit E journal_limit (jn_entries w); tmp = temp_path E path in
        io_seq (io_upd (\<lambda>w. w\<lparr>jn_entries := trimmed\<rparr>))
        (io_seq fs_plain
        (io_seq (fs_open_trunc tmp)
        (io_seq
          (io_finally (io_seq (fs_write tmp (journal_doc trimmed)) fs_plain) fs_plain)
        (io_seq (fs_rename tmp path)
          (if os_platform E = Win32 then io_ret ()
           else io_seq fs_plain (io_finally fs_plain fs_plain))))))) w)"

section \<open>Operations\<close>

definition journal_get :: "jstr \<Rightarrow> int option \<Rightarrow> journal_map \<Rightarrow> journal_entry option" where
  "journal_get jobId attemptCount entries = (case map_of entries jobId of
       None \<Rightarrow> None
     | Some e \<Rightarrow> if attemptCount \<noteq> None \<and> attemptCount \<noteq> Some (je_attemptCount e) then None
                 else Some e)"

definition getUnacknowledged :: "jstr \<Rightarrow> journal_map \<Rightarrow> journal_entry option" where
  "getUnacknowledged jobId entries = (case map_of entries jobId of
       None \<Rightarrow> None | Some e \<Rightarrow> if je_acknowledged e then None else Some e)"

definition unacknowledged :: "journal_map \<Rightarrow> journal_entry list" where
  "unacknowledged entries = filter (\<lambda>e. \<not> je_acknowledged e) (map snd entries)"

definition set_entry :: "journal_entry \<Rightarrow> 'z jworld_scheme \<Rightarrow> 'z jworld_scheme" where
  "set_entry e = (\<lambda>w. w\<lparr>jn_entries := AList.update (je_jobId e) e (jn_entries w)\<rparr>)"

definition dispatching_entry :: "env \<Rightarrow> print_job_claim \<Rightarrow> jstr \<Rightarrow> journal_entry" where
  "dispatching_entry E job now = \<lparr>je_jobId = pj_id job, je_attemptCount = pj_attemptCount job,
     je_printerCode = pj_printerDeviceId job, je_documentHash = hashDocument E job,
     je_state = DISPATCHING, je_result = None, je_acknowledged = False, je_recordedAt = now\<rparr>"

definition recordDispatching :: "env \<Rightarrow> jstr \<Rightarrow> print_job_claim \<Rightarrow> ('z jworld_scheme, unit) io" where
  "recordDispatching E path job =
     io_bind (new_date_iso E) (\<lambda>now.
       io_seq (io_upd (set_entry (dispatching_entry E job now))) (persist E path))"

definition printed_entry :: "env \<Rightarrow> print_job_claim \<Rightarrow> print_result \<Rightarrow> jstr \<Rightarrow> journal_entry" where
  "printed_entry E job result at_time = \<lparr>je_jobId = pj_id job,
     je_attemptCount = pj_attemptCount job, je_printerCode = pj_printerDeviceId job,
     je_documentHash = hashDocument E job, je_state = PRINTED, je_result = Some result,
     je_acknowledged = False, je_recordedAt = at_time\<rparr>"

definition recordPrinted ::
  "env \<Rightarrow> jstr \<Rightarrow> print_job_claim \<Rightarrow> print_result \<Rightarrow> ('z jworld_scheme, unit) io" where
  "recordPrinted E path job result =
     io_bind (io_get (\<lambda>w. journal_get (pj_id job) (Some (pj_attemptCount job)) (jn_entries w)))
      (\<lambda>current. io_bind
        (case current of Some e \<Rightarrow> io_ret (je_recordedAt e) | None \<Rightarrow> new_date_iso E)
        (\<lambda>at_time. io_seq (io_upd (set_entry (printed_entry E job result at_time)))
          (persist E path)))"

definition set_acknowledged :: "jstr \<Rightarrow> bool \<Rightarrow> 'z jworld_scheme \<Rightarrow> 'z jworld_scheme" where
  "set_acknowledged jobId b =
     (\<lambda>w. w\<lparr>jn_entries := AList.map_entry jobId (\<lambda>e. e\<lparr>je_acknowledged := b\<rparr>) (jn_entries w)\<rparr>)"

text \<open>
  The rollback writes through the entry object: if trimming has dropped the entry from the map in
  the meantime, the write reaches no entry of the map.
\<close>

definition markAcknowledged :: "env \<Rightarrow> jstr \<Rightarrow> jstr \<Rightarrow> ('z jworld_scheme, unit) io" where
  "markAcknowledged E path jobId = (\<lambda>w.
     case map_of (jn_entries w) jobId of
       None \<Rightarrow> (Ok (), w)
     | Some entry \<Rightarrow>
         if je_acknowledged entry then (Ok (), w)
         else io_seq (io_upd (set_acknowledged jobId True))
           (io_catch (persist E path)
             (\<lambda>e. io_seq (io_upd (set_acknowledged jobId False)) (io_raise e))) w)"

section \<open>Well-formed maps and open entries\<close>

text \<open>The map is keyed by job id, each id once.\<close>

definition journal_wf :: "journal_map \<Rightarrow> bool" where
  "journal_wf m \<longleftrightarrow> distinct (map fst m) \<and> (\<forall>(k, e)\<in>set m. k = je_jobId e)"

text \<open>An id is open when its entry is not acknowledged: this is what suppresses a print.\<close>

definition open_in :: "journal_map \<Rightarrow> jstr \<Rightarrow> bool" where
  "open_in m jobId \<longleftrightarrow> (\<exists>e. map_of m jobId = Some e \<and> \<not> je_acknowledged e)"

text \<open>
  A journal file is safe for an id when it exists and either holds an open entry of that id or
  cannot be loaded at all, which blocks printing.
\<close>

definition safe_on_disk :: "env \<Rightarrow> fdata option \<Rightarrow> jstr \<Rightarrow> bool" where
  "safe_on_disk E f jobId \<longleftrightarrow>
     f \<noteq> None \<and> (\<forall>m. parse_journal E (the f) = Some m \<longrightarrow> open_in m jobId)"

lemma journal_wf_Nil [simp]: "journal_wf []"
  by (simp add: journal_wf_def)

lemma journal_wf_update: "journal_wf m \<Longrightarrow> journal_wf (AList.update (je_jobId e) e m)"
  using set_alist_update [of "je_jobId e" e m] by (auto simp: journal_wf_def distinct_update)

lemma open_in_update:
  "open_in (AList.update (je_jobId e) e m) k \<longleftrightarrow>
     (if k = je_jobId e then \<not> je_acknowledged e else open_in m k)"
  by (simp add: open_in_def update_conv')

lemma open_in_getUnacknowledged: "open_in m k \<longleftrightarrow> getUnacknowledged k m \<noteq> None"
  by (auto simp: open_in_def getUnacknowledged_def split: option.splits)

lemma open_in_acknowledge:
  "open_in (AList.map_entry k (\<lambda>e. e\<lparr>je_acknowledged := b\<rparr>) m) x \<longleftrightarrow>
     (if x = k then \<not> b \<and> map_of m x \<noteq> None else open_in m x)"
  by (auto simp: open_in_def map_of_map_entry split: option.splits)

lemma journal_wf_map_entry:
  "journal_wf m \<Longrightarrow> journal_wf (AList.map_entry k (\<lambda>e. e\<lparr>je_acknowledged := b\<rparr>) m)"
  by (induction m) (auto simp: journal_wf_def dom_map_entry)

lemma journal_wf_entry: "journal_wf m \<Longrightarrow> map_of m k = Some e \<Longrightarrow> je_jobId e = k"
  by (auto simp: journal_wf_def dest!: map_of_SomeD)

section \<open>Trimming\<close>

lemma entries_map_distinct:
  "distinct (map je_jobId es) \<Longrightarrow> entries_map es = map (\<lambda>e. (je_jobId e, e)) es"
proof (induction es rule: rev_induct)
  case (snoc e es)
  then show ?case by (auto simp: entries_map_def image_image alist_update_new)
qed (simp add: entries_map_def)

lemma journal_wf_values: "journal_wf m \<Longrightarrow> map (\<lambda>e. (je_jobId e, e)) (map snd m) = m"
  by (induction m) (auto simp: journal_wf_def)

lemma journal_wf_ids: "journal_wf m \<Longrightarrow> map je_jobId (map snd m) = map fst m"
  by (induction m) (auto simp: journal_wf_def)

lemma map_of_by_id:
  "distinct (map je_jobId es) \<Longrightarrow>
     map_of (map (\<lambda>e. (je_jobId e, e)) es) k = Some e \<longleftrightarrow> e \<in> set es \<and> je_jobId e = k"
  by (auto simp: map_of_eq_Some_iff comp_def)

lemma trim_cases:
  obtains (all) "trimToLimit E n m = m" "length m \<le> n"
  | (kept) acked where
      "trimToLimit E n m = entries_map (unacknowledged m @ take (n - length (unacknowledged m)) acked)"
      "set acked = {e \<in> set (map snd m). je_acknowledged e}"
      "mset acked = mset (filter je_acknowledged (map snd m))"
      "n < length m"
proof (cases "length m \<le> n")
  case True
  then show ?thesis by (intro all) (simp_all add: trimToLimit_def)
next
  case False
  show ?thesis
    by (rule kept [of "sort_cmp (\<lambda>a b. locale_cmp E (je_recordedAt b) (je_recordedAt a))
            (filter je_acknowledged (map snd m))"])
      (use False in \<open>auto simp: trimToLimit_def unacknowledged_def Let_def\<close>)
qed

lemma kept_ids_distinct:
  assumes "journal_wf m" and "mset acked = mset (filter je_acknowledged (map snd m))"
  shows "distinct (map je_jobId (unacknowledged m @ take n acked))"
proof -
  have ids: "distinct (map je_jobId (map snd m))"
    using assms(1) by (simp only: journal_wf_ids) (simp add: journal_wf_def)
  have "mset (unacknowledged m @ acked) = mset (map snd m)"
    unfolding unacknowledged_def mset_append assms(2)
    by (metis mset_filter multiset_partition union_commute)
  then have "distinct (map je_jobId (unacknowledged m @ acked))"
    using ids by (metis mset_eq_imp_distinct_iff mset_map)
  then have "distinct (map je_jobId ((unacknowledged m @ take n acked) @ drop n acked))"
    by simp
  then show ?thesis by (simp only: map_append distinct_append)
qed

lemma trim_kept_map:
  assumes "journal_wf m" and "mset acked = mset (filter je_acknowledged (map snd m))"
  shows "entries_map (unacknowledged m @ take n acked) =
    map (\<lambda>e. (je_jobId e, e)) (unacknowledged m @ take n acked)"
  by (rule entries_map_distinct) (rule kept_ids_distinct [OF assms])

lemma trim_wf [simp]: "journal_wf m \<Longrightarrow> journal_wf (trimToLimit E n m)"
proof (cases rule: trim_cases [of E n m])
  case (kept acked)
  assume wf: "journal_wf m"
  show ?thesis
    unfolding kept(1) trim_kept_map [OF wf kept(3)]
    using kept_ids_distinct [OF wf kept(3)] by (auto simp: journal_wf_def comp_def)
qed simp

lemma trim_subset:
  assumes "journal_wf m"
  shows "set (trimToLimit E n m) \<subseteq> set m"
proof (cases rule: trim_cases [of E n m])
  case (kept acked)
  have "set (take (n - length (unacknowledged m)) acked) \<subseteq> snd ` set m"
    using kept(2) set_take_subset by fastforce
  then show ?thesis
    using assms unfolding kept(1) trim_kept_map [OF assms kept(3)]
    by (fastforce simp: unacknowledged_def journal_wf_def)
qed simp

lemma trim_unacknowledged:
  assumes "journal_wf m"
  shows "unacknowledged (trimToLimit E n m) = unacknowledged m"
proof (cases rule: trim_cases [of E n m])
  case (kept acked)
  have "filter (\<lambda>e. \<not> je_acknowledged e) (take k acked) = []" for k
    using kept(2) set_take_subset [of k acked] by (auto simp: filter_empty_conv)
  then show ?thesis
    unfolding kept(1) trim_kept_map [OF assms kept(3)]
    by (simp add: unacknowledged_def comp_def)
qed simp

lemma open_in_unacknowledged:
  "journal_wf m \<Longrightarrow> open_in m k \<longleftrightarrow> (\<exists>e\<in>set (unacknowledged m). je_jobId e = k)"
proof -
  assume wf: "journal_wf m"
  then have "map_of m k = Some e \<longleftrightarrow> e \<in> snd ` set m \<and> je_jobId e = k" for e
    by (force simp: journal_wf_def map_of_eq_Some_iff)
  then show ?thesis
    by (auto simp: open_in_def unacknowledged_def)
qed

lemma trim_open [simp]: "journal_wf m \<Longrightarrow> open_in (trimToLimit E n m) k = open_in m k"
  by (simp add: open_in_unacknowledged trim_unacknowledged)

lemma trim_length:
  assumes "journal_wf m"
  shows "length (trimToLimit E n m) \<le> max n (length (unacknowledged m))"
proof (cases rule: trim_cases [of E n m])
  case (kept acked)
  then show ?thesis unfolding kept(1) trim_kept_map [OF assms kept(3)] by simp
qed simp

section \<open>What persisting does to the file\<close>

lemma temp_path_neq [simp]: "temp_path E path \<noteq> path" "path \<noteq> temp_path E path"
  by (simp_all add: temp_path_def js_def)

text \<open>
  Whatever fails or stops on the way, the journal file holds the old content or the complete new
  one, and the new one when \<open>persist\<close> returns.
\<close>

lemma persist_run:
  fixes w :: "'a jworld_scheme"
  assumes "jn_loaded w" and "persist E path w = (r, w')"
  defines "t \<equiv> trimToLimit E journal_limit (jn_entries w)"
  shows persist_entries: "jn_entries w' = t"
    and persist_loaded: "jn_loaded w'"
    and persist_hist: "hist w' = hist w"
    and persist_more: "jworld.more w' = jworld.more w"
    and persist_file: "files w' path = files w path \<or> files w' path = Some (journal_doc t)"
    and persist_ok: "r = Ok () \<Longrightarrow> files w' path = Some (journal_doc t)"
proof -
  let ?tmp = "temp_path E path"
  define C where "C \<equiv> \<lambda>v. jn_entries v = t \<and> jn_loaded v \<and> hist v = hist w
      \<and> jworld.more v = jworld.more w"
  define A where "A \<equiv> \<lambda>v. C v \<and> files v path = files w path"
  define W where "W \<equiv> \<lambda>v. A v \<and> files v ?tmp = Some (journal_doc t)"
  define B where "B \<equiv> \<lambda>v. C v \<and> files v path = Some (journal_doc t)"
  define Q where "Q \<equiv> \<lambda>r v. A v \<or> B v" for r :: "unit res"
  let ?ok = "\<lambda>X r v. (case r of Ok (_::unit) \<Rightarrow> X v | _ \<Rightarrow> A v)"
  note defs = A_def B_def C_def W_def
  have plain: "spec X fs_plain (\<lambda>_. X)"
    if "\<And>v p. X v \<Longrightarrow> X (v\<lparr>fs_plan := p\<rparr>)" for X :: "'a jworld_scheme \<Rightarrow> bool"
    unfolding fs_plain_def using that by (intro spec_fs_effect) auto
  have plainA: "spec A fs_plain (\<lambda>_. A)" and plainB: "spec B fs_plain (\<lambda>_. B)"
    and plainW: "spec W fs_plain (\<lambda>_. W)"
    by (rule plain; simp add: defs)+
  have trunc: "spec A (fs_open_trunc ?tmp) (\<lambda>_. A)"
    unfolding fs_open_trunc_def by (rule spec_fs_effect) (auto simp: defs put_file_def)
  have wr: "spec A (fs_write ?tmp (journal_doc t)) (?ok W)"
    unfolding fs_write_def by (rule spec_fs_effect) (auto simp: defs put_file_def)
  have "spec A (io_seq (fs_write ?tmp (journal_doc t)) fs_plain) (?ok W)"
    by (rule spec_seq [OF wr]) (auto intro!: spec_conseq [OF plainW] split: res.splits simp: W_def)
  then have fin: "spec A (io_finally (io_seq (fs_write ?tmp (journal_doc t)) fs_plain) fs_plain)
      (?ok W)"
    apply (rule spec_finally)
    subgoal by (auto intro!: spec_conseq [OF plainW] split: res.splits simp: W_def)
    subgoal by (auto intro!: spec_conseq [OF plainA] split: res.splits)
    subgoal by simp
    done
  have ren: "spec W (fs_rename ?tmp path) (?ok B)"
    unfolding fs_rename_def by (rule spec_fs_effect) (auto simp: defs)
  define last :: "('a jworld_scheme, unit) io" where "last \<equiv>
      if os_platform E = Win32 then io_ret () else io_seq fs_plain (io_finally fs_plain fs_plain)"
  define body :: "('a jworld_scheme, unit) io" where "body \<equiv> io_seq fs_plain
      (io_seq (fs_open_trunc ?tmp)
      (io_seq (io_finally (io_seq (fs_write ?tmp (journal_doc t)) fs_plain) fs_plain)
       (io_seq (fs_rename ?tmp path) last)))"
  define G where "G \<equiv> \<lambda>r v. (r = Ok () \<longrightarrow> B v) \<and> (A v \<or> B v)" for r :: "unit res"
  have sync: "spec B last (\<lambda>_. B)"
    unfolding last_def
    by (auto intro!: spec_ret spec_seq [OF plainB] spec_finally [OF plainB]
        spec_conseq [OF plainB] split: res.splits)
  have "spec W (io_seq (fs_rename ?tmp path) last) G"
    by (rule spec_seq [OF ren]) (auto intro!: spec_conseq [OF sync] simp: G_def)
  then have "spec A (io_seq (io_finally (io_seq (fs_write ?tmp (journal_doc t)) fs_plain) fs_plain)
       (io_seq (fs_rename ?tmp path) last)) G"
    by (intro spec_seq [OF fin]) (auto simp: G_def)
  then have "spec A (io_seq (fs_open_trunc ?tmp)
      (io_seq (io_finally (io_seq (fs_write ?tmp (journal_doc t)) fs_plain) fs_plain)
       (io_seq (fs_rename ?tmp path) last))) G"
    by (intro spec_seq [OF trunc]) (auto simp: G_def)
  then have body: "spec A body G"
    unfolding body_def by (intro spec_seq [OF plainA]) (auto simp: G_def)
  have start: "A (w\<lparr>jn_entries := t\<rparr>)"
    using assms(1) by (simp add: defs)
  have "body (w\<lparr>jn_entries := t\<rparr>) = (r, w')"
    using assms(1,2) by (simp add: persist_def body_def last_def t_def Let_def)
  from specD [OF body start this]
  show "jn_entries w' = t" "jn_loaded w'" "hist w' = hist w" "jworld.more w' = jworld.more w"
    "files w' path = files w path \<or> files w' path = Some (journal_doc t)"
    "r = Ok () \<Longrightarrow> files w' path = Some (journal_doc t)"
    by (auto simp: defs G_def)
qed

lemma persist_not_loaded: "\<not> jn_loaded w \<Longrightarrow> persist E path w = (Ok (), w)"
  by (simp add: persist_def)

section \<open>Reading back what was written\<close>

definition valid_entry :: "env \<Rightarrow> journal_entry \<Rightarrow> bool" where
  "valid_entry E e \<longleftrightarrow> je_jobId e \<noteq> [] \<and> 1 \<le> je_attemptCount e \<and> is_sha256_hex (je_documentHash e)
     \<and> date_ok E (je_recordedAt e)
     \<and> (case je_state e of
          DISPATCHING \<Rightarrow> je_result e = None
        | PRINTED \<Rightarrow> (case je_result e of None \<Rightarrow> False | Some r \<Rightarrow> date_ok E (pr_printedAt r)))"

lemma result_of_result_json:
  "result_of_json E (Some (result_json r)) = (if date_ok E (pr_printedAt r) then Some r else None)"
  by (cases "pr_transport r") (simp_all add: result_of_json_def result_json_def)

lemma result_json_not_null [simp]: "result_json r \<noteq> JNull" "JNull \<noteq> result_json r"
  by (simp_all add: result_json_def)

lemma asJournalEntry_entry_json:
  "asJournalEntry E (entry_json e) = (if valid_entry E e then Some e else None)"
proof (cases "je_result e")
  case None
  then show ?thesis
    by (cases "je_state e")
      (simp_all add: asJournalEntry_def entry_json_def valid_entry_def result_of_json_def Let_def)
next
  case (Some r)
  then show ?thesis
    by (cases "je_state e")
      (simp_all add: asJournalEntry_def entry_json_def valid_entry_def result_of_result_json Let_def)
qed

lemma recover_entries_app:
  "distinct (map fst (acc @ m)) \<Longrightarrow> \<forall>(k, e)\<in>set m. k = je_jobId e \<Longrightarrow>
     recover_entries E acc (map (\<lambda>(k, e). entry_json e) m) =
       (if \<forall>e\<in>snd ` set m. valid_entry E e then Some (acc @ m) else None)"
proof (induction m arbitrary: acc)
  case (Cons p m)
  obtain k e where p: "p = (k, e)" by fastforce
  have k: "k = je_jobId e" using Cons.prems(2) p by simp
  have new: "map_of acc k = None" "k \<notin> fst ` set acc"
    using Cons.prems(1) p by (auto simp: map_of_eq_None_iff)
  have "recover_entries E (acc @ [(k, e)]) (map (\<lambda>(k, e). entry_json e) m) =
      (if \<forall>e\<in>snd ` set m. valid_entry E e then Some ((acc @ [(k, e)]) @ m) else None)"
    by (rule Cons.IH) (use Cons.prems p in auto)
  then show ?case
    using new by (simp add: p k [symmetric] asJournalEntry_entry_json alist_update_new)
qed simp

lemma parse_journal_doc:
  "journal_wf m \<Longrightarrow> parse_journal E (journal_doc m) =
     (if \<forall>e\<in>snd ` set m. valid_entry E e then Some m else None)"
  unfolding parse_journal_def journal_doc_def
  by (simp add: recover_entries_app journal_wf_def)

lemma recover_entries_wf:
  "recover_entries E acc xs = Some m \<Longrightarrow> journal_wf acc \<Longrightarrow> journal_wf m"
  by (induction xs arbitrary: acc) (auto split: option.splits if_splits intro: journal_wf_update)

lemma parse_journal_wf: "parse_journal E d = Some m \<Longrightarrow> journal_wf m"
  by (auto simp: parse_journal_def split: fdata.splits json.splits intro: recover_entries_wf)

lemma safe_on_disk_doc: "journal_wf m \<Longrightarrow> open_in m k \<Longrightarrow> safe_on_disk E (Some (journal_doc m)) k"
  by (simp add: safe_on_disk_def parse_journal_doc)

lemma load_run:
  assumes "load E path w = (r, w')"
  shows load_files: "files w' = files w"
    and load_hist: "hist w' = hist w"
    and load_more: "jworld.more w' = jworld.more w"
    and load_ok: "r = Ok () \<Longrightarrow> jn_loaded w' \<and>
        (case files w path of None \<Rightarrow> jn_entries w' = jn_entries w
         | Some d \<Rightarrow> parse_journal E d = Some (jn_entries w'))"
    and load_fail: "r \<noteq> Ok () \<Longrightarrow> \<not> jn_loaded w' \<and> jn_entries w' = jn_entries w"
  using assms
  by (auto simp: load_def io_defs io_seq_def fs_read_def fs_effect_def
      split: list.splits fs_reply.splits option.splits)

section \<open>Safety of an id under the operations\<close>

text \<open>
  \<open>journal_safe E path S\<close>: the journal is loaded and well formed, and every id of \<open>S\<close> is open in
  memory and safe on disk.
\<close>

definition journal_safe :: "env \<Rightarrow> jstr \<Rightarrow> jstr set \<Rightarrow> 'z jworld_scheme \<Rightarrow> bool" where
  "journal_safe E path S w \<longleftrightarrow> jn_loaded w \<and> journal_wf (jn_entries w)
     \<and> (\<forall>k\<in>S. open_in (jn_entries w) k \<and> safe_on_disk E (files w path) k)"

definition journal_frame :: "'z jworld_scheme \<Rightarrow> event list \<times> 'z" where
  "journal_frame w = (hist w, jworld.more w)"

lemma ticks_simps [simp]:
  "journal_frame (w\<lparr>ticks := t\<rparr>) = journal_frame w"
  "journal_safe E path S (w\<lparr>ticks := t\<rparr>) = journal_safe E path S w"
  by (simp_all add: journal_frame_def journal_safe_def)

lemma persist_keeps_safe:
  assumes "persist E path w = (r, w')" and "journal_safe E path S w"
  shows "journal_safe E path S w'"
  using assms persist_run [OF _ assms(1)]
  by (auto simp: journal_safe_def safe_on_disk_doc)

lemma persist_safe_new:
  assumes "persist E path w = (r, w')" and "jn_loaded w" and "journal_wf (jn_entries w)"
    and "\<forall>k\<in>S. open_in (jn_entries w) k"
    and "\<forall>k\<in>S. r = Ok () \<or> safe_on_disk E (files w path) k"
  shows "journal_safe E path S w'"
  using assms(2-) persist_run [OF assms(2,1)]
  by (auto simp: journal_safe_def safe_on_disk_doc)

lemma persist_frame:
  "persist E path w = (r, w') \<Longrightarrow> journal_frame w' = journal_frame w"
  by (cases "jn_loaded w")
    (auto simp: journal_frame_def persist_hist persist_more persist_not_loaded)

lemma set_entry_simps [simp]:
  "jn_entries (set_entry e w) = AList.update (je_jobId e) e (jn_entries w)"
  "jn_loaded (set_entry e w) = jn_loaded w" "files (set_entry e w) = files w"
  "journal_frame (set_entry e w) = journal_frame w"
  by (simp_all add: set_entry_def journal_frame_def)

lemma set_acknowledged_simps [simp]:
  "jn_entries (set_acknowledged k b w) =
     AList.map_entry k (\<lambda>e. e\<lparr>je_acknowledged := b\<rparr>) (jn_entries w)"
  "jn_loaded (set_acknowledged k b w) = jn_loaded w" "files (set_acknowledged k b w) = files w"
  "journal_frame (set_acknowledged k b w) = journal_frame w"
  by (simp_all add: set_acknowledged_def journal_frame_def)

lemma set_entry_persist_safe:
  assumes "persist E path (set_entry e w) = (r, w')" and "journal_safe E path S w"
    and "\<not> je_acknowledged e"
  shows "journal_safe E path (if r = Ok () then insert (je_jobId e) S else S) w'"
proof (rule persist_safe_new [OF assms(1)])
  show "jn_loaded (set_entry e w)" "journal_wf (jn_entries (set_entry e w))"
    using assms(2) by (simp_all add: journal_safe_def journal_wf_update)
qed (use assms(2,3) in \<open>auto simp: journal_safe_def open_in_update\<close>)

lemma recordDispatching_run:
  "recordDispatching E path job w = persist E path
     (set_entry (dispatching_entry E job (iso_time E (ticks w))) (w\<lparr>ticks := Suc (ticks w)\<rparr>))"
  by (simp add: recordDispatching_def)

lemma recordPrinted_run:
  "recordPrinted E path job res w =
     (case journal_get (pj_id job) (Some (pj_attemptCount job)) (jn_entries w) of
        Some e \<Rightarrow> persist E path (set_entry (printed_entry E job res (je_recordedAt e)) w)
      | None \<Rightarrow> persist E path
          (set_entry (printed_entry E job res (iso_time E (ticks w))) (w\<lparr>ticks := Suc (ticks w)\<rparr>)))"
  by (simp add: recordPrinted_def split: option.splits)

lemma entry_fields [simp]:
  "je_jobId (dispatching_entry E job t) = pj_id job" "je_jobId (printed_entry E job x t) = pj_id job"
  "\<not> je_acknowledged (dispatching_entry E job t)" "\<not> je_acknowledged (printed_entry E job x t)"
  by (simp_all add: dispatching_entry_def printed_entry_def)

lemma recordDispatching_safe:
  "spec (\<lambda>w. journal_safe E path S w \<and> journal_frame w = f) (recordDispatching E path job)
     (\<lambda>r w. journal_safe E path (if r = Ok () then insert (pj_id job) S else S) w
        \<and> journal_frame w = f)"
proof (rule specI, elim conjE)
  fix w :: "'a jworld_scheme" and r w'
  let ?e = "dispatching_entry E job (iso_time E (ticks w))"
  assume safe: "journal_safe E path S w" and f: "journal_frame w = f"
    and "recordDispatching E path job w = (r, w')"
  then have p: "persist E path (set_entry ?e (w\<lparr>ticks := Suc (ticks w)\<rparr>)) = (r, w')"
    by (simp add: recordDispatching_run)
  from set_entry_persist_safe [OF p, of S] persist_frame [OF p] safe f
  show "journal_safe E path (if r = Ok () then insert (pj_id job) S else S) w'
      \<and> journal_frame w' = f"
    by (simp split: if_splits)
qed

lemma recordPrinted_safe:
  "spec (\<lambda>w. journal_safe E path S w \<and> journal_frame w = f) (recordPrinted E path job res)
     (\<lambda>r w. journal_safe E path S w \<and> journal_frame w = f)"
proof (rule specI, elim conjE)
  fix w :: "'a jworld_scheme" and r w'
  assume safe: "journal_safe E path S w" and f: "journal_frame w = f"
    and run: "recordPrinted E path job res w = (r, w')"
  obtain e v where p: "persist E path (set_entry e v) = (r, w')"
    and e: "\<not> je_acknowledged e"
    and v: "journal_safe E path S v" "journal_frame v = f"
  proof (cases "journal_get (pj_id job) (Some (pj_attemptCount job)) (jn_entries w)")
    case None
    show ?thesis
      by (rule that [of "printed_entry E job res (iso_time E (ticks w))" "w\<lparr>ticks := Suc (ticks w)\<rparr>"])
        (use run None safe f in \<open>simp_all add: recordPrinted_run\<close>)
  next
    case (Some c)
    show ?thesis
      by (rule that [of "printed_entry E job res (je_recordedAt c)" w])
        (use run Some safe f in \<open>simp_all add: recordPrinted_run\<close>)
  qed
  have "journal_safe E path S w'"
    using set_entry_persist_safe [OF p v(1) e] by (auto simp: journal_safe_def split: if_splits)
  then show "journal_safe E path S w' \<and> journal_frame w' = f"
    using persist_frame [OF p] v(2) by simp
qed

lemma markAcknowledged_safe:
  "spec (\<lambda>w. journal_safe E path S w \<and> journal_frame w = f) (markAcknowledged E path k)
     (\<lambda>r w. journal_safe E path (S - {k}) w \<and> journal_frame w = f)"
proof (rule specI, elim conjE)
  fix w :: "'a jworld_scheme" and r w'
  assume safe: "journal_safe E path S w" and f: "journal_frame w = f"
    and run: "markAcknowledged E path k w = (r, w')"
  have weak: "journal_safe E path (S - {k}) w"
    using safe by (auto simp: journal_safe_def)
  show "journal_safe E path (S - {k}) w' \<and> journal_frame w' = f"
  proof (cases "getUnacknowledged k (jn_entries w)")
    case None
    with run weak f show ?thesis
      by (auto simp: markAcknowledged_def getUnacknowledged_def split: option.splits if_splits)
  next
    case (Some e)
    obtain r1 w1 where p: "persist E path (set_acknowledged k True w) = (r1, w1)" by fastforce
    have "journal_safe E path (S - {k}) (set_acknowledged k True w)"
      using weak by (auto simp: journal_safe_def open_in_acknowledge journal_wf_map_entry)
    then have s1: "journal_safe E path (S - {k}) w1" by (rule persist_keeps_safe [OF p])
    have f1: "journal_frame w1 = f" using persist_frame [OF p] f by simp
    have "w' = w1 \<or> w' = set_acknowledged k False w1"
      using run Some p
      by (auto simp: markAcknowledged_def getUnacknowledged_def io_catch_def
          split: option.splits if_splits res.splits)
    then show ?thesis
      using s1 f1 by (auto simp: journal_safe_def open_in_acknowledge journal_wf_map_entry)
  qed
qed

lemma load_safe:
  assumes "load E path w = (Ok (), w')" and "journal_wf (jn_entries w)"
    and "\<forall>k\<in>S. safe_on_disk E (files w path) k"
  shows "journal_safe E path S w'"
  using assms(2,3) load_ok [OF assms(1)] load_files [OF assms(1)]
  by (auto simp: journal_safe_def safe_on_disk_def split: option.splits dest: parse_journal_wf)

interpretation jg: duplicate_guard "journal_safe E path" journal_frame
    "recordDispatching E path" "recordPrinted E path" "markAcknowledged E path" pj_id
  for E path
proof unfold_locales
  show "journal_safe E path T w" if "journal_safe E path S w" "T \<subseteq> S"
    for S T :: "jstr set" and w :: "'z jworld_scheme"
    using that by (auto simp: journal_safe_def)
qed (rule recordDispatching_safe recordPrinted_safe markAcknowledged_safe)+

section \<open>Properties\<close>

text \<open>C10: Atomic persistence. Whatever call of \<open>persist\<close> fails or wherever the process stops in
  it, the journal file holds its old content or the complete new document, and \<open>persist\<close> returns
  normally only with the new document in place.\<close>

theorem persist_atomic:
  assumes "jn_loaded w" and "persist E path w = (r, w')"
  shows "(files w' path = files w path \<and> r \<noteq> Ok ()
          \<or> files w' path = Some (journal_doc (trimToLimit E journal_limit (jn_entries w))))
         \<and> jn_entries w' = trimToLimit E journal_limit (jn_entries w)"
  using persist_run [OF assms] by auto

text \<open>Trimming never drops an unacknowledged entry, keeps their order, invents nothing, and bounds
  the journal by the limit or by the number of unacknowledged entries.\<close>

theorem trim_keeps_unacknowledged:
  assumes "journal_wf m"
  shows "unacknowledged (trimToLimit E n m) = unacknowledged m
    \<and> set (trimToLimit E n m) \<subseteq> set m
    \<and> length (trimToLimit E n m) \<le> max n (length (unacknowledged m))
    \<and> journal_wf (trimToLimit E n m)"
  using assms by (simp add: trim_unacknowledged trim_subset trim_length)


text \<open>A journal file that does not parse, or holds an invalid or duplicate entry, blocks
  printing: \<open>load\<close> never returns normally, the file is left as evidence, and nothing is written
  afterwards, because the journal counts as not loaded.\<close>

theorem corrupt_journal_blocks:
  assumes "files w path = Some d" and "parse_journal E d = None"
    and "load E path w = (r, w')"
  shows "r \<noteq> Ok () \<and> files w' = files w \<and> \<not> jn_loaded w' \<and> persist E path w' = (Ok (), w')"
proof -
  have "r \<noteq> Ok ()"
    using load_ok [OF assms(3)] assms(1,2) by auto
  then show ?thesis
    using load_fail [OF assms(3)] load_files [OF assms(3)] by (simp add: persist_not_loaded)
qed

text \<open>An acknowledgement that cannot be persisted is rolled back: the memory of the journal is
  what it was, so the acknowledgement is retried.\<close>

theorem failed_acknowledgement_rolls_back:
  assumes "jn_loaded w" and "length (jn_entries w) \<le> journal_limit"
    and "markAcknowledged E path k w = (Exn e, w')"
  shows "jn_entries w' = jn_entries w \<and> open_in (jn_entries w) k"
proof -
  obtain x where x: "map_of (jn_entries w) k = Some x" "\<not> je_acknowledged x"
    using assms(3) by (auto simp: markAcknowledged_def split: option.splits if_splits)
  obtain r1 w1 where p: "persist E path (set_acknowledged k True w) = (r1, w1)" by fastforce
  have len: "length (AList.map_entry k f m) = length m" for f and m :: journal_map
    by (induction m) auto
  have "jn_entries w1 = jn_entries (set_acknowledged k True w)"
    using persist_entries [OF _ p] assms(1,2) by (simp add: trimToLimit_def len)
  moreover have "w' = set_acknowledged k False w1"
    using assms(3) x p
    by (auto simp: markAcknowledged_def io_catch_def split: res.splits)
  moreover have "AList.map_entry k (\<lambda>e. e\<lparr>je_acknowledged := False\<rparr>)
      (AList.map_entry k (\<lambda>e. e\<lparr>je_acknowledged := True\<rparr>) m) = m"
    if "map_of m k = Some x" for m
    using that x(2) by (induction m) auto
  ultimately show ?thesis
    using x by (simp add: open_in_def)
qed

section \<open>Examples\<close>

definition demo_journal :: "fs_reply list \<Rightarrow> journal_map \<Rightarrow> jworld" where
  "demo_journal fs m = host.extend (demo_host fs []) (jworld.fields m True)"

lemma demo_journal_simps [simp]:
  "jn_entries (demo_journal fs m) = m" "jn_loaded (demo_journal fs m)"
  "files (demo_journal fs m) = (\<lambda>_. None)" "fs_plan (demo_journal fs m) = fs"
  "ticks (demo_journal fs m) = 0" "hist (demo_journal fs m) = []"
  by (simp_all add: demo_journal_def demo_host_def host.defs jworld.defs)

definition demo_entry :: journal_entry where
  "demo_entry = \<lparr>je_jobId = js ''j1'', je_attemptCount = 1, je_printerCode = js ''P'',
     je_documentHash = replicate 64 48, je_state = DISPATCHING, je_result = None,
     je_acknowledged = False, je_recordedAt = js ''t''\<rparr>"

definition demo_map :: journal_map where
  "demo_map = [(js ''j1'', demo_entry)]"

lemma demo_map_simps [simp]: "journal_wf demo_map" "unacknowledged demo_map = [demo_entry]"
  "\<forall>e\<in>snd ` set demo_map. valid_entry demo_env e" "length demo_map = 1"
  "trimToLimit E journal_limit demo_map = demo_map" "open_in demo_map (js ''j1'')"
  by (simp_all add: demo_map_def demo_entry_def journal_wf_def unacknowledged_def valid_entry_def
      is_sha256_hex_def is_digit_def trimToLimit_def journal_limit_def open_in_def)

lemma persist_all_ok:
  fixes w :: "'a jworld_scheme"
  assumes "jn_loaded w" and "fs_plan w = replicate 9 FsOk @ p" and "os_platform E \<noteq> Win32"
  shows "\<exists>w'. persist E path w = (Ok (), w')"
  using assms
  by (simp add: persist_def io_seq_def io_defs host_defs eval_nat_numeral Let_def)

lemma persist_first_fails:
  fixes w :: "'a jworld_scheme"
  assumes "jn_loaded w" and "fs_plan w = FsErr m # p"
  shows "\<exists>w'. persist E path w = (Exn (Err m), w')"
  using assms by (simp add: persist_def io_seq_def io_defs host_defs Let_def)

lemma persist_atomic_witness:
  "files (snd (persist demo_env (js ''j'') (demo_journal (replicate 5 FsOk) demo_map))) (js ''j'') = None
   \<or> files (snd (persist demo_env (js ''j'') (demo_journal (replicate 5 FsOk) demo_map))) (js ''j'')
      = Some (journal_doc demo_map)"
  using persist_atomic [of "demo_journal (replicate 5 FsOk) demo_map" demo_env "js ''j''"
      "fst (persist demo_env (js ''j'') (demo_journal (replicate 5 FsOk) demo_map))"
      "snd (persist demo_env (js ''j'') (demo_journal (replicate 5 FsOk) demo_map))"]
  by auto

lemma trim_keeps_unacknowledged_witness:
  "unacknowledged (trimToLimit demo_env 0 demo_map) = [demo_entry]"
  using trim_keeps_unacknowledged [of demo_map demo_env 0] by simp


lemma corrupt_journal_blocks_witness:
  "\<not> jn_loaded (snd (load demo_env (js ''j'')
      (demo_journal [FsOk] []\<lparr>files := (\<lambda>_. Some Garbage)\<rparr>)))"
  using corrupt_journal_blocks [of "demo_journal [FsOk] []\<lparr>files := (\<lambda>_. Some Garbage)\<rparr>" "js ''j''"
      Garbage demo_env
      "fst (load demo_env (js ''j'') (demo_journal [FsOk] []\<lparr>files := (\<lambda>_. Some Garbage)\<rparr>))"
      "snd (load demo_env (js ''j'') (demo_journal [FsOk] []\<lparr>files := (\<lambda>_. Some Garbage)\<rparr>))"]
  by (simp add: parse_journal_def)

lemma failed_acknowledgement_rolls_back_witness:
  "\<exists>w'. markAcknowledged demo_env (js ''j'') (js ''j1'') (demo_journal [FsErr []] demo_map)
      = (Exn (Err []), w') \<and> jn_entries w' = demo_map"
proof -
  let ?w = "demo_journal [FsErr []] demo_map"
  have x: "map_of (jn_entries ?w) (js ''j1'') = Some demo_entry" "\<not> je_acknowledged demo_entry"
    by (simp_all add: demo_map_def demo_entry_def)
  have "fs_plan (set_acknowledged (js ''j1'') True ?w) = FsErr [] # []"
    by (simp add: set_acknowledged_def)
  then obtain v where "persist demo_env (js ''j'') (set_acknowledged (js ''j1'') True ?w) = (Exn (Err []), v)"
    using persist_first_fails [of "set_acknowledged (js ''j1'') True ?w"] by fastforce
  then have w': "markAcknowledged demo_env (js ''j'') (js ''j1'') ?w
      = (Exn (Err []), set_acknowledged (js ''j1'') False v)"
    using x by (simp add: markAcknowledged_def io_catch_def)
  then show ?thesis
    using failed_acknowledgement_rolls_back [OF _ _ w'] by (auto simp: journal_limit_def)
qed

end
