(* ===== verification/Printers.thy ===== *)
theory Printers
  imports Receipt_Text Cups_Job Bridge_Config Print_Journal Print_Protocol
begin

text \<open>
  The printer transports of the bridge: subprocesses (\<open>process-exec.ts\<close>), the mock printer
  (\<open>mock-printer.ts\<close>), the Windows spooler (\<open>windows-printer.ts\<close>), CUPS (\<open>macos-printer.ts\<close>), and
  the choice between them (\<open>createTransport\<close> of \<open>agent-runtime.ts\<close>). Each is an instance of the
  interface \<open>printer_transport\<close>.
\<close>

section \<open>Subprocesses\<close>

definition exec_failure :: "jstr \<Rightarrow> int \<Rightarrow> exec_error \<Rightarrow> exn" where
  "exec_failure cmd timeoutMs e =
     (let detail = (if js_trim (ex_stderr e) \<noteq> [] then js_trim (ex_stderr e)
          else if ex_killed e then js ''Process timed out after '' @ int_text timeoutMs @ js '' ms''
          else case ex_code e of
            Some c \<Rightarrow> js ''Process exited with code '' @ int_text c
          | None \<Rightarrow> ex_message e)
      in Err (cmd @ js '' failed: '' @ detail))"

definition runProcess :: "jstr \<Rightarrow> jstr list \<Rightarrow> int option \<Rightarrow> ('z host_scheme, jstr) io" where
  "runProcess cmd args timeoutMs =
     io_bind (exec_file cmd args) (\<lambda>r. case r of
         Inl e \<Rightarrow> io_raise (exec_failure cmd (case timeoutMs of Some t \<Rightarrow> t | None \<Rightarrow> 15000) e)
       | Inr stdout \<Rightarrow> io_ret stdout)"

section \<open>The mock printer\<close>

definition print_reference :: "bridge_config \<Rightarrow> print_job_claim \<Rightarrow> jstr list" where
  "print_reference cfg job =
     [cf_bridgeId cfg, pj_printerDeviceId job, pj_id job, int_text (pj_attemptCount job)]"

definition mock_print :: "env \<Rightarrow> bridge_config \<Rightarrow> print_job_claim \<Rightarrow> ('z host_scheme, print_result) io"
  where
  "mock_print E cfg job =
     (if pj_printerDeviceId job \<notin> set (cf_printerIds cfg)
      then io_raise (Err (js (''Printer '' @ [CHR 0x27]) @ pj_printerDeviceId job
             @ js ([CHR 0x27] @ '' is not configured'')))
      else io_bind next_random (\<lambda>r.
        if r < cf_mockFailureRate cfg
        then io_raise (Err (js ''Configured mock printer failure''))
        else io_bind (new_date_iso E) (\<lambda>now.
          io_ret \<lparr>pr_externalReference = join_with (js '':'') (print_reference cfg job),
                  pr_printedAt = now, pr_transport = TMock\<rparr>)))"

section \<open>What the system transports share\<close>

definition not_configured :: "jstr \<Rightarrow> exn" where
  "not_configured code = Err (js (''Printer '' @ [CHR 0x27]) @ code
     @ js ([CHR 0x27] @ '' is not configured on this bridge''))"

definition printer_allowed :: "bridge_config \<Rightarrow> jstr \<Rightarrow> bool" where
  "printer_allowed cfg code \<longleftrightarrow> cf_printerIds cfg = [] \<or> code \<in> set (cf_printerIds cfg)"

definition local_printer_name :: "bridge_config \<Rightarrow> print_job_claim \<Rightarrow> jstr" where
  "local_printer_name cfg job = (case pj_localPrinterName job of
       Some n \<Rightarrow> n
     | None \<Rightarrow> (case map_of (cf_printerNameMap cfg) (pj_printerDeviceId job) of
         Some n \<Rightarrow> n | None \<Rightarrow> pj_printerDeviceId job))"

definition receipt_columns :: "bridge_config \<Rightarrow> nat" where
  "receipt_columns cfg = nat (cf_receiptColumns cfg)"

definition path_join :: "env \<Rightarrow> jstr \<Rightarrow> jstr \<Rightarrow> jstr" where
  "path_join E dir file = dir @ (if os_platform E = Win32 then [92] else [47]) @ file"

text \<open>\<open>rm(dir, { recursive: true, force: true })\<close> of a directory with the given files.\<close>

definition remove_files :: "jstr list \<Rightarrow> ('z host_scheme, unit) io" where
  "remove_files ps = fs_effect (\<lambda>w. foldl (\<lambda>v p. put_file p None v) w ps) id"

section \<open>Windows\<close>

definition assertSupportedWindowsPrinter :: "jstr \<Rightarrow> exn + unit" where
  "assertSupportedWindowsPrinter localPrinterName =
     (let normalized = to_lower (js_trim localPrinterName) in
      guard (normalized \<noteq> js ''microsoft print to pdf''
             \<and> normalized \<noteq> js ''microsoft xps document writer'')
        (localPrinterName @ jt '' sanal bir dosya yaz~ic~is~id~ir. Dixora Print Bridge arka planda ~cal~i~st~i~g~i i~cin kaydetme penceresi g~osteremez; ger~cek bir yaz~ic~i veya ~onceden dosya ad~i istemeyen bir test yaz~ic~is~i se~cin.''))"

definition windows_arguments ::
  "bridge_config \<Rightarrow> print_job_claim \<Rightarrow> jstr \<Rightarrow> jstr \<Rightarrow> int \<Rightarrow> jstr list" where
  "windows_arguments cfg job script file copy =
     map js [''-NoProfile'', ''-NonInteractive'', ''-ExecutionPolicy'', ''Bypass'', ''-File'']
     @ [script, js ''-Path'', file, js ''-PrinterName'', local_printer_name cfg job, js ''-JobName'',
        js ''Dixora-'' @ pj_id job @ js ''-'' @ int_text (pj_attemptCount job) @ js ''-'' @ int_text copy,
        js ''-Columns'', int_text (cf_receiptColumns cfg)]"

definition windows_print ::
  "env \<Rightarrow> bridge_config \<Rightarrow> print_job_claim \<Rightarrow> ('z host_scheme, print_result) io" where
  "windows_print E cfg job =
     (let code = pj_printerDeviceId job in
      if \<not> printer_allowed cfg code then io_raise (not_configured code)
      else io_seq (io_lift (assertSupportedWindowsPrinter (local_printer_name cfg job)))
        (io_bind (mkdtemp E) (\<lambda>dir.
         io_bind (random_uuid E) (\<lambda>name.
          (let file = path_join E dir (name @ js ''.txt'');
               script = path_join E dir (js ''print-80mm.ps1'') in
           io_seq
             (io_finally
               (io_seq (fs_write file (Text (renderReceiptText E job (receipt_columns cfg))))
               (io_seq (fs_write script (Text (windows_script E)))
                 (io_each (\<lambda>copy. io_bind
                     (runProcess (js ''powershell.exe'') (windows_arguments cfg job script file copy)
                        (Some 40000)) (\<lambda>_. io_ret ()))
                   [1..pj_copies job])))
               (remove_files [file, script]))
             (io_bind (new_date_iso E) (\<lambda>now.
               io_ret \<lparr>pr_externalReference = join_with (js '':'') (print_reference cfg job),
                       pr_printedAt = now, pr_transport = TWindows\<rparr>)))))))"

definition windows_listPrinters :: "('z host_scheme, jstr list) io" where
  "windows_listPrinters =
     io_bind (runProcess (js ''powershell.exe'')
        (map js [''-NoProfile'', ''-NonInteractive'', ''-Command'',
           ''Get-Printer | Select-Object -ExpandProperty Name'']) None)
       (\<lambda>stdout. io_ret (filter (\<lambda>l. l \<noteq> []) (map js_trim (split_on 10 stdout))))"

section \<open>macOS\<close>

text \<open>
  \<open>/request id is (\\S+)-(\\d+)\\s/\<close>: at one position, and the first position where it matches. The
  run of non-blanks after the words is cut at its last hyphen.
\<close>

definition request_at :: "jstr \<Rightarrow> (jstr \<times> jstr) option" where
  "request_at s =
     (if \<not> starts_with s (js ''request id is '') then None
      else
        (let rest = drop 14 s;
             run = takeWhile (\<lambda>c. \<not> is_space c) rest;
             ds = rev (takeWhile (\<lambda>c. c \<noteq> 45) (rev run))
         in if length rest \<le> length run \<or> ds = [] \<or> (\<exists>c\<in>set ds. \<not> is_digit c)
               \<or> length run \<le> length ds + 1
            then None
            else Some (take (length run - length ds - 1) run, ds)))"

fun find_request :: "jstr \<Rightarrow> (jstr \<times> jstr) option" where
  "find_request [] = None"
| "find_request (c # s) =
     (case request_at (c # s) of Some r \<Rightarrow> Some r | None \<Rightarrow> find_request s)"

text \<open>
  The polling loop. It ends with the plan, so it is a recursion on the answers CUPS still gives;
  the clock is read once per round.
\<close>

fun cups_poll ::
  "env \<Rightarrow> int \<Rightarrow> jstr \<Rightarrow> cups_reply list \<Rightarrow> nat \<Rightarrow> unit res \<times> cups_reply list \<times> nat" where
  "cups_poll E deadline reference [] t = (Stop, [], t)"
| "cups_poll E deadline reference (CupsStop # p) t = (Stop, p, t)"
| "cups_poll E deadline reference (r # p) t =
     (case cups_state r of
        Inl e \<Rightarrow> (Exn e, p, t)
      | Inr state \<Rightarrow>
          if state = 9 then (Ok (), p, t)
          else if state \<in> {6, 7, 8}
          then (Exn (Err (jt ''CUPS i~si durdu veya iptal edildi ('' @ reference @ js '', durum ''
                  @ int_text state @ jt ''); fiziksel ~c~ikt~iy~i kontrol edin'')), p, t)
          else if deadline \<le> millis E t
          then (Exn (Err (jt ''CUPS sonucu belirsiz ('' @ reference
                  @ jt ''); fiziksel ~c~ikt~iy~i kontrol edin'')), p, Suc t)
          else cups_poll E deadline reference p (Suc t))"

definition wait_for_cups :: "env \<Rightarrow> jstr \<Rightarrow> ('z host_scheme, unit) io" where
  "wait_for_cups E reference =
     io_bind (date_now E) (\<lambda>start w.
       case cups_poll E (start + 60000) reference (cups_plan w) (ticks w) of
         (r, p, t) \<Rightarrow> (r, w\<lparr>cups_plan := p, ticks := t\<rparr>))"

definition lp_arguments :: "bridge_config \<Rightarrow> print_job_claim \<Rightarrow> jstr \<Rightarrow> jstr list" where
  "lp_arguments cfg job file =
     [js ''-d'', local_printer_name cfg job, js ''-n'', int_text (pj_copies job)]
     @ map js [''-o'', ''position=top-left'', ''-o'', ''fit-to-page=false'', ''-o'', ''scaling=100'',
         ''-o'', ''page-left=0'', ''-o'', ''page-right=0'', ''-h'', ''localhost:631'', ''--'']
     @ [file]"

definition submitted_reference :: "jstr \<Rightarrow> exn + jstr" where
  "submitted_reference stdout = (case find_request stdout of
       None \<Rightarrow> throw (jt ''CUPS i~si g~onderildi ancak i~s kimli~gi do~grulanamad~i'')
     | Some (queue, ds) \<Rightarrow>
         sb (guard (1 \<le> int (digits_value ds) \<and> int (digits_value ds) \<le> max_safe)
               (jt ''Ge~cersiz CUPS i~s kimli~gi''))
           (\<lambda>_. Inr (queue @ js ''-'' @ ds)))"

definition mac_print ::
  "env \<Rightarrow> bridge_config \<Rightarrow> print_job_claim \<Rightarrow> ('z host_scheme, print_result) io" where
  "mac_print E cfg job =
     (let code = pj_printerDeviceId job in
      if \<not> printer_allowed cfg code then io_raise (not_configured code)
      else
        io_bind (mkdtemp E) (\<lambda>dir.
        io_bind (random_uuid E) (\<lambda>name.
          (let file = path_join E dir (name @ js ''.txt'') in
           io_bind
             (io_finally
               (io_seq (fs_write file (Text (renderReceiptText E job (receipt_columns cfg))))
               (io_bind (runProcess (js ''lp'') (lp_arguments cfg job file) (Some 20000)) (\<lambda>stdout.
                io_bind (io_lift (submitted_reference stdout)) (\<lambda>reference.
                io_seq (wait_for_cups E reference) (io_ret reference)))))
               (remove_files [file]))
             (\<lambda>cupsReference.
               io_bind (new_date_iso E) (\<lambda>now.
                 io_ret \<lparr>pr_externalReference =
                           join_with (js '':'') (cupsReference # print_reference cfg job),
                         pr_printedAt = now, pr_transport = TMacos\<rparr>))))))"

text \<open>\<open>/^printer\\s+(\\S+)\\s+/\<close>\<close>

definition printer_line_name :: "jstr \<Rightarrow> jstr option" where
  "printer_line_name line =
     (if \<not> starts_with line (js ''printer'') then None
      else
        (let rest = drop 7 line;
             after = dropWhile is_space rest;
             name = takeWhile (\<lambda>c. \<not> is_space c) after
         in if length after = length rest \<or> name = [] \<or> length name = length after then None
            else Some name))"

definition mac_listPrinters :: "('z host_scheme, jstr list) io" where
  "mac_listPrinters =
     io_bind (runProcess (js ''lpstat'') (map js [''-h'', ''localhost:631'', ''-p'']) None)
       (\<lambda>stdout. io_ret (List.map_filter printer_line_name (split_on 10 stdout)))"

section \<open>Choosing a transport\<close>

datatype transport = MockPrinter | WindowsPrinter | MacPrinter

definition platformTransport :: "env \<Rightarrow> exn + transport" where
  "platformTransport E = (case os_platform E of
       Win32 \<Rightarrow> Inr WindowsPrinter | Darwin \<Rightarrow> Inr MacPrinter
     | OtherOs \<Rightarrow> throw (jt ''Bu i~sletim sisteminde fiziksel yazd~irma ta~s~imas~i yok. Mock yaln~iz geli~stirme/test ortam~inda kullan~ilabilir.''))"

text \<open>\<open>node_env\<close> is \<open>process.env.NODE_ENV\<close>.\<close>

definition createTransport :: "env \<Rightarrow> jstr option \<Rightarrow> bridge_config \<Rightarrow> exn + transport" where
  "createTransport E node_env cfg = (case cf_transport cfg of
       Auto \<Rightarrow> platformTransport E
     | Only_Windows \<Rightarrow> Inr WindowsPrinter
     | Only_Macos \<Rightarrow> Inr MacPrinter
     | Only_Mock \<Rightarrow>
         sb (guard (node_env \<in> {Some (js ''development''), Some (js ''test'')})
               (jt ''Mock ta~s~imas~i yaln~iz geli~stirme veya testte kullan~ilabilir.''))
           (\<lambda>_. Inr MockPrinter))"

fun transport_print ::
  "env \<Rightarrow> bridge_config \<Rightarrow> transport \<Rightarrow> print_job_claim \<Rightarrow> ('z host_scheme, print_result) io" where
  "transport_print E cfg MockPrinter job = mock_print E cfg job"
| "transport_print E cfg WindowsPrinter job = windows_print E cfg job"
| "transport_print E cfg MacPrinter job = mac_print E cfg job"

fun listPrinters :: "transport \<Rightarrow> ('z host_scheme, jstr list) io option" where
  "listPrinters MockPrinter = None"
| "listPrinters WindowsPrinter = Some windows_listPrinters"
| "listPrinters MacPrinter = Some mac_listPrinters"

section \<open>The interface\<close>

declare jt.simps [simp del]

text \<open>What the journal and the job loop own, and the transports leave alone.\<close>

fun is_exec :: "event \<Rightarrow> bool" where
  "is_exec (EvExec _ _) = True"
| "is_exec _ = False"

definition owned ::
  "jstr \<Rightarrow> 'z jworld_scheme \<Rightarrow> journal_map \<times> bool \<times> fdata option \<times> event list \<times> 'z" where
  "owned path w = (jn_entries w, jn_loaded w, files w path,
     filter (\<lambda>e. \<not> is_exec e) (hist w), jworld.more w)"

definition paths_apart :: "env \<Rightarrow> jstr \<Rightarrow> bool" where
  "paths_apart E path \<longleftrightarrow> (\<forall>t. \<not> prefix (temp_dir E t) path)"

definition result_for :: "bridge_config \<Rightarrow> print_job_claim \<Rightarrow> print_result \<Rightarrow> bool" where
  "result_for cfg job r \<longleftrightarrow>
     suffix (join_with (js '':'') (print_reference cfg job)) (pr_externalReference r)"

lemma owned_simps [simp]:
  "owned path (w\<lparr>ticks := t\<rparr>) = owned path w" "owned path (w\<lparr>fs_plan := p\<rparr>) = owned path w"
  "owned path (w\<lparr>random_plan := q\<rparr>) = owned path w" "owned path (w\<lparr>exec_plan := x\<rparr>) = owned path w"
  "owned path (w\<lparr>cups_plan := c\<rparr>) = owned path w"
  "owned path (log_event (EvExec cmd args) w) = owned path w"
  "path' \<noteq> path \<Longrightarrow> owned path (put_file path' d w) = owned path w"
  by (simp_all add: owned_def log_event_def put_file_def)

lemma owned_remove:
  "path \<notin> set ps \<Longrightarrow> owned path (foldl (\<lambda>v p. put_file p None v) w ps) = owned path w"
  by (induction ps arbitrary: w) auto

lemma path_join_apart: "paths_apart E path \<Longrightarrow> path_join E (temp_dir E t) f \<noteq> path"
  unfolding paths_apart_def path_join_def by (metis prefixI)

abbreviation owns :: "jstr \<Rightarrow> _ \<Rightarrow> 'z jworld_scheme \<Rightarrow> bool" where
  "owns path f \<equiv> (\<lambda>w. owned path w = f)"

lemma runProcess_owns [io_rules]: "keeps (owns path f) (runProcess cmd args t)"
  unfolding runProcess_def
  by (intro keeps_bind keeps_exec_file) (auto intro: io_rules split: sum.splits)

lemma clock_owns [io_rules]:
  "keeps (owns path f) (new_date_iso E)" "keeps (owns path f) (date_now E)"
  "keeps (owns path f) (random_uuid E)" "keeps (owns path f) next_random"
  by (rule keeps_new_date_iso keeps_date_now keeps_random_uuid keeps_next_random, simp)+

lemma write_owns: "p \<noteq> path \<Longrightarrow> keeps (owns path f) (fs_write p d)"
  unfolding fs_write_def by (rule keeps_fs_effect) simp_all

lemma remove_owns: "path \<notin> set ps \<Longrightarrow> keeps (owns path f) (remove_files ps)"
  unfolding remove_files_def by (rule keeps_fs_effect) (simp_all add: owned_remove)

lemma wait_owns [io_rules]: "keeps (owns path f) (wait_for_cups E r)"
  unfolding wait_for_cups_def
  by (intro keeps_bind clock_owns) (simp add: keeps_def split: prod.splits)

text \<open>The directory \<open>mkdtemp\<close> returns is one of the machine's temporary directories.\<close>

lemma keeps_bind_mkdtemp:
  assumes "\<And>t. keeps (owns path f) (k (temp_dir E t))"
  shows "keeps (owns path f) (io_bind (mkdtemp E) k)"
proof -
  have "keeps (owns path f) (\<lambda>w. k (temp_dir E (ticks w)) (w\<lparr>ticks := Suc (ticks w)\<rparr>))"
    using assms by (simp add: keeps_def)
  then have "keeps (owns path f) (io_bind fs_plain (\<lambda>_ w. k (temp_dir E (ticks w)) (w\<lparr>ticks := Suc (ticks w)\<rparr>)))"
    unfolding fs_plain_def by (intro keeps_bind keeps_fs_effect) simp_all
  moreover have "io_bind (mkdtemp E) k
      = io_bind fs_plain (\<lambda>_ w. k (temp_dir E (ticks w)) (w\<lparr>ticks := Suc (ticks w)\<rparr>))"
    by (simp add: mkdtemp_def io_bind_def fun_eq_iff split: prod.splits res.splits)
  ultimately show ?thesis by simp
qed

lemma mock_owns: "keeps (owns path f) (mock_print E cfg job)"
  unfolding mock_print_def by (intro io_rules)

lemma windows_owns: "paths_apart E path \<Longrightarrow> keeps (owns path f) (windows_print E cfg job)"
  unfolding windows_print_def Let_def
  by (intro io_rules keeps_bind_mkdtemp write_owns remove_owns)
    (auto dest: path_join_apart)

lemma mac_owns: "paths_apart E path \<Longrightarrow> keeps (owns path f) (mac_print E cfg job)"
  unfolding mac_print_def Let_def
  by (intro io_rules keeps_bind_mkdtemp write_owns remove_owns)
    (auto dest: path_join_apart)

lemma transport_owns: "paths_apart E path \<Longrightarrow> keeps (owns path f) (transport_print E cfg tr job)"
  by (cases tr) (simp_all add: mock_owns windows_owns mac_owns)

lemma io_bind_Ok: "io_bind m k w = (Ok x, w') \<longleftrightarrow> (\<exists>y v. m w = (Ok y, v) \<and> k y v = (Ok x, w'))"
  by (auto simp: io_bind_def split: prod.splits res.splits)

lemma io_seq_Ok: "io_seq m k w = (Ok x, w') \<longleftrightarrow> (\<exists>v. m w = (Ok (), v) \<and> k v = (Ok x, w'))"
  by (auto simp: io_seq_def io_bind_Ok)

lemma result_for_mock:
  "mock_print E cfg job w = (Ok x, w') \<Longrightarrow> result_for cfg job x"
  by (auto simp: mock_print_def io_bind_Ok result_for_def split: if_splits)

lemma result_for_windows:
  "windows_print E cfg job w = (Ok x, w') \<Longrightarrow> result_for cfg job x"
  by (auto simp: windows_print_def Let_def io_bind_Ok io_seq_Ok result_for_def split: if_splits)

lemma result_for_mac:
  "mac_print E cfg job w = (Ok x, w') \<Longrightarrow> result_for cfg job x"
  by (auto simp: mac_print_def Let_def io_bind_Ok io_seq_Ok result_for_def print_reference_def
      suffix_def split: if_splits)

lemma transport_result: "transport_print E cfg tr job w = (Ok x, w') \<Longrightarrow> result_for cfg job x"
  by (cases tr) (auto dest: result_for_mock result_for_windows result_for_mac)

interpretation tp: printer_transport "transport_print E cfg tr" "paths_apart E path" "owned path"
    "result_for cfg" for E cfg tr path
  by unfold_locales (auto intro: transport_owns dest: transport_result)

section \<open>What a successful print has done\<close>

text \<open>The part of the world that only subprocesses and CUPS change.\<close>

definition side :: "'z host_scheme \<Rightarrow> event list \<times> cups_reply list" where
  "side w = (hist w, cups_plan w)"

lemma side_simps [simp]:
  "side (w\<lparr>ticks := t\<rparr>) = side w" "side (w\<lparr>fs_plan := p\<rparr>) = side w" "side (put_file q d w) = side w"
  by (simp_all add: side_def)

lemma side_remove: "side (foldl (\<lambda>v p. put_file p None v) w ps) = side w"
  by (induction ps arbitrary: w) simp_all

lemma keeps_same: "(\<And>x. keeps (\<lambda>w. g w = x) m) \<Longrightarrow> m w = (r, w') \<Longrightarrow> g w' = g w"
  unfolding keeps_def by (metis snd_conv)

lemma side_keeps:
  "keeps (\<lambda>w. side w = s) (fs_write p d)" "keeps (\<lambda>w. side w = s) (remove_files ps)"
  "keeps (\<lambda>w. side w = s) (mkdtemp E)" "keeps (\<lambda>w. side w = s) (random_uuid E)"
  "keeps (\<lambda>w. side w = s) (new_date_iso E)" "keeps (\<lambda>w. side w = s) (date_now E)"
  by (simp_all add: fs_write_def remove_files_def side_remove keeps_fs_effect keeps_mkdtemp
      keeps_random_uuid keeps_new_date_iso keeps_date_now)

lemma side_same:
  "fs_write p d w = (r, w') \<Longrightarrow> side w' = side w"
  "remove_files ps w = (r, w') \<Longrightarrow> side w' = side w"
  "mkdtemp E w = (r2, w') \<Longrightarrow> side w' = side w"
  "random_uuid E w = (r2, w') \<Longrightarrow> side w' = side w"
  "new_date_iso E w = (r2, w') \<Longrightarrow> side w' = side w"
  "date_now E w = (r3, w') \<Longrightarrow> side w' = side w"
  by (erule keeps_same [OF side_keeps(1)] keeps_same [OF side_keeps(2)] keeps_same [OF side_keeps(3)]
      keeps_same [OF side_keeps(4)] keeps_same [OF side_keeps(5)] keeps_same [OF side_keeps(6)])+

lemma runProcess_Ok:
  "runProcess cmd args t w = (Ok out, w') \<Longrightarrow>
     hist w' = hist w @ [EvExec cmd args] \<and> cups_plan w' = cups_plan w"
  by (auto simp: runProcess_def exec_file_def io_bind_Ok log_event_def
      split: list.splits exec_reply.splits sum.splits)

lemma each_copy_Ok:
  assumes "io_each (\<lambda>c. io_bind (runProcess cmd (args c) t) (\<lambda>_. io_ret ())) cs w = (Ok (), w')"
  shows "hist w' = hist w @ map (\<lambda>c. EvExec cmd (args c)) cs"
  using assms
proof (induction cs arbitrary: w)
  case (Cons c cs)
  then show ?case by (auto simp: io_bind_Ok dest!: runProcess_Ok Cons.IH)
qed simp

lemma io_finally_Ok:
  "io_finally m f w = (Ok x, w') \<longleftrightarrow> (\<exists>v. m w = (Ok x, v) \<and> f v = (Ok (), w'))"
  by (auto simp: io_finally_def split: prod.splits res.splits)

lemma io_lift_Ok [simp]: "io_lift r w = (Ok x, w') \<longleftrightarrow> r = Inr x \<and> w' = w"
  by (auto simp: io_lift_def split: sum.splits)

lemma cups_poll_Ok:
  "cups_poll E dl ref p t = (Ok (), q, t') \<Longrightarrow> \<exists>rs r. p = rs @ r # q \<and> cups_state r = Inr 9
     \<and> (\<forall>x\<in>set rs. \<exists>s. cups_state x = Inr s \<and> s \<notin> {6, 7, 8, 9})"
proof (induction p arbitrary: t)
  case (Cons r p)
  obtain s where s: "cups_state r = Inr s" "s = 9 \<and> p = q
      \<or> s \<notin> {6, 7, 8, 9} \<and> cups_poll E dl ref p (Suc t) = (Ok (), q, t')"
    using Cons.prems by (cases r) (auto split: sum.splits if_splits)
  show ?case
  proof (cases "s = 9")
    case True
    with s have "r # p = [] @ r # q" "cups_state r = Inr 9" by auto
    then show ?thesis by (metis empty_iff empty_set)
  next
    case False
    with s Cons.IH obtain rs r' where r: "p = rs @ r' # q" "cups_state r' = Inr 9"
      "\<forall>x\<in>set rs. \<exists>s. cups_state x = Inr s \<and> s \<notin> {6, 7, 8, 9}" by blast
    from s False have "s \<notin> {6, 7, 8, 9}" by blast
    with r s(1) show ?thesis by (intro exI [of _ "r # rs"] exI [of _ r']) auto
  qed
qed simp

section \<open>Properties\<close>

text \<open>A Windows job is spooled once per copy. When the Windows transport reports success it has run
  the spooler exactly once for each copy, in order, with one job name per copy, and nothing else;
  a virtual printer is refused before anything is spooled.\<close>

theorem windows_spools_each_copy:
  assumes "windows_print E cfg job w = (Ok x, w')"
  shows "\<exists>script file. hist w' = hist w @ map (\<lambda>c. EvExec (js ''powershell.exe'')
      (windows_arguments cfg job script file c)) [1..pj_copies job]
    \<and> assertSupportedWindowsPrinter (local_printer_name cfg job) = Inr ()"
proof -
  define args where "args = windows_arguments cfg job"
  obtain dir name v1 v2 v3 v4 v5 v6 script path where
    "assertSupportedWindowsPrinter (local_printer_name cfg job) = Inr ()"
    and steps: "mkdtemp E w = (Ok dir, v1)" "random_uuid E v1 = (Ok name, v2)"
      "fs_write path (Text (renderReceiptText E job (receipt_columns cfg))) v2 = (Ok (), v3)"
      "fs_write script (Text (windows_script E)) v3 = (Ok (), v4)"
      "io_each (\<lambda>copy. io_bind (runProcess (js ''powershell.exe'') (args script path copy) (Some 40000))
          (\<lambda>_. io_ret ())) [1..pj_copies job] v4 = (Ok (), v5)"
      "remove_files [path, script] v5 = (Ok (), v6)" "w' = v6\<lparr>ticks := Suc (ticks v6)\<rparr>"
    using assms
    by (clarsimp simp: windows_print_def Let_def io_bind_Ok io_seq_Ok io_finally_Ok args_def
        split: if_splits)
  moreover have "hist v4 = hist w" "hist w' = hist v5"
    using steps(1-4,6,7) side_same side_simps(1) by (metis side_def prod.inject)+
  ultimately show ?thesis
    using each_copy_Ok [OF steps(5)] by (auto simp: args_def)
qed

text \<open>A macOS job counts as printed only when CUPS says so. When the CUPS transport reports success,
  the answers it has read end with a well-formed answer in state 9 (completed), and no earlier one was
  malformed, stopped, canceled or aborted; \<open>lp\<close> was run exactly once.\<close>

theorem mac_waits_for_completion:
  assumes "mac_print E cfg job w = (Ok x, w')"
  shows "(\<exists>rs r. cups_plan w = rs @ r # cups_plan w' \<and> cups_state r = Inr 9
      \<and> (\<forall>y\<in>set rs. \<exists>s. cups_state y = Inr s \<and> s \<notin> {6, 7, 8, 9}))
    \<and> (\<exists>file. hist w' = hist w @ [EvExec (js ''lp'') (lp_arguments cfg job file)])"
proof -
  obtain dir name v1 v2 v3 v4 v5 v6 path out ref where
    steps: "mkdtemp E w = (Ok dir, v1)" "random_uuid E v1 = (Ok name, v2)"
      "fs_write path (Text (renderReceiptText E job (receipt_columns cfg))) v2 = (Ok (), v3)"
      "runProcess (js ''lp'') (lp_arguments cfg job path) (Some 20000) v3 = (Ok out, v4)"
      "wait_for_cups E ref v4 = (Ok (), v5)"
      "remove_files [path] v5 = (Ok (), v6)" "w' = v6\<lparr>ticks := Suc (ticks v6)\<rparr>"
    using assms
    by (clarsimp simp: mac_print_def Let_def io_bind_Ok io_seq_Ok io_finally_Ok
        split: if_splits)
  obtain dl t p t' where poll: "cups_poll E dl ref (cups_plan v4) t = (Ok (), p, t')"
    and v5: "hist v5 = hist v4" "cups_plan v5 = p"
    using steps(5) by (auto simp: wait_for_cups_def split: prod.splits)
  have "side v3 = side w" "side w' = side v5"
    using steps(1-3,6,7) side_same side_simps(1) by metis+
  with v5 runProcess_Ok [OF steps(4)] cups_poll_Ok [OF poll] show ?thesis
    by (auto simp: side_def)
qed

text \<open>The answer of \<open>lp\<close> is read right: for every queue name without blanks, with hyphens or not,
  and every positive job number the reference the bridge keeps is the one CUPS printed.\<close>

theorem lp_answer_understood:
  assumes "queue \<noteq> []" and "\<forall>c\<in>set queue. \<not> is_space c" and "1 \<le> n" and "n \<le> max_safe"
    and "is_space blank"
  shows "submitted_reference (js ''request id is '' @ queue @ 45 # int_text n @ blank # rest)
    = Inr (queue @ js ''-'' @ int_text n)"
proof -
  have ds: "\<forall>c\<in>set (int_text n). is_digit c" "int_text n \<noteq> []" "int (digits_value (int_text n)) = n"
    using assms(3) nat_digits_are_digits by (simp_all add: int_text_def)
  have nb: "\<not> is_space 45" "is_digit c \<Longrightarrow> \<not> is_space c" "is_digit c \<Longrightarrow> c \<noteq> 45" for c
    by (auto simp: is_space_def is_digit_def)
  let ?run = "queue @ 45 # int_text n"
  let ?s = "js ''request id is '' @ ?run @ blank # rest"
  have run: "takeWhile (\<lambda>c. \<not> is_space c) (?run @ blank # rest) = ?run"
    using assms(2,5) ds nb by (subst takeWhile_append2) auto
  have "takeWhile (\<lambda>c. c \<noteq> 45) (rev (int_text n) @ 45 # rev queue) = rev (int_text n)"
    using ds nb by (subst takeWhile_append2) auto
  then have last: "rev (takeWhile (\<lambda>c. c \<noteq> 45) (rev ?run)) = int_text n" by simp
  have "drop 14 ?s = ?run @ blank # rest" by (simp add: js_def)
  moreover have "starts_with ?s (js ''request id is '')" by (rule starts_with_append)
  ultimately have "request_at ?s = Some (queue, int_text n)"
    using run last ds assms(1) unfolding request_at_def Let_def
    by (auto simp: neq_Nil_conv)
  moreover obtain c s' where "?s = c # s'" by (cases ?s) (auto simp: js_def)
  ultimately have "find_request ?s = Some (queue, int_text n)" by simp
  with ds assms(3,4) show ?thesis by (simp add: submitted_reference_def)
qed

text \<open>No mock printing in production. Whatever the settings, the bridge gets a mock printer only when
  the mock is asked for by name and the process runs as development or test; every other choice is a
  system transport that fits the request or an error.\<close>

theorem mock_only_in_development:
  "createTransport E node_env cfg = Inr tr \<Longrightarrow>
     (tr = MockPrinter \<longrightarrow> cf_transport cfg = Only_Mock
        \<and> node_env \<in> {Some (js ''development''), Some (js ''test'')})
     \<and> (cf_transport cfg = Auto \<longrightarrow> tr = (if os_platform E = Win32 then WindowsPrinter else MacPrinter)
        \<and> os_platform E \<noteq> OtherOs)"
  by (auto simp: createTransport_def platformTransport_def sb_Inr_iff
      split: transport_setting.splits os.splits if_splits)

section \<open>Examples\<close>


lemma demo_printer:
  "printer_allowed demo_config (js ''KITCHEN'')" "local_printer_name demo_config sample_job = js ''KITCHEN''"
  "assertSupportedWindowsPrinter (js ''KITCHEN'') = Inr ()"
  "pj_printerDeviceId sample_job = js ''KITCHEN''" "pj_copies sample_job = 2"
  by (simp_all add: printer_allowed_def demo_config_def local_printer_name_def sample_job_def
      assertSupportedWindowsPrinter_def js_def js_trim_def is_space_def to_lower_def lower_unit_def)

definition demo_spooler :: "exec_reply list \<Rightarrow> cups_reply list \<Rightarrow> host" where
  "demo_spooler ex cu = (demo_host (replicate 4 FsOk) [])\<lparr>exec_plan := ex, cups_plan := cu\<rparr>"

lemma windows_spools_each_copy_witness:
  "\<exists>w' script file. windows_print demo_env demo_config sample_job (demo_spooler [ExecOk [], ExecOk []] [])
      = (Ok \<lparr>pr_externalReference = join_with (js '':'') (print_reference demo_config sample_job),
             pr_printedAt = nat_digits 2, pr_transport = TWindows\<rparr>, w')
    \<and> hist w' = [EvExec (js ''powershell.exe'') (windows_arguments demo_config sample_job script file 1),
               EvExec (js ''powershell.exe'') (windows_arguments demo_config sample_job script file 2)]"
proof -
  have up: "[1..2] = [1, 2::int]" by (simp add: upto.simps)
  have "\<exists>w'. windows_print demo_env demo_config sample_job (demo_spooler [ExecOk [], ExecOk []] [])
      = (Ok \<lparr>pr_externalReference = join_with (js '':'') (print_reference demo_config sample_job),
             pr_printedAt = nat_digits 2, pr_transport = TWindows\<rparr>, w')"
    by (simp add: windows_print_def Let_def demo_printer io_seq_def io_bind_def io_lift_def io_finally_def
        io_ret_def mkdtemp_def random_uuid_def new_date_iso_def demo_spooler_def demo_host_def
        host_defs remove_files_def runProcess_def exec_file_def up eval_nat_numeral)
  then obtain w' where w': "windows_print demo_env demo_config sample_job (demo_spooler [ExecOk [], ExecOk []] [])
      = (Ok \<lparr>pr_externalReference = join_with (js '':'') (print_reference demo_config sample_job),
             pr_printedAt = nat_digits 2, pr_transport = TWindows\<rparr>, w')" by blast
  from windows_spools_each_copy [OF this] w' show ?thesis
    by (auto simp: demo_printer up demo_spooler_def demo_host_def)
qed

lemma mac_waits_for_completion_witness:
  "\<exists>x w'. mac_print demo_env demo_config sample_job
      (demo_spooler [ExecOk (js ''request id is Q-7 (1 file)'')] [CupsAnswer True demo_cups_answer]) = (Ok x, w')
    \<and> cups_plan w' = []"
proof -
  have r: "submitted_reference (js ''request id is Q-7 (1 file)'') = Inr (js ''Q-7'')"
    by (simp add: submitted_reference_def request_at_def starts_with_def js_def is_space_def
        is_digit_def digits_value_def max_safe_def Let_def)
  have "\<exists>x w'. mac_print demo_env demo_config sample_job
      (demo_spooler [ExecOk (js ''request id is Q-7 (1 file)'')] [CupsAnswer True demo_cups_answer]) = (Ok x, w')"
    by (simp add: mac_print_def Let_def demo_printer io_seq_def io_bind_def io_lift_def io_finally_def
        io_ret_def mkdtemp_def random_uuid_def new_date_iso_def demo_spooler_def demo_host_def
        host_defs remove_files_def runProcess_def exec_file_def eval_nat_numeral r wait_for_cups_def
        date_now_def cups_state_def demo_cups_answer_parses)
  then obtain x w' where w': "mac_print demo_env demo_config sample_job
      (demo_spooler [ExecOk (js ''request id is Q-7 (1 file)'')] [CupsAnswer True demo_cups_answer]) = (Ok x, w')"
    by blast
  have "cups_plan w' = []"
    using mac_waits_for_completion [OF w'] by (auto simp: demo_spooler_def Cons_eq_append_conv)
  with w' show ?thesis by blast
qed

lemma lp_answer_understood_witness:
  "submitted_reference (js ''request id is '' @ js ''HP-2'' @ 45 # int_text 12 @ 32 # js ''(1 file)'')
    = Inr (js ''HP-2'' @ js ''-'' @ int_text 12)"
  by (rule lp_answer_understood) (simp_all add: js_def is_space_def max_safe_def)

lemma mock_only_in_development_witness:
  "createTransport demo_env None demo_config = Inr MacPrinter \<and> os_platform demo_env \<noteq> OtherOs"
proof -
  have r: "createTransport demo_env None demo_config = Inr MacPrinter"
    by (simp add: createTransport_def platformTransport_def demo_config_def demo_env_def)
  from mock_only_in_development [OF this] r show ?thesis by (simp add: demo_config_def)
qed

end
