(* ===== verification/Print_Bridge.thy ===== *)
theory Print_Bridge
  imports Bridge_State Bridge_Api Printers
begin

text \<open>
  The job loop of the bridge, \<open>apps/print-bridge/src/bridge.ts\<close>: processing a claimed job, recovering
  journal entries, polling, heartbeats, and \<open>run\<close>. The ghost event \<open>EvPrint\<close> is written where the
  loop calls \<open>printer.print(job)\<close>, with the journal file as it is on disk at that moment. Log output
  is not modelled.
\<close>

section \<open>The world of the bridge\<close>

record bworld = jworld +
  bw_state :: bridge_state
  bw_lastHeartbeatAt :: int
  bw_lastPrinterInventory :: "jstr list"

definition upd_state :: "(bridge_state \<Rightarrow> bridge_state) \<Rightarrow> (bworld, unit) io" where
  "upd_state f = io_upd (\<lambda>w. w\<lparr>bw_state := f (bw_state w)\<rparr>)"

definition upd_state_now :: "env \<Rightarrow> (jstr \<Rightarrow> bridge_state \<Rightarrow> bridge_state) \<Rightarrow> (bworld, unit) io" where
  "upd_state_now E f = io_bind (new_date_iso E) (\<lambda>now. upd_state (f now))"

definition log_print :: "jstr \<Rightarrow> print_job_claim \<Rightarrow> (bworld, unit) io" where
  "log_print path job =
     io_upd (\<lambda>w. log_event (EvPrint (pj_id job) (pj_attemptCount job) (files w path)) w)"

definition with_cause :: "string \<Rightarrow> exn \<Rightarrow> jstr" where
  "with_cause m e = jt m @ safeErrorMessage e"

section \<open>Processing a job\<close>

definition acknowledgeFailure ::
  "env \<Rightarrow> bridge_config \<Rightarrow> print_job_claim \<Rightarrow> jstr \<Rightarrow> bool \<Rightarrow> (bworld, unit) io" where
  "acknowledgeFailure E cfg job message manualRetryRequired =
     io_seq (upd_state (recordFailedJob message))
       (io_catch
         (io_seq (markFailed cfg job message manualRetryRequired)
           (if manualRetryRequired then markAcknowledged E (cf_journalPath cfg) (pj_id job)
            else io_ret ()))
         (\<lambda>_. io_ret ()))"

definition recoverClaimedJournalEntry ::
  "env \<Rightarrow> bridge_config \<Rightarrow> print_job_claim \<Rightarrow> journal_entry \<Rightarrow> (bworld, unit) io" where
  "recoverClaimedJournalEntry E cfg job entry =
     (if je_documentHash entry \<noteq> hashDocument E job
      then acknowledgeFailure E cfg job
             (jt ''Yerel g~unl~uk kayd~i farkl~i bir belgeyle e~sle~sti; ~cift bask~iy~i ~onlemek i~cin operat~or yeniden denemelidir.'')
             True
      else io_catch
        (io_seq
          (if je_state entry = PRINTED \<and> je_result entry \<noteq> None
           then markPrinted cfg job (the (je_result entry))
           else markFailed cfg job
             (jt ''Yerel yazd~irma sonucu belirsiz kald~i. ~Cift bask~iy~i ~onlemek i~cin operat~or yeniden denemelidir.'')
             True)
          (markAcknowledged E (cf_journalPath cfg) (pj_id job)))
        (\<lambda>_. io_ret ()))"

definition finish_printed ::
  "env \<Rightarrow> bridge_config \<Rightarrow> print_job_claim \<Rightarrow> print_result \<Rightarrow> (bworld, unit) io" where
  "finish_printed E cfg job result =
     io_seq (upd_state state_recordPrinted)
       (io_catch
         (io_seq (markPrinted cfg job result)
         (io_seq (markAcknowledged E (cf_journalPath cfg) (pj_id job))
           (upd_state_now E recordLastPrintedAt)))
         (\<lambda>_. io_ret ()))"

definition after_spool ::
  "env \<Rightarrow> bridge_config \<Rightarrow> print_job_claim \<Rightarrow> print_result \<Rightarrow> (bworld, unit) io" where
  "after_spool E cfg job result =
     io_seq (io_catch (markSent cfg job) (\<lambda>_. io_ret ()))
       (io_try (recordPrinted E (cf_journalPath cfg) job result)
         (\<lambda>_. finish_printed E cfg job result)
         (\<lambda>e. acknowledgeFailure E cfg job
            (with_cause ''Yazd~irma tamamland~i ancak yerel kay~it g~uvenle yaz~ilamad~i: '' e) True))"

definition spool ::
  "env \<Rightarrow> bridge_config \<Rightarrow> transport \<Rightarrow> print_job_claim \<Rightarrow> (bworld, unit) io" where
  "spool E cfg tr job =
     io_seq (log_print (cf_journalPath cfg) job)
       (io_try (transport_print E cfg tr job)
         (\<lambda>result. after_spool E cfg job result)
         (\<lambda>e. acknowledgeFailure E cfg job
            (with_cause ''Yerel yazd~irma sonucunun fiziksel durumu belirsiz: '' e) True))"

definition process ::
  "env \<Rightarrow> bridge_config \<Rightarrow> transport \<Rightarrow> print_job_claim \<Rightarrow> (bworld, unit) io" where
  "process E cfg tr job =
     io_seq (upd_state recordJobStarted)
       (io_bind (io_get (\<lambda>w. getUnacknowledged (pj_id job) (jn_entries w))) (\<lambda>previousEntry.
         case previousEntry of
           Some entry \<Rightarrow> recoverClaimedJournalEntry E cfg job entry
         | None \<Rightarrow>
             io_try (recordDispatching E (cf_journalPath cfg) job)
               (\<lambda>_. spool E cfg tr job)
               (\<lambda>e. acknowledgeFailure E cfg job
                  (with_cause ''Yerel g~unl~uk kayd~i yaz~ilamad~i: '' e) True)))"

section \<open>Polling, recovery, heartbeats\<close>

definition poll :: "env \<Rightarrow> bridge_config \<Rightarrow> transport \<Rightarrow> (bworld, unit) io" where
  "poll E cfg tr =
     io_catch
       (io_bind (claimJobs E cfg 1) (\<lambda>jobs.
         io_seq (upd_state_now E recordPollSuccess) (io_each (process E cfg tr) jobs)))
       (\<lambda>e. upd_state (recordPollFailure (safeErrorMessage e)))"

definition recover_entry :: "env \<Rightarrow> bridge_config \<Rightarrow> journal_entry \<Rightarrow> (bworld, unit) io" where
  "recover_entry E cfg entry =
     io_catch
       (io_seq
         (if je_state entry = PRINTED \<and> je_result entry \<noteq> None
          then recoverPrinted cfg (je_jobId entry) (je_attemptCount entry) (the (je_result entry))
          else recoverUncertainDispatch cfg (je_jobId entry) (je_attemptCount entry)
            (jt ''Yerel yazd~irma sonucu bridge yeniden ba~slat~il~irken belirsiz kald~i. ~Cift bask~iy~i ~onlemek i~cin operat~or yeniden denemelidir.''))
         (markAcknowledged E (cf_journalPath cfg) (je_jobId entry)))
       (\<lambda>_. io_ret ())"

definition recoverJournal :: "env \<Rightarrow> bridge_config \<Rightarrow> (bworld, unit) io" where
  "recoverJournal E cfg =
     io_bind (io_get (\<lambda>w. unacknowledged (jn_entries w))) (io_each (recover_entry E cfg))"

definition refresh_inventory :: "transport \<Rightarrow> (bworld, unit) io" where
  "refresh_inventory tr = (case listPrinters tr of
       None \<Rightarrow> io_ret ()
     | Some list \<Rightarrow> io_catch
         (io_bind list (\<lambda>ps. io_upd (\<lambda>w. w\<lparr>bw_lastPrinterInventory := ps\<rparr>))) (\<lambda>_. io_ret ()))"

definition heartbeatIfDue :: "env \<Rightarrow> bridge_config \<Rightarrow> transport \<Rightarrow> (bworld, unit) io" where
  "heartbeatIfDue E cfg tr =
     io_bind (date_now E) (\<lambda>now w.
       if now - bw_lastHeartbeatAt w < cf_heartbeatIntervalMs cfg then (Ok (), w)
       else
         io_seq (io_upd (\<lambda>w. w\<lparr>bw_lastHeartbeatAt := now\<rparr>))
         (io_seq (refresh_inventory tr)
           (io_bind (io_get bw_lastPrinterInventory) (\<lambda>printers.
             io_catch (heartbeat E cfg printers) (\<lambda>_. io_ret ())))) w)"

section \<open>Running\<close>

text \<open>
  The two loops of \<open>run\<close> as one sequence of steps: a round of the main loop or a round of the
  heartbeat loop. A heartbeat shares no field with the job loop, so where it falls between two awaits
  of a round makes no difference to the journal or the printer.
\<close>

datatype loop_step = Cycle | Beat

fun loop_round :: "env \<Rightarrow> bridge_config \<Rightarrow> transport \<Rightarrow> loop_step \<Rightarrow> (bworld, unit) io" where
  "loop_round E cfg tr Cycle = io_seq (recoverJournal E cfg) (poll E cfg tr)"
| "loop_round E cfg tr Beat = heartbeatIfDue E cfg tr"

definition run :: "env \<Rightarrow> bridge_config \<Rightarrow> transport \<Rightarrow> loop_step list \<Rightarrow> (bworld, unit) io" where
  "run E cfg tr steps =
     io_seq (load E (cf_journalPath cfg))
     (io_seq (recoverJournal E cfg)
     (io_seq (io_each (loop_round E cfg tr) steps)
       (upd_state recordStopping)))"

text \<open>A new process: fresh memory and whatever the machine will answer; files and history stay.\<close>

definition boot :: "env \<Rightarrow> bridge_config \<Rightarrow> host \<Rightarrow> bworld \<Rightarrow> bworld" where
  "boot E cfg machine w = w\<lparr>fs_plan := fs_plan machine, net_plan := net_plan machine,
     exec_plan := exec_plan machine, cups_plan := cups_plan machine,
     random_plan := random_plan machine, ticks := ticks machine,
     jn_entries := [], jn_loaded := False,
     bw_state := new_bridge_state (cf_bridgeId cfg) (iso_time E (ticks machine)),
     bw_lastHeartbeatAt := 0, bw_lastPrinterInventory := []\<rparr>"

text \<open>
  The worlds a bridge can leave behind: any number of processes one after the other, each with any
  transport, any number of rounds, any behaviour of the machine, and cut short anywhere.
\<close>

inductive lifetime :: "env \<Rightarrow> bridge_config \<Rightarrow> bworld \<Rightarrow> bool" for E cfg where
  installed: "hist w = [] \<Longrightarrow> lifetime E cfg w"
| session: "lifetime E cfg w \<Longrightarrow> run E cfg tr steps (boot E cfg machine w) = (r, w') \<Longrightarrow>
     lifetime E cfg w'"

inductive_cases lifetime_cases: "lifetime E cfg w"

section \<open>Pending prints and safe histories\<close>

text \<open>
  A job is pending from its print until the server has accepted a report that settles it. A history
  is safe when no pending job is printed again, and each print found its job open in the journal
  file.
\<close>

fun pending_after :: "bridge_config \<Rightarrow> jstr set \<Rightarrow> event \<Rightarrow> jstr set" where
  "pending_after cfg S (EvPrint k n f) = insert k S"
| "pending_after cfg S (EvFetch rq True) = {k \<in> S. \<not> settles cfg rq k}"
| "pending_after cfg S e = S"

definition pending :: "bridge_config \<Rightarrow> event list \<Rightarrow> jstr set" where
  "pending cfg h = foldl (pending_after cfg) {} h"

definition safe_event :: "env \<Rightarrow> bridge_config \<Rightarrow> event list \<Rightarrow> event \<Rightarrow> bool" where
  "safe_event E cfg h e = (case e of
       EvPrint k n f \<Rightarrow> k \<notin> pending cfg h \<and> safe_on_disk E f k
     | _ \<Rightarrow> True)"

definition safe_history :: "env \<Rightarrow> bridge_config \<Rightarrow> event list \<Rightarrow> bool" where
  "safe_history E cfg h \<longleftrightarrow> (\<forall>h1 e h2. h = h1 @ e # h2 \<longrightarrow> safe_event E cfg h1 e)"

lemma pending_simps [simp]: "pending cfg [] = {}"
  "pending cfg (h @ [e]) = pending_after cfg (pending cfg h) e"
  by (simp_all add: pending_def)

lemma safe_history_Nil [simp]: "safe_history E cfg []"
  by (simp add: safe_history_def)

lemma safe_history_snoc [simp]:
  "safe_history E cfg (h @ [e]) \<longleftrightarrow> safe_history E cfg h \<and> safe_event E cfg h e"
proof
  assume "safe_history E cfg (h @ [e])"
  then show "safe_history E cfg h \<and> safe_event E cfg h e"
    unfolding safe_history_def by (metis append.assoc append_Cons)
next
  assume s: "safe_history E cfg h \<and> safe_event E cfg h e"
  show "safe_history E cfg (h @ [e])"
    unfolding safe_history_def
  proof (intro allI impI)
    fix h1 x h2 assume "h @ [e] = h1 @ x # h2"
    then show "safe_event E cfg h1 x"
      using s unfolding safe_history_def by (cases h2 rule: rev_cases) auto
  qed
qed

lemma pending_no_exec: "pending cfg (filter (\<lambda>e. \<not> is_exec e) h) = pending cfg h"
proof (induction h rule: rev_induct)
  case (snoc e h)
  then show ?case by (cases e) simp_all
qed simp

lemma safe_no_exec: "safe_history E cfg (filter (\<lambda>e. \<not> is_exec e) h) = safe_history E cfg h"
proof (induction h rule: rev_induct)
  case (snoc e h)
  then show ?case by (cases e) (simp_all add: safe_event_def pending_no_exec)
qed simp

section \<open>The invariant of the running bridge\<close>

interpretation pg: pending_guard "journal_safe E path" journal_frame "recordDispatching E path"
    "recordPrinted E path" "markAcknowledged E path" pj_id "\<lambda>f. pending cfg (fst f)"
  for E path cfg
  by unfold_locales

definition good :: "env \<Rightarrow> bridge_config \<Rightarrow> bworld \<Rightarrow> bool" where
  "good E cfg w \<longleftrightarrow> pg.all_guarded E (cf_journalPath cfg) cfg w \<and> safe_history E cfg (hist w)"

lemma good_iff: "good E cfg w \<longleftrightarrow>
    journal_safe E (cf_journalPath cfg) (pending cfg (hist w)) w \<and> safe_history E cfg (hist w)"
  by (simp add: good_def pg.all_guarded_def journal_frame_def)

lemma good_frame: "good E cfg w \<longleftrightarrow>
    pg.all_guarded E (cf_journalPath cfg) cfg w \<and> safe_history E cfg (fst (journal_frame w))"
  by (simp add: good_def journal_frame_def)

lemma log_event_journal [simp]: "jn_entries (log_event e w) = jn_entries w"
  "jn_loaded (log_event e w) = jn_loaded w"
  by (simp_all add: log_event_def)

lemma journal_safe_event [simp]:
  "journal_safe E path S (log_event e w) = journal_safe E path S w"
  by (simp add: journal_safe_def log_event_def)

lemma journal_safe_plan [simp]: "journal_safe E path S (w\<lparr>net_plan := p\<rparr>) = journal_safe E path S w"
  by (simp add: journal_safe_def)

lemma pending_fetch_subset: "pending_after cfg S (EvFetch rq ok) \<subseteq> S"
  by (cases ok) auto

lemma good_fetch_event: "good E cfg w \<Longrightarrow> good E cfg (log_event (EvFetch rq ok) (w\<lparr>net_plan := p\<rparr>))"
  using pending_fetch_subset [of cfg "pending cfg (hist w)" rq ok]
  by (auto simp: good_iff safe_event_def intro: jg.guarded_mono)

lemma fetch_good [io_rules]: "keeps (good E cfg) (fetch rq)"
  unfolding keeps_def using fetch_run good_fetch_event by (metis prod.collapse)

lemma request_good [io_rules]: "keeps (good E cfg) (api_request cfg' path verb body extra)"
  unfolding api_request_def by (intro io_rules)

lemma send_report_good [io_rules]: "keeps (good E cfg) (send_report cfg' k body key)"
  unfolding send_report_def by (intro io_rules)

lemma report_settles:
  assumes "st \<noteq> SENT" and "send_report cfg k (report_json a e m res st) key w = (Ok (), w')"
  shows "k \<notin> pending cfg (hist w')"
proof -
  obtain p where "w' = log_event (EvFetch (report_request cfg k (report_json a e m res st) key) True)
      (w\<lparr>net_plan := p\<rparr>)"
    using send_report_run [OF assms(2)] by auto
  then show ?thesis using assms(1) by (simp add: settles_report)
qed

text \<open>A settling report followed by the acknowledgement in the journal.\<close>

lemma acknowledge_good:
  "spec (\<lambda>w. good E cfg w \<and> k \<notin> pending cfg (hist w)) (markAcknowledged E (cf_journalPath cfg) k)
     (\<lambda>_. good E cfg)"
proof (rule specI, elim conjE)
  fix w :: bworld and r w'
  assume g: "good E cfg w" and k: "k \<notin> pending cfg (hist w)"
    and run: "markAcknowledged E (cf_journalPath cfg) k w = (r, w')"
  from k have "k \<notin> pending cfg (fst (journal_frame w))" by (simp add: journal_frame_def)
  from specD [OF pg.acknowledge_guards [OF this] _ run] g
  show "good E cfg w'" by (simp add: good_frame)
qed

lemma report_spec:
  assumes "st \<noteq> SENT"
  shows "spec (good E cfg) (send_report cfg k (report_json a e m res st) key)
    (\<lambda>r w. good E cfg w \<and> (r = Ok () \<longrightarrow> k \<notin> pending cfg (hist w)))"
  using keepsD [OF send_report_good] report_settles [OF assms] by (fastforce intro: specI)

lemma settle_good:
  assumes "st \<noteq> SENT"
  shows "keeps (good E cfg) (io_seq (send_report cfg k (report_json a e m res st) key)
           (markAcknowledged E (cf_journalPath cfg) k))"
  unfolding keeps_spec
  by (rule spec_seq [OF report_spec [OF assms]]) (auto intro: spec_conseq [OF acknowledge_good])

lemma io_seq_assoc: "io_seq (io_seq a b) c = io_seq a (io_seq b c)"
  by (auto simp: io_seq_def io_bind_def fun_eq_iff split: prod.splits res.splits)

lemma settle_good_then:
  "st \<noteq> SENT \<Longrightarrow> keeps (good E cfg) rest \<Longrightarrow>
     keeps (good E cfg) (io_seq (send_report cfg k (report_json a e m res st) key)
       (io_seq (markAcknowledged E (cf_journalPath cfg) k) rest))"
  unfolding io_seq_assoc [symmetric] by (intro keeps_seq settle_good)

lemmas report_defs = markPrinted_def markFailed_def recoverPrinted_def recoverUncertainDispatch_def

lemma upd_state_good [io_rules]: "keeps (good E cfg) (upd_state f)"
  unfolding upd_state_def
  by (rule keeps_upd) (simp add: good_iff journal_safe_def)

lemma upd_state_now_good [io_rules]: "keeps (good E cfg) (upd_state_now E' f)"
  unfolding upd_state_now_def
  by (intro keeps_bind upd_state_good keeps_new_date_iso) (simp add: good_iff)

lemma acknowledgeFailure_good [io_rules]: "keeps (good E cfg) (acknowledgeFailure E cfg job m b)"
proof (cases b)
  case True
  then show ?thesis
    unfolding acknowledgeFailure_def report_defs
    by (simp only: if_True) (intro io_rules settle_good; simp)
next
  case False
  then show ?thesis
    unfolding acknowledgeFailure_def report_defs by (simp only: if_False) (intro io_rules)
qed

lemma recoverClaimed_good [io_rules]: "keeps (good E cfg) (recoverClaimedJournalEntry E cfg job entry)"
  unfolding recoverClaimedJournalEntry_def report_defs
  by (cases "je_state entry = PRINTED \<and> je_result entry \<noteq> None")
    (simp_all only: if_True if_False simp_thms, (intro io_rules settle_good; simp)+)

lemma recover_entry_good [io_rules]: "keeps (good E cfg) (recover_entry E cfg entry)"
  unfolding recover_entry_def report_defs
  by (cases "je_state entry = PRINTED \<and> je_result entry \<noteq> None")
    (simp_all only: if_True if_False simp_thms, (intro io_rules settle_good; simp)+)

lemma recoverJournal_good [io_rules]: "keeps (good E cfg) (recoverJournal E cfg)"
  unfolding recoverJournal_def by (intro io_rules)

lemma finish_good [io_rules]: "keeps (good E cfg) (finish_printed E cfg job result)"
  unfolding finish_printed_def report_defs
  by (intro keeps_seq keeps_catch settle_good_then upd_state_good upd_state_now_good keeps_ret) simp

lemma recordPrinted_good [io_rules]:
  "keeps (good E cfg) (recordPrinted E (cf_journalPath cfg) job result)"
  unfolding keeps_spec
proof (rule specI)
  fix w :: bworld and r w'
  assume g: "good E cfg w" and run: "recordPrinted E (cf_journalPath cfg) job result w = (r, w')"
  have "pg.all_guarded E (cf_journalPath cfg) cfg w' \<and> journal_frame w' = journal_frame w"
    using specD [OF pg.printed_guards [where f = "journal_frame w"] _ run] g
    by (auto simp: good_frame)
  with g show "good E cfg w'" by (simp add: good_frame)
qed

lemma after_spool_good [io_rules]: "keeps (good E cfg) (after_spool E cfg job result)"
  unfolding after_spool_def markSent_def by (intro io_rules)

lemma good_owned:
  assumes "owned (cf_journalPath cfg) w = owned (cf_journalPath cfg) w'" and "good E cfg w"
  shows "good E cfg w'"
proof -
  have same: "jn_entries w = jn_entries w'" "jn_loaded w = jn_loaded w'"
      "files w (cf_journalPath cfg) = files w' (cf_journalPath cfg)"
      "filter (\<lambda>e. \<not> is_exec e) (hist w) = filter (\<lambda>e. \<not> is_exec e) (hist w')"
    using assms(1) by (simp_all add: owned_def)
  then have "pending cfg (hist w) = pending cfg (hist w')"
      "safe_history E cfg (hist w) = safe_history E cfg (hist w')"
    by (metis pending_no_exec, metis safe_no_exec)
  with same assms(2) show ?thesis by (simp add: good_iff journal_safe_def)
qed

lemma transport_good:
  "paths_apart E (cf_journalPath cfg) \<Longrightarrow> keeps (good E cfg) (transport_print E cfg' tr job)"
  by (rule tp.print_preserves) (auto intro: good_owned)

text \<open>Printing: allowed when the job is not pending and is already held by the journal.\<close>

lemma log_print_good:
  "spec (\<lambda>w. good E cfg w \<and> pj_id job \<notin> pending cfg (hist w)
      \<and> journal_safe E (cf_journalPath cfg) (insert (pj_id job) (pending cfg (hist w))) w)
     (log_print (cf_journalPath cfg) job) (\<lambda>_. good E cfg)"
  unfolding log_print_def
  by (rule spec_upd) (auto simp: good_iff safe_event_def journal_safe_def)

lemma spool_good:
  assumes "paths_apart E (cf_journalPath cfg)"
  shows "spec (\<lambda>w. good E cfg w \<and> pj_id job \<notin> pending cfg (hist w)
      \<and> journal_safe E (cf_journalPath cfg) (insert (pj_id job) (pending cfg (hist w))) w)
     (spool E cfg tr job) (\<lambda>_. good E cfg)"
  unfolding spool_def
proof (rule spec_seq [OF log_print_good])
  show "spec (good E cfg) (io_try (transport_print E cfg tr job)
         (\<lambda>result. after_spool E cfg job result)
         (\<lambda>e. acknowledgeFailure E cfg job
            (with_cause ''Yerel yazd~irma sonucunun fiziksel durumu belirsiz: '' e) True)) (\<lambda>_. good E cfg)"
    unfolding keeps_spec [symmetric]
    by (intro keeps_try transport_good [OF assms] after_spool_good acknowledgeFailure_good)
qed

lemma dispatching_good:
  "spec (\<lambda>w. good E cfg w \<and> pj_id job \<notin> pending cfg (hist w))
     (recordDispatching E (cf_journalPath cfg) job)
     (\<lambda>r w. good E cfg w \<and> pj_id job \<notin> pending cfg (hist w)
        \<and> (r = Ok () \<longrightarrow>
             journal_safe E (cf_journalPath cfg) (insert (pj_id job) (pending cfg (hist w))) w))"
proof (rule specI, elim conjE)
  fix w :: bworld and r w'
  assume "good E cfg w" and k: "pj_id job \<notin> pending cfg (hist w)"
    and run: "recordDispatching E (cf_journalPath cfg) job w = (r, w')"
  with specD [OF pg.dispatch_guards [where f = "journal_frame w"] _ run]
  have "pg.all_guarded E (cf_journalPath cfg) cfg w'" "journal_frame w' = journal_frame w"
    "r = Ok () \<longrightarrow> journal_safe E (cf_journalPath cfg) (insert (pj_id job) (pending cfg (fst (journal_frame w)))) w'"
    "safe_history E cfg (hist w)"
    by (auto simp: good_def)
  with k show "good E cfg w' \<and> pj_id job \<notin> pending cfg (hist w') \<and> (r = Ok () \<longrightarrow>
      journal_safe E (cf_journalPath cfg) (insert (pj_id job) (pending cfg (hist w'))) w')"
    by (auto simp: good_def journal_frame_def)
qed

lemma process_good:
  assumes "paths_apart E (cf_journalPath cfg)"
  shows "keeps (good E cfg) (process E cfg tr job)"
proof -
  let ?new = "io_try (recordDispatching E (cf_journalPath cfg) job) (\<lambda>_. spool E cfg tr job)
      (\<lambda>e. acknowledgeFailure E cfg job
         (with_cause ''Yerel g~unl~uk kayd~i yaz~ilamad~i: '' e) True)"
  let ?body = "\<lambda>prev. case prev of Some entry \<Rightarrow> recoverClaimedJournalEntry E cfg job entry | None \<Rightarrow> ?new"
  have new: "spec (\<lambda>w. good E cfg w \<and> pj_id job \<notin> pending cfg (hist w)) ?new (\<lambda>_. good E cfg)"
    by (rule spec_try [OF dispatching_good])
      (auto intro: spec_conseq [OF spool_good [OF assms]]
         spec_conseq [OF acknowledgeFailure_good [unfolded keeps_spec]])
  have "good E cfg (snd (?body (getUnacknowledged (pj_id job) (jn_entries w)) w))"
    if g: "good E cfg w" for w
  proof (cases "getUnacknowledged (pj_id job) (jn_entries w)")
    case None
    then have "pj_id job \<notin> pending cfg (hist w)"
      using g by (auto simp: good_iff journal_safe_def open_in_getUnacknowledged)
    moreover obtain r v where run: "?new w = (r, v)" by fastforce
    ultimately show ?thesis using specD [OF new _ run] g None by simp
  next
    case (Some entry)
    with recoverClaimed_good g show ?thesis by (auto simp: keeps_def)
  qed
  then have "keeps (good E cfg) (io_bind (io_get (\<lambda>w. getUnacknowledged (pj_id job) (jn_entries w))) ?body)"
    by (simp add: keeps_def)
  then show ?thesis
    unfolding process_def by (intro keeps_seq upd_state_good)
qed

lemma claim_loop_good: "keeps (good E cfg) (claim_loop E cfg n jobs)"
proof (induction n arbitrary: jobs)
  case (Suc n)
  have "keeps (good E cfg) (markMalformedClaimFailed cfg v m)" for v m
    unfolding markMalformedClaimFailed_def by (intro io_rules) (auto intro: io_rules)
  with Suc show ?case
    unfolding claim_loop.simps claim_request_def
    by (intro io_rules) (auto intro: io_rules split: sum.splits)
qed (simp add: keeps_ret)

lemma poll_good: "paths_apart E (cf_journalPath cfg) \<Longrightarrow> keeps (good E cfg) (poll E cfg tr)"
  unfolding poll_def claimJobs_def
  by (intro keeps_catch keeps_bind claim_loop_good keeps_seq upd_state_now_good keeps_each
      process_good upd_state_good)

lemma list_printers_good: "listPrinters tr = Some m \<Longrightarrow> keeps (good E cfg) m"
proof -
  have run: "keeps (good E cfg) (runProcess cmd args t)" for cmd args t
  proof -
    have "keeps (\<lambda>w. owned (cf_journalPath cfg) w = f) (runProcess cmd args t :: (bworld, jstr) io)" for f
      by (rule runProcess_owns)
    then show ?thesis using good_owned unfolding keeps_def by metis
  qed
  show "listPrinters tr = Some m \<Longrightarrow> keeps (good E cfg) m"
    by (cases tr) (auto simp: windows_listPrinters_def mac_listPrinters_def intro!: keeps_bind run keeps_ret)
qed

lemma inventory_good [io_rules]: "keeps (good E cfg) (refresh_inventory tr)"
proof (cases "listPrinters tr :: (bworld, jstr list) io option")
  case (Some m)
  have "keeps (good E cfg) (io_upd (\<lambda>w. w\<lparr>bw_lastPrinterInventory := ps\<rparr>))" for ps
    by (rule keeps_upd) (simp add: good_iff journal_safe_def)
  then show ?thesis
    unfolding refresh_inventory_def Some option.case
    by (intro keeps_catch keeps_bind keeps_ret list_printers_good [OF Some])
qed (simp add: refresh_inventory_def keeps_ret)

lemma keeps_unless: "keeps I m \<Longrightarrow> keeps I (\<lambda>w. if c w then (Ok (), w) else m w)"
  by (simp add: keeps_def)

lemma heartbeat_good: "keeps (good E cfg) (heartbeatIfDue E cfg tr)"
proof -
  have upd: "keeps (good E cfg) (io_upd (\<lambda>w. w\<lparr>bw_lastHeartbeatAt := now\<rparr>))" for now
    by (rule keeps_upd) (simp add: good_iff journal_safe_def)
  have body: "keeps (good E cfg) (io_seq (io_upd (\<lambda>w. w\<lparr>bw_lastHeartbeatAt := now\<rparr>))
      (io_seq (refresh_inventory tr) (io_bind (io_get bw_lastPrinterInventory) (\<lambda>printers.
         io_catch (heartbeat E cfg printers) (\<lambda>_. io_ret ())))))" for now
    unfolding heartbeat_def by (intro io_rules upd)
  have "good E cfg w \<Longrightarrow> good E cfg (w\<lparr>ticks := t\<rparr>)" for w t
    by (simp add: good_iff)
  then show ?thesis
    unfolding heartbeatIfDue_def by (intro keeps_bind keeps_date_now keeps_unless body)
qed

lemma loop_round_good:
  "paths_apart E (cf_journalPath cfg) \<Longrightarrow> keeps (good E cfg) (loop_round E cfg tr s)"
  by (cases s) (simp_all add: keeps_seq recoverJournal_good poll_good heartbeat_good)

text \<open>Between two processes memory is gone; the file guards every pending job.\<close>

definition at_rest :: "env \<Rightarrow> bridge_config \<Rightarrow> bworld \<Rightarrow> bool" where
  "at_rest E cfg w \<longleftrightarrow> safe_history E cfg (hist w)
     \<and> (\<forall>k\<in>pending cfg (hist w). safe_on_disk E (files w (cf_journalPath cfg)) k)"

lemma good_at_rest: "good E cfg w \<Longrightarrow> at_rest E cfg w"
  by (simp add: good_iff at_rest_def journal_safe_def)

lemma boot_simps [simp]:
  "hist (boot E cfg m w) = hist w" "files (boot E cfg m w) = files w"
  "jn_entries (boot E cfg m w) = []" "\<not> jn_loaded (boot E cfg m w)"
  by (simp_all add: boot_def)

lemma run_at_rest:
  assumes "paths_apart E (cf_journalPath cfg)" and "at_rest E cfg w"
    and "run E cfg tr steps (boot E cfg m w) = (r, w')"
  shows "at_rest E cfg w'"
proof -
  obtain r1 w1 where l: "load E (cf_journalPath cfg) (boot E cfg m w) = (r1, w1)" by fastforce
  have same: "hist w1 = hist w" "files w1 = files w"
    using load_hist [OF l] load_files [OF l] by simp_all
  show ?thesis
  proof (cases "r1 = Ok ()")
    case True
    then have "good E cfg w1"
      using load_safe [OF l [unfolded True], of "pending cfg (hist w)"] assms(2) same
      by (simp add: good_iff at_rest_def)
    moreover have "keeps (good E cfg) (io_seq (recoverJournal E cfg)
        (io_seq (io_each (loop_round E cfg tr) steps) (upd_state recordStopping)))"
      by (intro keeps_seq recoverJournal_good keeps_each loop_round_good assms(1) upd_state_good)
    moreover have "io_seq (recoverJournal E cfg)
        (io_seq (io_each (loop_round E cfg tr) steps) (upd_state recordStopping)) w1 = (r, w')"
      using assms(3) l True by (simp add: run_def io_seq_def [of "load _ _"] io_bind_def)
    ultimately show ?thesis using good_at_rest keepsD by metis
  next
    case False
    then have "w' = w1"
      using assms(3) l by (cases r1) (auto simp: run_def io_seq_def [of "load _ _"] io_bind_def)
    with same assms(2) show ?thesis by (simp add: at_rest_def)
  qed
qed

lemma lifetime_at_rest:
  "lifetime E cfg w \<Longrightarrow> paths_apart E (cf_journalPath cfg) \<Longrightarrow> at_rest E cfg w"
proof (induction rule: lifetime.induct)
  case (installed w)
  then show ?case by (simp add: at_rest_def)
qed (rule run_at_rest)

lemma pending_stays:
  "k \<in> foldl (pending_after cfg) S h \<or> k \<notin> S
     \<or> (\<exists>rq. EvFetch rq True \<in> set h \<and> settles cfg rq k)"
proof (induction h arbitrary: S)
  case (Cons e h)
  have "k \<in> pending_after cfg S e \<or> k \<notin> S \<or> (\<exists>rq. e = EvFetch rq True \<and> settles cfg rq k)"
    by (cases "(cfg, S, e)" rule: pending_after.cases) auto
  with Cons.IH [of "pending_after cfg S e"] show ?case by auto
qed simp

section \<open>Properties\<close>

text \<open>C1: No ticket is printed twice behind the server's back. Over the whole life of a bridge, through
  any number of restarts, crashes at any point, network, file system and printer failures in any
  order, between two prints of one job the server has accepted a report that settles the job: PRINTED
  or FAILED.\<close>

theorem no_silent_duplicate:
  assumes "lifetime E cfg w" and "paths_apart E (cf_journalPath cfg)"
    and "hist w = h1 @ EvPrint k n f # h2 @ EvPrint k n' f' # h3"
  shows "\<exists>rq. EvFetch rq True \<in> set h2 \<and> settles cfg rq k"
proof -
  have "safe_history E cfg ((h1 @ EvPrint k n f # h2) @ EvPrint k n' f' # h3)"
    using lifetime_at_rest [OF assms(1,2)] assms(3) by (simp add: at_rest_def)
  then have "safe_event E cfg (h1 @ EvPrint k n f # h2) (EvPrint k n' f')"
    unfolding safe_history_def by blast
  then have "k \<notin> foldl (pending_after cfg) (insert k (pending cfg h1)) h2"
    by (simp add: safe_event_def pending_def)
  then show ?thesis
    using pending_stays [of k cfg "insert k (pending cfg h1)" h2] by blast
qed


section \<open>A cycle in which everything works\<close>

lemma persist_succeeds:
  fixes w :: "'a jworld_scheme"
  assumes "jn_loaded w" and "fs_plan w = replicate 9 FsOk @ p" and "os_platform E \<noteq> Win32"
  shows "persist E path w = (Ok (), w\<lparr>
     jn_entries := trimToLimit E journal_limit (jn_entries w),
     files := (files w)(temp_path E path := None,
       path := Some (journal_doc (trimToLimit E journal_limit (jn_entries w)))),
     fs_plan := p\<rparr>)"
  using assms
  by (simp add: persist_def io_seq_def io_defs host_defs eval_nat_numeral Let_def)

lemma update_update [simp]: "AList.update k v (AList.update k v' m) = AList.update k v m"
  by (induction m) auto

lemma map_entry_update [simp]: "AList.map_entry k f (AList.update k v m) = AList.update k (f v) m"
  by (induction m) auto

lemma length_update_le: "length (AList.update k v m) \<le> Suc (length m)"
  by (induction m) auto

lemma unacknowledged_update:
  "getUnacknowledged k m = None \<Longrightarrow> je_acknowledged e \<Longrightarrow>
     unacknowledged (AList.update k e m) = unacknowledged m"
  by (induction m) (auto simp: unacknowledged_def getUnacknowledged_def split: if_splits option.splits)

definition accepted :: http_response where
  "accepted = \<lparr>http_status = 204, http_type = None, http_text = [], http_json = None\<rparr>"

lemma send_report_succeeds:
  "net_plan w = NetResponse accepted # p \<Longrightarrow> send_report cfg k body key w =
     (Ok (), log_event (EvFetch (report_request cfg k body key) True) (w\<lparr>net_plan := p\<rparr>))"
  by (simp add: send_report_def api_request_def fetch_def io_defs read_answer_def accepted_def
      http_ok_def report_request_def)

definition mock_result :: "env \<Rightarrow> bridge_config \<Rightarrow> print_job_claim \<Rightarrow> nat \<Rightarrow> print_result" where
  "mock_result E cfg job t = \<lparr>pr_externalReference = join_with (js '':'') (print_reference cfg job),
     pr_printedAt = iso_time E t, pr_transport = TMock\<rparr>"

lemma mock_succeeds:
  assumes "pj_printerDeviceId job \<in> set (cf_printerIds cfg)" "random_plan w = x # p"
    "cf_mockFailureRate cfg \<le> x"
  shows "mock_print E cfg job w =
    (Ok (mock_result E cfg job (ticks w)), w\<lparr>random_plan := p, ticks := Suc (ticks w)\<rparr>)"
  using assms by (simp add: mock_print_def next_random_def io_bind_def new_date_iso_def mock_result_def)

lemma log_event_bridge [simp]: "random_plan (log_event e v) = random_plan v"
  "bw_state (log_event e (b :: bworld)) = bw_state b"
  by (simp_all add: log_event_def)

text \<open>What the loop tells the server about a job that it prints.\<close>

definition sent_report :: "bridge_config \<Rightarrow> print_job_claim \<Rightarrow> http_request" where
  "sent_report cfg job = report_request cfg (pj_id job)
     (report_json (pj_attemptCount job) None False None SENT) (idempotencyKey cfg job ''sent'')"

definition printed_report :: "bridge_config \<Rightarrow> print_job_claim \<Rightarrow> print_result \<Rightarrow> http_request" where
  "printed_report cfg job res = report_request cfg (pj_id job)
     (report_json (pj_attemptCount job) None False (Some res) REPORT_PRINTED)
     (idempotencyKey cfg job ''printed'')"

lemma process_succeeds:
  fixes w :: bworld
  assumes "jn_loaded w" "getUnacknowledged (pj_id job) (jn_entries w) = None"
    "length (jn_entries w) < journal_limit"
    "fs_plan w = replicate 9 FsOk @ replicate 9 FsOk @ replicate 9 FsOk @ p"
    "net_plan w = NetResponse accepted # NetResponse accepted # q"
    "random_plan w = x # xs" "cf_mockFailureRate cfg \<le> x"
    "pj_printerDeviceId job \<in> set (cf_printerIds cfg)" "os_platform E \<noteq> Win32"
  shows "\<exists>w' d. process E cfg MockPrinter job w = (Ok (), w')
    \<and> hist w' = hist w @ [EvPrint (pj_id job) (pj_attemptCount job) (Some d),
         EvFetch (sent_report cfg job) True,
         EvFetch (printed_report cfg job (mock_result E cfg job (Suc (ticks w)))) True]
    \<and> jn_entries w' = AList.update (pj_id job)
         ((printed_entry E job (mock_result E cfg job (Suc (ticks w))) (iso_time E (ticks w)))
            \<lparr>je_acknowledged := True\<rparr>) (jn_entries w)
    \<and> unacknowledged (jn_entries w') = unacknowledged (jn_entries w)
    \<and> files w' (cf_journalPath cfg) = Some (journal_doc (jn_entries w'))
    \<and> bs_processedJobs (bw_state w') = bs_processedJobs (bw_state w) + 1
    \<and> jn_loaded w' \<and> fs_plan w' = p \<and> net_plan w' = q \<and> random_plan w' = xs"
proof -
  have "length (AList.update (pj_id job) z (jn_entries w)) \<le> journal_limit" for z
    using assms(3) length_update_le [of "pj_id job" z "jn_entries w"] by linarith
  then have [simp]: "trimToLimit E journal_limit (AList.update (pj_id job) z (jn_entries w))
      = AList.update (pj_id job) z (jn_entries w)" for z
    by (simp add: trimToLimit_def)
  note [simp] = persist_succeeds assms io_seq_def io_defs recordDispatching_run recordPrinted_run
    markAcknowledged_def update_conv' send_report_succeeds mock_succeeds unacknowledged_update
  show ?thesis
    by (simp add: process_def upd_state_def spool_def log_print_def
      after_spool_def finish_printed_def markSent_def markPrinted_def journal_get_def set_entry_def
      set_acknowledged_def dispatching_entry_def printed_entry_def upd_state_now_def new_date_iso_def
      sent_report_def printed_report_def state_ops)
qed


section \<open>Nothing escapes\<close>

text \<open>Code that never throws: it returns or the process stops in it.\<close>

definition quiet :: "('w, 'a) io \<Rightarrow> bool" where
  "quiet m \<longleftrightarrow> (\<forall>w e w'. m w \<noteq> (Exn e, w'))"

lemma quiet_intros:
  "quiet (io_ret x)" "quiet (io_upd f)" "quiet (io_get g)" "quiet (new_date_iso E)" "quiet (date_now E)"
  by (simp_all add: quiet_def io_defs new_date_iso_def date_now_def)

lemma quiet_bind: "quiet m \<Longrightarrow> (\<And>x. quiet (k x)) \<Longrightarrow> quiet (io_bind m k)"
  by (auto simp: quiet_def io_bind_def split: prod.splits res.splits)

lemma quiet_seq: "quiet m \<Longrightarrow> quiet k \<Longrightarrow> quiet (io_seq m k)"
  unfolding io_seq_def by (rule quiet_bind)

lemma quiet_catch: "(\<And>e. quiet (h e)) \<Longrightarrow> quiet (io_catch m h)"
  by (auto simp: quiet_def io_catch_def split: prod.splits res.splits)

lemma quiet_each: "(\<And>x. quiet (f x)) \<Longrightarrow> quiet (io_each f xs)"
  by (induction xs) (simp_all add: quiet_intros quiet_bind)

lemma quiet_unless: "quiet m \<Longrightarrow> quiet (\<lambda>w. if c w then (Ok (), w) else m w)"
  by (auto simp: quiet_def)

lemma quiet_upd_state: "quiet (upd_state f)"
  by (simp add: upd_state_def quiet_intros)

lemma quiet_recoverJournal: "quiet (recoverJournal E cfg)"
  unfolding recoverJournal_def recover_entry_def
  by (intro quiet_bind quiet_each quiet_catch quiet_intros)

lemma quiet_inventory: "quiet (refresh_inventory tr)"
  by (cases tr) (simp_all add: refresh_inventory_def quiet_intros quiet_catch)

lemma quiet_round: "quiet (loop_round E cfg tr s)"
proof (cases s)
  case Cycle
  then show ?thesis
    by (simp add: poll_def quiet_seq quiet_recoverJournal quiet_catch quiet_upd_state)
next
  case Beat
  have "quiet (heartbeatIfDue E cfg tr)"
    unfolding heartbeatIfDue_def
    by (intro quiet_bind quiet_unless quiet_seq quiet_intros quiet_inventory quiet_catch)
  with Beat show ?thesis by simp
qed

text \<open>C31: Only an unreadable journal stops the bridge. Whatever the server, the printers and the file
  system do, \<open>run\<close> throws only when loading the journal fails at the very start; then it has talked to
  nobody, printed nothing and changed no file.\<close>

theorem run_fails_only_at_load:
  assumes "run E cfg tr steps w = (Exn e, w')"
  shows "e = load_failed \<and> hist w' = hist w \<and> files w' = files w"
proof -
  obtain r1 w1 where l: "load E (cf_journalPath cfg) w = (r1, w1)" by fastforce
  have "quiet (io_seq (recoverJournal E cfg)
      (io_seq (io_each (loop_round E cfg tr) steps) (upd_state recordStopping)))"
    by (intro quiet_seq quiet_recoverJournal quiet_each quiet_round quiet_upd_state)
  then have "r1 = Exn e \<and> w' = w1"
    using assms l
    by (cases r1) (auto simp: run_def io_seq_def [of "load _ _"] io_bind_def quiet_def)
  moreover have "r1 = Exn e \<Longrightarrow> e = load_failed"
    using l by (auto simp: load_def io_seq_def io_defs split: prod.splits res.splits)
  ultimately show ?thesis
    using load_hist [OF l] load_files [OF l] by simp
qed

text \<open>A claim with attempt number 0 poisons the journal. The parser accepts it like any other job,
  but the entry written for it does not pass the journal's own check: once it is recorded, the file on
  disk cannot be loaded any more, and the next start of the bridge refuses to print.\<close>

theorem attempt_zero_poisons_journal:
  fixes w :: "'a jworld_scheme"
  assumes "wf_job job" and "pj_attemptCount job = 0" and "jn_loaded w" and "journal_wf (jn_entries w)"
    and "recordDispatching E path job w = (Ok (), w')"
  shows "parseClaimedJobs now (JArr [claim_json job]) = Inr [job]
    \<and> (\<exists>d. files w' path = Some d \<and> parse_journal E d = None)"
proof
  show "parseClaimedJobs now (JArr [claim_json job]) = Inr [job]"
    using parse_job_claim_json [OF assms(1)] by (simp add: parseClaimedJobs_def items_of_def)
  let ?e = "dispatching_entry E job (iso_time E (ticks w))"
  let ?v = "set_entry ?e (w\<lparr>ticks := Suc (ticks w)\<rparr>)"
  let ?t = "trimToLimit E journal_limit (jn_entries ?v)"
  have wf: "journal_wf (jn_entries ?v)" using journal_wf_update [OF assms(4), of ?e] by simp
  have "persist E path ?v = (Ok (), w')" using assms(5) by (simp add: recordDispatching_run)
  then have on_disk: "files w' path = Some (journal_doc ?t)"
    using persist_ok [of ?v E path "Ok ()" w'] assms(3) by simp
  have "?e \<in> set (unacknowledged (jn_entries ?v))"
    using map_of_SomeD [of "jn_entries ?v" "pj_id job" ?e]
    by (force simp: unacknowledged_def update_conv')
  then have "?e \<in> set (unacknowledged ?t)"
    unfolding trim_unacknowledged [OF wf] .
  then have "?e \<in> snd ` set ?t"
    unfolding unacknowledged_def by (metis filter_is_subset set_map subsetD)
  moreover have "\<not> valid_entry E ?e"
    using assms(2) by (simp add: valid_entry_def dispatching_entry_def)
  ultimately have "parse_journal E (journal_doc ?t) = None"
    unfolding parse_journal_doc [OF trim_wf [OF wf]] by (subst if_not_P) blast+
  with on_disk show "\<exists>d. files w' path = Some d \<and> parse_journal E d = None" by blast
qed

section \<open>Examples\<close>

definition claim_answer :: "json \<Rightarrow> http_response" where
  "claim_answer v = \<lparr>http_status = 200, http_type = Some (js ''application/json''), http_text = [],
     http_json = Some v\<rparr>"

definition claim_call :: "env \<Rightarrow> bridge_config \<Rightarrow> http_request" where
  "claim_call E cfg = \<lparr>rq_method = ''POST'', rq_url = cf_apiUrl cfg @
       claim_path E (cf_printerIds cfg) (if truthy (cf_apiToken cfg) then None else cf_branchId cfg),
     rq_headers = auth_headers cfg @ [], rq_body = None\<rparr>"

lemma claim_succeeds:
  assumes "net_plan w = NetResponse (claim_answer sample_claim) # q" and "1 \<le> cf_maxClaim cfg"
  shows "claimJobs E cfg 1 w =
    (Ok [sample_job], log_event (EvFetch (claim_call E cfg) True) (w\<lparr>net_plan := q\<rparr>))"
proof -
  have m: "nat (min 1 (cf_maxClaim cfg)) = Suc 0" using assms(2) by simp
  have "sample_claim \<noteq> JNull" by (simp add: sample_claim_def)
  then show ?thesis
    using assms(1) unfolding claimJobs_def m
    by (simp add: claim_request_def api_request_def fetch_def io_defs read_answer_def
        http_ok_def contains_refl sample_parses claim_answer_def claim_call_def)
qed

lemma cycle_succeeds:
  fixes w :: bworld
  assumes "jn_loaded w" "unacknowledged (jn_entries w) = []" "length (jn_entries w) < journal_limit"
    "fs_plan w = replicate 9 FsOk @ replicate 9 FsOk @ replicate 9 FsOk @ p"
    "net_plan w = NetResponse (claim_answer sample_claim) # NetResponse accepted
       # NetResponse accepted # q"
    "random_plan w = 1 # xs"
  shows "\<exists>w' d res. loop_round demo_env demo_config MockPrinter Cycle w = (Ok (), w')
    \<and> hist w' = hist w @ [EvFetch (claim_call demo_env demo_config) True,
         EvPrint (js ''j1'') 1 (Some d), EvFetch (sent_report demo_config sample_job) True,
         EvFetch (printed_report demo_config sample_job res) True]
    \<and> jn_loaded w' \<and> unacknowledged (jn_entries w') = []
    \<and> length (jn_entries w') \<le> Suc (length (jn_entries w))
    \<and> fs_plan w' = p \<and> net_plan w' = q \<and> random_plan w' = xs"
proof -
  define v where "v = (log_event (EvFetch (claim_call demo_env demo_config) True)
      (w\<lparr>net_plan := NetResponse accepted # NetResponse accepted # q\<rparr>))
      \<lparr>ticks := Suc (ticks w), bw_state := recordPollSuccess (iso_time demo_env (ticks w)) (bw_state w)\<rparr>"
  have job: "pj_id sample_job = js ''j1''" "pj_attemptCount sample_job = 1"
      "pj_printerDeviceId sample_job = js ''KITCHEN''"
    by (simp_all add: sample_job_def)
  have cfg: "js ''KITCHEN'' \<in> set (cf_printerIds demo_config)" "cf_mockFailureRate demo_config \<le> 1"
      "os_platform demo_env \<noteq> Win32" "1 \<le> cf_maxClaim demo_config"
    by (simp_all add: demo_config_def demo_env_def)
  have un: "getUnacknowledged k m = None" if "unacknowledged m = []" for k m
    using that by (auto simp: getUnacknowledged_def unacknowledged_def filter_empty_conv
        dest!: map_of_SomeD split: option.splits)
  have "jn_loaded v" "jn_entries v = jn_entries w" "fs_plan v = fs_plan w"
      "net_plan v = NetResponse accepted # NetResponse accepted # q" "random_plan v = 1 # xs"
      "hist v = hist w @ [EvFetch (claim_call demo_env demo_config) True]"
    using assms by (simp_all add: v_def)
  then obtain w' d where w': "process demo_env demo_config MockPrinter sample_job v = (Ok (), w')"
      "hist w' = (hist w @ [EvFetch (claim_call demo_env demo_config) True])
        @ [EvPrint (js ''j1'') 1 (Some d), EvFetch (sent_report demo_config sample_job) True,
           EvFetch (printed_report demo_config sample_job (mock_result demo_env demo_config sample_job (Suc (ticks v)))) True]"
      "\<exists>e. jn_entries w' = AList.update (js ''j1'') e (jn_entries w)" "jn_loaded w'"
      "unacknowledged (jn_entries w') = []" "fs_plan w' = p" "net_plan w' = q" "random_plan w' = xs"
    using process_succeeds [of v sample_job p q 1 xs demo_config demo_env] assms un cfg job by auto
  have "loop_round demo_env demo_config MockPrinter Cycle w = (Ok (), w')"
    using assms(2,5) w'(1) cfg(4)
    by (simp add: recoverJournal_def poll_def io_seq_def io_bind_def io_catch_def io_get_def io_ret_def
        claim_succeeds upd_state_now_def new_date_iso_def upd_state_def io_upd_def v_def)
  moreover have "length (jn_entries w') \<le> Suc (length (jn_entries w))"
    using w'(3) length_update_le by metis
  ultimately show ?thesis using w'(2,4-8) by auto
qed

definition demo_machine :: host where
  "demo_machine = (demo_host (FsOk # replicate 9 FsOk @ replicate 9 FsOk @ replicate 9 FsOk
       @ replicate 9 FsOk @ replicate 9 FsOk @ replicate 9 FsOk @ [])
     (NetResponse (claim_answer sample_claim) # NetResponse accepted # NetResponse accepted
       # NetResponse (claim_answer sample_claim) # NetResponse accepted # NetResponse accepted # []))
     \<lparr>random_plan := [1, 1]\<rparr>"

definition demo_world :: bworld where
  "demo_world = jworld.extend (demo_journal [] [])
     (bworld.fields (new_bridge_state (js ''b1'') []) 0 [])"

text \<open>A session in which the server leases the same job twice, the second time after accepting
  PRINTED: the ticket is printed twice, with the report in between.\<close>

lemma demo_session:
  "\<exists>w d1 r1 d2 r2. lifetime demo_env demo_config w
    \<and> hist w = [EvFetch (claim_call demo_env demo_config) True] @ EvPrint (js ''j1'') 1 (Some d1)
        # [EvFetch (sent_report demo_config sample_job) True,
           EvFetch (printed_report demo_config sample_job r1) True,
           EvFetch (claim_call demo_env demo_config) True]
        @ EvPrint (js ''j1'') 1 (Some d2)
        # [EvFetch (sent_report demo_config sample_job) True,
           EvFetch (printed_report demo_config sample_job r2) True]"
proof -
  let ?b = "boot demo_env demo_config demo_machine demo_world"
  have h: "hist demo_world = []" "files demo_world = (\<lambda>_. None)"
    by (simp_all add: demo_world_def jworld.defs bworld.defs demo_journal_def host.defs demo_host_def)
  obtain w0 where w0: "load demo_env (cf_journalPath demo_config) ?b = (Ok (), w0)"
      "jn_entries w0 = []" "jn_loaded w0" "hist w0 = []"
      "fs_plan w0 = replicate 9 FsOk @ replicate 9 FsOk @ replicate 9 FsOk
         @ replicate 9 FsOk @ replicate 9 FsOk @ replicate 9 FsOk @ []"
      "net_plan w0 = net_plan demo_machine" "random_plan w0 = [1, 1]"
    by (simp add: load_def io_seq_def io_defs fs_read_def fs_effect_def boot_def demo_machine_def h
        demo_host_def)
  have un: "unacknowledged [] = []" by (simp add: unacknowledged_def)
  obtain w1 d1 r1 where w1: "loop_round demo_env demo_config MockPrinter Cycle w0 = (Ok (), w1)"
      "hist w1 = [EvFetch (claim_call demo_env demo_config) True,
         EvPrint (js ''j1'') 1 (Some d1), EvFetch (sent_report demo_config sample_job) True,
         EvFetch (printed_report demo_config sample_job r1) True]"
      "jn_loaded w1" "unacknowledged (jn_entries w1) = []" "length (jn_entries w1) \<le> 1"
      "fs_plan w1 = replicate 9 FsOk @ replicate 9 FsOk @ replicate 9 FsOk @ []"
      "net_plan w1 = NetResponse (claim_answer sample_claim) # NetResponse accepted
         # NetResponse accepted # []" "random_plan w1 = [1]"
    using cycle_succeeds [OF w0(3) _ _ w0(5), of _ "[1]"] w0 un
    by (auto simp: demo_machine_def demo_host_def journal_limit_def)
  obtain w2 d2 r2 where w2: "loop_round demo_env demo_config MockPrinter Cycle w1 = (Ok (), w2)"
      "hist w2 = hist w1 @ [EvFetch (claim_call demo_env demo_config) True,
         EvPrint (js ''j1'') 1 (Some d2), EvFetch (sent_report demo_config sample_job) True,
         EvFetch (printed_report demo_config sample_job r2) True]"
    using cycle_succeeds [OF w1(3,4) _ w1(6,7), of "[]"] w1(5,8) by (auto simp: journal_limit_def)
  have "run demo_env demo_config MockPrinter [Cycle, Cycle] ?b
      = (Ok (), w2\<lparr>bw_state := recordStopping (bw_state w2)\<rparr>)"
    unfolding run_def
    using w0(1,2) w1(1) w2(1)
    by (simp add: io_seq_def io_bind_def io_ret_def recoverJournal_def io_get_def un upd_state_def
        io_upd_def del: loop_round.simps)
  from lifetime.session [OF lifetime.installed [OF h(1)] this] w1(2) w2(2)
  show ?thesis by (intro exI [of _ "w2\<lparr>bw_state := recordStopping (bw_state w2)\<rparr>"]) auto
qed

lemma demo_apart: "paths_apart demo_env (cf_journalPath demo_config)"
  by (simp add: paths_apart_def demo_env_def demo_config_def js_def)

lemma no_silent_duplicate_witness:
  "\<exists>w h1 k n f h2 n' f' h3 rq. lifetime demo_env demo_config w
    \<and> hist w = h1 @ EvPrint k n f # h2 @ EvPrint k n' f' # h3
    \<and> EvFetch rq True \<in> set h2 \<and> settles demo_config rq k"
  using demo_session no_silent_duplicate [OF _ demo_apart] by meson



lemma run_fails_only_at_load_witness:
  "\<exists>w'. run demo_env demo_config MockPrinter [Cycle] (demo_world\<lparr>fs_plan := [FsErr []]\<rparr>) = (Exn load_failed, w')
    \<and> hist w' = []"
proof -
  let ?w = "demo_world\<lparr>fs_plan := [FsErr []]\<rparr>"
  have h: "hist demo_world = []"
    by (simp add: demo_world_def jworld.defs bworld.defs demo_journal_def host.defs demo_host_def)
  have "\<exists>w'. run demo_env demo_config MockPrinter [Cycle] ?w = (Exn load_failed, w')"
    by (simp add: run_def load_def io_seq_def io_defs fs_read_def fs_effect_def)
  then obtain w' where "run demo_env demo_config MockPrinter [Cycle] ?w = (Exn load_failed, w')" by blast
  with run_fails_only_at_load [OF this] h show ?thesis by simp
qed

lemma attempt_zero_poisons_journal_witness:
  "\<exists>w' d. recordDispatching demo_env (js ''j'') (sample_job\<lparr>pj_attemptCount := 0\<rparr>)
      (demo_journal (replicate 9 FsOk) []) = (Ok (), w')
    \<and> files w' (js ''j'') = Some d \<and> parse_journal demo_env d = None"
proof -
  let ?j = "sample_job\<lparr>pj_attemptCount := 0\<rparr>"
  have wf: "wf_job ?j" using sample_wf by (simp add: wf_job_def max_safe_def)
  have "\<exists>w'. recordDispatching demo_env (js ''j'') ?j (demo_journal (replicate 9 FsOk) []) = (Ok (), w')"
    unfolding recordDispatching_run
    by (rule persist_all_ok [where p = "[]"]) (simp_all add: set_entry_def)
  then obtain w' where w': "recordDispatching demo_env (js ''j'') ?j (demo_journal (replicate 9 FsOk) []) = (Ok (), w')"
    by blast
  from attempt_zero_poisons_journal [OF wf _ _ _ w'] w' show ?thesis by auto
qed

end
