(* ===== verification/Agent_Runtime.thy ===== *)
theory Agent_Runtime
  imports Print_Bridge
begin

text \<open>
  What surrounds the job loop: the runtime lock (\<open>runtime-lock.ts\<close>), the stored credential
  (\<open>credentials.ts\<close>), enrollment (\<open>enroll.ts\<close>), starting the runtime (\<open>agent-runtime.ts\<close>), and the
  command line (\<open>index.ts\<close>).
\<close>

section \<open>The runtime lock\<close>

definition lock_path :: "jstr \<Rightarrow> jstr" where
  "lock_path journalPath = journalPath @ js ''.lock''"

definition lock_taken :: exn where
  "lock_taken = Err (jt ''Print Bridge kilidi al~inamad~i. Di~ger ~cal~i~san s~ureci ve ~onceki bask~i sonucunu kontrol edin.'')"

definition acquireRuntimeLock :: "env \<Rightarrow> jstr \<Rightarrow> ('z host_scheme, unit) io" where
  "acquireRuntimeLock E journalPath =
     (let path = lock_path journalPath in
      io_seq fs_plain
        (io_try (fs_open_excl path)
          (\<lambda>_. io_bind (new_date_iso E) (\<lambda>now.
            io_catch
              (io_seq (fs_write path (Doc (JObj
                   [(js ''pid'', JNum (num_of_int (process_id E))), (js ''startedAt'', JStr now)])))
                fs_plain)
              (\<lambda>e. io_seq fs_plain (io_seq (fs_unlink path) (io_raise e)))))
          (\<lambda>_. io_raise lock_taken)))"

text \<open>The function \<open>acquireRuntimeLock\<close> returns: it releases once. The result is the new flag.\<close>

definition release_lock :: "jstr \<Rightarrow> bool \<Rightarrow> ('z host_scheme, bool) io" where
  "release_lock journalPath released =
     (if released then io_ret True
      else io_seq fs_plain (io_seq (fs_unlink (lock_path journalPath)) (io_ret True)))"

section \<open>Credentials\<close>

definition credential_json :: "bridge_credential \<Rightarrow> json" where
  "credential_json c = JObj
     [(js ''bridgeId'', JStr (cr_bridgeId c)), (js ''tenantId'', JStr (cr_tenantId c)),
      (js ''branchId'', JStr (cr_branchId c)), (js ''name'', JStr (cr_name c)),
      (js ''token'', JStr (cr_token c))]"

definition asCredential :: "json \<Rightarrow> bridge_credential option" where
  "asCredential v = (case v of
       JObj r \<Rightarrow>
         (case (fld r ''bridgeId'', fld r ''tenantId'', fld r ''branchId'', fld r ''name'', fld r ''token'') of
            (Some (JStr b), Some (JStr t), Some (JStr br), Some (JStr n), Some (JStr k)) \<Rightarrow>
              Some \<lparr>cr_bridgeId = b, cr_tenantId = t, cr_branchId = br, cr_name = n, cr_token = k\<rparr>
          | _ \<Rightarrow> None)
     | _ \<Rightarrow> None)"

definition loadCredential :: "jstr \<Rightarrow> ('z host_scheme, bridge_credential option) io" where
  "loadCredential path =
     io_catch
       (io_bind (fs_read path) (\<lambda>raw. io_ret (case raw of Some (Doc v) \<Rightarrow> asCredential v | _ \<Rightarrow> None)))
       (\<lambda>_. io_ret None)"

text \<open>\<open>username\<close> is the environment variable \<open>USERNAME\<close>.\<close>

definition restrictWindowsCredential :: "jstr option \<Rightarrow> jstr \<Rightarrow> ('z host_scheme, unit) io" where
  "restrictWindowsCredential username path =
     (let u = map_option js_trim username in
      if \<not> truthy u
      then io_raise (Err (js ''Windows user name is unavailable for credential ACL''))
      else io_bind (exec_file (js ''icacls.exe'')
             [path, js ''/inheritance:r'', js ''/grant:r'', the u @ js '':(R,W)''])
           (\<lambda>r. case r of Inl e \<Rightarrow> io_raise (Err (ex_message e)) | Inr _ \<Rightarrow> io_ret ()))"

definition not_secured :: exn where
  "not_secured = Err (js ''Bridge credential could not be secured on local disk'')"

definition saveCredential ::
  "env \<Rightarrow> jstr option \<Rightarrow> jstr \<Rightarrow> bridge_credential \<Rightarrow> ('z host_scheme, unit) io" where
  "saveCredential E username path credential =
     io_seq fs_plain
     (io_seq (fs_write path (Doc (credential_json credential)))
       (io_catch
         (if os_platform E = Win32 then restrictWindowsCredential username path else fs_plain)
         (\<lambda>_. io_seq (fs_unlink path) (io_raise not_secured))))"

section \<open>Enrollment\<close>

definition enroll_request ::
  "jstr \<Rightarrow> jstr \<Rightarrow> jstr \<Rightarrow> jstr option \<Rightarrow> jstr option \<Rightarrow> http_request" where
  "enroll_request apiUrl code name platform version = \<lparr>rq_method = ''POST'',
     rq_url = strip_slashes apiUrl @ enroll_path,
     rq_headers = [(''Content-Type'', js ''application/json''), (''Accept'', js ''application/json'')],
     rq_body = Some (JObj ([(js ''code'', JStr code), (js ''name'', JStr name)]
       @ str_member ''platform'' platform @ str_member ''version'' version))\<rparr>"

definition enrollment_credential :: "http_response \<Rightarrow> exn + bridge_credential" where
  "enrollment_credential r =
     (if \<not> http_ok r
      then throw (js ''Enrollment failed ('' @ int_text (http_status r) @ js ''): ''
             @ (let body = take 300 (http_text r) in if body \<noteq> [] then body else js ''no response body''))
      else case http_json r of
        Some (JObj p) \<Rightarrow>
          (case (fld p ''id'', fld p ''tenant_id'', fld p ''branch_id'', fld p ''name'', fld p ''token'') of
             (Some (JStr b), Some (JStr t), Some (JStr br), Some (JStr n), Some (JStr k)) \<Rightarrow>
               Inr \<lparr>cr_bridgeId = b, cr_tenantId = t, cr_branchId = br, cr_name = n, cr_token = k\<rparr>
           | _ \<Rightarrow> throw (js ''Enrollment response was missing required fields''))
      | Some JNull \<Rightarrow> throw (js ''Cannot read properties of null'')
      | Some _ \<Rightarrow> throw (js ''Enrollment response was missing required fields'')
      | None \<Rightarrow> throw (js ''Unexpected token in JSON''))"

definition runEnroll ::
  "env \<Rightarrow> jstr option \<Rightarrow> jstr \<Rightarrow> jstr \<Rightarrow> jstr \<Rightarrow> jstr option \<Rightarrow> jstr option \<Rightarrow> jstr \<Rightarrow>
   ('z host_scheme, bridge_credential) io" where
  "runEnroll E username apiUrl code name platform version credentialsPath =
     io_bind (fetch (enroll_request apiUrl code name platform version)) (\<lambda>response.
     io_bind (io_lift (enrollment_credential response)) (\<lambda>credential.
     io_seq (saveCredential E username credentialsPath credential) (io_ret credential)))"

section \<open>Starting the runtime\<close>

definition startBridgeRuntime ::
  "env \<Rightarrow> (string \<Rightarrow> jstr) \<Rightarrow> environment \<Rightarrow> loop_step list \<Rightarrow> (bworld, unit) io" where
  "startBridgeRuntime E state_file environment steps =
     io_bind (io_lift (loadBridgeConfig E state_file environment False False)) (\<lambda>baseConfig.
     io_bind (loadCredential (cf_credentialsPath baseConfig)) (\<lambda>credential.
     (let config = applyCredential baseConfig credential in
      if \<not> has_credential config \<and> \<not> cf_allowInsecureMock config
      then io_raise (Err (jt ''Bu Print Bridge hen~uz ba~glanmad~i. Uygulamadaki ba~glant~i kodunu girin.''))
      else
        io_bind (io_lift (createTransport E (environment ''NODE_ENV'') config)) (\<lambda>tr.
        io_seq (acquireRuntimeLock E (cf_journalPath config))
          (io_finally (run E config tr steps)
            (io_bind (release_lock (cf_journalPath config) False) (\<lambda>_. io_ret ())))))))"

section \<open>The command line\<close>

datatype cli_command = CliEnroll | CliPrinters | CliHelp | CliRun

definition cli_command :: "jstr option \<Rightarrow> exn + cli_command" where
  "cli_command arg =
     (let c = (case arg of Some a \<Rightarrow> a | None \<Rightarrow> js ''run'') in
      if c = js ''enroll'' then Inr CliEnroll
      else if c = js ''printers'' then Inr CliPrinters
      else if c \<in> {js ''--help'', js ''-h'', js ''help''} then Inr CliHelp
      else if c \<noteq> js ''run''
      then throw (js (''Unknown command '' @ [CHR 0x27]) @ c @ js ([CHR 0x27] @ ''. Run '' @ [CHR 0x27]
             @ ''dixora-print-bridge --help'' @ [CHR 0x27] @ ''.''))
      else Inr CliRun)"

text \<open>The argument behind the first occurrence of an option.\<close>

fun option_argument :: "jstr \<Rightarrow> jstr list \<Rightarrow> jstr option" where
  "option_argument name [] = None"
| "option_argument name [a] = None"
| "option_argument name (a # b # rest) =
     (if a = name then Some b else option_argument name (b # rest))"

definition readOption :: "jstr list \<Rightarrow> jstr \<Rightarrow> jstr option" where
  "readOption argv name = (case option_argument name argv of
       Some v \<Rightarrow> if v \<noteq> [] \<and> \<not> starts_with v (js ''--'') then Some v else None
     | None \<Rightarrow> None)"

section \<open>One process at a time\<close>

lemma lock_path_neq [simp]: "lock_path p \<noteq> p"
  by (simp add: lock_path_def js_def)

lemma lock_held_fails:
  assumes "files w (lock_path j) \<noteq> None" and "acquireRuntimeLock E j w = (r, w')"
  shows "r \<noteq> Ok () \<and> files w' = files w"
  using assms
  by (auto simp: acquireRuntimeLock_def Let_def io_seq_def io_defs fs_plain_def fs_effect_def fs_open_excl_def
      split: list.splits fs_reply.splits)

lemma lock_acquired:
  assumes "acquireRuntimeLock E j w = (Ok (), w')"
  shows "files w (lock_path j) = None \<and> files w' (lock_path j) \<noteq> None"
  using assms
  by (auto simp: acquireRuntimeLock_def Let_def io_seq_def io_defs fs_plain_def fs_effect_def fs_open_excl_def
      fs_write_def fs_unlink_def new_date_iso_def put_file_def
      split: list.splits fs_reply.splits if_splits)

text \<open>
  Processes that share a file system, with the set of those that hold the lock. A process may fail
  or stop while acquiring or releasing, and a holder may die without releasing.
\<close>

definition same_disk :: "host \<Rightarrow> host \<Rightarrow> bool" where
  "same_disk w v \<longleftrightarrow> files v = files w"

inductive lock_system :: "jstr \<Rightarrow> host \<Rightarrow> nat set \<Rightarrow> bool" for j where
  idle: "files w (lock_path j) = None \<Longrightarrow> lock_system j w {}"
| acquired: "lock_system j w H \<Longrightarrow> same_disk w v \<Longrightarrow> acquireRuntimeLock E j v = (Ok (), w') \<Longrightarrow>
     lock_system j w' (insert p H)"
| refused: "lock_system j w H \<Longrightarrow> same_disk w v \<Longrightarrow> acquireRuntimeLock E j v = (r, w') \<Longrightarrow>
     r \<noteq> Ok () \<Longrightarrow> lock_system j w' H"
| released: "lock_system j w H \<Longrightarrow> p \<in> H \<Longrightarrow> same_disk w v \<Longrightarrow> release_lock j False v = (r, w') \<Longrightarrow>
     lock_system j w' (H - {p})"
| died: "lock_system j w H \<Longrightarrow> p \<in> H \<Longrightarrow> lock_system j w (H - {p})"

lemma lock_invariant:
  "lock_system j w H \<Longrightarrow> (\<forall>p\<in>H. H = {p}) \<and> (H \<noteq> {} \<longrightarrow> files w (lock_path j) \<noteq> None)"
proof (induction rule: lock_system.induct)
  case (acquired w H v E w' p)
  then have "H = {}" using lock_acquired by (fastforce simp: same_disk_def)
  with acquired lock_acquired show ?case by fastforce
next
  case (refused w H v E r w')
  show ?case
  proof (cases "H = {}")
    case False
    with refused have "files v (lock_path j) \<noteq> None" by (simp add: same_disk_def)
    from lock_held_fails [OF this refused(3)] refused False show ?thesis by (simp add: same_disk_def)
  qed simp
next
  case (released w H p v r w')
  then have e: "H - {p} = {}" by blast
  show ?case unfolding e by simp
next
  case (died w H p)
  then have e: "H - {p} = {}" by blast
  show ?case unfolding e by simp
qed simp

section \<open>Properties\<close>

text \<open>One bridge per journal. However processes start, fail, stop or release in any order, at most
  one of them holds the runtime lock, and a lock that is there, held or left behind by a dead process,
  is never taken: acquiring throws or the process stops, and no file changes.\<close>

theorem lock_excludes:
  assumes "lock_system j w H" and "p \<in> H" and "q \<in> H"
  shows "p = q \<and> (\<forall>E v r v'. same_disk w v \<longrightarrow> acquireRuntimeLock E j v = (r, v') \<longrightarrow>
    r \<noteq> Ok () \<and> files v' = files w)"
proof
  have inv: "(\<forall>p\<in>H. H = {p}) \<and> (H \<noteq> {} \<longrightarrow> files w (lock_path j) \<noteq> None)"
    by (rule lock_invariant [OF assms(1)])
  with assms(2,3) show "p = q" by blast
  show "\<forall>E v r v'. same_disk w v \<longrightarrow> acquireRuntimeLock E j v = (r, v') \<longrightarrow>
      r \<noteq> Ok () \<and> files v' = files w"
  proof (intro allI impI)
    fix E v r v' assume v: "same_disk w v" "acquireRuntimeLock E j v = (r, v')"
    then have "files v (lock_path j) \<noteq> None" using inv assms(2) by (auto simp: same_disk_def)
    from lock_held_fails [OF this v(2)] v(1) show "r \<noteq> Ok () \<and> files v' = files w"
      by (simp add: same_disk_def)
  qed
qed

lemma fs_effect_Ok: "fs_effect ok bad w = (Ok (), w') \<longleftrightarrow> (\<exists>p. fs_plan w = FsOk # p \<and> w' = ok (w\<lparr>fs_plan := p\<rparr>))"
  by (auto simp: fs_effect_def split: list.splits fs_reply.splits)

lemma asCredential_json: "asCredential (credential_json c) = Some c"
  by (simp add: asCredential_def credential_json_def)

lemma exec_files: "exec_file cmd args w = (r, w') \<Longrightarrow> files w' = files w \<and> fs_plan w' = fs_plan w"
  by (auto simp: exec_file_def split: list.splits exec_reply.splits)

lemma restrict_files:
  "restrictWindowsCredential u path w = (r, w') \<Longrightarrow> files w' = files w \<and> fs_plan w' = fs_plan w"
  by (auto simp: restrictWindowsCredential_def Let_def io_defs
      split: if_splits prod.splits res.splits sum.splits dest: exec_files)

text \<open>A credential that was saved is the one the next start uses, and one that cannot be protected is
  not kept: after a successful save, loading the file gives exactly that credential; when protecting
  it fails and the save throws, the file is gone unless removing it failed as well.\<close>

theorem credential_saved_or_removed:
  fixes w w' :: "'z host_scheme"
  assumes "saveCredential E u path c w = (r, w')"
    and "\<forall>m. Err m = not_secured \<longrightarrow> FsErr m \<notin> set (fs_plan w)"
  shows "(r = Ok () \<longrightarrow> (\<forall>(v :: 'z host_scheme) p. files v path = files w' path \<and> fs_plan v = FsOk # p
      \<longrightarrow> fst (loadCredential path v) = Ok (Some c)))
    \<and> (r = Exn not_secured \<longrightarrow> files w' path = None)"
proof
  let ?protect = "if os_platform E = Win32 then restrictWindowsCredential u path else fs_plain"
  have protect: "files v' = files v" if "?protect v = (r', v')" for v v' :: "'z host_scheme" and r'
    using that
    by (auto simp: fs_plain_def fs_effect_def dest: restrict_files split: if_splits list.splits fs_reply.splits)
  show "r = Ok () \<longrightarrow> (\<forall>(v :: 'z host_scheme) p. files v path = files w' path \<and> fs_plan v = FsOk # p
      \<longrightarrow> fst (loadCredential path v) = Ok (Some c))"
  proof (intro impI allI, elim conjE)
    fix v :: "'z host_scheme" and p assume ok: "r = Ok ()" and v: "files v path = files w' path" "fs_plan v = FsOk # p"
    obtain w1 w2 where w2: "fs_plain w = (Ok (), w1)"
        "fs_write path (Doc (credential_json c)) w1 = (Ok (), w2)" "?protect w2 = (Ok (), w')"
      using assms(1) ok
      by (auto simp: saveCredential_def io_seq_Ok io_catch_def io_bind_def io_seq_def io_raise_def
          simp del: io_run_simps split: prod.splits res.splits)
    then have "files w' path = Some (Doc (credential_json c))"
      using protect [OF w2(3)] by (auto simp: fs_write_def fs_effect_Ok)
    then show "fst (loadCredential path v) = Ok (Some c)"
      using v by (simp add: loadCredential_def fs_read_def fs_effect_def io_defs asCredential_json)
  qed
  show "r = Exn not_secured \<longrightarrow> files w' path = None"
    using assms
    by (auto simp: saveCredential_def io_seq_def io_defs fs_plain_def fs_write_def fs_unlink_def
        fs_effect_def put_file_def dest!: restrict_files
        split: list.splits fs_reply.splits if_splits prod.splits res.splits)
qed

lemma lock_excludes_witness:
  "\<exists>w. lock_system (js ''j'') w {0} \<and> (\<forall>r v'. acquireRuntimeLock demo_env (js ''j'') w = (r, v') \<longrightarrow>
    r \<noteq> Ok () \<and> files v' = files w)"
proof -
  let ?v = "demo_host (replicate 4 FsOk) []"
  have idle: "lock_system (js ''j'') ?v {}" by (rule lock_system.idle) (simp add: demo_host_def)
  have "\<exists>w. acquireRuntimeLock demo_env (js ''j'') ?v = (Ok (), w)"
    by (simp add: acquireRuntimeLock_def Let_def io_seq_def io_defs host_defs fs_open_excl_def
        new_date_iso_def demo_host_def eval_nat_numeral)
  then obtain w where "acquireRuntimeLock demo_env (js ''j'') ?v = (Ok (), w)" by blast
  with lock_system.acquired [OF idle, of ?v demo_env w 0]
  have w: "lock_system (js ''j'') w {0}" by (simp add: same_disk_def)
  moreover have "same_disk w w" by (simp add: same_disk_def)
  ultimately show ?thesis using lock_excludes [OF w, of 0 0] by blast
qed

lemma credential_saved_or_removed_witness:
  "\<exists>w'. saveCredential demo_env None (js ''c'') (\<lparr>cr_bridgeId = js ''b'', cr_tenantId = js ''t'',
       cr_branchId = js ''r'', cr_name = js ''n'', cr_token = js ''k''\<rparr>) (demo_host (replicate 3 FsOk) []) = (Ok (), w')
    \<and> fst (loadCredential (js ''c'') (w'\<lparr>fs_plan := [FsOk]\<rparr>))
      = Ok (Some \<lparr>cr_bridgeId = js ''b'', cr_tenantId = js ''t'', cr_branchId = js ''r'',
                 cr_name = js ''n'', cr_token = js ''k''\<rparr>)"
proof -
  let ?c = "\<lparr>cr_bridgeId = js ''b'', cr_tenantId = js ''t'',
       cr_branchId = js ''r'', cr_name = js ''n'', cr_token = js ''k''\<rparr>"
  have "\<exists>w'. saveCredential demo_env None (js ''c'') ?c (demo_host (replicate 3 FsOk) []) = (Ok (), w')"
    by (simp add: saveCredential_def io_seq_def io_defs host_defs demo_host_def eval_nat_numeral)
  then obtain w' where w': "saveCredential demo_env None (js ''c'') ?c (demo_host (replicate 3 FsOk) []) = (Ok (), w')"
    by blast
  have "\<forall>m. Err m = not_secured \<longrightarrow> FsErr m \<notin> set (fs_plan (demo_host (replicate 3 FsOk) []))"
    by (simp add: demo_host_def)
  from credential_saved_or_removed [OF w' this] w' show ?thesis by auto
qed

end
