(* ===== verification/Web_Host.thy ===== *)
theory Web_Host
  imports Js_Prelude
begin

text \<open>
  What the server side of the web application (\<open>apps/web/src/lib/server\<close>) stands on: header lists,
  requests and responses of the Fetch API, the cookie store of the framework, and the calls to the
  backend. None of it is code under \<open>src/\<close>. The backend is a function from the number of a call to
  the answer, so a theorem that holds for every world holds for every behaviour of the backend.
\<close>

section \<open>Fixed functions of the runtime\<close>

text \<open>
  \<open>getenv\<close> is \<open>process.env\<close>; \<open>url_host s\<close> is \<open>new URL(s).host\<close> and \<open>parse_url s\<close> the parts of
  \<open>new URL(s)\<close>, where \<open>None\<close> means that the constructor throws; \<open>is_ip\<close> is \<open>isIP\<close> of \<open>node:net\<close>;
  \<open>sha256_hex\<close> a hexadecimal SHA-256; \<open>new_uuid\<close> the random UUID drawn at a tick; \<open>json_of_base64\<close>
  is \<open>JSON.parse(Buffer.from(s, "base64").toString("utf8"))\<close>, \<open>None\<close> when it throws.
  A URL keeps its path as the list of its segments: \<open>/api/v1/\<close> is \<open>[api, v1, empty]\<close>.
\<close>

record url =
  u_protocol :: jstr
  u_host :: jstr
  u_path :: "jstr list"
  u_search :: jstr

record webenv =
  getenv :: "string \<Rightarrow> jstr option"
  url_host :: "jstr \<Rightarrow> jstr option"
  parse_url :: "jstr \<Rightarrow> url option"
  is_ip :: "jstr \<Rightarrow> bool"
  sha256_hex :: "jstr \<Rightarrow> jstr"
  new_uuid :: "nat \<Rightarrow> jstr"
  json_of_base64 :: "jstr \<Rightarrow> json option"

section \<open>Headers\<close>

text \<open>A \<open>Headers\<close> object: lower-case names, each at most once.\<close>

type_synonym headers = "(jstr \<times> jstr) list"

definition hget :: "headers \<Rightarrow> string \<Rightarrow> jstr option" where
  "hget h k = map_of h (js k)"

definition hset :: "string \<Rightarrow> jstr \<Rightarrow> headers \<Rightarrow> headers" where
  "hset k v h = AList.update (js k) v h"

definition hdel :: "string \<Rightarrow> headers \<Rightarrow> headers" where
  "hdel k h = AList.delete (js k) h"

definition hset_opt :: "string \<Rightarrow> jstr option \<Rightarrow> headers \<Rightarrow> headers" where
  "hset_opt k v h = (case v of None \<Rightarrow> h | Some x \<Rightarrow> hset k x h)"

definition header_names :: "headers \<Rightarrow> jstr set" where
  "header_names h = fst ` set h"

lemma hget_hset [simp]: "hget (hset k v h) l = (if k = l then Some v else hget h l)"
  by (simp add: hget_def hset_def update_conv')

lemma hget_hdel [simp]: "hget (hdel k h) l = (if k = l then None else hget h l)"
  by (simp add: hget_def hdel_def AList.delete_conv')

lemma hget_Nil [simp]: "hget [] k = None"
  by (simp add: hget_def)

lemma hget_Cons [simp]: "hget ((js a, v) # h) k = (if a = k then Some v else hget h k)"
  by (simp add: hget_def)

lemma hget_hset_opt [simp]:
  "hget (hset_opt k v h) l = (case v of None \<Rightarrow> hget h l | Some x \<Rightarrow> if k = l then Some x else hget h l)"
  by (simp add: hset_opt_def split: option.splits)

lemma header_names_hset [simp]: "header_names (hset k v h) = insert (js k) (header_names h)"
  by (simp add: header_names_def hset_def dom_map_of_conv_image_fst [symmetric] update_conv')

lemma header_names_hset_opt:
  "header_names (hset_opt k v h) \<subseteq> insert (js k) (header_names h)"
  by (auto simp: hset_opt_def split: option.splits)

lemma header_names_hdel [simp]: "header_names (hdel k h) = header_names h - {js k}"
  by (simp add: header_names_def hdel_def dom_map_of_conv_image_fst [symmetric] AList.delete_conv')

lemma header_names_filter: "header_names (filter (\<lambda>(n, v). P n) h) = {n \<in> header_names h. P n}"
  by (force simp: header_names_def)

lemma hget_None: "js k \<notin> header_names h \<Longrightarrow> hget h k = None"
  by (simp add: hget_def header_names_def map_of_eq_None_iff)

section \<open>Requests and responses\<close>

text \<open>
  A body that is absent, is the text of a JSON value, or is something else. \<open>wq_bytes\<close> is the
  length of the body in bytes, \<open>wq_host\<close> is \<open>nextUrl.host\<close>.
\<close>

datatype body = NoBody | JsonBody json | OtherBody jstr

fun body_json :: "body \<Rightarrow> json option" where
  "body_json (JsonBody v) = Some v"
| "body_json NoBody = None"
| "body_json (OtherBody s) = None"

record web_request =
  wq_method :: jstr
  wq_headers :: headers
  wq_host :: jstr
  wq_search :: jstr
  wq_body :: body
  wq_bytes :: int

record fetch_init =
  fi_method :: jstr
  fi_headers :: headers
  fi_body :: body

record web_response =
  rs_status :: int
  rs_headers :: headers
  rs_body :: body

definition rs_ok :: "web_response \<Rightarrow> bool" where
  "rs_ok r \<longleftrightarrow> 200 \<le> rs_status r \<and> rs_status r \<le> 299"

section \<open>The world of a request\<close>

text \<open>A call of \<open>cookieStore.set\<close>. \<open>sc_expired\<close> stands for \<open>expires: new Date(0)\<close>.\<close>

record set_cookie =
  sc_name :: jstr
  sc_value :: jstr
  sc_httpOnly :: bool
  sc_sameSite :: string
  sc_secure :: bool
  sc_path :: jstr
  sc_maxAge :: "int option"
  sc_expired :: bool
  sc_domain :: "jstr option"
  sc_high :: bool

record backend_call =
  bc_url :: url
  bc_init :: fetch_init

datatype reply = Answer web_response | TimedOut | Broken

text \<open>
  \<open>wb_answers n\<close> is how call number \<open>n\<close> ends, \<open>wb_calls\<close> the calls made so far, \<open>wb_cookies\<close> the
  cookies of the request, \<open>wb_set\<close> the calls of \<open>cookieStore.set\<close> so far. No handler reads a cookie
  it has set. Components add their own state to the record.
\<close>

record web =
  wb_answers :: "nat \<Rightarrow> reply"
  wb_calls :: "backend_call list"
  wb_cookies :: "(jstr \<times> jstr) list"
  wb_set :: "set_cookie list"
  wb_ticks :: nat

definition cookie :: "'z web_scheme \<Rightarrow> jstr \<Rightarrow> jstr option" where
  "cookie w n = map_of (wb_cookies w) n"

definition put_cookie :: "set_cookie \<Rightarrow> ('z web_scheme, unit) io" where
  "put_cookie c = io_upd (\<lambda>w. w\<lparr>wb_set := wb_set w @ [c]\<rparr>)"

definition uuid_tick :: "webenv \<Rightarrow> ('z web_scheme, jstr) io" where
  "uuid_tick W = (\<lambda>w. (Ok (new_uuid W (wb_ticks w)), w\<lparr>wb_ticks := Suc (wb_ticks w)\<rparr>))"

text \<open>\<open>fetch\<close> with the abort signal of the caller: it rejects when the timer aborts it or the
  network fails.\<close>

definition aborted :: exn where
  "aborted = KindErr ''AbortError'' (js ''This operation was aborted'')"

definition web_fetch :: "url \<Rightarrow> fetch_init \<Rightarrow> ('z web_scheme, web_response) io" where
  "web_fetch u i = (\<lambda>w.
     let w' = w\<lparr>wb_calls := wb_calls w @ [\<lparr>bc_url = u, bc_init = i\<rparr>]\<rparr> in
     case wb_answers w (length (wb_calls w)) of
       Answer r \<Rightarrow> (Ok r, w')
     | TimedOut \<Rightarrow> (Exn aborted, w')
     | Broken \<Rightarrow> (Exn (Err (js ''fetch failed'')), w'))"

lemma wb_set_inject [simp]: "w\<lparr>wb_set := a\<rparr> = w\<lparr>wb_set := b\<rparr> \<longleftrightarrow> a = b"
  by (cases w) simp

lemma put_cookie_run [simp]:
  "put_cookie c w = (Ok (), w\<lparr>wb_set := wb_set w @ [c]\<rparr>)"
  by (simp add: put_cookie_def io_upd_def)

lemma uuid_tick_run [simp]:
  "uuid_tick W w = (Ok (new_uuid W (wb_ticks w)), w\<lparr>wb_ticks := Suc (wb_ticks w)\<rparr>)"
  by (simp add: uuid_tick_def)

definition demo_webenv :: "(string \<times> jstr) list \<Rightarrow> webenv" where
  "demo_webenv vars = \<lparr>getenv = map_of vars, url_host = (\<lambda>s. Some (drop 8 s)),
     parse_url = (\<lambda>s. Some \<lparr>u_protocol = js ''https:'', u_host = drop 8 s, u_path = [[]],
        u_search = []\<rparr>),
     is_ip = (\<lambda>s. s \<noteq> [] \<and> list_all (\<lambda>c. is_digit c \<or> c = 46) s),
     sha256_hex = (\<lambda>s. replicate 64 48), new_uuid = nat_digits, json_of_base64 = (\<lambda>_. None)\<rparr>"

end
