(* ===== verification/Web_Cookies.thy ===== *)
theory Web_Cookies
  imports Web_Host
begin

text \<open>
  The cookies of the web server: \<open>apps/web/src/lib/server/auth-cookies.ts\<close> and
  \<open>loyalty-cookie.ts\<close>. What is modelled is the sequence of calls of \<open>cookieStore.set\<close>; what the
  framework and the browser make of them is theirs. Integers read from the environment are not
  rounded to doubles.
\<close>

section \<open>Settings\<close>

definition ACCESS_TOKEN_COOKIE :: jstr where
  "ACCESS_TOKEN_COOKIE = js ''dixora_access''"

definition REFRESH_TOKEN_COOKIE :: jstr where
  "REFRESH_TOKEN_COOKIE = js ''dixora_refresh''"

definition TRUSTED_DEVICE_COOKIE :: jstr where
  "TRUSTED_DEVICE_COOKIE = js ''dixora_trusted_device''"

definition LOYALTY_TOKEN_COOKIE :: jstr where
  "LOYALTY_TOKEN_COOKIE = js ''dixora_loyalty''"

definition shouldUseSecureCookies :: "webenv \<Rightarrow> bool" where
  "shouldUseSecureCookies W =
     (let configured = map_option (\<lambda>s. to_lower (js_trim s)) (getenv W ''AUTH_COOKIE_SECURE'') in
      if configured = Some (js ''true'') then True
      else if configured = Some (js ''false'') then False
      else getenv W ''NODE_ENV'' = Some (js ''production''))"

definition plain_domain :: "jstr \<Rightarrow> bool" where
  "plain_domain d \<longleftrightarrow> \<not> contains d (js ''://'') \<and> 47 \<notin> set d \<and> 58 \<notin> set d \<and> \<not> list_ex is_space d"

definition readCookieDomain :: "webenv \<Rightarrow> jstr option" where
  "readCookieDomain W = (case map_option js_trim (getenv W ''AUTH_COOKIE_DOMAIN'') of
       None \<Rightarrow> None
     | Some d \<Rightarrow> if d = [] \<or> \<not> plain_domain d then None else Some d)"

definition readPositiveInteger :: "jstr option \<Rightarrow> int option" where
  "readPositiveInteger v = (case parse_int (case v of Some s \<Rightarrow> s | None \<Rightarrow> []) of
       Some n \<Rightarrow> if 0 < n then Some n else None
     | None \<Rightarrow> None)"

text \<open>\<open>clampLifetime\<close>: 0, NaN, infinities and negative numbers fall back.\<close>

definition clampLifetime :: "jsnum \<Rightarrow> int \<Rightarrow> int" where
  "clampLifetime v fallback = (case v of
       Fin q \<Rightarrow> if q \<le> 0 then fallback else max 1 \<lfloor>q\<rfloor>
     | _ \<Rightarrow> fallback)"

definition persistentRefreshLifetime :: "webenv \<Rightarrow> jsnum \<Rightarrow> int" where
  "persistentRefreshLifetime W refreshExpiresIn =
     (let backendLifetime = clampLifetime refreshExpiresIn (30 * 24 * 60 * 60) in
      case readPositiveInteger (getenv W ''AUTH_REFRESH_COOKIE_MAX_AGE_SECONDS'') of
        Some configuredMaximum \<Rightarrow> min backendLifetime configuredMaximum
      | None \<Rightarrow> backendLifetime)"

section \<open>Session cookies\<close>

record auth_tokens =
  at_accessToken :: jstr
  at_refreshToken :: jstr
  at_expiresIn :: jsnum
  at_refreshExpiresIn :: jsnum
  at_rememberMe :: bool

record trusted_device =
  td_token :: jstr
  td_expiresIn :: jsnum

definition readAuthCookies :: "'z web_scheme \<Rightarrow> jstr option \<times> jstr option" where
  "readAuthCookies w = (cookie w ACCESS_TOKEN_COOKIE, cookie w REFRESH_TOKEN_COOKIE)"

definition session_cookie :: "webenv \<Rightarrow> jstr \<Rightarrow> jstr \<Rightarrow> int option \<Rightarrow> set_cookie" where
  "session_cookie W name val lifetime = \<lparr>sc_name = name, sc_value = val, sc_httpOnly = True,
     sc_sameSite = ''lax'', sc_secure = shouldUseSecureCookies W, sc_path = js ''/'',
     sc_maxAge = lifetime, sc_expired = False, sc_domain = readCookieDomain W, sc_high = True\<rparr>"

definition setAuthCookies :: "webenv \<Rightarrow> auth_tokens \<Rightarrow> ('z web_scheme, unit) io" where
  "setAuthCookies W tokens =
     io_seq (put_cookie (session_cookie W ACCESS_TOKEN_COOKIE (at_accessToken tokens)
        (if at_rememberMe tokens then Some (clampLifetime (at_expiresIn tokens) (15 * 60)) else None)))
       (put_cookie (session_cookie W REFRESH_TOKEN_COOKIE (at_refreshToken tokens)
        (if at_rememberMe tokens then Some (persistentRefreshLifetime W (at_refreshExpiresIn tokens))
         else None)))"

definition expired_cookie :: "webenv \<Rightarrow> jstr \<Rightarrow> string \<Rightarrow> string \<Rightarrow> jstr option \<Rightarrow> set_cookie" where
  "expired_cookie W name site path domain = \<lparr>sc_name = name, sc_value = [], sc_httpOnly = True,
     sc_sameSite = site, sc_secure = shouldUseSecureCookies W, sc_path = js path,
     sc_maxAge = Some 0, sc_expired = True, sc_domain = domain, sc_high = False\<rparr>"

definition clearAuthCookies :: "webenv \<Rightarrow> ('z web_scheme, unit) io" where
  "clearAuthCookies W =
     io_each (\<lambda>name. io_seq (put_cookie (expired_cookie W name ''lax'' ''/'' None))
         (case readCookieDomain W of
            None \<Rightarrow> io_ret ()
          | Some d \<Rightarrow> put_cookie (expired_cookie W name ''lax'' ''/'' (Some d))))
       [ACCESS_TOKEN_COOKIE, REFRESH_TOKEN_COOKIE]"

section \<open>The trusted device\<close>

definition setTrustedDeviceCookie :: "webenv \<Rightarrow> trusted_device \<Rightarrow> ('z web_scheme, unit) io" where
  "setTrustedDeviceCookie W credential =
     io_seq (put_cookie (expired_cookie W TRUSTED_DEVICE_COOKIE ''strict'' ''/'' None))
       (put_cookie \<lparr>sc_name = TRUSTED_DEVICE_COOKIE, sc_value = td_token credential,
          sc_httpOnly = True, sc_sameSite = ''strict'', sc_secure = shouldUseSecureCookies W,
          sc_path = js ''/api/auth'',
          sc_maxAge = Some (clampLifetime (td_expiresIn credential) (180 * 24 * 60 * 60)),
          sc_expired = False, sc_domain = None, sc_high = True\<rparr>)"

definition clearTrustedDeviceCookie :: "webenv \<Rightarrow> ('z web_scheme, unit) io" where
  "clearTrustedDeviceCookie W =
     io_seq (put_cookie (expired_cookie W TRUSTED_DEVICE_COOKIE ''strict'' ''/api/auth'' None))
       (put_cookie (expired_cookie W TRUSTED_DEVICE_COOKIE ''strict'' ''/'' None))"

section \<open>The loyalty token\<close>

definition loyaltyTokenCookieName :: "webenv \<Rightarrow> jstr option \<Rightarrow> jstr" where
  "loyaltyTokenCookieName W businessSlug = (case businessSlug of
       None \<Rightarrow> LOYALTY_TOKEN_COOKIE
     | Some slug \<Rightarrow>
         if slug = [] then LOYALTY_TOKEN_COOKIE
         else LOYALTY_TOKEN_COOKIE @ js ''_'' @ take 20 (sha256_hex W (to_lower (js_trim slug))))"

definition readLoyaltyToken :: "webenv \<Rightarrow> jstr option \<Rightarrow> 'z web_scheme \<Rightarrow> jstr option" where
  "readLoyaltyToken W businessSlug w = cookie w (loyaltyTokenCookieName W businessSlug)"

text \<open>Unlike the session cookies the loyalty cookie takes the configured domain unchecked.\<close>

definition cookieDomain :: "webenv \<Rightarrow> jstr option" where
  "cookieDomain W = (case map_option js_trim (getenv W ''AUTH_COOKIE_DOMAIN'') of
       None \<Rightarrow> None | Some d \<Rightarrow> if d = [] then None else Some d)"

definition setLoyaltyToken :: "webenv \<Rightarrow> jstr \<Rightarrow> jstr option \<Rightarrow> ('z web_scheme, unit) io" where
  "setLoyaltyToken W val businessSlug =
     put_cookie \<lparr>sc_name = loyaltyTokenCookieName W businessSlug, sc_value = val,
       sc_httpOnly = True, sc_sameSite = ''lax'', sc_secure = shouldUseSecureCookies W,
       sc_path = js ''/'', sc_maxAge = Some (180 * 24 * 60 * 60), sc_expired = False,
       sc_domain = cookieDomain W, sc_high = True\<rparr>"

definition clearLoyaltyToken :: "webenv \<Rightarrow> jstr option \<Rightarrow> ('z web_scheme, unit) io" where
  "clearLoyaltyToken W businessSlug =
     put_cookie \<lparr>sc_name = loyaltyTokenCookieName W businessSlug, sc_value = [],
       sc_httpOnly = True, sc_sameSite = ''lax'', sc_secure = shouldUseSecureCookies W,
       sc_path = js ''/'', sc_maxAge = Some 0, sc_expired = False,
       sc_domain = cookieDomain W, sc_high = False\<rparr>"

section \<open>What the cookies promise\<close>

text \<open>Every operation on cookies, as one datatype.\<close>

datatype cookie_op =
    SetAuth auth_tokens | ClearAuth | SetTrusted trusted_device | ClearTrusted
  | SetLoyalty jstr "jstr option" | ClearLoyalty "jstr option"

fun run_cookie_op :: "webenv \<Rightarrow> cookie_op \<Rightarrow> ('z web_scheme, unit) io" where
  "run_cookie_op W (SetAuth t) = setAuthCookies W t"
| "run_cookie_op W ClearAuth = clearAuthCookies W"
| "run_cookie_op W (SetTrusted c) = setTrustedDeviceCookie W c"
| "run_cookie_op W ClearTrusted = clearTrustedDeviceCookie W"
| "run_cookie_op W (SetLoyalty v s) = setLoyaltyToken W v s"
| "run_cookie_op W (ClearLoyalty s) = clearLoyaltyToken W s"

definition session_cookies :: "webenv \<Rightarrow> auth_tokens \<Rightarrow> set_cookie list" where
  "session_cookies W t =
     [session_cookie W ACCESS_TOKEN_COOKIE (at_accessToken t)
        (if at_rememberMe t then Some (clampLifetime (at_expiresIn t) (15 * 60)) else None),
      session_cookie W REFRESH_TOKEN_COOKIE (at_refreshToken t)
        (if at_rememberMe t then Some (persistentRefreshLifetime W (at_refreshExpiresIn t)) else None)]"

definition cleared_cookies :: "webenv \<Rightarrow> set_cookie list" where
  "cleared_cookies W = concat (map (\<lambda>name. expired_cookie W name ''lax'' ''/'' None #
       (case readCookieDomain W of None \<Rightarrow> []
        | Some d \<Rightarrow> [expired_cookie W name ''lax'' ''/'' (Some d)]))
     [ACCESS_TOKEN_COOKIE, REFRESH_TOKEN_COOKIE])"

lemma setAuthCookies_run [simp]:
  "setAuthCookies W t w = (Ok (), w\<lparr>wb_set := wb_set w @ session_cookies W t\<rparr>)"
  by (simp add: setAuthCookies_def session_cookies_def io_seq_def io_bind_def)

lemma clearAuthCookies_run [simp]:
  "clearAuthCookies W w = (Ok (), w\<lparr>wb_set := wb_set w @ cleared_cookies W\<rparr>)"
  by (simp add: clearAuthCookies_def cleared_cookies_def io_seq_def io_bind_def split: option.splits)

definition hardened :: "webenv \<Rightarrow> set_cookie \<Rightarrow> bool" where
  "hardened W c \<longleftrightarrow> sc_httpOnly c \<and> sc_sameSite c \<in> {''lax'', ''strict''}
     \<and> sc_secure c = shouldUseSecureCookies W
     \<and> (sc_expired c \<longrightarrow> sc_value c = [] \<and> sc_maxAge c = Some 0)"

lemma clampLifetime_pos: "0 < d \<Longrightarrow> 1 \<le> clampLifetime v d"
  by (cases v) (auto simp: clampLifetime_def)

lemma persistentRefreshLifetime_pos: "1 \<le> persistentRefreshLifetime W v"
  using clampLifetime_pos [of "30 * 24 * 60 * 60" v]
  by (auto simp: persistentRefreshLifetime_def readPositiveInteger_def Let_def
      split: option.splits if_splits)

lemma persistentRefreshLifetime_max:
  "readPositiveInteger (getenv W ''AUTH_REFRESH_COOKIE_MAX_AGE_SECONDS'') = Some n \<Longrightarrow>
     persistentRefreshLifetime W v \<le> n"
  by (simp add: persistentRefreshLifetime_def)

lemma cookie_op_hardened:
  "\<exists>cs. run_cookie_op W op w = (Ok (), w\<lparr>wb_set := wb_set w @ cs\<rparr>) \<and> (\<forall>c\<in>set cs. hardened W c)"
  by (cases op)
    (auto simp: hardened_def session_cookies_def cleared_cookies_def session_cookie_def expired_cookie_def
      setTrustedDeviceCookie_def clearTrustedDeviceCookie_def setLoyaltyToken_def clearLoyaltyToken_def
      io_seq_def io_bind_def split: option.splits)


definition demo_web :: "(nat \<Rightarrow> reply) \<Rightarrow> (jstr \<times> jstr) list \<Rightarrow> web" where
  "demo_web answers cookies = \<lparr>wb_answers = answers, wb_calls = [], wb_cookies = cookies,
     wb_set = [], wb_ticks = 0\<rparr>"

definition demo_tokens :: auth_tokens where
  "demo_tokens = \<lparr>at_accessToken = js ''a'', at_refreshToken = js ''r'', at_expiresIn = Fin 900,
     at_refreshExpiresIn = Fin 86400, at_rememberMe = True\<rparr>"


end
