(* ===== verification/Web_Responses.thy ===== *)
theory Web_Responses
  imports Web_Host
begin

text \<open>
  How the web server answers: the error payloads of \<open>apps/web/src/lib/api/errors.ts\<close> and the
  responses of \<open>apps/web/src/lib/server/responses.ts\<close>.
\<close>

section \<open>Error payloads\<close>

definition STATUS_CODES :: "(int \<times> string) list" where
  "STATUS_CODES =
     [(400, ''bad_request''), (401, ''unauthorized''), (403, ''forbidden''), (404, ''not_found''),
      (405, ''method_not_allowed''), (409, ''conflict''), (413, ''payload_too_large''),
      (415, ''unsupported_media_type''), (422, ''validation_error''), (429, ''rate_limited''),
      (500, ''internal_error''), (502, ''backend_unavailable''), (503, ''service_unavailable''),
      (504, ''backend_timeout'')]"

definition STATUS_MESSAGES :: "(int \<times> string) list" where
  "STATUS_MESSAGES =
     [(400, ''~Istek i~slenemedi.''),
      (401, ''Oturumunuz sona erdi. L~utfen yeniden giri~s yap~in.''),
      (403, ''Bu i~slem i~cin yetkiniz bulunmuyor.''),
      (404, ''~Istenen kay~it bulunamad~i.''),
      (405, ''Bu i~slem desteklenmiyor.''),
      (409, ''~I~slem mevcut verilerle ~cak~i~s~iyor.''),
      (413, ''G~onderilen veri izin verilen boyutu a~s~iyor.''),
      (415, ''G~onderilen veri bi~cimi desteklenmiyor.''),
      (422, ''L~utfen girdi~giniz bilgileri kontrol edin.''),
      (429, ''~Cok fazla istek g~onderildi. L~utfen biraz bekleyin.''),
      (500, ''Beklenmeyen bir hata olu~stu.''),
      (502, ''Sunucuya ~su anda ula~s~ilam~iyor.''),
      (503, ''Hizmet ge~cici olarak kullan~ilam~iyor.''),
      (504, ''Sunucu zaman~inda yan~it vermedi.'')]"

definition defaultErrorCode :: "int \<Rightarrow> jstr" where
  "defaultErrorCode status = (case map_of STATUS_CODES status of
       Some c \<Rightarrow> js c | None \<Rightarrow> js ''request_failed'')"

definition defaultErrorMessage :: "int \<Rightarrow> jstr" where
  "defaultErrorMessage status = (case map_of STATUS_MESSAGES status of
       Some m \<Rightarrow> jt m | None \<Rightarrow> jt ''~Istek tamamlanamad~i.'')"

record error_payload =
  ep_code :: jstr
  ep_message :: jstr
  ep_details :: "json option"
  ep_requestId :: "jstr option"

definition asRecord :: "json option \<Rightarrow> jobj option" where
  "asRecord v = (case v of Some (JObj r) \<Rightarrow> Some r | _ \<Rightarrow> None)"

text \<open>\<open>record?.key\<close>\<close>

definition opt_fld :: "jobj option \<Rightarrow> string \<Rightarrow> json option" where
  "opt_fld r k = (case r of None \<Rightarrow> None | Some o' \<Rightarrow> fld o' k)"

definition nonempty_string :: "json option \<Rightarrow> jstr option" where
  "nonempty_string v = (case v of Some (JStr s) \<Rightarrow> if s = [] then None else Some s | _ \<Rightarrow> None)"

definition plain_string :: "json option \<Rightarrow> jstr option" where
  "plain_string v = (case v of Some (JStr s) \<Rightarrow> Some s | _ \<Rightarrow> None)"

definition normalizeErrorPayload :: "json option \<Rightarrow> int \<Rightarrow> jstr option \<Rightarrow> error_payload" where
  "normalizeErrorPayload body status fallbackRequestId =
     (let record = asRecord body;
          nestedError = asRecord (opt_fld record ''error'');
          detail = opt_fld record ''detail''
      in \<lparr>ep_code = (case first_of (nonempty_string (opt_fld nestedError ''code''))
                               (nonempty_string (opt_fld record ''code'')) of
                      Some c \<Rightarrow> c | None \<Rightarrow> defaultErrorCode status),
          ep_message = (case first_of (nonempty_string (opt_fld nestedError ''message''))
                          (first_of (nonempty_string (opt_fld record ''message'')) (plain_string detail)) of
                      Some m \<Rightarrow> m | None \<Rightarrow> defaultErrorMessage status),
          ep_details = nullish (opt_fld nestedError ''details'')
             (nullish (opt_fld record ''details'')
               (if plain_string detail \<noteq> None then None else detail)),
          ep_requestId = (case first_of (nonempty_string (opt_fld record ''requestId''))
                            (first_of (nonempty_string (opt_fld record ''request_id'')) fallbackRequestId) of
                      Some r \<Rightarrow> if r = [] then None else Some r | None \<Rightarrow> None)\<rparr>)"

definition payload_json :: "error_payload \<Rightarrow> json" where
  "payload_json p = JObj ([(js ''error'', JObj ([(js ''code'', JStr (ep_code p)),
        (js ''message'', JStr (ep_message p))] @ opt_member ''details'' (ep_details p)))]
     @ opt_member ''requestId'' (map_option JStr (ep_requestId p)))"

section \<open>Responses\<close>

definition RESPONSE_HEADERS :: "string list" where
  "RESPONSE_HEADERS = [''cache-control'', ''content-disposition'', ''content-language'',
     ''content-type'', ''etag'', ''expires'', ''last-modified'', ''retry-after'', ''vary'',
     ''x-ratelimit-limit'', ''x-ratelimit-remaining'', ''x-ratelimit-reset'', ''x-request-id'']"

definition copyResponseHeaders :: "headers \<Rightarrow> headers" where
  "copyResponseHeaders input =
     filter (\<lambda>(name, v). to_lower name \<in> set (map js RESPONSE_HEADERS)) input"

text \<open>\<open>Response.json\<close> adds a content type unless there is one.\<close>

definition response_json :: "json \<Rightarrow> int \<Rightarrow> headers \<Rightarrow> web_response" where
  "response_json v status h = \<lparr>rs_status = status,
     rs_headers = (if hget h ''content-type'' = None
                   then hset ''content-type'' (js ''application/json'') h else h),
     rs_body = JsonBody v\<rparr>"

definition no_store :: headers where
  "no_store = [(js ''cache-control'', js ''no-store'')]"

definition apiErrorResponse :: "int \<Rightarrow> string \<Rightarrow> string \<Rightarrow> json option \<Rightarrow> web_response" where
  "apiErrorResponse status code message details =
     response_json (payload_json \<lparr>ep_code = js code, ep_message = jt message, ep_details = details,
       ep_requestId = None\<rparr>) status no_store"

definition backendErrorResponse :: "web_response \<Rightarrow> web_response" where
  "backendErrorResponse response =
     (let payload = normalizeErrorPayload (body_json (rs_body response)) (rs_status response)
            (hget (rs_headers response) ''x-request-id'');
          h = hset ''cache-control'' (js ''no-store'')
            (hset ''content-type'' (js ''application/json; charset=utf-8'')
              (copyResponseHeaders (rs_headers response)))
      in response_json (payload_json payload) (rs_status response) h)"

definition backendResponse :: "web_response \<Rightarrow> web_response" where
  "backendResponse response =
     (let status = rs_status response; h = copyResponseHeaders (rs_headers response) in
      if status = 304 then \<lparr>rs_status = 304, rs_headers = h, rs_body = NoBody\<rparr>
      else if 300 \<le> status \<and> status < 400
      then apiErrorResponse 502 ''unexpected_backend_redirect''
             ''Sunucu beklenmeyen bir y~onlendirme d~ond~urd~u.'' None
      else if \<not> rs_ok response then backendErrorResponse response
      else if status = 204 \<or> status = 205
      then \<lparr>rs_status = status, rs_headers = h, rs_body = NoBody\<rparr>
      else \<lparr>rs_status = status, rs_headers = h, rs_body = rs_body response\<rparr>)"

definition requestFailureResponse :: "exn \<Rightarrow> web_response" where
  "requestFailureResponse e =
     (case e of
        KindErr kind m \<Rightarrow>
          if kind = ''timeout''
          then apiErrorResponse 504 ''backend_timeout'' ''Sunucu zaman~inda yan~it vermedi.'' None
          else if kind = ''configuration''
          then apiErrorResponse 500 ''server_misconfigured'' ''Sunucu yap~iland~irmas~i tamamlanmam~i~s.'' None
          else apiErrorResponse 502 ''backend_unavailable'' ''Sunucuya ~su anda ula~s~ilam~iyor.'' None
      | _ \<Rightarrow> apiErrorResponse 502 ''backend_unavailable'' ''Sunucuya ~su anda ula~s~ilam~iyor.'' None)"

section \<open>What the responses promise\<close>

definition error_code :: "web_response \<Rightarrow> jstr option" where
  "error_code r = nonempty_string (opt_fld (asRecord (opt_fld (asRecord (body_json (rs_body r)))
     ''error'')) ''code'')"

lemma opt_fld_simps [simp]: "opt_fld None k = None" "opt_fld (Some r) k = fld r k"
  by (simp_all add: opt_fld_def)

lemma asRecord_simps [simp]: "asRecord (Some (JObj r)) = Some r" "asRecord None = None"
  by (simp_all add: asRecord_def)

lemma apiErrorResponse_simps [simp]:
  "rs_status (apiErrorResponse s c m d) = s"
  "c \<noteq> [] \<Longrightarrow> error_code (apiErrorResponse s c m d) = Some (js c)"
  by (simp_all add: apiErrorResponse_def response_json_def error_code_def payload_json_def nonempty_string_def)

lemma copied_names: "header_names (copyResponseHeaders h) \<subseteq> set (map js RESPONSE_HEADERS) \<union> {n. to_lower n \<noteq> n}"
  by (auto simp: copyResponseHeaders_def header_names_filter)

text \<open>The payload of an error response, read again, is the same: normalizing is idempotent.\<close>

lemma normalize_payload_json:
  assumes "ep_code p \<noteq> []" and "ep_message p \<noteq> []" and "ep_requestId p \<noteq> Some []"
    and "ep_details p \<noteq> Some JNull"
  shows "normalizeErrorPayload (Some (payload_json p)) status fallback =
    p\<lparr>ep_requestId := (case ep_requestId p of Some r \<Rightarrow> Some r
        | None \<Rightarrow> if fallback = Some [] then None else fallback)\<rparr>"
  using assms
  by (cases p) (auto simp: normalizeErrorPayload_def payload_json_def Let_def fld_append
      nonempty_string_def plain_string_def nullish_def split: option.splits json.splits)

end
