(* ===== verification/Web_Backend.thy ===== *)
theory Web_Backend
  imports Web_Responses
begin

text \<open>
  The calls of the web server to the API: \<open>apps/web/src/lib/server/backend.ts\<close>. The percent-encoding
  of \<open>encodeURIComponent\<close> and the resolution of a relative path by the \<open>URL\<close> constructor are written
  out, so that it can be proved where a request ends up.
\<close>

section \<open>encodeURIComponent\<close>

text \<open>The code points of a string; \<open>None\<close> when a surrogate stands alone, where the function throws.\<close>

fun code_points :: "jstr \<Rightarrow> nat list option" where
  "code_points [] = Some []"
| "code_points (c # cs) =
     (if 0xD800 \<le> c \<and> c \<le> 0xDBFF
      then (case cs of
              [] \<Rightarrow> None
            | d # ds \<Rightarrow>
                if 0xDC00 \<le> d \<and> d \<le> 0xDFFF
                then map_option (\<lambda>ps. (0x10000 + (c - 0xD800) * 0x400 + (d - 0xDC00)) # ps) (code_points ds)
                else None)
      else if 0xDC00 \<le> c \<and> c \<le> 0xDFFF then None
      else map_option (\<lambda>ps. c # ps) (code_points cs))"

definition utf8 :: "nat \<Rightarrow> nat list" where
  "utf8 p =
     (if p < 0x80 then [p]
      else if p < 0x800 then [0xC0 + p div 0x40, 0x80 + p mod 0x40]
      else if p < 0x10000 then [0xE0 + p div 0x1000, 0x80 + p div 0x40 mod 0x40, 0x80 + p mod 0x40]
      else [0xF0 + p div 0x40000 mod 8, 0x80 + p div 0x1000 mod 0x40, 0x80 + p div 0x40 mod 0x40,
            0x80 + p mod 0x40])"

definition unreserved :: "nat \<Rightarrow> bool" where
  "unreserved c \<longleftrightarrow> (97 \<le> c \<and> c \<le> 122) \<or> (65 \<le> c \<and> c \<le> 90) \<or> is_digit c
     \<or> c \<in> {45, 95, 46, 33, 126, 42, 39, 40, 41}"

definition hex_digit :: "nat \<Rightarrow> nat" where
  "hex_digit n = (if n < 10 then 48 + n else 55 + n)"

definition percent :: "nat \<Rightarrow> jstr" where
  "percent b = [37, hex_digit (b div 16 mod 16), hex_digit (b mod 16)]"

definition encode_point :: "nat \<Rightarrow> jstr" where
  "encode_point p = (if unreserved p then [p] else concat (map percent (utf8 p)))"

definition encodeURIComponent :: "jstr \<Rightarrow> exn + jstr" where
  "encodeURIComponent s = (case code_points s of
       None \<Rightarrow> throw (js ''URI malformed'')
     | Some ps \<Rightarrow> Inr (concat (map encode_point ps)))"

section \<open>Resolution of a relative path\<close>

text \<open>
  The \<open>URL\<close> constructor on a relative reference that is a path: the last segment of the base is
  dropped, then each segment is appended, where a segment that means \<open>.\<close> or \<open>..\<close> (also written with
  \<open>%2e\<close>) stays or goes up.
\<close>

definition single_dot :: "jstr \<Rightarrow> bool" where
  "single_dot s \<longleftrightarrow> to_lower s \<in> {js ''.'', js ''%2e''}"

definition double_dot :: "jstr \<Rightarrow> bool" where
  "double_dot s \<longleftrightarrow> to_lower s \<in> {js ''..'', js ''.%2e'', js ''%2e.'', js ''%2e%2e''}"

fun resolve_segments :: "jstr list \<Rightarrow> jstr list \<Rightarrow> jstr list" where
  "resolve_segments dirs [] = dirs"
| "resolve_segments dirs (s # ss) =
     (if double_dot s then resolve_segments (butlast dirs @ (if ss = [] then [[]] else [])) ss
      else if single_dot s then resolve_segments (dirs @ (if ss = [] then [[]] else [])) ss
      else resolve_segments (dirs @ [s]) ss)"

definition resolve_path :: "jstr list \<Rightarrow> jstr \<Rightarrow> jstr list" where
  "resolve_path base rel = resolve_segments (butlast base) (split_on 47 rel)"

section \<open>The URL of a backend request\<close>

definition BackendRequestError :: "string \<Rightarrow> string \<Rightarrow> exn" where
  "BackendRequestError kind message = KindErr kind (js message)"

definition getBackendApiUrl :: "webenv \<Rightarrow> exn + url" where
  "getBackendApiUrl W =
     (let configured = first_of (getenv W ''BACKEND_API_URL'') (first_of (getenv W ''DIXORA_API_URL'')
            (if getenv W ''NODE_ENV'' = Some (js ''production'') then None
             else Some (js ''http://127.0.0.1:8000/api/v1/''))) in
      if \<not> truthy configured
      then Inl (BackendRequestError ''configuration'' ''BACKEND_API_URL is required in production'')
      else case parse_url W (the configured) of
        None \<Rightarrow> Inl (BackendRequestError ''configuration'' ''BACKEND_API_URL must be a valid absolute URL'')
      | Some url \<Rightarrow>
          if u_protocol url \<notin> {js ''http:'', js ''https:''}
          then Inl (BackendRequestError ''configuration'' ''BACKEND_API_URL must use HTTP or HTTPS'')
          else Inr (url\<lparr>u_search := [],
                 u_path := (if u_path url = [[]] then [js ''api'', js ''v1'', []] else u_path url)\<rparr>))"

definition ensureTrailingSlash :: "url \<Rightarrow> url" where
  "ensureTrailingSlash url =
     (if u_path url \<noteq> [] \<and> last (u_path url) = [] then url
      else url\<lparr>u_path := u_path url @ [[]]\<rparr>)"

definition isUnsafeSegment :: "jstr \<Rightarrow> bool" where
  "isUnsafeSegment segment \<longleftrightarrow> segment = js ''.'' \<or> segment = js ''..''
     \<or> 47 \<in> set segment \<or> 92 \<in> set segment \<or> 0 \<in> set segment"

definition buildBackendUrl :: "webenv \<Rightarrow> jstr \<Rightarrow> jstr option \<Rightarrow> exn + url" where
  "buildBackendUrl W path search =
     sb (getBackendApiUrl W) (\<lambda>baseUrl.
      let cleanPath = dropWhile (\<lambda>c. c = 47) path in
      if cleanPath = [] \<or> list_ex isUnsafeSegment (split_on 47 cleanPath)
      then Inl (BackendRequestError ''configuration'' ''An invalid backend path was requested'')
      else sb (try_map (\<lambda>i. encodeURIComponent) (split_on 47 cleanPath)) (\<lambda>segments.
        let base = ensureTrailingSlash baseUrl;
            url = base\<lparr>u_path := resolve_path (u_path base) (join_with [47] segments)\<rparr>
        in Inr (case search of None \<Rightarrow> url | Some q \<Rightarrow> url\<lparr>u_search := q\<rparr>)))"

section \<open>The request\<close>

text \<open>
  The handler of \<open>catch\<close> asks whether the timer aborted the request; a call that the caller aborted
  ends like a broken one. Note that the URL is built inside the \<open>try\<close>.
\<close>

definition backendFetch ::
  "webenv \<Rightarrow> jstr \<Rightarrow> fetch_init \<Rightarrow> jstr option \<Rightarrow> ('z web_scheme, web_response) io" where
  "backendFetch W path init search =
     io_catch
       (io_bind (io_lift (buildBackendUrl W path search)) (\<lambda>u. web_fetch u init))
       (\<lambda>e. if e = aborted
            then io_raise (BackendRequestError ''timeout'' ''The backend request timed out'')
            else io_raise (BackendRequestError ''network'' ''The backend request failed''))"

section \<open>Where a request ends up\<close>

lemma hex_digit_plain: "n < 16 \<Longrightarrow> is_digit (hex_digit n) \<or> (65 \<le> hex_digit n \<and> hex_digit n \<le> 70)"
  by (auto simp: hex_digit_def is_digit_def)

text \<open>Encoded text holds unreserved units and percent signs, nothing else.\<close>

lemma encode_point_units: "c \<in> set (encode_point p) \<Longrightarrow> unreserved c \<or> c = 37"
proof -
  have h: "unreserved (hex_digit (n mod 16))" for n
    using hex_digit_plain [of "n mod 16"] by (auto simp: unreserved_def)
  assume "c \<in> set (encode_point p)"
  then show ?thesis
    by (auto simp: encode_point_def percent_def h split: if_splits)
qed

lemma encode_units:
  "encodeURIComponent s = Inr t \<Longrightarrow> \<forall>c\<in>set t. unreserved c \<or> c = 37"
  by (auto simp: encodeURIComponent_def throw_def split: option.splits dest: encode_point_units)

text \<open>
  A dot comes only from a dot, and \<open>%2E\<close> from nothing: the dot is unreserved, and the bytes of what
  is not unreserved are never 46.
\<close>

lemma utf8_bytes: "128 \<le> p \<Longrightarrow> b \<in> set (utf8 p) \<Longrightarrow> 128 \<le> b \<and> b < 256"
proof -
  have "p div 64 < 32" if "p < 2048" using that by auto
  moreover have "p div 4096 < 16" if "p < 65536" using that by auto
  moreover have "n mod 64 < 64" "n mod 8 < 8" for n :: nat by auto
  moreover assume "128 \<le> p" "b \<in> set (utf8 p)"
  ultimately show ?thesis
    by (fastforce simp: utf8_def split: if_splits)
qed

lemma lower_unit_iff [simp]:
  "lower_unit c = 46 \<longleftrightarrow> c = 46" "lower_unit c = 37 \<longleftrightarrow> c = 37" "lower_unit c = 50 \<longleftrightarrow> c = 50"
  "lower_unit c = 101 \<longleftrightarrow> c = 69 \<or> c = 101"
  by (auto simp: lower_unit_def)

lemma percent_not_dot: "b < 256 \<Longrightarrow> percent b = [37, 50, e] \<Longrightarrow> e = 69 \<or> e = 101 \<Longrightarrow> b = 46"
  by (auto simp: percent_def hex_digit_def split: if_splits) presburger+

lemma encode_point_shape:
  "(unreserved p \<and> encode_point p = [p])
   \<or> (\<exists>b bs. encode_point p = percent b @ bs \<and> b < 256 \<and> b \<noteq> 46)"
proof (cases "unreserved p")
  case False
  then have "p \<noteq> 46" by (auto simp: unreserved_def)
  obtain b bs where b: "utf8 p = b # bs" by (cases "utf8 p") (auto simp: utf8_def split: if_splits)
  have "b < 256 \<and> b \<noteq> 46"
  proof (cases "p < 128")
    case True
    with b \<open>p \<noteq> 46\<close> show ?thesis by (simp add: utf8_def)
  next
    case False
    with b utf8_bytes [of p b] show ?thesis by simp
  qed
  with False b show ?thesis by (auto simp: encode_point_def)
qed (simp add: encode_point_def)

lemma encoded_dot:
  "to_lower (encode_point p @ rest) = 46 # r \<Longrightarrow> p = 46 \<and> to_lower rest = r"
  using encode_point_shape [of p] by (auto simp: to_lower_def percent_def)

lemma encoded_not_pct2e: "to_lower (encode_point p @ rest) \<noteq> 37 # 50 # 101 # r"
proof
  assume a: "to_lower (encode_point p @ rest) = 37 # 50 # 101 # r"
  from encode_point_shape [of p] show False
  proof
    assume "unreserved p \<and> encode_point p = [p]"
    with a show False by (auto simp: to_lower_def unreserved_def is_digit_def)
  next
    assume "\<exists>b bs. encode_point p = percent b @ bs \<and> b < 256 \<and> b \<noteq> 46"
    with a show False
      using percent_not_dot by (fastforce simp: to_lower_def percent_def)
  qed
qed

lemma encode_point_nonempty [simp]: "encode_point p \<noteq> []"
  using encode_point_shape [of p] by (auto simp: percent_def)

definition encoded :: "nat list \<Rightarrow> jstr" where
  "encoded ps = concat (map encode_point ps)"

lemma encoded_simps [simp]: "encoded [] = []" "encoded (p # ps) = encode_point p @ encoded ps"
  "encoded ps = [] \<longleftrightarrow> ps = []"
  by (simp_all add: encoded_def)

lemma encoded_dot_iff: "to_lower (encoded ps) = 46 # r \<Longrightarrow> \<exists>qs. ps = 46 # qs \<and> to_lower (encoded qs) = r"
  by (cases ps) (auto simp: to_lower_def [of "[]"] dest: encoded_dot)

lemma to_lower_Nil [simp]: "to_lower s = [] \<longleftrightarrow> s = []" "to_lower [] = []"
  by (simp_all add: to_lower_def)

lemma encoded_pct2e: "to_lower (encoded ps) \<noteq> 37 # 50 # 101 # r"
  by (cases ps) (simp_all add: encoded_not_pct2e)

lemma encoded_dots:
  "single_dot (encoded ps) \<Longrightarrow> ps = [46]" "double_dot (encoded ps) \<Longrightarrow> ps = [46, 46]"
  by (auto simp: single_dot_def double_dot_def js_def encoded_pct2e dest!: encoded_dot_iff)

lemma code_points_dot:
  "code_points (c # cs) = Some (46 # ps) \<Longrightarrow> c = 46 \<and> code_points cs = Some ps"
  by (auto split: if_splits list.splits)

lemma code_points_Nil: "code_points s = Some [] \<Longrightarrow> s = []"
  by (cases s) (auto split: if_splits list.splits)

lemma code_points_dots:
  "code_points s = Some (replicate n 46) \<Longrightarrow> s = replicate n 46"
proof (induction n arbitrary: s)
  case 0
  then show ?case by (simp add: code_points_Nil)
next
  case (Suc n)
  then obtain c cs where s: "s = c # cs" by (cases s) auto
  with Suc.prems have "c = 46 \<and> code_points cs = Some (replicate n 46)"
    using code_points_dot [of c cs "replicate n 46"] by (simp del: code_points.simps)
  with Suc.IH [of cs] s show ?case by simp
qed

lemma encode_no_dots:
  assumes "encodeURIComponent s = Inr t" and "\<not> isUnsafeSegment s"
  shows "\<not> single_dot t \<and> \<not> double_dot t"
proof -
  obtain ps where ps: "code_points s = Some ps" "t = encoded ps"
    using assms(1) by (auto simp: encodeURIComponent_def encoded_def throw_def split: option.splits)
  have "ps \<noteq> [46]"
    using assms(2) code_points_dots [of s 1] ps(1) by (auto simp: isUnsafeSegment_def js_def)
  moreover have "ps \<noteq> [46, 46]"
    using assms(2) code_points_dots [of s 2] ps(1) by (auto simp: isUnsafeSegment_def js_def numeral_2_eq_2)
  ultimately show ?thesis
    using encoded_dots [of ps] ps(2) by blast
qed

lemma resolve_no_dots:
  "\<forall>s\<in>set ss. \<not> single_dot s \<and> \<not> double_dot s \<Longrightarrow> resolve_segments dirs ss = dirs @ ss"
  by (induction ss arbitrary: dirs) auto

lemma encoded_segments:
  assumes "try_map (\<lambda>i. encodeURIComponent) xs = Inr ss" and "\<not> list_ex isUnsafeSegment xs" and "xs \<noteq> []"
  shows "ss \<noteq> [] \<and> length ss = length xs
    \<and> (\<forall>s\<in>set ss. \<not> single_dot s \<and> \<not> double_dot s \<and> set s \<inter> {47, 92, 63, 35} = {})"
proof -
  have all: "length ss = length xs \<and> (\<forall>s\<in>set ss. \<exists>x\<in>set xs. encodeURIComponent x = Inr s)"
    using try_map_all [OF assms(1)] by auto
  moreover have "\<not> single_dot s \<and> \<not> double_dot s \<and> set s \<inter> {47, 92, 63, 35} = {}"
    if s: "s \<in> set ss" for s
  proof -
    obtain x where x: "x \<in> set xs" "encodeURIComponent x = Inr s" using all s by blast
    then have "\<not> isUnsafeSegment x" using assms(2) by (simp add: list_ex_iff)
    moreover have "c \<notin> {47, 92, 63, 35}" if "c \<in> set s" for c
      using encode_units [OF x(2)] that by (auto simp: unreserved_def is_digit_def)
    ultimately show ?thesis using encode_no_dots [OF x(2)] by blast
  qed
  ultimately show ?thesis using assms(3) by auto
qed

lemma resolve_encoded:
  assumes "\<forall>s\<in>set ss. \<not> single_dot s \<and> \<not> double_dot s \<and> set s \<inter> {47, 92, 63, 35} = {}" and "ss \<noteq> []"
  shows "resolve_path base (join_with [47] ss) = butlast base @ ss"
proof -
  have "split_on 47 (join_with [47] ss) = ss"
    using assms by (intro split_on_join) auto
  then show ?thesis
    using assms(1) by (simp add: resolve_path_def resolve_no_dots)
qed


text \<open>A missing configuration is never reported as one. The address is built inside the \<open>try\<close> of
  \<open>backendFetch\<close>, so its configuration errors are rethrown as network errors: no failure of a backend
  request is answered with \<open>server_misconfigured\<close>, and a production server without an address answers 502
  \<open>backend_unavailable\<close> without having called anything.\<close>

theorem configuration_error_masked:
  assumes "backendFetch W path init search w = (Exn e, w')"
  shows "error_code (requestFailureResponse e) \<noteq> Some (js ''server_misconfigured'')
    \<and> (getenv W ''BACKEND_API_URL'' = None \<and> getenv W ''DIXORA_API_URL'' = None
        \<and> getenv W ''NODE_ENV'' = Some (js ''production'')
       \<longrightarrow> error_code (requestFailureResponse e) = Some (js ''backend_unavailable'') \<and> wb_calls w' = wb_calls w)"
  using assms
  by (auto simp: backendFetch_def BackendRequestError_def requestFailureResponse_def io_catch_def io_bind_def
      io_lift_def io_raise_def buildBackendUrl_def getBackendApiUrl_def aborted_def
      split: res.splits prod.splits if_splits)

section \<open>Examples\<close>

definition demo_url :: url where
  "demo_url = \<lparr>u_protocol = js ''https:'', u_host = js ''api.example'', u_path = [js ''api'', js ''v1'', []],
     u_search = []\<rparr>"

definition demo_backend :: webenv where
  "demo_backend = (demo_webenv [(''BACKEND_API_URL'', js ''https://api.example'')])"

lemma demo_backend_url: "getBackendApiUrl demo_backend = Inr demo_url"
  by (simp add: getBackendApiUrl_def demo_backend_def demo_webenv_def Let_def demo_url_def js_def)

lemma demo_build: "buildBackendUrl demo_backend (js ''orders/%2e%2e'') None
    = Inr (demo_url\<lparr>u_path := [js ''api'', js ''v1'', js ''orders'', js ''%252e%252e'']\<rparr>)"
  by (simp add: buildBackendUrl_def demo_backend_url Let_def js_def isUnsafeSegment_def encodeURIComponent_def
      encode_point_def unreserved_def is_digit_def percent_def utf8_def hex_digit_def demo_url_def
      ensureTrailingSlash_def resolve_path_def single_dot_def double_dot_def to_lower_def lower_unit_def)


lemma configuration_error_masked_witness:
  "\<exists>e. backendFetch (demo_webenv [(''NODE_ENV'', js ''production'')]) (js ''orders'')
      \<lparr>fi_method = js ''GET'', fi_headers = [], fi_body = NoBody\<rparr> None
      \<lparr>wb_answers = (\<lambda>_. Broken), wb_calls = [], wb_cookies = [], wb_set = [], wb_ticks = 0\<rparr>
    = (Exn e, \<lparr>wb_answers = (\<lambda>_. Broken), wb_calls = [], wb_cookies = [], wb_set = [], wb_ticks = 0\<rparr>)
    \<and> error_code (requestFailureResponse e) = Some (js ''backend_unavailable'')"
proof -
  let ?W = "demo_webenv [(''NODE_ENV'', js ''production'')]"
  let ?w = "\<lparr>wb_answers = (\<lambda>_. Broken), wb_calls = [], wb_cookies = [], wb_set = [], wb_ticks = 0\<rparr>"
  let ?i = "\<lparr>fi_method = js ''GET'', fi_headers = [], fi_body = NoBody\<rparr>"
  have "backendFetch ?W (js ''orders'') ?i None ?w
      = (Exn (BackendRequestError ''network'' ''The backend request failed''), ?w)"
    by (simp add: backendFetch_def BackendRequestError_def io_catch_def io_bind_def io_lift_def io_raise_def
        buildBackendUrl_def getBackendApiUrl_def aborted_def demo_webenv_def)
  from configuration_error_masked [OF this] this show ?thesis
    by (auto simp: demo_webenv_def)
qed

end
