(* ===== verification/Web_Session.thy ===== *)
theory Web_Session
  imports Web_Cookies Web_Backend
begin

text \<open>
  The session of a browser behind the web server: \<open>apps/web/src/lib/server/auth-session.ts\<close>. A request
  that the API answers with 401 is repeated once with refreshed tokens. The map \<open>refreshFlights\<close> shares
  one refresh between the requests that need it: here a handler sees the outcomes of the flights that are
  in the map, \<open>Refresh_Flights\<close> has the map itself with its calls, outcomes and timers in any order.
\<close>

section \<open>Tokens\<close>

definition read_string :: "jobj \<Rightarrow> string \<Rightarrow> string \<Rightarrow> jstr option" where
  "read_string r a b = first_of (nonempty_string (fld r a)) (nonempty_string (fld r b))"

definition positive_number :: "json option \<Rightarrow> jsnum option" where
  "positive_number v = (case v of
       Some (JNum (Fin q)) \<Rightarrow> if 0 < q then Some (Fin q) else None
     | _ \<Rightarrow> None)"

definition read_positive :: "jobj \<Rightarrow> string \<Rightarrow> string \<Rightarrow> jsnum option" where
  "read_positive r a b = first_of (positive_number (fld r a)) (positive_number (fld r b))"

definition bool_value :: "json option \<Rightarrow> bool option" where
  "bool_value v = (case v of Some (JBool b) \<Rightarrow> Some b | _ \<Rightarrow> None)"

definition parseAuthTokens :: "json option \<Rightarrow> auth_tokens option" where
  "parseAuthTokens body = (case asRecord body of
       None \<Rightarrow> None
     | Some r \<Rightarrow>
         (case (read_string r ''access_token'' ''accessToken'',
                read_string r ''refresh_token'' ''refreshToken'',
                read_positive r ''expires_in'' ''expiresIn'',
                read_positive r ''refresh_expires_in'' ''refreshExpiresIn'') of
            (Some a, Some t, Some e, Some f) \<Rightarrow>
              Some \<lparr>at_accessToken = a, at_refreshToken = t, at_expiresIn = e, at_refreshExpiresIn = f,
                at_rememberMe = (case first_of (bool_value (fld r ''remember_me''))
                   (bool_value (fld r ''rememberMe'')) of Some b \<Rightarrow> b | None \<Rightarrow> False)\<rparr>
          | _ \<Rightarrow> None))"

section \<open>Refreshing\<close>

datatype refresh_outcome =
    Refreshed auth_tokens
  | RefreshFailed int "json option" "jstr option" "jstr option"

record sweb = web +
  wb_flights :: "(jstr \<times> (exn + refresh_outcome)) list"

definition refresh_init :: "jstr \<Rightarrow> fetch_init" where
  "refresh_init token = \<lparr>fi_method = js ''POST'',
     fi_headers = [(js ''accept'', js ''application/json''), (js ''content-type'', js ''application/json'')],
     fi_body = JsonBody (JObj [(js ''refresh_token'', JStr token)])\<rparr>"

definition invalid_auth_body :: json where
  "invalid_auth_body = JObj [(js ''error'', JObj [(js ''code'', JStr (js ''invalid_auth_response'')),
     (js ''message'', JStr (jt ''Kimlik sunucusundan ge~cersiz yan~it al~ind~i.''))])]"

definition refresh_outcome_of :: "web_response \<Rightarrow> refresh_outcome" where
  "refresh_outcome_of response =
     (let body = body_json (rs_body response) in
      if \<not> rs_ok response
      then RefreshFailed (rs_status response) body (hget (rs_headers response) ''x-request-id'')
             (hget (rs_headers response) ''retry-after'')
      else case parseAuthTokens body of
        None \<Rightarrow> RefreshFailed 502 (Some invalid_auth_body) None None
      | Some tokens \<Rightarrow> Refreshed tokens)"

definition performRefresh :: "webenv \<Rightarrow> jstr \<Rightarrow> ('z web_scheme, refresh_outcome) io" where
  "performRefresh W token =
     io_bind (backendFetch W (js ''auth/refresh'') (refresh_init token) None)
       (\<lambda>response. io_ret (refresh_outcome_of response))"

definition land :: "jstr \<Rightarrow> exn + refresh_outcome \<Rightarrow> ('z sweb_scheme, unit) io" where
  "land token r = io_upd (\<lambda>w. w\<lparr>wb_flights := AList.update token r (wb_flights w)\<rparr>)"

definition refreshSession :: "webenv \<Rightarrow> jstr \<Rightarrow> ('z sweb_scheme, refresh_outcome) io" where
  "refreshSession W token =
     io_bind (io_get (\<lambda>w. map_of (wb_flights w) token)) (\<lambda>existing.
       case existing of
         Some r \<Rightarrow> io_lift r
       | None \<Rightarrow> io_try (performRefresh W token)
           (\<lambda>out. io_seq (land token (Inr out)) (io_ret out))
           (\<lambda>e. io_seq (land token (Inl e)) (io_raise e)))"

section \<open>Requests with a session\<close>

definition withBearerToken :: "fetch_init \<Rightarrow> jstr option \<Rightarrow> fetch_init" where
  "withBearerToken init accessToken =
     (let h = hdel ''x-user-id'' (hdel ''x-tenant-id'' (hdel ''cookie'' (fi_headers init))) in
      init\<lparr>fi_headers := (if truthy accessToken
         then hset ''authorization'' (js ''Bearer '' @ the accessToken) h
         else hdel ''authorization'' h)\<rparr>)"

definition refreshFailureResponse ::
  "int \<Rightarrow> json option \<Rightarrow> jstr option \<Rightarrow> jstr option \<Rightarrow> web_response" where
  "refreshFailureResponse status body requestId retryAfter =
     (let h = [(js ''cache-control'', js ''no-store''),
               (js ''content-type'', js ''application/json; charset=utf-8'')];
          h1 = (if truthy requestId then hset ''x-request-id'' (the requestId) h else h);
          h2 = (if truthy retryAfter then hset ''retry-after'' (the retryAfter) h1 else h1)
      in \<lparr>rs_status = status, rs_headers = h2,
           rs_body = JsonBody (case body of None \<Rightarrow> JObj [] | Some JNull \<Rightarrow> JObj [] | Some v \<Rightarrow> v)\<rparr>)"

definition clear_if :: "webenv \<Rightarrow> bool \<Rightarrow> ('z web_scheme, unit) io" where
  "clear_if W b = (if b then clearAuthCookies W else io_ret ())"

definition retry_refreshed ::
  "webenv \<Rightarrow> jstr \<Rightarrow> fetch_init \<Rightarrow> jstr option \<Rightarrow> auth_tokens \<Rightarrow> ('z web_scheme, web_response) io" where
  "retry_refreshed W path init search tokens =
     io_seq (setAuthCookies W tokens)
       (io_bind (backendFetch W path (withBearerToken init (Some (at_accessToken tokens))) search)
         (\<lambda>retryResponse. io_seq (clear_if W (rs_status retryResponse = 401)) (io_ret retryResponse)))"

fun after_refresh ::
  "webenv \<Rightarrow> jstr \<Rightarrow> fetch_init \<Rightarrow> jstr option \<Rightarrow> refresh_outcome \<Rightarrow> ('z web_scheme, web_response) io" where
  "after_refresh W path init search (RefreshFailed status body requestId retryAfter) =
     io_seq (clear_if W (status = 401 \<or> status = 403))
       (io_ret (refreshFailureResponse status body requestId retryAfter))"
| "after_refresh W path init search (Refreshed tokens) = retry_refreshed W path init search tokens"

definition authenticatedBackendFetch ::
  "webenv \<Rightarrow> jstr \<Rightarrow> fetch_init \<Rightarrow> jstr option \<Rightarrow> ('z sweb_scheme, web_response) io" where
  "authenticatedBackendFetch W path init search =
     io_bind (io_get readAuthCookies) (\<lambda>(accessToken, refreshToken).
     io_bind (backendFetch W path (withBearerToken init accessToken) search) (\<lambda>firstResponse.
       if rs_status firstResponse \<noteq> 401 \<or> \<not> truthy refreshToken
       then io_seq (clear_if W (rs_status firstResponse = 401 \<and> \<not> truthy refreshToken))
              (io_ret firstResponse)
       else io_bind (refreshSession W (the refreshToken)) (after_refresh W path init search)))"

section \<open>What a session promises\<close>

lemma clear_if_run [simp]:
  "clear_if W b w = (Ok (), w\<lparr>wb_set := wb_set w @ (if b then cleared_cookies W else [])\<rparr>)"
  by (simp add: clear_if_def)

lemma backendFetch_run:
  assumes "backendFetch W path init search w = (r, w')"
  shows "\<exists>cs. w' = w\<lparr>wb_calls := wb_calls w @ cs\<rparr> \<and> length cs \<le> 1 \<and> (\<forall>c\<in>set cs. bc_init c = init)
    \<and> (\<forall>c\<in>set cs. buildBackendUrl W path search = Inr (bc_url c)) \<and> r \<noteq> Stop"
  using assms
  by (auto simp: backendFetch_def io_catch_def io_bind_def io_lift_def io_raise_def web_fetch_def Let_def
      split: if_splits sum.splits reply.splits intro: exI [where x = "[]"])

text \<open>The headers a request with a session may carry.\<close>

definition bearer_of :: "jstr option \<Rightarrow> jstr option" where
  "bearer_of t = (if truthy t then Some (js ''Bearer '' @ the t) else None)"

lemma withBearer_headers [simp]:
  "hget (fi_headers (withBearerToken init t)) ''authorization'' = bearer_of t"
  "hget (fi_headers (withBearerToken init t)) ''cookie'' = None"
  "hget (fi_headers (withBearerToken init t)) ''x-tenant-id'' = None"
  "hget (fi_headers (withBearerToken init t)) ''x-user-id'' = None"
  by (simp_all add: withBearerToken_def Let_def bearer_of_def)

lemma withBearer_names:
  "header_names (fi_headers (withBearerToken init t))
     \<subseteq> insert (js ''authorization'') (header_names (fi_headers init))"
  by (auto simp: withBearerToken_def Let_def)

lemma refreshSession_run:
  assumes "refreshSession W token w = (r, w')"
  shows "\<exists>cs. wb_calls w' = wb_calls w @ cs \<and> length cs \<le> 1 \<and> (\<forall>c\<in>set cs. bc_init c = refresh_init token)
    \<and> wb_set w' = wb_set w \<and> wb_cookies w' = wb_cookies w
    \<and> (\<forall>out. r = Ok out \<longrightarrow> map_of (wb_flights w') token = Some (Inr out))
    \<and> (\<forall>e. r = Exn e \<longrightarrow> map_of (wb_flights w') token = Some (Inl e))
    \<and> r \<noteq> Stop"
proof (cases "map_of (wb_flights w) token")
  case None
  obtain r1 w1 where f: "backendFetch W (js ''auth/refresh'') (refresh_init token) None w = (r1, w1)"
    by fastforce
  obtain cs where cs: "w1 = w\<lparr>wb_calls := wb_calls w @ cs\<rparr>" "length cs \<le> 1"
    "\<forall>c\<in>set cs. bc_init c = refresh_init token" "r1 \<noteq> Stop"
    using backendFetch_run [OF f] by blast
  show ?thesis
    using assms None f cs
    by (cases r1)
      (auto simp: refreshSession_def performRefresh_def land_def io_try_def io_bind_def io_seq_def io_upd_def
        io_get_def io_raise_def update_conv')
next
  case (Some x)
  with assms show ?thesis
    by (cases x) (auto simp: refreshSession_def io_lift_def)
qed

lemma retry_run:
  assumes "retry_refreshed W path init search tokens w = (r, w')"
  shows "\<exists>cs b. wb_calls w' = wb_calls w @ cs \<and> length cs \<le> 1
    \<and> (\<forall>c\<in>set cs. bc_init c = withBearerToken init (Some (at_accessToken tokens)))
    \<and> wb_set w' = wb_set w @ session_cookies W tokens @ (if b then cleared_cookies W else [])
    \<and> (\<forall>resp. r = Ok resp \<longrightarrow> b = (rs_status resp = 401)) \<and> web.more w' = web.more w"
proof -
  let ?i = "withBearerToken init (Some (at_accessToken tokens))"
  let ?v = "w\<lparr>wb_set := wb_set w @ session_cookies W tokens\<rparr>"
  obtain r1 w1 where f: "backendFetch W path ?i search ?v = (r1, w1)" by fastforce
  obtain cs where cs: "w1 = ?v\<lparr>wb_calls := wb_calls ?v @ cs\<rparr>" "length cs \<le> 1"
    "\<forall>c\<in>set cs. bc_init c = ?i"
    using backendFetch_run [OF f] by blast
  show ?thesis
  proof (cases r1)
    case (Ok resp)
    with assms f cs show ?thesis
      by (intro exI [of _ cs] exI [of _ "rs_status resp = 401"])
        (auto simp: retry_refreshed_def io_seq_def io_bind_def)
  next
    case (Exn e)
    with assms f cs show ?thesis
      by (intro exI [of _ cs] exI [of _ False]) (auto simp: retry_refreshed_def io_seq_def io_bind_def)
  next
    case Stop
    with assms f cs show ?thesis
      by (intro exI [of _ cs] exI [of _ False]) (auto simp: retry_refreshed_def io_seq_def io_bind_def)
  qed
qed

text \<open>
  The calls a request with a session may make: the request with the access cookie, a refresh with the
  refresh cookie, and the request again with an access token that a refresh of that cookie has given.
\<close>

definition session_call ::
  "fetch_init \<Rightarrow> 'z sweb_scheme \<Rightarrow> 'z sweb_scheme \<Rightarrow> backend_call \<Rightarrow> bool" where
  "session_call init w w' c \<longleftrightarrow>
     bc_init c = withBearerToken init (cookie w ACCESS_TOKEN_COOKIE)
     \<or> (\<exists>rt. cookie w REFRESH_TOKEN_COOKIE = Some rt
          \<and> (bc_init c = refresh_init rt
             \<or> (\<exists>t. map_of (wb_flights w') rt = Some (Inr (Refreshed t))
                  \<and> bc_init c = withBearerToken init (Some (at_accessToken t)))))"

definition fresh_tokens :: "'z sweb_scheme \<Rightarrow> 'z sweb_scheme \<Rightarrow> auth_tokens \<Rightarrow> bool" where
  "fresh_tokens w w' t \<longleftrightarrow> (\<exists>rt. cookie w REFRESH_TOKEN_COOKIE = Some rt
     \<and> map_of (wb_flights w) rt \<noteq> Some (Inr (Refreshed t))
     \<and> map_of (wb_flights w') rt = Some (Inr (Refreshed t)))"

definition session_result ::
  "webenv \<Rightarrow> fetch_init \<Rightarrow> web_response res \<Rightarrow> 'z sweb_scheme \<Rightarrow> 'z sweb_scheme \<Rightarrow> bool" where
  "session_result W init r w w' \<longleftrightarrow> (\<exists>cs ss.
     wb_calls w' = wb_calls w @ cs \<and> wb_set w' = wb_set w @ ss
     \<and> length cs \<le> 3 \<and> (\<forall>c\<in>set cs. session_call init w w' c)
     \<and> (\<forall>resp. r = Ok resp \<and> rs_status resp = 401 \<longrightarrow> (\<exists>before. ss = before @ cleared_cookies W))
     \<and> (\<forall>t. fresh_tokens w w' t \<longrightarrow> (\<exists>after. ss = session_cookies W t @ after)))"

lemma refresh_failure_status [simp]: "rs_status (refreshFailureResponse s b i a) = s"
  by (simp add: refreshFailureResponse_def Let_def)

lemma session_result_direct:
  assumes "cs = wb_calls w' \<and> wb_set w' = wb_set w @ ss \<and> wb_flights w' = wb_flights w"
    and "wb_calls w' = wb_calls w @ ds" and "length ds \<le> 3"
    and "\<forall>c\<in>set ds. bc_init c = withBearerToken init (cookie w ACCESS_TOKEN_COOKIE)"
    and "\<forall>resp. r = Ok resp \<and> rs_status resp = 401 \<longrightarrow> ss = cleared_cookies W"
  shows "session_result W init r w w'"
  unfolding session_result_def
  by (intro exI [of _ ds] exI [of _ ss])
    (use assms in \<open>auto simp: session_call_def fresh_tokens_def\<close>)

lemma after_refresh_run:
  assumes "after_refresh W path init search out w = (r, w')"
  shows "\<exists>cs ss. wb_calls w' = wb_calls w @ cs \<and> length cs \<le> 1 \<and> wb_set w' = wb_set w @ ss
    \<and> web.more w' = web.more w
    \<and> (\<forall>c\<in>set cs. \<exists>t. out = Refreshed t \<and> bc_init c = withBearerToken init (Some (at_accessToken t)))
    \<and> (\<forall>resp. r = Ok resp \<and> rs_status resp = 401 \<longrightarrow> (\<exists>before. ss = before @ cleared_cookies W))
    \<and> (\<forall>t. out = Refreshed t \<longrightarrow> (\<exists>after. ss = session_cookies W t @ after))"
proof (cases out)
  case (Refreshed t)
  with assms have "retry_refreshed W path init search t w = (r, w')" by simp
  from retry_run [OF this] Refreshed show ?thesis by fastforce
next
  case (RefreshFailed status body i a)
  with assms show ?thesis
    by (intro exI [of _ "[]"] exI [of _ "if status = 401 \<or> status = 403 then cleared_cookies W else []"])
      (auto simp: io_seq_def io_bind_def)
qed

lemma authenticated_run:
  assumes "authenticatedBackendFetch W path init search w = (r, w')"
  shows "session_result W init r w w'"
proof -
  let ?a = "cookie w ACCESS_TOKEN_COOKIE" and ?t = "cookie w REFRESH_TOKEN_COOKIE"
  let ?i = "withBearerToken init ?a"
  obtain r1 w1 where f: "backendFetch W path ?i search w = (r1, w1)" by fastforce
  obtain c1 where c1: "w1 = w\<lparr>wb_calls := wb_calls w @ c1\<rparr>" "length c1 \<le> 1" "\<forall>c\<in>set c1. bc_init c = ?i"
    using backendFetch_run [OF f] by blast
  note unfold = authenticatedBackendFetch_def io_bind_def io_get_def readAuthCookies_def io_seq_def
  show ?thesis
  proof (cases "\<exists>first rt. r1 = Ok first \<and> rs_status first = 401 \<and> ?t = Some rt \<and> rt \<noteq> []")
    case False
    then have "wb_calls w' = wb_calls w @ c1 \<and> wb_flights w' = wb_flights w
        \<and> (\<exists>ss. wb_set w' = wb_set w @ ss \<and> (\<forall>resp. r = Ok resp \<and> rs_status resp = 401 \<longrightarrow> ss = cleared_cookies W))"
      using assms f c1(1) by (cases r1; cases ?t) (auto simp: unfold split: if_splits)
    with c1 show ?thesis
      by (elim conjE exE) (rule session_result_direct [of _ _ _ _ c1]; auto)
  next
    case True
    then obtain first rt where first: "r1 = Ok first" "rs_status first = 401" and rt: "?t = Some rt" "rt \<noteq> []"
      by blast
    obtain r2 w2 where g: "refreshSession W rt w1 = (r2, w2)" by fastforce
    obtain c2 where c2: "wb_calls w2 = wb_calls w1 @ c2" "length c2 \<le> 1"
      "\<forall>c\<in>set c2. bc_init c = refresh_init rt" "wb_set w2 = wb_set w1"
      "\<And>out. r2 = Ok out \<Longrightarrow> map_of (wb_flights w2) rt = Some (Inr out)"
      "\<And>e. r2 = Exn e \<Longrightarrow> map_of (wb_flights w2) rt = Some (Inl e)" "r2 \<noteq> Stop"
      using refreshSession_run [OF g] by blast
    have run: "(r, w') = (case r2 of Ok out \<Rightarrow> after_refresh W path init search out w2
        | Exn e \<Rightarrow> (Exn e, w2) | Stop \<Rightarrow> (Stop, w2))"
      using assms f first rt g by (simp add: unfold)
    show ?thesis
    proof (cases r2)
      case (Ok out)
      then have "after_refresh W path init search out w2 = (r, w')" using run by simp
      from after_refresh_run [OF this] obtain c3 ss where c3: "wb_calls w' = wb_calls w2 @ c3" "length c3 \<le> 1" "wb_set w' = wb_set w2 @ ss"
        "web.more w' = web.more w2"
        "\<forall>c\<in>set c3. \<exists>t. out = Refreshed t \<and> bc_init c = withBearerToken init (Some (at_accessToken t))"
        "\<forall>resp. r = Ok resp \<and> rs_status resp = 401 \<longrightarrow> (\<exists>before. ss = before @ cleared_cookies W)"
        "\<forall>t. out = Refreshed t \<longrightarrow> (\<exists>after. ss = session_cookies W t @ after)"
        by (elim exE conjE) blast
      have "wb_flights w' = wb_flights w2" using c3(4) by (cases w'; cases w2) simp
      with c2(5) [OF Ok] have "map_of (wb_flights w') rt = Some (Inr out)" by simp
      with c1 c2 c3 rt show ?thesis
        unfolding session_result_def
        by (intro exI [of _ "c1 @ c2 @ c3"] exI [of _ ss])
          (fastforce simp: session_call_def fresh_tokens_def)
    next
      case (Exn e)
      with c2(6) c1 c2 run rt show ?thesis
        unfolding session_result_def
        by (intro exI [of _ "c1 @ c2"] exI [of _ "[]"])
          (auto simp: session_call_def fresh_tokens_def)
    next
      case Stop
      with c2(7) show ?thesis by simp
    qed
  qed
qed

lemma session_call_clean:
  "session_call init w w' c \<Longrightarrow> hget (fi_headers (bc_init c)) ''cookie'' = None
     \<and> hget (fi_headers (bc_init c)) ''x-tenant-id'' = None \<and> hget (fi_headers (bc_init c)) ''x-user-id'' = None"
  by (auto simp: session_call_def refresh_init_def)


section \<open>Examples\<close>

definition demo_sweb :: "(nat \<Rightarrow> reply) \<Rightarrow> (jstr \<times> jstr) list \<Rightarrow> sweb" where
  "demo_sweb answers cookies = \<lparr>wb_answers = answers, wb_calls = [], wb_cookies = cookies,
     wb_set = [], wb_ticks = 0, wb_flights = []\<rparr>"

definition plain_answer :: "int \<Rightarrow> body \<Rightarrow> reply" where
  "plain_answer status body = Answer \<lparr>rs_status = status, rs_headers = [], rs_body = body\<rparr>"

definition demo_token_body :: json where
  "demo_token_body = JObj [(js ''access_token'', JStr (js ''a2'')), (js ''refresh_token'', JStr (js ''r2'')),
     (js ''expires_in'', JNum (Fin 900)), (js ''refresh_expires_in'', JNum (Fin 86400)),
     (js ''remember_me'', JBool True)]"

text \<open>The API answers 401, then tokens, then nothing: the new tokens are stored.\<close>

definition demo_answers :: "nat \<Rightarrow> reply" where
  "demo_answers n = (if n = 0 then plain_answer 401 NoBody
     else if n = 1 then plain_answer 200 (JsonBody demo_token_body) else Broken)"

definition demo_init :: fetch_init where
  "demo_init = \<lparr>fi_method = js ''GET'', fi_headers = [], fi_body = NoBody\<rparr>"

definition demo_new_tokens :: auth_tokens where
  "demo_new_tokens = \<lparr>at_accessToken = js ''a2'', at_refreshToken = js ''r2'', at_expiresIn = Fin 900,
     at_refreshExpiresIn = Fin 86400, at_rememberMe = True\<rparr>"

lemma demo_parse: "parseAuthTokens (Some demo_token_body) = Some demo_new_tokens"
  by (simp add: parseAuthTokens_def demo_token_body_def read_string_def read_positive_def nonempty_string_def
      positive_number_def bool_value_def demo_new_tokens_def)


end
