(* ===== verification/Refresh_Flights.thy ===== *)
theory Refresh_Flights
  imports Web_Session
begin

text \<open>
  The map \<open>refreshFlights\<close> of \<open>auth-session.ts\<close> under any interleaving: requests that call
  \<open>refreshSession\<close>, outcomes that arrive, and the timers that clean up two seconds later. A flight is known
  by its number; \<open>rf_flights\<close> keeps the token and the outcome of every refresh that was ever sent.
\<close>

section \<open>The shared map\<close>

record refresh_map =
  rf_map :: "(jstr \<times> nat) list"
  rf_flights :: "(jstr \<times> (exn + refresh_outcome) option) list"
  rf_timers :: "nat list"

definition no_flights :: refresh_map where
  "no_flights = \<lparr>rf_map = [], rf_flights = [], rf_timers = []\<rparr>"

datatype refresh_event = Call jstr | Settle nat "exn + refresh_outcome" | Expire nat

text \<open>
  A call joins the flight in the map or sends a refresh of its own; an outcome settles a flight once and
  starts its timer; a timer removes its own flight from the map. \<open>None\<close>: the event cannot happen.
\<close>

fun refresh_step :: "refresh_map \<Rightarrow> refresh_event \<Rightarrow> refresh_map option" where
  "refresh_step s (Call token) =
     (case map_of (rf_map s) token of
        Some i \<Rightarrow> Some s
      | None \<Rightarrow> Some (s\<lparr>rf_map := AList.update token (length (rf_flights s)) (rf_map s),
                  rf_flights := rf_flights s @ [(token, None)]\<rparr>))"
| "refresh_step s (Settle i outcome) =
     (if i < length (rf_flights s) \<and> snd (rf_flights s ! i) = None
      then Some (s\<lparr>rf_flights := (rf_flights s)[i := (fst (rf_flights s ! i), Some outcome)],
                 rf_timers := i # rf_timers s\<rparr>)
      else None)"
| "refresh_step s (Expire i) =
     (if i \<in> set (rf_timers s)
      then Some (s\<lparr>rf_timers := remove1 i (rf_timers s),
             rf_map := (if map_of (rf_map s) (fst (rf_flights s ! i)) = Some i
                        then AList.delete (fst (rf_flights s ! i)) (rf_map s) else rf_map s)\<rparr>)
      else None)"

inductive refresh_reach :: "refresh_map \<Rightarrow> bool" where
  start: "refresh_reach no_flights"
| step: "refresh_reach s \<Longrightarrow> refresh_step s e = Some s' \<Longrightarrow> refresh_reach s'"

text \<open>A flight is live while its outcome is outstanding or its grace period runs.\<close>

definition live :: "refresh_map \<Rightarrow> nat \<Rightarrow> bool" where
  "live s i \<longleftrightarrow> i < length (rf_flights s) \<and> (snd (rf_flights s ! i) = None \<or> i \<in> set (rf_timers s))"

definition token_of :: "refresh_map \<Rightarrow> nat \<Rightarrow> jstr" where
  "token_of s i = fst (rf_flights s ! i)"

section \<open>The abstract contract\<close>

text \<open>What callers rely on: a set of tokens that are being refreshed, each by one request.\<close>

datatype token_event = Join jstr | Begin jstr | Finish jstr | Nothing

fun token_step :: "jstr set \<Rightarrow> token_event \<Rightarrow> jstr set option" where
  "token_step B (Join t) = (if t \<in> B then Some B else None)"
| "token_step B (Begin t) = (if t \<in> B then None else Some (insert t B))"
| "token_step B (Finish t) = (if t \<in> B then Some (B - {t}) else None)"
| "token_step B Nothing = Some B"

definition busy :: "refresh_map \<Rightarrow> jstr set" where
  "busy s = token_of s ` {i. live s i}"

definition token_event :: "refresh_map \<Rightarrow> refresh_event \<Rightarrow> token_event" where
  "token_event s e = (case e of
       Call t \<Rightarrow> if map_of (rf_map s) t = None then Begin t else Join t
     | Settle i r \<Rightarrow> Nothing
     | Expire i \<Rightarrow> Finish (token_of s i))"

section \<open>The invariant\<close>

text \<open>The map holds exactly the live flights, each under its own token; a timer runs for a settled flight.\<close>

definition flights_ok :: "refresh_map \<Rightarrow> bool" where
  "flights_ok s \<longleftrightarrow> (\<forall>t i. map_of (rf_map s) t = Some i \<longleftrightarrow> live s i \<and> token_of s i = t)
     \<and> distinct (rf_timers s)
     \<and> (\<forall>i\<in>set (rf_timers s). i < length (rf_flights s) \<and> snd (rf_flights s ! i) \<noteq> None)"

lemma flights_ok_map:
  "flights_ok s \<Longrightarrow> map_of (rf_map s) t = Some i \<longleftrightarrow> live s i \<and> token_of s i = t"
  by (simp add: flights_ok_def)

lemma flights_ok_start: "flights_ok no_flights"
  by (simp add: flights_ok_def no_flights_def live_def)

lemma flights_ok_call:
  assumes "flights_ok s" and "refresh_step s (Call t) = Some s'"
  shows "flights_ok s'"
proof (cases "map_of (rf_map s) t")
  case None
  let ?n = "length (rf_flights s)"
  from assms(2) None have s': "s' = s\<lparr>rf_map := AList.update t ?n (rf_map s),
      rf_flights := rf_flights s @ [(t, None)]\<rparr>" by simp
  have timers: "?n \<notin> set (rf_timers s)" using assms(1) by (auto simp: flights_ok_def)
  have live: "live s' i \<longleftrightarrow> live s i \<or> i = ?n" for i
    using timers by (auto simp: s' live_def nth_append)
  have tok: "token_of s' i = (if i = ?n then t else token_of s i)" if "live s' i" for i
    using that by (auto simp: s' live_def token_of_def nth_append)
  have "\<not> live s i" if "token_of s i = t" for i
    using flights_ok_map [OF assms(1), of t i] None that by simp
  moreover have "\<not> live s ?n" by (simp add: live_def)
  ultimately have "map_of (rf_map s') u = Some i \<longleftrightarrow> live s' i \<and> token_of s' i = u" for u i
    using flights_ok_map [OF assms(1), of u i] tok [of i] live [of i]
    by (cases "i = ?n"; cases "u = t") (auto simp: s' update_conv')
  moreover have "\<forall>i\<in>set (rf_timers s'). i < length (rf_flights s') \<and> snd (rf_flights s' ! i) \<noteq> None"
    using assms(1) by (auto simp: flights_ok_def s' nth_append)
  ultimately show ?thesis
    using assms(1) by (simp add: flights_ok_def s')
next
  case (Some i)
  with assms show ?thesis by simp
qed

lemma flights_ok_settle:
  assumes "flights_ok s" and "refresh_step s (Settle n r) = Some s'"
  shows "flights_ok s'"
proof -
  from assms(2) have n: "n < length (rf_flights s)" "snd (rf_flights s ! n) = None"
    and s': "s' = s\<lparr>rf_flights := (rf_flights s)[n := (fst (rf_flights s ! n), Some r)],
        rf_timers := n # rf_timers s\<rparr>"
    by (auto split: if_splits)
  have "live s' i = live s i" "token_of s' i = token_of s i" for i
    using n by (auto simp: s' live_def token_of_def nth_list_update)
  moreover have "n \<notin> set (rf_timers s)" using assms(1) n(2) by (auto simp: flights_ok_def)
  ultimately show ?thesis
    using assms(1) n by (auto simp: flights_ok_def s' nth_list_update)
qed

lemma expire_live:
  assumes "flights_ok s" and "refresh_step s (Expire n) = Some s'"
  shows "live s n" and "map_of (rf_map s) (token_of s n) = Some n"
    and "live s' i \<longleftrightarrow> live s i \<and> i \<noteq> n" and "token_of s' i = token_of s i"
    and "rf_map s' = AList.delete (token_of s n) (rf_map s)"
proof -
  from assms(2) have n: "n \<in> set (rf_timers s)" by (auto split: if_splits)
  then show l: "live s n" using assms(1) by (auto simp: flights_ok_def live_def)
  then show m: "map_of (rf_map s) (token_of s n) = Some n" using assms(1) by (auto simp: flights_ok_def)
  have s': "s' = s\<lparr>rf_timers := remove1 n (rf_timers s), rf_map := AList.delete (token_of s n) (rf_map s)\<rparr>"
    using assms(2) m by (auto simp: token_of_def split: if_splits)
  have "distinct (rf_timers s)" "snd (rf_flights s ! n) \<noteq> None"
    using assms(1) n by (auto simp: flights_ok_def)
  then show "live s' i \<longleftrightarrow> live s i \<and> i \<noteq> n" by (auto simp: s' live_def)
  show "token_of s' i = token_of s i" "rf_map s' = AList.delete (token_of s n) (rf_map s)"
    by (simp_all add: s' token_of_def)
qed

lemma flights_ok_expire:
  assumes "flights_ok s" and "refresh_step s (Expire n) = Some s'"
  shows "flights_ok s'"
proof -
  note e = expire_live [OF assms]
  have "map_of (rf_map s') u = Some i \<longleftrightarrow> live s' i \<and> token_of s' i = u" for u i
    using flights_ok_map [OF assms(1), of u i] flights_ok_map [OF assms(1), of "token_of s n" i] e
    by (auto simp: AList.delete_conv')
  moreover have "distinct (rf_timers s') \<and>
      (\<forall>i\<in>set (rf_timers s'). i < length (rf_flights s') \<and> snd (rf_flights s' ! i) \<noteq> None)"
    using assms by (auto simp: flights_ok_def split: if_splits)
  ultimately show ?thesis by (simp add: flights_ok_def)
qed

lemma flights_ok_step: "flights_ok s \<Longrightarrow> refresh_step s e = Some s' \<Longrightarrow> flights_ok s'"
  by (cases e) (blast intro: flights_ok_call flights_ok_settle flights_ok_expire)+

lemma reach_ok: "refresh_reach s \<Longrightarrow> flights_ok s"
  by (induction rule: refresh_reach.induct) (auto intro: flights_ok_start flights_ok_step)

lemma busy_map: "flights_ok s \<Longrightarrow> t \<in> busy s \<longleftrightarrow> map_of (rf_map s) t \<noteq> None"
  by (auto simp: busy_def flights_ok_def)

text \<open>C6: One refresh at a time. However calls, outcomes and timers interleave, every step of the shared map
  is a step of the contract: a call joins the running refresh of its token or begins one when there is
  none, and only a timer finishes one. So a request is sent exactly when a refresh begins, never two
  flights of one token are live, and the check in the clean-up always finds its own flight.\<close>

theorem single_refresh_flight:
  assumes "refresh_reach s" and "refresh_step s e = Some s'"
  shows "token_step (busy s) (token_event s e) = Some (busy s')
    \<and> (length (rf_flights s') \<noteq> length (rf_flights s) \<longleftrightarrow> (\<exists>t. token_event s e = Begin t))
    \<and> (\<forall>i j. live s i \<and> live s j \<and> token_of s i = token_of s j \<longrightarrow> i = j)
    \<and> (\<forall>i. e = Expire i \<longrightarrow> map_of (rf_map s) (token_of s i) = Some i)"
proof (intro conjI allI impI)
  have ok: "flights_ok s" "flights_ok s'"
    using reach_ok [OF assms(1)] flights_ok_step [OF _ assms(2)] by auto
  have busy: "t \<in> busy s \<longleftrightarrow> map_of (rf_map s) t \<noteq> None" "t \<in> busy s' \<longleftrightarrow> map_of (rf_map s') t \<noteq> None" for t
    using busy_map ok by auto
  show "token_step (busy s) (token_event s e) = Some (busy s')"
  proof (cases e)
    case (Call t)
    show ?thesis
    proof (cases "map_of (rf_map s) t")
      case None
      then have "busy s' = insert t (busy s)"
        using assms(2) Call busy by (auto simp: update_conv' split: if_splits)
      then show ?thesis using Call None busy by (simp add: token_event_def)
    next
      case (Some i)
      then show ?thesis using assms(2) Call busy by (simp add: token_event_def)
    qed
  next
    case (Settle i r)
    then have "rf_map s' = rf_map s" using assms(2) by (auto split: if_splits)
    then have "busy s' = busy s" using busy by auto
    then show ?thesis using Settle by (simp add: token_event_def)
  next
    case (Expire i)
    note x = expire_live [OF ok(1) assms(2) [unfolded Expire]]
    have "busy s' = busy s - {token_of s i}" using busy x(5) by (auto simp: AList.delete_conv' split: if_splits)
    moreover have "token_of s i \<in> busy s" using busy x(2) by simp
    ultimately show ?thesis using Expire by (simp add: token_event_def)
  qed
  show "length (rf_flights s') \<noteq> length (rf_flights s) \<longleftrightarrow> (\<exists>t. token_event s e = Begin t)"
    using assms(2) by (cases e) (auto simp: token_event_def split: option.splits if_splits)
  fix i j
  show "i = j" if "live s i \<and> live s j \<and> token_of s i = token_of s j"
    using that flights_ok_map [OF ok(1), of "token_of s i" i] flights_ok_map [OF ok(1), of "token_of s i" j]
    by simp
  show "map_of (rf_map s) (token_of s i) = Some i" if "e = Expire i"
    using expire_live(2) [OF ok(1)] assms(2) that by simp
qed

section \<open>Example\<close>

lemma single_refresh_flight_witness:
  "\<exists>s s'. refresh_reach s \<and> refresh_step s (Call (js ''r'')) = Some s'
     \<and> token_step (busy s) (token_event s (Call (js ''r''))) = Some (busy s')"
proof -
  let ?s = "\<lparr>rf_map = [(js ''r'', 0)], rf_flights = [(js ''r'', None)], rf_timers = []\<rparr>"
  have "refresh_step no_flights (Call (js ''r'')) = Some ?s" by (simp add: no_flights_def)
  then have r: "refresh_reach ?s" by (rule refresh_reach.step [OF refresh_reach.start])
  have "refresh_step ?s (Call (js ''r'')) = Some ?s" by simp
  with single_refresh_flight [OF r this] r show ?thesis by blast
qed

end
