(* ===== verification/Live_Socket.thy ===== *)
theory Live_Socket
  imports Web_Host
begin

text \<open>
  The live connection of a page: the hook \<open>apps/web/src/hooks/use-websocket.ts\<close> as a state machine, and
  the label of \<open>apps/web/src/stores/connection-store.ts\<close>. The events are what React, the browser, the
  network and the page do to the hook, in any order. Callbacks of the page are recorded; when one calls
  \<open>close\<close> or \<open>reconnect\<close>, that is an event after the handler. Delays are exact rationals.
\<close>

section \<open>State\<close>

datatype ws_status = Idle | Connecting | OpenLine | Reconnecting | Offline | ClosedLine | ErrorLine

datatype ws_ready = CONNECTING | OPEN | CLOSING | CLOSED

datatype ws_protocols = NoProtocols | OneProtocol jstr | Protocols "jstr list"

record ws_options =
  wo_url :: "jstr option"
  wo_enabled :: bool
  wo_protocols :: ws_protocols
  wo_initialRetryDelayMs :: rat
  wo_maxRetryDelayMs :: rat
  wo_maxRetries :: jsnum
  wo_refetchQueryKeys :: "json list list option"
  wo_invalidateQueryKeys :: "(json \<Rightarrow> json list list option) option"
  wo_parseMessage :: "(jstr \<Rightarrow> json option) option"

definition default_options :: "jstr option \<Rightarrow> ws_options" where
  "default_options url = \<lparr>wo_url = url, wo_enabled = True, wo_protocols = NoProtocols,
     wo_initialRetryDelayMs = 750, wo_maxRetryDelayMs = 30000, wo_maxRetries = PInf,
     wo_refetchQueryKeys = None, wo_invalidateQueryKeys = None, wo_parseMessage = None\<rparr>"

text \<open>
  What the browser gives: \<open>ws_url s base\<close> is \<open>new URL(s, base)\<close> and \<open>ws_href\<close> its \<open>toString\<close>;
  \<open>ws_accepts\<close> tells whether \<open>new WebSocket\<close> accepts its arguments; \<open>ws_json\<close> is \<open>JSON.parse\<close>; the
  last two are \<open>window.location\<close>. \<open>None\<close> means that the call throws.
\<close>

record ws_env =
  ws_url :: "jstr \<Rightarrow> jstr option \<Rightarrow> url option"
  ws_href :: "url \<Rightarrow> jstr"
  ws_accepts :: "jstr \<Rightarrow> jstr list option \<Rightarrow> bool"
  ws_json :: "jstr \<Rightarrow> json option"
  ws_origin :: jstr
  ws_page_protocol :: jstr

text \<open>A socket belongs to the run of the effect that made it; an effect is its closure.\<close>

record socket =
  so_ready :: ws_ready
  so_effect :: nat
  so_url :: jstr
  so_protocols :: "jstr list option"

record effect_run =
  ef_options :: ws_options
  ef_disposed :: bool
  ef_generation :: nat

datatype ws_call = OnOpen nat | OnMessage json | OnError nat | OnClose nat | Refetch "json list option"
  | Invalidate "json list" | Sent nat jstr

text \<open>The dependencies of the effect, without the reconnect key.\<close>

type_synonym ws_deps = "bool \<times> rat \<times> jsnum \<times> rat \<times> jstr \<times> jstr option"

record live_line =
  ll_mounted :: bool
  ll_onLine :: bool
  ll_sockets :: "socket list"
  ll_effects :: "effect_run list"
  ll_active :: "nat option"
  ll_rendered :: "(ws_deps \<times> nat) option"
  ll_socketRef :: "nat option"
  ll_timerRef :: "nat option"
  ll_timers :: "(nat \<times> nat \<times> rat) list"
  ll_nextTimer :: nat
  ll_retryCountRef :: nat
  ll_generation :: nat
  ll_hasOpened :: bool
  ll_manualClose :: bool
  ll_callbacks :: ws_options
  ll_status :: ws_status
  ll_lastMessage :: "json option"
  ll_retryCount :: nat
  ll_reconnectKey :: nat
  ll_log :: "ws_call list"

text \<open>The state of the first render.\<close>

definition fresh_line :: "bool \<Rightarrow> ws_options \<Rightarrow> live_line" where
  "fresh_line onLine options = \<lparr>ll_mounted = True, ll_onLine = onLine, ll_sockets = [], ll_effects = [],
     ll_active = None, ll_rendered = None, ll_socketRef = None, ll_timerRef = None, ll_timers = [],
     ll_nextTimer = 1, ll_retryCountRef = 0, ll_generation = 0, ll_hasOpened = False, ll_manualClose = False,
     ll_callbacks = options, ll_status = Idle, ll_lastMessage = None, ll_retryCount = 0,
     ll_reconnectKey = 0, ll_log = []\<rparr>"

definition note_call :: "ws_call \<Rightarrow> live_line \<Rightarrow> live_line" where
  "note_call c s = s\<lparr>ll_log := ll_log s @ [c]\<rparr>"

section \<open>Timers and sockets\<close>

definition clearRetryTimer :: "live_line \<Rightarrow> live_line" where
  "clearRetryTimer s = (case ll_timerRef s of
       None \<Rightarrow> s
     | Some h \<Rightarrow> s\<lparr>ll_timers := filter (\<lambda>(h', t). h' \<noteq> h) (ll_timers s), ll_timerRef := None\<rparr>)"

text \<open>\<open>socket.close(1000, reason)\<close>\<close>

definition close_socket :: "nat \<Rightarrow> live_line \<Rightarrow> live_line" where
  "close_socket i s = s\<lparr>ll_sockets := (ll_sockets s)[i := (ll_sockets s ! i)\<lparr>so_ready :=
     (case so_ready (ll_sockets s ! i) of CLOSED \<Rightarrow> CLOSED | _ \<Rightarrow> CLOSING)\<rparr>]\<rparr>"

definition close_current :: "live_line \<Rightarrow> live_line" where
  "close_current s = (case ll_socketRef s of None \<Rightarrow> s | Some i \<Rightarrow> close_socket i s)"

definition drop_current :: "live_line \<Rightarrow> live_line" where
  "drop_current s = (close_current s)\<lparr>ll_socketRef := None\<rparr>"

definition retryDelay :: "ws_options \<Rightarrow> nat \<Rightarrow> rat \<Rightarrow> rat" where
  "retryDelay options attempt random =
     min (wo_maxRetryDelayMs options) (wo_initialRetryDelayMs options * 2 ^ min (attempt - 1) 10)
     * (3 / 4 + random * (1 / 2))"

definition out_of_retries :: "ws_options \<Rightarrow> nat \<Rightarrow> bool" where
  "out_of_retries options attempt = num_less (wo_maxRetries options) (Fin (of_nat attempt))"

definition scheduleReconnect :: "nat \<Rightarrow> rat \<Rightarrow> live_line \<Rightarrow> live_line" where
  "scheduleReconnect e random s =
     (let options = ef_options (ll_effects s ! e); attempt = ll_retryCountRef s + 1 in
      if ef_disposed (ll_effects s ! e) \<or> ll_manualClose s then s
      else if \<not> ll_onLine s then s\<lparr>ll_status := Offline\<rparr>
      else if out_of_retries options attempt then s\<lparr>ll_status := ClosedLine\<rparr>
      else let s1 = clearRetryTimer (s\<lparr>ll_retryCountRef := attempt, ll_retryCount := attempt,
                        ll_status := Reconnecting\<rparr>)
        in s1\<lparr>ll_timerRef := Some (ll_nextTimer s1), ll_nextTimer := ll_nextTimer s1 + 1,
             ll_timers := ll_timers s1 @ [(ll_nextTimer s1, e, retryDelay options attempt random)]\<rparr>)"

section \<open>Connecting\<close>

definition protocolsKey :: "ws_options \<Rightarrow> jstr" where
  "protocolsKey options = (case wo_protocols options of
       NoProtocols \<Rightarrow> [] | OneProtocol p \<Rightarrow> p | Protocols ps \<Rightarrow> join_with [0] ps)"

definition resolveWebSocketUrl :: "ws_env \<Rightarrow> jstr \<Rightarrow> jstr option" where
  "resolveWebSocketUrl E url =
     (if starts_with url (js ''ws://'') \<or> starts_with url (js ''wss://'') then Some url
      else if starts_with url (js ''http://'') \<or> starts_with url (js ''https://'')
      then map_option (\<lambda>parsed. ws_href E (parsed\<lparr>u_protocol :=
          (if u_protocol parsed = js ''https:'' then js ''wss:'' else js ''ws:'')\<rparr>)) (ws_url E url None)
      else map_option (\<lambda>parsed. ws_href E (parsed\<lparr>u_protocol :=
          (if ws_page_protocol E = js ''https:'' then js ''wss:'' else js ''ws:'')\<rparr>))
        (ws_url E (if starts_with url (js ''/'') then url else 47 # url) (Some (ws_origin E))))"

text \<open>The body of the try block: a new socket, or \<open>None\<close> when resolving or the constructor throws.\<close>

definition new_socket :: "ws_env \<Rightarrow> ws_options \<Rightarrow> nat \<Rightarrow> socket option" where
  "new_socket E options e =
     (let protocols = (if protocolsKey options = [] then None
            else Some (split_on 0 (protocolsKey options)))
      in case resolveWebSocketUrl E (case wo_url options of Some u \<Rightarrow> u | None \<Rightarrow> []) of
           None \<Rightarrow> None
         | Some resolved \<Rightarrow>
             if ws_accepts E resolved protocols
             then Some \<lparr>so_ready = CONNECTING, so_effect = e, so_url = resolved, so_protocols = protocols\<rparr>
             else None)"

definition connect :: "ws_env \<Rightarrow> nat \<Rightarrow> rat \<Rightarrow> live_line \<Rightarrow> live_line" where
  "connect E e random s =
     (if ef_disposed (ll_effects s ! e) \<or> ll_manualClose s \<or> \<not> ll_onLine s
      then if \<not> ll_onLine s then s\<lparr>ll_status := Offline\<rparr> else s
      else
        let s1 = clearRetryTimer s; g = ll_generation s1 + 1;
            s2 = s1\<lparr>ll_generation := g,
                   ll_effects := (ll_effects s1)[e := (ll_effects s1 ! e)\<lparr>ef_generation := g\<rparr>],
                   ll_status := (if 0 < ll_retryCountRef s1 then Reconnecting else Connecting)\<rparr>
        in case new_socket E (ef_options (ll_effects s ! e)) e of
             None \<Rightarrow> scheduleReconnect e random (s2\<lparr>ll_status := ErrorLine\<rparr>)
           | Some socket \<Rightarrow> s2\<lparr>ll_sockets := ll_sockets s2 @ [socket],
                              ll_socketRef := Some (length (ll_sockets s2))\<rparr>)"

section \<open>What a socket tells\<close>

text \<open>\<open>disposed || connectionGeneration !== generationRef.current\<close>, for the effect of a socket.\<close>

definition stale :: "live_line \<Rightarrow> nat \<Rightarrow> bool" where
  "stale s i = (let f = ll_effects s ! so_effect (ll_sockets s ! i) in
     ef_disposed f \<or> ef_generation f \<noteq> ll_generation s)"

definition set_ready :: "nat \<Rightarrow> ws_ready \<Rightarrow> live_line \<Rightarrow> live_line" where
  "set_ready i r s = s\<lparr>ll_sockets := (ll_sockets s)[i := (ll_sockets s ! i)\<lparr>so_ready := r\<rparr>]\<rparr>"

definition refetchAuthoritativeData :: "live_line \<Rightarrow> live_line" where
  "refetchAuthoritativeData s = (case wo_refetchQueryKeys (ll_callbacks s) of
       Some (k # ks) \<Rightarrow> foldl (\<lambda>s' key. note_call (Refetch (Some key)) s') s (k # ks)
     | _ \<Rightarrow> note_call (Refetch None) s)"

definition onopen :: "nat \<Rightarrow> live_line \<Rightarrow> live_line" where
  "onopen i s =
     (if stale s i then close_socket i s
      else
        let isReconnect = ll_hasOpened s;
            s1 = note_call (OnOpen i) (s\<lparr>ll_hasOpened := True, ll_retryCountRef := 0, ll_retryCount := 0,
                   ll_status := OpenLine\<rparr>)
        in if isReconnect then refetchAuthoritativeData s1 else s1)"

definition onmessage :: "ws_env \<Rightarrow> nat \<Rightarrow> jstr \<Rightarrow> live_line \<Rightarrow> live_line" where
  "onmessage E i data s =
     (if stale s i then s
      else case (case wo_parseMessage (ll_callbacks s) of Some parse \<Rightarrow> parse data | None \<Rightarrow> ws_json E data) of
        None \<Rightarrow> s
      | Some message \<Rightarrow>
          let s1 = note_call (OnMessage message) (s\<lparr>ll_lastMessage := Some message\<rparr>)
          in case wo_invalidateQueryKeys (ll_callbacks s) of
               None \<Rightarrow> s1
             | Some keys_of \<Rightarrow> (case keys_of message of
                 None \<Rightarrow> s1
               | Some keys \<Rightarrow> foldl (\<lambda>s' key. note_call (Invalidate key) s') s1 keys))"

definition onerror :: "nat \<Rightarrow> live_line \<Rightarrow> live_line" where
  "onerror i s = (if stale s i then s else note_call (OnError i) (s\<lparr>ll_status := ErrorLine\<rparr>))"

definition onclose :: "nat \<Rightarrow> rat \<Rightarrow> live_line \<Rightarrow> live_line" where
  "onclose i random s =
     (let s1 = (if ll_socketRef s = Some i then s\<lparr>ll_socketRef := None\<rparr> else s) in
      if stale s1 i \<or> ll_manualClose s1 then s1
      else scheduleReconnect (so_effect (ll_sockets s1 ! i)) random (note_call (OnClose i) s1))"

section \<open>What the page and React do\<close>

definition close_line :: "live_line \<Rightarrow> live_line" where
  "close_line s = (drop_current (clearRetryTimer (s\<lparr>ll_manualClose := True,
     ll_generation := ll_generation s + 1\<rparr>)))\<lparr>ll_status := ClosedLine\<rparr>"

definition reconnect :: "live_line \<Rightarrow> live_line" where
  "reconnect s = (drop_current (clearRetryTimer (s\<lparr>ll_manualClose := False,
     ll_generation := ll_generation s + 1, ll_retryCountRef := 0, ll_retryCount := 0\<rparr>)))
     \<lparr>ll_status := Reconnecting, ll_reconnectKey := ll_reconnectKey s + 1\<rparr>"

definition send :: "jstr \<Rightarrow> live_line \<Rightarrow> bool \<times> live_line" where
  "send data s = (case ll_socketRef s of
       None \<Rightarrow> (False, s)
     | Some i \<Rightarrow> if so_ready (ll_sockets s ! i) \<noteq> OPEN then (False, s) else (True, note_call (Sent i data) s))"

definition handleOnline :: "ws_env \<Rightarrow> nat \<Rightarrow> rat \<Rightarrow> live_line \<Rightarrow> live_line" where
  "handleOnline E e random s =
     (if ll_socketRef s = None \<and> \<not> ll_manualClose s
      then connect E e random (s\<lparr>ll_retryCountRef := 0, ll_retryCount := 0\<rparr>) else s)"

definition handleOffline :: "live_line \<Rightarrow> live_line" where
  "handleOffline s = close_current ((clearRetryTimer s)\<lparr>ll_status := Offline\<rparr>)"

definition cleanup :: "nat \<Rightarrow> live_line \<Rightarrow> live_line" where
  "cleanup e s = drop_current (clearRetryTimer (s\<lparr>
     ll_effects := (ll_effects s)[e := (ll_effects s ! e)\<lparr>ef_disposed := True\<rparr>],
     ll_manualClose := True, ll_generation := ll_generation s + 1, ll_active := None\<rparr>))"

definition start_effect :: "ws_env \<Rightarrow> ws_options \<Rightarrow> rat \<Rightarrow> live_line \<Rightarrow> live_line" where
  "start_effect E options random s =
     (if \<not> wo_enabled options \<or> \<not> truthy (wo_url options)
      then clearRetryTimer (drop_current (s\<lparr>ll_manualClose := True\<rparr>))
      else connect E (length (ll_effects s)) random (s\<lparr>ll_manualClose := False,
        ll_effects := ll_effects s @ [\<lparr>ef_options = options, ef_disposed = False,
          ef_generation = ll_generation s\<rparr>],
        ll_active := Some (length (ll_effects s))\<rparr>))"

definition deps_of :: "ws_options \<Rightarrow> ws_deps" where
  "deps_of options = (wo_enabled options, wo_initialRetryDelayMs options, wo_maxRetries options,
     wo_maxRetryDelayMs options, protocolsKey options, wo_url options)"

definition run_cleanup :: "live_line \<Rightarrow> live_line" where
  "run_cleanup s = (case ll_active s of None \<Rightarrow> s | Some e \<Rightarrow> cleanup e s)"

text \<open>The effects after a render: the callbacks, and the connection when a dependency changed.\<close>

definition after_render :: "ws_env \<Rightarrow> ws_options \<Rightarrow> rat \<Rightarrow> live_line \<Rightarrow> live_line" where
  "after_render E options random s =
     (let deps = (deps_of options, ll_reconnectKey s); s1 = s\<lparr>ll_callbacks := options\<rparr> in
      if ll_rendered s = Some deps then s1
      else start_effect E options random ((run_cleanup s1)\<lparr>ll_rendered := Some deps\<rparr>))"

definition result_status :: "ws_options \<Rightarrow> live_line \<Rightarrow> ws_status" where
  "result_status options s = (if wo_enabled options \<and> truthy (wo_url options) then ll_status s else Idle)"

definition connectionLabel :: "bool \<Rightarrow> ws_status \<Rightarrow> jstr" where
  "connectionLabel online status =
     (if \<not> online \<or> status = Offline then jt ''~Cevrimd~i~s~i''
      else if status = OpenLine then jt ''Canl~i ba~glant~i a~c~ik'' else jt ''Yeniden ba~glan~iyor'')"

section \<open>Events\<close>

datatype ws_event = Rendered ws_options rat | Unmounted | CloseCalled | ReconnectCalled | SendCalled jstr
  | TimerFires nat rat | GoesOnline rat | GoesOffline
  | SocketOpens nat | SocketMessage nat jstr | SocketErrors nat | SocketCloses nat rat

definition random_ok :: "rat \<Rightarrow> bool" where
  "random_ok r \<longleftrightarrow> 0 \<le> r \<and> r < 1"

text \<open>When the browser can deliver an event.\<close>

fun ws_occurs :: "ws_event \<Rightarrow> live_line \<Rightarrow> bool" where
  "ws_occurs (Rendered options r) s = (ll_mounted s \<and> random_ok r)"
| "ws_occurs Unmounted s = ll_mounted s"
| "ws_occurs CloseCalled s = True"
| "ws_occurs ReconnectCalled s = True"
| "ws_occurs (SendCalled data) s = True"
| "ws_occurs (TimerFires h r) s = (h \<in> fst ` set (ll_timers s) \<and> random_ok r)"
| "ws_occurs (GoesOnline r) s = random_ok r"
| "ws_occurs GoesOffline s = True"
| "ws_occurs (SocketOpens i) s = (i < length (ll_sockets s) \<and> so_ready (ll_sockets s ! i) = CONNECTING)"
| "ws_occurs (SocketMessage i data) s = (i < length (ll_sockets s) \<and> so_ready (ll_sockets s ! i) = OPEN)"
| "ws_occurs (SocketErrors i) s = (i < length (ll_sockets s) \<and> so_ready (ll_sockets s ! i) \<noteq> CLOSED)"
| "ws_occurs (SocketCloses i r) s =
     (i < length (ll_sockets s) \<and> so_ready (ll_sockets s ! i) \<noteq> CLOSED \<and> random_ok r)"

definition timer_effect :: "nat \<Rightarrow> live_line \<Rightarrow> nat" where
  "timer_effect h s = (case map_of (ll_timers s) h of Some (e, d) \<Rightarrow> e | None \<Rightarrow> 0)"

fun ws_step :: "ws_env \<Rightarrow> ws_event \<Rightarrow> live_line \<Rightarrow> live_line" where
  "ws_step E (Rendered options r) s = after_render E options r s"
| "ws_step E Unmounted s = (run_cleanup s)\<lparr>ll_mounted := False\<rparr>"
| "ws_step E CloseCalled s = close_line s"
| "ws_step E ReconnectCalled s = reconnect s"
| "ws_step E (SendCalled data) s = snd (send data s)"
| "ws_step E (TimerFires h r) s =
     connect E (timer_effect h s) r (s\<lparr>ll_timers := filter (\<lambda>(h', t). h' \<noteq> h) (ll_timers s)\<rparr>)"
| "ws_step E (GoesOnline r) s = (let s1 = s\<lparr>ll_onLine := True\<rparr> in
     case ll_active s of None \<Rightarrow> s1 | Some e \<Rightarrow> handleOnline E e r s1)"
| "ws_step E GoesOffline s = (let s1 = s\<lparr>ll_onLine := False\<rparr> in
     case ll_active s of None \<Rightarrow> s1 | Some e \<Rightarrow> handleOffline s1)"
| "ws_step E (SocketOpens i) s = onopen i (set_ready i OPEN s)"
| "ws_step E (SocketMessage i data) s = onmessage E i data s"
| "ws_step E (SocketErrors i) s = onerror i s"
| "ws_step E (SocketCloses i r) s = onclose i r (set_ready i CLOSED s)"

text \<open>
  \<open>reconnect\<close> only asks React for another render; until its effects have run, the old ones are in place.
  The runs below are those in which the browser does not come back online in that window.
\<close>

definition awaits_render :: "live_line \<Rightarrow> bool" where
  "awaits_render s \<longleftrightarrow> ll_rendered s \<noteq> None \<and> snd (the (ll_rendered s)) \<noteq> ll_reconnectKey s"

fun ws_settled :: "ws_event \<Rightarrow> live_line \<Rightarrow> bool" where
  "ws_settled (GoesOnline r) s = (ll_active s = None \<or> \<not> awaits_render s)"
| "ws_settled e s = True"

inductive ws_run :: "ws_env \<Rightarrow> live_line \<Rightarrow> bool" for E :: ws_env where
  first: "ws_run E (fresh_line onLine options)"
| event: "ws_run E s \<Longrightarrow> ws_occurs e s \<Longrightarrow> ws_settled e s \<Longrightarrow> ws_run E (ws_step E e s)"

section \<open>The invariant\<close>

definition live_socket :: "live_line \<Rightarrow> nat \<Rightarrow> bool" where
  "live_socket s i \<longleftrightarrow> i < length (ll_sockets s) \<and> so_ready (ll_sockets s ! i) \<in> {CONNECTING, OPEN}"

definition wanted :: "live_line \<Rightarrow> bool" where
  "wanted s \<longleftrightarrow> \<not> ll_manualClose s \<and> \<not> awaits_render s"

text \<open>The delay of a pending timer is within the bounds of the options.\<close>

definition delay_ok :: "ws_options \<Rightarrow> rat \<Rightarrow> bool" where
  "delay_ok options d \<longleftrightarrow> (\<exists>n\<le>10. \<exists>b. b = min (wo_maxRetryDelayMs options) (wo_initialRetryDelayMs options * 2 ^ n)
     \<and> (0 \<le> b \<longrightarrow> 3 / 4 * b \<le> d \<and> d \<le> 5 / 4 * b))"

definition sockets_ok :: "live_line \<Rightarrow> bool" where
  "sockets_ok s \<longleftrightarrow> (\<forall>i<length (ll_sockets s).
     so_effect (ll_sockets s ! i) < length (ll_effects s)
     \<and> (ll_socketRef s \<noteq> Some i \<longrightarrow> so_ready (ll_sockets s ! i) \<in> {CLOSING, CLOSED}
        \<and> (so_ready (ll_sockets s ! i) = CLOSED \<or> ll_active s \<noteq> Some (so_effect (ll_sockets s ! i))
           \<or> \<not> wanted s)))"

definition effects_ok :: "live_line \<Rightarrow> bool" where
  "effects_ok s \<longleftrightarrow> (\<forall>e<length (ll_effects s). \<not> ef_disposed (ll_effects s ! e) \<longleftrightarrow> ll_active s = Some e)
     \<and> (\<forall>e. ll_active s = Some e \<longrightarrow> e < length (ll_effects s) \<and> ll_rendered s \<noteq> None
          \<and> ef_generation (ll_effects s ! e) \<le> ll_generation s
          \<and> (\<not> wanted s \<longrightarrow> ef_generation (ll_effects s ! e) < ll_generation s))
     \<and> (\<forall>d k. ll_rendered s = Some (d, k) \<longrightarrow> k \<le> ll_reconnectKey s)"

definition current_ok :: "live_line \<Rightarrow> bool" where
  "current_ok s \<longleftrightarrow> (\<forall>i. ll_socketRef s = Some i \<longrightarrow> i < length (ll_sockets s)
     \<and> so_ready (ll_sockets s ! i) \<noteq> CLOSED \<and> wanted s \<and> ll_timers s = []
     \<and> ll_active s = Some (so_effect (ll_sockets s ! i))
     \<and> ef_generation (ll_effects s ! so_effect (ll_sockets s ! i)) = ll_generation s)"

definition timer_ok :: "live_line \<Rightarrow> bool" where
  "timer_ok s \<longleftrightarrow> ll_timers s = [] \<or> (\<exists>h e d. ll_timers s = [(h, e, d)] \<and> ll_timerRef s = Some h
     \<and> ll_active s = Some e \<and> wanted s \<and> ll_onLine s \<and> delay_ok (ef_options (ll_effects s ! e)) d)"

lemmas line_ok_defs = sockets_ok_def effects_ok_def current_ok_def timer_ok_def

definition line_ok :: "live_line \<Rightarrow> bool" where
  "line_ok s \<longleftrightarrow> sockets_ok s \<and> effects_ok s \<and> current_ok s \<and> timer_ok s"

text \<open>The connection never gives up silently, and it says that it is open only while it is.\<close>

definition trying :: "live_line \<Rightarrow> bool" where
  "trying s \<longleftrightarrow> (\<forall>e. ll_active s = Some e \<and> wanted s \<and> ll_onLine s \<longrightarrow>
     ll_socketRef s \<noteq> None \<or> ll_timers s \<noteq> []
     \<or> out_of_retries (ef_options (ll_effects s ! e)) (ll_retryCountRef s + 1))"

definition honest :: "live_line \<Rightarrow> bool" where
  "honest s \<longleftrightarrow> (ll_active s \<noteq> None \<and> ll_status s = OpenLine \<longrightarrow>
     (\<exists>i. ll_socketRef s = Some i \<and> so_ready (ll_sockets s ! i) = OPEN))"

definition line_good :: "live_line \<Rightarrow> bool" where
  "line_good s \<longleftrightarrow> line_ok s \<and> trying s \<and> honest s"

lemma retryDelay_ok: "random_ok r \<Longrightarrow> delay_ok options (retryDelay options n r)"
proof -
  assume r: "random_ok r"
  let ?b = "min (wo_maxRetryDelayMs options) (wo_initialRetryDelayMs options * 2 ^ min (n - 1) 10)"
  have "0 \<le> ?b \<Longrightarrow> 3 / 4 * ?b \<le> retryDelay options n r \<and> retryDelay options n r \<le> 5 / 4 * ?b"
  proof -
    assume b: "0 \<le> ?b"
    have "?b * (3 / 4) \<le> ?b * (3 / 4 + r * (1 / 2))" "?b * (3 / 4 + r * (1 / 2)) \<le> ?b * (5 / 4)"
      using r b by (intro mult_left_mono; simp add: random_ok_def)+
    then show ?thesis unfolding retryDelay_def by (simp only: mult.commute)
  qed
  then show ?thesis unfolding delay_ok_def by (intro exI [of _ "min (n - 1) 10"]) simp
qed

definition one_timer :: "live_line \<Rightarrow> bool" where
  "one_timer s \<longleftrightarrow> ll_timers s = [] \<or> (\<exists>h t. ll_timers s = [(h, t)] \<and> ll_timerRef s = Some h)"

lemma timer_ok_one: "timer_ok s \<Longrightarrow> one_timer s"
  by (auto simp: timer_ok_def one_timer_def)

lemma clearRetryTimer_timers: "one_timer s \<Longrightarrow> ll_timers (clearRetryTimer s) = []"
  by (auto simp: clearRetryTimer_def one_timer_def split: option.splits)

lemma clearRetryTimer_simps [simp]:
  "ll_mounted (clearRetryTimer s) = ll_mounted s" "ll_onLine (clearRetryTimer s) = ll_onLine s"
  "ll_sockets (clearRetryTimer s) = ll_sockets s" "ll_effects (clearRetryTimer s) = ll_effects s"
  "ll_active (clearRetryTimer s) = ll_active s" "ll_rendered (clearRetryTimer s) = ll_rendered s"
  "ll_socketRef (clearRetryTimer s) = ll_socketRef s" "ll_nextTimer (clearRetryTimer s) = ll_nextTimer s"
  "ll_timerRef (clearRetryTimer s) = None" "ll_callbacks (clearRetryTimer s) = ll_callbacks s"
  "ll_retryCountRef (clearRetryTimer s) = ll_retryCountRef s" "ll_generation (clearRetryTimer s) = ll_generation s"
  "ll_manualClose (clearRetryTimer s) = ll_manualClose s" "ll_status (clearRetryTimer s) = ll_status s"
  "ll_hasOpened (clearRetryTimer s) = ll_hasOpened s" "ll_log (clearRetryTimer s) = ll_log s"
  "ll_reconnectKey (clearRetryTimer s) = ll_reconnectKey s" "ll_retryCount (clearRetryTimer s) = ll_retryCount s"
  by (simp_all add: clearRetryTimer_def split: option.splits)

lemma close_current_simps [simp]:
  "ll_mounted (close_current s) = ll_mounted s" "ll_onLine (close_current s) = ll_onLine s"
  "ll_effects (close_current s) = ll_effects s" "length (ll_sockets (close_current s)) = length (ll_sockets s)"
  "ll_active (close_current s) = ll_active s" "ll_rendered (close_current s) = ll_rendered s"
  "ll_socketRef (close_current s) = ll_socketRef s" "ll_nextTimer (close_current s) = ll_nextTimer s"
  "ll_timerRef (close_current s) = ll_timerRef s" "ll_timers (close_current s) = ll_timers s"
  "ll_retryCountRef (close_current s) = ll_retryCountRef s" "ll_generation (close_current s) = ll_generation s"
  "ll_manualClose (close_current s) = ll_manualClose s" "ll_status (close_current s) = ll_status s"
  "ll_hasOpened (close_current s) = ll_hasOpened s" "ll_log (close_current s) = ll_log s"
  "ll_reconnectKey (close_current s) = ll_reconnectKey s" "ll_callbacks (close_current s) = ll_callbacks s"
  by (simp_all add: close_current_def close_socket_def split: option.splits)

lemma nth_update: "i < length xs \<Longrightarrow> xs[j := y] ! i = (if i = j then y else xs ! i)"
  by (simp add: nth_list_update)

lemma close_current_socket:
  assumes "i < length (ll_sockets s)"
  shows "so_effect (ll_sockets (close_current s) ! i) = so_effect (ll_sockets s ! i)"
    and "so_ready (ll_sockets (close_current s) ! i) =
      (if ll_socketRef s = Some i \<and> so_ready (ll_sockets s ! i) \<noteq> CLOSED then CLOSING
       else so_ready (ll_sockets s ! i))"
  using assms by (auto simp: close_current_def close_socket_def nth_update split: option.splits ws_ready.splits)

lemma closing_socket:
  assumes "i < length (ll_sockets s)" and "sockets_ok s"
  shows "so_effect (ll_sockets (close_current s) ! i) = so_effect (ll_sockets s ! i)"
    and "so_ready (ll_sockets (close_current s) ! i) \<in> {CLOSING, CLOSED}"
    and "so_ready (ll_sockets (close_current s) ! i) = CLOSED \<longleftrightarrow> so_ready (ll_sockets s ! i) = CLOSED"
  using assms unfolding close_current_socket [OF assms(1)] sockets_ok_def
  by (cases "ll_socketRef s = Some i"; force)+

lemma drop_current_simps [simp]:
  "ll_mounted (drop_current s) = ll_mounted s" "ll_onLine (drop_current s) = ll_onLine s"
  "ll_effects (drop_current s) = ll_effects s" "length (ll_sockets (drop_current s)) = length (ll_sockets s)"
  "ll_active (drop_current s) = ll_active s" "ll_rendered (drop_current s) = ll_rendered s"
  "ll_socketRef (drop_current s) = None" "ll_nextTimer (drop_current s) = ll_nextTimer s"
  "ll_timerRef (drop_current s) = ll_timerRef s" "ll_timers (drop_current s) = ll_timers s"
  "ll_retryCountRef (drop_current s) = ll_retryCountRef s" "ll_generation (drop_current s) = ll_generation s"
  "ll_manualClose (drop_current s) = ll_manualClose s" "ll_status (drop_current s) = ll_status s"
  "ll_hasOpened (drop_current s) = ll_hasOpened s" "ll_log (drop_current s) = ll_log s"
  "ll_reconnectKey (drop_current s) = ll_reconnectKey s" "ll_callbacks (drop_current s) = ll_callbacks s"
  "ll_sockets (drop_current s) = ll_sockets (close_current s)"
  by (simp_all add: drop_current_def)

text \<open>\<open>wanted\<close> and \<open>awaits_render\<close> depend on three fields only.\<close>

lemma awaits_render_cong:
  "ll_rendered t = ll_rendered s \<Longrightarrow> ll_reconnectKey t = ll_reconnectKey s \<Longrightarrow> awaits_render t = awaits_render s"
  by (simp add: awaits_render_def)

lemma wanted_cong:
  "ll_rendered t = ll_rendered s \<Longrightarrow> ll_reconnectKey t = ll_reconnectKey s
   \<Longrightarrow> ll_manualClose t = ll_manualClose s \<Longrightarrow> wanted t = wanted s"
  by (simp add: wanted_def awaits_render_cong [of t s])

lemma scheduleReconnect_good:
  assumes ok: "line_ok s" and e: "ll_active s = Some e" and "ll_socketRef s = None" and w: "wanted s"
    and r: "random_ok r"
  shows "line_good (scheduleReconnect e r s)"
proof -
  have d: "\<not> ef_disposed (ll_effects s ! e)" "\<not> ll_manualClose s"
    using ok e w by (auto simp: line_ok_def effects_ok_def wanted_def)
  have base: "sockets_ok s" "effects_ok s" "timer_ok s" using ok by (auto simp: line_ok_def)
  let ?s1 = "clearRetryTimer (s\<lparr>ll_retryCountRef := ll_retryCountRef s + 1,
      ll_retryCount := ll_retryCountRef s + 1, ll_status := Reconnecting\<rparr>)"
  have t1: "ll_timers ?s1 = []"
    by (rule clearRetryTimer_timers) (use timer_ok_one [OF base(3)] in \<open>simp add: one_timer_def\<close>)
  show ?thesis
    using assms d base t1 retryDelay_ok [OF r]
    by (auto simp: scheduleReconnect_def Let_def line_good_def line_ok_def line_ok_defs trying_def honest_def
        wanted_def awaits_render_def)
qed

lemma connect_good:
  assumes ok: "line_ok s" and e: "ll_active s = Some e" and n: "ll_socketRef s = None" and w: "wanted s"
    and r: "random_ok r"
  shows "line_good (connect E e r s)"
proof -
  have d: "\<not> ef_disposed (ll_effects s ! e)" "\<not> ll_manualClose s" "e < length (ll_effects s)"
    using ok e w by (auto simp: line_ok_def effects_ok_def wanted_def)
  have base: "sockets_ok s" "effects_ok s" "timer_ok s" using ok by (auto simp: line_ok_def)
  show ?thesis
  proof (cases "ll_onLine s")
    case False
    then show ?thesis
      using base n e by (auto simp: connect_def d line_good_def line_ok_def line_ok_defs trying_def honest_def
          wanted_def awaits_render_def)
  next
    case True
    let ?s1 = "clearRetryTimer s" and ?g = "ll_generation s + 1"
    let ?s2 = "?s1\<lparr>ll_generation := ?g,
        ll_effects := (ll_effects s)[e := (ll_effects s ! e)\<lparr>ef_generation := ?g\<rparr>],
        ll_status := (if 0 < ll_retryCountRef s then Reconnecting else Connecting)\<rparr>"
    have t: "ll_timers ?s1 = []" using clearRetryTimer_timers [OF timer_ok_one [OF base(3)]] .
    have k: "wanted ?s2" "wanted (?s2\<lparr>ll_status := ErrorLine\<rparr>)"
      using w by (simp_all add: wanted_def awaits_render_def)
    have ok2: "line_ok ?s2" "line_ok (?s2\<lparr>ll_status := ErrorLine\<rparr>)"
      using base n e d t w by (auto simp: line_ok_def line_ok_defs nth_update wanted_def awaits_render_def)
    show ?thesis
    proof (cases "new_socket E (ef_options (ll_effects s ! e)) e")
      case None
      then have "connect E e r s = scheduleReconnect e r (?s2\<lparr>ll_status := ErrorLine\<rparr>)"
        using d True by (simp add: connect_def Let_def)
      then show ?thesis using scheduleReconnect_good [OF ok2(2) _ _ k(2) r] e n by simp
    next
      case (Some c)
      then have c: "so_ready c = CONNECTING" "so_effect c = e"
        by (auto simp: new_socket_def Let_def split: option.splits if_splits)
      from Some have "connect E e r s = ?s2\<lparr>ll_sockets := ll_sockets s @ [c], ll_socketRef := Some (length (ll_sockets s))\<rparr>"
        using d True by (simp add: connect_def Let_def)
      then show ?thesis
        using ok2(1) n e c t k(1) d
        by (auto simp: line_good_def line_ok_def line_ok_defs trying_def honest_def nth_append nth_update
            wanted_def awaits_render_def less_Suc_eq)
    qed
  qed
qed

text \<open>Fields that the invariant does not read.\<close>

lemma line_good_unread [simp]:
  "line_good (s\<lparr>ll_log := l\<rparr>) = line_good s" "line_good (s\<lparr>ll_callbacks := c\<rparr>) = line_good s"
  "line_good (s\<lparr>ll_lastMessage := m\<rparr>) = line_good s" "line_good (s\<lparr>ll_mounted := b\<rparr>) = line_good s"
  by (simp_all add: line_good_def line_ok_def line_ok_defs trying_def honest_def wanted_def awaits_render_def)

lemma line_good_note [simp]: "line_good (note_call c s) = line_good s"
  by (simp add: note_call_def)

lemma line_good_status: "line_good s \<Longrightarrow> st \<noteq> OpenLine \<Longrightarrow> line_good (s\<lparr>ll_status := st\<rparr>)"
proof -
  have "line_ok (s\<lparr>ll_status := st\<rparr>) = line_ok s" "trying (s\<lparr>ll_status := st\<rparr>) = trying s"
    by (simp_all add: line_ok_def line_ok_defs trying_def wanted_def awaits_render_def)
  then show "line_good s \<Longrightarrow> st \<noteq> OpenLine \<Longrightarrow> line_good (s\<lparr>ll_status := st\<rparr>)"
    by (simp add: line_good_def honest_def)
qed

lemma line_ok_note: "line_ok (note_call c s) = line_ok s"
  by (simp add: note_call_def line_ok_def line_ok_defs wanted_def awaits_render_def)

lemma wanted_note: "wanted (note_call c s) = wanted s"
  by (simp add: note_call_def wanted_def awaits_render_def)

lemma line_good_notes: "line_good (foldl (\<lambda>s' x. note_call (f x) s') s xs) = line_good s"
  by (induction xs arbitrary: s) simp_all

text \<open>Dropping the current connection after the generation has moved on.\<close>

lemma close_current_cong:
  "ll_socketRef s = ll_socketRef u \<Longrightarrow> ll_sockets s = ll_sockets u
   \<Longrightarrow> ll_sockets (close_current s) = ll_sockets (close_current u)"
  by (simp add: close_current_def close_socket_def split: option.splits)

lemma drop_good:
  assumes ok: "line_ok s"
    and t: "ll_effects t = ll_effects s" "ll_active t = ll_active s" "ll_rendered t = ll_rendered s"
      "ll_sockets t = ll_sockets (close_current s)" "ll_socketRef t = None" "ll_timers t = []"
      "ll_generation t = ll_generation s + 1" "ll_status t \<noteq> OpenLine"
    and k: "ll_manualClose t \<and> ll_reconnectKey t = ll_reconnectKey s \<or> ll_reconnectKey t = ll_reconnectKey s + 1"
  shows "line_good t"
proof -
  have base: "sockets_ok s" "effects_ok s" using ok by (auto simp: line_ok_def)
  have le: "\<And>d n. ll_rendered s = Some (d, n) \<Longrightarrow> n \<le> ll_reconnectKey s"
    and some: "\<And>e. ll_active s = Some e \<Longrightarrow> ll_rendered s \<noteq> None \<and> e < length (ll_effects s)
      \<and> ef_generation (ll_effects s ! e) \<le> ll_generation s"
    using base(2) by (auto simp: effects_ok_def)
  have w: "\<not> wanted t" if "ll_active s = Some e" for e
    using k some [OF that] le by (fastforce simp: wanted_def awaits_render_def t(3))
  have "sockets_ok t"
    using base(1) w closing_socket [of _ s] by (auto simp: sockets_ok_def t)
  moreover have "effects_ok t"
    unfolding effects_ok_def t
  proof (intro conjI allI impI)
    fix e
    show "e < length (ll_effects s) \<Longrightarrow> \<not> ef_disposed (ll_effects s ! e) \<longleftrightarrow> ll_active s = Some e"
      using base(2) by (simp add: effects_ok_def)
    assume e: "ll_active s = Some e"
    from some [OF e] show "e < length (ll_effects s)" "ll_rendered s \<noteq> None"
      "ef_generation (ll_effects s ! e) \<le> ll_generation s + 1"
      "ef_generation (ll_effects s ! e) < ll_generation s + 1" by simp_all
  next
    fix d n
    assume "ll_rendered s = Some (d, n)"
    then show "n \<le> ll_reconnectKey t" using le k by fastforce
  qed
  moreover have "current_ok t" "timer_ok t" by (simp_all add: current_ok_def timer_ok_def t)
  moreover have "trying t" "honest t" using w t(8) by (auto simp: trying_def honest_def t(2))
  ultimately show ?thesis by (simp add: line_good_def line_ok_def)
qed

lemma line_good_timers:
  "line_good s \<Longrightarrow> ll_timers t = ll_timers s \<Longrightarrow> ll_timerRef t = ll_timerRef s
   \<Longrightarrow> ll_timers (clearRetryTimer t) = []"
  by (rule clearRetryTimer_timers)
    (use timer_ok_one [of s] in \<open>simp add: one_timer_def line_good_def line_ok_def\<close>)

lemma close_line_good: assumes "line_good s" shows "line_good (close_line s)"
  using assms
  by (intro drop_good [of s])
    (auto simp: line_good_def close_line_def line_good_timers [OF assms] intro: close_current_cong)

lemma reconnect_good: assumes "line_good s" shows "line_good (reconnect s)"
  using assms
  by (intro drop_good [of s])
    (auto simp: line_good_def reconnect_def line_good_timers [OF assms] intro: close_current_cong)

text \<open>Without a running effect there is no connection and no timer.\<close>

lemma quiet:
  assumes "line_ok s" and "ll_active s = None"
  shows "ll_socketRef s = None" and "ll_timers s = []"
  using assms by (cases "ll_socketRef s"; auto simp: line_ok_def current_ok_def timer_ok_def)+

lemma cleanup_good:
  assumes good: "line_good s" and e: "ll_active s = Some e"
  shows "line_good (cleanup e s)"
proof -
  let ?t = "cleanup e s"
  have base: "sockets_ok s" "effects_ok s" using good by (auto simp: line_good_def line_ok_def)
  have t: "ll_active ?t = None" "ll_socketRef ?t = None" "ll_timers ?t = []" "ll_rendered ?t = ll_rendered s"
    "ll_reconnectKey ?t = ll_reconnectKey s" "length (ll_sockets ?t) = length (ll_sockets s)"
    "ll_effects ?t = (ll_effects s)[e := (ll_effects s ! e)\<lparr>ef_disposed := True\<rparr>]"
    by (simp_all add: cleanup_def line_good_timers [OF good])
  have socks: "ll_sockets ?t = ll_sockets (close_current s)"
    unfolding cleanup_def drop_current_simps by (rule close_current_cong) simp_all
  have "sockets_ok ?t"
    using base(1) closing_socket [of _ s] by (auto simp: sockets_ok_def t socks)
  moreover have "effects_ok ?t"
    using base(2) e by (auto simp: effects_ok_def t nth_update)
  ultimately show ?thesis
    by (simp add: line_good_def line_ok_def current_ok_def timer_ok_def trying_def honest_def t)
qed

lemma run_cleanup_good:
  assumes "line_good s"
  shows "line_good (run_cleanup s)" and "ll_active (run_cleanup s) = None"
    and "ll_reconnectKey (run_cleanup s) = ll_reconnectKey s"
  using assms cleanup_good [OF assms]
  by (auto simp: run_cleanup_def cleanup_def split: option.splits)

lemma start_effect_good:
  assumes good: "line_good s" and none: "ll_active s = None" and key: "ll_rendered s = Some (d, ll_reconnectKey s)"
    and r: "random_ok r"
  shows "line_good (start_effect E options r s)"
proof -
  have ok: "line_ok s" using good by (simp add: line_good_def)
  note q = quiet [OF ok none]
  have base: "sockets_ok s" "effects_ok s" using ok by (auto simp: line_ok_def)
  show ?thesis
  proof (cases "wo_enabled options \<and> truthy (wo_url options)")
    case False
    have u: "drop_current (s\<lparr>ll_manualClose := True\<rparr>) = s\<lparr>ll_manualClose := True\<rparr>"
      using q by (simp add: drop_current_def close_current_def)
    have "line_ok (s\<lparr>ll_manualClose := True\<rparr>)"
      using base none q by (auto simp: line_ok_def line_ok_defs wanted_def)
    moreover have "ll_timers (clearRetryTimer (s\<lparr>ll_manualClose := True\<rparr>)) = []"
      using q by (intro clearRetryTimer_timers) (simp add: one_timer_def)
    ultimately show ?thesis
      using False none q
      by (auto simp: start_effect_def u line_good_def line_ok_def line_ok_defs trying_def honest_def wanted_def
          awaits_render_def)
  next
    case True
    let ?n = "length (ll_effects s)"
    let ?t = "s\<lparr>ll_manualClose := False, ll_effects := ll_effects s @ [\<lparr>ef_options = options,
        ef_disposed = False, ef_generation = ll_generation s\<rparr>], ll_active := Some ?n\<rparr>"
    have w: "wanted ?t" using key by (simp add: wanted_def awaits_render_def)
    have "sockets_ok ?t"
      using base(1) q(1) by (fastforce simp: sockets_ok_def)
    moreover have "effects_ok ?t"
      using base(2) none w key by (auto simp: effects_ok_def nth_append less_Suc_eq)
    ultimately have "line_ok ?t" using q by (simp add: line_ok_def current_ok_def timer_ok_def)
    from connect_good [OF this _ _ w r] q True show ?thesis by (simp add: start_effect_def)
  qed
qed

lemma line_good_rendered:
  assumes "line_good s" and "ll_active s = None"
  shows "line_good (s\<lparr>ll_rendered := Some (d, ll_reconnectKey s)\<rparr>)"
proof -
  let ?t = "s\<lparr>ll_rendered := Some (d, ll_reconnectKey s)\<rparr>"
  have ok: "line_ok s" using assms(1) by (simp add: line_good_def)
  note q = quiet [OF ok assms(2)]
  from ok have "sockets_ok s" "effects_ok s" by (auto simp: line_ok_def)
  then have "sockets_ok ?t" "effects_ok ?t"
    using assms(2) q by (simp_all add: sockets_ok_def effects_ok_def)
  then show ?thesis
    using assms(2) q by (simp add: line_good_def line_ok_def current_ok_def timer_ok_def trying_def honest_def)
qed

lemma after_render_good:
  assumes "line_good s" and "random_ok r"
  shows "line_good (after_render E options r s)"
proof -
  let ?s = "s\<lparr>ll_callbacks := options\<rparr>"
  have c: "line_good ?s" using assms(1) by simp
  note rc = run_cleanup_good [OF c]
  show ?thesis
    using assms c rc line_good_rendered [OF rc(1,2)] start_effect_good [where s = "(run_cleanup ?s)
      \<lparr>ll_rendered := Some (deps_of options, ll_reconnectKey s)\<rparr>"]
    by (auto simp: after_render_def Let_def)
qed

lemma timer_fires_good:
  assumes good: "line_good s" and h: "h \<in> fst ` set (ll_timers s)" and r: "random_ok r"
  shows "line_good (connect E (timer_effect h s) r
    (s\<lparr>ll_timers := filter (\<lambda>(h', t). h' \<noteq> h) (ll_timers s)\<rparr>))"
proof -
  have ok: "sockets_ok s" "effects_ok s" "current_ok s" "timer_ok s"
    using good by (auto simp: line_good_def line_ok_def)
  obtain e d where t: "ll_timers s = [(h, e, d)]" and e: "ll_active s = Some e" and w: "wanted s"
    using ok(4) h by (auto simp: timer_ok_def)
  have n: "ll_socketRef s = None" using ok(3) t by (cases "ll_socketRef s") (auto simp: current_ok_def)
  let ?t = "s\<lparr>ll_timers := []\<rparr>"
  have "sockets_ok ?t" "effects_ok ?t" using ok by (simp_all add: sockets_ok_def effects_ok_def wanted_def
        awaits_render_def)
  then have "line_ok ?t" using n by (simp add: line_ok_def current_ok_def timer_ok_def)
  moreover have "wanted ?t" using w by (simp add: wanted_def awaits_render_def)
  ultimately show ?thesis
    using connect_good [of ?t e r E] e n r by (simp add: t timer_effect_def)
qed

lemma online_good:
  assumes good: "line_good s" and calm: "ll_active s = None \<or> \<not> awaits_render s" and r: "random_ok r"
  shows "line_good (ws_step E (GoesOnline r) s)"
proof -
  have ok: "sockets_ok s" "effects_ok s" "current_ok s" "timer_ok s" "honest s"
    using good by (auto simp: line_good_def line_ok_def)
  have same: "sockets_ok (s\<lparr>ll_onLine := True, ll_retryCountRef := a, ll_retryCount := b\<rparr>)"
    "effects_ok (s\<lparr>ll_onLine := True, ll_retryCountRef := a, ll_retryCount := b\<rparr>)"
    "current_ok (s\<lparr>ll_onLine := True, ll_retryCountRef := a, ll_retryCount := b\<rparr>)"
    "timer_ok (s\<lparr>ll_onLine := True, ll_retryCountRef := a, ll_retryCount := b\<rparr>)" for a b
    using ok by (auto simp: sockets_ok_def effects_ok_def current_ok_def timer_ok_def wanted_def awaits_render_def)
  then have line: "line_ok (s\<lparr>ll_onLine := True, ll_retryCountRef := a, ll_retryCount := b\<rparr>)" for a b
    by (simp add: line_ok_def)
  have line1: "line_ok (s\<lparr>ll_onLine := True\<rparr>)"
    unfolding line_ok_def
    using ok by (auto simp: sockets_ok_def effects_ok_def current_ok_def timer_ok_def wanted_def awaits_render_def)
  show ?thesis
  proof (cases "\<exists>e. ll_active s = Some e \<and> ll_socketRef s = None \<and> \<not> ll_manualClose s")
    case True
    then obtain e where e: "ll_active s = Some e" "ll_socketRef s = None" "\<not> ll_manualClose s" by blast
    let ?t = "s\<lparr>ll_onLine := True, ll_retryCountRef := 0, ll_retryCount := 0\<rparr>"
    have "wanted ?t" using calm e by (simp add: wanted_def awaits_render_def)
    from connect_good [OF line _ _ this r] e show ?thesis by (simp add: handleOnline_def)
  next
    case False
    then have "ws_step E (GoesOnline r) s = s\<lparr>ll_onLine := True\<rparr>"
      by (auto simp: handleOnline_def Let_def split: option.splits)
    moreover have "trying (s\<lparr>ll_onLine := True\<rparr>)"
      using False by (auto simp: trying_def wanted_def)
    moreover have "honest (s\<lparr>ll_onLine := True\<rparr>)" using ok(5) by (simp add: honest_def)
    ultimately show ?thesis using line1 by (simp add: line_good_def)
  qed
qed

lemma offline_good:
  assumes good: "line_good s"
  shows "line_good (ws_step E GoesOffline s)"
proof -
  have ok: "sockets_ok s" "effects_ok s" "current_ok s" "timer_ok s"
    using good by (auto simp: line_good_def line_ok_def)
  show ?thesis
  proof (cases "ll_active s")
    case None
    note q = quiet [OF _ None] 
    have "ll_socketRef s = None" "ll_timers s = []" using q ok by (auto simp: line_ok_def)
    then show ?thesis
      using None ok by (simp add: line_good_def line_ok_def line_ok_defs trying_def honest_def wanted_def
          awaits_render_def)
  next
    case (Some e)
    let ?u = "(clearRetryTimer (s\<lparr>ll_onLine := False\<rparr>))\<lparr>ll_status := Offline\<rparr>"
    have u: "ll_timers ?u = []" by (simp add: line_good_timers [OF good])
    define t where "t = close_current ?u"
    have socks: "ll_sockets t = ll_sockets (close_current s)"
      unfolding t_def by (rule close_current_cong) simp_all
    have t: "ll_effects t = ll_effects s" "ll_active t = ll_active s" "ll_rendered t = ll_rendered s"
      "ll_socketRef t = ll_socketRef s" "ll_timers t = []" "ll_generation t = ll_generation s"
      "ll_manualClose t = ll_manualClose s" "ll_reconnectKey t = ll_reconnectKey s" "ll_status t = Offline"
      "ll_onLine t = False" "length (ll_sockets t) = length (ll_sockets s)"
      by (simp_all add: t_def u)
    have w: "wanted t = wanted s" by (simp add: t wanted_def awaits_render_def)
    have "sockets_ok t"
      using ok(1) closing_socket [of _ s] w by (auto simp: sockets_ok_def t socks)
    moreover have "effects_ok t" using ok(2) w by (simp add: effects_ok_def t)
    moreover have "current_ok t"
      using ok(1,3) closing_socket [of _ s] w by (auto simp: current_ok_def t socks)
    ultimately have "line_good t"
      by (simp add: line_good_def line_ok_def timer_ok_def trying_def honest_def t)
    moreover have "ws_step E GoesOffline s = t" using Some by (simp add: handleOffline_def t_def)
    ultimately show ?thesis by simp
  qed
qed

lemma opens_good:
  assumes good: "line_good s" and i: "i < length (ll_sockets s)" "so_ready (ll_sockets s ! i) = CONNECTING"
  shows "line_good (ws_step E (SocketOpens i) s)" and "\<not> stale (set_ready i OPEN s) i"
proof -
  have ok: "sockets_ok s" "effects_ok s" "current_ok s" "timer_ok s"
    using good by (auto simp: line_good_def line_ok_def)
  have ref: "ll_socketRef s = Some i" using ok(1) i by (auto simp: sockets_ok_def)
  then have c: "wanted s" "ll_timers s = []" "ll_active s = Some (so_effect (ll_sockets s ! i))"
    "ef_generation (ll_effects s ! so_effect (ll_sockets s ! i)) = ll_generation s"
    using ok(3) by (auto simp: current_ok_def)
  with ok(2) have d: "\<not> ef_disposed (ll_effects s ! so_effect (ll_sockets s ! i))"
    by (auto simp: effects_ok_def)
  show fresh: "\<not> stale (set_ready i OPEN s) i"
    using c d i by (simp add: stale_def set_ready_def Let_def)
  let ?t = "(set_ready i OPEN s)\<lparr>ll_hasOpened := True, ll_retryCountRef := 0, ll_retryCount := 0,
      ll_status := OpenLine\<rparr>"
  have w: "wanted ?t = wanted s" by (simp add: wanted_def awaits_render_def set_ready_def)
  have "sockets_ok ?t"
    using ok(1) i ref c by (auto simp: sockets_ok_def set_ready_def nth_update)
  moreover have "effects_ok ?t" using ok(2) w by (simp add: effects_ok_def set_ready_def)
  moreover have "current_ok ?t" using ref c w i by (simp add: current_ok_def set_ready_def)
  moreover have "timer_ok ?t" using c by (simp add: timer_ok_def set_ready_def)
  moreover have "trying ?t" "honest ?t" using ref i by (simp_all add: trying_def honest_def set_ready_def)
  ultimately have "line_good ?t" by (simp add: line_good_def line_ok_def)
  moreover have "line_good (foldl (\<lambda>s' key. note_call (Refetch (Some key)) s') x ks) = line_good x" for x ks
    by (rule line_good_notes)
  ultimately show "line_good (ws_step E (SocketOpens i) s)"
    using fresh by (auto simp: onopen_def Let_def refetchAuthoritativeData_def split: option.splits list.splits)
qed

lemma message_good: "line_good s \<Longrightarrow> line_good (onmessage E i data s)"
  by (auto simp: onmessage_def Let_def line_good_notes split: option.splits)

lemma error_good: "line_good s \<Longrightarrow> line_good (onerror i s)"
  by (simp add: onerror_def line_good_status)

lemma closes_good:
  assumes good: "line_good s" and i: "i < length (ll_sockets s)" "so_ready (ll_sockets s ! i) \<noteq> CLOSED"
    and r: "random_ok r"
  shows "line_good (ws_step E (SocketCloses i r) s)"
proof -
  have ok: "sockets_ok s" "effects_ok s" "current_ok s" "timer_ok s" "trying s" "honest s"
    using good by (auto simp: line_good_def line_ok_def)
  let ?e = "so_effect (ll_sockets s ! i)"
  have e: "?e < length (ll_effects s)" using ok(1) i by (simp add: sockets_ok_def)
  let ?t = "(set_ready i CLOSED s)\<lparr>ll_socketRef := None\<rparr>"
  show ?thesis
  proof (cases "ll_socketRef s = Some i")
    case True
    then have c: "wanted s" "ll_timers s = []" "ll_active s = Some ?e" "ef_generation (ll_effects s ! ?e) = ll_generation s"
      using ok(3) by (auto simp: current_ok_def)
    have d: "\<not> ef_disposed (ll_effects s ! ?e)" "\<not> ll_manualClose s"
      using ok(2) c by (auto simp: effects_ok_def wanted_def)
    have w: "wanted ?t" using c by (simp add: wanted_def awaits_render_def set_ready_def)
    have "sockets_ok ?t"
      using ok(1) i True c by (auto simp: sockets_ok_def set_ready_def nth_update)
    moreover have "effects_ok ?t" using ok(2) w by (auto simp: effects_ok_def set_ready_def)
    ultimately have "line_ok ?t" using c by (simp add: line_ok_def current_ok_def timer_ok_def set_ready_def)
    then have "line_good (scheduleReconnect ?e r (note_call (OnClose i) ?t))"
      using c w r by (intro scheduleReconnect_good) (simp_all add: line_ok_note wanted_note, simp_all add: note_call_def set_ready_def)
    moreover have "\<not> stale ?t i" using c d i by (simp add: stale_def set_ready_def Let_def)
    ultimately show ?thesis
      using True d i by (simp add: onclose_def Let_def set_ready_def note_call_def)
  next
    case False
    let ?u = "set_ready i CLOSED s"
    have "stale ?u i \<or> ll_manualClose ?u"
    proof (cases "ll_active s = Some ?e")
      case True
      with ok(1) i False have "\<not> wanted s" by (auto simp: sockets_ok_def)
      with ok(2) True show ?thesis by (auto simp: stale_def set_ready_def Let_def effects_ok_def i)
    next
      case no: False
      with ok(2) e show ?thesis by (auto simp: stale_def set_ready_def Let_def effects_ok_def i)
    qed
    then have "ws_step E (SocketCloses i r) s = ?u" using False by (auto simp: onclose_def set_ready_def)
    moreover have "sockets_ok ?u" "effects_ok ?u" "current_ok ?u" "timer_ok ?u"
      using ok False i by (auto simp: sockets_ok_def effects_ok_def current_ok_def timer_ok_def set_ready_def nth_update
          wanted_def awaits_render_def)
    moreover have "trying ?u" "honest ?u"
      using ok(5,6) False i by (auto simp: trying_def honest_def set_ready_def wanted_def awaits_render_def nth_update)
    ultimately show ?thesis by (simp add: line_good_def line_ok_def)
  qed
qed

lemma fresh_good: "line_good (fresh_line onLine options)"
  by (simp add: fresh_line_def line_good_def line_ok_def line_ok_defs trying_def honest_def)

lemma step_good:
  assumes "line_good s" and "ws_occurs e s" and "ws_settled e s"
  shows "line_good (ws_step E e s)"
proof (cases e)
  case (SendCalled data)
  with assms show ?thesis by (simp add: send_def split: option.splits)
next
  case (GoesOnline r)
  with assms online_good show ?thesis by (simp del: ws_step.simps)
next
  case GoesOffline
  with assms offline_good show ?thesis by (simp del: ws_step.simps)
next
  case (SocketOpens i)
  with assms opens_good(1) show ?thesis by (simp del: ws_step.simps)
next
  case (SocketCloses i r)
  with assms closes_good show ?thesis by (simp del: ws_step.simps)
qed (use assms in \<open>simp_all add: after_render_good run_cleanup_good(1) close_line_good reconnect_good timer_fires_good
  message_good error_good\<close>)

lemma run_good: "ws_run E s \<Longrightarrow> line_good s"
  by (induction rule: ws_run.induct) (auto intro: fresh_good step_good)

section \<open>What the connection promises\<close>

lemma run_socket:
  assumes "ws_run E s" and "live_socket s i"
  shows "ll_socketRef s = Some i" and "\<not> stale s i" and "ll_active s = Some (so_effect (ll_sockets s ! i))"
proof -
  have ok: "sockets_ok s" "effects_ok s" "current_ok s" using run_good [OF assms(1)] by (auto simp: line_good_def line_ok_def)
  show ref: "ll_socketRef s = Some i" using ok(1) assms(2) by (auto simp: sockets_ok_def live_socket_def)
  with ok(3) show act: "ll_active s = Some (so_effect (ll_sockets s ! i))" by (auto simp: current_ok_def)
  with ok ref show "\<not> stale s i" by (auto simp: stale_def Let_def current_ok_def effects_ok_def)
qed



lemma foldl_note: "foldl (\<lambda>s' x. note_call (f x) s') s xs = s\<lparr>ll_log := ll_log s @ map f xs\<rparr>"
  by (induction xs arbitrary: s) (simp_all add: note_call_def)

lemmas foldl_notes = foldl_note foldl_note [unfolded note_call_def]

text \<open>Whether a socket has opened before is what \<open>hasOpenedRef\<close> says.\<close>

definition opened_before :: "live_line \<Rightarrow> bool" where
  "opened_before s \<longleftrightarrow> (\<exists>j. OnOpen j \<in> set (ll_log s))"

definition refetch_calls :: "ws_options \<Rightarrow> ws_call list" where
  "refetch_calls options = (case wo_refetchQueryKeys options of
       Some (k # ks) \<Rightarrow> map (\<lambda>key. Refetch (Some key)) (k # ks)
     | _ \<Rightarrow> [Refetch None])"

lemma refetch_run: "refetchAuthoritativeData s = s\<lparr>ll_log := ll_log s @ refetch_calls (ll_callbacks s)\<rparr>"
  by (simp add: refetchAuthoritativeData_def refetch_calls_def foldl_notes note_call_def split: option.splits list.splits)

definition history_ok :: "live_line \<Rightarrow> bool" where
  "history_ok s \<longleftrightarrow> ll_hasOpened s = opened_before s"

lemma history_frame:
  "history_ok s \<Longrightarrow> ll_hasOpened t = ll_hasOpened s \<Longrightarrow> ll_log t = ll_log s @ cs \<Longrightarrow> \<forall>j. OnOpen j \<notin> set cs \<Longrightarrow> history_ok t"
  by (auto simp: history_ok_def opened_before_def)

lemma schedule_frame: "ll_hasOpened (scheduleReconnect e r s) = ll_hasOpened s"
  "ll_log (scheduleReconnect e r s) = ll_log s"
  by (simp_all add: scheduleReconnect_def Let_def)

lemma connect_frame: "ll_hasOpened (connect E e r s) = ll_hasOpened s" "ll_log (connect E e r s) = ll_log s"
  by (simp_all add: connect_def Let_def schedule_frame split: option.splits)

lemma cleanup_frame: "ll_hasOpened (run_cleanup s) = ll_hasOpened s" "ll_log (run_cleanup s) = ll_log s"
  by (simp_all add: run_cleanup_def cleanup_def split: option.splits)

lemma render_frame: "ll_hasOpened (after_render E options r s) = ll_hasOpened s"
  "ll_log (after_render E options r s) = ll_log s"
  by (simp_all add: after_render_def start_effect_def Let_def connect_frame cleanup_frame)

lemma close_socket_frame: "ll_hasOpened (close_socket i s) = ll_hasOpened s" "ll_log (close_socket i s) = ll_log s"
  by (simp_all add: close_socket_def)

lemma step_history: "history_ok s \<Longrightarrow> history_ok (ws_step E e s)"
proof (cases e)
  case (SocketOpens i)
  assume h: "history_ok s"
  show ?thesis
  proof (cases "stale (set_ready i OPEN s) i")
    case True
    then show ?thesis
      unfolding SocketOpens ws_step.simps onopen_def
      by (auto intro: history_frame [OF h, where cs = "[]"] simp: close_socket_frame set_ready_def)
  next
    case False
    then show ?thesis using SocketOpens
      by (auto simp: onopen_def Let_def history_ok_def opened_before_def refetch_run note_call_def)
  qed
next
  case (SocketMessage i data)
  assume h: "history_ok s"
  have "\<exists>cs. ll_log (onmessage E i data s) = ll_log s @ cs \<and> (\<forall>j. OnOpen j \<notin> set cs)"
    by (auto simp: onmessage_def Let_def foldl_notes note_call_def split: option.splits)
  moreover have "ll_hasOpened (onmessage E i data s) = ll_hasOpened s"
    by (simp add: onmessage_def Let_def foldl_notes note_call_def split: option.splits)
  ultimately show ?thesis using history_frame [OF h] SocketMessage by auto
next
  case (SocketCloses i r)
  assume h: "history_ok s"
  have "\<exists>cs. ll_log (onclose i r (set_ready i CLOSED s)) = ll_log s @ cs \<and> (\<forall>j. OnOpen j \<notin> set cs)"
    by (auto simp: onclose_def Let_def schedule_frame note_call_def set_ready_def)
  moreover have "ll_hasOpened (onclose i r (set_ready i CLOSED s)) = ll_hasOpened s"
    by (simp add: onclose_def Let_def schedule_frame note_call_def set_ready_def)
  ultimately show ?thesis using history_frame [OF h] SocketCloses by auto
qed (auto simp: history_ok_def opened_before_def render_frame cleanup_frame close_line_def reconnect_def send_def
  note_call_def connect_frame handleOnline_def handleOffline_def onerror_def Let_def split: option.splits)

lemma run_history: "ws_run E s \<Longrightarrow> history_ok s"
  by (induction rule: ws_run.induct) (auto simp: step_history, simp add: history_ok_def opened_before_def fresh_line_def)

text \<open>What was missed is fetched again. When a socket opens, the status is open, the retries start
  afresh, the page is told, and if a socket of the hook had opened before, the queries of the refetch keys
  of the last render are refetched, or all active ones when there are none; the first opening refetches
  nothing.\<close>

theorem reopening_refetches:
  assumes "ws_run E s" and "ws_occurs (SocketOpens i) s"
  shows "ll_log (ws_step E (SocketOpens i) s) = ll_log s @ [OnOpen i]
      @ (if opened_before s then refetch_calls (ll_callbacks s) else [])
    \<and> ll_status (ws_step E (SocketOpens i) s) = OpenLine \<and> ll_retryCountRef (ws_step E (SocketOpens i) s) = 0"
proof -
  have i: "i < length (ll_sockets s)" "so_ready (ll_sockets s ! i) = CONNECTING" using assms(2) by auto
  have h: "ll_hasOpened s = opened_before s" using run_history [OF assms(1)] by (simp add: history_ok_def)
  show ?thesis
    using opens_good(2) [OF run_good [OF assms(1)] i]
    by (simp add: onopen_def Let_def refetch_run note_call_def set_ready_def h)
qed

section \<open>Examples\<close>

definition demo_ws :: ws_env where
  "demo_ws = \<lparr>ws_url = (\<lambda>s b. Some \<lparr>u_protocol = [], u_host = [], u_path = [], u_search = []\<rparr>), ws_href = (\<lambda>u. u_protocol u),
     ws_accepts = (\<lambda>u p. True), ws_json = (\<lambda>s. None), ws_origin = [], ws_page_protocol = js ''https:''\<rparr>"

definition demo_options :: ws_options where
  "demo_options = default_options (Some (js ''/ws''))"

definition demo_line :: "ws_event list \<Rightarrow> live_line" where
  "demo_line events = foldl (\<lambda>s e. ws_step demo_ws e s) (fresh_line True demo_options) events"

lemma demo_socket: "new_socket demo_ws demo_options e
    = Some \<lparr>so_ready = CONNECTING, so_effect = e, so_url = js ''wss:'', so_protocols = None\<rparr>"
  by (simp add: new_socket_def protocolsKey_def demo_options_def default_options_def resolveWebSocketUrl_def
      demo_ws_def starts_with_def js_def)

lemma demo_retry: "\<not> out_of_retries demo_options n" "retryDelay demo_options (Suc 0) 0 = 1125 / 2"
  by (simp_all add: out_of_retries_def demo_options_def default_options_def retryDelay_def)

lemma demo_wanted: "wo_enabled demo_options" "wo_url demo_options = Some (js ''/ws'')"
  by (simp_all add: demo_options_def default_options_def)

lemmas demo_defs = fresh_line_def after_render_def start_effect_def run_cleanup_def cleanup_def connect_def
  demo_socket demo_retry demo_wanted Let_def clearRetryTimer_def drop_current_def close_current_def close_socket_def
  onopen_def onclose_def onmessage_def stale_def set_ready_def note_call_def refetch_run scheduleReconnect_def timer_effect_def
  handleOnline_def handleOffline_def reconnect_def close_line_def

lemma demo_1: "demo_line [Rendered demo_options 0] = (fresh_line True demo_options)\<lparr>
    ll_sockets := [\<lparr>so_ready = CONNECTING, so_effect = 0, so_url = js ''wss:'', so_protocols = None\<rparr>],
    ll_effects := [\<lparr>ef_options = demo_options, ef_disposed = False, ef_generation = 1\<rparr>], ll_active := Some 0,
    ll_rendered := Some (deps_of demo_options, 0), ll_socketRef := Some 0, ll_generation := 1, ll_status := Connecting\<rparr>"
  by (simp add: demo_line_def demo_defs)

lemma demo_3: "demo_line [Rendered demo_options 0, SocketOpens 0, SocketCloses 0 0] = (fresh_line True demo_options)\<lparr>
    ll_sockets := [\<lparr>so_ready = CLOSED, so_effect = 0, so_url = js ''wss:'', so_protocols = None\<rparr>],
    ll_effects := [\<lparr>ef_options = demo_options, ef_disposed = False, ef_generation = 1\<rparr>], ll_active := Some 0,
    ll_rendered := Some (deps_of demo_options, 0), ll_generation := 1, ll_status := Reconnecting,
    ll_timerRef := Some 1, ll_timers := [(1, 0, 1125 / 2)], ll_nextTimer := 2, ll_retryCountRef := 1,
    ll_retryCount := 1, ll_hasOpened := True, ll_log := [OnOpen 0, OnClose 0]\<rparr>"
  using demo_1 by (simp add: demo_line_def demo_defs)

lemma demo_event: "ws_run demo_ws (demo_line es) \<Longrightarrow> ws_occurs e (demo_line es) \<Longrightarrow> ws_settled e (demo_line es)
   \<Longrightarrow> ws_run demo_ws (demo_line (es @ [e]))"
  using ws_run.event [of demo_ws "demo_line es" e] by (simp add: demo_line_def)

lemma demo_run_1: "ws_run demo_ws (demo_line [Rendered demo_options 0])"
proof -
  have "ws_run demo_ws (demo_line [])" by (simp add: demo_line_def ws_run.first)
  from demo_event [OF this, of "Rendered demo_options 0"] show ?thesis by (simp add: demo_line_def fresh_line_def random_ok_def)
qed

lemma demo_run_3: "ws_run demo_ws (demo_line [Rendered demo_options 0, SocketOpens 0, SocketCloses 0 0])"
proof -
  let ?es = "[Rendered demo_options 0, SocketOpens 0]"
  have "ws_run demo_ws (demo_line ?es)"
    using demo_event [OF demo_run_1, of "SocketOpens 0"] by (simp add: demo_1)
  moreover have "ws_occurs (SocketCloses 0 0) (demo_line ?es)"
    using demo_1 by (simp add: demo_line_def demo_defs random_ok_def)
  ultimately show ?thesis using demo_event [of ?es "SocketCloses 0 0"] by simp
qed



lemma reopening_refetches_witness:
  "let es = [Rendered demo_options 0, SocketOpens 0, SocketCloses 0 0, TimerFires 1 0] in
     ll_log (ws_step demo_ws (SocketOpens 1) (demo_line es)) = [OnOpen 0, OnClose 0, OnOpen 1, Refetch None]"
proof -
  let ?es = "[Rendered demo_options 0, SocketOpens 0, SocketCloses 0 0]"
  have run: "ws_run demo_ws (demo_line (?es @ [TimerFires 1 0]))"
    using demo_event [OF demo_run_3, of "TimerFires 1 0"] by (simp add: demo_3 random_ok_def)
  have s: "demo_line (?es @ [TimerFires 1 0]) = ws_step demo_ws (TimerFires 1 0) (demo_line ?es)"
    by (simp add: demo_line_def)
  have "ws_occurs (SocketOpens 1) (demo_line (?es @ [TimerFires 1 0]))"
    "ll_log (demo_line (?es @ [TimerFires 1 0])) = [OnOpen 0, OnClose 0]"
    "ll_callbacks (demo_line (?es @ [TimerFires 1 0])) = demo_options"
    unfolding s by (simp_all add: demo_3, simp_all add: demo_defs)
  with reopening_refetches [OF run] show ?thesis
    by (simp add: opened_before_def refetch_calls_def demo_options_def default_options_def)
qed

text \<open>
  Without the assumption on the window: when the browser comes back online between \<open>reconnect\<close> and the
  render it asks for, the old effect connects again, and because all sockets of an effect share one
  \<open>connectionGeneration\<close>, the late close event of the dropped socket passes the stale check and schedules a
  retry that replaces the new socket without closing it.
\<close>

lemma connection_leaks_in_window:
  "let s = demo_line [Rendered demo_options 0, ReconnectCalled, GoesOnline 0, SocketCloses 0 0, TimerFires 1 0] in
     live_socket s 1 \<and> live_socket s 2 \<and> ll_socketRef s = Some 2"
  using demo_1 by (simp add: demo_line_def live_socket_def Let_def, simp add: demo_defs)

text \<open>A call of \<open>close\<close> that follows a call of \<open>reconnect\<close> before the next render is undone by that render.\<close>

lemma close_after_reconnect_undone:
  "let s = demo_line [Rendered demo_options 0, ReconnectCalled, CloseCalled, Rendered demo_options 0] in
     \<not> ll_manualClose s \<and> live_socket s 1 \<and> ll_status s = Connecting"
  using demo_1 by (simp add: demo_line_def live_socket_def Let_def, simp add: demo_defs)
end
