(* ===== verification/Cart.thy ===== *)
theory Cart
  imports Js_Prelude
begin

text \<open>
  The guest's cart: the store of \<open>apps/web/src/stores/cart-store.ts\<close> and the money arithmetic of
  \<open>components/qr/qr-utils.ts\<close>. Each action of the store is a function on its state; the random id a
  new line gets is an argument. A \<open>bigint\<close> is an \<open>int\<close>. A quantity in the cart is an integer because
  \<open>normalizeQuantity\<close> makes it one; the numbers the interface passes in are JavaScript numbers.
\<close>

section \<open>State\<close>

record cart_modifier =
  cm_modifierId :: jstr
  cm_name :: jstr
  cm_priceDelta :: jstr

record cart_line =
  cl_lineId :: jstr
  cl_productId :: jstr
  cl_productName :: jstr
  cl_quantity :: int
  cl_unitPrice :: jstr
  cl_note :: jstr
  cl_modifiers :: "cart_modifier list"

record new_cart_line =
  nl_productId :: jstr
  nl_productName :: jstr
  nl_quantity :: "jsnum option"
  nl_unitPrice :: jstr
  nl_note :: jstr
  nl_modifiers :: "cart_modifier list"

record cart_state =
  cs_branchId :: "jstr option"
  cs_tableToken :: "jstr option"
  cs_lines :: "cart_line list"

section \<open>Actions\<close>

fun normalizeQuantity :: "jsnum \<Rightarrow> int" where
  "normalizeQuantity (Fin q) = min 99 (max 1 \<lfloor>q\<rfloor>)"
| "normalizeQuantity _ = 1"

fun not_positive :: "jsnum \<Rightarrow> bool" where
  "not_positive (Fin q) = (q \<le> 0)"
| "not_positive NInf = True"
| "not_positive _ = False"

definition empty_cart :: cart_state where
  "empty_cart = \<lparr>cs_branchId = None, cs_tableToken = None, cs_lines = []\<rparr>"

definition setContext :: "jstr option \<Rightarrow> jstr option \<Rightarrow> cart_state \<Rightarrow> cart_state" where
  "setContext branchId tableToken s = \<lparr>cs_branchId = branchId, cs_tableToken = tableToken,
     cs_lines = (if cs_branchId s \<noteq> branchId \<or> cs_tableToken s \<noteq> tableToken then [] else cs_lines s)\<rparr>"

definition new_line :: "jstr \<Rightarrow> new_cart_line \<Rightarrow> cart_line" where
  "new_line lineId l = \<lparr>cl_lineId = lineId, cl_productId = nl_productId l, cl_productName = nl_productName l,
     cl_quantity = normalizeQuantity (case nl_quantity l of None \<Rightarrow> Fin 1 | Some q \<Rightarrow> q),
     cl_unitPrice = nl_unitPrice l, cl_note = take 500 (js_trim (nl_note l)), cl_modifiers = nl_modifiers l\<rparr>"

definition addLine :: "jstr \<Rightarrow> new_cart_line \<Rightarrow> cart_state \<Rightarrow> cart_state" where
  "addLine lineId l s = s\<lparr>cs_lines := cs_lines s @ [new_line lineId l]\<rparr>"

definition setQuantity :: "jstr \<Rightarrow> jsnum \<Rightarrow> cart_state \<Rightarrow> cart_state" where
  "setQuantity lineId quantity s = s\<lparr>cs_lines :=
     (if not_positive quantity then filter (\<lambda>l. cl_lineId l \<noteq> lineId) (cs_lines s)
      else map (\<lambda>l. if cl_lineId l = lineId then l\<lparr>cl_quantity := normalizeQuantity quantity\<rparr> else l)
             (cs_lines s))\<rparr>"

definition setNote :: "jstr \<Rightarrow> jstr \<Rightarrow> cart_state \<Rightarrow> cart_state" where
  "setNote lineId note s = s\<lparr>cs_lines :=
     map (\<lambda>l. if cl_lineId l = lineId then l\<lparr>cl_note := take 500 (js_trim note)\<rparr> else l) (cs_lines s)\<rparr>"

definition removeLine :: "jstr \<Rightarrow> cart_state \<Rightarrow> cart_state" where
  "removeLine lineId s = s\<lparr>cs_lines := filter (\<lambda>l. cl_lineId l \<noteq> lineId) (cs_lines s)\<rparr>"

definition clear_cart :: "cart_state \<Rightarrow> cart_state" where
  "clear_cart s = empty_cart"

definition selectCartItemCount :: "cart_state \<Rightarrow> int" where
  "selectCartItemCount s = foldl (\<lambda>total l. total + cl_quantity l) 0 (cs_lines s)"

text \<open>A stored draft of an older version: its quantity may be any number, and it may have a portion size.\<close>

record persisted_line = new_cart_line +
  pl_lineId :: jstr
  pl_portionSize :: "jsnum option"

definition migrate_line :: "persisted_line \<Rightarrow> cart_line" where
  "migrate_line l = \<lparr>cl_lineId = pl_lineId l, cl_productId = nl_productId l, cl_productName = nl_productName l,
     cl_quantity = normalizeQuantity (case nl_quantity l of None \<Rightarrow> NaN | Some q \<Rightarrow> q),
     cl_unitPrice = nl_unitPrice l, cl_note = nl_note l, cl_modifiers = nl_modifiers l\<rparr>"

definition migrate_keeps :: "persisted_line \<Rightarrow> bool" where
  "migrate_keeps l \<longleftrightarrow> (case nl_quantity l of
        None \<Rightarrow> False
      | Some q \<Rightarrow> is_integer q \<and> \<not> not_positive q)
     \<and> (pl_portionSize l = None \<or> pl_portionSize l = Some (Fin 1))"

definition migrate_lines :: "persisted_line list option \<Rightarrow> cart_line list" where
  "migrate_lines persisted =
     map migrate_line (filter migrate_keeps (case persisted of None \<Rightarrow> [] | Some ls \<Rightarrow> ls))"

lemma normalizeQuantity_bounds: "1 \<le> normalizeQuantity q \<and> normalizeQuantity q \<le> 99"
  by (cases q) auto

lemma normalizeQuantity_id: "1 \<le> i \<Longrightarrow> i \<le> 99 \<Longrightarrow> normalizeQuantity (num_of_int i) = i"
  by simp

lemma migrated_quantities: "l \<in> set (migrate_lines p) \<Longrightarrow> 1 \<le> cl_quantity l \<and> cl_quantity l \<le> 99"
  using normalizeQuantity_bounds by (auto simp: migrate_lines_def migrate_line_def)

section \<open>The contents as a finite map\<close>

definition contents :: "cart_state \<Rightarrow> jstr \<Rightarrow> cart_line option" where
  "contents s = map_of (map (\<lambda>l. (cl_lineId l, l)) (cs_lines s))"

definition cart_wf :: "cart_state \<Rightarrow> bool" where
  "cart_wf s \<longleftrightarrow> distinct (map cl_lineId (cs_lines s))
     \<and> list_all (\<lambda>l. 1 \<le> cl_quantity l \<and> cl_quantity l \<le> 99 \<and> length (cl_note l) \<le> 500) (cs_lines s)"

datatype cart_command =
    SetContext "jstr option" "jstr option"
  | AddLine jstr new_cart_line
  | SetQuantity jstr jsnum
  | SetNote jstr jstr
  | RemoveLine jstr
  | Clear

fun cart_step :: "cart_command \<Rightarrow> cart_state \<Rightarrow> cart_state" where
  "cart_step (SetContext b t) s = setContext b t s"
| "cart_step (AddLine i l) s = addLine i l s"
| "cart_step (SetQuantity i q) s = setQuantity i q s"
| "cart_step (SetNote i n) s = setNote i n s"
| "cart_step (RemoveLine i) s = removeLine i s"
| "cart_step Clear s = clear_cart s"

text \<open>The promise: what each action means for the map from line ids to lines.\<close>

fun cart_spec :: "cart_command \<Rightarrow> cart_state \<Rightarrow> (jstr \<rightharpoonup> cart_line) \<Rightarrow> jstr \<rightharpoonup> cart_line" where
  "cart_spec (SetContext b t) s m = (if cs_branchId s = b \<and> cs_tableToken s = t then m else Map.empty)"
| "cart_spec (AddLine i l) s m = m(i \<mapsto> new_line i l)"
| "cart_spec (SetQuantity i q) s m =
     m(i := (if not_positive q then None else map_option (cl_quantity_update (\<lambda>_. normalizeQuantity q)) (m i)))"
| "cart_spec (SetNote i n) s m = m(i := map_option (cl_note_update (\<lambda>_. take 500 (js_trim n))) (m i))"
| "cart_spec (RemoveLine i) s m = m(i := None)"
| "cart_spec Clear s m = Map.empty"

fun fresh_line :: "cart_command \<Rightarrow> cart_state \<Rightarrow> bool" where
  "fresh_line (AddLine i l) s = (contents s i = None)"
| "fresh_line _ s = True"

text \<open>Carts of a session: it starts empty, and every new line gets an id that is not in use.\<close>

inductive cart_reach :: "cart_state \<Rightarrow> bool" where
  start: "cart_reach empty_cart"
| step: "cart_reach s \<Longrightarrow> fresh_line c s \<Longrightarrow> cart_reach (cart_step c s)"

inductive_cases cart_reach_cases: "cart_reach s"

lemma contents_None: "contents s i = None \<longleftrightarrow> i \<notin> cl_lineId ` set (cs_lines s)"
  by (auto simp: contents_def map_of_eq_None_iff image_image)

lemma map_of_filtered: "map_of (map (\<lambda>l. (f l, l)) (filter (\<lambda>l. f l \<noteq> i) ls)) = (map_of (map (\<lambda>l. (f l, l)) ls))(i := None)"
  by (induction ls) (auto simp: fun_eq_iff)

lemma map_of_mapped:
  assumes "\<And>l. f (g l) = f l"
  shows "map_of (map (\<lambda>l. (f l, l)) (map (\<lambda>l. if f l = i then g l else l) ls))
    = (map_of (map (\<lambda>l. (f l, l)) ls))(i := map_option g (map_of (map (\<lambda>l. (f l, l)) ls) i))"
  by (induction ls) (auto simp: fun_eq_iff assms)

lemma step_contents: "fresh_line c s \<Longrightarrow> contents (cart_step c s) = cart_spec c s (contents s)"
proof (cases c)
  case (AddLine i l)
  assume "fresh_line c s"
  then show ?thesis
    using AddLine by (auto simp: contents_def addLine_def new_line_def fun_eq_iff map_add_def split: option.splits)
next
  case (SetQuantity i q)
  then show ?thesis
    using map_of_filtered [of cl_lineId i "cs_lines s"]
      map_of_mapped [of cl_lineId "cl_quantity_update (\<lambda>_. normalizeQuantity q)" i "cs_lines s"]
    by (simp add: contents_def setQuantity_def)
next
  case (SetNote i n)
  then show ?thesis
    using map_of_mapped [of cl_lineId "cl_note_update (\<lambda>_. take 500 (js_trim n))" i "cs_lines s"]
    by (simp add: contents_def setNote_def)
next
  case (RemoveLine i)
  then show ?thesis
    using map_of_filtered [of cl_lineId i "cs_lines s"] by (simp add: contents_def removeLine_def)
qed (auto simp: contents_def setContext_def clear_cart_def empty_cart_def)

lemma wf_filter: "cart_wf s \<Longrightarrow> cart_wf (s\<lparr>cs_lines := filter P (cs_lines s)\<rparr>)"
  by (auto simp: cart_wf_def distinct_map_filter list_all_iff)

lemma wf_mapped:
  assumes "cart_wf s" and "\<And>l. cl_lineId (g l) = cl_lineId l"
    and "\<And>l. 1 \<le> cl_quantity l \<and> cl_quantity l \<le> 99 \<and> length (cl_note l) \<le> 500
      \<Longrightarrow> 1 \<le> cl_quantity (g l) \<and> cl_quantity (g l) \<le> 99 \<and> length (cl_note (g l)) \<le> 500"
  shows "cart_wf (s\<lparr>cs_lines := map (\<lambda>l. if cl_lineId l = i then g l else l) (cs_lines s)\<rparr>)"
proof -
  have "cl_lineId \<circ> (\<lambda>l. if cl_lineId l = i then g l else l) = cl_lineId"
    using assms(2) by (auto simp: comp_def)
  then show ?thesis
    using assms(1,3) unfolding cart_wf_def list_all_iff by (simp, blast)
qed

lemma step_wf: "cart_wf s \<Longrightarrow> fresh_line c s \<Longrightarrow> cart_wf (cart_step c s)"
proof (cases c)
  case (AddLine i l)
  assume "cart_wf s" "fresh_line c s"
  with AddLine normalizeQuantity_bounds show ?thesis
    by (auto simp: cart_wf_def addLine_def new_line_def contents_None)
next
  case (SetQuantity i q)
  assume "cart_wf s"
  with SetQuantity normalizeQuantity_bounds show ?thesis
    by (auto simp: setQuantity_def wf_filter intro!: wf_mapped)
next
  case (SetNote i n)
  assume "cart_wf s"
  with SetNote show ?thesis
    by (auto simp: setNote_def intro!: wf_mapped)
next
  case (RemoveLine i)
  assume "cart_wf s"
  with RemoveLine show ?thesis
    by (simp add: removeLine_def wf_filter)
next
  case (SetContext b t)
  assume "cart_wf s"
  with SetContext show ?thesis
    by (simp add: setContext_def cart_wf_def)
qed (simp add: clear_cart_def empty_cart_def cart_wf_def)

lemma reach_wf: "cart_reach s \<Longrightarrow> cart_wf s"
proof (induction rule: cart_reach.induct)
  case start
  show ?case by (simp add: empty_cart_def cart_wf_def)
qed (rule step_wf)

lemma foldl_sum: "foldl (\<lambda>t l. t + f l) (a :: int) ls = a + sum_list (map f ls)"
  by (induction ls arbitrary: a) simp_all

lemma contents_line: "cart_wf s \<Longrightarrow> l \<in> set (cs_lines s) \<Longrightarrow> contents s (cl_lineId l) = Some l"
  unfolding contents_def cart_wf_def by (intro map_of_is_SomeI) (auto simp: comp_def)

lemma contents_dom: "dom (contents s) = set (map cl_lineId (cs_lines s))"
  using contents_None [of s] by (auto simp: dom_def)

lemma count_sum:
  assumes "cart_wf s"
  shows "selectCartItemCount s = (\<Sum>i\<in>dom (contents s). cl_quantity (the (contents s i)))"
proof -
  have "map cl_quantity (cs_lines s) = map (\<lambda>i. cl_quantity (the (contents s i))) (map cl_lineId (cs_lines s))"
    using contents_line [OF assms] by simp
  then have "selectCartItemCount s = sum_list (map (\<lambda>i. cl_quantity (the (contents s i))) (map cl_lineId (cs_lines s)))"
    by (simp only: selectCartItemCount_def foldl_sum add_0)
  also have "\<dots> = (\<Sum>i\<in>dom (contents s). cl_quantity (the (contents s i)))"
    unfolding contents_dom using assms by (intro sum_list_distinct_conv_sum_set) (simp add: cart_wf_def)
  finally show ?thesis .
qed

text \<open>C21: The cart implements a finite map. In every cart a session can reach, each action changes the map from
  line ids to lines exactly as it promises (a quantity that is not positive removes the line, another table or
  branch empties the cart), quantities stay between 1 and 99 and notes within 500 units, ids stay distinct,
  and the item count is the sum of the quantities of the map.\<close>

theorem cart_refines:
  assumes "cart_reach s" and "fresh_line c s"
  shows "contents (cart_step c s) = cart_spec c s (contents s) \<and> cart_wf (cart_step c s)
    \<and> selectCartItemCount (cart_step c s)
        = (\<Sum>i\<in>dom (contents (cart_step c s)). cl_quantity (the (contents (cart_step c s) i)))"
  using step_contents [OF assms(2)] step_wf [OF reach_wf [OF assms(1)] assms(2)]
    count_sum [OF step_wf [OF reach_wf [OF assms(1)] assms(2)]]
  by blast

lemma cart_refines_witness:
  "contents (cart_step (AddLine (js ''a'') \<lparr>nl_productId = js ''p'', nl_productName = js ''Tea'',
       nl_quantity = Some (Fin 120), nl_unitPrice = js ''12.50'', nl_note = [], nl_modifiers = []\<rparr>) empty_cart) (js ''a'')
     \<noteq> None \<and> cart_reach empty_cart"
  using cart_refines [OF cart_reach.start, of "AddLine (js ''a'') \<lparr>nl_productId = js ''p'', nl_productName = js ''Tea'',
       nl_quantity = Some (Fin 120), nl_unitPrice = js ''12.50'', nl_note = [], nl_modifiers = []\<rparr>"]
  by (simp add: contents_def empty_cart_def cart_reach.start [unfolded empty_cart_def])

section \<open>Money\<close>

text \<open>The match of \<open>/^(-?)(\d+)(?:\.(\d+))?$/\<close>: sign, whole digits and digits of the fraction.\<close>

definition decimal_match :: "jstr \<Rightarrow> (bool \<times> jstr \<times> jstr) option" where
  "decimal_match s =
     (let neg = starts_with s [45]; u = (if neg then drop 1 s else s);
          whole = takeWhile is_digit u; rest = dropWhile is_digit u
      in if whole = [] then None
         else if rest = [] then Some (neg, whole, [])
         else if hd rest = 46 \<and> tl rest \<noteq> [] \<and> list_all is_digit (tl rest) then Some (neg, whole, tl rest)
         else None)"

definition decimalToMinor :: "jstr \<Rightarrow> nat \<Rightarrow> int" where
  "decimalToMinor value fractionDigits = (case decimal_match (js_trim value) of
       None \<Rightarrow> 0
     | Some (neg, whole, fraction) \<Rightarrow>
         (if neg then - 1 else 1) * (int (digits_value whole) * 10 ^ fractionDigits
            + int (digits_value (take fractionDigits (fraction @ replicate (fractionDigits - length fraction) 48)))))"

definition cartLineTotalMinor :: "cart_line \<Rightarrow> int" where
  "cartLineTotalMinor l =
     (decimalToMinor (cl_unitPrice l) 2
        + foldl (\<lambda>total m. total + decimalToMinor (cm_priceDelta m) 2) 0 (cl_modifiers l)) * cl_quantity l"

definition cartTotalMinor :: "cart_line list \<Rightarrow> int" where
  "cartTotalMinor ls = foldl (\<lambda>total l. total + cartLineTotalMinor l) 0 ls"

text \<open>The decimal text of an amount in minor units, as the API writes prices.\<close>

definition minor_text :: "int \<Rightarrow> jstr" where
  "minor_text m = (if m < 0 then [45] else []) @ nat_digits (nat \<bar>m\<bar> div 100) @ [46]
     @ [48 + nat \<bar>m\<bar> div 10 mod 10, 48 + nat \<bar>m\<bar> mod 10]"

lemma digits_run: "list_all is_digit ds \<Longrightarrow> \<not> is_digit c \<Longrightarrow>
    takeWhile is_digit (ds @ c # r) = ds \<and> dropWhile is_digit (ds @ c # r) = c # r"
  by (induction ds) auto

lemma digit_not_space: "is_digit c \<Longrightarrow> \<not> is_space c"
  by (auto simp: is_digit_def is_space_def)

lemma js_trim_solid:
  assumes "s \<noteq> []" "\<not> is_space (hd s)" "\<not> is_space (last s)"
  shows "js_trim s = s"
proof -
  have "dropWhile is_space s = s" "dropWhile is_space (rev s) = rev s"
    using assms by (simp_all add: dropWhile_eq_self_iff hd_rev)
  then show ?thesis by (simp add: js_trim_def)
qed

lemma last_digit: "is_digit (48 + n mod 10)"
  using mod_less_divisor [of 10 n] by (simp add: is_digit_def)

lemma minor_text_solid: "js_trim (minor_text m) = minor_text m"
proof (rule js_trim_solid)
  have "is_digit (hd (nat_digits k))" for k
    using nat_digits_are_digits [of k] by (simp add: list.set_sel)
  then show "\<not> is_space (hd (minor_text m))"
    by (simp add: minor_text_def digit_not_space) (simp add: is_space_def)
  show "\<not> is_space (last (minor_text m))"
    using digit_not_space [OF last_digit] by (simp add: minor_text_def)
qed (simp add: minor_text_def)

lemma decimal_match_parts:
  assumes "list_all is_digit w" "w \<noteq> []" "is_digit a" "is_digit b"
  shows "decimal_match ((if neg then [45] else []) @ w @ 46 # [a, b]) = Some (neg, w, [a, b])"
proof -
  have dot: "\<not> is_digit 46" "\<not> is_digit 45" by (simp_all add: is_digit_def)
  obtain d ds where d: "w = d # ds" using assms(2) by (cases w) auto
  then have "\<not> starts_with (w @ 46 # [a, b]) [45]" using assms(1) dot by (auto simp: starts_with_def)
  moreover have "starts_with (45 # w @ 46 # [a, b]) [45]" by (simp add: starts_with_def)
  ultimately show ?thesis
    using digits_run [OF assms(1) dot(1), of "[a, b]"] assms dot
    unfolding decimal_match_def Let_def by simp
qed

lemma decimal_match_text:
  "decimal_match (minor_text m)
     = Some (m < 0, nat_digits (nat \<bar>m\<bar> div 100), [48 + nat \<bar>m\<bar> div 10 mod 10, 48 + nat \<bar>m\<bar> mod 10])"
proof -
  have "list_all is_digit (nat_digits k)" for k
    using nat_digits_are_digits by (auto simp: list_all_iff)
  from decimal_match_parts [OF this nat_digits_nonempty last_digit last_digit] show ?thesis
    by (simp add: minor_text_def)
qed

lemma digits_value_two: "digits_value [48 + a, 48 + b] = 10 * a + b"
  by (simp add: digits_value_def)

lemma hundreds: "(n :: nat) = 10 * (10 * a + b) + c \<Longrightarrow> int a * 100 + int (10 * b + c) = int n"
  by simp

lemma two_digits: "int (n div 100) * 100 + int (10 * (n div 10 mod 10) + n mod 10) = int n"
proof (rule hundreds)
  have "n div 10 div 10 = n div 100" by (simp add: div_mult2_eq [symmetric])
  then show "n = 10 * (10 * (n div 100) + n div 10 mod 10) + n mod 10"
    by (metis mult_div_mod_eq)
qed

lemma decimal_roundtrip: "decimalToMinor (minor_text m) 2 = m"
proof -
  have "decimalToMinor (minor_text m) 2 = (if m < 0 then - 1 else 1)
      * (int (nat \<bar>m\<bar> div 100) * 100 + int (10 * (nat \<bar>m\<bar> div 10 mod 10) + nat \<bar>m\<bar> mod 10))"
    unfolding decimalToMinor_def minor_text_solid decimal_match_text
    by (simp add: digits_value_two)
  then show ?thesis
    unfolding two_digits by simp
qed

end
