(* ===== verification/Bill_Lines.thy ===== *)
theory Bill_Lines
  imports Cart "HOL-Library.List_Lexorder" "HOL-Library.Signed_Division" "HOL-Library.Word"
begin

unbundle bit_operations_syntax

text \<open>
  Grouping equal lines of a bill, \<open>apps/web/src/components/printing/aggregate-receipt-lines.ts\<close>, and the key
  that makes repeated print clicks reuse one job, \<open>bill-print-key.ts\<close>. An amount is a text or a number;
  \<open>String\<close> of a number is the argument \<open>str_of\<close>. A \<open>bigint\<close> is an \<open>int\<close> whose division truncates. A group key
  is kept as the tuple that \<open>JSON.stringify\<close> makes a text of, which loses nothing.
\<close>

section \<open>Lines\<close>

datatype amount = AText jstr | ANumber jsnum

record bill_line =
  bl_productId :: "jstr option"
  bl_name :: jstr
  bl_quantity :: amount
  bl_unitPrice :: "amount option"
  bl_taxRate :: "amount option"
  bl_discount :: "amount option"
  bl_lineTotal :: amount
  bl_modifiers :: "jstr list option"
  bl_note :: "jstr option"
  bl_complimentary :: "bool option"

definition amount_minor :: "(jsnum \<Rightarrow> jstr) \<Rightarrow> amount \<Rightarrow> int" where
  "amount_minor str_of a = decimalToMinor (case a of AText s \<Rightarrow> s | ANumber n \<Rightarrow> str_of n) 2"

definition decimalString :: "int \<Rightarrow> jstr" where
  "decimalString minor =
     (let absolute = (if minor < 0 then - minor else minor);
          cents = int_text (absolute mod 100)
      in (if minor < 0 then [45] else []) @ int_text (absolute div 100) @ [46]
           @ replicate (2 - length cents) 48 @ cents)"

section \<open>The unit price of a line without one\<close>

lemma abs_smod_less: "d \<noteq> 0 \<Longrightarrow> \<bar>n smod d\<bar> < \<bar>d :: int\<bar>"
  by (simp add: smod_int_alt_def abs_mult abs_sgn_eq)

function ratio_gcd :: "int \<Rightarrow> int \<Rightarrow> int" where
  "ratio_gcd numerator denominator =
     (if denominator = 0 then numerator else ratio_gcd denominator (numerator smod denominator))"
  by pat_completeness auto

termination by (relation "measure (\<lambda>(n, d). nat \<bar>d\<bar>)") (simp_all add: abs_smod_less)

declare ratio_gcd.simps [simp del]

definition unitPriceRatio :: "int \<Rightarrow> int \<Rightarrow> jstr" where
  "unitPriceRatio lineTotal quantity =
     (let g = ratio_gcd (if lineTotal < 0 then - lineTotal else lineTotal) quantity;
          divisor = (if g = 0 then 1 else g)
      in int_text (lineTotal sdiv divisor) @ [47] @ int_text (quantity sdiv divisor))"

lemma ratio_gcd_gcd: "0 \<le> n \<Longrightarrow> 0 \<le> d \<Longrightarrow> ratio_gcd n d = gcd n d"
proof (induction n d rule: ratio_gcd.induct)
  case (1 n d)
  show ?case
  proof (cases "d = 0")
    case True
    with 1 show ?thesis by (simp add: ratio_gcd.simps [of n 0])
  next
    case False
    have "n smod d = n mod d"
      using 1 False by (simp add: smod_int_alt_def sgn_if)
    with 1 False show ?thesis
      by (simp add: ratio_gcd.simps [of n d] gcd_red_int [symmetric])
  qed
qed

section \<open>Grouping\<close>

type_synonym line_key = "jstr \<times> jstr \<times> jstr \<times> jstr option \<times> jstr option \<times> jstr list \<times> jstr option \<times> bool"

definition line_key :: "(jsnum \<Rightarrow> jstr) \<Rightarrow> bill_line \<Rightarrow> line_key" where
  "line_key str_of l =
     (case bl_productId l of Some p \<Rightarrow> p | None \<Rightarrow> bl_name l,
      bl_name l,
      case bl_unitPrice l of
        None \<Rightarrow> unitPriceRatio (amount_minor str_of (bl_lineTotal l)) (amount_minor str_of (bl_quantity l))
      | Some p \<Rightarrow> int_text (amount_minor str_of p),
      map_option (\<lambda>t. int_text (amount_minor str_of t)) (bl_taxRate l),
      map_option (\<lambda>d. int_text (amount_minor str_of d)) (bl_discount l),
      sort (case bl_modifiers l of None \<Rightarrow> [] | Some ms \<Rightarrow> ms),
      case bl_note l of None \<Rightarrow> None | Some n \<Rightarrow> (if js_trim n = [] then None else Some (js_trim n)),
      bl_complimentary l = Some True)"

definition merge_line :: "(jsnum \<Rightarrow> jstr) \<Rightarrow> bill_line \<Rightarrow> bill_line \<Rightarrow> bill_line" where
  "merge_line str_of previous l = previous\<lparr>
     bl_quantity := AText (decimalString (amount_minor str_of (bl_quantity previous)
                                          + amount_minor str_of (bl_quantity l))),
     bl_lineTotal := AText (decimalString (amount_minor str_of (bl_lineTotal previous)
                                           + amount_minor str_of (bl_lineTotal l)))\<rparr>"

fun group_line :: "(jsnum \<Rightarrow> jstr) \<Rightarrow> (line_key \<times> bill_line) list \<Rightarrow> bill_line \<Rightarrow> (line_key \<times> bill_line) list" where
  "group_line str_of grouped l =
     (case map_of grouped (line_key str_of l) of
        Some previous \<Rightarrow> AList.update (line_key str_of l) (merge_line str_of previous l) grouped
      | None \<Rightarrow> AList.update (line_key str_of l) l grouped)"

definition aggregateReceiptLines :: "(jsnum \<Rightarrow> jstr) \<Rightarrow> bill_line list \<Rightarrow> bill_line list" where
  "aggregateReceiptLines str_of ls = map snd (foldl (group_line str_of) [] ls)"

lemma nat_digits_pair:
  assumes "a < 10" "b < 10"
  shows "replicate (2 - length (nat_digits (10 * a + b))) 48 @ nat_digits (10 * a + b) = [48 + a, 48 + b]"
  using assms nat_digits.simps [of "10 * a + b"] nat_digits.simps [of a] by (cases "a = 0") auto

lemma int_text_nonneg: "0 \<le> i \<Longrightarrow> int_text i = nat_digits (nat i)"
  by (simp add: int_text_def)

lemma decimalString_text: "decimalString m = minor_text m"
proof -
  let ?n = "nat \<bar>m\<bar>"
  have n: "?n mod 100 = 10 * (?n div 10 mod 10) + ?n mod 10"
    using mod_mult2_eq [of ?n 10 10] by simp
  have abs: "(if m < 0 then - m else m) = \<bar>m\<bar>" by simp
  have parts: "int_text (\<bar>m\<bar> div 100) = nat_digits (?n div 100)" "int_text (\<bar>m\<bar> mod 100) = nat_digits (?n mod 100)"
    by (simp_all add: int_text_nonneg nat_div_distrib nat_mod_distrib)
  have pair: "replicate (2 - length (nat_digits (?n mod 100))) 48 @ nat_digits (?n mod 100)
      = [48 + ?n div 10 mod 10, 48 + ?n mod 10]"
    unfolding n by (rule nat_digits_pair) simp_all
  show ?thesis
    unfolding decimalString_def minor_text_def Let_def abs parts pair ..
qed

lemma decimalString_minor [simp]: "amount_minor str_of (AText (decimalString m)) = m"
  by (simp add: amount_minor_def decimalString_text decimal_roundtrip)

definition line_sum :: "(bill_line \<Rightarrow> int) \<Rightarrow> (line_key \<times> bill_line) list \<Rightarrow> int" where
  "line_sum f grouped = sum_list (map (f \<circ> snd) grouped)"

lemma line_sum_update:
  "distinct (map fst g) \<Longrightarrow>
   line_sum f (AList.update k l g) = line_sum f g + f l - (case map_of g k of None \<Rightarrow> 0 | Some p \<Rightarrow> f p)"
proof (induction g)
  case (Cons x g)
  then show ?case by (cases x) (auto simp: line_sum_def)
qed (simp add: line_sum_def)

lemma group_distinct: "distinct (map fst g) \<Longrightarrow> distinct (map fst (group_line str_of g l))"
  by (auto split: option.splits intro: distinct_update)

lemma group_sum:
  assumes "distinct (map fst g)" and "f = amount_minor str_of \<circ> bl_quantity \<or> f = amount_minor str_of \<circ> bl_lineTotal"
  shows "line_sum f (group_line str_of g l) = line_sum f g + f l"
  using assms by (auto simp: line_sum_update merge_line_def split: option.splits)

lemma group_keys: "fst ` set (group_line str_of g l) = insert (line_key str_of l) (fst ` set g)"
  by (auto simp: dom_map_of_conv_image_fst [symmetric] update_conv' split: option.splits)

declare group_line.simps [simp del]

lemma grouped_keys:
  "distinct (map fst g) \<Longrightarrow> distinct (map fst (foldl (group_line str_of) g ls))
    \<and> fst ` set (foldl (group_line str_of) g ls) = fst ` set g \<union> line_key str_of ` set ls"
proof (induction ls arbitrary: g)
  case (Cons l ls)
  from Cons.IH [OF group_distinct [OF Cons.prems, of str_of l]] group_keys [of str_of g l] show ?case
    unfolding foldl_Cons by auto
qed simp

lemma grouped_sum:
  assumes "f = amount_minor str_of \<circ> bl_quantity \<or> f = amount_minor str_of \<circ> bl_lineTotal"
  shows "distinct (map fst g) \<Longrightarrow> line_sum f (foldl (group_line str_of) g ls) = line_sum f g + sum_list (map f ls)"
proof (induction ls arbitrary: g)
  case (Cons l ls)
  from Cons.IH [OF group_distinct [OF Cons.prems, of str_of l]] group_sum [OF Cons.prems assms, of l] show ?case
    unfolding foldl_Cons by simp
qed simp

text \<open>C34: Grouping a bill loses nothing. The grouped lines have exactly the quantities and the line totals of the
  bill in sum, in exact minor units, and there is one line for every different key of the bill.\<close>

theorem aggregate_conserves:
  "sum_list (map (\<lambda>l. amount_minor str_of (bl_quantity l)) (aggregateReceiptLines str_of ls))
      = sum_list (map (\<lambda>l. amount_minor str_of (bl_quantity l)) ls)
   \<and> sum_list (map (\<lambda>l. amount_minor str_of (bl_lineTotal l)) (aggregateReceiptLines str_of ls))
      = sum_list (map (\<lambda>l. amount_minor str_of (bl_lineTotal l)) ls)
   \<and> length (aggregateReceiptLines str_of ls) = card (line_key str_of ` set ls)"
proof -
  let ?g = "foldl (group_line str_of) [] ls"
  note keys = grouped_keys [of "[]" str_of ls]
  have "length ?g = card (fst ` set ?g)"
    using keys distinct_card [of "map fst ?g"] by simp
  then show ?thesis
    using keys grouped_sum [of "amount_minor str_of \<circ> bl_quantity" str_of "[]" ls]
      grouped_sum [of "amount_minor str_of \<circ> bl_lineTotal" str_of "[]" ls]
    by (simp add: aggregateReceiptLines_def line_sum_def comp_def)
qed

text \<open>Two lines without a unit price fall together exactly when their totals are in the ratio of their
  quantities.\<close>

lemma digit_not_minus: "is_digit c \<Longrightarrow> c \<noteq> 45"
  by (auto simp: is_digit_def)

lemma int_text_inj_all: "int_text i = int_text j \<longleftrightarrow> i = j"
proof -
  have "is_digit (hd (nat_digits n))" for n
    using nat_digits_are_digits [of n] by (simp add: list.set_sel)
  then have "nat_digits n \<noteq> 45 # r" for n r
    by (metis list.sel(1) digit_not_minus)
  then show ?thesis by (auto simp: int_text_def dest: sym)
qed

lemma int_text_no_slash: "47 \<notin> set (int_text i)"
  using nat_digits_are_digits [of "nat i"] nat_digits_are_digits [of "nat (- i)"]
  by (auto simp: int_text_def is_digit_def)

lemma slash_parts: "int_text a @ [47] @ int_text b = int_text c @ [47] @ int_text d \<longleftrightarrow> a = c \<and> b = d"
proof
  assume "int_text a @ [47] @ int_text b = int_text c @ [47] @ int_text d"
  then have "split_on 47 (int_text a @ 47 # int_text b) = split_on 47 (int_text c @ 47 # int_text d)" by simp
  then show "a = c \<and> b = d"
    using int_text_no_slash by (simp add: split_on_append_sep split_on_plain int_text_inj_all)
qed simp

lemma sdiv_dvd: "(g :: int) dvd t \<Longrightarrow> 0 < g \<Longrightarrow> t sdiv g = t div g"
  by (auto simp: signed_divide_int_def abs_mult sgn_mult sgn_mult_abs elim!: dvdE)

lemma unitPriceRatio_text:
  assumes "0 < q"
  shows "unitPriceRatio t q = int_text (t div gcd t q) @ [47] @ int_text (q div gcd t q)"
proof -
  have "(if t < 0 then - t else t) = \<bar>t\<bar>" by simp
  moreover have "0 < gcd t q" using assms by (simp add: gcd_pos_int)
  ultimately show ?thesis
    using assms ratio_gcd_gcd [of "\<bar>t\<bar>" q] by (simp add: unitPriceRatio_def sdiv_dvd Let_def)
qed

lemma reduced_fraction_eq:
  assumes "0 < q" "0 < (r :: int)"
  shows "t div gcd t q = u div gcd u r \<and> q div gcd t q = r div gcd u r \<longleftrightarrow> t * r = u * q"
proof -
  have "t div gcd t q = u div gcd u r \<and> q div gcd t q = r div gcd u r \<longleftrightarrow> Rat.normalize (t, q) = Rat.normalize (u, r)"
    using assms by (simp add: Rat.normalize_def Let_def)
  also have "\<dots> \<longleftrightarrow> Fract t q = Fract u r"
    by (simp add: quotient_of_Fract [symmetric] quotient_of_inject_eq)
  finally show ?thesis using assms by (simp add: eq_rat)
qed

lemma ratio_groups: "0 < q \<Longrightarrow> 0 < r \<Longrightarrow> unitPriceRatio t q = unitPriceRatio u r \<longleftrightarrow> t * r = u * q"
  by (simp add: unitPriceRatio_text reduced_fraction_eq slash_parts [simplified])

section \<open>The key of a bill\<close>

record bill_item =
  bi_id :: jstr
  bi_status :: jstr
  bi_quantity :: amount
  bi_line_total :: amount
  bi_note :: "jstr option"
  bi_is_complimentary :: "bool option"

fun to_number :: "(rat \<Rightarrow> jsnum) \<Rightarrow> amount \<Rightarrow> jsnum" where
  "to_number rnd (AText s) = str_number rnd s"
| "to_number rnd (ANumber n) = n"

definition bill_content :: "(rat \<Rightarrow> jsnum) \<Rightarrow> bill_item \<Rightarrow> jstr \<times> json" where
  "bill_content rnd item = (bi_id item, JObj [(js ''id'', JStr (bi_id item)),
     (js ''quantity'', JNum (to_number rnd (bi_quantity item))),
     (js ''total'', JNum (to_number rnd (bi_line_total item))),
     (js ''note'', JStr (case bi_note item of None \<Rightarrow> [] | Some n \<Rightarrow> n)),
     (js ''complimentary'', JBool (case bi_is_complimentary item of None \<Rightarrow> False | Some b \<Rightarrow> b))])"

definition billed :: "bill_item \<Rightarrow> bool" where
  "billed item \<longleftrightarrow> bi_status item \<notin> set (map js [''CANCELLED'', ''VOIDED''])"

text \<open>FNV-1a on 64 bits over the code units of a text, and \<open>toString(16)\<close>.\<close>

definition fnv_step :: "64 word \<Rightarrow> nat \<Rightarrow> 64 word" where
  "fnv_step hash c = (hash XOR word_of_nat c) * 0x100000001b3"

definition fnv1a :: "jstr \<Rightarrow> 64 word" where
  "fnv1a content = foldl fnv_step 0xcbf29ce484222325 content"

fun hex_text :: "nat \<Rightarrow> jstr" where
  "hex_text n = (if n < 16 then [if n < 10 then 48 + n else 87 + n]
     else hex_text (n div 16) @ [if n mod 16 < 10 then 48 + n mod 16 else 87 + n mod 16])"

declare hex_text.simps [simp del]

text \<open>\<open>json_text\<close> is \<open>JSON.stringify\<close>, \<open>cmp\<close> is \<open>localeCompare\<close>.\<close>

definition originalBillPrintKey ::
  "(rat \<Rightarrow> jsnum) \<Rightarrow> (jstr \<Rightarrow> jstr \<Rightarrow> int) \<Rightarrow> (json \<Rightarrow> jstr) \<Rightarrow> jstr \<Rightarrow> amount \<Rightarrow> bill_item list \<Rightarrow> jstr" where
  "originalBillPrintKey rnd cmp json_text orderId orderTotal items =
     (let content = json_text (JObj [(js ''total'', JNum (to_number rnd orderTotal)),
            (js ''lines'', JArr (map snd (sort_cmp (\<lambda>a b. cmp (fst a) (fst b))
               (map (bill_content rnd) (filter billed items)))))])
      in js ''bill-original:'' @ orderId @ js '':'' @ hex_text (unat (fnv1a content)))"

lemma fnv_prime_inverse: "(0x100000001b3 :: 64 word) * 0xce965057aff6957b = 1"
  by simp

lemma unit_cancel: "p * i = (1 :: 'a :: comm_ring_1) \<Longrightarrow> x * p = y * p \<Longrightarrow> x = y"
  by (metis mult.assoc mult.right_neutral)

lemma xor_right_cancel:
  assumes "a XOR c = b XOR (c :: 64 word)"
  shows "a = b"
proof -
  have "(a XOR c) XOR c = (b XOR c) XOR c" using assms by (rule arg_cong)
  then show ?thesis unfolding xor.assoc xor_self_eq xor.right_neutral .
qed

lemma fnv_step_hash: "fnv_step h c = fnv_step k c \<Longrightarrow> h = k"
  unfolding fnv_step_def by (rule xor_right_cancel, rule unit_cancel [OF fnv_prime_inverse])

lemma fnv_step_unit:
  assumes "fnv_step h c = fnv_step h d" and "c < 65536" "d < 65536"
  shows "c = d"
proof -
  have "h XOR word_of_nat c = h XOR word_of_nat d"
    using assms(1) unfolding fnv_step_def by (rule unit_cancel [OF fnv_prime_inverse])
  then have "word_of_nat c XOR h = word_of_nat d XOR h" unfolding xor.commute [of h] .
  then have "word_of_nat c = (word_of_nat d :: 64 word)" by (rule xor_right_cancel)
  then have "unat (word_of_nat c :: 64 word) = unat (word_of_nat d :: 64 word)" by simp
  then show ?thesis using assms(2,3) by (simp add: unat_of_nat)
qed

lemma fnv_tail: "foldl fnv_step h s = foldl fnv_step k s \<Longrightarrow> h = k"
  by (induction s arbitrary: h k) (auto dest: fnv_step_hash)

text \<open>A bill whose content differs in one code unit has another hash.\<close>

lemma fnv1a_single_edit:
  "fnv1a (s @ c # t) = fnv1a (s @ d # t) \<Longrightarrow> c < 65536 \<Longrightarrow> d < 65536 \<Longrightarrow> c = d"
  using fnv_step_unit fnv_tail unfolding fnv1a_def by simp blast

text \<open>Repeated clicks reuse a job: the key of a bill depends only on its order, its total and the lines that
  are billed, not on the order in which the API lists them nor on cancelled lines. (\<open>localeCompare\<close> is a
  total order that tells the ids of the bill apart.)\<close>

theorem bill_key_canonical:
  assumes total: "\<And>a b. cmp a b \<le> 0 \<or> cmp b a \<le> 0"
    and trans: "\<And>a b c. cmp a b \<le> 0 \<Longrightarrow> cmp b c \<le> 0 \<Longrightarrow> cmp a c \<le> 0"
    and apart: "\<And>a b. cmp a b \<le> 0 \<Longrightarrow> cmp b a \<le> 0 \<Longrightarrow> a = b"
    and ids: "distinct (map bi_id xs)"
    and same: "mset (filter billed xs) = mset (filter billed ys)"
  shows "originalBillPrintKey rnd cmp json_text orderId orderTotal xs
    = originalBillPrintKey rnd cmp json_text orderId orderTotal ys"
proof -
  let ?c = "\<lambda>a b. cmp (fst a) (fst b) :: int"
  let ?s = "\<lambda>items. sort_cmp ?c (map (bill_content rnd) (filter billed items))"
  have "?s xs = ?s ys"
  proof (rule sorted_unique)
    show "sorted_wrt (\<lambda>a b. ?c a b \<le> 0) (?s xs)" "sorted_wrt (\<lambda>a b. ?c a b \<le> 0) (?s ys)"
      by (intro sort_cmp_sorted; use total trans in blast)+
    show "mset (?s xs) = mset (?s ys)" unfolding mset_sort_cmp mset_map same ..
  next
    fix a b
    assume "a \<in> set (?s xs)" "b \<in> set (?s xs)" "?c a b \<le> 0" "?c b a \<le> 0"
    then obtain i j where ij: "a = bill_content rnd i" "b = bill_content rnd j" "i \<in> set xs" "j \<in> set xs"
      "fst a = fst b" using apart by auto
    then have "bi_id i = bi_id j" by (simp add: bill_content_def)
    with ij ids show "a = b" by (metis distinct_map inj_onD)
  qed
  then show ?thesis by (simp add: originalBillPrintKey_def)
qed

text \<open>Two lines of a bill listed both ways, with a cancelled line in one of them; ids are compared by length.\<close>

definition demo_item :: "string \<Rightarrow> string \<Rightarrow> bill_item" where
  "demo_item i status = \<lparr>bi_id = js i, bi_status = js status, bi_quantity = AText (js ''1''),
     bi_line_total = AText (js ''10.00''), bi_note = None, bi_is_complimentary = None\<rparr>"

definition demo_compare :: "jstr \<Rightarrow> jstr \<Rightarrow> int" where
  "demo_compare a b = (if a = b then 0 else if a < b then - 1 else 1)"

lemma bill_key_canonical_witness:
  "originalBillPrintKey Fin demo_compare (\<lambda>_. []) (js ''o'') (AText (js ''20.00''))
       [demo_item ''a'' ''SERVED'', demo_item ''c'' ''VOIDED'', demo_item ''b'' ''SERVED'']
     = originalBillPrintKey Fin demo_compare (\<lambda>_. []) (js ''o'') (AText (js ''20.00''))
       [demo_item ''b'' ''SERVED'', demo_item ''a'' ''SERVED'']"
proof (rule bill_key_canonical)
  show "demo_compare a b \<le> 0 \<or> demo_compare b a \<le> 0" for a b by (auto simp: demo_compare_def)
  show "demo_compare a c \<le> 0" if "demo_compare a b \<le> 0" "demo_compare b c \<le> 0" for a b c
    using that by (auto simp: demo_compare_def split: if_splits)
  show "a = b" if "demo_compare a b \<le> 0" "demo_compare b a \<le> 0" for a b
    using that by (auto simp: demo_compare_def split: if_splits)
qed (simp_all add: demo_item_def billed_def)

end
