(* ===== verification/Ordering.thy ===== *)
theory Ordering
  imports Js_Prelude
begin

text \<open>
  Rules of the ordering and till screens: modifier selection (\<open>components/qr/modifier-selection.ts\<close>), the current
  order of a table and closing it (\<open>components/cashier/cashier-rules.ts\<close>), how long a table has been sitting
  (\<open>components/cashier/table-dwell.ts\<close>), commands whose outcome is uncertain (\<open>lib/pending-command.ts\<close>) and the
  subscription price (\<open>lib/pricing.ts\<close>), all under \<open>apps/web/src\<close>.
\<close>

section \<open>Modifiers\<close>

record modifier_option =
  mo_id :: jstr
  mo_name :: jstr
  mo_price_delta :: jstr
  mo_is_active :: "bool option"

record modifier_group =
  mg_id :: jstr
  mg_name :: jstr
  mg_is_required :: bool
  mg_minimum_selection :: int
  mg_maximum_selection :: "int option"
  mg_modifiers :: "modifier_option list"

type_synonym modifier_selection = "jstr \<rightharpoonup> jstr list"

definition selected_ids :: "modifier_selection \<Rightarrow> modifier_group \<Rightarrow> jstr list" where
  "selected_ids current grp = (case current (mg_id grp) of None \<Rightarrow> [] | Some values \<Rightarrow> values)"

definition toggleModifierSelection :: "modifier_selection \<Rightarrow> modifier_group \<Rightarrow> jstr \<Rightarrow> modifier_selection" where
  "toggleModifierSelection current grp modifierId =
     (let values = selected_ids current grp in
      if modifierId \<in> set values
      then current(mg_id grp \<mapsto> filter (\<lambda>v. v \<noteq> modifierId) values)
      else if (case mg_maximum_selection grp of
                 None \<Rightarrow> False | Some maximum \<Rightarrow> maximum \<noteq> 0 \<and> maximum \<le> int (length values))
      then (if mg_maximum_selection grp = Some 1 then current(mg_id grp \<mapsto> [modifierId]) else current)
      else current(mg_id grp \<mapsto> values @ [modifierId]))"

definition group_invalid :: "modifier_selection \<Rightarrow> modifier_group \<Rightarrow> bool" where
  "group_invalid selected grp =
     (let count = int (length (selected_ids selected grp));
          minimum = max (mg_minimum_selection grp) (if mg_is_required grp then 1 else 0)
      in count < minimum
         \<or> (case mg_maximum_selection grp of None \<Rightarrow> False | Some maximum \<Rightarrow> maximum < count))"

fun invalidModifierGroup :: "modifier_group list \<Rightarrow> modifier_selection \<Rightarrow> modifier_group option" where
  "invalidModifierGroup [] selected = None"
| "invalidModifierGroup (grp # groups) selected =
     (if group_invalid selected grp then Some grp else invalidModifierGroup groups selected)"

definition selectedModifierOptions :: "modifier_group list \<Rightarrow> modifier_selection \<Rightarrow> modifier_option list" where
  "selectedModifierOptions groups selected =
     concat (map (\<lambda>grp. filter (\<lambda>m. mo_is_active m \<noteq> Some False \<and> mo_id m \<in> set (selected_ids selected grp))
       (mg_modifiers grp)) groups)"

text \<open>A selection is within the limits of its groups when no group holds more than its positive maximum or an
  option twice.\<close>

definition within_limits :: "modifier_group list \<Rightarrow> modifier_selection \<Rightarrow> bool" where
  "within_limits groups selected \<longleftrightarrow> list_all (\<lambda>g. distinct (selected_ids selected g)
     \<and> (case mg_maximum_selection g of None \<Rightarrow> True
        | Some maximum \<Rightarrow> 0 < maximum \<longrightarrow> int (length (selected_ids selected g)) \<le> maximum)) groups"

lemma selected_after_toggle:
  "mg_id g \<noteq> mg_id h \<Longrightarrow> selected_ids (toggleModifierSelection s h i) g = selected_ids s g"
  by (simp add: toggleModifierSelection_def selected_ids_def Let_def)

lemma selected_same_id: "mg_id g = mg_id h \<Longrightarrow> selected_ids s g = selected_ids s h"
  by (simp add: selected_ids_def)

lemma toggle_within:
  assumes "within_limits [g] s"
  shows "within_limits [g] (toggleModifierSelection s g i)"
proof -
  have "length (filter (\<lambda>v. v \<noteq> i) (selected_ids s g)) \<le> length (selected_ids s g)" by (rule length_filter_le)
  note shorter = this order_trans [OF iffD2 [OF of_nat_le_iff [where 'a = int] this]]
  show ?thesis
    using assms
    by (auto simp: within_limits_def toggleModifierSelection_def Let_def Suc_le_eq
        selected_ids_def [of "_(_ \<mapsto> _)"] split: option.splits intro: shorter le_trans [OF shorter(1)])
qed

lemma toggles_within:
  assumes "within_limits groups s" and "distinct (map mg_id groups)" and "h \<in> set groups"
  shows "within_limits groups (toggleModifierSelection s h i)"
proof -
  have "within_limits [g] (toggleModifierSelection s h i)" if g: "g \<in> set groups" for g
  proof (cases "g = h")
    case True
    have "within_limits [h] s" using assms(1,3) by (auto simp: within_limits_def list_all_iff)
    with True show ?thesis by (simp add: toggle_within)
  next
    case False
    then have "mg_id g \<noteq> mg_id h" using assms(2,3) g by (auto simp: distinct_map inj_on_def)
    with assms(1) g show ?thesis
      by (auto simp: within_limits_def list_all_iff selected_after_toggle split: option.splits)
  qed
  then show ?thesis by (auto simp: within_limits_def list_all_iff)
qed

text \<open>So a selection made by toggling from nothing is only ever refused because a group still lacks options, or
  because its maximum is not positive.\<close>

lemma toggled_invalid:
  assumes "distinct (map mg_id groups)" and "\<forall>(h, i)\<in>set clicks. h \<in> set groups"
    and "invalidModifierGroup groups (foldl (\<lambda>s (h, i). toggleModifierSelection s h i) Map.empty clicks) = Some g"
  shows "int (length (selected_ids (foldl (\<lambda>s (h, i). toggleModifierSelection s h i) Map.empty clicks) g))
      < max (mg_minimum_selection g) (if mg_is_required g then 1 else 0)
    \<or> (\<exists>m\<le>0. mg_maximum_selection g = Some m)"
proof -
  let ?s = "foldl (\<lambda>s (h, i). toggleModifierSelection s h i)"
  have "within_limits groups s \<Longrightarrow> within_limits groups (?s s clicks)" for s
    using assms(2)
  proof (induction clicks arbitrary: s)
    case (Cons x xs)
    then show ?case using toggles_within [OF _ assms(1)] by (cases x) auto
  qed simp
  then have "within_limits groups (?s Map.empty clicks)"
    by (simp add: within_limits_def list_all_iff selected_ids_def split: option.splits)
  moreover have "g \<in> set groups \<and> group_invalid (?s Map.empty clicks) g"
    using assms(3) by (induction groups) (auto split: if_splits)
  ultimately show ?thesis
    by (auto simp: within_limits_def list_all_iff group_invalid_def Let_def split: option.splits)
qed

lemma valid_selection: "invalidModifierGroup groups s = None \<longleftrightarrow> list_all (\<lambda>g. \<not> group_invalid s g) groups"
  by (induction groups) auto

section \<open>The current order of a table\<close>

record order_reference =
  or_table_id :: "jstr option"
  or_table_name :: "jstr option"
  or_table_session_id :: "jstr option"
  or_status :: jstr

record table_reference =
  tr_id :: jstr
  tr_name :: jstr
  tr_state :: jstr

definition terminalOrderStatuses :: "jstr set" where
  "terminalOrderStatuses = set (map js [''PAID'', ''CANCELLED'', ''VOIDED''])"

definition zeroTotalCloseableStatuses :: "jstr set" where
  "zeroTotalCloseableStatuses = set (map js [''SERVED'', ''BILL_REQUESTED'', ''PAYMENT_PENDING''])"

definition belongsToTable :: "'a order_reference_scheme \<Rightarrow> 'b table_reference_scheme \<Rightarrow> bool" where
  "belongsToTable order table =
     (if truthy (or_table_id order) then or_table_id order = Some (tr_id table)
      else or_table_name order = Some (tr_name table))"

definition unoccupied :: "'b table_reference_scheme \<Rightarrow> bool" where
  "unoccupied table \<longleftrightarrow> tr_state table = js ''AVAILABLE'' \<or> tr_state table = js ''DISABLED''"

definition selectCurrentTableOrder ::
  "'a order_reference_scheme list \<Rightarrow> 'b table_reference_scheme option \<Rightarrow> 'a order_reference_scheme option" where
  "selectCurrentTableOrder orders table = (case table of
       None \<Rightarrow> None
     | Some t \<Rightarrow>
        (let tableOrders = filter (\<lambda>order. belongsToTable order t) orders in
         case List.find (\<lambda>order. or_status order \<notin> terminalOrderStatuses) tableOrders of
           Some order \<Rightarrow> Some order
         | None \<Rightarrow>
             if unoccupied t then None
             else List.find (\<lambda>order. or_status order \<in> terminalOrderStatuses) tableOrders))"

text \<open>\<open>remainingBalance <= 0.005\<close>\<close>

fun settled :: "jsnum \<Rightarrow> bool" where
  "settled (Fin q) = (q \<le> 5 / 1000)"
| "settled NInf = True"
| "settled _ = False"

definition canCloseTableSession ::
  "'a order_reference_scheme option \<Rightarrow> 'b table_reference_scheme option \<Rightarrow> jsnum \<Rightarrow> bool" where
  "canCloseTableSession order table remainingBalance = (case (order, table) of
       (Some ord, Some t) \<Rightarrow>
         if \<not> truthy (or_table_session_id ord) then False
         else if unoccupied t then False
         else if or_status ord \<notin> terminalOrderStatuses
           \<and> \<not> (settled remainingBalance \<and> or_status ord \<in> zeroTotalCloseableStatuses) then False
         else or_status ord \<noteq> js ''PAID'' \<or> settled remainingBalance
     | _ \<Rightarrow> False)"

lemma find_member: "List.find P xs = Some x \<Longrightarrow> x \<in> set xs \<and> P x"
  by (auto simp: find_Some_iff)

lemma current_order_belongs:
  "selectCurrentTableOrder orders (Some t) = Some order \<Longrightarrow> order \<in> set orders \<and> belongsToTable order t"
  by (auto simp: selectCurrentTableOrder_def Let_def split: option.splits if_splits dest!: find_member)

text \<open>An open order of the table is never hidden behind a closed one.\<close>

lemma open_order_first:
  assumes "order \<in> set orders" "belongsToTable order t" "or_status order \<notin> terminalOrderStatuses"
  shows "\<exists>current. selectCurrentTableOrder orders (Some t) = Some current \<and> or_status current \<notin> terminalOrderStatuses"
proof -
  let ?find = "List.find (\<lambda>order. or_status order \<notin> terminalOrderStatuses) (filter (\<lambda>order. belongsToTable order t) orders)"
  have "?find \<noteq> None" using assms by (auto simp: find_None_iff)
  then obtain current where "?find = Some current" by blast
  then show ?thesis
    using find_member by (fastforce simp: selectCurrentTableOrder_def)
qed

text \<open>A table is closed with money outstanding only when its order was cancelled or voided.\<close>

lemma closed_with_balance:
  assumes "canCloseTableSession (Some order) (Some t) balance" "\<not> settled balance"
  shows "or_status order \<in> {js ''CANCELLED'', js ''VOIDED''}"
  using assms by (auto simp: canCloseTableSession_def terminalOrderStatuses_def split: if_splits)

section \<open>How long a table has been sitting\<close>

text \<open>\<open>started\<close> is the time of the opening in milliseconds, absent when there is none or it is no date.\<close>

definition dwellMinutes :: "int option \<Rightarrow> int \<Rightarrow> int option" where
  "dwellMinutes started now = map_option (\<lambda>s. max 0 ((now - s) div 60000)) started"

datatype dwell_urgency = Fresh | Settled | Long

definition dwellUrgency :: "int \<Rightarrow> dwell_urgency" where
  "dwellUrgency minutes = (if 90 \<le> minutes then Long else if 45 \<le> minutes then Settled else Fresh)"

definition formatDwell :: "int \<Rightarrow> jstr" where
  "formatDwell minutes =
     (if minutes < 60 then int_text minutes @ js ''dk''
      else let hours = minutes div 60; rest = minutes mod 60 in
        if rest = 0 then int_text hours @ js ''s''
        else int_text hours @ js ''s '' @ int_text rest @ js ''dk'')"

lemma dwell_bands:
  "dwellMinutes (Some s) now = Some m \<Longrightarrow> dwellUrgency m = Long \<longleftrightarrow> s + 90 * 60000 \<le> now"
  by (auto simp: dwellMinutes_def dwellUrgency_def)

section \<open>Commands with an uncertain outcome\<close>

record command =
  cm_path :: jstr
  cm_body :: jobj

text \<open>The \<open>Map\<close> of prepared commands, by an intent of any type (in the source the JSON text of it); a new
  command gets the random key that is passed in.\<close>

type_synonym 'k pending_commands = "('k \<times> command) list"

definition prepare :: "jstr \<Rightarrow> 'k pending_commands \<Rightarrow> 'k \<Rightarrow> jstr \<Rightarrow> jobj \<Rightarrow> command \<times> 'k pending_commands" where
  "prepare uuid commands intent path payload = (case map_of commands intent of
       Some c \<Rightarrow> (c, commands)
     | None \<Rightarrow>
        (let c = \<lparr>cm_path = path, cm_body = AList.update (js ''idempotency_key'') (JStr uuid) payload\<rparr>
         in (c, AList.update intent c commands)))"

definition confirmed :: "'k \<Rightarrow> 'k pending_commands \<Rightarrow> 'k pending_commands" where
  "confirmed intent commands = AList.delete intent commands"

datatype 'k pending_event = Prepare jstr 'k jstr jobj | Confirmed 'k

fun pending_step :: "'k pending_commands \<Rightarrow> 'k pending_event \<Rightarrow> 'k pending_commands" where
  "pending_step commands (Prepare uuid intent path payload) = snd (prepare uuid commands intent path payload)"
| "pending_step commands (Confirmed intent) = confirmed intent commands"

lemma pending_kept:
  "map_of commands intent = Some c \<Longrightarrow> Confirmed intent \<notin> set events \<Longrightarrow>
   map_of (foldl pending_step commands events) intent = Some c"
proof (induction events arbitrary: commands)
  case (Cons e events)
  from Cons.prems have "map_of (pending_step commands e) intent = Some c"
    by (cases e) (auto simp: prepare_def confirmed_def update_conv' delete_conv' Let_def split: option.splits)
  with Cons show ?case by simp
qed simp

text \<open>While the outcome of a command is uncertain every further attempt repeats it: whatever is prepared or
  confirmed in between, as long as the intent itself is not confirmed, preparing it again gives the very
  same endpoint, payload and idempotency key, also when the caller passes others. After the confirmation the
  next attempt is a new command with a key of its own.\<close>

theorem pending_command_repeats:
  assumes "prepare uuid commands intent path payload = (c, commands')" and "Confirmed intent \<notin> set events"
  shows "fst (prepare uuid' (foldl pending_step commands' events) intent path' payload') = c
    \<and> fld (cm_body (fst (prepare uuid' (confirmed intent (foldl pending_step commands' events)) intent path' payload')))
        ''idempotency_key'' = Some (JStr uuid')"
proof -
  have "map_of commands' intent = Some c"
    using assms(1) by (auto simp: prepare_def Let_def update_conv' split: option.splits)
  from pending_kept [OF this assms(2)] show ?thesis
    by (simp add: prepare_def confirmed_def delete_conv' Let_def fld_def update_conv')
qed

lemma pending_command_repeats_witness:
  "fst (prepare (js ''k2'') (foldl pending_step (snd (prepare (js ''k1'') [] (js ''pay'') (js ''payments'') []))
      [Prepare (js ''k3'') (js ''void'') (js ''orders'') [], Confirmed (js ''void'')]) (js ''pay'') (js ''other'') [])
    = fst (prepare (js ''k1'') [] (js ''pay'') (js ''payments'') [])"
  by (rule pending_command_repeats [THEN conjunct1, of "js ''k1''" "[]" "js ''pay''" "js ''payments''" "[]"])
    (simp_all add: prepare_def Let_def)

section \<open>The price of a subscription\<close>

definition monthlyTotal :: "int \<Rightarrow> int" where
  "monthlyTotal activeBranches = 1200 + max (activeBranches - 1) 0 * 850"

end
