(* ===== verification/Till.thy ===== *)
theory Till
  imports Bill_Lines Ordering
begin

text \<open>
  The cashier's screen, \<open>apps/web/src/components/cashier/cashier-workspace.tsx\<close>: what is owed, which payments
  may be entered and which tables an order can be merged with. Amounts are doubles in the source: a sum is
  rounded by \<open>rnd\<close> after every operation, as in IEEE 754.
\<close>

section \<open>Double arithmetic\<close>

fun js_add :: "(rat \<Rightarrow> jsnum) \<Rightarrow> jsnum \<Rightarrow> jsnum \<Rightarrow> jsnum" where
  "js_add rnd (Fin a) (Fin b) = rnd (a + b)"
| "js_add rnd NaN b = NaN"
| "js_add rnd a NaN = NaN"
| "js_add rnd PInf b = (if b = NInf then NaN else PInf)"
| "js_add rnd NInf b = (if b = PInf then NaN else NInf)"
| "js_add rnd (Fin a) b = b"

fun js_neg :: "jsnum \<Rightarrow> jsnum" where
  "js_neg (Fin a) = Fin (- a)" | "js_neg PInf = NInf" | "js_neg NInf = PInf" | "js_neg NaN = NaN"

definition js_sub :: "(rat \<Rightarrow> jsnum) \<Rightarrow> jsnum \<Rightarrow> jsnum \<Rightarrow> jsnum" where
  "js_sub rnd a b = js_add rnd a (js_neg b)"

text \<open>\<open>Math.max(0, x)\<close>, \<open>x * 100\<close> and \<open>Math.round\<close>\<close>

fun js_max0 :: "jsnum \<Rightarrow> jsnum" where
  "js_max0 (Fin a) = Fin (max 0 a)" | "js_max0 NInf = Fin 0" | "js_max0 v = v"

fun js_cents :: "(rat \<Rightarrow> jsnum) \<Rightarrow> jsnum \<Rightarrow> jsnum" where
  "js_cents rnd (Fin a) = rnd (a * 100)" | "js_cents rnd v = v"

fun js_round :: "jsnum \<Rightarrow> jsnum" where
  "js_round (Fin a) = Fin (of_int \<lfloor>a + 1 / 2\<rfloor>)" | "js_round v = v"

fun num_le :: "jsnum \<Rightarrow> jsnum \<Rightarrow> bool" where
  "num_le (Fin a) (Fin b) = (a \<le> b)"
| "num_le NaN b = False"
| "num_le a NaN = False"
| "num_le NInf b = True"
| "num_le a PInf = True"
| "num_le a b = False"

section \<open>Orders at the till\<close>

record payment =
  py_id :: jstr
  py_method :: jstr
  py_amount :: amount
  py_status :: jstr

record till_order = order_reference +
  to_id :: jstr
  to_total :: amount
  to_payments :: "payment list"
  to_items :: "bill_item list"
  to_version :: jsnum

record till_table = table_reference +
  tt_version :: jsnum

definition paid :: "(rat \<Rightarrow> jsnum) \<Rightarrow> till_order option \<Rightarrow> jsnum" where
  "paid rnd order = (case order of
       None \<Rightarrow> Fin 0
     | Some ord \<Rightarrow> foldl (\<lambda>s p. js_add rnd s (to_number rnd (py_amount p))) (Fin 0)
         (filter (\<lambda>p. py_status p = js ''COMPLETED'') (to_payments ord)))"

definition remaining :: "(rat \<Rightarrow> jsnum) \<Rightarrow> till_order option \<Rightarrow> jsnum" where
  "remaining rnd order = js_max0 (js_sub rnd
     (case order of None \<Rightarrow> Fin 0 | Some ord \<Rightarrow> to_number rnd (to_total ord)) (paid rnd order))"

definition canCollectPayment :: "(rat \<Rightarrow> jsnum) \<Rightarrow> till_order option \<Rightarrow> bool" where
  "canCollectPayment rnd order = (case order of
       None \<Rightarrow> False
     | Some ord \<Rightarrow> num_less (Fin 0) (remaining rnd order)
         \<and> (or_status ord \<notin> terminalOrderStatuses
            \<or> (or_status ord = js ''PAID'' \<and> list_ex (\<lambda>p. py_status p = js ''REFUNDED'') (to_payments ord))))"

text \<open>\<open>/^(?:\d+(?:\.\d{0,2})?|\.\d{1,2})$/\<close>\<close>

definition money_text :: "jstr \<Rightarrow> bool" where
  "money_text s =
     (let ds = takeWhile is_digit s; r = dropWhile is_digit s in
      case r of
        [] \<Rightarrow> ds \<noteq> []
      | c # fs \<Rightarrow> c = 46 \<and> list_all is_digit fs \<and> length fs \<le> 2 \<and> (ds \<noteq> [] \<or> fs \<noteq> []))"

definition paymentAmountValid :: "(rat \<Rightarrow> jsnum) \<Rightarrow> jstr \<Rightarrow> jsnum \<Rightarrow> bool" where
  "paymentAmountValid rnd paymentAmount balance =
     (let v = str_number rnd paymentAmount in
      money_text paymentAmount \<and> is_finite v \<and> num_less (Fin 0) v
      \<and> num_le (js_round (js_cents rnd v)) (js_round (js_cents rnd balance)))"

definition outstandingTotal :: "(rat \<Rightarrow> jsnum) \<Rightarrow> till_order list \<Rightarrow> jsnum" where
  "outstandingTotal rnd orders = foldl (\<lambda>s ord. js_add rnd s (remaining rnd (Some ord))) (Fin 0) orders"

section \<open>Tables an order can be merged with\<close>

definition table_of_order :: "till_table list \<Rightarrow> till_order \<Rightarrow> till_table option" where
  "table_of_order tables ord = first_of
     (List.find (\<lambda>t. or_table_id ord = Some (tr_id t)) tables)
     (List.find (\<lambda>t. or_table_name ord = Some (tr_name t)) tables)"

definition merge_step :: "till_table list \<Rightarrow> jstr option \<Rightarrow> jstr option
    \<Rightarrow> (jstr \<times> till_table \<times> till_order) list \<Rightarrow> till_order \<Rightarrow> (jstr \<times> till_table \<times> till_order) list" where
  "merge_step tables selectedOrderId selectedTableId candidates ord =
     (if Some (to_id ord) = selectedOrderId \<or> or_status ord \<in> terminalOrderStatuses then candidates
      else case table_of_order tables ord of
        None \<Rightarrow> candidates
      | Some t \<Rightarrow>
          if Some (tr_id t) = selectedTableId \<or> map_of candidates (tr_id t) \<noteq> None then candidates
          else AList.update (tr_id t) (t, ord) candidates)"

definition buildMergeCandidates :: "till_order list \<Rightarrow> till_table list \<Rightarrow> jstr option \<Rightarrow> jstr option
    \<Rightarrow> (till_table \<times> till_order) list" where
  "buildMergeCandidates orders tables selectedOrderId selectedTableId =
     map snd (foldl (merge_step tables selectedOrderId selectedTableId) [] orders)"

definition same_order :: "till_order \<Rightarrow> till_order \<Rightarrow> bool" where
  "same_order a b \<longleftrightarrow> to_id a = to_id b"

text \<open>What the cache of orders becomes when an added product or a changed item comes back.\<close>

definition replace_order :: "till_order \<Rightarrow> till_order list \<Rightarrow> till_order list" where
  "replace_order updated orders = map (\<lambda>ord. if same_order ord updated then updated else ord) orders"

definition upsert_order :: "till_order \<Rightarrow> till_order list \<Rightarrow> till_order list" where
  "upsert_order updated orders =
     (if list_ex (\<lambda>ord. same_order ord updated) orders then replace_order updated orders
      else orders @ [updated])"

section \<open>Rounding\<close>

text \<open>
  Rounding to the nearest double: the relative error is at most \<open>2\<^sup>-\<^sup>5\<^sup>3\<close>, below the normal range the
  absolute error is tiny; zero is kept; a result is only infinite beyond the finite range, and has the sign of the
  exact value.
\<close>

definition double_rounding :: "(rat \<Rightarrow> jsnum) \<Rightarrow> bool" where
  "double_rounding rnd \<longleftrightarrow>
     (\<forall>q r. rnd q = Fin r \<longrightarrow> \<bar>r - q\<bar> \<le> \<bar>q\<bar> / 2 ^ 53 + 1 / 10 ^ 300)
     \<and> (\<forall>q. \<bar>q\<bar> \<le> 10 ^ 300 \<longrightarrow> (\<exists>r. rnd q = Fin r))
     \<and> (\<forall>q. rnd q \<noteq> NaN \<and> (0 \<le> q \<longrightarrow> rnd q \<noteq> NInf)) \<and> rnd 0 = Fin 0"

lemma rounding_finite: "double_rounding rnd \<Longrightarrow> \<bar>q\<bar> \<le> 4 * 10 ^ 11 \<Longrightarrow> \<exists>r. rnd q = Fin r"
proof -
  assume "double_rounding rnd" and q: "\<bar>q\<bar> \<le> 4 * 10 ^ 11"
  moreover have "(4 * 10 ^ 11 :: rat) \<le> 10 ^ 300" by simp
  ultimately show ?thesis unfolding double_rounding_def by (metis order_trans)
qed

lemma rounding_error:
  "double_rounding rnd \<Longrightarrow> rnd q = Fin r \<Longrightarrow> \<bar>q\<bar> \<le> B \<Longrightarrow> B / 2 ^ 53 + 1 / 10 ^ 300 \<le> d \<Longrightarrow> \<bar>r - q\<bar> \<le> d"
proof -
  assume "double_rounding rnd" "rnd q = Fin r" and b: "\<bar>q\<bar> \<le> B" "B / 2 ^ 53 + 1 / 10 ^ 300 \<le> d"
  then have "\<bar>r - q\<bar> \<le> \<bar>q\<bar> / 2 ^ 53 + 1 / 10 ^ 300" unfolding double_rounding_def by blast
  moreover have "\<bar>q\<bar> / 2 ^ 53 \<le> B / 2 ^ 53" using b(1) by (simp add: divide_right_mono)
  ultimately show ?thesis using b(2) by linarith
qed

lemma near_lira:
  assumes "double_rounding rnd" and "\<bar>q\<bar> \<le> 4 * 10 ^ 9"
  shows "\<exists>r. rnd q = Fin r \<and> \<bar>r - q\<bar> \<le> 1 / 1000000"
proof -
  have "\<bar>q\<bar> \<le> 4 * 10 ^ 11" using assms(2) by simp
  then obtain r where "rnd q = Fin r" using rounding_finite [OF assms(1)] by blast
  then show ?thesis using rounding_error [OF assms(1) _ assms(2), of r "1 / 1000000"] by simp
qed

lemma near_cents:
  assumes "double_rounding rnd" and "\<bar>q\<bar> \<le> 4 * 10 ^ 11"
  shows "\<exists>r. rnd q = Fin r \<and> \<bar>r - q\<bar> \<le> 1 / 10000"
proof -
  obtain r where "rnd q = Fin r" using rounding_finite [OF assms] by blast
  then show ?thesis using rounding_error [OF assms(1) _ assms(2), of r "1 / 10000"] by simp
qed

section \<open>What is owed, to the cent\<close>

text \<open>An amount that is the double nearest to a number of cents.\<close>

definition in_cents :: "(rat \<Rightarrow> jsnum) \<Rightarrow> amount \<Rightarrow> int \<Rightarrow> bool" where
  "in_cents rnd a c \<longleftrightarrow> 0 \<le> c \<and> to_number rnd a = rnd (of_int c / 100)"

lemma sum_near:
  assumes "double_rounding rnd" and "list_all2 (\<lambda>p c. in_cents rnd (py_amount p) c) ps cs"
    and "\<bar>x - of_int X / 100\<bar> \<le> e" and "0 \<le> X" and "X + sum_list cs \<le> 10 ^ 11"
    and "e + 2 / 1000000 * of_nat (length ps) \<le> 1"
  shows "\<exists>y. foldl (\<lambda>s p. js_add rnd s (to_number rnd (py_amount p))) (Fin x) ps = Fin y
    \<and> \<bar>y - of_int (X + sum_list cs) / 100\<bar> \<le> e + 2 / 1000000 * of_nat (length ps)"
  using assms(2-)
proof (induction arbitrary: x X e rule: list_all2_induct)
  case Nil
  then show ?case by simp
next
  case (Cons p ps c cs)
  have c: "0 \<le> c" "to_number rnd (py_amount p) = rnd (of_int c / 100)"
    using Cons.hyps by (auto simp: in_cents_def)
  have "\<forall>d\<in>set cs. 0 \<le> d"
    using Cons.hyps(2) by (auto simp: list_all2_conv_all_nth in_cents_def set_conv_nth)
  then have s: "0 \<le> sum_list cs" by (simp add: sum_list_nonneg)
  have b: "X + c \<le> 10 ^ 11" using Cons.prems(3) s by simp
  have "of_int (X + c) \<le> (of_int (10 ^ 11) :: rat)" using b by (simp only: of_int_le_iff)
  then have br: "of_int X + of_int c \<le> (10 ^ 11 :: rat)" by simp
  have nonneg: "0 \<le> (of_int X :: rat)" "0 \<le> (of_int c :: rat)" using Cons.prems(2) c(1) by simp_all
  have "\<bar>of_int c / 100 :: rat\<bar> \<le> 4 * 10 ^ 9" using br nonneg by simp
  then obtain v where v: "rnd (of_int c / 100) = Fin v" "\<bar>v - of_int c / 100\<bar> \<le> 1 / 1000000"
    using near_lira [OF assms(1)] by blast
  have n: "2 / 1000000 * of_nat (length (p # ps)) = (2 / 1000000 + 2 / 1000000 * of_nat (length ps) :: rat)"
    by (simp add: algebra_simps add_divide_distrib)
  have e: "e + 2 / 1000000 + 2 / 1000000 * of_nat (length ps) \<le> 1"
    using Cons.prems(4) unfolding n by (simp only: add.assoc)
  have len: "e + 2 / 1000000 \<le> 1"
  proof -
    note e
    moreover have "0 \<le> (2 / 1000000 * of_nat (length ps) :: rat)" by simp
    ultimately show ?thesis by linarith
  qed
  have x: "\<bar>x + v\<bar> \<le> 4 * 10 ^ 9"
  proof -
    have "0 \<le> (2 / 1000000 :: rat)" by simp
    then have "\<bar>x - of_int X / 100\<bar> \<le> 1" using Cons.prems(1) len by linarith
    moreover have "\<bar>v - of_int c / 100\<bar> \<le> 1" using v(2) by (rule order_trans) simp
    moreover have "of_int X + of_int c \<le> (100000000000 :: rat)" using br by simp
    ultimately have "\<bar>x + v\<bar> \<le> 4000000000" using nonneg by linarith
    then show ?thesis by simp
  qed
  then obtain y where y: "rnd (x + v) = Fin y" "\<bar>y - (x + v)\<bar> \<le> 1 / 1000000"
    using near_lira [OF assms(1)] by blast
  have "\<bar>y - of_int (X + c) / 100\<bar> \<le> e + 2 / 1000000"
  proof -
    have "of_int (X + c) / 100 = (of_int X / 100 + of_int c / 100 :: rat)" by (simp add: add_divide_distrib)
    then show ?thesis using y(2) v(2) Cons.prems(1) by linarith
  qed
  moreover have "(X + c) + sum_list cs \<le> 10 ^ 11" using Cons.prems(3) by simp
  moreover note e
  ultimately obtain z where "foldl (\<lambda>s p. js_add rnd s (to_number rnd (py_amount p))) (Fin y) ps = Fin z"
    "\<bar>z - of_int (X + c + sum_list cs) / 100\<bar> \<le> e + 2 / 1000000 + 2 / 1000000 * of_nat (length ps)"
    using Cons.IH [of y "X + c" "e + 2 / 1000000"] Cons.prems(2) c(1) by auto
  then show ?case
    using v(1) y(1) c(2) unfolding n by (intro exI [of _ z]) (simp add: add.assoc)
qed

definition completed :: "till_order \<Rightarrow> payment list" where
  "completed ord = filter (\<lambda>p. py_status p = js ''COMPLETED'') (to_payments ord)"

text \<open>An order whose total and completed payments are whole cents, of a size that occurs: at most a thousand
  payments and a thousand million lira.\<close>

definition order_in_cents :: "(rat \<Rightarrow> jsnum) \<Rightarrow> till_order \<Rightarrow> int \<Rightarrow> int list \<Rightarrow> bool" where
  "order_in_cents rnd ord T cs \<longleftrightarrow> in_cents rnd (to_total ord) T \<and> T \<le> 10 ^ 11
     \<and> list_all2 (\<lambda>p c. in_cents rnd (py_amount p) c) (completed ord) cs
     \<and> sum_list cs \<le> 10 ^ 11 \<and> length cs \<le> 1000"

lemma round_near: "\<bar>w - of_int R\<bar> < 1 / 2 \<Longrightarrow> js_round (Fin w) = Fin (of_int R)"
proof -
  assume "\<bar>w - of_int R\<bar> < 1 / 2"
  then have "of_int R \<le> w + 1 / 2" "w + 1 / 2 < of_int R + 1" by linarith+
  then show ?thesis by (simp add: floor_unique)
qed

lemma max_near: "\<bar>r - a\<bar> \<le> d \<Longrightarrow> \<bar>max 0 r - max 0 a\<bar> \<le> (d :: rat)"
  by linarith

lemma remaining_cents:
  assumes rnd: "double_rounding rnd" and ord: "order_in_cents rnd ord T cs"
  shows "js_round (js_cents rnd (remaining rnd (Some ord))) = Fin (of_int (max 0 (T - sum_list cs)))"
proof -
  let ?S = "sum_list cs" and ?ps = "completed ord"
  have T: "0 \<le> T" "T \<le> 10 ^ 11" "to_number rnd (to_total ord) = rnd (of_int T / 100)"
    and ps: "list_all2 (\<lambda>p c. in_cents rnd (py_amount p) c) ?ps cs" and S: "?S \<le> 10 ^ 11" and n: "length cs \<le> 1000"
    using ord by (auto simp: order_in_cents_def in_cents_def)
  have "\<forall>c\<in>set cs. 0 \<le> c" using ps by (auto simp: list_all2_conv_all_nth in_cents_def set_conv_nth)
  then have S0: "0 \<le> ?S" by (simp add: sum_list_nonneg)
  have len: "length ?ps = length cs" using ps by (rule list_all2_lengthD)
  have "(of_nat (length cs) :: rat) \<le> 1000" using n by (simp add: of_nat_le_iff [of _ 1000, simplified])
  then have e: "0 + 2 / 1000000 * of_nat (length ?ps) \<le> (2 / 1000 :: rat)" by (simp add: len)
  have "of_int T \<le> (of_int (10 ^ 11) :: rat)" "of_int ?S \<le> (of_int (10 ^ 11) :: rat)"
    using T(2) S by (simp_all only: of_int_le_iff)
  then have br: "of_int T \<le> (100000000000 :: rat)" "of_int ?S \<le> (100000000000 :: rat)" by simp_all
  have nonneg: "0 \<le> (of_int T :: rat)" "0 \<le> (of_int ?S :: rat)" using T(1) S0 by simp_all
  obtain y where y: "paid rnd (Some ord) = Fin y" "\<bar>y - of_int ?S / 100\<bar> \<le> 2 / 1000"
    using sum_near [OF rnd ps, of 0 0 0] S e by (auto simp: paid_def completed_def)
  have "\<bar>of_int T / 100 :: rat\<bar> \<le> 4 * 10 ^ 9" using br(1) nonneg(1) by simp
  then obtain t where t: "rnd (of_int T / 100) = Fin t" "\<bar>t - of_int T / 100\<bar> \<le> 1 / 1000000"
    using near_lira [OF rnd] by blast
  have "\<bar>t - y\<bar> \<le> 4000000000" using t(2) y(2) br nonneg by linarith
  then obtain r where r: "rnd (t - y) = Fin r" "\<bar>r - (t - y)\<bar> \<le> 1 / 1000000"
    using near_lira [OF rnd, of "t - y"] by auto
  have rem: "remaining rnd (Some ord) = Fin (max 0 r)"
    using T(3) t(1) y(1) r(1) by (simp add: remaining_def js_sub_def)
  have "\<bar>r - (of_int T - of_int ?S) / 100\<bar> \<le> 21 / 10000"
    unfolding diff_divide_distrib using r(2) t(2) y(2) by linarith
  then have "\<bar>max 0 r - max 0 ((of_int T - of_int ?S) / 100)\<bar> \<le> 21 / 10000" by (rule max_near)
  moreover have m: "max 0 ((of_int T - of_int ?S) / 100) = (of_int (max 0 (T - ?S)) / 100 :: rat)"
    by (auto simp: max_def)
  ultimately have near: "\<bar>max 0 r - of_int (max 0 (T - ?S)) / 100\<bar> \<le> 21 / 10000" by simp
  moreover have "0 \<le> (of_int (max 0 (T - ?S)) :: rat)" "(of_int (max 0 (T - ?S)) :: rat) \<le> 100000000000"
    using br(1) nonneg by (auto simp: max_def)
  moreover have "\<bar>m - k / 100\<bar> \<le> 21 / 10000 \<Longrightarrow> 0 \<le> k \<Longrightarrow> k \<le> 100000000000 \<Longrightarrow> \<bar>m * 100\<bar> \<le> 400000000000"
    for m k :: rat by linarith
  ultimately have "\<bar>max 0 r * 100\<bar> \<le> 400000000000" by blast
  then have "\<bar>max 0 r * 100\<bar> \<le> 4 * 10 ^ 11" by simp
  then obtain w where w: "rnd (max 0 r * 100) = Fin w" "\<bar>w - max 0 r * 100\<bar> \<le> 1 / 10000"
    using near_cents [OF rnd] by blast
  have "\<bar>w - m * 100\<bar> \<le> 1 / 10000 \<Longrightarrow> \<bar>m - k / 100\<bar> \<le> 21 / 10000 \<Longrightarrow> \<bar>w - k\<bar> < 1 / 2" for m k :: rat
    by linarith
  then have "\<bar>w - of_int (max 0 (T - ?S))\<bar> < 1 / 2" using w(2) near by blast
  then show ?thesis using rem w(1) round_near by simp
qed

section \<open>What may be entered\<close>

text \<open>The amount that a money text says, in cents.\<close>

definition text_cents :: "jstr \<Rightarrow> int" where
  "text_cents s = (let ds = takeWhile is_digit s; fs = tl (dropWhile is_digit s) in
     int (digits_value (ds @ fs)) * 10 ^ (2 - length fs))"

lemma money_text_cases:
  assumes "money_text s"
  obtains (whole) "dropWhile is_digit s = []" "takeWhile is_digit s = s" "s \<noteq> []"
  | (parts) fs where "dropWhile is_digit s = 46 # fs" "list_all is_digit fs" "length fs \<le> 2"
      "takeWhile is_digit s \<noteq> [] \<or> fs \<noteq> []" "s = takeWhile is_digit s @ 46 # fs"
proof (cases "dropWhile is_digit s")
  case Nil
  then have "takeWhile is_digit s = s" using takeWhile_dropWhile_id [of is_digit s] by simp
  with Nil assms whole show ?thesis by (auto simp: money_text_def simp del: dropWhile_eq_Nil_conv)
next
  case (Cons c fs)
  then have "c = 46" "list_all is_digit fs" "length fs \<le> 2" "takeWhile is_digit s \<noteq> [] \<or> fs \<noteq> []"
    using assms by (auto simp: money_text_def Let_def)
  moreover have "s = takeWhile is_digit s @ c # fs" using takeWhile_dropWhile_id [of is_digit s] Cons by simp
  ultimately show ?thesis using parts [of fs] Cons by simp
qed

lemma money_text_units:
  assumes "money_text s" and "c \<in> set s"
  shows "is_digit c \<or> c = 46"
  using assms(1)
proof (cases rule: money_text_cases)
  case whole
  then show ?thesis using assms(2) by (metis set_takeWhileD)
next
  case (parts fs)
  then have "c \<in> set (takeWhile is_digit s) \<or> c = 46 \<or> c \<in> set fs"
    using assms(2) by (metis Un_iff insert_iff list.simps(15) set_append)
  then show ?thesis using parts(2) by (auto simp: list_all_iff dest: set_takeWhileD)
qed

lemma trim_solid: "\<forall>c\<in>set s. \<not> is_space c \<Longrightarrow> js_trim s = s"
proof -
  assume a: "\<forall>c\<in>set s. \<not> is_space c"
  then have "dropWhile is_space s = s" by (cases s) auto
  moreover have "dropWhile is_space (rev s) = rev s" using a by (cases "rev s") (auto simp: rev_eq_Cons_iff)
  ultimately show ?thesis by (simp add: js_trim_def)
qed

lemma money_unsigned:
  assumes "money_text s"
  shows "unsigned_decimal s = Some (of_int (text_cents s) / 100, [])"
proof -
  have e: "exponent_part [] = (0, [])" by (simp add: exponent_part_def)
  have p: "(10 :: rat) ^ (2 - n) / 100 = 1 / 10 ^ n" if "n \<le> 2" for n
  proof -
    have "n \<in> {0, 1, 2}" using that by auto
    then show ?thesis by auto
  qed
  from assms show ?thesis
  proof (cases rule: money_text_cases)
    case whole
    then show ?thesis using e by (simp add: unsigned_decimal_def Let_def text_cents_def del: dropWhile_eq_Nil_conv takeWhile_eq_all_conv)
  next
    case (parts fs)
    have all: "takeWhile is_digit fs = fs" "dropWhile is_digit fs = []"
      using parts(2) by (simp_all add: takeWhile_eq_all_conv list_all_iff)
    show ?thesis
      using parts(1,4) e p [OF parts(3)] all
      by (simp add: unsigned_decimal_def Let_def text_cents_def field_simps
          del: takeWhile_eq_all_conv dropWhile_eq_Nil_conv)
  qed
qed

lemma money_number:
  assumes "money_text s"
  shows "str_number rnd s = rnd (of_int (text_cents s) / 100)" and "0 \<le> text_cents s"
proof -
  have units: "\<And>c. c \<in> set s \<Longrightarrow> is_digit c \<or> c = 46" using money_text_units [OF assms] .
  have "\<not> is_space c" if "c \<in> set s" for c
    using units [OF that] by (auto simp: is_digit_def is_space_def)
  then have trim: "js_trim s = s" by (intro trim_solid) blast
  have nonempty: "s \<noteq> []" using assms by (auto simp: money_text_def)
  have lower: "is_digit c \<or> c = 46" if c: "c \<in> set (to_lower (take 2 s))" for c
  proof -
    obtain d where "d \<in> set s" "c = lower_unit d" using c by (auto simp: to_lower_def dest: in_set_takeD)
    then show ?thesis using units [of d] by (auto simp: lower_unit_def is_digit_def)
  qed
  have p: "to_lower (take 2 s) \<notin> {js ''0x'', js ''0o'', js ''0b''}"
    using lower [of 120] lower [of 111] lower [of 98] by (auto simp: js_def is_digit_def)
  obtain c r where s: "s = c # r" using nonempty by (cases s) auto
  have c: "c \<noteq> 45" "c \<noteq> 43" "c \<noteq> 73" using units [of c] s by (auto simp: is_digit_def)
  then have "signed_decimal s = Some (Fin (of_int (text_cents s) / 100), [])"
    using money_unsigned [OF assms] s by (simp add: signed_decimal_def starts_with_def js_def)
  with trim nonempty p show "str_number rnd s = rnd (of_int (text_cents s) / 100)"
    by (simp add: str_number_def Let_def)
  show "0 \<le> text_cents s" by (simp add: text_cents_def Let_def)
qed

text \<open>An amount beyond the range of orders never passes.\<close>

lemma big_amount:
  assumes rnd: "double_rounding rnd" and c: "10 ^ 11 + 2 \<le> c" and R: "R \<le> 10 ^ 11"
  shows "\<not> (is_finite (rnd (of_int c / 100))
    \<and> num_le (js_round (js_cents rnd (rnd (of_int c / 100)))) (Fin (of_int R)))"
proof
  assume a: "is_finite (rnd (of_int c / 100))
    \<and> num_le (js_round (js_cents rnd (rnd (of_int c / 100)))) (Fin (of_int R))"
  then obtain x where x: "rnd (of_int c / 100) = Fin x" by (cases "rnd (of_int c / 100)") auto
  have "of_int (10 ^ 11 + 2) \<le> (of_int c :: rat)" "of_int R \<le> (of_int (10 ^ 11) :: rat)"
    using c R by (simp_all only: of_int_le_iff)
  then have b: "100000000002 \<le> (of_int c :: rat)" "of_int R \<le> (100000000000 :: rat)" by simp_all
  have err: "rnd q = Fin r \<Longrightarrow> 0 \<le> q \<Longrightarrow> q - q / 2 ^ 53 - 1 / 10 ^ 300 \<le> r" for q r
  proof -
    assume "rnd q = Fin r" "0 \<le> q"
    moreover from this(1) have "\<bar>r - q\<bar> \<le> \<bar>q\<bar> / 2 ^ 53 + 1 / 10 ^ 300"
      using rnd unfolding double_rounding_def by blast
    ultimately have "\<bar>r - q\<bar> \<le> q / 2 ^ 53 + 1 / 10 ^ 300" by simp
    then show ?thesis by linarith
  qed
  have tiny: "(1 / 10 ^ 300 :: rat) \<le> 1 / 1000" by simp
  have xl: "of_int c / 100 - of_int c / 100 / 2 ^ 53 - 1 / 1000 \<le> x"
    using err [OF x] b tiny by linarith
  have half: "of_int c / 100 / 2 ^ 53 \<le> (of_int c / 900719925474099200 :: rat)" by simp
  have x0: "1000000000 \<le> x" using xl half b by linarith
  have "0 \<le> x * 100" using x0 by linarith
  then have "rnd (x * 100) \<noteq> NaN" "rnd (x * 100) \<noteq> NInf" using rnd unfolding double_rounding_def by blast+
  moreover have "rnd (x * 100) \<noteq> PInf" using a x by auto
  ultimately obtain w where w: "rnd (x * 100) = Fin w" by (cases "rnd (x * 100)") auto
  have le: "\<lfloor>w + 1 / 2\<rfloor> \<le> R" using a x w by simp
  have "x * 100 - x * 100 / 2 ^ 53 - 1 / 1000 \<le> w" using err [OF w] x0 tiny by linarith
  moreover have "x * 100 / 2 ^ 53 \<le> x / 90071992547409" using x0 by simp
  ultimately have "100000000001 \<le> w" using xl half b x0 by linarith
  then have "of_int R + 1 \<le> w" using b(2) by linarith
  then have "R + 1 \<le> \<lfloor>w + 1 / 2\<rfloor>" by (simp add: le_floor_iff)
  with le show False by simp
qed

lemma payment_amount_exact:
  assumes "double_rounding rnd" and "order_in_cents rnd ord T cs"
  shows "paymentAmountValid rnd entry (remaining rnd (Some ord))
    \<longleftrightarrow> money_text entry \<and> 0 < text_cents entry \<and> text_cents entry \<le> T - sum_list cs"
proof (cases "money_text entry")
  case False
  then show ?thesis by (simp add: paymentAmountValid_def Let_def)
next
  case True
  let ?c = "text_cents entry" and ?R = "max 0 (T - sum_list cs)"
  note entry = money_number [OF True]
  have rem: "js_round (js_cents rnd (remaining rnd (Some ord))) = Fin (of_int ?R)"
    by (rule remaining_cents [OF assms])
  have "list_all2 (\<lambda>p c. in_cents rnd (py_amount p) c) (completed ord) cs" "T \<le> 10 ^ 11"
    using assms(2) by (auto simp: order_in_cents_def)
  moreover from this(1) have "\<forall>c\<in>set cs. 0 \<le> c" by (auto simp: list_all2_conv_all_nth in_cents_def set_conv_nth)
  ultimately have R: "0 \<le> ?R" "?R \<le> 10 ^ 11" by (auto simp: sum_list_nonneg intro: order_trans [of _ T])
  show ?thesis
  proof (cases "?c \<le> 10 ^ 11 + 1")
    case small: True
    have "of_int ?c \<le> (of_int (10 ^ 11 + 1) :: rat)" using small by (simp only: of_int_le_iff)
    then have c: "0 \<le> (of_int ?c :: rat)" "of_int ?c \<le> (100000000001 :: rat)" using entry(2) by simp_all
    have "\<bar>of_int ?c / 100 :: rat\<bar> \<le> 4 * 10 ^ 9" using c by simp
    then obtain v where v: "rnd (of_int ?c / 100) = Fin v" "\<bar>v - of_int ?c / 100\<bar> \<le> 1 / 1000000"
      using near_lira [OF assms(1)] by blast
    have "\<bar>v * 100\<bar> \<le> 400000000000" using v(2) c by linarith
    then have "\<bar>v * 100\<bar> \<le> 4 * 10 ^ 11" by simp
    then obtain w where w: "rnd (v * 100) = Fin w" "\<bar>w - v * 100\<bar> \<le> 1 / 10000"
      using near_cents [OF assms(1)] by blast
    have "\<bar>w - of_int ?c\<bar> < 1 / 2" using w(2) v(2) by linarith
    then have cents: "js_round (js_cents rnd (Fin v)) = Fin (of_int ?c)" using w(1) round_near by simp
    have pos: "0 < v \<longleftrightarrow> 0 < ?c"
    proof
      assume "0 < v"
      show "0 < ?c"
      proof (rule ccontr)
        assume "\<not> 0 < ?c"
        then have zero: "?c = 0" using entry(2) by simp
        then show False using v(1) \<open>0 < v\<close> assms(1) by (simp add: double_rounding_def)
      qed
    next
      assume "0 < ?c"
      then have "1 \<le> ?c" by simp
      then have "1 \<le> (of_int ?c :: rat)" by simp
      then show "0 < v" using v(2) by linarith
    qed
    have "?c \<le> ?R \<longleftrightarrow> ?c \<le> T - sum_list cs" if "0 < ?c" using that by auto
    then show ?thesis
      using True entry(1) v(1) cents rem pos by (auto simp: paymentAmountValid_def Let_def)
  next
    case big: False
    then have "\<not> paymentAmountValid rnd entry (remaining rnd (Some ord))"
      using big_amount [OF assms(1), of ?c ?R] R entry(1) rem by (auto simp: paymentAmountValid_def Let_def)
    moreover have "\<not> ?c \<le> T - sum_list cs" using big R by auto
    ultimately show ?thesis by simp
  qed
qed

text \<open>C8: A payment never exceeds what is owed. Although the till adds and subtracts doubles, for an order whose
  total and completed payments are whole cents it accepts an entered amount exactly when the amount is
  written as money, is positive and is at most the total less the completed payments, to the cent; in
  particular the full balance can always be paid, and nothing can be paid when nothing is owed.\<close>

theorem payment_within_balance:
  assumes "double_rounding rnd" and "order_in_cents rnd ord T cs"
  shows "paymentAmountValid rnd entry (remaining rnd (Some ord))
    \<longleftrightarrow> money_text entry \<and> 0 < text_cents entry \<and> text_cents entry \<le> T - sum_list cs"
  using assms by (rule payment_amount_exact)

definition tab_of_ten :: till_order where
  "tab_of_ten = \<lparr>or_table_id = None, or_table_name = None, or_table_session_id = None, or_status = js ''SERVED'',
     to_id = js ''o1'', to_total = AText (js ''10.00''),
     to_payments = [\<lparr>py_id = js ''p1'', py_method = js ''CASH'', py_amount = AText (js ''4.00''), py_status = js ''COMPLETED''\<rparr>],
     to_items = [], to_version = Fin 1\<rparr>"

lemma exact_rounding: "double_rounding Fin"
  by (simp add: double_rounding_def)

lemma money_in_cents: "money_text s \<Longrightarrow> in_cents rnd (AText s) (text_cents s)"
  using money_number by (simp add: in_cents_def)

lemma payment_within_balance_witness:
  "paymentAmountValid Fin (js ''6.00'') (remaining Fin (Some tab_of_ten))
   \<and> \<not> paymentAmountValid Fin (js ''6.01'') (remaining Fin (Some tab_of_ten))"
proof -
  have "money_text (js ''10.00'')" "text_cents (js ''10.00'') = 1000"
    "money_text (js ''4.00'')" "text_cents (js ''4.00'') = 400"
    "money_text (js ''6.00'')" "text_cents (js ''6.00'') = 600" "text_cents (js ''6.01'') = 601" by code_simp+
  note texts = this
  then have o: "order_in_cents Fin tab_of_ten 1000 [400]"
    using money_in_cents [of "js ''10.00''" Fin] money_in_cents [of "js ''4.00''" Fin]
    by (simp add: order_in_cents_def tab_of_ten_def completed_def)
  show ?thesis
    using payment_within_balance [OF exact_rounding o, of "js ''6.00''"]
      payment_within_balance [OF exact_rounding o, of "js ''6.01''"] texts by simp
qed

end
