(* ===== verification/Item_Transfer.thy ===== *)
theory Item_Transfer
  imports Till
begin

text \<open>
  Moving items of an order to another table: the dialog
  \<open>apps/web/src/components/cashier/cashier-item-transfer-dialog.tsx\<close>, its state, every control of it as a step,
  and what it sends. A control acts only while the dialog as last rendered shows it enabled.
\<close>

section \<open>The dialog\<close>

datatype transfer_stage = Items | Table | Confirm

record transfer_dialog =
  td_step :: transfer_stage
  td_quantities :: "jstr \<rightharpoonup> jstr"
  td_targetTableId :: jstr
  td_reason :: jstr
  td_key :: jstr
  td_pending :: bool
  td_error :: "jstr option"

record transfer_payload =
  tp_destination :: jstr
  tp_items :: "(jstr \<times> jstr) list"
  tp_key :: jstr
  tp_reason :: jstr

definition fresh_dialog :: "jstr \<Rightarrow> transfer_dialog" where
  "fresh_dialog uuid = \<lparr>td_step = Items, td_quantities = Map.empty, td_targetTableId = [], td_reason = [],
     td_key = js ''cashier-item-transfer:'' @ uuid, td_pending = False, td_error = None\<rparr>"

definition validTransferQuantity :: "(rat \<Rightarrow> jsnum) \<Rightarrow> jstr \<Rightarrow> jsnum \<Rightarrow> int option" where
  "validTransferQuantity rnd v maximum =
     (if v = [] \<or> \<not> list_all is_digit v then None
      else let q = str_number rnd v in
        if is_safe_integer q \<and> 1 \<le> int_of_num q \<and> num_le q maximum then Some (int_of_num q) else None)"

fun js_floor :: "jsnum \<Rightarrow> jsnum" where
  "js_floor (Fin q) = Fin (of_int \<lfloor>q\<rfloor>)" | "js_floor v = v"

text \<open>\<open>Math.min\<close>\<close>

definition num_min :: "jsnum \<Rightarrow> jsnum \<Rightarrow> jsnum" where
  "num_min a b = (if a = NaN \<or> b = NaN then NaN else if num_le a b then a else b)"

definition stepTransferQuantity :: "(rat \<Rightarrow> jsnum) \<Rightarrow> (jsnum \<Rightarrow> jstr) \<Rightarrow> jstr \<Rightarrow> int \<Rightarrow> jsnum \<Rightarrow> jstr" where
  "stepTransferQuantity rnd str_of v direction maximum =
     (let current = (case validTransferQuantity rnd v maximum of Some q \<Rightarrow> q | None \<Rightarrow> 1) in
      str_of (num_min maximum (num_of_int (max 1 (current + direction)))))"

definition item_maximum :: "(rat \<Rightarrow> jsnum) \<Rightarrow> bill_item \<Rightarrow> jsnum" where
  "item_maximum rnd i = js_floor (to_number rnd (bi_quantity i))"

definition transferableItems :: "(rat \<Rightarrow> jsnum) \<Rightarrow> bill_item list \<Rightarrow> bill_item list" where
  "transferableItems rnd items = filter (\<lambda>i. bi_status i \<noteq> js ''CANCELLED'' \<and> bi_status i \<noteq> js ''VOIDED''
     \<and> num_le (Fin 1) (item_maximum rnd i)) items"

definition selectedLines :: "(rat \<Rightarrow> jsnum) \<Rightarrow> bill_item list \<Rightarrow> transfer_dialog \<Rightarrow> (bill_item \<times> int) list" where
  "selectedLines rnd items s = concat (map (\<lambda>i.
       case validTransferQuantity rnd (case td_quantities s (bi_id i) of Some v \<Rightarrow> v | None \<Rightarrow> []) (item_maximum rnd i) of
         None \<Rightarrow> [] | Some q \<Rightarrow> [(i, q)]) (transferableItems rnd items))"

definition targetTables :: "till_table list \<Rightarrow> till_table option \<Rightarrow> till_table list" where
  "targetTables tables source =
     filter (\<lambda>t. (case source of Some x \<Rightarrow> tr_id t \<noteq> tr_id x | None \<Rightarrow> True) \<and> tr_state t \<noteq> js ''DISABLED'') tables"

definition targetTable :: "till_table list \<Rightarrow> till_table option \<Rightarrow> transfer_dialog \<Rightarrow> till_table option" where
  "targetTable tables source s = List.find (\<lambda>t. tr_id t = td_targetTableId s) (targetTables tables source)"

definition toggleItem :: "(rat \<Rightarrow> jsnum) \<Rightarrow> (jsnum \<Rightarrow> jstr) \<Rightarrow> bill_item \<Rightarrow> bool \<Rightarrow> transfer_dialog \<Rightarrow> transfer_dialog" where
  "toggleItem rnd str_of i checked s = s\<lparr>td_quantities := (td_quantities s)
     (bi_id i := (if checked then Some (str_of (item_maximum rnd i)) else None)), td_error := None\<rparr>"

text \<open>The payload of \<open>submit\<close>, absent when it returns at once, and what its end does to the dialog.\<close>

definition submit_payload :: "(rat \<Rightarrow> jsnum) \<Rightarrow> bill_item list \<Rightarrow> till_table list \<Rightarrow> till_table option
    \<Rightarrow> transfer_dialog \<Rightarrow> transfer_payload option" where
  "submit_payload rnd items tables source s = (case targetTable tables source s of
       None \<Rightarrow> None
     | Some t \<Rightarrow>
         if selectedLines rnd items s = [] \<or> length (js_trim (td_reason s)) < 3 then None
         else Some \<lparr>tp_destination = tr_id t,
           tp_items = map (\<lambda>(i, q). (bi_id i, int_text q)) (selectedLines rnd items s),
           tp_key = td_key s, tp_reason = js_trim (td_reason s)\<rparr>)"

definition submit_end :: "jstr \<Rightarrow> jstr option \<Rightarrow> transfer_dialog \<Rightarrow> transfer_dialog" where
  "submit_end uuid failure s = (case failure of
       None \<Rightarrow> fresh_dialog uuid
     | Some message \<Rightarrow> s\<lparr>td_error := Some message, td_pending := False\<rparr>)"

definition handleOpenChange :: "jstr \<Rightarrow> bool \<Rightarrow> transfer_dialog \<Rightarrow> transfer_dialog" where
  "handleOpenChange uuid opening s = (if td_pending s \<or> opening then s else fresh_dialog uuid)"


section \<open>Its controls\<close>

text \<open>What the till passes in, and what happens: a control is used, the dialog is asked to open or close, or the
  request in flight ends, with the message of its error. A new key uses the random id that the event carries.\<close>

record dialog_props =
  dp_items :: "bill_item list"
  dp_tables :: "till_table list"
  dp_source :: "till_table option"

datatype dialog_event =
    Toggled bill_item bool | Typed bill_item jstr | Arrow bill_item int | Picked jstr
  | ReasonTyped jstr | Back | Forward | Submitted | Ended "jstr option" jstr | OpenChange bool jstr

datatype dialog_entry = Sent transfer_payload | Moved | Refused jstr

definition set_quantity :: "jstr \<Rightarrow> jstr \<Rightarrow> jstr option \<Rightarrow> transfer_dialog \<Rightarrow> transfer_dialog" where
  "set_quantity i v e s = s\<lparr>td_quantities := (td_quantities s)(i \<mapsto> v), td_error := e\<rparr>"

definition quantity_error :: "(rat \<Rightarrow> jsnum) \<Rightarrow> (jsnum \<Rightarrow> jstr) \<Rightarrow> jstr \<Rightarrow> jsnum \<Rightarrow> jstr option" where
  "quantity_error rnd str_of v maximum =
     (if validTransferQuantity rnd v maximum = None
      then Some (jt ''Ta~s~ima adedi 1 ile '' @ str_of maximum @ jt '' aras~inda tam say~i olmal~i.'') else None)"

text \<open>The arrow keys of the quantity, up (1) and down (-1).\<close>

definition arrow_key :: "(rat \<Rightarrow> jsnum) \<Rightarrow> (jsnum \<Rightarrow> jstr) \<Rightarrow> bill_item \<Rightarrow> jstr \<Rightarrow> int \<Rightarrow> transfer_dialog \<Rightarrow> transfer_dialog" where
  "arrow_key rnd str_of i v direction s =
     set_quantity (bi_id i) (stepTransferQuantity rnd str_of v direction (item_maximum rnd i)) None s"

definition item_shown :: "(rat \<Rightarrow> jsnum) \<Rightarrow> dialog_props \<Rightarrow> transfer_dialog \<Rightarrow> bill_item \<Rightarrow> bool" where
  "item_shown rnd P s i \<longleftrightarrow> td_step s = Items \<and> i \<in> set (transferableItems rnd (dp_items P))"

fun dialog_step :: "(rat \<Rightarrow> jsnum) \<Rightarrow> (jsnum \<Rightarrow> jstr) \<Rightarrow> dialog_props \<Rightarrow> dialog_event \<Rightarrow> transfer_dialog
    \<Rightarrow> transfer_dialog \<times> dialog_entry list" where
  "dialog_step rnd str_of P (Toggled i checked) s =
     (if item_shown rnd P s i then toggleItem rnd str_of i checked s else s, [])"
| "dialog_step rnd str_of P (Typed i v) s =
     (if item_shown rnd P s i \<and> td_quantities s (bi_id i) \<noteq> None
      then set_quantity (bi_id i) v (quantity_error rnd str_of v (item_maximum rnd i)) s else s, [])"
| "dialog_step rnd str_of P (Arrow i direction) s =
     ((case td_quantities s (bi_id i) of
         Some v \<Rightarrow> if item_shown rnd P s i
           then arrow_key rnd str_of i v direction s else s
       | None \<Rightarrow> s), [])"
| "dialog_step rnd str_of P (Picked t) s =
     (if td_step s = Table \<and> t \<in> tr_id ` set (targetTables (dp_tables P) (dp_source P))
      then s\<lparr>td_targetTableId := t, td_error := None\<rparr> else s, [])"
| "dialog_step rnd str_of P (ReasonTyped r) s = (if td_step s = Confirm then s\<lparr>td_reason := r\<rparr> else s, [])"
| "dialog_step rnd str_of P Back s =
     (if td_step s \<noteq> Items \<and> \<not> td_pending s
      then s\<lparr>td_step := (if td_step s = Confirm then Table else Items)\<rparr> else s, [])"
| "dialog_step rnd str_of P Forward s =
     ((case td_step s of
         Items \<Rightarrow> if selectedLines rnd (dp_items P) s = [] then s else s\<lparr>td_step := Table\<rparr>
       | Table \<Rightarrow> if td_targetTableId s = [] then s else s\<lparr>td_step := Confirm\<rparr>
       | Confirm \<Rightarrow> s), [])"
| "dialog_step rnd str_of P Submitted s =
     (if td_step s = Confirm \<and> \<not> td_pending s \<and> 3 \<le> length (js_trim (td_reason s))
      then case submit_payload rnd (dp_items P) (dp_tables P) (dp_source P) s of
          None \<Rightarrow> (s, [])
        | Some p \<Rightarrow> (s\<lparr>td_pending := True, td_error := None\<rparr>, [Sent p])
      else (s, []))"
| "dialog_step rnd str_of P (Ended failure uuid) s =
     (if td_pending s then (submit_end uuid failure s, [case failure of None \<Rightarrow> Moved | Some m \<Rightarrow> Refused m])
      else (s, []))"
| "dialog_step rnd str_of P (OpenChange opening uuid) s = (handleOpenChange uuid opening s, [])"

text \<open>What a sequence of events sends and learns.\<close>

fun dialog_run :: "(rat \<Rightarrow> jsnum) \<Rightarrow> (jsnum \<Rightarrow> jstr) \<Rightarrow> (dialog_props \<times> dialog_event) list \<Rightarrow> transfer_dialog
    \<Rightarrow> dialog_entry list" where
  "dialog_run rnd str_of [] s = []"
| "dialog_run rnd str_of ((P, e) # events) s =
     snd (dialog_step rnd str_of P e s) @ dialog_run rnd str_of events (fst (dialog_step rnd str_of P e s))"

section \<open>What it sends\<close>

definition transfer_key :: "jstr \<Rightarrow> jstr" where
  "transfer_key uuid = js ''cashier-item-transfer:'' @ uuid"

fun event_uuid :: "dialog_event \<Rightarrow> jstr list" where
  "event_uuid (Ended failure uuid) = [uuid]"
| "event_uuid (OpenChange opening uuid) = [uuid]"
| "event_uuid e = []"

definition event_uuids :: "(dialog_props \<times> dialog_event) list \<Rightarrow> jstr list" where
  "event_uuids events = concat (map (event_uuid \<circ> snd) events)"

lemma valid_quantity:
  assumes "validTransferQuantity rnd v m = Some q"
  shows "1 \<le> q \<and> num_le (num_of_int q) m"
proof (cases "str_number rnd v")
  case (Fin r)
  then show ?thesis using assms by (auto simp: validTransferQuantity_def Let_def split: if_splits)
qed (use assms in \<open>auto simp: validTransferQuantity_def split: if_splits\<close>)

lemma selected_line:
  "(i, q) \<in> set (selectedLines rnd items s) \<Longrightarrow>
   i \<in> set (transferableItems rnd items) \<and> 1 \<le> q \<and> num_le (num_of_int q) (item_maximum rnd i)"
  by (auto simp: selectedLines_def split: option.splits dest: valid_quantity [OF sym])

text \<open>A request that the server can carry out: the target is another table that is in use, at least one line is
  moved, every line is a live item of the order with a whole number of portions that it has, and there is a reason.\<close>

definition payload_sound :: "(rat \<Rightarrow> jsnum) \<Rightarrow> dialog_props \<Rightarrow> transfer_payload \<Rightarrow> bool" where
  "payload_sound rnd P p \<longleftrightarrow>
     (\<exists>t\<in>set (dp_tables P). tr_id t = tp_destination p \<and> tr_state t \<noteq> js ''DISABLED''
        \<and> (\<forall>x. dp_source P = Some x \<longrightarrow> tr_id x \<noteq> tp_destination p))
     \<and> tp_items p \<noteq> [] \<and> 3 \<le> length (tp_reason p)
     \<and> (\<forall>(j, v)\<in>set (tp_items p). \<exists>i\<in>set (dp_items P). bi_id i = j
          \<and> bi_status i \<notin> {js ''CANCELLED'', js ''VOIDED''}
          \<and> (\<exists>q\<ge>1. v = int_text q \<and> num_le (num_of_int q) (js_floor (to_number rnd (bi_quantity i)))))"

lemma submitted_sound:
  assumes "submit_payload rnd (dp_items P) (dp_tables P) (dp_source P) s = Some p"
  shows "payload_sound rnd P p \<and> tp_key p = td_key s"
proof -
  obtain t where t: "targetTable (dp_tables P) (dp_source P) s = Some t"
    and p: "selectedLines rnd (dp_items P) s \<noteq> []" "3 \<le> length (js_trim (td_reason s))"
      "p = \<lparr>tp_destination = tr_id t, tp_items = map (\<lambda>(i, q). (bi_id i, int_text q)) (selectedLines rnd (dp_items P) s),
            tp_key = td_key s, tp_reason = js_trim (td_reason s)\<rparr>"
    using assms by (auto simp: submit_payload_def split: option.splits if_splits)
  have "t \<in> set (dp_tables P)" "tr_state t \<noteq> js ''DISABLED''" "\<forall>x. dp_source P = Some x \<longrightarrow> tr_id x \<noteq> tr_id t"
    using find_member [OF t [unfolded targetTable_def]] by (auto simp: targetTables_def)
  then have target: "\<exists>t\<in>set (dp_tables P). tr_id t = tp_destination p \<and> tr_state t \<noteq> js ''DISABLED''
      \<and> (\<forall>x. dp_source P = Some x \<longrightarrow> tr_id x \<noteq> tp_destination p)" using p(3) by auto
  have "\<exists>i\<in>set (dp_items P). bi_id i = j \<and> bi_status i \<notin> {js ''CANCELLED'', js ''VOIDED''}
      \<and> (\<exists>q\<ge>1. v = int_text q \<and> num_le (num_of_int q) (js_floor (to_number rnd (bi_quantity i))))"
    if v: "(j, v) \<in> set (tp_items p)" for j v
  proof -
    obtain i q where "(i, q) \<in> set (selectedLines rnd (dp_items P) s)" "j = bi_id i" "v = int_text q"
      using v p(3) by auto
    then show ?thesis
      using selected_line [of i q rnd "dp_items P" s] by (auto simp: transferableItems_def item_maximum_def)
  qed
  then have moved: "\<forall>(j, v)\<in>set (tp_items p). \<exists>i\<in>set (dp_items P). bi_id i = j
      \<and> bi_status i \<notin> {js ''CANCELLED'', js ''VOIDED''}
      \<and> (\<exists>q\<ge>1. v = int_text q \<and> num_le (num_of_int q) (js_floor (to_number rnd (bi_quantity i))))" by blast
  have "tp_items p \<noteq> []" "3 \<le> length (tp_reason p)" "tp_key p = td_key s" using p by simp_all
  with target moved show ?thesis unfolding payload_sound_def by blast
qed

text \<open>A step sends only what \<open>submit_payload\<close> gives, keeps the key unless the dialog is reset, and the key after a
  reset is that of the event.\<close>

lemma step_sends:
  "Sent p \<in> set (snd (dialog_step rnd str_of P e s)) \<Longrightarrow>
   e = Submitted \<and> submit_payload rnd (dp_items P) (dp_tables P) (dp_source P) s = Some p"
  by (cases e) (auto split: if_splits option.splits)

lemma step_keys:
  "td_key (fst (dialog_step rnd str_of P e s)) \<in> insert (td_key s) (transfer_key ` set (event_uuid e))"
  by (cases e) (auto simp: toggleItem_def set_quantity_def arrow_key_def submit_end_def handleOpenChange_def fresh_dialog_def
      transfer_key_def split: option.splits transfer_stage.splits)

lemma run_keys:
  "Sent p \<in> set (dialog_run rnd str_of events s) \<Longrightarrow>
   tp_key p \<in> insert (td_key s) (transfer_key ` set (event_uuids events))"
proof (induction events arbitrary: s)
  case (Cons x events)
  obtain P e where x: "x = (P, e)" by (cases x)
  from Cons.prems x consider "Sent p \<in> set (snd (dialog_step rnd str_of P e s))"
    | "Sent p \<in> set (dialog_run rnd str_of events (fst (dialog_step rnd str_of P e s)))" by auto
  then show ?case
  proof cases
    case 1
    then show ?thesis using submitted_sound [of rnd P s p] step_sends by auto
  next
    case 2
    from Cons.IH [OF this] show ?thesis
      using step_keys [of rnd str_of P e s] x by (auto simp: event_uuids_def)
  qed
qed simp

lemma step_entries: "length (snd (dialog_step rnd str_of P e s)) \<le> 1"
  by (cases e) (auto split: option.splits)

lemma moved_step:
  assumes "Moved \<in> set (snd (dialog_step rnd str_of P e s))"
  obtains uuid where "e = Ended None uuid" "td_key (fst (dialog_step rnd str_of P e s)) = transfer_key uuid"
  using assms by (cases e) (auto simp: submit_end_def fresh_dialog_def transfer_key_def split: option.splits if_splits)

lemma key_inj: "transfer_key u = transfer_key v \<longleftrightarrow> u = v"
  by (simp add: transfer_key_def)

definition unused :: "jstr \<Rightarrow> (dialog_props \<times> dialog_event) list \<Rightarrow> bool" where
  "unused k events \<longleftrightarrow> k \<notin> transfer_key ` set (event_uuids events)"

lemma after_move:
  assumes "dialog_run rnd str_of events s = b @ Moved # c" and "Sent q \<in> set c"
    and "unused k events" and "distinct (event_uuids events)"
  shows "tp_key q \<noteq> k"
  using assms
proof (induction events arbitrary: s b)
  case (Cons x events)
  obtain P e where x: "x = (P, e)" by (cases x)
  let ?r = "dialog_step rnd str_of P e s"
  have run: "snd ?r @ dialog_run rnd str_of events (fst ?r) = b @ Moved # c" using Cons.prems(1) x by simp
  have later: "unused k events" "distinct (event_uuids events)"
    using Cons.prems(3,4) x by (auto simp: unused_def event_uuids_def)
  show ?case
  proof (cases "snd ?r = [Moved] \<and> b = []")
    case True
    then obtain uuid where e: "e = Ended None uuid" "td_key (fst ?r) = transfer_key uuid"
      using moved_step [of rnd str_of P e s] by auto
    have "Sent q \<in> set (dialog_run rnd str_of events (fst ?r))" using True run Cons.prems(2) by simp
    from run_keys [OF this] show ?thesis
      using Cons.prems(3) x e by (auto simp: unused_def event_uuids_def)
  next
    case False
    have "\<exists>b'. dialog_run rnd str_of events (fst ?r) = b' @ Moved # c"
    proof (cases "snd ?r")
      case Nil
      with run show ?thesis by simp
    next
      case (Cons y ys)
      then have "ys = []" using step_entries [of rnd str_of P e s] by simp
      with Cons run False show ?thesis by (cases b) auto
    qed
    then show ?thesis using Cons.IH Cons.prems(2) later by blast
  qed
qed simp

lemma run_sound:
  "Sent p \<in> set (dialog_run rnd str_of events s) \<Longrightarrow> \<exists>P. (P, Submitted) \<in> set events \<and> payload_sound rnd P p"
proof (induction events arbitrary: s)
  case (Cons x events)
  obtain P e where x: "x = (P, e)" by (cases x)
  from Cons.prems x consider "Sent p \<in> set (snd (dialog_step rnd str_of P e s))"
    | "Sent p \<in> set (dialog_run rnd str_of events (fst (dialog_step rnd str_of P e s)))" by auto
  then show ?case
  proof cases
    case 1
    then show ?thesis using submitted_sound step_sends x by fastforce
  next
    case 2
    from Cons.IH [OF this] show ?thesis by auto
  qed
qed simp

lemma sent_then_moved:
  assumes "dialog_run rnd str_of events s = a @ Sent p # b @ Moved # c" and "Sent q \<in> set c"
    and "unused (td_key s) events" and "distinct (event_uuids events)"
  shows "tp_key p \<noteq> tp_key q"
  using assms
proof (induction events arbitrary: s a)
  case (Cons x events)
  obtain P e where x: "x = (P, e)" by (cases x)
  let ?r = "dialog_step rnd str_of P e s"
  have run: "snd ?r @ dialog_run rnd str_of events (fst ?r) = a @ Sent p # b @ Moved # c" using Cons.prems(1) x by simp
  have dist: "distinct (event_uuids events)" and fresh: "unused (td_key s) events"
    using Cons.prems(3,4) x by (auto simp: unused_def event_uuids_def)
  have next_fresh: "unused (td_key (fst ?r)) events"
    using step_keys [of rnd str_of P e s] fresh Cons.prems(4) x by (auto simp: unused_def event_uuids_def key_inj)
  show ?case
  proof (cases "snd ?r = [Sent p] \<and> a = []")
    case True
    then have "submit_payload rnd (dp_items P) (dp_tables P) (dp_source P) s = Some p"
      using step_sends [of p rnd str_of P e s] by simp
    then have "tp_key p = td_key s" using submitted_sound by blast
    moreover have "dialog_run rnd str_of events (fst ?r) = b @ Moved # c" using True run by simp
    ultimately show ?thesis using after_move [OF _ Cons.prems(2) fresh dist] by metis
  next
    case False
    have "\<exists>a'. dialog_run rnd str_of events (fst ?r) = a' @ Sent p # b @ Moved # c"
    proof (cases "snd ?r")
      case Nil
      with run show ?thesis by simp
    next
      case (Cons y ys)
      then have "ys = []" using step_entries [of rnd str_of P e s] by simp
      with Cons run False show ?thesis by (cases a) auto
    qed
    then show ?thesis using Cons.IH Cons.prems(2) next_fresh dist by blast
  qed
qed simp

lemma step_key_kept:
  "\<forall>uuid. e \<noteq> OpenChange False uuid \<Longrightarrow> Moved \<notin> set (snd (dialog_step rnd str_of P e s)) \<Longrightarrow>
   td_key (fst (dialog_step rnd str_of P e s)) = td_key s"
  by (cases e) (auto simp: toggleItem_def set_quantity_def arrow_key_def submit_end_def handleOpenChange_def
      split: option.splits transfer_stage.splits if_splits)

definition never_closed :: "(dialog_props \<times> dialog_event) list \<Rightarrow> bool" where
  "never_closed events \<longleftrightarrow> (\<forall>uuid. OpenChange False uuid \<notin> snd ` set events)"

lemma key_until_moved:
  assumes "dialog_run rnd str_of events s = b @ Sent q # c" and "Moved \<notin> set b" and "never_closed events"
  shows "tp_key q = td_key s"
  using assms
proof (induction events arbitrary: s b)
  case (Cons x events)
  obtain P e where x: "x = (P, e)" by (cases x)
  let ?r = "dialog_step rnd str_of P e s"
  have run: "snd ?r @ dialog_run rnd str_of events (fst ?r) = b @ Sent q # c" using Cons.prems(1) x by simp
  have later: "never_closed events" and e: "\<forall>uuid. e \<noteq> OpenChange False uuid"
    using Cons.prems(3) x by (auto simp: never_closed_def)
  show ?case
  proof (cases "Sent q \<in> set (snd ?r)")
    case True
    then show ?thesis using step_sends submitted_sound by blast
  next
    case False
    have "\<exists>b'. dialog_run rnd str_of events (fst ?r) = b' @ Sent q # c \<and> set b' \<union> set (snd ?r) \<subseteq> set b"
    proof (cases "snd ?r")
      case Nil
      with run show ?thesis by auto
    next
      case (Cons y ys)
      then have "ys = []" using step_entries [of rnd str_of P e s] by simp
      with Cons run False show ?thesis by (cases b) auto
    qed
    then obtain b' where b': "dialog_run rnd str_of events (fst ?r) = b' @ Sent q # c" "set b' \<union> set (snd ?r) \<subseteq> set b"
      by blast
    have "td_key (fst ?r) = td_key s" using step_key_kept [OF e] b'(2) Cons.prems(2) by blast
    moreover have "tp_key q = td_key (fst ?r)" using Cons.IH [OF b'(1) _ later] b'(2) Cons.prems(2) by blast
    ultimately show ?thesis by simp
  qed
qed simp

lemma retry_key:
  assumes "dialog_run rnd str_of events s = a @ Sent p # b @ Sent q # c" and "Moved \<notin> set (a @ b)"
    and "never_closed events"
  shows "tp_key q = tp_key p"
  using key_until_moved [OF assms(1) _ assms(3)] key_until_moved [of rnd str_of events s "a @ Sent p # b" q c] assms
  by simp


definition two_portions :: bill_item where
  "two_portions = \<lparr>bi_id = js ''i'', bi_status = js ''SERVED'', bi_quantity = ANumber (Fin 2),
     bi_line_total = AText (js ''10.00''), bi_note = None, bi_is_complimentary = None\<rparr>"

definition demo_props :: dialog_props where
  "demo_props = \<lparr>dp_items = [two_portions],
     dp_tables = [\<lparr>tr_id = js ''t'', tr_name = js ''1'', tr_state = js ''AVAILABLE'', tt_version = Fin 1\<rparr>],
     dp_source = None\<rparr>"

definition demo_moves :: "(dialog_props \<times> dialog_event) list" where
  "demo_moves = map (Pair demo_props) [Toggled two_portions True, Forward, Picked (js ''t''), Forward,
     ReasonTyped (js ''split''), Submitted, Ended (Some (js ''offline'')) (js ''k1''), Submitted,
     Ended None (js ''k2'')]"

definition demo_payload :: transfer_payload where
  "demo_payload = \<lparr>tp_destination = js ''t'', tp_items = [(js ''i'', js ''2'')],
     tp_key = transfer_key (js ''k0''), tp_reason = js ''split''\<rparr>"

lemma demo_lines:
  "transferableItems Fin [two_portions] = [two_portions]" "item_maximum Fin two_portions = Fin 2"
  by (simp_all add: transferableItems_def item_maximum_def two_portions_def js_def)

lemma demo_quantity: "validTransferQuantity Fin (js ''2'') (Fin 2) = Some 2"
proof -
  have "money_text (js ''2'')" "text_cents (js ''2'') = 200" by code_simp+
  then have "str_number Fin (js ''2'') = Fin 2" using money_number(1) [of "js ''2''" Fin] by simp
  then show ?thesis by (simp add: validTransferQuantity_def js_def is_digit_def max_safe_def)
qed

lemma demo_transfer:
  "dialog_run Fin (\<lambda>_. js ''2'') demo_moves (fresh_dialog (js ''k0''))
   = [Sent demo_payload, Refused (js ''offline''), Sent demo_payload, Moved]"
  by (simp add: demo_moves_def demo_props_def demo_payload_def fresh_dialog_def item_shown_def demo_lines toggleItem_def
      selectedLines_def demo_quantity submit_payload_def targetTable_def targetTables_def submit_end_def transfer_key_def
      two_portions_def [THEN arg_cong [of _ _ bi_id]]) (simp add: js_def js_trim_def is_space_def int_text_def nat_digits.simps)


end
