(* ===== verification/Command_Log.thy ===== *)
theory Command_Log
  imports Ordering
begin

text \<open>
  What a screen sends that keeps its commands with \<open>PendingCommands\<close> (\<open>apps/web/src/lib/pending-command.ts\<close>): the
  log of prepared commands and of confirmations. Shared by the screens that use the class.
\<close>

datatype 'k command_entry = Issued 'k command | Accepted 'k

text \<open>The entry of one event, and the log of a sequence of events.\<close>

fun event_entry :: "'k pending_commands \<Rightarrow> 'k pending_event \<Rightarrow> 'k command_entry" where
  "event_entry commands (Prepare uuid intent path payload) =
     Issued intent (fst (prepare uuid commands intent path payload))"
| "event_entry commands (Confirmed intent) = Accepted intent"

fun command_log :: "'k pending_commands \<Rightarrow> 'k pending_event list \<Rightarrow> 'k command_entry list" where
  "command_log commands [] = []"
| "command_log commands (e # events) = event_entry commands e # command_log (pending_step commands e) events"

fun event_key :: "'k pending_event \<Rightarrow> jstr list" where
  "event_key (Prepare uuid intent path payload) = [uuid]"
| "event_key (Confirmed intent) = []"

definition event_keys :: "'k pending_event list \<Rightarrow> jstr list" where
  "event_keys events = concat (map event_key events)"

definition command_key :: "command \<Rightarrow> json option" where
  "command_key c = fld (cm_body c) ''idempotency_key''"

lemma command_log_append:
  "command_log commands (xs @ ys) = command_log commands xs @ command_log (foldl pending_step commands xs) ys"
  by (induction xs arbitrary: commands) auto

text \<open>The pending commands have keys of their own, from a set of used ones.\<close>

definition keys_ok :: "jstr set \<Rightarrow> 'k pending_commands \<Rightarrow> bool" where
  "keys_ok used commands \<longleftrightarrow>
     (\<forall>i c. map_of commands i = Some c \<longrightarrow> command_key c \<in> (\<lambda>k. Some (JStr k)) ` used)
     \<and> (\<forall>i j c d. map_of commands i = Some c \<and> map_of commands j = Some d \<and> command_key c = command_key d \<longrightarrow> i = j)"

lemma keys_ok_step:
  assumes "keys_ok used commands" and "set (event_key e) \<inter> used = {}"
  shows "keys_ok (set (event_key e) \<union> used) (pending_step commands e)"
proof (cases e)
  case (Confirmed i)
  then show ?thesis using assms by (auto simp: keys_ok_def confirmed_def delete_conv' restrict_map_def split: if_splits)
next
  case (Prepare u i p pl)
  show ?thesis
  proof (cases "map_of commands i")
    case (Some c)
    then show ?thesis using assms Prepare unfolding keys_ok_def by (auto simp: prepare_def)
  next
    case None
    let ?c = "\<lparr>cm_path = p, cm_body = AList.update (js ''idempotency_key'') (JStr u) pl\<rparr>"
    have "command_key ?c = Some (JStr u)" by (simp add: command_key_def fld_def update_conv')
    moreover have "map_of (pending_step commands e) = (map_of commands)(i \<mapsto> ?c)"
      using None Prepare by (simp add: prepare_def Let_def update_conv')
    ultimately obtain c where c: "map_of (pending_step commands e) = (map_of commands)(i \<mapsto> c)"
      "command_key c = Some (JStr u)" by blast
    have "u \<notin> used" using assms(2) Prepare by simp
    then have other: "\<forall>j d. map_of commands j = Some d \<longrightarrow> command_key d \<noteq> command_key c"
      using assms(1) c(2) unfolding keys_ok_def by fastforce
    show ?thesis
      unfolding keys_ok_def c(1)
    proof (intro conjI allI impI)
      fix j d
      assume "((map_of commands)(i \<mapsto> c)) j = Some d"
      then show "command_key d \<in> (\<lambda>k. Some (JStr k)) ` (set (event_key e) \<union> used)"
        using assms(1) c(2) Prepare unfolding keys_ok_def by (auto split: if_splits)
    next
      fix j k d d'
      assume "((map_of commands)(i \<mapsto> c)) j = Some d \<and> ((map_of commands)(i \<mapsto> c)) k = Some d'
        \<and> command_key d = command_key d'"
      then show "j = k" using assms(1) other unfolding keys_ok_def by (metis fun_upd_apply option.inject)
    qed
  qed
qed

lemma keys_ok_key:
  "keys_ok used commands \<Longrightarrow> map_of commands i = Some c \<Longrightarrow> \<exists>k\<in>used. command_key c = Some (JStr k)"
  unfolding keys_ok_def by blast

text \<open>A later command with a used key is the pending one with that key, not accepted since.\<close>

lemma later_issue:
  assumes "command_log commands events = b @ Issued j d # e" and "keys_ok used commands" and "k \<in> used"
    and "used \<inter> set (event_keys events) = {}" and "distinct (event_keys events)" and "command_key d = Some (JStr k)"
  shows "map_of commands j = Some d \<and> Accepted j \<notin> set b"
  using assms
proof (induction events arbitrary: commands b used)
  case (Cons x events)
  have fresh: "set (event_key x) \<inter> used = {}" using Cons.prems(4) by (auto simp: event_keys_def)
  note ok = keys_ok_step [OF Cons.prems(2) fresh]
  show ?case
  proof (cases b)
    case Nil
    then obtain u p pl where x: "x = Prepare u j p pl" "d = fst (prepare u commands j p pl)"
      using Cons.prems(1) by (cases x) auto
    show ?thesis
    proof (cases "map_of commands j")
      case None
      then have "command_key d = Some (JStr u)"
        using x by (simp add: prepare_def Let_def command_key_def fld_def update_conv')
      then show ?thesis using Cons.prems(3,6) fresh x by auto
    next
      case (Some c)
      then show ?thesis using x Nil by (simp add: prepare_def)
    qed
  next
    case (Cons y ys)
    have "command_log (pending_step commands x) events = ys @ Issued j d # e" using Cons.prems(1) Cons by simp
    moreover have "(set (event_key x) \<union> used) \<inter> set (event_keys events) = {}" "distinct (event_keys events)"
      using Cons.prems(4,5) by (auto simp: event_keys_def)
    ultimately have later: "map_of (pending_step commands x) j = Some d \<and> Accepted j \<notin> set ys"
      using Cons.IH [OF _ ok] Cons.prems(3,6) by blast
    have y: "y = event_entry commands x" using Cons.prems(1) Cons by simp
    show ?thesis
    proof (cases x)
      case (Confirmed i)
      then show ?thesis using later y Cons by (auto simp: confirmed_def delete_conv' restrict_map_def split: if_splits)
    next
      case (Prepare u i p pl)
      have "map_of commands j = Some d"
      proof (cases "j = i \<and> map_of commands i = None")
        case True
        then have "command_key d = Some (JStr u)"
          using later Prepare by (auto simp: prepare_def Let_def command_key_def fld_def update_conv')
        then show ?thesis using Cons.prems(3,6) fresh Prepare by auto
      next
        case False
        then show ?thesis using later Prepare by (auto simp: prepare_def Let_def update_conv' split: option.splits if_splits)
      qed
      then show ?thesis using later y Cons Prepare by auto
    qed
  qed
qed simp

lemma still_pending:
  assumes "command_log commands events = b @ Issued j d # e" and "map_of commands j = Some c" and "Accepted j \<notin> set b"
  shows "d = c"
  using assms
proof (induction events arbitrary: commands b)
  case (Cons x events)
  show ?case
  proof (cases b)
    case Nil
    then show ?thesis using Cons.prems by (cases x) (auto simp: prepare_def)
  next
    case (Cons y ys)
    then have "Confirmed j \<noteq> x" using Cons.prems(1,3) by (cases x) auto
    then have "map_of (pending_step commands x) j = Some c" using pending_kept [OF Cons.prems(2), of "[x]"] by simp
    moreover have "command_log (pending_step commands x) events = ys @ Issued j d # e" "Accepted j \<notin> set ys"
      using Cons.prems(1,3) Cons by simp_all
    ultimately show ?thesis using Cons.IH by blast
  qed
qed simp

text \<open>So two commands have the same key exactly when they have the same intent and none was accepted in between,
  and then they are the same command.\<close>

lemma command_key_iff:
  assumes "command_log commands events = a @ Issued i c # b @ Issued j d # e" and "keys_ok used commands"
    and "used \<inter> set (event_keys events) = {}" and "distinct (event_keys events)"
  shows "(command_key c = command_key d \<longleftrightarrow> i = j \<and> Accepted i \<notin> set b)
    \<and> (i = j \<and> Accepted i \<notin> set b \<longrightarrow> c = d)"
  using assms
proof (induction events arbitrary: commands a used)
  case (Cons x events)
  have fresh: "set (event_key x) \<inter> used = {}" using Cons.prems(3) by (auto simp: event_keys_def)
  have dist: "distinct (event_keys events)" "(set (event_key x) \<union> used) \<inter> set (event_keys events) = {}"
    using Cons.prems(3,4) by (auto simp: event_keys_def)
  note ok = keys_ok_step [OF Cons.prems(2) fresh]
  show ?case
  proof (cases a)
    case Nil
    then obtain u p pl where x: "x = Prepare u i p pl" "c = fst (prepare u commands i p pl)"
      using Cons.prems(1) by (cases x) auto
    have c: "map_of (pending_step commands x) i = Some c"
      using x by (auto simp: prepare_def Let_def update_conv' split: option.splits)
    have log: "command_log (pending_step commands x) events = b @ Issued j d # e" using Cons.prems(1) Nil by simp
    obtain k where k: "k \<in> set (event_key x) \<union> used" "command_key c = Some (JStr k)" using keys_ok_key [OF ok c] by blast
    have "command_key c = command_key d \<longrightarrow> i = j \<and> Accepted i \<notin> set b"
    proof
      assume same: "command_key c = command_key d"
      with later_issue [OF log ok k(1) dist(2,1)] k(2)
      have "map_of (pending_step commands x) j = Some d \<and> Accepted j \<notin> set b" by simp
      moreover from this same c have "i = j" using ok unfolding keys_ok_def by blast
      ultimately show "i = j \<and> Accepted i \<notin> set b" by simp
    qed
    moreover have "i = j \<and> Accepted i \<notin> set b \<longrightarrow> c = d" using still_pending [OF log] c by blast
    ultimately show ?thesis by blast
  next
    case (Cons y ys)
    then have "command_log (pending_step commands x) events = ys @ Issued i c # b @ Issued j d # e"
      using Cons.prems(1) by simp
    from Cons.IH [OF this ok dist(2,1)] show ?thesis .
  qed
qed simp

end
