(* ===== verification/Till_Commands.thy ===== *)
theory Till_Commands
  imports Item_Transfer Command_Log "HOL-Library.Sublist"
begin

text \<open>
  What the cashier's screen sends and how its state changes, \<open>apps/web/src/components/cashier/cashier-workspace.tsx\<close>
  (its mutations, dialogs and buttons) with \<open>payment-refund-dialog.tsx\<close>: one state, the mutations as functions from
  it to a request or an error, and a step per event. The caches of orders and tables are part of the state and
  change whenever they are fetched again. Toasts, the invalidation of caches and display are left out.
\<close>

section \<open>State\<close>

datatype till_dialog = ProductsDialog | PaymentDialog | RefundDialog | DiscountDialog | TransferDialog
  | ItemTransferDialog | MergeDialog | CancelItemDialog | ComplimentaryDialog | ItemNoteDialog
  | CloseTableDialog | QrQueueDialog | ApprovalsDialog

text \<open>The intents of the pending commands, in the source the JSON text of an array.\<close>

datatype till_intent = ProductIntent jstr jstr "jstr list" | PaymentIntent jstr jstr jstr jstr

datatype item_action = Increase | Decrease | SetComplimentary | RemoveComplimentary | UpdateNote

datatype till_action = AddProduct jstr "jstr list" | Pay | CloseTable | RequestDiscount | MoveTable | MergeTables
  | ChangeItem bill_item item_action "jstr option" "jstr option" | RemoveItem bill_item | RequestCancellation
  | ApproveCancellation jstr | RejectCancellation jstr | SendToStations | MoveItems transfer_payload
  | PrintBill bool | RefundPayment jstr

record till_state =
  tl_orders :: "till_order list"
  tl_tables :: "till_table list"
  tl_selectedTableId :: jstr
  tl_dialog :: "till_dialog option"
  tl_modifierProduct :: "jstr option"
  tl_paymentMethod :: jstr
  tl_paymentAmount :: jstr
  tl_refundTarget :: "(jstr \<times> jstr) option"
  tl_roomReference :: jstr
  tl_discountKind :: jstr
  tl_discountValue :: jstr
  tl_reason :: jstr
  tl_destinationTable :: jstr
  tl_mergeDestinationTable :: jstr
  tl_mergeReason :: jstr
  tl_mergeIdempotencyKey :: jstr
  tl_cancellationItem :: "bill_item option"
  tl_cancellationReason :: jstr
  tl_complimentaryItem :: "bill_item option"
  tl_complimentaryReason :: jstr
  tl_noteItem :: "bill_item option"
  tl_itemNote :: jstr
  tl_pending :: "till_intent pending_commands"
  tl_flights :: "(till_action \<times> till_intent option) list"
  tl_canMarkComplimentary :: bool
  tl_canRefund :: bool
  tl_refundShiftReady :: bool
  tl_billPrinted :: bool

definition fresh_till :: till_state where
  "fresh_till = \<lparr>tl_orders = [], tl_tables = [], tl_selectedTableId = [], tl_dialog = None,
     tl_modifierProduct = None, tl_paymentMethod = js ''CASH'', tl_paymentAmount = [], tl_refundTarget = None,
     tl_roomReference = [], tl_discountKind = js ''PERCENTAGE'', tl_discountValue = js ''10'', tl_reason = [],
     tl_destinationTable = [], tl_mergeDestinationTable = [], tl_mergeReason = [], tl_mergeIdempotencyKey = [],
     tl_cancellationItem = None, tl_cancellationReason = [], tl_complimentaryItem = None,
     tl_complimentaryReason = [], tl_noteItem = None, tl_itemNote = [], tl_pending = [], tl_flights = [],
     tl_canMarkComplimentary = False, tl_canRefund = False, tl_refundShiftReady = False, tl_billPrinted = False\<rparr>"

text \<open>Rounding, \<open>String\<close> and \<open>toFixed(2)\<close> of a number, \<open>localeCompare\<close> and \<open>JSON.stringify\<close>.\<close>

record till_env =
  te_rnd :: "rat \<Rightarrow> jsnum"
  te_str_of :: "jsnum \<Rightarrow> jstr"
  te_fixed2 :: "jsnum \<Rightarrow> jstr"
  te_cmp :: "jstr \<Rightarrow> jstr \<Rightarrow> int"
  te_json_text :: "json \<Rightarrow> jstr"

definition selectedTable :: "till_state \<Rightarrow> till_table option" where
  "selectedTable s = List.find (\<lambda>t. tr_id t = tl_selectedTableId s) (tl_tables s)"

definition selectedOrder :: "till_state \<Rightarrow> till_order option" where
  "selectedOrder s = selectCurrentTableOrder (tl_orders s) (selectedTable s)"

definition balance :: "till_env \<Rightarrow> till_state \<Rightarrow> jsnum" where
  "balance E s = remaining (te_rnd E) (selectedOrder s)"

definition mergeCandidates :: "till_state \<Rightarrow> (till_table \<times> till_order) list" where
  "mergeCandidates s = buildMergeCandidates (tl_orders s) (tl_tables s) (map_option to_id (selectedOrder s))
     (map_option tr_id (selectedTable s))"

definition terminalItemStatuses :: "jstr set" where
  "terminalItemStatuses = set (map js [''CANCELLED'', ''VOIDED''])"

definition is_open_order :: "till_order option \<Rightarrow> bool" where
  "is_open_order order \<longleftrightarrow> (case order of None \<Rightarrow> False | Some ord \<Rightarrow> or_status ord \<notin> terminalOrderStatuses)"

definition tableCanClose :: "till_env \<Rightarrow> till_state \<Rightarrow> bool" where
  "tableCanClose E s = canCloseTableSession (selectedOrder s) (selectedTable s) (balance E s)"

definition pendingPreparationItems :: "till_order option \<Rightarrow> bill_item list" where
  "pendingPreparationItems order = (case order of None \<Rightarrow> []
     | Some ord \<Rightarrow> filter (\<lambda>i. bi_status i = js ''DRAFT'' \<or> bi_status i = js ''SUBMITTED'') (to_items ord))"

section \<open>Requests\<close>

record till_request =
  rq_method :: string
  rq_path :: jstr
  rq_body :: "json option"

definition post_request :: "jstr \<Rightarrow> (string \<times> json) list \<Rightarrow> till_request" where
  "post_request path members = \<lparr>rq_method = ''POST'', rq_path = path,
     rq_body = Some (JObj (map (\<lambda>(k, v). (js k, v)) members))\<rparr>"

definition order_path :: "till_order \<Rightarrow> string \<Rightarrow> jstr" where
  "order_path ord rest = js ''/orders/'' @ to_id ord @ js rest"

definition no_live_order :: jstr where
  "no_live_order = jt ''Canl~i sipari~s verisi bulunamad~i.''"

definition product_command :: "till_table \<Rightarrow> till_order option \<Rightarrow> jstr \<Rightarrow> jstr list \<Rightarrow> till_intent \<times> jstr \<times> jobj" where
  "product_command t order product modifiers =
     (let items = JArr [JObj [(js ''product_id'', JStr product), (js ''quantity'', JStr (js ''1'')), (js ''note'', JNull),
            (js ''modifiers'', JArr (map (\<lambda>m. JObj [(js ''modifier_id'', JStr m), (js ''quantity'', JNum (Fin 1))]) modifiers))]]
      in (ProductIntent (tr_id t) product (sort modifiers),
          case order of
            Some ord \<Rightarrow> (order_path ord ''/items'', [(js ''items'', items), (js ''auto_accept'', JBool False)])
          | None \<Rightarrow> (js ''/orders'', [(js ''table_id'', JStr (tr_id t)), (js ''source'', JStr (js ''CASHIER'')),
              (js ''items'', items), (js ''auto_accept'', JBool False)])))"

definition payment_command :: "till_order \<Rightarrow> jstr \<Rightarrow> jstr \<Rightarrow> jstr \<Rightarrow> till_intent \<times> jstr \<times> jobj" where
  "payment_command ord meth amount room =
     (PaymentIntent (to_id ord) meth amount (js_trim room), order_path ord ''/payments'',
      [(js ''method'', JStr meth), (js ''amount'', JStr amount),
       (js ''reference'', if meth = js ''ROOM_CHARGE'' then JStr (js_trim room) else JNull)])"

definition command_request :: "command \<Rightarrow> till_request" where
  "command_request c = \<lparr>rq_method = ''POST'', rq_path = cm_path c, rq_body = Some (JObj (cm_body c))\<rparr>"

text \<open>A mutation that goes through the pending commands: what it prepares, and the request.\<close>

definition mutation_command :: "till_action \<Rightarrow> till_state \<Rightarrow> (till_intent \<times> jstr \<times> jobj) option" where
  "mutation_command a s = (case a of
       AddProduct product modifiers \<Rightarrow>
         map_option (\<lambda>t. product_command t (selectedOrder s) product modifiers) (selectedTable s)
     | Pay \<Rightarrow> (case selectedOrder s of
           None \<Rightarrow> None
         | Some ord \<Rightarrow> if tl_paymentMethod s = js ''ROOM_CHARGE'' \<and> js_trim (tl_roomReference s) = [] then None
             else Some (payment_command ord (tl_paymentMethod s) (tl_paymentAmount s) (tl_roomReference s)))
     | _ \<Rightarrow> None)"

definition action_name :: "item_action \<Rightarrow> string" where
  "action_name a = (case a of Increase \<Rightarrow> ''INCREASE'' | Decrease \<Rightarrow> ''DECREASE'' | SetComplimentary \<Rightarrow> ''SET_COMPLIMENTARY''
     | RemoveComplimentary \<Rightarrow> ''REMOVE_COMPLIMENTARY'' | UpdateNote \<Rightarrow> ''UPDATE_NOTE'')"

definition null_or :: "jstr option \<Rightarrow> json" where
  "null_or s = (case s of None \<Rightarrow> JNull | Some v \<Rightarrow> JStr v)"

definition item_request :: "string \<Rightarrow> till_order \<Rightarrow> bill_item \<Rightarrow> (string \<times> json) list \<Rightarrow> till_request" where
  "item_request meth ord i members = (post_request (order_path ord ''/items/'' @ bi_id i) members)\<lparr>rq_method := meth\<rparr>"

definition merge_request :: "till_order \<Rightarrow> till_state \<Rightarrow> jstr + till_request" where
  "merge_request ord s =
     (if or_status ord \<in> terminalOrderStatuses
      then Inl (jt ''Kapanm~i~s bir sipari~s ba~ska masayla birle~stirilemez.'')
      else case List.find (\<lambda>(t, x). tr_id t = tl_mergeDestinationTable s) (mergeCandidates s) of
        None \<Rightarrow> Inl (jt ''Aktif sipari~si olan ge~cerli bir hedef masa se~cin.'')
      | Some (t, x) \<Rightarrow>
          if length (js_trim (tl_mergeReason s)) < 3
          then Inl (jt ''Birle~stirme nedeni en az 3 karakter olmal~id~ir.'')
          else if length (tl_mergeIdempotencyKey s) < 8
          then Inl (jt ''Birle~stirme i~slem anahtar~i olu~sturulamad~i.'')
          else Inr (post_request (order_path ord ''/merge'') [(''destination_table_id'', JStr (tr_id t)),
            (''reason'', JStr (js_trim (tl_mergeReason s))), (''idempotency_key'', JStr (tl_mergeIdempotencyKey s))]))"

definition close_request :: "till_state \<Rightarrow> jstr + till_request" where
  "close_request s = (case (selectedTable s, selectedOrder s) of
       (Some t, Some ord) \<Rightarrow> (case or_table_session_id ord of
           Some session \<Rightarrow> if session = [] then Inl (jt ''Kapat~ilabilecek canl~i masa oturumu bulunamad~i.'')
             else Inr (post_request (js ''/tables/'' @ tr_id t @ js ''/sessions/'' @ session @ js ''/close'')
               [(''expected_table_version'', JNum (tt_version t))])
         | None \<Rightarrow> Inl (jt ''Kapat~ilabilecek canl~i masa oturumu bulunamad~i.''))
     | _ \<Rightarrow> Inl (jt ''Kapat~ilabilecek canl~i masa oturumu bulunamad~i.''))"

definition cancellation_request :: "till_order \<Rightarrow> bill_item \<Rightarrow> jstr \<Rightarrow> jstr + till_request" where
  "cancellation_request ord i reason =
     (if bi_status i \<in> terminalItemStatuses
      then Inl (jt ''~Iptal edilmi~s bir kalem i~cin yeni talep olu~sturulamaz.'')
      else if length (js_trim reason) < 3 then Inl (jt ''~Iptal nedeni en az 3 karakter olmal~id~ir.'')
      else Inr (post_request (order_path ord ''/cancellation-requests'')
        [(''order_item_id'', JStr (bi_id i)), (''reason'', JStr (js_trim reason))]))"

definition print_request :: "till_env \<Rightarrow> till_order \<Rightarrow> till_table option \<Rightarrow> jstr \<Rightarrow> bool \<Rightarrow> till_request" where
  "print_request E ord table uuid reprint = post_request (js ''/printing/jobs'')
     [(''order_id'', JStr (to_id ord)),
      (''payload'', JObj ([(js ''type'', JStr (js ''BILL'')), (js ''order_id'', JStr (to_id ord))]
         @ (case table of None \<Rightarrow> [] | Some t \<Rightarrow> [(js ''table_name'', JStr (tr_name t))])
         @ [(js ''copy'', JBool reprint),
            (js ''stage'', JStr (js (if or_status ord = js ''PAID'' then ''CLOSING'' else ''PRE_PAYMENT'')))])),
      (''kind'', JStr (js (if reprint then ''REPRINT'' else ''ORIGINAL''))),
      (''idempotency_key'', JStr (if reprint then js ''bill-reprint:'' @ to_id ord @ js '':'' @ uuid
         else originalBillPrintKey (te_rnd E) (te_cmp E) (te_json_text E) (to_id ord) (to_total ord) (to_items ord)))]"

definition transfer_request :: "till_order \<Rightarrow> transfer_payload \<Rightarrow> till_request" where
  "transfer_request ord p = post_request (order_path ord ''/items/transfer'')
     [(''destination_table_id'', JStr (tp_destination p)),
      (''items'', JArr (map (\<lambda>(i, q). JObj [(js ''item_id'', JStr i), (js ''quantity'', JStr q)]) (tp_items p))),
      (''idempotency_key'', JStr (tp_key p)), (''reason'', JStr (tp_reason p))]"

definition discount_request :: "till_state \<Rightarrow> till_order \<Rightarrow> jstr + till_request" where
  "discount_request s ord = Inr (post_request (order_path ord ''/discount-requests'')
     [(''kind'', JStr (tl_discountKind s)), (''value'', JStr (tl_discountValue s)), (''reason'', JStr (tl_reason s))])"

definition move_request :: "till_state \<Rightarrow> till_order \<Rightarrow> jstr + till_request" where
  "move_request s ord = Inr (post_request (order_path ord ''/transfer'')
     [(''destination_table_id'', JStr (tl_destinationTable s)), (''reason'', JStr (tl_reason s))])"

definition change_request :: "jstr \<Rightarrow> bill_item \<Rightarrow> item_action \<Rightarrow> jstr option \<Rightarrow> jstr option \<Rightarrow> till_order \<Rightarrow> jstr + till_request" where
  "change_request uuid i change reason note ord = Inr (item_request ''PATCH'' ord i
     [(''action'', JStr (js (action_name change))), (''expected_version'', JNum (to_version ord)),
      (''idempotency_key'', JStr (js ''cashier-item:'' @ uuid)), (''reason'', null_or reason), (''note'', null_or note)])"

definition remove_request :: "jstr \<Rightarrow> bill_item \<Rightarrow> till_order \<Rightarrow> jstr + till_request" where
  "remove_request uuid i ord = Inr (item_request ''DELETE'' ord i
     [(''expected_version'', JNum (to_version ord)), (''idempotency_key'', JStr (js ''cashier-remove:'' @ uuid)),
      (''reason'', JStr (jt ''Kasiyer ~ur~un kald~irma i~slemi''))])"

definition approve_request :: "jstr \<Rightarrow> till_request" where
  "approve_request approval = \<lparr>rq_method = ''POST'',
     rq_path = js ''/orders/cancellation-requests/'' @ approval @ js ''/approve'', rq_body = None\<rparr>"

definition reject_request :: "jstr \<Rightarrow> till_request" where
  "reject_request approval = \<lparr>rq_method = ''POST'',
     rq_path = js ''/orders/cancellation-requests/'' @ approval @ js ''/reject'', rq_body = None\<rparr>"

definition stations_request :: "till_order \<Rightarrow> jstr + till_request" where
  "stations_request ord = Inr (post_request (order_path ord ''/accept'') [(''require_configured_printer'', JBool True)])"

text \<open>\<open>payment-refund-dialog.tsx\<close>\<close>

definition refund_request :: "jstr \<Rightarrow> till_state \<Rightarrow> jstr + till_request" where
  "refund_request reason s = (case (if tl_dialog s = Some RefundDialog then tl_refundTarget s else None) of
       Some (order, payment) \<Rightarrow>
         if tl_canRefund s \<and> tl_refundShiftReady s
         then Inr (post_request (js ''/orders/'' @ order @ js ''/payments/'' @ payment @ js ''/refund'')
           [(''reason'', JStr (js_trim reason))])
         else Inl (jt ''~Iade i~cin yetki ve a~c~ik vardiya gereklidir.'')
     | None \<Rightarrow> Inl (jt ''~Iade i~cin yetki ve a~c~ik vardiya gereklidir.''))"

definition plain_request :: "till_state \<Rightarrow> jstr + till_request
    \<Rightarrow> jstr + (till_request \<times> till_intent option \<times> till_intent pending_commands)" where
  "plain_request s r = (case r of Inl m \<Rightarrow> Inl m | Inr rq \<Rightarrow> Inr (rq, None, tl_pending s))"

definition order_request :: "till_state \<Rightarrow> (till_order \<Rightarrow> jstr + till_request)
    \<Rightarrow> jstr + (till_request \<times> till_intent option \<times> till_intent pending_commands)" where
  "order_request s f = (case selectedOrder s of None \<Rightarrow> Inl no_live_order | Some ord \<Rightarrow> plain_request s (f ord))"

text \<open>The \<open>mutationFn\<close> of every mutation: an error, or the request with the intent and the pending commands.\<close>

definition mutation :: "till_env \<Rightarrow> jstr \<Rightarrow> till_action \<Rightarrow> till_state
    \<Rightarrow> jstr + (till_request \<times> till_intent option \<times> till_intent pending_commands)" where
  "mutation E uuid a s = (case a of
        AddProduct product modifiers \<Rightarrow> (case mutation_command a s of
            None \<Rightarrow> Inl (jt ''Canl~i masa verisi olmadan ~ur~un eklenemez.'')
          | Some (intent, path, payload) \<Rightarrow>
              (let (c, pending) = prepare uuid (tl_pending s) intent path payload
               in Inr (command_request c, Some intent, pending)))
      | Pay \<Rightarrow> (case mutation_command a s of
            None \<Rightarrow> Inl (if selectedOrder s = None then no_live_order else jt ''Oda numaras~i veya ad~i girin.'')
          | Some (intent, path, payload) \<Rightarrow>
              (let (c, pending) = prepare uuid (tl_pending s) intent path payload
               in Inr (command_request c, Some intent, pending)))
      | CloseTable \<Rightarrow> plain_request s (close_request s)
      | RequestDiscount \<Rightarrow> order_request s (discount_request s)
      | MoveTable \<Rightarrow> order_request s (move_request s)
      | MergeTables \<Rightarrow> order_request s (\<lambda>ord. merge_request ord s)
      | ChangeItem i change reason note \<Rightarrow> order_request s (change_request uuid i change reason note)
      | RemoveItem i \<Rightarrow> order_request s (remove_request uuid i)
      | RequestCancellation \<Rightarrow> (case (selectedOrder s, tl_cancellationItem s) of
            (Some ord, Some i) \<Rightarrow> plain_request s (cancellation_request ord i (tl_cancellationReason s))
          | _ \<Rightarrow> Inl (jt ''Canl~i sipari~s kalemi bulunamad~i.''))
      | ApproveCancellation i \<Rightarrow> plain_request s (Inr (approve_request i))
      | RejectCancellation i \<Rightarrow> plain_request s (Inr (reject_request i))
      | SendToStations \<Rightarrow> order_request s stations_request
      | MoveItems p \<Rightarrow> order_request s (\<lambda>ord. Inr (transfer_request ord p))
      | PrintBill reprint \<Rightarrow> order_request s (\<lambda>ord. Inr (print_request E ord (selectedTable s) uuid reprint))
      | RefundPayment reason \<Rightarrow> plain_request s (refund_request reason s))"

section \<open>What an answer changes\<close>

datatype till_answer = Succeeded | GaveOrder till_order | GavePayment payment | Failed "jstr option"

definition close_dialog :: "till_state \<Rightarrow> till_state" where
  "close_dialog s = s\<lparr>tl_dialog := None\<rparr>"

definition applyUpdatedOrder :: "till_answer \<Rightarrow> till_state \<Rightarrow> till_state" where
  "applyUpdatedOrder answer s = (case answer of
       GaveOrder ord \<Rightarrow> s\<lparr>tl_orders := replace_order ord (tl_orders s)\<rparr> | _ \<Rightarrow> s)"

definition reset_merge :: "till_state \<Rightarrow> till_state" where
  "reset_merge s = s\<lparr>tl_mergeDestinationTable := [], tl_mergeReason := [], tl_mergeIdempotencyKey := [], tl_dialog := None\<rparr>"

definition merged_table :: "till_answer \<Rightarrow> till_state \<Rightarrow> jstr" where
  "merged_table answer s = (case answer of
       GaveOrder ord \<Rightarrow> (case or_table_id ord of Some t \<Rightarrow> t | None \<Rightarrow> tl_mergeDestinationTable s)
     | _ \<Rightarrow> tl_mergeDestinationTable s)"

definition replace_payment :: "jstr option \<Rightarrow> payment \<Rightarrow> till_order list \<Rightarrow> till_order list" where
  "replace_payment order p orders = map (\<lambda>ord. if Some (to_id ord) = order
     then ord\<lparr>to_payments := map (\<lambda>x. if py_id x = py_id p then p else x) (to_payments ord)\<rparr> else ord) orders"

definition changed_item :: "item_action \<Rightarrow> till_state \<Rightarrow> till_state" where
  "changed_item change s = (case change of
       SetComplimentary \<Rightarrow> s\<lparr>tl_complimentaryItem := None, tl_complimentaryReason := [], tl_dialog := None\<rparr>
     | UpdateNote \<Rightarrow> s\<lparr>tl_noteItem := None, tl_itemNote := [], tl_dialog := None\<rparr>
     | _ \<Rightarrow> s)"

definition product_added :: "till_answer \<Rightarrow> till_state \<Rightarrow> till_state" where
  "product_added answer s = (case answer of
       GaveOrder ord \<Rightarrow> s\<lparr>tl_modifierProduct := None, tl_dialog := None, tl_orders := upsert_order ord (tl_orders s)\<rparr>
     | _ \<Rightarrow> s\<lparr>tl_modifierProduct := None, tl_dialog := None\<rparr>)"

definition payment_taken :: "till_state \<Rightarrow> till_state" where
  "payment_taken s = s\<lparr>tl_dialog := None, tl_roomReference := []\<rparr>"

definition table_moved :: "till_state \<Rightarrow> till_state" where
  "table_moved s = close_dialog (s\<lparr>tl_selectedTableId := tl_destinationTable s\<rparr>)"

definition tables_merged :: "till_answer \<Rightarrow> till_state \<Rightarrow> till_state" where
  "tables_merged answer s = reset_merge (s\<lparr>tl_selectedTableId := merged_table answer s\<rparr>)"

definition cancellation_requested :: "till_state \<Rightarrow> till_state" where
  "cancellation_requested s = s\<lparr>tl_cancellationItem := None, tl_cancellationReason := [], tl_dialog := None\<rparr>"

definition items_moved :: "transfer_payload \<Rightarrow> till_state \<Rightarrow> till_state" where
  "items_moved p s = close_dialog (s\<lparr>tl_selectedTableId := tp_destination p\<rparr>)"

definition payment_refunded :: "till_answer \<Rightarrow> till_state \<Rightarrow> till_state" where
  "payment_refunded answer s = (case answer of
       GavePayment p \<Rightarrow> s\<lparr>tl_orders := replace_payment (map_option fst (tl_refundTarget s)) p (tl_orders s),
         tl_dialog := None, tl_refundTarget := None\<rparr>
     | _ \<Rightarrow> s\<lparr>tl_dialog := None, tl_refundTarget := None\<rparr>)"

text \<open>The \<open>onSuccess\<close> of every mutation.\<close>

definition mutation_success :: "till_action \<Rightarrow> till_answer \<Rightarrow> till_state \<Rightarrow> till_state" where
  "mutation_success a answer s = (case a of
       AddProduct product modifiers \<Rightarrow> product_added answer s
     | Pay \<Rightarrow> payment_taken s
     | CloseTable \<Rightarrow> close_dialog s
     | RequestDiscount \<Rightarrow> close_dialog s
     | MoveTable \<Rightarrow> table_moved s
     | MergeTables \<Rightarrow> tables_merged answer s
     | ChangeItem i change reason note \<Rightarrow> changed_item change (applyUpdatedOrder answer s)
     | RemoveItem i \<Rightarrow> applyUpdatedOrder answer s
     | RequestCancellation \<Rightarrow> cancellation_requested s
     | ApproveCancellation i \<Rightarrow> s
     | RejectCancellation i \<Rightarrow> s
     | SendToStations \<Rightarrow> applyUpdatedOrder answer s
     | MoveItems p \<Rightarrow> items_moved p s
     | PrintBill reprint \<Rightarrow> s
     | RefundPayment reason \<Rightarrow> payment_refunded answer s)"

text \<open>The \<open>onError\<close> of removing an item, which asks for a cancellation instead; the others only report.\<close>

definition mutation_failure :: "till_action \<Rightarrow> jstr option \<Rightarrow> till_state \<Rightarrow> till_state" where
  "mutation_failure a code s = (case a of
       RemoveItem i \<Rightarrow> if code = Some (js ''item_cancellation_required'')
         then s\<lparr>tl_cancellationItem := Some i, tl_cancellationReason := [], tl_dialog := Some CancelItemDialog\<rparr> else s
     | _ \<Rightarrow> s)"

section \<open>Buttons\<close>

datatype till_mutation = ProductMutation | PaymentMutation | CloseTableMutation | DiscountMutation | TransferMutation
  | MergeMutation | ItemActionMutation | RemoveItemMutation | CancellationMutation | ApproveMutation | RejectMutation
  | PreparationMutation | ItemTransferRequest | PrintMutation | RefundMutation

fun mutation_of :: "till_action \<Rightarrow> till_mutation" where
  "mutation_of (AddProduct p m) = ProductMutation" | "mutation_of Pay = PaymentMutation"
| "mutation_of CloseTable = CloseTableMutation" | "mutation_of RequestDiscount = DiscountMutation"
| "mutation_of MoveTable = TransferMutation" | "mutation_of MergeTables = MergeMutation"
| "mutation_of (ChangeItem i c r n) = ItemActionMutation" | "mutation_of (RemoveItem i) = RemoveItemMutation"
| "mutation_of RequestCancellation = CancellationMutation" | "mutation_of (ApproveCancellation i) = ApproveMutation"
| "mutation_of (RejectCancellation i) = RejectMutation" | "mutation_of SendToStations = PreparationMutation"
| "mutation_of (MoveItems p) = ItemTransferRequest" | "mutation_of (PrintBill x) = PrintMutation"
| "mutation_of (RefundPayment r) = RefundMutation"

text \<open>\<open>isPending\<close> of a mutation.\<close>

definition is_pending :: "till_mutation \<Rightarrow> till_state \<Rightarrow> bool" where
  "is_pending m s = list_ex (\<lambda>(a, i). mutation_of a = m) (tl_flights s)"

definition busy_item :: "till_state \<Rightarrow> bool" where
  "busy_item s \<longleftrightarrow> is_pending ItemActionMutation s \<or> is_pending RemoveItemMutation s"

definition item_listed :: "bill_item \<Rightarrow> till_state \<Rightarrow> bool" where
  "item_listed i s = (case selectedOrder s of None \<Rightarrow> False
     | Some ord \<Rightarrow> i \<in> set (to_items ord) \<and> bi_status i \<notin> terminalItemStatuses)"

definition note_text :: "bill_item \<Rightarrow> jstr" where
  "note_text i = (case bi_note i of None \<Rightarrow> [] | Some n \<Rightarrow> n)"

definition change_enabled :: "till_env \<Rightarrow> bill_item \<Rightarrow> item_action \<Rightarrow> jstr option \<Rightarrow> jstr option \<Rightarrow> till_state \<Rightarrow> bool" where
  "change_enabled E i change reason note s = (case change of
       Decrease \<Rightarrow> item_listed i s \<and> \<not> num_le (to_number (te_rnd E) (bi_quantity i)) (Fin 1) \<and> \<not> busy_item s
         \<and> reason = None \<and> note = None
     | Increase \<Rightarrow> item_listed i s \<and> \<not> busy_item s \<and> reason = None \<and> note = None
     | RemoveComplimentary \<Rightarrow> item_listed i s \<and> tl_canMarkComplimentary s \<and> \<not> busy_item s
         \<and> bi_is_complimentary i = Some True \<and> reason = Some (jt ''~Ikram kald~ir~ild~i'') \<and> note = None
     | SetComplimentary \<Rightarrow> tl_dialog s = Some ComplimentaryDialog \<and> tl_complimentaryItem s = Some i
         \<and> reason = Some (js_trim (tl_complimentaryReason s)) \<and> note = None
         \<and> 3 \<le> length (js_trim (tl_complimentaryReason s)) \<and> \<not> is_pending ItemActionMutation s
     | UpdateNote \<Rightarrow> tl_dialog s = Some ItemNoteDialog \<and> tl_noteItem s = Some i \<and> reason = None
         \<and> note = Some (js_trim (tl_itemNote s)) \<and> \<not> is_pending ItemActionMutation s
         \<and> js_trim (tl_itemNote s) \<noteq> js_trim (note_text i)
         \<and> \<not> (note_text i = [] \<and> js_trim (tl_itemNote s) = []))"

text \<open>When the control of an action is shown and enabled.\<close>

definition action_enabled :: "till_env \<Rightarrow> till_action \<Rightarrow> till_state \<Rightarrow> bool" where
  "action_enabled E a s = (case a of
       AddProduct product modifiers \<Rightarrow> tl_modifierProduct s = Some product \<and> \<not> is_pending (mutation_of a) s
     | Pay \<Rightarrow> tl_dialog s = Some PaymentDialog \<and> paymentAmountValid (te_rnd E) (tl_paymentAmount s) (balance E s)
         \<and> \<not> (tl_paymentMethod s = js ''ROOM_CHARGE'' \<and> js_trim (tl_roomReference s) = []) \<and> \<not> is_pending (mutation_of a) s
     | CloseTable \<Rightarrow> tl_dialog s = Some CloseTableDialog \<and> tableCanClose E s \<and> \<not> is_pending (mutation_of a) s
     | RequestDiscount \<Rightarrow> tl_dialog s = Some DiscountDialog \<and> tl_discountValue s \<noteq> []
         \<and> 3 \<le> length (js_trim (tl_reason s)) \<and> \<not> is_pending (mutation_of a) s
     | MoveTable \<Rightarrow> tl_dialog s = Some TransferDialog \<and> tl_destinationTable s \<noteq> []
         \<and> 3 \<le> length (js_trim (tl_reason s)) \<and> \<not> is_pending (mutation_of a) s
     | MergeTables \<Rightarrow> tl_dialog s = Some MergeDialog \<and> tl_mergeDestinationTable s \<noteq> []
         \<and> 3 \<le> length (js_trim (tl_mergeReason s)) \<and> \<not> is_pending (mutation_of a) s
     | ChangeItem i change reason note \<Rightarrow> change_enabled E i change reason note s
     | RemoveItem i \<Rightarrow> item_listed i s \<and> \<not> busy_item s
     | RequestCancellation \<Rightarrow> tl_dialog s = Some CancelItemDialog \<and> tl_cancellationItem s \<noteq> None
         \<and> 3 \<le> length (js_trim (tl_cancellationReason s)) \<and> \<not> is_pending (mutation_of a) s
     | ApproveCancellation i \<Rightarrow> tl_dialog s = Some ApprovalsDialog \<and> \<not> is_pending (mutation_of a) s
     | RejectCancellation i \<Rightarrow> tl_dialog s = Some ApprovalsDialog \<and> \<not> is_pending (mutation_of a) s
     | SendToStations \<Rightarrow> is_open_order (selectedOrder s) \<and> pendingPreparationItems (selectedOrder s) \<noteq> []
         \<and> \<not> is_pending (mutation_of a) s
     | MoveItems p \<Rightarrow> tl_dialog s = Some ItemTransferDialog \<and> \<not> is_pending (mutation_of a) s
     | PrintBill reprint \<Rightarrow> selectedOrder s \<noteq> None \<and> \<not> is_pending (mutation_of a) s \<and> (reprint \<longrightarrow> tl_billPrinted s)
     | RefundPayment reason \<Rightarrow> tl_dialog s = Some RefundDialog \<and> tl_refundTarget s \<noteq> None \<and> tl_canRefund s
         \<and> tl_refundShiftReady s \<and> 3 \<le> length (js_trim reason) \<and> \<not> is_pending (mutation_of a) s)"

text \<open>Buttons that open a dialog; the merge dialog gets a new key of the random id \<open>uuid\<close>.\<close>

definition open_dialog :: "till_env \<Rightarrow> till_dialog \<Rightarrow> jstr \<Rightarrow> till_state \<Rightarrow> till_state" where
  "open_dialog E d uuid s = (case d of
       ProductsDialog \<Rightarrow> if selectedTable s \<noteq> None \<and> (selectedOrder s \<noteq> None \<longrightarrow> is_open_order (selectedOrder s))
         then s\<lparr>tl_dialog := Some d\<rparr> else s
     | PaymentDialog \<Rightarrow> if canCollectPayment (te_rnd E) (selectedOrder s)
         then s\<lparr>tl_paymentAmount := te_fixed2 E (balance E s), tl_roomReference := [], tl_dialog := Some d\<rparr> else s
     | MergeDialog \<Rightarrow> if is_open_order (selectedOrder s) \<and> mergeCandidates s \<noteq> [] \<and> \<not> is_pending MergeMutation s
         then s\<lparr>tl_mergeDestinationTable := [], tl_mergeReason := [],
           tl_mergeIdempotencyKey := js ''cashier-merge:'' @ uuid, tl_dialog := Some d\<rparr> else s
     | CloseTableDialog \<Rightarrow> if tableCanClose E s \<and> \<not> is_pending CloseTableMutation s then s\<lparr>tl_dialog := Some d\<rparr> else s
     | QrQueueDialog \<Rightarrow> s\<lparr>tl_dialog := Some d\<rparr>
     | ApprovalsDialog \<Rightarrow> s\<lparr>tl_dialog := Some d\<rparr>
     | RefundDialog \<Rightarrow> s | CancelItemDialog \<Rightarrow> s | ComplimentaryDialog \<Rightarrow> s | ItemNoteDialog \<Rightarrow> s
     | _ \<Rightarrow> if is_open_order (selectedOrder s) then s\<lparr>tl_dialog := Some d\<rparr> else s)"

definition open_note :: "bill_item \<Rightarrow> till_state \<Rightarrow> till_state" where
  "open_note i s = (if item_listed i s \<and> \<not> busy_item s
     then s\<lparr>tl_noteItem := Some i, tl_itemNote := note_text i, tl_dialog := Some ItemNoteDialog\<rparr> else s)"

definition open_complimentary :: "bill_item \<Rightarrow> till_state \<Rightarrow> till_state" where
  "open_complimentary i s =
     (if item_listed i s \<and> tl_canMarkComplimentary s \<and> \<not> busy_item s \<and> bi_is_complimentary i \<noteq> Some True
      then s\<lparr>tl_complimentaryItem := Some i, tl_complimentaryReason := [], tl_dialog := Some ComplimentaryDialog\<rparr> else s)"

definition open_refund :: "jstr \<Rightarrow> till_state \<Rightarrow> till_state" where
  "open_refund payment s = (case selectedOrder s of
       None \<Rightarrow> s
     | Some ord \<Rightarrow> if list_ex (\<lambda>p. py_id p = payment \<and> py_status p = js ''COMPLETED'') (to_payments ord)
           \<and> tl_canRefund s \<and> tl_refundShiftReady s
         then s\<lparr>tl_refundTarget := Some (to_id ord, payment), tl_dialog := Some RefundDialog\<rparr> else s)"

text \<open>Closing the dialog that is open from outside; some wait for their mutation.\<close>

definition dismiss :: "till_state \<Rightarrow> till_state" where
  "dismiss s = (case tl_dialog s of
       Some CloseTableDialog \<Rightarrow> if is_pending CloseTableMutation s then s else close_dialog s
     | Some MergeDialog \<Rightarrow> if is_pending MergeMutation s then s else reset_merge s
     | Some RefundDialog \<Rightarrow> if is_pending RefundMutation s then s else s\<lparr>tl_dialog := None, tl_refundTarget := None\<rparr>
     | Some ItemTransferDialog \<Rightarrow> if is_pending ItemTransferRequest s then s else close_dialog s
     | Some CancelItemDialog \<Rightarrow> if is_pending CancellationMutation s then s
         else s\<lparr>tl_cancellationItem := None, tl_cancellationReason := [], tl_dialog := None\<rparr>
     | Some ComplimentaryDialog \<Rightarrow> if is_pending ItemActionMutation s then s
         else s\<lparr>tl_complimentaryItem := None, tl_complimentaryReason := [], tl_dialog := None\<rparr>
     | Some ItemNoteDialog \<Rightarrow> if is_pending ItemActionMutation s then s
         else s\<lparr>tl_noteItem := None, tl_itemNote := [], tl_dialog := None\<rparr>
     | _ \<Rightarrow> close_dialog s)"

text \<open>Its button to cancel, which for two of them forgets less.\<close>

definition cancel_button :: "till_state \<Rightarrow> till_state" where
  "cancel_button s =
     (if tl_dialog s = Some ComplimentaryDialog \<or> tl_dialog s = Some ItemNoteDialog
      then if is_pending ItemActionMutation s then s else close_dialog s
      else dismiss s)"

section \<open>Inputs\<close>

datatype till_field = MethodField | AmountField | RoomField | DiscountKindField | DiscountValueField | ReasonField
  | DestinationField | MergeDestinationField | MergeReasonField | CancellationReasonField
  | ComplimentaryReasonField | ItemNoteField

text \<open>The dialogs that show a field, and the values that its control offers.\<close>

definition field_shown :: "till_field \<Rightarrow> till_state \<Rightarrow> bool" where
  "field_shown f s = (case f of
       ReasonField \<Rightarrow> tl_dialog s = Some DiscountDialog \<or> tl_dialog s = Some TransferDialog
     | DiscountKindField \<Rightarrow> tl_dialog s = Some DiscountDialog
     | DiscountValueField \<Rightarrow> tl_dialog s = Some DiscountDialog
     | DestinationField \<Rightarrow> tl_dialog s = Some TransferDialog
     | MergeDestinationField \<Rightarrow> tl_dialog s = Some MergeDialog
     | MergeReasonField \<Rightarrow> tl_dialog s = Some MergeDialog
     | CancellationReasonField \<Rightarrow> tl_dialog s = Some CancelItemDialog
     | ComplimentaryReasonField \<Rightarrow> tl_dialog s = Some ComplimentaryDialog
     | ItemNoteField \<Rightarrow> tl_dialog s = Some ItemNoteDialog
     | _ \<Rightarrow> tl_dialog s = Some PaymentDialog)"

definition field_offers :: "till_field \<Rightarrow> till_state \<Rightarrow> jstr \<Rightarrow> bool" where
  "field_offers f s v = (case f of
       MethodField \<Rightarrow> v \<in> set (map js [''CASH'', ''CARD'', ''ROOM_CHARGE''])
     | DiscountKindField \<Rightarrow> v \<in> set (map js [''PERCENTAGE'', ''FIXED''])
     | DestinationField \<Rightarrow> list_ex (\<lambda>t. tr_id t = v \<and> tr_state t = js ''AVAILABLE''
           \<and> Some (tr_id t) \<noteq> map_option tr_id (selectedTable s)) (tl_tables s)
     | MergeDestinationField \<Rightarrow> list_ex (\<lambda>(t, x). tr_id t = v) (mergeCandidates s)
     | _ \<Rightarrow> True)"

definition set_field :: "till_field \<Rightarrow> jstr \<Rightarrow> till_state \<Rightarrow> till_state" where
  "set_field f v s = (case f of
       MethodField \<Rightarrow> s\<lparr>tl_paymentMethod := v\<rparr> | AmountField \<Rightarrow> s\<lparr>tl_paymentAmount := v\<rparr>
     | RoomField \<Rightarrow> s\<lparr>tl_roomReference := v\<rparr> | DiscountKindField \<Rightarrow> s\<lparr>tl_discountKind := v\<rparr>
     | DiscountValueField \<Rightarrow> s\<lparr>tl_discountValue := v\<rparr> | ReasonField \<Rightarrow> s\<lparr>tl_reason := v\<rparr>
     | DestinationField \<Rightarrow> s\<lparr>tl_destinationTable := v\<rparr>
     | MergeDestinationField \<Rightarrow> s\<lparr>tl_mergeDestinationTable := v\<rparr> | MergeReasonField \<Rightarrow> s\<lparr>tl_mergeReason := v\<rparr>
     | CancellationReasonField \<Rightarrow> s\<lparr>tl_cancellationReason := v\<rparr>
     | ComplimentaryReasonField \<Rightarrow> s\<lparr>tl_complimentaryReason := v\<rparr> | ItemNoteField \<Rightarrow> s\<lparr>tl_itemNote := v\<rparr>)"

section \<open>Events\<close>

text \<open>
  The caches and the rights change, tables are chosen, dialogs open and close, fields are edited, buttons are
  pressed with a random id at hand, a chosen product's details arrive, mutations are answered, a guest's order is
  approved. A button may also be pressed while a dialog covers it.
\<close>

datatype till_event = Fetched "till_order list" "till_table list" | Rights bool bool bool bool
  | TableChosen jstr | TablesShown | Opened till_dialog jstr | NoteOpened bill_item | ComplimentaryOpened bill_item
  | RefundOpened jstr | Dismissed | Cancelled | Edited till_field jstr | ProductDetail jstr bool jstr
  | ModifiersClosed | Pressed till_action jstr | Answered till_action till_answer | QrApproved jstr

text \<open>What an observer of the network sees.\<close>

datatype till_entry = Asked till_action "till_intent option" till_request | Got till_action "till_intent option" till_answer

text \<open>\<open>mutate\<close>\<close>

definition start_mutation :: "till_env \<Rightarrow> jstr \<Rightarrow> till_action \<Rightarrow> till_state \<Rightarrow> till_state \<times> till_entry list" where
  "start_mutation E uuid a s = (case mutation E uuid a s of
       Inl m \<Rightarrow> (mutation_failure a None s, [])
     | Inr (rq, intent, pending) \<Rightarrow>
         (s\<lparr>tl_pending := pending, tl_flights := tl_flights s @ [(a, intent)]\<rparr>, [Asked a intent rq]))"

definition end_mutation :: "till_action \<Rightarrow> till_answer \<Rightarrow> till_state \<Rightarrow> till_state \<times> till_entry list" where
  "end_mutation a answer s = (case List.find (\<lambda>(b, i). b = a) (tl_flights s) of
       None \<Rightarrow> (s, [])
     | Some (b, intent) \<Rightarrow>
        (let s1 = s\<lparr>tl_flights := remove1 (b, intent) (tl_flights s)\<rparr> in
         case answer of
           Failed code \<Rightarrow> (mutation_failure a code s1, [Got a intent answer])
         | _ \<Rightarrow> (mutation_success a answer (case intent of
               Some i \<Rightarrow> s1\<lparr>tl_pending := confirmed i (tl_pending s1)\<rparr> | None \<Rightarrow> s1), [Got a intent answer])))"

fun till_step :: "till_env \<Rightarrow> till_event \<Rightarrow> till_state \<Rightarrow> till_state \<times> till_entry list" where
  "till_step E (Fetched orders tables) s = (s\<lparr>tl_orders := orders, tl_tables := tables\<rparr>, [])"
| "till_step E (Rights gift refund shift printed) s =
     (s\<lparr>tl_canMarkComplimentary := gift, tl_canRefund := refund, tl_refundShiftReady := shift, tl_billPrinted := printed\<rparr>, [])"
| "till_step E (TableChosen t) s = (if t \<in> tr_id ` set (tl_tables s) then s\<lparr>tl_selectedTableId := t\<rparr> else s, [])"
| "till_step E TablesShown s = (s\<lparr>tl_selectedTableId := []\<rparr>, [])"
| "till_step E (Opened d uuid) s = (open_dialog E d uuid s, [])"
| "till_step E (NoteOpened i) s = (open_note i s, [])"
| "till_step E (ComplimentaryOpened i) s = (open_complimentary i s, [])"
| "till_step E (RefundOpened p) s = (open_refund p s, [])"
| "till_step E Dismissed s = (dismiss s, [])"
| "till_step E Cancelled s = (cancel_button s, [])"
| "till_step E (Edited f v) s = (if field_shown f s \<and> field_offers f s v then set_field f v s else s, [])"
| "till_step E (ProductDetail product groups uuid) s =
     (if groups then (s\<lparr>tl_modifierProduct := Some product, tl_dialog := None\<rparr>, [])
      else start_mutation E uuid (AddProduct product []) s)"
| "till_step E ModifiersClosed s =
     (if is_pending ProductMutation s then s else s\<lparr>tl_modifierProduct := None\<rparr>, [])"
| "till_step E (Pressed a uuid) s = (if action_enabled E a s then start_mutation E uuid a s else (s, []))"
| "till_step E (Answered a answer) s = end_mutation a answer s"
| "till_step E (QrApproved t) s = (close_dialog (s\<lparr>tl_selectedTableId := t\<rparr>), [])"

fun till_run :: "till_env \<Rightarrow> till_event list \<Rightarrow> till_state \<Rightarrow> till_state \<times> till_entry list" where
  "till_run E [] s = (s, [])"
| "till_run E (e # events) s =
     (let (s1, out) = till_step E e s; (s2, rest) = till_run E events s1 in (s2, out @ rest))"

section \<open>The log as a log of commands\<close>

fun event_uuid_till :: "till_event \<Rightarrow> jstr list" where
  "event_uuid_till (ProductDetail product groups uuid) = [uuid]"
| "event_uuid_till (Pressed a uuid) = [uuid]"
| "event_uuid_till e = []"

definition till_uuids :: "till_event list \<Rightarrow> jstr list" where
  "till_uuids events = concat (map event_uuid_till events)"

definition request_command :: "till_request \<Rightarrow> command" where
  "request_command rq = \<lparr>cm_path = rq_path rq, cm_body = (case rq_body rq of Some (JObj b) \<Rightarrow> b | _ \<Rightarrow> [])\<rparr>"

fun entry_command :: "till_entry \<Rightarrow> till_intent command_entry list" where
  "entry_command (Asked a (Some i) rq) = [Issued i (request_command rq)]"
| "entry_command (Got a (Some i) (Failed code)) = []"
| "entry_command (Got a (Some i) answer) = [Accepted i]"
| "entry_command e = []"

definition log_commands :: "till_entry list \<Rightarrow> till_intent command_entry list" where
  "log_commands entries = concat (map entry_command entries)"

lemma request_command_id: "request_command (command_request c) = c"
  by (simp add: request_command_def command_request_def)

text \<open>A mutation leaves the pending commands alone or prepares one.\<close>

lemma mutation_cases:
  assumes "mutation E uuid a s = Inr (rq, intent, pending)"
  obtains (plain) "intent = None" "pending = tl_pending s"
  | (command) i path payload where "mutation_command a s = Some (i, path, payload)" "intent = Some i"
      "rq = command_request (fst (prepare uuid (tl_pending s) i path payload))"
      "pending = snd (prepare uuid (tl_pending s) i path payload)"
proof -
  have p: "plain_request s r = Inr (rq, intent, pending) \<Longrightarrow> intent = None \<and> pending = tl_pending s" for r
    by (auto simp: plain_request_def split: sum.splits)
  have o: "order_request s f = Inr (rq, intent, pending) \<Longrightarrow> intent = None \<and> pending = tl_pending s" for f
    by (auto simp: order_request_def split: option.splits dest: p)
  show thesis
  proof (cases "\<exists>c. mutation_command a s = Some c")
    case True
    then obtain i path payload where c: "mutation_command a s = Some (i, path, payload)" by (metis prod_cases3)
    then have "a = Pay \<or> (\<exists>x y. a = AddProduct x y)" by (cases a) (auto simp: mutation_command_def)
    then have "mutation E uuid a s = (let (c, pending) = prepare uuid (tl_pending s) i path payload
        in Inr (command_request c, Some i, pending))"
      using c by (auto simp: mutation_def)
    with assms have "intent = Some i" "rq = command_request (fst (prepare uuid (tl_pending s) i path payload))"
      "pending = snd (prepare uuid (tl_pending s) i path payload)" by (simp_all split: prod.splits)
    with c command show ?thesis by blast
  next
    case False
    then have "intent = None \<and> pending = tl_pending s"
      using assms by (cases a) (auto simp: mutation_def dest: p o split: option.splits if_splits)
    with plain show ?thesis by blast
  qed
qed

lemma pending_unchanged:
  "tl_pending (mutation_success a answer s) = tl_pending s"
  "tl_pending (mutation_failure a code s) = tl_pending s"
  "tl_pending (open_dialog E d uuid s) = tl_pending s"
  "tl_pending (open_note i s) = tl_pending s" "tl_pending (open_complimentary i s) = tl_pending s"
  "tl_pending (open_refund p s) = tl_pending s" "tl_pending (dismiss s) = tl_pending s"
  "tl_pending (cancel_button s) = tl_pending s" "tl_pending (set_field f v s) = tl_pending s"
  "tl_pending (close_dialog s) = tl_pending s"
proof -
  show d: "tl_pending (dismiss s) = tl_pending s" and c: "tl_pending (close_dialog s) = tl_pending s" for s
    by (auto simp: dismiss_def close_dialog_def reset_merge_def split: option.splits till_dialog.splits)
  show "tl_pending (cancel_button s) = tl_pending s" by (simp add: cancel_button_def d c)
qed (auto simp: mutation_success_def product_added_def payment_taken_def table_moved_def tables_merged_def
    cancellation_requested_def items_moved_def payment_refunded_def mutation_failure_def open_dialog_def open_note_def open_complimentary_def
    open_refund_def set_field_def close_dialog_def reset_merge_def applyUpdatedOrder_def changed_item_def
    split: till_action.splits till_answer.splits till_dialog.splits till_field.splits item_action.splits option.splits)

lemma start_mutation_log:
  "\<exists>ev. log_commands (snd (start_mutation E uuid a s)) = command_log (tl_pending s) ev
     \<and> tl_pending (fst (start_mutation E uuid a s)) = foldl pending_step (tl_pending s) ev
     \<and> subseq (event_keys ev) [uuid]"
proof (cases "mutation E uuid a s")
  case (Inl m)
  then show ?thesis
    by (intro exI [of _ "[]"]) (simp add: start_mutation_def log_commands_def pending_unchanged event_keys_def)
next
  case (Inr x)
  obtain rq intent pending where x: "x = (rq, intent, pending)" by (cases x)
  from Inr [unfolded x] show ?thesis
  proof (cases rule: mutation_cases)
    case plain
    then show ?thesis
      using Inr x by (intro exI [of _ "[]"]) (simp add: start_mutation_def log_commands_def event_keys_def)
  next
    case (command i path payload)
    then show ?thesis
      using Inr x by (intro exI [of _ "[Prepare uuid i path payload]"])
        (simp add: start_mutation_def log_commands_def request_command_id event_keys_def)
  qed
qed

lemma end_mutation_log:
  "\<exists>ev. log_commands (snd (end_mutation a answer s)) = command_log (tl_pending s) ev
     \<and> tl_pending (fst (end_mutation a answer s)) = foldl pending_step (tl_pending s) ev \<and> event_keys ev = []"
proof (cases "List.find (\<lambda>(b, i). b = a) (tl_flights s)")
  case None
  then show ?thesis by (intro exI [of _ "[]"]) (simp add: end_mutation_def log_commands_def event_keys_def)
next
  case (Some x)
  obtain b intent where x: "x = (b, intent)" by (cases x)
  show ?thesis
  proof (cases "intent = None \<or> (\<exists>code. answer = Failed code)")
    case True
    then show ?thesis
      using Some x by (intro exI [of _ "[]"])
        (auto simp: end_mutation_def log_commands_def event_keys_def pending_unchanged Let_def split: till_answer.splits option.splits)
  next
    case False
    then obtain i where "intent = Some i" by auto
    then show ?thesis
      using Some x False by (intro exI [of _ "[Confirmed i]"])
        (auto simp: end_mutation_def log_commands_def event_keys_def pending_unchanged Let_def split: till_answer.splits)
  qed
qed

lemma till_step_log:
  "\<exists>ev. log_commands (snd (till_step E e s)) = command_log (tl_pending s) ev
     \<and> tl_pending (fst (till_step E e s)) = foldl pending_step (tl_pending s) ev \<and> subseq (event_keys ev) (event_uuid_till e)"
proof (cases e)
  case (ProductDetail product groups uuid)
  then show ?thesis
    using start_mutation_log [of E uuid "AddProduct product []" s]
    by (cases groups) (auto intro!: exI [of _ "[]"] simp: log_commands_def event_keys_def)
next
  case (Pressed a uuid)
  then show ?thesis
    using start_mutation_log [of E uuid a s]
    by (cases "action_enabled E a s") (auto intro!: exI [of _ "[]"] simp: log_commands_def event_keys_def)
next
  case (Answered a answer)
  then show ?thesis using end_mutation_log [of a answer s] by auto
qed (auto intro!: exI [of _ "[]"] simp: log_commands_def event_keys_def pending_unchanged)

lemma till_run_Cons:
  "snd (till_run E (e # events) s) = snd (till_step E e s) @ snd (till_run E events (fst (till_step E e s)))"
  "fst (till_run E (e # events) s) = fst (till_run E events (fst (till_step E e s)))"
  by (simp_all add: split_beta)

lemma till_run_log:
  "\<exists>ev. log_commands (snd (till_run E events s)) = command_log (tl_pending s) ev \<and> subseq (event_keys ev) (till_uuids events)"
proof (induction events arbitrary: s)
  case Nil
  show ?case by (intro exI [of _ "[]"]) (simp add: log_commands_def event_keys_def till_uuids_def)
next
  case (Cons e events)
  obtain ev where ev: "log_commands (snd (till_step E e s)) = command_log (tl_pending s) ev"
    "tl_pending (fst (till_step E e s)) = foldl pending_step (tl_pending s) ev" "subseq (event_keys ev) (event_uuid_till e)"
    using till_step_log by blast
  obtain rest where rest: "log_commands (snd (till_run E events (fst (till_step E e s))))
      = command_log (tl_pending (fst (till_step E e s))) rest" "subseq (event_keys rest) (till_uuids events)"
    using Cons.IH by blast
  have "event_keys (ev @ rest) = event_keys ev @ event_keys rest" by (simp add: event_keys_def)
  moreover have "till_uuids (e # events) = event_uuid_till e @ till_uuids events" by (simp add: till_uuids_def)
  ultimately have "subseq (event_keys (ev @ rest)) (till_uuids (e # events))"
    using ev(3) rest(2) by (simp add: list_emb_append_mono)
  moreover have "log_commands (snd (till_run E (e # events) s)) = command_log (tl_pending s) (ev @ rest)"
    using ev(1,2) rest(1) by (simp add: log_commands_def command_log_append till_run_Cons del: till_run.simps)
  ultimately show ?case by blast
qed

section \<open>Payments\<close>

definition payment_body :: "jstr \<Rightarrow> jstr \<Rightarrow> jstr \<Rightarrow> jstr \<Rightarrow> jobj" where
  "payment_body meth amount room key = [(js ''method'', JStr meth), (js ''amount'', JStr amount),
     (js ''reference'', if meth = js ''ROOM_CHARGE'' then JStr room else JNull), (js ''idempotency_key'', JStr key)]"

fun command_ok :: "till_intent \<Rightarrow> command \<Rightarrow> bool" where
  "command_ok (PaymentIntent ord meth amount room) c \<longleftrightarrow>
     cm_path c = js ''/orders/'' @ ord @ js ''/payments'' \<and> (\<exists>key. cm_body c = payment_body meth amount room key)"
| "command_ok (ProductIntent t product modifiers) c \<longleftrightarrow> True"

definition commands_ok :: "till_state \<Rightarrow> bool" where
  "commands_ok s \<longleftrightarrow> (\<forall>i c. map_of (tl_pending s) i = Some c \<longrightarrow> command_ok i c)"

lemma prepared_ok:
  assumes "mutation_command a s = Some (i, path, payload)" and "commands_ok s"
  shows "command_ok i (fst (prepare uuid (tl_pending s) i path payload))"
    and "map_of (snd (prepare uuid (tl_pending s) i path payload)) j = Some c \<Longrightarrow> command_ok j c"
proof -
  let ?c = "\<lparr>cm_path = path, cm_body = AList.update (js ''idempotency_key'') (JStr uuid) payload\<rparr>"
  have new: "command_ok i ?c"
    using assms(1)
    by (auto simp: mutation_command_def product_command_def payment_command_def payment_body_def order_path_def Let_def
        split: till_action.splits option.splits if_splits)
  show "command_ok i (fst (prepare uuid (tl_pending s) i path payload))"
    using new assms(2) by (auto simp: prepare_def commands_ok_def Let_def split: option.splits)
  show "map_of (snd (prepare uuid (tl_pending s) i path payload)) j = Some c \<Longrightarrow> command_ok j c"
    using new assms(2) by (auto simp: prepare_def commands_ok_def Let_def update_conv' split: option.splits if_splits)
qed

lemma start_commands_ok:
  assumes "commands_ok s"
  shows "commands_ok (fst (start_mutation E uuid a s))"
proof (cases "mutation E uuid a s")
  case (Inl m)
  with assms show ?thesis by (simp add: start_mutation_def commands_ok_def pending_unchanged)
next
  case (Inr x)
  obtain rq intent pending where x: "x = (rq, intent, pending)" by (cases x)
  from Inr [unfolded x] show ?thesis
  proof (cases rule: mutation_cases)
    case plain
    with assms Inr x show ?thesis by (simp add: start_mutation_def commands_ok_def)
  next
    case (command i path payload)
    with Inr x prepared_ok(2) [OF command(1) assms] show ?thesis by (simp add: start_mutation_def commands_ok_def)
  qed
qed

lemma end_commands_ok: "commands_ok s \<Longrightarrow> commands_ok (fst (end_mutation a answer s))"
  by (auto simp: end_mutation_def Let_def commands_ok_def pending_unchanged confirmed_def delete_conv' restrict_map_def
      split: option.splits till_answer.splits if_splits)

lemma step_commands_ok:
  assumes "commands_ok s"
  shows "commands_ok (fst (till_step E e s))"
proof (cases e)
  case (ProductDetail product groups uuid)
  with start_commands_ok [OF assms] assms show ?thesis by (auto simp: commands_ok_def)
next
  case (Pressed a uuid)
  with start_commands_ok [OF assms] assms show ?thesis by auto
next
  case (Answered a answer)
  with end_commands_ok [OF assms] show ?thesis by simp
qed (use assms in \<open>auto simp: commands_ok_def pending_unchanged\<close>)

lemma run_commands_ok: "commands_ok s \<Longrightarrow> commands_ok (fst (till_run E events s))"
  by (induction events arbitrary: s) (auto simp: step_commands_ok till_run_Cons simp del: till_run.simps(2))

lemma fresh_till_ok: "commands_ok fresh_till" "keys_ok {} (tl_pending fresh_till)"
  by (simp_all add: commands_ok_def keys_ok_def fresh_till_def)

lemma asked_command:
  "Asked a (Some i) q \<in> set (snd (till_run E events s)) \<Longrightarrow> command_request (request_command q) = q"
proof (induction events arbitrary: s)
  case (Cons e events)
  have start: "Asked a (Some i) q \<in> set (snd (start_mutation E uuid b t)) \<Longrightarrow> command_request (request_command q) = q"
    for uuid b t
    by (auto simp: start_mutation_def request_command_id split: sum.splits elim!: mutation_cases)
  have "Asked a (Some i) q \<in> set (snd (till_step E e s)) \<Longrightarrow> command_request (request_command q) = q"
    by (cases e) (auto dest: start split: if_splits
        simp: end_mutation_def Let_def split: option.splits till_answer.splits)
  with Cons show ?case by (auto simp: till_run_Cons simp del: till_run.simps(2))
qed simp

definition request_key :: "till_request \<Rightarrow> json option" where
  "request_key rq = command_key (request_command rq)"

definition succeeded :: "till_intent \<Rightarrow> till_entry list \<Rightarrow> bool" where
  "succeeded i entries \<longleftrightarrow> Accepted i \<in> set (log_commands entries)"

lemma succeeded_iff:
  "succeeded i entries \<longleftrightarrow> (\<exists>a answer. Got a (Some i) answer \<in> set entries \<and> (\<forall>code. answer \<noteq> Failed code))"
proof -
  have "Accepted i \<in> set (entry_command x) \<longleftrightarrow> (\<exists>a answer. x = Got a (Some i) answer \<and> (\<forall>code. answer \<noteq> Failed code))" for x
    by (cases x rule: entry_command.cases) auto
  then show ?thesis by (auto simp: succeeded_def log_commands_def)
qed

lemma selected_order_belongs:
  "selectedOrder s = Some ord \<Longrightarrow> \<exists>t. selectedTable s = Some t \<and> ord \<in> set (tl_orders s) \<and> belongsToTable ord t"
  using current_order_belongs [of "tl_orders s" _ ord]
  by (cases "selectedTable s") (auto simp: selectedOrder_def selectCurrentTableOrder_def)

text \<open>What one press of the payment button sends, in a state whose pending commands are sound.\<close>

lemma payment_pressed:
  assumes "commands_ok s" and "Asked Pay intent rq \<in> set (snd (till_step E (Pressed Pay uuid) s))"
  shows "\<exists>ord key t. selectedOrder s = Some ord \<and> selectedTable s = Some t \<and> belongsToTable ord t
    \<and> rq = \<lparr>rq_method = ''POST'', rq_path = js ''/orders/'' @ to_id ord @ js ''/payments'',
         rq_body = Some (JObj (payment_body (tl_paymentMethod s) (tl_paymentAmount s) (js_trim (tl_roomReference s)) key))\<rparr>
    \<and> intent = Some (PaymentIntent (to_id ord) (tl_paymentMethod s) (tl_paymentAmount s) (js_trim (tl_roomReference s)))
    \<and> paymentAmountValid (te_rnd E) (tl_paymentAmount s) (remaining (te_rnd E) (Some ord))"
proof -
  have enabled: "action_enabled E Pay s" and asked: "Asked Pay intent rq \<in> set (snd (start_mutation E uuid Pay s))"
    using assms(2) by (auto split: if_splits)
  then obtain pending where m: "mutation E uuid Pay s = Inr (rq, intent, pending)"
    by (auto simp: start_mutation_def split: sum.splits)
  have some: "mutation_command Pay s \<noteq> None" using m by (auto simp: mutation_def split: option.splits)
  from m show ?thesis
  proof (cases rule: mutation_cases)
    case plain
    then show ?thesis using m some by (auto simp: mutation_def split: option.splits prod.splits)
  next
    case (command i path payload)
    obtain ord where ord: "selectedOrder s = Some ord"
      "i = PaymentIntent (to_id ord) (tl_paymentMethod s) (tl_paymentAmount s) (js_trim (tl_roomReference s))"
      using command(1) by (auto simp: mutation_command_def payment_command_def split: option.splits if_splits)
    have "command_ok i (fst (prepare uuid (tl_pending s) i path payload))" by (rule prepared_ok(1) [OF command(1) assms(1)])
    then obtain key where "rq = \<lparr>rq_method = ''POST'', rq_path = js ''/orders/'' @ to_id ord @ js ''/payments'',
        rq_body = Some (JObj (payment_body (tl_paymentMethod s) (tl_paymentAmount s) (js_trim (tl_roomReference s)) key))\<rparr>"
      using command(3) ord(2) by (auto simp: command_request_def)
    moreover have "paymentAmountValid (te_rnd E) (tl_paymentAmount s) (remaining (te_rnd E) (Some ord))"
      using enabled ord(1) by (simp add: action_enabled_def balance_def)
    ultimately show ?thesis using selected_order_belongs [OF ord(1)] ord command(2) by blast
  qed
qed

text \<open>C4: The till charges what is on the screen, once. In every state the screen can reach, a press of the payment
  button sends, if anything, a payment for the order of the table on the screen with the method, the amount
  and the room that are entered, and for orders kept in cents at most what is still owed. Among all payments
  and products that are ever sent, two requests carry the same idempotency key exactly when they repeat one
  intent that has not succeeded in between, and then they are the same request.\<close>

theorem payments_sent_once:
  assumes "distinct (till_uuids events)" and "till_run E events fresh_till = (s, entries)"
  shows "(Asked Pay intent rq \<in> set (snd (till_step E (Pressed Pay uuid) s)) \<longrightarrow>
      (\<exists>ord key t. selectedOrder s = Some ord \<and> selectedTable s = Some t \<and> belongsToTable ord t
        \<and> rq = \<lparr>rq_method = ''POST'', rq_path = js ''/orders/'' @ to_id ord @ js ''/payments'',
             rq_body = Some (JObj (payment_body (tl_paymentMethod s) (tl_paymentAmount s) (js_trim (tl_roomReference s)) key))\<rparr>
        \<and> (\<forall>T cs. double_rounding (te_rnd E) \<and> order_in_cents (te_rnd E) ord T cs \<longrightarrow>
             0 < text_cents (tl_paymentAmount s) \<and> text_cents (tl_paymentAmount s) \<le> T - sum_list cs)))
    \<and> (entries = xs @ Asked a (Some i) q # ys @ Asked b (Some j) r # zs \<longrightarrow>
        (request_key q = request_key r \<longleftrightarrow> i = j \<and> \<not> succeeded i ys) \<and> (i = j \<and> \<not> succeeded i ys \<longrightarrow> q = r))"
proof (intro conjI impI)
  have s: "s = fst (till_run E events fresh_till)" "entries = snd (till_run E events fresh_till)"
    using assms(2) by simp_all
  have "commands_ok s" unfolding s by (rule run_commands_ok [OF fresh_till_ok(1)])
  moreover assume "Asked Pay intent rq \<in> set (snd (till_step E (Pressed Pay uuid) s))"
  ultimately show "\<exists>ord key t. selectedOrder s = Some ord \<and> selectedTable s = Some t \<and> belongsToTable ord t
        \<and> rq = \<lparr>rq_method = ''POST'', rq_path = js ''/orders/'' @ to_id ord @ js ''/payments'',
             rq_body = Some (JObj (payment_body (tl_paymentMethod s) (tl_paymentAmount s) (js_trim (tl_roomReference s)) key))\<rparr>
        \<and> (\<forall>T cs. double_rounding (te_rnd E) \<and> order_in_cents (te_rnd E) ord T cs \<longrightarrow>
             0 < text_cents (tl_paymentAmount s) \<and> text_cents (tl_paymentAmount s) \<le> T - sum_list cs)"
    using payment_pressed [of s intent rq E uuid] payment_amount_exact by blast
next
  assume e: "entries = xs @ Asked a (Some i) q # ys @ Asked b (Some j) r # zs"
  have entries: "entries = snd (till_run E events fresh_till)" using assms(2) by simp
  obtain ev where ev: "log_commands entries = command_log (tl_pending fresh_till) ev" "subseq (event_keys ev) (till_uuids events)"
    unfolding entries using till_run_log by blast
  have "distinct (event_keys ev)" using ev(2) assms(1) by (auto simp: subseq_conv_nths intro: distinct_nthsI)
  note exact = command_key_iff [OF _ fresh_till_ok(2) _ this]
  have "command_log (tl_pending fresh_till) ev = log_commands xs @ Issued i (request_command q)
      # log_commands ys @ Issued j (request_command r) # log_commands zs"
    unfolding ev(1) [symmetric] e by (simp add: log_commands_def)
  note exact = exact [OF this, simplified]
  show "request_key q = request_key r \<longleftrightarrow> i = j \<and> \<not> succeeded i ys"
    using exact by (auto simp: request_key_def succeeded_def)
  assume "i = j \<and> \<not> succeeded i ys"
  then have "request_command q = request_command r" using exact by (auto simp: succeeded_def)
  moreover have "command_request (request_command q) = q" "command_request (request_command r) = r"
    using asked_command [of a i q E events fresh_till] asked_command [of b j r E events fresh_till] e entries by auto
  ultimately show "q = r" by metis
qed

text \<open>Six lira of a tab of ten are paid; the first answer is lost.\<close>

definition demo_till_env :: till_env where
  "demo_till_env = \<lparr>te_rnd = Fin, te_str_of = (\<lambda>_. []), te_fixed2 = (\<lambda>_. js ''6.00''), te_cmp = (\<lambda>_ _. 0),
     te_json_text = (\<lambda>_. [])\<rparr>"

definition demo_order :: till_order where
  "demo_order = tab_of_ten\<lparr>or_table_id := Some (js ''t'')\<rparr>"

definition demo_table :: till_table where
  "demo_table = \<lparr>tr_id = js ''t'', tr_name = js ''1'', tr_state = js ''OCCUPIED'', tt_version = Fin 1\<rparr>"

definition demo_payment_events :: "till_event list" where
  "demo_payment_events = [Fetched [demo_order] [demo_table], TableChosen (js ''t''), Opened PaymentDialog [],
     Pressed Pay (js ''k1''), Answered Pay (Failed None), Pressed Pay (js ''k2'')]"

definition demo_intent :: till_intent where
  "demo_intent = PaymentIntent (js ''o1'') (js ''CASH'') (js ''6.00'') []"

lemma demo_collectable:
  "canCollectPayment Fin (Some demo_order)" "paymentAmountValid Fin (js ''6.00'') (remaining Fin (Some demo_order))"
proof -
  have "money_text (js ''10.00'')" "text_cents (js ''10.00'') = 1000" "money_text (js ''4.00'')"
    "text_cents (js ''4.00'') = 400" "money_text (js ''6.00'')" "text_cents (js ''6.00'') = 600" by code_simp+
  note n = this money_number(1)
  have r: "remaining Fin (Some demo_order) = Fin 6"
    using n(1-4) n(7) [of "js ''10.00''" Fin] n(7) [of "js ''4.00''" Fin]
    by (simp add: remaining_def paid_def js_sub_def demo_order_def tab_of_ten_def)
  then show "canCollectPayment Fin (Some demo_order)"
    by (simp add: canCollectPayment_def demo_order_def tab_of_ten_def terminalOrderStatuses_def)
  show "paymentAmountValid Fin (js ''6.00'') (remaining Fin (Some demo_order))"
    using n(5,6) n(7) [of "js ''6.00''" Fin] r by (simp add: paymentAmountValid_def)
qed

lemma demo_selected:
  "tl_orders s = [demo_order] \<Longrightarrow> tl_tables s = [demo_table] \<Longrightarrow> tl_selectedTableId s = js ''t'' \<Longrightarrow>
   selectedOrder s = Some demo_order"
  by (simp add: selectedOrder_def selectedTable_def selectCurrentTableOrder_def belongsToTable_def demo_table_def
      demo_order_def tab_of_ten_def terminalOrderStatuses_def)

lemma demo_payment_log:
  "\<exists>s q r. till_run demo_till_env demo_payment_events fresh_till = (s, [Asked Pay (Some demo_intent) q,
     Got Pay (Some demo_intent) (Failed None), Asked Pay (Some demo_intent) r])"
  using demo_collectable
  by (simp add: demo_payment_events_def fresh_till_def open_dialog_def demo_selected balance_def action_enabled_def
      start_mutation_def mutation_def mutation_command_def payment_command_def prepare_def Let_def end_mutation_def
      mutation_failure_def is_pending_def demo_intent_def demo_till_env_def)
    (simp add: demo_table_def demo_order_def tab_of_ten_def js_trim_def)

lemma payments_sent_once_witness:
  "\<exists>q. snd (till_run demo_till_env demo_payment_events fresh_till) = [Asked Pay (Some demo_intent) q,
     Got Pay (Some demo_intent) (Failed None), Asked Pay (Some demo_intent) q]"
proof -
  obtain s q r where run: "till_run demo_till_env demo_payment_events fresh_till = (s, [Asked Pay (Some demo_intent) q,
     Got Pay (Some demo_intent) (Failed None), Asked Pay (Some demo_intent) r])"
    using demo_payment_log by blast
  have "distinct (till_uuids demo_payment_events)" by (simp add: till_uuids_def demo_payment_events_def)
  from payments_sent_once [OF this run, where xs = "[]" and ys = "[Got Pay (Some demo_intent) (Failed None)]" and zs = "[]"
      and a = Pay and b = Pay and i = demo_intent and j = demo_intent and q = q and r = r]
  have "q = r" by (simp add: succeeded_def log_commands_def)
  with run show ?thesis by simp
qed

section \<open>Merging tables\<close>

text \<open>An order that the selected one can be merged with, at its table.\<close>

definition mergeable :: "till_table list \<Rightarrow> jstr option \<Rightarrow> jstr option \<Rightarrow> till_table \<Rightarrow> till_order \<Rightarrow> bool" where
  "mergeable tables order table t other \<longleftrightarrow> Some (to_id other) \<noteq> order \<and> or_status other \<notin> terminalOrderStatuses
     \<and> table_of_order tables other = Some t \<and> Some (tr_id t) \<noteq> table"

lemma merge_step_cases:
  obtains (skip) "merge_step tables order table cs other = cs"
      "\<forall>t. mergeable tables order table t other \<longrightarrow> tr_id t \<in> fst ` set cs"
  | (new) t where "merge_step tables order table cs other = cs @ [(tr_id t, t, other)]"
      "mergeable tables order table t other" "tr_id t \<notin> fst ` set cs"
proof (cases "\<exists>t. mergeable tables order table t other \<and> tr_id t \<notin> fst ` set cs")
  case True
  then obtain t where t: "mergeable tables order table t other" "tr_id t \<notin> fst ` set cs" by blast
  have "AList.update (tr_id t) (t, other) cs = cs @ [(tr_id t, t, other)]" using t(2) by (induction cs) auto
  moreover have "map_of cs (tr_id t) = None" using t(2) by (simp add: map_of_eq_None_iff)
  ultimately have "merge_step tables order table cs other = cs @ [(tr_id t, t, other)]"
    using t(1) by (simp add: merge_step_def mergeable_def)
  with t new show ?thesis by blast
next
  case False
  have "merge_step tables order table cs other = cs"
  proof (cases "table_of_order tables other")
    case (Some t)
    then have "map_of cs (tr_id t) \<noteq> None" if "mergeable tables order table t other"
      using False that by (simp add: map_of_eq_None_iff)
    with Some show ?thesis by (auto simp: merge_step_def mergeable_def)
  qed (simp add: merge_step_def)
  with False skip show ?thesis by blast
qed

lemma merge_steps:
  "distinct (map fst (foldl (merge_step tables order table) [] orders))
   \<and> (\<forall>(k, t, other)\<in>set (foldl (merge_step tables order table) [] orders).
        k = tr_id t \<and> other \<in> set orders \<and> mergeable tables order table t other)
   \<and> (\<forall>other\<in>set orders. \<forall>t. mergeable tables order table t other \<longrightarrow>
        tr_id t \<in> fst ` set (foldl (merge_step tables order table) [] orders))"
proof (induction orders rule: rev_induct)
  case (snoc other orders)
  let ?cs = "foldl (merge_step tables order table) [] orders"
  show ?case
  proof (cases rule: merge_step_cases [of tables order table ?cs other])
    case skip
    with snoc show ?thesis by auto
  next
    case (new t)
    have one: "mergeable tables order table t' other \<Longrightarrow> t' = t" for t' using new(2) by (simp add: mergeable_def)
    have step: "foldl (merge_step tables order table) [] (orders @ [other]) = ?cs @ [(tr_id t, t, other)]"
      using new(1) by simp
    have "distinct (map fst (?cs @ [(tr_id t, t, other)]))" using snoc new(3) by simp
    moreover have "\<forall>(k, t, other')\<in>set (?cs @ [(tr_id t, t, other)]).
        k = tr_id t \<and> other' \<in> set (orders @ [other]) \<and> mergeable tables order table t other'"
      using snoc new(2) by fastforce
    moreover have "\<forall>other'\<in>set (orders @ [other]). \<forall>t'. mergeable tables order table t' other' \<longrightarrow>
        tr_id t' \<in> fst ` set (?cs @ [(tr_id t, t, other)])"
      using snoc one by fastforce
    ultimately show ?thesis unfolding step by blast
  qed
qed simp

lemma candidate_mergeable:
  "(t, other) \<in> set (buildMergeCandidates orders tables order table) \<Longrightarrow>
   other \<in> set orders \<and> mergeable tables order table t other"
  using merge_steps [of tables order table orders] by (fastforce simp: buildMergeCandidates_def)

lemma candidate_tables:
  "map (tr_id \<circ> fst) (buildMergeCandidates orders tables order table) = map fst (foldl (merge_step tables order table) [] orders)"
  using merge_steps [of tables order table orders] by (auto simp: buildMergeCandidates_def)

text \<open>C13: Tables are merged with open accounts only. The tables offered are exactly those of the open orders
  other than the selected one at another table, each once; and a merge is only requested for an open order, into an
  offered table, with a reason of three characters.\<close>

theorem merges_offered_exactly:
  "(let offered = map (tr_id \<circ> fst) (mergeCandidates s);
        mergeable_here = mergeable (tl_tables s) (map_option to_id (selectedOrder s)) (map_option tr_id (selectedTable s)) in
    distinct offered
    \<and> set offered = {tr_id t | t. \<exists>other\<in>set (tl_orders s). mergeable_here t other}
    \<and> (\<forall>rq x y. mutation E uuid MergeTables s = Inr (rq, x, y) \<longrightarrow>
        (\<exists>ord. selectedOrder s = Some ord \<and> or_status ord \<notin> terminalOrderStatuses
          \<and> tl_mergeDestinationTable s \<in> set offered \<and> 3 \<le> length (js_trim (tl_mergeReason s))
          \<and> rq = post_request (js ''/orders/'' @ to_id ord @ js ''/merge'')
              [(''destination_table_id'', JStr (tl_mergeDestinationTable s)),
               (''reason'', JStr (js_trim (tl_mergeReason s))),
               (''idempotency_key'', JStr (tl_mergeIdempotencyKey s))])))"
proof -
  let ?order = "map_option to_id (selectedOrder s)" and ?table = "map_option tr_id (selectedTable s)"
  let ?cs = "foldl (merge_step (tl_tables s) ?order ?table) [] (tl_orders s)"
  let ?offered = "map (tr_id \<circ> fst) (mergeCandidates s)"
  have tables: "?offered = map fst ?cs" unfolding mergeCandidates_def by (rule candidate_tables)
  note steps = merge_steps [of "tl_tables s" ?order ?table "tl_orders s"]
  have "distinct ?offered" unfolding tables using steps by blast
  moreover have "set ?offered = {tr_id t | t. \<exists>other\<in>set (tl_orders s). mergeable (tl_tables s) ?order ?table t other}"
    unfolding tables set_map using steps by fastforce
  moreover have "\<exists>ord. selectedOrder s = Some ord \<and> or_status ord \<notin> terminalOrderStatuses
      \<and> tl_mergeDestinationTable s \<in> set ?offered \<and> 3 \<le> length (js_trim (tl_mergeReason s))
      \<and> rq = post_request (js ''/orders/'' @ to_id ord @ js ''/merge'')
          [(''destination_table_id'', JStr (tl_mergeDestinationTable s)), (''reason'', JStr (js_trim (tl_mergeReason s))),
           (''idempotency_key'', JStr (tl_mergeIdempotencyKey s))]"
    if "mutation E uuid MergeTables s = Inr (rq, x, y)" for rq x y
  proof -
    have m: "order_request s (\<lambda>ord. merge_request ord s) = Inr (rq, x, y)" using that by (simp add: mutation_def)
    obtain ord where ord: "selectedOrder s = Some ord"
      using m by (cases "selectedOrder s") (simp_all add: order_request_def)
    have rq: "merge_request ord s = Inr rq"
      using m ord by (cases "merge_request ord s") (simp_all add: order_request_def plain_request_def)
    from rq obtain t other where "List.find (\<lambda>(t, x). tr_id t = tl_mergeDestinationTable s) (mergeCandidates s) = Some (t, other)"
      "or_status ord \<notin> terminalOrderStatuses" "3 \<le> length (js_trim (tl_mergeReason s))"
      "rq = post_request (order_path ord ''/merge'') [(''destination_table_id'', JStr (tr_id t)),
            (''reason'', JStr (js_trim (tl_mergeReason s))), (''idempotency_key'', JStr (tl_mergeIdempotencyKey s))]"
      by (auto simp: merge_request_def split: if_splits option.splits)
    moreover from this(1) have "(t, other) \<in> set (mergeCandidates s)" "tr_id t = tl_mergeDestinationTable s"
      by (auto dest: find_member)
    ultimately show ?thesis using ord by (force simp: order_path_def)
  qed
  ultimately show ?thesis unfolding Let_def by blast
qed

definition free_table :: till_table where
  "free_table = \<lparr>tr_id = js ''u'', tr_name = js ''2'', tr_state = js ''AVAILABLE'', tt_version = Fin 1\<rparr>"

definition next_order :: till_order where
  "next_order = demo_order\<lparr>to_id := js ''o2''\<rparr>"

definition demo_merging :: till_state where
  "demo_merging = fresh_till\<lparr>tl_orders := [demo_order, next_order\<lparr>or_table_id := Some (js ''u'')\<rparr>],
     tl_tables := [demo_table, free_table], tl_selectedTableId := js ''t'', tl_mergeDestinationTable := js ''u'',
     tl_mergeReason := js ''view'', tl_mergeIdempotencyKey := js ''cashier-merge:k1''\<rparr>"

lemma demo_merge_sent: "\<exists>rq x y. mutation demo_till_env [] MergeTables demo_merging = Inr (rq, x, y)"
proof -
  have trim: "js_trim (js ''view'') = js ''view''" "length (js ''view'') = 4" by (simp_all add: js_def js_trim_def is_space_def)
  have "\<not> length (js ''cashier-merge:k1'') < 8" by (simp add: js_def)
  with trim show ?thesis
    by (simp add: mutation_def order_request_def plain_request_def merge_request_def demo_merging_def fresh_till_def
        selectedOrder_def selectedTable_def selectCurrentTableOrder_def belongsToTable_def demo_table_def free_table_def
        next_order_def demo_order_def tab_of_ten_def terminalOrderStatuses_def mergeCandidates_def
        buildMergeCandidates_def merge_step_def table_of_order_def first_of_def)
qed

lemma merges_offered_exactly_witness:
  "tl_mergeDestinationTable demo_merging \<in> set (map (tr_id \<circ> fst) (mergeCandidates demo_merging))"
  using merges_offered_exactly [of demo_merging demo_till_env "[]"] demo_merge_sent unfolding Let_def by blast

section \<open>Commands that outlive their order\<close>

text \<open>
  The intent of adding a product names the table, not the order, and is kept after any failure. So when the API
  refused a product for one party, the same product added for the next party at the table goes to the order
  of the first.
\<close>

definition two_parties :: "till_event list" where
  "two_parties = [Fetched [demo_order] [demo_table], TableChosen (js ''t''), ProductDetail (js ''tea'') False (js ''k1''),
     Answered (AddProduct (js ''tea'') []) (Failed (Some (js ''product_unavailable''))), Fetched [next_order] [demo_table],
     ProductDetail (js ''tea'') False (js ''k2'')]"

lemma next_selected:
  "tl_orders s = [next_order] \<Longrightarrow> tl_tables s = [demo_table] \<Longrightarrow> tl_selectedTableId s = js ''t'' \<Longrightarrow>
   selectedOrder s = Some next_order"
  by (simp add: selectedOrder_def selectedTable_def selectCurrentTableOrder_def belongsToTable_def demo_table_def
      next_order_def demo_order_def tab_of_ten_def terminalOrderStatuses_def)

lemma demo_table_selected:
  "tl_tables s = [demo_table] \<Longrightarrow> tl_selectedTableId s = js ''t'' \<Longrightarrow> selectedTable s = Some demo_table"
  by (simp add: selectedTable_def demo_table_def)

lemma product_sent_to_old_order:
  "\<exists>s q f x y i. till_run demo_till_env two_parties fresh_till = (s, [x, y, Asked (AddProduct (js ''tea'') []) i q])
     \<and> selectedOrder s = Some next_order \<and> rq_path q = js ''/orders/o1/items''"
  by (simp add: two_parties_def fresh_till_def demo_selected next_selected demo_table_selected
      start_mutation_def mutation_def mutation_command_def product_command_def prepare_def Let_def end_mutation_def
      mutation_failure_def)
    (simp add: demo_table_def demo_order_def tab_of_ten_def command_request_def order_path_def js_def)

text \<open>The destination of a table move survives its success, so that the next move, confirmed without choosing a
  table, asks to move the order to the table where it is.\<close>

definition moved_order :: till_order where
  "moved_order = demo_order\<lparr>or_table_id := Some (js ''u'')\<rparr>"

definition moved_twice :: "till_event list" where
  "moved_twice = [Fetched [demo_order] [demo_table, free_table], TableChosen (js ''t''), Opened TransferDialog [],
     Edited DestinationField (js ''u''), Edited ReasonField (js ''view''), Pressed MoveTable [], Answered MoveTable Succeeded,
     Fetched [moved_order] [demo_table\<lparr>tr_state := js ''AVAILABLE''\<rparr>, free_table\<lparr>tr_state := js ''OCCUPIED''\<rparr>],
     Opened TransferDialog [], Pressed MoveTable []]"

lemma table_moved_to_itself:
  "\<exists>s q x y i. till_run demo_till_env moved_twice fresh_till = (s, [x, y, Asked MoveTable i q])
     \<and> map_option tr_id (selectedTable s) = Some (js ''u'')
     \<and> rq_body q = Some (JObj [(js ''destination_table_id'', JStr (js ''u'')), (js ''reason'', JStr (js ''view''))])"
proof -
  have trim: "js_trim (js ''view'') = js ''view''" "length (js ''view'') = 4" by (simp_all add: js_def js_trim_def is_space_def)
  show ?thesis
    by (simp add: moved_twice_def fresh_till_def open_dialog_def is_open_order_def selectedOrder_def selectedTable_def
        selectCurrentTableOrder_def belongsToTable_def demo_table_def free_table_def moved_order_def demo_order_def
        tab_of_ten_def terminalOrderStatuses_def field_shown_def field_offers_def set_field_def action_enabled_def
        is_pending_def start_mutation_def mutation_def order_request_def plain_request_def post_request_def
        move_request_def end_mutation_def mutation_success_def table_moved_def close_dialog_def trim)
qed

end
