(* ===== verification/Web_Security.thy ===== *)
theory Web_Security
  imports Web_Responses
begin

text \<open>
  What the web server decides before it talks to the backend: whether a mutation comes from its own
  pages (\<open>request-security.ts\<close>), which address the caller has (\<open>client-address.ts\<close>) and which paths
  need no session (\<open>backend-route-policy.ts\<close>), all under \<open>apps/web/src/lib/server\<close>.
\<close>

section \<open>The origin of a mutation\<close>

text \<open>\<open>toUpperCase\<close> of a method, which is an ASCII token.\<close>

definition ascii_upper :: "jstr \<Rightarrow> jstr" where
  "ascii_upper s = map (\<lambda>c. if 97 \<le> c \<and> c \<le> 122 then c - 32 else c) s"

definition SAFE_METHODS :: "jstr set" where
  "SAFE_METHODS = {js ''GET'', js ''HEAD'', js ''OPTIONS''}"

definition headerHost :: "jstr option \<Rightarrow> jstr option" where
  "headerHost val = (case val of
       None \<Rightarrow> None
     | Some v \<Rightarrow> (let host = to_lower (js_trim (hd (split_on 44 v))) in
                    if host = [] then None else Some host))"

definition requestHost :: "web_request \<Rightarrow> jstr" where
  "requestHost request =
     (case first_of (headerHost (hget (wq_headers request) ''x-forwarded-host''))
             (headerHost (hget (wq_headers request) ''host'')) of
        Some h \<Rightarrow> h | None \<Rightarrow> wq_host request)"

definition mutationOriginError :: "webenv \<Rightarrow> web_request \<Rightarrow> web_response option" where
  "mutationOriginError W request =
     (if ascii_upper (wq_method request) \<in> SAFE_METHODS then None
      else if hget (wq_headers request) ''sec-fetch-site'' = Some (js ''cross-site'')
      then Some (apiErrorResponse 403 ''cross_site_request_blocked''
             ''~Capraz site iste~gi engellendi.'' None)
      else case hget (wq_headers request) ''origin'' of
        None \<Rightarrow> None
      | Some origin \<Rightarrow>
          if origin = [] then None
          else case url_host W origin of
            None \<Rightarrow> Some (apiErrorResponse 403 ''invalid_origin''
                      ''~Istek kayna~g~i do~grulanamad~i.'' None)
          | Some h \<Rightarrow>
              if h \<noteq> requestHost request
              then Some (apiErrorResponse 403 ''origin_mismatch''
                      ''~Istek kayna~g~i do~grulanamad~i.'' None)
              else None)"

section \<open>The address of the caller\<close>

definition unbracket :: "jstr \<Rightarrow> jstr" where
  "unbracket trimmed =
     (if starts_with trimmed (js ''['')
      then (case index_of 93 trimmed of None \<Rightarrow> drop 1 trimmed | Some i \<Rightarrow> drop 1 (take i trimmed))
      else trimmed)"

definition normalizeAddress :: "webenv \<Rightarrow> jstr \<Rightarrow> jstr option" where
  "normalizeAddress W val =
     (let trimmed = js_trim val; unbracketed = unbracket trimmed; host = hd (split_on 58 unbracketed) in
      if trimmed = [] then None
      else if is_ip W unbracketed then Some unbracketed
      else if host \<noteq> [] \<and> length (split_on 58 unbracketed) = 2 \<and> is_ip W host then Some host
      else None)"

text \<open>The entries that are addresses, and the last of them.\<close>

definition hops :: "webenv \<Rightarrow> jstr \<Rightarrow> jstr list" where
  "hops W forwardedFor = List.map_filter (normalizeAddress W) (split_on 44 forwardedFor)"

definition clientAddress :: "webenv \<Rightarrow> headers \<Rightarrow> jstr option" where
  "clientAddress W h =
     (let realIp = normalizeAddress W (case hget h ''x-real-ip'' of Some v \<Rightarrow> v | None \<Rightarrow> []) in
      case hget h ''x-forwarded-for'' of
        None \<Rightarrow> realIp
      | Some forwardedFor \<Rightarrow>
          if forwardedFor = [] \<or> hops W forwardedFor = [] \<or> last (hops W forwardedFor) = []
          then realIp else Some (last (hops W forwardedFor)))"

definition clientAddressHeaders :: "webenv \<Rightarrow> headers \<Rightarrow> headers" where
  "clientAddressHeaders W h = (case clientAddress W h of
       None \<Rightarrow> []
     | Some a \<Rightarrow> if a = [] then [] else [(js ''x-forwarded-for'', a)])"

section \<open>Paths without a session\<close>

definition PUBLIC_PATH_PREFIXES :: "string list" where
  "PUBLIC_PATH_PREFIXES = [''public/'', ''catalog/public/'', ''qr/public/'', ''qr-menu/public/'',
     ''loyalty/public/'']"

definition hex_unit :: "nat \<Rightarrow> bool" where
  "hex_unit c \<longleftrightarrow> is_digit c \<or> (97 \<le> c \<and> c \<le> 102)"

definition hex_run :: "nat \<Rightarrow> jstr \<Rightarrow> bool" where
  "hex_run n s \<longleftrightarrow> length s = n \<and> list_all hex_unit s"

definition media_file :: "jstr \<Rightarrow> bool" where
  "media_file s \<longleftrightarrow> hex_run 32 (take 32 s) \<and> drop 32 s \<in> {js ''.jpg'', js ''.png'', js ''.webp''}"

text \<open>The two expressions, on a path in lower case: no part of them matches a slash.\<close>

definition public_product_media :: "jstr \<Rightarrow> bool" where
  "public_product_media s = (case split_on 47 s of
       [m, p, folder, name] \<Rightarrow> m = js ''media'' \<and> p = js ''products'' \<and> hex_run 24 folder \<and> media_file name
     | _ \<Rightarrow> False)"

definition public_qr_media :: "jstr \<Rightarrow> bool" where
  "public_qr_media s = (case split_on 47 s of
       [m, q, a, b, kind, name] \<Rightarrow> m = js ''media'' \<and> q = js ''qr-menu'' \<and> hex_run 24 a \<and> hex_run 24 b
         \<and> kind \<in> {js ''logo'', js ''cover''} \<and> media_file name
     | _ \<Rightarrow> False)"

definition isPublicBackendRequest :: "jstr \<Rightarrow> jstr \<Rightarrow> bool" where
  "isPublicBackendRequest path verb =
     (let normalized = to_lower path in
      if list_ex (\<lambda>prefix. starts_with normalized (js prefix)) PUBLIC_PATH_PREFIXES then True
      else if verb \<noteq> js ''GET'' \<and> verb \<noteq> js ''HEAD'' then False
      else public_product_media normalized \<or> public_qr_media normalized)"

section \<open>What the decisions promise\<close>

lemma normalizeAddress_ip: "normalizeAddress W v = Some a \<Longrightarrow> is_ip W a"
  by (auto simp: normalizeAddress_def Let_def split: if_splits)

lemma hops_ip: "a \<in> set (hops W s) \<Longrightarrow> is_ip W a"
  by (auto simp: hops_def List.map_filter_def dest: normalizeAddress_ip)

lemma split_on_snoc: "44 \<notin> set own \<Longrightarrow> split_on 44 (forged @ 44 # own) = split_on 44 forged @ [own]"
proof (induction forged)
  case (Cons c cs)
  then show ?case by (cases "split_on 44 cs") auto
qed (simp add: split_on_plain)

lemma hops_snoc: "44 \<notin> set own \<Longrightarrow> normalizeAddress W own = Some a \<Longrightarrow>
    hops W (forged @ 44 # own) = hops W forged @ [a]"
  by (simp add: hops_def split_on_snoc List.map_filter_def)

text \<open>C32: A mutation is let through only from our own pages. When the check passes a request whose method
  is not GET, HEAD or OPTIONS, the browser did not mark it cross-site, and its Origin, if it has one, is a
  URL whose host is the first forwarded host, or else the Host header, or else the server's own; the
  entries that follow the first in the forwarded header make no difference. Otherwise the answer is 403.\<close>

theorem mutation_origin_checked:
  assumes "ascii_upper (wq_method rq) \<notin> SAFE_METHODS"
  shows "case mutationOriginError W rq of
      Some r \<Rightarrow> rs_status r = 403
    | None \<Rightarrow> hget (wq_headers rq) ''sec-fetch-site'' \<noteq> Some (js ''cross-site'')
        \<and> (\<forall>origin. hget (wq_headers rq) ''origin'' = Some origin \<and> origin \<noteq> []
             \<longrightarrow> url_host W origin = Some (requestHost rq))
        \<and> (\<forall>own rest. hget (wq_headers rq) ''x-forwarded-host'' = Some (own @ 44 # rest)
             \<and> 44 \<notin> set own \<and> js_trim own \<noteq> [] \<longrightarrow> requestHost rq = to_lower (js_trim own))"
  using assms
  by (auto simp: mutationOriginError_def requestHost_def headerHost_def Let_def split_on_append_sep
      to_lower_def split: option.splits if_splits)

text \<open>C33: The caller cannot choose its address. The address the server reports is always one \<open>isIP\<close>
  accepts; and whatever a client puts into \<open>X-Forwarded-For\<close>, the entry our own proxy appended is the one
  that is reported.\<close>

theorem client_address_unforgeable:
  "(\<forall>a. clientAddress W h = Some a \<longrightarrow> is_ip W a)
   \<and> (\<forall>forged own a. hget h ''x-forwarded-for'' = Some (forged @ 44 # own) \<and> 44 \<notin> set own
        \<and> normalizeAddress W own = Some a \<and> a \<noteq> []
        \<longrightarrow> clientAddress W h = Some a \<and> clientAddressHeaders W h = [(js ''x-forwarded-for'', a)])"
proof (intro conjI allI impI)
  fix a assume "clientAddress W h = Some a"
  then show "is_ip W a"
    by (auto simp: clientAddress_def Let_def dest: normalizeAddress_ip intro: hops_ip [OF last_in_set]
        split: option.splits if_splits)
qed (auto simp: clientAddress_def clientAddressHeaders_def hops_snoc)

section \<open>Examples\<close>

definition demo_request :: "string \<Rightarrow> headers \<Rightarrow> web_request" where
  "demo_request verb h = \<lparr>wq_method = js verb, wq_headers = h, wq_host = js ''web:3000'',
     wq_search = [], wq_body = NoBody, wq_bytes = 0\<rparr>"

lemma mutation_origin_checked_witness:
  "requestHost (demo_request ''POST'' [(js ''x-forwarded-host'', js ''Shop.example,evil'')])
     = js ''shop.example''"
proof -
  let ?rq = "demo_request ''POST'' [(js ''x-forwarded-host'', js ''Shop.example,evil'')]"
  have m: "ascii_upper (wq_method ?rq) \<notin> SAFE_METHODS"
    by (simp add: demo_request_def ascii_upper_def SAFE_METHODS_def js_def)
  have "mutationOriginError (demo_webenv []) ?rq = None"
    using m by (simp add: mutationOriginError_def demo_request_def)
  moreover have "js ''Shop.example,evil'' = js ''Shop.example'' @ 44 # js ''evil''"
    by (simp add: js_def)
  moreover have "44 \<notin> set (js ''Shop.example'')" "js_trim (js ''Shop.example'') = js ''Shop.example''"
      "to_lower (js ''Shop.example'') = js ''shop.example''"
    by (simp_all add: js_def js_trim_def is_space_def to_lower_def lower_unit_def)
  ultimately show ?thesis
    using mutation_origin_checked [OF m, of "demo_webenv []"]
    by (auto simp: demo_request_def)
qed

lemma client_address_unforgeable_witness:
  "clientAddress (demo_webenv []) [(js ''x-forwarded-for'', js ''6.6.6.6,203.0.113.7'')]
     = Some (js ''203.0.113.7'')"
proof -
  have "js ''6.6.6.6,203.0.113.7'' = js ''6.6.6.6'' @ 44 # js ''203.0.113.7''"
    "44 \<notin> set (js ''203.0.113.7'')"
    "normalizeAddress (demo_webenv []) (js ''203.0.113.7'') = Some (js ''203.0.113.7'')"
    by (simp_all add: js_def normalizeAddress_def unbracket_def starts_with_def js_trim_def is_space_def
        demo_webenv_def is_digit_def)
  then show ?thesis
    using client_address_unforgeable [of "demo_webenv []"
        "[(js ''x-forwarded-for'', js ''6.6.6.6,203.0.113.7'')]"] by auto
qed

end
