(* ===== verification/Backend_Route.thy ===== *)
theory Backend_Route
  imports Web_Security Web_Session
begin

text \<open>
  The route behind which the whole API lies for a browser:
  \<open>apps/web/src/app/api/backend/[...path]/route.ts\<close>. All methods but OPTIONS run \<open>proxy\<close>.
\<close>

section \<open>What is passed on\<close>

definition REQUEST_HEADERS :: "string list" where
  "REQUEST_HEADERS = [''accept'', ''accept-language'', ''content-type'', ''if-match'', ''if-none-match'',
     ''idempotency-key'', ''range'', ''user-agent'', ''x-idempotency-key'', ''x-request-id'']"

definition SENSITIVE_AUTH_PATHS :: "string list" where
  "SENSITIVE_AUTH_PATHS = [''auth/login'', ''auth/logout'', ''auth/pin-login'', ''auth/refresh'']"

definition bad_segment :: "jstr \<Rightarrow> bool" where
  "bad_segment s \<longleftrightarrow> s = [] \<or> s = js ''.'' \<or> s = js ''..'' \<or> 47 \<in> set s \<or> 92 \<in> set s \<or> 0 \<in> set s"

definition validatePath :: "jstr list \<Rightarrow> jstr option" where
  "validatePath segments =
     (if segments = [] \<or> list_ex bad_segment segments then None else Some (join_with [47] segments))"

definition copyRequestHeaders :: "headers \<Rightarrow> headers" where
  "copyRequestHeaders input =
     hdel ''x-user-id'' (hdel ''x-tenant-id'' (hdel ''cookie'' (hdel ''authorization''
       (filter (\<lambda>(name, v). to_lower name \<in> set (map js REQUEST_HEADERS)) input))))"

definition isLoyaltyAwarePublicPath :: "jstr \<Rightarrow> bool" where
  "isLoyaltyAwarePublicPath path =
     (let normalized = to_lower path in
      starts_with normalized (js ''loyalty/public/'')
      \<or> (starts_with normalized (js ''qr/public/'') \<and> ends_with normalized (js ''/requests'')))"

definition loyaltyBusinessSlug :: "jstr \<Rightarrow> jstr option" where
  "loyaltyBusinessSlug path = (case split_on 47 path of
       a # b # c # rest \<Rightarrow>
         if (a = js ''loyalty'' \<or> a = js ''qr'') \<and> b = js ''public'' then Some c else None
     | _ \<Rightarrow> None)"

definition getMaxBodyBytes :: "webenv \<Rightarrow> int" where
  "getMaxBodyBytes W = (case readPositiveInteger (getenv W ''BFF_MAX_BODY_BYTES'') of
       Some n \<Rightarrow> n | None \<Rightarrow> 10 * 1024 * 1024)"

definition forward_headers :: "webenv \<Rightarrow> web_request \<Rightarrow> jstr \<Rightarrow> ('z web_scheme, headers) io" where
  "forward_headers W request path =
     (let h = copyRequestHeaders (wq_headers request) in
      io_bind (if hget h ''x-request-id'' = None
               then io_bind (uuid_tick W) (\<lambda>id. io_ret (hset ''x-request-id'' id h)) else io_ret h) (\<lambda>h1.
      let h2 = fold (\<lambda>(n, v) acc. AList.update n v acc) (clientAddressHeaders W (wq_headers request)) h1 in
      io_bind (io_get (readLoyaltyToken W (loyaltyBusinessSlug path))) (\<lambda>token.
        io_ret (if isLoyaltyAwarePublicPath path \<and> truthy token
                then hset ''x-loyalty-token'' (the token) h2 else h2))))"

section \<open>The handler\<close>

definition too_large :: web_response where
  "too_large = apiErrorResponse 413 ''payload_too_large''
     ''G~onderilen veri izin verilen boyutu a~s~iyor.'' None"

definition sent_body :: "web_request \<Rightarrow> body" where
  "sent_body request =
     (if wq_method request = js ''GET'' \<or> wq_method request = js ''HEAD'' then NoBody else wq_body request)"

definition forward ::
  "webenv \<Rightarrow> web_request \<Rightarrow> jstr \<Rightarrow> headers \<Rightarrow> ('z sweb_scheme, web_response) io" where
  "forward W request path h =
     (let declaredLength = parse_int (case hget (wq_headers request) ''content-length'' of
              Some s \<Rightarrow> s | None \<Rightarrow> js ''0'');
          body = sent_body request;
          init = \<lparr>fi_method = wq_method request, fi_headers = h, fi_body = body\<rparr>
      in if (case declaredLength of Some n \<Rightarrow> getMaxBodyBytes W < n | None \<Rightarrow> False) then io_ret too_large
         else if body \<noteq> NoBody \<and> getMaxBodyBytes W < wq_bytes request then io_ret too_large
         else io_bind
           (if isPublicBackendRequest path (wq_method request)
            then backendFetch W path init (Some (wq_search request))
            else authenticatedBackendFetch W path init (Some (wq_search request)))
           (\<lambda>response. io_ret (backendResponse response)))"

definition proxy :: "webenv \<Rightarrow> web_request \<Rightarrow> jstr list \<Rightarrow> ('z sweb_scheme, web_response) io" where
  "proxy W request segments =
     (case mutationOriginError W request of
        Some originError \<Rightarrow> io_ret originError
      | None \<Rightarrow> (case validatePath segments of
          None \<Rightarrow> io_ret (apiErrorResponse 400 ''invalid_path'' ''Ge~cersiz API yolu.'' None)
        | Some path \<Rightarrow>
            if to_lower path \<in> set (map js SENSITIVE_AUTH_PATHS)
            then io_ret (apiErrorResponse 404 ''not_found'' ''~Istenen API kayna~g~i bulunamad~i.'' None)
            else io_catch (io_bind (forward_headers W request path) (forward W request path))
              (\<lambda>e. io_ret (requestFailureResponse e))))"

definition OPTIONS_response :: web_response where
  "OPTIONS_response = \<lparr>rs_status = 204,
     rs_headers = [(js ''allow'', js ''GET, HEAD, POST, PUT, PATCH, DELETE, OPTIONS''),
                   (js ''cache-control'', js ''no-store'')], rs_body = NoBody\<rparr>"

section \<open>What the route promises\<close>

definition allowed_names :: "jstr set" where
  "allowed_names = set (map js REQUEST_HEADERS) \<union> {js ''x-forwarded-for'', js ''x-loyalty-token''}"

definition clean_headers :: "webenv \<Rightarrow> web_request \<Rightarrow> headers \<Rightarrow> bool" where
  "clean_headers W rq h \<longleftrightarrow> to_lower ` header_names h \<subseteq> allowed_names
     \<and> hget h ''x-forwarded-for'' = hget (clientAddressHeaders W (wq_headers rq)) ''x-forwarded-for''"

lemma to_lower_js_names [simp]:
  "to_lower (js ''x-request-id'') = js ''x-request-id''" "to_lower (js ''x-forwarded-for'') = js ''x-forwarded-for''"
  "to_lower (js ''x-loyalty-token'') = js ''x-loyalty-token''" "to_lower (js ''authorization'') = js ''authorization''"
  by (simp_all add: to_lower_def lower_unit_def js_def)

lemma copied_request_names: "to_lower ` header_names (copyRequestHeaders h) \<subseteq> set (map js REQUEST_HEADERS)"
  by (auto simp: copyRequestHeaders_def header_names_filter)

lemma not_copied: "hget (copyRequestHeaders h) ''x-forwarded-for'' = None"
  using copied_request_names [of h]
  by (intro hget_None) (auto simp: REQUEST_HEADERS_def image_iff dest: subsetD [of _ _ "to_lower (js ''x-forwarded-for'')"])

lemma client_headers_cases:
  "clientAddressHeaders W h = [] \<or> (\<exists>a. clientAddressHeaders W h = [(js ''x-forwarded-for'', a)])"
  by (simp add: clientAddressHeaders_def split: option.splits)

lemma clean_copy:
  assumes "to_lower ` header_names h \<subseteq> set (map js REQUEST_HEADERS)" and "hget h ''x-forwarded-for'' = None"
  shows "clean_headers W rq (fold (\<lambda>(n, v) acc. AList.update n v acc) (clientAddressHeaders W (wq_headers rq)) h)"
  using client_headers_cases [of W "wq_headers rq"] assms
  by (auto simp: clean_headers_def allowed_names_def hset_def [symmetric] image_subset_iff)

lemma clean_loyalty: "clean_headers W rq h \<Longrightarrow> clean_headers W rq (hset ''x-loyalty-token'' t h)"
  by (auto simp: clean_headers_def allowed_names_def)

lemma forward_headers_run:
  "\<exists>h t. forward_headers W rq p w = (Ok h, w\<lparr>wb_ticks := t\<rparr>) \<and> clean_headers W rq h"
proof -
  let ?c = "copyRequestHeaders (wq_headers rq)"
  let ?set = "\<lambda>h. fold (\<lambda>(n, v) acc. AList.update n v acc) (clientAddressHeaders W (wq_headers rq)) h"
  have c: "clean_headers W rq (?set ?c)"
    by (rule clean_copy [OF copied_request_names not_copied])
  have d: "clean_headers W rq (?set (hset ''x-request-id'' u ?c))" for u
    by (rule clean_copy)
      (use copied_request_names [of "wq_headers rq"] not_copied [of "wq_headers rq"] in
        \<open>auto simp: REQUEST_HEADERS_def\<close>)
  have same: "\<exists>t. w = w\<lparr>wb_ticks := t\<rparr>" by (rule exI [of _ "wb_ticks w"]) simp
  show ?thesis
    using c d same clean_loyalty
    by (cases "hget ?c ''x-request-id'' = None")
      (auto simp: forward_headers_def Let_def io_bind_def io_get_def intro!: clean_loyalty)
qed

text \<open>What \<open>forward\<close> calls: the request itself with at most a bearer token added, or a refresh.\<close>

definition forwarded_call :: "webenv \<Rightarrow> web_request \<Rightarrow> bool \<Rightarrow> 'z sweb_scheme \<Rightarrow> backend_call \<Rightarrow> bool" where
  "forwarded_call W rq public w c \<longleftrightarrow>
     (\<not> public \<and> (\<exists>rt. cookie w REFRESH_TOKEN_COOKIE = Some rt \<and> bc_init c = refresh_init rt))
     \<or> (fi_method (bc_init c) = wq_method rq \<and> fi_body (bc_init c) = sent_body rq
         \<and> to_lower ` header_names (fi_headers (bc_init c))
             \<subseteq> allowed_names \<union> (if public then {} else {js ''authorization''})
         \<and> hget (fi_headers (bc_init c)) ''x-forwarded-for''
             = hget (clientAddressHeaders W (wq_headers rq)) ''x-forwarded-for'')"

lemma bearer_forward:
  "hget (fi_headers (withBearerToken init t)) ''x-forwarded-for'' = hget (fi_headers init) ''x-forwarded-for''"
  by (simp add: withBearerToken_def Let_def)

lemma session_call_forwarded:
  assumes "session_call \<lparr>fi_method = wq_method rq, fi_headers = h, fi_body = sent_body rq\<rparr> w w' c"
    and "clean_headers W rq h"
  shows "forwarded_call W rq False w c"
proof -
  let ?i = "\<lparr>fi_method = wq_method rq, fi_headers = h, fi_body = sent_body rq\<rparr>"
  have "to_lower ` header_names (fi_headers (withBearerToken ?i t)) \<subseteq> allowed_names \<union> {js ''authorization''}" for t
    using image_mono [OF withBearer_names [of ?i t], of to_lower] assms(2)
    by (auto simp: clean_headers_def)
  moreover have "fi_method (withBearerToken ?i t) = wq_method rq" "fi_body (withBearerToken ?i t) = sent_body rq" for t
    by (simp_all add: withBearerToken_def Let_def)
  moreover have "hget (fi_headers (withBearerToken ?i t)) ''x-forwarded-for''
      = hget (clientAddressHeaders W (wq_headers rq)) ''x-forwarded-for''" for t
    using assms(2) by (simp add: bearer_forward clean_headers_def)
  ultimately have sent: "bc_init c = withBearerToken ?i t \<Longrightarrow> forwarded_call W rq False w c" for t
    by (simp add: forwarded_call_def)
  have refreshed: "cookie w REFRESH_TOKEN_COOKIE = Some rt \<Longrightarrow> bc_init c = refresh_init rt
      \<Longrightarrow> forwarded_call W rq False w c" for rt
    by (simp add: forwarded_call_def)
  show ?thesis
    using assms(1) sent refreshed unfolding session_call_def by blast
qed

lemma forward_run:
  assumes "forward W rq p h w = (r, w')" and "clean_headers W rq h"
  shows "\<exists>cs ss. wb_calls w' = wb_calls w @ cs \<and> wb_set w' = wb_set w @ ss
    \<and> (\<forall>c\<in>set cs. forwarded_call W rq (isPublicBackendRequest p (wq_method rq)) w c)
    \<and> (isPublicBackendRequest p (wq_method rq) \<longrightarrow> ss = [])
    \<and> (cs \<noteq> [] \<and> sent_body rq \<noteq> NoBody \<longrightarrow> wq_bytes rq \<le> getMaxBodyBytes W)"
proof -
  let ?i = "\<lparr>fi_method = wq_method rq, fi_headers = h, fi_body = sent_body rq\<rparr>"
  show ?thesis
  proof (cases "isPublicBackendRequest p (wq_method rq)")
    case True
    obtain r1 w1 where f: "backendFetch W p ?i (Some (wq_search rq)) w = (r1, w1)" by fastforce
    obtain cs where "w1 = w\<lparr>wb_calls := wb_calls w @ cs\<rparr>" "\<forall>c\<in>set cs. bc_init c = ?i"
      using backendFetch_run [OF f] by blast
    with assms f True show ?thesis
      by (auto simp: forward_def Let_def io_bind_def forwarded_call_def clean_headers_def
          split: if_splits option.splits res.splits)
  next
    case False
    obtain r1 w1 where f: "authenticatedBackendFetch W p ?i (Some (wq_search rq)) w = (r1, w1)" by fastforce
    obtain cs ss where "wb_calls w1 = wb_calls w @ cs" "wb_set w1 = wb_set w @ ss"
      "\<forall>c\<in>set cs. session_call ?i w w1 c"
      using authenticated_run [OF f] by (auto simp: session_result_def)
    moreover from this(3) have "\<forall>c\<in>set cs. forwarded_call W rq False w c"
      using session_call_forwarded [OF _ assms(2)] by blast
    ultimately show ?thesis
      using assms(1) f False
      by (auto simp: forward_def Let_def io_bind_def split: if_splits option.splits res.splits)
  qed
qed


section \<open>Example\<close>

text \<open>A GET of a public path that brings a cookie header and a forged address.\<close>

definition demo_proxy_request :: web_request where
  "demo_proxy_request = demo_request ''GET'' [(js ''cookie'', js ''x=1''), (js ''accept'', js ''text/html'')]"


end
