(* ===== verification/Api_Client.thy ===== *)
theory Api_Client
  imports Backend_Route Cart
begin

text \<open>
  How a page talks to the web server: \<open>apps/web/src/lib/api/client.ts\<close>, the errors it throws
  (\<open>ApiError\<close> of \<open>lib/api/errors.ts\<close>), and the hooks \<open>hooks/use-api-mutation.ts\<close>, \<open>use-api-query.ts\<close>
  and \<open>use-auth.ts\<close> as far as they are code of the repository. \<open>query_text\<close> is
  \<open>URLSearchParams.toString\<close> and \<open>str_of\<close> is \<open>String\<close> of a number.
\<close>

section \<open>Errors\<close>

record api_error =
  ae_status :: int
  ae_code :: jstr
  ae_message :: jstr
  ae_details :: "json option"
  ae_requestId :: "jstr option"
  ae_retryAfter :: "int option"

text \<open>What a request can throw: an \<open>ApiError\<close>, the \<open>AbortError\<close>, a \<open>TypeError\<close>, another error.\<close>

datatype client_error = ApiFailure api_error | AbortFailure | TypeFailure jstr | OtherFailure jstr

definition fromResponse :: "web_response \<Rightarrow> api_error" where
  "fromResponse response =
     (let payload = normalizeErrorPayload (body_json (rs_body response)) (rs_status response) None in
      \<lparr>ae_status = rs_status response, ae_code = ep_code payload, ae_message = ep_message payload,
       ae_details = ep_details payload, ae_requestId = ep_requestId payload,
       ae_retryAfter = (case hget (rs_headers response) ''retry-after'' of
          None \<Rightarrow> None | Some s \<Rightarrow> if s = [] then None else parse_int s)\<rparr>)"

definition COMMON_MESSAGES :: "(string \<times> string) list" where
  "COMMON_MESSAGES =
     [(''permission_denied'', ''Bu i~slem i~cin yetkiniz bulunmuyor. ~I~sletme y~oneticinizle g~or~u~s~un.''),
      (''branch_forbidden'', ''Bu ~subeye eri~siminiz bulunmuyor. Yetkili oldu~gunuz ~subeyi se~cin.''),
      (''branch_context_required'', ''~I~sleme devam etmek i~cin bir ~sube se~cin.''),
      (''session_revoked'', ''Oturumunuz sona erdi. Yeniden giri~s yap~in.''),
      (''token_expired'', ''Oturumunuz sona erdi. Yeniden giri~s yap~in.'')]"

definition toErrorMessage :: "client_error \<Rightarrow> jstr" where
  "toErrorMessage e = (case e of
       ApiFailure a \<Rightarrow> (case map_of (map (\<lambda>(c, m). (js c, jt m)) COMMON_MESSAGES) (ae_code a) of
           Some m \<Rightarrow> m | None \<Rightarrow> ae_message a)
     | AbortFailure \<Rightarrow> jt ''~Istek zaman a~s~im~ina u~grad~i.''
     | TypeFailure m \<Rightarrow> jt ''Sunucuya ula~s~ilam~iyor. Ba~glant~in~iz~i kontrol edip yeniden deneyin.''
     | OtherFailure m \<Rightarrow> if m = [] then jt ''Beklenmeyen bir hata olu~stu.'' else m)"

section \<open>Addresses\<close>

datatype search_value = NoValue | OneValue json | ManyValues "json list"

definition search_text :: "(jsnum \<Rightarrow> jstr) \<Rightarrow> json \<Rightarrow> jstr" where
  "search_text str_of v = (case v of
       JStr s \<Rightarrow> s | JNum n \<Rightarrow> str_of n | JBool b \<Rightarrow> js (if b then ''true'' else ''false'') | _ \<Rightarrow> [])"

text \<open>\<open>URLSearchParams.set\<close>: the first value of the key is replaced and the others are removed.\<close>

fun param_set :: "jstr \<Rightarrow> jstr \<Rightarrow> (jstr \<times> jstr) list \<Rightarrow> (jstr \<times> jstr) list" where
  "param_set k v [] = [(k, v)]"
| "param_set k v ((k', v') # ps) =
     (if k' = k then (k, v) # filter (\<lambda>(n, x). n \<noteq> k) ps else (k', v') # param_set k v ps)"

definition appendSearchValue :: "(jsnum \<Rightarrow> jstr) \<Rightarrow> (jstr \<times> jstr) list \<Rightarrow> jstr \<Rightarrow> search_value \<Rightarrow> (jstr \<times> jstr) list" where
  "appendSearchValue str_of params key value = (case value of
       NoValue \<Rightarrow> params
     | ManyValues items \<Rightarrow> params @ map (\<lambda>item. (key, search_text str_of item)) items
     | OneValue v \<Rightarrow> param_set key (search_text str_of v) params)"

definition createSearchParams :: "(jsnum \<Rightarrow> jstr) \<Rightarrow> (jstr \<times> search_value) list option \<Rightarrow> (jstr \<times> jstr) list" where
  "createSearchParams str_of search = (case search of
       None \<Rightarrow> []
     | Some entries \<Rightarrow> foldl (\<lambda>params (key, value). appendSearchValue str_of params key value) [] entries)"

definition isUnsafePathSegment :: "jstr \<Rightarrow> bool" where
  "isUnsafePathSegment segment \<longleftrightarrow>
     segment = js ''.'' \<or> segment = js ''..'' \<or> 92 \<in> set segment \<or> 0 \<in> set segment"

definition clean_path :: "jstr \<Rightarrow> jstr" where
  "clean_path path =
     (let p = (if starts_with path [47] then tl path else path);
          rest = (if starts_with p (js ''api/v1'')
                  then (let r = drop 6 p in if starts_with r [47] then tl r else r) else path)
      in dropWhile (\<lambda>c. c = 47) rest)"

record page_env =
  pe_query_text :: "(jstr \<times> jstr) list \<Rightarrow> jstr"
  pe_str_of :: "jsnum \<Rightarrow> jstr"

definition BACKEND_BFF_PREFIX :: jstr where
  "BACKEND_BFF_PREFIX = js ''/api/backend''"

definition buildBffUrl :: "page_env \<Rightarrow> jstr \<Rightarrow> (jstr \<times> search_value) list option \<Rightarrow> client_error + jstr" where
  "buildBffUrl E path search =
     (if starts_with (to_lower path) (js ''http://'') \<or> starts_with (to_lower path) (js ''https://'')
      then Inl (TypeFailure (js ''API paths must be relative''))
      else let cleanPath = clean_path path in
        if cleanPath = [] \<or> list_ex isUnsafePathSegment (split_on 47 cleanPath)
        then Inl (TypeFailure (js ''A valid API path is required''))
        else let params = createSearchParams (pe_str_of E) search;
                 suffix = (if params \<noteq> [] then 63 # pe_query_text E params else [])
          in Inr (BACKEND_BFF_PREFIX @ [47] @ cleanPath @ suffix))"

section \<open>Requests\<close>

text \<open>
  What a call passes as its body: nothing, a body that is sent as it is (a string, a blob, form data or
  bytes), or a value that is sent as JSON.
\<close>

datatype request_body = NoContent | AsIs jstr | AsJson json

definition serializeBody :: "request_body \<Rightarrow> headers \<Rightarrow> body \<times> headers" where
  "serializeBody b h = (case b of
       NoContent \<Rightarrow> (NoBody, h)
     | AsIs s \<Rightarrow> (OtherBody s, h)
     | AsJson v \<Rightarrow> if v = JNull then (NoBody, h) else (JsonBody v,
         if hget h ''content-type'' = None then hset ''content-type'' (js ''application/json'') h else h))"

datatype caller_signal = NoSignal | LiveSignal | AbortedSignal client_error

record request_options =
  ro_body :: request_body
  ro_headers :: headers
  ro_method :: jstr
  ro_search :: "(jstr \<times> search_value) list option"
  ro_signal :: caller_signal
  ro_timeoutMs :: rat

definition no_options :: request_options where
  "no_options = \<lparr>ro_body = NoContent, ro_headers = [], ro_method = js ''GET'', ro_search = None,
     ro_signal = NoSignal, ro_timeoutMs = 20000\<rparr>"

text \<open>
  The browser: how fetch number \<open>n\<close> ends, the fetches sent so far, and the timers and abort listeners
  that are in place.
\<close>

datatype fetch_end = Answered web_response | FellSilent | CallerAborts client_error | NetworkFails

record page_call =
  pc_url :: jstr
  pc_method :: jstr
  pc_headers :: headers
  pc_body :: body

record page =
  pg_ends :: "nat \<Rightarrow> fetch_end"
  pg_calls :: "page_call list"
  pg_timers :: "rat list"
  pg_listeners :: nat

definition page_fetch :: "page_call \<Rightarrow> caller_signal \<Rightarrow> page \<Rightarrow> (client_error + web_response) \<times> page" where
  "page_fetch c signal s = (case signal of
       AbortedSignal reason \<Rightarrow> (Inl reason, s)
     | _ \<Rightarrow> (let s1 = s\<lparr>pg_calls := pg_calls s @ [c]\<rparr> in
         case pg_ends s (length (pg_calls s)) of
           Answered r \<Rightarrow> (Inr r, s1)
         | FellSilent \<Rightarrow> (Inl AbortFailure, s1)
         | CallerAborts reason \<Rightarrow> (Inl (if signal = LiveSignal then reason else AbortFailure), s1)
         | NetworkFails \<Rightarrow> (Inl (TypeFailure (js ''Failed to fetch'')), s1)))"

definition request :: "jstr \<Rightarrow> request_options \<Rightarrow> page \<Rightarrow> (client_error + web_response) \<times> page" where
  "request url options s =
     (let (b, h) = serializeBody (ro_body options) (ro_headers options);
          s1 = s\<lparr>pg_timers := ro_timeoutMs options # pg_timers s,
                 pg_listeners := pg_listeners s + (if ro_signal options = LiveSignal then 1 else 0)\<rparr>;
          (outcome, s2) = page_fetch \<lparr>pc_url = url, pc_method = ro_method options, pc_headers = h, pc_body = b\<rparr>
            (ro_signal options) s1;
          result = (case outcome of
              Inl e \<Rightarrow> Inl e
            | Inr response \<Rightarrow> if \<not> rs_ok response then Inl (ApiFailure (fromResponse response)) else Inr response)
      in (result, s2\<lparr>pg_timers := tl (pg_timers s2),
            pg_listeners := pg_listeners s2 - (if ro_signal options = LiveSignal then 1 else 0)\<rparr>))"

definition invalid_backend_response :: client_error where
  "invalid_backend_response = ApiFailure \<lparr>ae_status = 502, ae_code = js ''invalid_backend_response'',
     ae_message = jt ''Sunucudan beklenmeyen bir yan~it al~ind~i.'', ae_details = None, ae_requestId = None,
     ae_retryAfter = None\<rparr>"

text \<open>\<open>Inr None\<close> is \<open>undefined\<close>.\<close>

definition read_json :: "web_response \<Rightarrow> client_error + json option" where
  "read_json response =
     (if rs_status response = 204 \<or> hget (rs_headers response) ''content-length'' = Some (js ''0'') then Inr None
      else if \<not> contains (case hget (rs_headers response) ''content-type'' of Some t \<Rightarrow> t | None \<Rightarrow> []) (js ''json'')
      then Inl invalid_backend_response
      else case body_json (rs_body response) of
        Some v \<Rightarrow> Inr (Some v) | None \<Rightarrow> Inl (OtherFailure (js ''SyntaxError'')))"

definition requestJson :: "jstr \<Rightarrow> request_options \<Rightarrow> page \<Rightarrow> (client_error + json option) \<times> page" where
  "requestJson url options s = (case request url options s of
       (Inl e, s1) \<Rightarrow> (Inl e, s1)
     | (Inr response, s1) \<Rightarrow> (read_json response, s1))"

definition apiRequest :: "page_env \<Rightarrow> jstr \<Rightarrow> request_options \<Rightarrow> page \<Rightarrow> (client_error + json option) \<times> page" where
  "apiRequest E path options s = (case buildBffUrl E path (ro_search options) of
       Inl e \<Rightarrow> (Inl e, s) | Inr url \<Rightarrow> requestJson url options s)"

definition apiDownload :: "page_env \<Rightarrow> jstr \<Rightarrow> request_options \<Rightarrow> page \<Rightarrow> (client_error + body) \<times> page" where
  "apiDownload E path options s = (case buildBffUrl E path (ro_search options) of
       Inl e \<Rightarrow> (Inl e, s)
     | Inr url \<Rightarrow> (case request url options s of
           (Inl e, s1) \<Rightarrow> (Inl e, s1) | (Inr response, s1) \<Rightarrow> (Inr (rs_body response), s1)))"

text \<open>The members of \<open>api\<close>.\<close>

definition api_get :: "page_env \<Rightarrow> jstr \<Rightarrow> request_options \<Rightarrow> page \<Rightarrow> (client_error + json option) \<times> page" where
  "api_get E path options = apiRequest E path (options\<lparr>ro_method := js ''GET''\<rparr>)"

definition api_send :: "string \<Rightarrow> page_env \<Rightarrow> jstr \<Rightarrow> request_body \<Rightarrow> request_options \<Rightarrow> page
    \<Rightarrow> (client_error + json option) \<times> page" where
  "api_send method E path b options = apiRequest E path (options\<lparr>ro_body := b, ro_method := js method\<rparr>)"

text \<open>The members of \<open>authApi\<close>.\<close>

record login_form =
  lf_businessSlug :: "jstr option"
  lf_identifier :: jstr
  lf_password :: jstr
  lf_branchId :: "jstr option"
  lf_rememberMe :: bool

definition or_null :: "jstr option \<Rightarrow> json" where
  "or_null s = (if truthy s then null_or_str s else JNull)"

definition auth_login :: "login_form \<Rightarrow> caller_signal \<Rightarrow> page \<Rightarrow> (client_error + json option) \<times> page" where
  "auth_login input signal = requestJson (js ''/api/auth/login'') (no_options\<lparr>ro_body := AsJson (JObj [
       (js ''business_slug'', or_null (map_option js_trim (lf_businessSlug input))),
       (js ''identifier'', JStr (js_trim (lf_identifier input))), (js ''password'', JStr (lf_password input)),
       (js ''branch_id'', or_null (lf_branchId input)), (js ''remember_me'', JBool (lf_rememberMe input))]),
     ro_method := js ''POST'', ro_signal := signal\<rparr>)"

definition auth_me :: "caller_signal \<Rightarrow> page \<Rightarrow> (client_error + json option) \<times> page" where
  "auth_me signal = requestJson (js ''/api/auth/me'') (no_options\<lparr>ro_signal := signal\<rparr>)"

definition auth_refresh :: "caller_signal \<Rightarrow> page \<Rightarrow> (client_error + json option) \<times> page" where
  "auth_refresh signal = requestJson (js ''/api/auth/refresh'') (no_options\<lparr>ro_method := js ''POST'', ro_signal := signal\<rparr>)"

definition auth_branches :: "caller_signal \<Rightarrow> page \<Rightarrow> (client_error + json option) \<times> page" where
  "auth_branches signal = requestJson (js ''/api/auth/branches'') (no_options\<lparr>ro_signal := signal\<rparr>)"

definition auth_switchBranch :: "jstr \<Rightarrow> caller_signal \<Rightarrow> page \<Rightarrow> (client_error + json option) \<times> page" where
  "auth_switchBranch branchId signal = requestJson (js ''/api/auth/switch-branch'') (no_options\<lparr>
     ro_body := AsJson (JObj [(js ''branch_id'', JStr branchId)]), ro_method := js ''POST'', ro_signal := signal\<rparr>)"

definition auth_logout :: "caller_signal \<Rightarrow> page \<Rightarrow> (client_error + json option) \<times> page" where
  "auth_logout signal = requestJson (js ''/api/auth/logout'') (no_options\<lparr>ro_method := js ''POST'', ro_signal := signal\<rparr>)"

section \<open>The hooks\<close>

definition retry_query :: "nat \<Rightarrow> api_error \<Rightarrow> bool" where
  "retry_query failureCount error \<longleftrightarrow> 500 \<le> ae_status error \<and> failureCount < 2"

datatype mutation_method = POST | PUT | PATCH | DELETE

definition method_name :: "mutation_method \<Rightarrow> string" where
  "method_name m = (case m of POST \<Rightarrow> ''POST'' | PUT \<Rightarrow> ''PUT'' | PATCH \<Rightarrow> ''PATCH'' | DELETE \<Rightarrow> ''DELETE'')"

text \<open>\<open>useApiMutation\<close>: the request, and after its success the invalidations and then the page's own code.\<close>

definition mutationFn :: "page_env \<Rightarrow> mutation_method \<Rightarrow> ('v \<Rightarrow> jstr) \<Rightarrow> ('v \<Rightarrow> request_body) option
    \<Rightarrow> ('v \<Rightarrow> request_body) \<Rightarrow> request_options \<Rightarrow> 'v \<Rightarrow> page \<Rightarrow> (client_error + json option) \<times> page" where
  "mutationFn E m path body as_body options variables =
     (let payload = (case body of Some f \<Rightarrow> f variables | None \<Rightarrow> as_body variables) in
      api_send (method_name m) E (path variables) (if m = DELETE then NoContent else payload) options)"

definition queryFn :: "page_env \<Rightarrow> jstr \<Rightarrow> request_options \<Rightarrow> caller_signal \<Rightarrow> page
    \<Rightarrow> (client_error + json option) \<times> page" where
  "queryFn E path options signal = api_get E path (options\<lparr>ro_body := NoContent, ro_signal := signal\<rparr>)"

text \<open>What a page of a signed-in user holds, and what the hooks of \<open>use-auth.ts\<close> do to it.\<close>

record ui_state =
  ui_sidebarCollapsed :: bool
  ui_mobileNavigationOpen :: bool
  ui_commandPaletteOpen :: bool

definition initial_ui :: ui_state where
  "initial_ui = \<lparr>ui_sidebarCollapsed = False, ui_mobileNavigationOpen = False, ui_commandPaletteOpen = False\<rparr>"

definition toggleSidebar :: "ui_state \<Rightarrow> ui_state" where
  "toggleSidebar s = s\<lparr>ui_sidebarCollapsed := \<not> ui_sidebarCollapsed s\<rparr>"

record client_state =
  cl_queries :: "(json list \<times> json) list"
  cl_running :: "json list list"
  cl_invalid :: "json list list"
  cl_cart :: cart_state
  cl_ui :: ui_state
  cl_events :: "string list"

definition me_key :: "json list" where
  "me_key = [JStr (js ''auth''), JStr (js ''me'')]"

definition forget_session :: "client_state \<Rightarrow> client_state" where
  "forget_session s = s\<lparr>cl_running := [], cl_queries := [], cl_invalid := [], cl_cart := clear_cart (cl_cart s),
     cl_ui := initial_ui\<rparr>"

definition after_login :: "client_state \<Rightarrow> client_state" where
  "after_login s = forget_session s"

definition after_refresh :: "client_state \<Rightarrow> client_state" where
  "after_refresh s = s\<lparr>cl_invalid := cl_invalid s @ [me_key]\<rparr>"

definition after_switch :: "json \<Rightarrow> client_state \<Rightarrow> client_state" where
  "after_switch context s = (let s1 = forget_session s in
     s1\<lparr>cl_queries := AList.update me_key context (cl_queries s1),
        cl_events := cl_events s1 @ [''dixora:branch-switched'']\<rparr>)"

definition after_logout :: "(client_state \<Rightarrow> client_state) option \<Rightarrow> client_state \<Rightarrow> client_state" where
  "after_logout onSettled s = (case onSettled of Some f \<Rightarrow> f s | None \<Rightarrow> forget_session s)"

section \<open>Headers that survive the web server\<close>

lemma map_of_filter_key: "map_of (filter (\<lambda>(n, v). P n) h) k = (if P k then map_of h k else None)"
  by (induction h) auto

lemma hget_copied: "to_lower (js k) = js k \<Longrightarrow>
    hget (copyResponseHeaders h) k = (if k \<in> set RESPONSE_HEADERS then hget h k else None)"
  by (auto simp: hget_def copyResponseHeaders_def map_of_filter_key)

lemma header_lower [simp]: "to_lower (js ''content-type'') = js ''content-type''"
  "to_lower (js ''retry-after'') = js ''retry-after''" "to_lower (js ''content-length'') = js ''content-length''"
  by (simp_all add: to_lower_def lower_unit_def js_def)

section \<open>Errors and answers arrive as the API sent them\<close>

lemma default_texts: "defaultErrorCode s \<noteq> []" "defaultErrorMessage s \<noteq> []"
  by (auto simp: defaultErrorCode_def defaultErrorMessage_def STATUS_CODES_def STATUS_MESSAGES_def split: option.splits)

lemma nonempty_string_iff: "nonempty_string v = Some s \<longleftrightarrow> v = Some (JStr s) \<and> s \<noteq> []"
  by (auto simp: nonempty_string_def split: option.splits json.splits)

lemma payload_code: "ep_code (normalizeErrorPayload b s f) \<noteq> []"
  using default_texts
  by (auto simp: normalizeErrorPayload_def Let_def first_of_def nonempty_string_iff split: option.splits)

lemma payload_request_id: "ep_requestId (normalizeErrorPayload b s f) \<noteq> Some []"
  by (auto simp: normalizeErrorPayload_def Let_def split: option.splits)

text \<open>Reading back a payload that was written: an empty message becomes the default one, null details none.\<close>

lemma payload_reread:
  assumes "ep_code p \<noteq> []" and "ep_requestId p \<noteq> Some []"
  shows "normalizeErrorPayload (Some (payload_json p)) status None =
    \<lparr>ep_code = ep_code p, ep_message = (if ep_message p = [] then defaultErrorMessage status else ep_message p),
     ep_details = (if ep_details p = Some JNull then None else ep_details p), ep_requestId = ep_requestId p\<rparr>"
  using assms
  by (cases p) (auto simp: normalizeErrorPayload_def payload_json_def Let_def fld_append nonempty_string_def
      plain_string_def nullish_def split: option.splits json.splits)

definition parsed_retry_after :: "headers \<Rightarrow> int option" where
  "parsed_retry_after h = (case hget h ''retry-after'' of None \<Rightarrow> None | Some s \<Rightarrow> if s = [] then None else parse_int s)"

text \<open>C23: From the API to the page. What the web server makes of an answer of the API and the page makes of that:
  a failure arrives as an \<open>ApiError\<close> with the status, the code, the message, the details, the request id and
  the retry delay that the API gave, with the defaults of the status where it gave none; a JSON answer
  arrives as that JSON value, and an empty answer as no value.\<close>

theorem answers_survive_web_server:
  "(400 \<le> rs_status r \<longrightarrow>
      (let p = normalizeErrorPayload (body_json (rs_body r)) (rs_status r) (hget (rs_headers r) ''x-request-id'') in
       fromResponse (backendResponse r) =
         \<lparr>ae_status = rs_status r, ae_code = ep_code p,
          ae_message = (if ep_message p = [] then defaultErrorMessage (rs_status r) else ep_message p),
          ae_details = (if ep_details p = Some JNull then None else ep_details p),
          ae_requestId = ep_requestId p, ae_retryAfter = parsed_retry_after (rs_headers r)\<rparr>))
   \<and> (rs_ok r \<and> rs_status r \<notin> {204, 205} \<and> rs_body r = JsonBody v
        \<and> hget (rs_headers r) ''content-type'' = Some t \<and> contains t (js ''json'') \<longrightarrow>
      rs_ok (backendResponse r) \<and> read_json (backendResponse r) = Inr (Some v))
   \<and> (rs_status r = 204 \<longrightarrow> rs_ok (backendResponse r) \<and> read_json (backendResponse r) = Inr None)"
proof (intro conjI impI)
  assume r: "400 \<le> rs_status r"
  then have b: "backendResponse r = backendErrorResponse r"
    by (simp add: backendResponse_def Let_def rs_ok_def)
  show "let p = normalizeErrorPayload (body_json (rs_body r)) (rs_status r) (hget (rs_headers r) ''x-request-id'') in
       fromResponse (backendResponse r) =
         \<lparr>ae_status = rs_status r, ae_code = ep_code p,
          ae_message = (if ep_message p = [] then defaultErrorMessage (rs_status r) else ep_message p),
          ae_details = (if ep_details p = Some JNull then None else ep_details p),
          ae_requestId = ep_requestId p, ae_retryAfter = parsed_retry_after (rs_headers r)\<rparr>"
    unfolding b
    using payload_reread [OF payload_code payload_request_id, of "body_json (rs_body r)" "rs_status r"
        "hget (rs_headers r) ''x-request-id''" "rs_status r"]
    by (simp add: fromResponse_def backendErrorResponse_def response_json_def Let_def hget_copied RESPONSE_HEADERS_def
        parsed_retry_after_def)
qed (auto simp: backendResponse_def Let_def rs_ok_def read_json_def hget_copied RESPONSE_HEADERS_def)

section \<open>Paths\<close>

lemma clean_path_prefixed:
  "p = [] \<or> hd p \<noteq> 47 \<Longrightarrow> clean_path (js ''/api/v1/'' @ p) = p"
  by (cases p) (simp_all add: clean_path_def starts_with_def js_def Let_def)

lemma clean_path_head: "clean_path path \<noteq> [] \<Longrightarrow> hd (clean_path path) \<noteq> 47"
  unfolding clean_path_def Let_def by (rule hd_dropWhile [of "\<lambda>c. c = 47"])

lemma safe_segments:
  "\<not> list_ex isUnsafePathSegment (split_on 47 p) \<Longrightarrow>
     list_ex bad_segment (split_on 47 p) \<longleftrightarrow> [] \<in> set (split_on 47 p)"
  using split_on_pieces [of _ 47 p] by (auto simp: list_ex_iff bad_segment_def isUnsafePathSegment_def)

text \<open>Paths of the page and of the web server agree. An address that the page builds is the prefix of the
  backend route, the path without its version prefix, and possibly a query; none of its segments is a dot
  segment or holds a backslash or a null. The backend route accepts exactly those of these paths that have
  no empty segment, and takes them for the same path. Every path that the backend route accepts can be
  written by the page.\<close>

theorem client_paths_match_route:
  "(buildBffUrl E path search = Inr url \<longrightarrow>
      (\<exists>p suffix. url = js ''/api/backend/'' @ p @ suffix \<and> p = clean_path path \<and> p \<noteq> [] \<and> hd p \<noteq> 47
        \<and> (suffix = [] \<or> hd suffix = 63) \<and> (search = None \<longrightarrow> suffix = [])
        \<and> (\<forall>segment\<in>set (split_on 47 p). \<not> isUnsafePathSegment segment)
        \<and> validatePath (split_on 47 p) = (if [] \<in> set (split_on 47 p) then None else Some p)))
   \<and> (validatePath segments = Some route \<longrightarrow>
      buildBffUrl E (js ''/api/v1/'' @ route) None = Inr (js ''/api/backend/'' @ route))"
proof (intro conjI impI)
  assume b: "buildBffUrl E path search = Inr url"
  let ?p = "clean_path path"
  from b have p: "?p \<noteq> []" "\<not> list_ex isUnsafePathSegment (split_on 47 ?p)"
    by (auto simp: buildBffUrl_def Let_def split: if_splits)
  let ?params = "createSearchParams (pe_str_of E) search"
  let ?suffix = "if ?params \<noteq> [] then 63 # pe_query_text E ?params else []"
  have "url = js ''/api/backend/'' @ ?p @ ?suffix"
    using b p by (auto simp: buildBffUrl_def Let_def BACKEND_BFF_PREFIX_def js_def split: if_splits)
  moreover have "?suffix = [] \<or> hd ?suffix = 63" by simp
  moreover have "search = None \<longrightarrow> ?suffix = []" by (simp add: createSearchParams_def)
  moreover have "\<forall>segment\<in>set (split_on 47 ?p). \<not> isUnsafePathSegment segment"
    using p(2) by (simp add: list_ex_iff)
  moreover have "validatePath (split_on 47 ?p) = (if [] \<in> set (split_on 47 ?p) then None else Some ?p)"
    using safe_segments [OF p(2)] by (simp add: validatePath_def)
  ultimately show "\<exists>p suffix. url = js ''/api/backend/'' @ p @ suffix \<and> p = clean_path path \<and> p \<noteq> [] \<and> hd p \<noteq> 47
      \<and> (suffix = [] \<or> hd suffix = 63) \<and> (search = None \<longrightarrow> suffix = [])
      \<and> (\<forall>segment\<in>set (split_on 47 p). \<not> isUnsafePathSegment segment)
      \<and> validatePath (split_on 47 p) = (if [] \<in> set (split_on 47 p) then None else Some p)"
    using p(1) clean_path_head by blast
next
  assume "validatePath segments = Some route"
  then have s: "segments \<noteq> []" "\<forall>s\<in>set segments. \<not> bad_segment s" "route = join_with [47] segments"
    by (auto simp: validatePath_def list_ex_iff split: if_splits)
  have "split_on 47 route = segments"
    unfolding s(3) using s(1,2) by (intro split_on_join) (auto simp: bad_segment_def)
  moreover have "route \<noteq> [] \<and> hd route \<noteq> 47"
    using s by (cases segments; cases "tl segments"; cases "hd segments") (auto simp: bad_segment_def)
  ultimately show "buildBffUrl E (js ''/api/v1/'' @ route) None = Inr (js ''/api/backend/'' @ route)"
    using s(2) clean_path_prefixed [of route]
    by (auto simp: buildBffUrl_def Let_def list_ex_iff createSearchParams_def BACKEND_BFF_PREFIX_def bad_segment_def
        isUnsafePathSegment_def starts_with_def to_lower_def lower_unit_def js_def)
qed

section \<open>One request\<close>

lemma page_fetch_frame:
  "page_fetch c signal s = (r, s') \<Longrightarrow> pg_timers s' = pg_timers s \<and> pg_listeners s' = pg_listeners s
     \<and> pg_calls s' = pg_calls s @ (case signal of AbortedSignal e \<Rightarrow> [] | _ \<Rightarrow> [c])
     \<and> (\<forall>resp. r = Inr resp \<longrightarrow> pg_ends s (length (pg_calls s)) = Answered resp)"
  by (auto simp: page_fetch_def Let_def split: caller_signal.splits fetch_end.splits)

lemma request_calls:
  assumes "request url options s = (r, s')"
  shows "\<exists>call. pg_calls s' = pg_calls s @ (case ro_signal options of AbortedSignal e \<Rightarrow> [] | _ \<Rightarrow> [call])
    \<and> pc_url call = url \<and> pc_method call = ro_method options
    \<and> (pc_body call, pc_headers call) = serializeBody (ro_body options) (ro_headers options)"
proof -
  obtain b h where bh: "serializeBody (ro_body options) (ro_headers options) = (b, h)" by fastforce
  let ?c = "\<lparr>pc_url = url, pc_method = ro_method options, pc_headers = h, pc_body = b\<rparr>"
  let ?s = "s\<lparr>pg_timers := ro_timeoutMs options # pg_timers s,
      pg_listeners := pg_listeners s + (if ro_signal options = LiveSignal then 1 else 0)\<rparr>"
  obtain o' s2 where f: "page_fetch ?c (ro_signal options) ?s = (o', s2)" by fastforce
  have "pg_calls s' = pg_calls s2" using assms f by (auto simp: request_def bh Let_def)
  with page_fetch_frame [OF f] bh show ?thesis by (auto intro!: exI [of _ ?c])
qed

text \<open>A request of the page. However it ends, by an answer, a timeout, an abort of the caller or a
  failure of the network, its timer is cleared and its listener is removed; it sends one call, none when
  the caller had aborted before; a response is only returned when it is the answer to that call and
  successful, any other answer is thrown as an \<open>ApiError\<close>.\<close>

theorem request_leaves_nothing_behind:
  assumes "request url options s = (r, s')"
  shows "pg_timers s' = pg_timers s \<and> pg_listeners s' = pg_listeners s
    \<and> (\<exists>call. pg_calls s' = pg_calls s @ (case ro_signal options of AbortedSignal e \<Rightarrow> [] | _ \<Rightarrow> [call])
         \<and> pc_url call = url \<and> pc_method call = ro_method options
         \<and> (pc_body call, pc_headers call) = serializeBody (ro_body options) (ro_headers options))
    \<and> (\<forall>resp. r = Inr resp \<longrightarrow> rs_ok resp \<and> pg_ends s (length (pg_calls s)) = Answered resp)
    \<and> (\<forall>resp. pg_ends s (length (pg_calls s)) = Answered resp \<and> \<not> rs_ok resp
         \<and> (\<forall>e. ro_signal options \<noteq> AbortedSignal e) \<longrightarrow> r = Inl (ApiFailure (fromResponse resp)))"
proof -
  obtain b h where bh: "serializeBody (ro_body options) (ro_headers options) = (b, h)" by fastforce
  let ?c = "\<lparr>pc_url = url, pc_method = ro_method options, pc_headers = h, pc_body = b\<rparr>"
  let ?s = "s\<lparr>pg_timers := ro_timeoutMs options # pg_timers s,
      pg_listeners := pg_listeners s + (if ro_signal options = LiveSignal then 1 else 0)\<rparr>"
  obtain o' s2 where f: "page_fetch ?c (ro_signal options) ?s = (o', s2)" by fastforce
  note frame = page_fetch_frame [OF f]
  have r: "r = (case o' of Inl e \<Rightarrow> Inl e
      | Inr response \<Rightarrow> if \<not> rs_ok response then Inl (ApiFailure (fromResponse response)) else Inr response)"
    and s': "s' = s2\<lparr>pg_timers := tl (pg_timers s2),
      pg_listeners := pg_listeners s2 - (if ro_signal options = LiveSignal then 1 else 0)\<rparr>"
    using assms f by (simp_all add: request_def bh Let_def)
  have "pg_timers s' = pg_timers s" "pg_listeners s' = pg_listeners s"
    using frame by (simp_all add: s')
  moreover have "\<forall>resp. r = Inr resp \<longrightarrow> rs_ok resp \<and> pg_ends s (length (pg_calls s)) = Answered resp"
    using frame by (auto simp: r split: sum.splits if_splits)
  moreover have "\<forall>resp. pg_ends s (length (pg_calls s)) = Answered resp \<and> \<not> rs_ok resp
      \<and> (\<forall>e. ro_signal options \<noteq> AbortedSignal e) \<longrightarrow> r = Inl (ApiFailure (fromResponse resp))"
    using f by (cases "ro_signal options") (auto simp: page_fetch_def Let_def r)
  ultimately show ?thesis using request_calls [OF assms] by blast
qed

lemma delete_sends_no_body:
  "mutationFn E DELETE path body as_body options v s = (r, s') \<Longrightarrow> c \<in> set (pg_calls s') - set (pg_calls s)
   \<Longrightarrow> pc_body c = NoBody"
proof -
  assume m: "mutationFn E DELETE path body as_body options v s = (r, s')"
    and c: "c \<in> set (pg_calls s') - set (pg_calls s)"
  let ?o = "options\<lparr>ro_body := NoContent, ro_method := js ''DELETE''\<rparr>"
  obtain url where url: "buildBffUrl E (path v) (ro_search options) = Inr url"
    using m c by (cases "buildBffUrl E (path v) (ro_search options)")
      (auto simp: mutationFn_def api_send_def apiRequest_def Let_def)
  obtain r1 s1 where q: "request url ?o s = (r1, s1)" by fastforce
  have "s' = s1"
    using m url q by (auto simp: mutationFn_def api_send_def apiRequest_def requestJson_def method_name_def Let_def
        split: sum.splits)
  with request_calls [OF q] c show ?thesis
    by (cases "ro_signal options") (auto simp: serializeBody_def)
qed

text \<open>After a change of branch the page holds nothing of the former one.\<close>

lemma switch_forgets: "cl_queries (after_switch c s) = [(me_key, c)] \<and> cl_running (after_switch c s) = []
    \<and> cl_cart (after_switch c s) = empty_cart \<and> cl_ui (after_switch c s) = initial_ui"
  by (simp add: after_switch_def forget_session_def clear_cart_def Let_def)

section \<open>Examples\<close>

definition demo_failure :: web_response where
  "demo_failure = \<lparr>rs_status = 409, rs_headers = [(js ''retry-after'', js ''5''), (js ''x-request-id'', js ''q1'')],
     rs_body = JsonBody (JObj [(js ''detail'', JStr (js ''busy''))])\<rparr>"

lemma answers_survive_web_server_witness:
  "ae_message (fromResponse (backendResponse demo_failure)) = js ''busy''
   \<and> ae_code (fromResponse (backendResponse demo_failure)) = js ''conflict''
   \<and> ae_requestId (fromResponse (backendResponse demo_failure)) = Some (js ''q1'')
   \<and> ae_retryAfter (fromResponse (backendResponse demo_failure)) = Some 5"
  using answers_survive_web_server [of demo_failure]
  by (simp add: demo_failure_def Let_def normalizeErrorPayload_def defaultErrorCode_def STATUS_CODES_def
      nonempty_string_def plain_string_def nullish_def parsed_retry_after_def parse_int_def js_def is_space_def
      is_digit_def digits_value_def hget_def fld_def)

definition demo_page :: "fetch_end \<Rightarrow> page" where
  "demo_page e = \<lparr>pg_ends = (\<lambda>n. e), pg_calls = [], pg_timers = [], pg_listeners = 0\<rparr>"

lemma request_leaves_nothing_behind_witness:
  "\<exists>r s'. request (js ''/x'') (no_options\<lparr>ro_signal := LiveSignal\<rparr>) (demo_page FellSilent) = (r, s')
     \<and> pg_timers s' = [] \<and> pg_listeners s' = 0 \<and> length (pg_calls s') = 1"
proof -
  obtain r s' where run: "request (js ''/x'') (no_options\<lparr>ro_signal := LiveSignal\<rparr>) (demo_page FellSilent) = (r, s')"
    by fastforce
  from request_leaves_nothing_behind [OF run] run show ?thesis
    by (auto simp: demo_page_def no_options_def)
qed

definition demo_page_env :: page_env where
  "demo_page_env = \<lparr>pe_query_text = (\<lambda>ps. []), pe_str_of = (\<lambda>n. [])\<rparr>"

lemma client_paths_match_route_witness:
  "buildBffUrl demo_page_env (js ''/api/v1/orders/7'') None = Inr (js ''/api/backend/orders/7'')"
proof -
  have "validatePath [js ''orders'', js ''7''] = Some (js ''orders/7'')"
    by (simp add: validatePath_def bad_segment_def js_def)
  with client_paths_match_route [of demo_page_env "[]" None _ "[js ''orders'', js ''7'']" "js ''orders/7''"]
  show ?thesis by (simp add: js_def)
qed
end
