(* ===== verification/Waiter_Order.thy ===== *)
theory Waiter_Order
  imports Till_Commands Api_Client
begin

text \<open>
  The waiter's order screen, \<open>apps/web/src/components/waiter/order-builder.tsx\<close>: the draft of new lines, the dialog
  of a product, notes, cancellations, and the requests. The state is that of the component with the cached
  active order; an event is what the waiter, the network or the cache does.
\<close>

section \<open>The menu\<close>

record menu_modifier =
  mm_id :: jstr
  mm_price_delta :: amount

record menu_group =
  gr_is_required :: bool
  gr_minimum :: int
  gr_maximum :: "int option"
  gr_modifiers :: "menu_modifier list"

record menu_product =
  pd_id :: jstr
  pd_category :: jstr
  pd_name :: jstr
  pd_description :: "jstr option"
  pd_selling_price :: amount
  pd_is_available :: bool
  pd_waiter_visible :: bool
  pd_groups :: "menu_group list option"

definition menu_products :: "menu_product list \<Rightarrow> menu_product list" where
  "menu_products products = filter (\<lambda>p. pd_waiter_visible p \<and> pd_is_available p) products"

text \<open>\<open>lower_tr\<close> is \<open>toLocaleLowerCase("tr-TR")\<close>.\<close>

definition visibleProducts :: "(jstr \<Rightarrow> jstr) \<Rightarrow> jstr \<Rightarrow> jstr \<Rightarrow> menu_product list \<Rightarrow> menu_product list" where
  "visibleProducts lower_tr category search products = filter (\<lambda>p.
     (category = js ''all'' \<or> pd_category p = category)
     \<and> (contains (lower_tr (pd_name p)) (lower_tr search)
        \<or> (case pd_description p of None \<Rightarrow> False | Some d \<Rightarrow> contains (lower_tr d) (lower_tr search)))) products"

text \<open>The active order of a table that has none is \<open>null\<close>, not an error.\<close>

definition active_order_result :: "client_error + till_order \<Rightarrow> client_error + till_order option" where
  "active_order_result answer = (case answer of
       Inr ord \<Rightarrow> Inr (Some ord)
     | Inl (ApiFailure e) \<Rightarrow> if ae_status e = 404 \<and> ae_code e = js ''active_order_not_found'' then Inr None
         else Inl (ApiFailure e)
     | Inl e \<Rightarrow> Inl e)"

section \<open>The draft\<close>

record draft_line =
  dl_lineId :: jstr
  dl_product :: menu_product
  dl_quantity :: int
  dl_note :: jstr
  dl_modifiers :: "menu_modifier list"

text \<open>A number times a whole number.\<close>

fun js_times :: "(rat \<Rightarrow> jsnum) \<Rightarrow> jsnum \<Rightarrow> int \<Rightarrow> jsnum" where
  "js_times rnd (Fin a) q = rnd (a * of_int q)"
| "js_times rnd NaN q = NaN"
| "js_times rnd PInf q = (if q = 0 then NaN else if 0 < q then PInf else NInf)"
| "js_times rnd NInf q = (if q = 0 then NaN else if 0 < q then NInf else PInf)"

definition itemUnitPrice :: "(rat \<Rightarrow> jsnum) \<Rightarrow> draft_line \<Rightarrow> jsnum" where
  "itemUnitPrice rnd l = js_add rnd (to_number rnd (pd_selling_price (dl_product l)))
     (foldl (\<lambda>s m. js_add rnd s (to_number rnd (mm_price_delta m))) (Fin 0) (dl_modifiers l))"

definition pendingTotal :: "(rat \<Rightarrow> jsnum) \<Rightarrow> draft_line list \<Rightarrow> jsnum" where
  "pendingTotal rnd lines = foldl (\<lambda>s l. js_add rnd s (js_times rnd (itemUnitPrice rnd l) (dl_quantity l))) (Fin 0) lines"

definition table_total :: "(rat \<Rightarrow> jsnum) \<Rightarrow> till_order option \<Rightarrow> draft_line list \<Rightarrow> jsnum" where
  "table_total rnd order lines = js_add rnd
     (case order of None \<Rightarrow> Fin 0 | Some ord \<Rightarrow> to_number rnd (to_total ord)) (pendingTotal rnd lines)"

definition lessen :: "jstr \<Rightarrow> draft_line list \<Rightarrow> draft_line list" where
  "lessen lineId lines = filter (\<lambda>l. 0 < dl_quantity l)
     (map (\<lambda>l. if dl_lineId l = lineId then l\<lparr>dl_quantity := dl_quantity l - 1\<rparr> else l) lines)"

definition increase :: "jstr \<Rightarrow> draft_line list \<Rightarrow> draft_line list" where
  "increase lineId lines =
     map (\<lambda>l. if dl_lineId l = lineId then l\<lparr>dl_quantity := min 99 (dl_quantity l + 1)\<rparr> else l) lines"

definition remove_line :: "jstr \<Rightarrow> draft_line list \<Rightarrow> draft_line list" where
  "remove_line lineId lines = filter (\<lambda>l. dl_lineId l \<noteq> lineId) lines"

definition annotate :: "jstr \<Rightarrow> jstr \<Rightarrow> draft_line list \<Rightarrow> draft_line list" where
  "annotate lineId note lines = map (\<lambda>l. if dl_lineId l = lineId then l\<lparr>dl_note := note\<rparr> else l) lines"

section \<open>The state\<close>

datatype note_target = DraftNote draft_line | SentNote bill_item

datatype waiter_action = SubmitDraft | RequestBill | PrintInfo | CancelItem | SaveNote

record order_builder =
  ob_order :: "till_order option"
  ob_pending :: "draft_line list"
  ob_selectedProduct :: "menu_product option"
  ob_productDetailLoading :: bool
  ob_selectedModifiers :: "jstr set"
  ob_productQuantity :: int
  ob_productNote :: jstr
  ob_customerName :: jstr
  ob_cancellationItem :: "bill_item option"
  ob_cancellationReason :: jstr
  ob_noteTarget :: "note_target option"
  ob_itemNote :: jstr
  ob_submissionKey :: "jstr option"
  ob_detailRequest :: nat
  ob_details :: "nat list"
  ob_flights :: "(waiter_action \<times> till_request) list"

definition fresh_builder :: order_builder where
  "fresh_builder = \<lparr>ob_order = None, ob_pending = [], ob_selectedProduct = None, ob_productDetailLoading = False,
     ob_selectedModifiers = {}, ob_productQuantity = 1, ob_productNote = [], ob_customerName = [],
     ob_cancellationItem = None, ob_cancellationReason = [], ob_noteTarget = None, ob_itemNote = [],
     ob_submissionKey = None, ob_detailRequest = 0, ob_details = [], ob_flights = []\<rparr>"

section \<open>Choosing a product\<close>

definition openProduct :: "menu_product \<Rightarrow> order_builder \<Rightarrow> order_builder" where
  "openProduct product s = s\<lparr>ob_detailRequest := ob_detailRequest s + 1, ob_details := ob_details s @ [ob_detailRequest s + 1],
     ob_selectedProduct := Some product, ob_selectedModifiers := {}, ob_productQuantity := 1, ob_productNote := [],
     ob_productDetailLoading := True\<rparr>"

definition detail_arrives :: "nat \<Rightarrow> menu_product option \<Rightarrow> order_builder \<Rightarrow> order_builder" where
  "detail_arrives requestId detail s =
     (let s1 = s\<lparr>ob_details := remove1 requestId (ob_details s)\<rparr> in
      if requestId \<noteq> ob_detailRequest s then s1
      else s1\<lparr>ob_selectedProduct := detail, ob_productDetailLoading := False\<rparr>)"

definition dismiss_product :: "order_builder \<Rightarrow> order_builder" where
  "dismiss_product s = s\<lparr>ob_detailRequest := ob_detailRequest s + 1, ob_productDetailLoading := False,
     ob_selectedProduct := None\<rparr>"

definition toggle_modifier :: "menu_group \<Rightarrow> jstr \<Rightarrow> bool \<Rightarrow> jstr set \<Rightarrow> jstr set" where
  "toggle_modifier grp modifier checked current =
     (if checked
      then insert modifier (if gr_maximum grp = Some 1 then current - mm_id ` set (gr_modifiers grp) else current)
      else current - {modifier})"

definition group_count :: "jstr set \<Rightarrow> menu_group \<Rightarrow> int" where
  "group_count selected grp = int (length (filter (\<lambda>m. mm_id m \<in> selected) (gr_modifiers grp)))"

definition group_ok :: "jstr set \<Rightarrow> menu_group \<Rightarrow> bool" where
  "group_ok selected grp \<longleftrightarrow>
     \<not> (gr_is_required grp \<and> group_count selected grp < max 1 (gr_minimum grp))
     \<and> (case gr_maximum grp of None \<Rightarrow> True | Some maximum \<Rightarrow> group_count selected grp \<le> maximum)"

definition product_groups :: "menu_product \<Rightarrow> menu_group list" where
  "product_groups p = (case pd_groups p of None \<Rightarrow> [] | Some gs \<Rightarrow> gs)"

definition addSelectedProduct :: "jstr \<Rightarrow> order_builder \<Rightarrow> order_builder" where
  "addSelectedProduct uuid s = (case ob_selectedProduct s of
       None \<Rightarrow> s
     | Some p \<Rightarrow>
         if \<not> list_all (group_ok (ob_selectedModifiers s)) (product_groups p) then s
         else s\<lparr>ob_pending := ob_pending s @ [\<lparr>dl_lineId = uuid, dl_product = p, dl_quantity = ob_productQuantity s,
                  dl_note = js_trim (ob_productNote s),
                  dl_modifiers = filter (\<lambda>m. mm_id m \<in> ob_selectedModifiers s) (concat (map gr_modifiers (product_groups p)))\<rparr>],
                ob_selectedProduct := None, ob_submissionKey := None\<rparr>)"

section \<open>Requests\<close>

definition line_json :: "draft_line \<Rightarrow> json" where
  "line_json l = JObj [(js ''product_id'', JStr (pd_id (dl_product l))), (js ''quantity'', JStr (int_text (dl_quantity l))),
     (js ''note'', if dl_note l = [] then JNull else JStr (dl_note l)),
     (js ''modifiers'', JArr (map (\<lambda>m. JObj [(js ''modifier_id'', JStr (mm_id m)), (js ''quantity'', JNum (Fin 1))]) (dl_modifiers l)))]"

definition submit_request :: "jstr \<Rightarrow> jstr \<Rightarrow> order_builder \<Rightarrow> till_request" where
  "submit_request tableId key s =
     (let items = JArr (map line_json (ob_pending s)) in
      case ob_order s of
        Some ord \<Rightarrow> post_request (order_path ord ''/items'') [(''items'', items), (''idempotency_key'', JStr key)]
      | None \<Rightarrow> post_request (js ''/orders'') [(''table_id'', JStr tableId), (''source'', JStr (js ''WAITER'')),
          (''customer_name'', if ob_customerName s = [] then JNull else JStr (ob_customerName s)), (''items'', items),
          (''idempotency_key'', JStr key), (''auto_accept'', JBool True)])"

definition info_request :: "till_env \<Rightarrow> till_order \<Rightarrow> till_request" where
  "info_request E ord = post_request (js ''/printing/jobs'') [(''order_id'', JStr (to_id ord)),
     (''payload'', JObj [(js ''type'', JStr (js ''BILL'')), (js ''order_id'', JStr (to_id ord))]),
     (''kind'', JStr (js ''ORIGINAL'')),
     (''idempotency_key'', JStr (originalBillPrintKey (te_rnd E) (te_cmp E) (te_json_text E) (to_id ord) (to_total ord) (to_items ord)))]"

definition note_request :: "till_order \<Rightarrow> bill_item \<Rightarrow> jstr \<Rightarrow> jstr \<Rightarrow> till_request" where
  "note_request ord i uuid note = (post_request (order_path ord ''/items/'' @ bi_id i @ js ''/note'')
     [(''expected_version'', JNum (to_version ord)), (''idempotency_key'', JStr uuid),
      (''note'', if js_trim note = [] then JNull else JStr (js_trim note))])\<lparr>rq_method := ''PATCH''\<rparr>"

definition waiter_cancellation :: "till_order \<Rightarrow> bill_item \<Rightarrow> jstr \<Rightarrow> till_request option" where
  "waiter_cancellation ord i reason =
     (if length (js_trim reason) < 3 then None
      else Some (post_request (order_path ord ''/cancellation-requests'')
        [(''order_item_id'', JStr (bi_id i)), (''reason'', JStr (js_trim reason))]))"

text \<open>The \<open>mutationFn\<close>s; \<open>None\<close> when one throws. Submitting fixes the submission key.\<close>

definition waiter_request :: "till_env \<Rightarrow> jstr \<Rightarrow> jstr \<Rightarrow> waiter_action \<Rightarrow> order_builder \<Rightarrow> till_request option" where
  "waiter_request E tableId uuid a s = (case a of
       SubmitDraft \<Rightarrow> Some (submit_request tableId (case ob_submissionKey s of Some k \<Rightarrow> k | None \<Rightarrow> uuid) s)
     | RequestBill \<Rightarrow> map_option (\<lambda>ord. \<lparr>rq_method = ''POST'', rq_path = order_path ord ''/bill-request'', rq_body = None\<rparr>) (ob_order s)
     | PrintInfo \<Rightarrow> map_option (info_request E) (ob_order s)
     | CancelItem \<Rightarrow> (case (ob_order s, ob_cancellationItem s) of
           (Some ord, Some i) \<Rightarrow> waiter_cancellation ord i (ob_cancellationReason s) | _ \<Rightarrow> None)
     | SaveNote \<Rightarrow> (case (ob_order s, ob_noteTarget s) of
           (Some ord, Some (SentNote i)) \<Rightarrow> Some (note_request ord i uuid (ob_itemNote s)) | _ \<Rightarrow> None))"

definition waiter_pending :: "waiter_action \<Rightarrow> order_builder \<Rightarrow> bool" where
  "waiter_pending a s \<longleftrightarrow> a \<in> fst ` set (ob_flights s)"

definition waiter_enabled :: "waiter_action \<Rightarrow> order_builder \<Rightarrow> bool" where
  "waiter_enabled a s \<longleftrightarrow> \<not> waiter_pending a s \<and> (case a of
       SubmitDraft \<Rightarrow> ob_pending s \<noteq> []
     | RequestBill \<Rightarrow> ob_order s \<noteq> None
     | PrintInfo \<Rightarrow> ob_order s \<noteq> None
     | CancelItem \<Rightarrow> ob_cancellationItem s \<noteq> None \<and> 3 \<le> length (js_trim (ob_cancellationReason s))
     | SaveNote \<Rightarrow> (case ob_noteTarget s of Some (SentNote i) \<Rightarrow> True | _ \<Rightarrow> False))"

definition waiter_success :: "waiter_action \<Rightarrow> till_answer \<Rightarrow> order_builder \<Rightarrow> order_builder" where
  "waiter_success a answer s = (case a of
       SubmitDraft \<Rightarrow> s\<lparr>ob_pending := [], ob_submissionKey := None\<rparr>
     | CancelItem \<Rightarrow> s\<lparr>ob_cancellationItem := None, ob_cancellationReason := []\<rparr>
     | SaveNote \<Rightarrow> (case answer of GaveOrder ord \<Rightarrow> s\<lparr>ob_order := Some ord, ob_noteTarget := None\<rparr>
         | _ \<Rightarrow> s\<lparr>ob_noteTarget := None\<rparr>)
     | _ \<Rightarrow> s)"

section \<open>Events\<close>

datatype waiter_event = OrderFetched "till_order option" | CustomerTyped jstr | ProductOpened menu_product
  | DetailArrived nat "menu_product option" | ProductDismissed | ProductCancelled
  | ModifierToggled menu_group jstr bool | QuantityStepped bool | ProductNoteTyped jstr | AddPressed jstr
  | LineLessened jstr | LineIncreased jstr | LineRemoved jstr
  | NoteTargeted note_target | NoteTyped jstr | NoteDismissed | DraftNoteSaved
  | CancellationTargeted bill_item | CancellationTyped jstr | CancellationDismissed
  | WaiterPressed waiter_action jstr | WaiterAnswered waiter_action till_answer

datatype waiter_entry = Requested waiter_action till_request | Received waiter_action till_answer

definition start_action :: "till_env \<Rightarrow> jstr \<Rightarrow> jstr \<Rightarrow> waiter_action \<Rightarrow> order_builder \<Rightarrow> order_builder \<times> waiter_entry list" where
  "start_action E tableId uuid a s = (case waiter_request E tableId uuid a s of
       None \<Rightarrow> (s, [])
     | Some rq \<Rightarrow> (s\<lparr>ob_flights := ob_flights s @ [(a, rq)], ob_submissionKey := (if a = SubmitDraft
           then Some (case ob_submissionKey s of Some k \<Rightarrow> k | None \<Rightarrow> uuid) else ob_submissionKey s)\<rparr>, [Requested a rq]))"

definition end_action :: "waiter_action \<Rightarrow> till_answer \<Rightarrow> order_builder \<Rightarrow> order_builder \<times> waiter_entry list" where
  "end_action a answer s = (case map_of (ob_flights s) a of
       None \<Rightarrow> (s, [])
     | Some rq \<Rightarrow>
        (let s1 = s\<lparr>ob_flights := remove1 (a, rq) (ob_flights s)\<rparr> in
         (case answer of Failed code \<Rightarrow> s1 | _ \<Rightarrow> waiter_success a answer s1, [Received a answer])))"

definition save_draft_note :: "order_builder \<Rightarrow> order_builder" where
  "save_draft_note s = (case ob_noteTarget s of
       Some (DraftNote l) \<Rightarrow> s\<lparr>ob_pending := annotate (dl_lineId l) (js_trim (ob_itemNote s)) (ob_pending s),
           ob_submissionKey := None, ob_noteTarget := None\<rparr>
     | _ \<Rightarrow> s)"

definition target_note :: "note_target \<Rightarrow> order_builder \<Rightarrow> order_builder" where
  "target_note t s = s\<lparr>ob_noteTarget := Some t, ob_itemNote := (case t of
       DraftNote l \<Rightarrow> dl_note l | SentNote i \<Rightarrow> note_text i)\<rparr>"

text \<open>The buttons of a line: its note while it is not cancelled and the order is open, its cancellation while it is not
  cancelled.\<close>

definition cancellable_item :: "bill_item \<Rightarrow> order_builder \<Rightarrow> bool" where
  "cancellable_item i s = (case ob_order s of None \<Rightarrow> False
     | Some ord \<Rightarrow> i \<in> set (to_items ord) \<and> bi_status i \<notin> terminalItemStatuses)"

definition note_offered :: "note_target \<Rightarrow> order_builder \<Rightarrow> bool" where
  "note_offered n s = (case n of DraftNote l \<Rightarrow> l \<in> set (ob_pending s)
     | SentNote i \<Rightarrow> cancellable_item i s
         \<and> (case ob_order s of None \<Rightarrow> False | Some ord \<Rightarrow> or_status ord \<notin> set (map js [''PAID'', ''CANCELLED'', ''VOIDED''])))"

definition group_shown :: "menu_group \<Rightarrow> order_builder \<Rightarrow> bool" where
  "group_shown grp s = (case ob_selectedProduct s of None \<Rightarrow> False | Some p \<Rightarrow> grp \<in> set (product_groups p))"

definition step_quantity :: "bool \<Rightarrow> int \<Rightarrow> int" where
  "step_quantity up q = (if up then min 99 (q + 1) else max 1 (q - 1))"

fun waiter_step :: "till_env \<Rightarrow> jstr \<Rightarrow> waiter_event \<Rightarrow> order_builder \<Rightarrow> order_builder \<times> waiter_entry list" where
  "waiter_step E t (OrderFetched order) s = (s\<lparr>ob_order := order\<rparr>, [])"
| "waiter_step E t (CustomerTyped v) s = (if ob_order s = None then s\<lparr>ob_customerName := v\<rparr> else s, [])"
| "waiter_step E t (ProductOpened p) s = (openProduct p s, [])"
| "waiter_step E t (DetailArrived r detail) s = (if r \<in> set (ob_details s) then detail_arrives r detail s else s, [])"
| "waiter_step E t ProductDismissed s = (if ob_selectedProduct s = None then s else dismiss_product s, [])"
| "waiter_step E t ProductCancelled s = (s\<lparr>ob_selectedProduct := None\<rparr>, [])"
| "waiter_step E t (ModifierToggled grp m checked) s =
     (if group_shown grp s then s\<lparr>ob_selectedModifiers := toggle_modifier grp m checked (ob_selectedModifiers s)\<rparr> else s, [])"
| "waiter_step E t (QuantityStepped up) s = (if ob_selectedProduct s = None then s
     else s\<lparr>ob_productQuantity := step_quantity up (ob_productQuantity s)\<rparr>, [])"
| "waiter_step E t (ProductNoteTyped v) s = (if ob_selectedProduct s = None then s else s\<lparr>ob_productNote := v\<rparr>, [])"
| "waiter_step E t (AddPressed uuid) s = (if ob_productDetailLoading s then s else addSelectedProduct uuid s, [])"
| "waiter_step E t (LineLessened i) s = (s\<lparr>ob_pending := lessen i (ob_pending s)\<rparr>, [])"
| "waiter_step E t (LineIncreased i) s = (s\<lparr>ob_pending := increase i (ob_pending s)\<rparr>, [])"
| "waiter_step E t (LineRemoved i) s = (s\<lparr>ob_pending := remove_line i (ob_pending s)\<rparr>, [])"
| "waiter_step E t (NoteTargeted n) s = (if note_offered n s then target_note n s else s, [])"
| "waiter_step E t (NoteTyped v) s = (if waiter_pending SaveNote s \<or> ob_noteTarget s = None then s else s\<lparr>ob_itemNote := v\<rparr>, [])"
| "waiter_step E t NoteDismissed s = (if waiter_pending SaveNote s then s else s\<lparr>ob_noteTarget := None\<rparr>, [])"
| "waiter_step E t DraftNoteSaved s = (if waiter_pending SaveNote s then s else save_draft_note s, [])"
| "waiter_step E t (CancellationTargeted i) s = (if cancellable_item i s
     then s\<lparr>ob_cancellationItem := Some i, ob_cancellationReason := []\<rparr> else s, [])"
| "waiter_step E t (CancellationTyped v) s = (if ob_cancellationItem s = None then s else s\<lparr>ob_cancellationReason := v\<rparr>, [])"
| "waiter_step E t CancellationDismissed s = (if waiter_pending CancelItem s then s
     else s\<lparr>ob_cancellationItem := None, ob_cancellationReason := []\<rparr>, [])"
| "waiter_step E t (WaiterPressed a uuid) s = (if waiter_enabled a s then start_action E t uuid a s else (s, []))"
| "waiter_step E t (WaiterAnswered a answer) s = end_action a answer s"

fun waiter_run :: "till_env \<Rightarrow> jstr \<Rightarrow> waiter_event list \<Rightarrow> order_builder \<Rightarrow> order_builder \<times> waiter_entry list" where
  "waiter_run E t [] s = (s, [])"
| "waiter_run E t (e # events) s =
     (let (s1, out) = waiter_step E t e s; (s2, rest) = waiter_run E t events s1 in (s2, out @ rest))"

section \<open>The draft stays well formed\<close>

text \<open>A line that may be sent: between 1 and 99 portions, its modifiers are modifiers of the product, and the choice
  respects every group of the product.\<close>

definition line_ok :: "draft_line \<Rightarrow> bool" where
  "line_ok l \<longleftrightarrow> 1 \<le> dl_quantity l \<and> dl_quantity l \<le> 99
     \<and> set (dl_modifiers l) \<subseteq> (\<Union>g\<in>set (product_groups (dl_product l)). set (gr_modifiers g))
     \<and> (\<forall>g\<in>set (product_groups (dl_product l)). group_ok (mm_id ` set (dl_modifiers l)) g)"

definition draft_ok :: "jstr set \<Rightarrow> order_builder \<Rightarrow> bool" where
  "draft_ok used s \<longleftrightarrow> distinct (map dl_lineId (ob_pending s)) \<and> dl_lineId ` set (ob_pending s) \<subseteq> used
     \<and> (\<forall>l\<in>set (ob_pending s). line_ok l) \<and> 1 \<le> ob_productQuantity s \<and> ob_productQuantity s \<le> 99"

lemma group_ok_chosen:
  assumes "g \<in> set gs"
  shows "group_ok (mm_id ` set (filter (\<lambda>m. mm_id m \<in> sel) (concat (map gr_modifiers gs)))) g = group_ok sel g"
proof -
  let ?chosen = "mm_id ` set (filter (\<lambda>m. mm_id m \<in> sel) (concat (map gr_modifiers gs)))"
  have "mm_id m \<in> ?chosen \<longleftrightarrow> mm_id m \<in> sel" if "m \<in> set (gr_modifiers g)" for m
    using that assms by auto
  then have "filter (\<lambda>m. mm_id m \<in> ?chosen) (gr_modifiers g) = filter (\<lambda>m. mm_id m \<in> sel) (gr_modifiers g)"
    by (intro filter_cong) simp_all
  then have "group_count ?chosen g = group_count sel g" by (simp only: group_count_def)
  then show ?thesis by (simp only: group_ok_def)
qed

lemma add_draft_ok:
  assumes "draft_ok used s" and "uuid \<notin> used"
  shows "draft_ok (insert uuid used) (addSelectedProduct uuid s)"
proof (cases "ob_selectedProduct s")
  case None
  then show ?thesis using assms by (auto simp: addSelectedProduct_def draft_ok_def)
next
  case (Some p)
  let ?l = "\<lparr>dl_lineId = uuid, dl_product = p, dl_quantity = ob_productQuantity s, dl_note = js_trim (ob_productNote s),
    dl_modifiers = filter (\<lambda>m. mm_id m \<in> ob_selectedModifiers s) (concat (map gr_modifiers (product_groups p)))\<rparr>"
  have line: "line_ok ?l" if groups: "list_all (group_ok (ob_selectedModifiers s)) (product_groups p)"
  proof -
    have "group_ok (mm_id ` set (dl_modifiers ?l)) g" if "g \<in> set (product_groups p)" for g
      using groups that group_ok_chosen [OF that, of "ob_selectedModifiers s"] by (simp only: list_all_iff draft_line.simps)
    moreover have "set (dl_modifiers ?l) \<subseteq> (\<Union>g\<in>set (product_groups p). set (gr_modifiers g))" by auto
    ultimately show ?thesis using assms(1) unfolding line_ok_def draft_ok_def
      by (simp only: draft_line.simps) blast
  qed
  show ?thesis
  proof (cases "list_all (group_ok (ob_selectedModifiers s)) (product_groups p)")
    case True
    have "addSelectedProduct uuid s = s\<lparr>ob_pending := ob_pending s @ [?l], ob_selectedProduct := None, ob_submissionKey := None\<rparr>"
      using True Some by (simp add: addSelectedProduct_def)
    moreover have "uuid \<notin> dl_lineId ` set (ob_pending s)" using assms unfolding draft_ok_def by blast
    ultimately show ?thesis using assms(1) line [OF True] unfolding draft_ok_def by (auto simp del: set_filter)
  next
    case False
    then show ?thesis using assms Some by (auto simp: addSelectedProduct_def draft_ok_def)
  qed
qed

lemma line_ok_quantity: "line_ok l \<Longrightarrow> 1 \<le> q \<Longrightarrow> q \<le> 99 \<Longrightarrow> line_ok (l\<lparr>dl_quantity := q\<rparr>)"
  by (simp add: line_ok_def)

lemma draft_line_note: "line_ok (l\<lparr>dl_note := v\<rparr>) = line_ok l"
  by (simp add: line_ok_def)

lemma line_ok_bounds: "line_ok l \<Longrightarrow> 1 \<le> dl_quantity l \<and> dl_quantity l \<le> 99"
  by (simp add: line_ok_def)

lemma lessen_ok:
  assumes "distinct (map dl_lineId ls)" and "\<forall>l\<in>set ls. line_ok l"
  shows "distinct (map dl_lineId (lessen i ls)) \<and> dl_lineId ` set (lessen i ls) \<subseteq> dl_lineId ` set ls
    \<and> (\<forall>l\<in>set (lessen i ls). line_ok l)"
proof -
  have "map dl_lineId (map (\<lambda>l. if dl_lineId l = i then l\<lparr>dl_quantity := dl_quantity l - 1\<rparr> else l) ls) = map dl_lineId ls"
    by (induction ls) simp_all
  then have "distinct (map dl_lineId (lessen i ls))"
    unfolding lessen_def by (intro distinct_map_filter) (simp only: assms(1))
  moreover have "dl_lineId ` set (lessen i ls) \<subseteq> dl_lineId ` set ls" by (auto simp: lessen_def)
  moreover have "line_ok (if dl_lineId l = i then l\<lparr>dl_quantity := dl_quantity l - 1\<rparr> else l)"
    if "l \<in> set ls" "0 < dl_quantity (if dl_lineId l = i then l\<lparr>dl_quantity := dl_quantity l - 1\<rparr> else l)" for l
    using that assms(2) line_ok_bounds [of l] by (auto intro!: line_ok_quantity split: if_splits)
  then have "\<forall>l\<in>set (lessen i ls). line_ok l" unfolding lessen_def by fastforce
  ultimately show ?thesis by blast
qed

lemma map_lines_ok:
  assumes "\<And>l. dl_lineId (f l) = dl_lineId l" and "\<And>l. line_ok l \<Longrightarrow> line_ok (f l)"
  shows "distinct (map dl_lineId (map f ls)) = distinct (map dl_lineId ls)" "dl_lineId ` set (map f ls) = dl_lineId ` set ls"
    "\<forall>l\<in>set ls. line_ok l \<Longrightarrow> \<forall>l\<in>set (map f ls). line_ok l"
  using assms by (auto simp: comp_def image_image)

lemma increase_ok:
  "distinct (map dl_lineId (increase i ls)) = distinct (map dl_lineId ls)" "dl_lineId ` set (increase i ls) = dl_lineId ` set ls"
  "\<forall>l\<in>set ls. line_ok l \<Longrightarrow> \<forall>l\<in>set (increase i ls). line_ok l"
  unfolding increase_def by (intro map_lines_ok; auto intro!: line_ok_quantity dest: line_ok_bounds)+

lemma annotate_ok:
  "distinct (map dl_lineId (annotate i v ls)) = distinct (map dl_lineId ls)" "dl_lineId ` set (annotate i v ls) = dl_lineId ` set ls"
  "\<forall>l\<in>set ls. line_ok l \<Longrightarrow> \<forall>l\<in>set (annotate i v ls). line_ok l"
  unfolding annotate_def by (intro map_lines_ok; auto simp: draft_line_note)+

fun added_line :: "waiter_event \<Rightarrow> jstr list" where
  "added_line (AddPressed uuid) = [uuid]" | "added_line e = []"

definition added_lines :: "waiter_event list \<Rightarrow> jstr list" where
  "added_lines events = concat (map added_line events)"

lemma step_draft_ok:
  assumes ok: "draft_ok used s" and "set (added_line e) \<inter> used = {}"
  shows "draft_ok (set (added_line e) \<union> used) (fst (waiter_step E t e s))"
proof (cases e)
  case (AddPressed uuid)
  with assms add_draft_ok [OF ok, of uuid] show ?thesis by (auto simp: draft_ok_def)
next
  case (LineLessened i)
  have "dl_lineId ` set (lessen i (ob_pending s)) \<subseteq> dl_lineId ` set (ob_pending s)"
    and "distinct (map dl_lineId (lessen i (ob_pending s)))" and "\<forall>l\<in>set (lessen i (ob_pending s)). line_ok l"
    using ok lessen_ok [of "ob_pending s" i] unfolding draft_ok_def by blast+
  with LineLessened ok show ?thesis unfolding draft_ok_def by (simp, meson subset_trans)
next
  case (LineIncreased i)
  with ok increase_ok(1,2) increase_ok(3) [of "ob_pending s"] show ?thesis by (simp add: draft_ok_def)
next
  case DraftNoteSaved
  with ok annotate_ok show ?thesis by (auto simp: draft_ok_def save_draft_note_def split: option.splits note_target.splits)
next
  case (LineRemoved i)
  with ok show ?thesis by (auto simp: draft_ok_def remove_line_def distinct_map_filter)
next
  case (WaiterAnswered a answer)
  with ok show ?thesis
    by (auto simp: draft_ok_def end_action_def waiter_success_def Let_def
        split: option.splits till_answer.splits waiter_action.splits)
qed (use ok in \<open>auto simp: draft_ok_def openProduct_def detail_arrives_def dismiss_product_def target_note_def step_quantity_def
    start_action_def Let_def split: option.splits\<close>)

lemma run_draft_ok:
  assumes "draft_ok used s" and "used \<inter> set (added_lines events) = {}" and "distinct (added_lines events)"
  shows "draft_ok (set (added_lines events) \<union> used) (fst (waiter_run E t events s))"
  using assms
proof (induction events arbitrary: used s)
  case (Cons e events)
  have parts: "set (added_line e) \<inter> used = {}" "(set (added_line e) \<union> used) \<inter> set (added_lines events) = {}"
    "distinct (added_lines events)" using Cons.prems by (auto simp: added_lines_def)
  from Cons.IH [OF step_draft_ok [OF Cons.prems(1) parts(1)] parts(2,3)] show ?case
    by (simp add: split_beta added_lines_def Un_assoc Un_left_commute)
qed (simp add: added_lines_def)

section \<open>What a submission carries\<close>

definition request_items :: "till_request \<Rightarrow> json option" where
  "request_items rq = (case rq_body rq of Some (JObj members) \<Rightarrow> map_of members (js ''items'') | _ \<Rightarrow> None)"

definition draft_json :: "draft_line list \<Rightarrow> json" where
  "draft_json ls = JArr (map line_json ls)"

lemma submit_request_items: "request_items (submit_request t key s) = Some (draft_json (ob_pending s))"
  by (simp add: submit_request_def request_items_def post_request_def draft_json_def Let_def js_def split: option.split)

fun edits_draft :: "waiter_event \<Rightarrow> bool" where
  "edits_draft (AddPressed uuid) = True"
| "edits_draft (LineLessened i) = True"
| "edits_draft (LineIncreased i) = True"
| "edits_draft (LineRemoved i) = True"
| "edits_draft DraftNoteSaved = True"
| "edits_draft e = False"

text \<open>A run in which the waiter leaves the draft alone while it is being submitted.\<close>

fun calm :: "till_env \<Rightarrow> jstr \<Rightarrow> waiter_event list \<Rightarrow> order_builder \<Rightarrow> bool" where
  "calm E t [] s = True"
| "calm E t (e # events) s \<longleftrightarrow>
     \<not> (edits_draft e \<and> waiter_pending SubmitDraft s) \<and> calm E t events (fst (waiter_step E t e s))"

definition flight_carries :: "order_builder \<Rightarrow> bool" where
  "flight_carries s \<longleftrightarrow> (\<forall>rq. (SubmitDraft, rq) \<in> set (ob_flights s) \<longrightarrow> request_items rq = Some (draft_json (ob_pending s)))"

definition one_flight :: "order_builder \<Rightarrow> bool" where
  "one_flight s \<longleftrightarrow> distinct (map fst (ob_flights s))"

lemma step_one_flight:
  assumes "one_flight s"
  shows "one_flight (fst (waiter_step E t e s))"
proof (cases e)
  case (WaiterPressed a uuid)
  with assms show ?thesis
    by (auto simp: one_flight_def start_action_def waiter_enabled_def waiter_pending_def split: option.split)
next
  case (WaiterAnswered a answer)
  have "distinct (map fst (remove1 x (ob_flights s)))" for x
    using assms unfolding one_flight_def by (metis distinct_map distinct_remove1 inj_on_subset set_remove1_subset)
  with WaiterAnswered assms show ?thesis
    by (auto simp: one_flight_def end_action_def waiter_success_def Let_def split: option.split till_answer.split waiter_action.split)
qed (use assms in \<open>auto simp: one_flight_def openProduct_def detail_arrives_def dismiss_product_def target_note_def
    addSelectedProduct_def save_draft_note_def Let_def split: option.split note_target.split\<close>)

lemma step_flight_carries:
  assumes carries: "flight_carries s" and one: "one_flight s" and quiet: "\<not> (edits_draft e \<and> waiter_pending SubmitDraft s)"
  shows "flight_carries (fst (waiter_step E t e s))"
proof (cases "edits_draft e")
  case True
  then have none: "\<forall>rq. (SubmitDraft, rq) \<notin> set (ob_flights s)" using quiet by (force simp: waiter_pending_def)
  have "ob_flights (fst (waiter_step E t e s)) = ob_flights s"
    using True by (cases e) (auto simp: addSelectedProduct_def save_draft_note_def split: option.split note_target.split)
  then show ?thesis using none by (simp add: flight_carries_def)
next
  case False
  show ?thesis
  proof (cases e)
    case (WaiterPressed a uuid)
    show ?thesis
    proof (cases "a = SubmitDraft")
      case True
      with WaiterPressed carries show ?thesis
        by (auto simp: flight_carries_def start_action_def waiter_request_def submit_request_items)
    next
      case False
      with WaiterPressed carries show ?thesis by (auto simp: flight_carries_def start_action_def split: option.split)
    qed
  next
    case (WaiterAnswered a answer)
    show ?thesis
    proof (cases "map_of (ob_flights s) a")
      case None
      with WaiterAnswered carries show ?thesis by (simp add: end_action_def)
    next
      case (Some rq)
      have gone: "(SubmitDraft, q) \<notin> set (remove1 (a, rq) (ob_flights s))" if "a = SubmitDraft" for q
      proof -
        have "q' = rq" if "(SubmitDraft, q') \<in> set (ob_flights s)" for q'
          using that Some one \<open>a = SubmitDraft\<close> unfolding one_flight_def by (simp add: map_of_eq_Some_iff)
        moreover have "(a, rq) \<notin> set (remove1 (a, rq) (ob_flights s))"
          using one by (simp add: one_flight_def distinct_map)
        ultimately show ?thesis using that by (metis notin_set_remove1)
      qed
      have kept: "flight_carries (s\<lparr>ob_flights := remove1 (a, rq) (ob_flights s)\<rparr>)"
        using carries by (auto simp: flight_carries_def dest: notin_set_remove1 [rotated])
      show ?thesis
        using WaiterAnswered Some gone kept
        by (cases answer; cases a) (auto simp: flight_carries_def end_action_def waiter_success_def)
    qed
  qed (use carries False in \<open>auto simp: flight_carries_def openProduct_def detail_arrives_def dismiss_product_def
      target_note_def Let_def\<close>)
qed

lemma run_one_flight: "one_flight s \<Longrightarrow> one_flight (fst (waiter_run E t events s))"
  by (induction events arbitrary: s) (simp_all add: split_beta step_one_flight)

lemma run_flight_carries:
  assumes "flight_carries s" and "one_flight s" and "calm E t events s"
  shows "flight_carries (fst (waiter_run E t events s))"
  using assms
proof (induction events arbitrary: s)
  case (Cons e events)
  then show ?case using step_flight_carries [of s e E t] step_one_flight [of s E t e] by (simp add: split_beta)
qed simp


section \<open>A waiter at work\<close>

definition demo_tea :: menu_product where
  "demo_tea = \<lparr>pd_id = js ''tea'', pd_category = js ''hot'', pd_name = js ''Tea'', pd_description = None,
     pd_selling_price = AText (js ''2''), pd_is_available = True, pd_waiter_visible = True, pd_groups = None\<rparr>"

definition demo_adds :: "nat \<Rightarrow> jstr \<Rightarrow> waiter_event list" where
  "demo_adds n uuid = [ProductOpened demo_tea, DetailArrived n (Some demo_tea), AddPressed uuid]"

definition demo_line :: "jstr \<Rightarrow> draft_line" where
  "demo_line uuid = \<lparr>dl_lineId = uuid, dl_product = demo_tea, dl_quantity = 1, dl_note = [], dl_modifiers = []\<rparr>"

definition demo_submits :: "waiter_event list" where
  "demo_submits = demo_adds 1 (js ''a'') @ [WaiterPressed SubmitDraft (js ''k'')]"

lemmas demo_waiter = demo_adds_def demo_submits_def fresh_builder_def openProduct_def detail_arrives_def addSelectedProduct_def
  product_groups_def start_action_def end_action_def waiter_enabled_def waiter_pending_def waiter_request_def waiter_success_def

lemma demo_tea_groups [simp]: "pd_groups demo_tea = None" "pd_id demo_tea = js ''tea''"
  by (simp_all add: demo_tea_def)

lemma demo_submitted: "\<exists>s. waiter_run E t demo_submits fresh_builder
    = (s, [Requested SubmitDraft (submit_request t (js ''k'') (s\<lparr>ob_flights := [], ob_submissionKey := None\<rparr>))])
    \<and> ob_pending s = [demo_line (js ''a'')] \<and> calm E t demo_submits fresh_builder
    \<and> (SubmitDraft, submit_request t (js ''k'') (s\<lparr>ob_flights := [], ob_submissionKey := None\<rparr>)) \<in> set (ob_flights s)"
  by (simp add: demo_waiter Let_def demo_line_def js_trim_def)


section \<open>What a waiter can lose or send twice\<close>

text \<open>Success empties the draft, also of the line that was added while the submission was under way.\<close>

lemma line_added_during_submission_lost:
  "\<exists>s rq. waiter_run E t (demo_submits @ demo_adds 2 (js ''b'') @ [WaiterAnswered SubmitDraft Succeeded]) fresh_builder
       = (s, [Requested SubmitDraft rq, Received SubmitDraft Succeeded])
     \<and> request_items rq = Some (draft_json [demo_line (js ''a'')]) \<and> ob_pending s = []"
  by (simp add: demo_waiter Let_def submit_request_items demo_line_def js_trim_def)

text \<open>Changing a quantity keeps the submission key, so that two different orders bear one key.\<close>

definition submission_key :: "till_request \<Rightarrow> json option" where
  "submission_key rq = (case rq_body rq of Some (JObj members) \<Rightarrow> map_of members (js ''idempotency_key'') | _ \<Rightarrow> None)"

lemma submit_request_key: "submission_key (submit_request t key s) = Some (JStr key)"
  by (simp add: submit_request_def submission_key_def post_request_def Let_def js_def split: option.split)

lemma changed_draft_keeps_key:
  "\<exists>s p q. waiter_run E t (demo_submits @ [WaiterAnswered SubmitDraft (Failed None), LineIncreased (js ''a''),
         WaiterPressed SubmitDraft (js ''l'')]) fresh_builder
       = (s, [Requested SubmitDraft p, Received SubmitDraft (Failed None), Requested SubmitDraft q])
     \<and> submission_key p = submission_key q
     \<and> request_items p = Some (draft_json [demo_line (js ''a'')])
     \<and> request_items q = Some (draft_json [demo_line (js ''a'')\<lparr>dl_quantity := 2\<rparr>])"
  by (simp add: demo_waiter Let_def submit_request_items submit_request_key demo_line_def js_trim_def increase_def)

text \<open>When the answer of the first order of a table is lost and the order is fetched before the retry, the retry
  asks to append the same lines to it.\<close>

lemma retry_appends_again:
  "\<exists>s p q. waiter_run E t (demo_submits @ [WaiterAnswered SubmitDraft (Failed None), OrderFetched (Some ord),
         WaiterPressed SubmitDraft (js ''l'')]) fresh_builder
       = (s, [Requested SubmitDraft p, Received SubmitDraft (Failed None), Requested SubmitDraft q])
     \<and> submission_key p = submission_key q \<and> request_items p = request_items q
     \<and> rq_path p = js ''/orders'' \<and> rq_path q = order_path ord ''/items''"
  by (simp add: demo_waiter Let_def submit_request_items submit_request_key demo_line_def js_trim_def)
    (simp add: submit_request_def post_request_def Let_def)

text \<open>Closing the dialog of a product with its own button leaves the request for the details valid; the answer opens
  the dialog again.\<close>

lemma cancelled_dialog_reopens:
  "ob_selectedProduct (fst (waiter_run E t [ProductOpened demo_tea, ProductCancelled, DetailArrived 1 (Some demo_tea)] fresh_builder))
     = Some demo_tea"
  by (simp add: demo_waiter Let_def)

end
