(* ===== verification/Page_Access.thy ===== *)
theory Page_Access
  imports Web_Cookies
begin

text \<open>
  The page gate of the web application, \<open>apps/web/src/proxy.ts\<close>: which pages a session may open,
  where everybody else is sent, and when stale session cookies are cleared. The gate reads the claims
  of the two session tokens without checking their signature (the API does that on every call), so its
  rules are about navigation. \<open>Date.now()\<close> is an argument; names of \<open>Object.prototype\<close> members as
  role codes are not modelled. \<open>expires_at\<close> multiplies exactly.
\<close>

section \<open>Requests and answers\<close>

record page_request =
  pr_path :: jstr
  pr_search :: jstr
  pr_cookies :: "(jstr \<times> jstr) list"

text \<open>
  \<open>Redirect path returnTo\<close> is a redirect to a path of the same site, with the \<open>returnTo\<close> parameter
  of the login pages. \<open>pg_cleared\<close> holds name and domain of the cookies the answer expires.
\<close>

datatype page_target = Serve | Redirect jstr "jstr option"

record page_response =
  pg_target :: page_target
  pg_cleared :: "(jstr \<times> jstr option) list"

definition page_cookie :: "page_request \<Rightarrow> jstr \<Rightarrow> jstr option" where
  "page_cookie rq n = map_of (pr_cookies rq) n"

section \<open>Roles\<close>

definition protectedRoots :: "string list" where
  "protectedRoots = [''/panels'', ''/admin'', ''/waiter'', ''/cashier'', ''/super-admin'', ''/profile'']"

definition roleHomes :: "(string \<times> string) list" where
  "roleHomes = [(''SUPER_ADMIN'', ''/super-admin''), (''BUSINESS_OWNER'', ''/admin''),
     (''BUSINESS_ADMIN'', ''/admin''), (''BUSINESS_MANAGER'', ''/admin''),
     (''ACCOUNTANT'', ''/admin/reports''), (''CASHIER'', ''/cashier''), (''WAITER'', ''/waiter/tables'')]"

definition role_home :: "jstr \<Rightarrow> jstr option" where
  "role_home r = map_of (map (\<lambda>(k, h). (js k, js h)) roleHomes) r"

definition profile_roles :: "(string \<times> string) list" where
  "profile_roles = [(''WAITER'', ''WAITER''), (''CASHIER'', ''CASHIER''),
     (''MANAGEMENT'', ''BUSINESS_MANAGER''), (''BACKOFFICE'', ''ACCOUNTANT'')]"

text \<open>The role the gate acts on: a role with a home is taken as it is, any other by its profile.\<close>

definition gate_role :: "jstr \<Rightarrow> jstr option \<Rightarrow> jstr" where
  "gate_role role profile =
     (if role_home role \<noteq> None then role
      else (case profile of
        None \<Rightarrow> role
      | Some p \<Rightarrow> (case map_of (map (\<lambda>(k, r). (js k, js r)) profile_roles) p of
            None \<Rightarrow> role
          | Some r \<Rightarrow> r)))"

definition is_role :: "jstr \<Rightarrow> string list \<Rightarrow> bool" where
  "is_role r rs \<longleftrightarrow> r \<in> set (map js rs)"

definition managers :: "string list" where
  "managers = [''BUSINESS_OWNER'', ''BUSINESS_ADMIN'', ''BUSINESS_MANAGER'']"

text \<open>\<open>path === root || path.startsWith(root + "/")\<close>.\<close>

definition below :: "jstr \<Rightarrow> string \<Rightarrow> bool" where
  "below path base \<longleftrightarrow> path = js base \<or> starts_with path (js base @ [47])"

section \<open>The claims of a token\<close>

definition token_claims :: "webenv \<Rightarrow> jstr \<Rightarrow> jobj option" where
  "token_claims W token = (case split_on 46 token of
       _ # payload # _ \<Rightarrow>
         if payload = [] then None
         else (case json_of_base64 W (map (\<lambda>c. if c = 45 then 43 else if c = 95 then 47 else c) payload) of
             Some (JObj r) \<Rightarrow> Some r
           | _ \<Rightarrow> None)
     | _ \<Rightarrow> None)"

fun expires_at :: "json option \<Rightarrow> int \<Rightarrow> bool" where
  "expires_at (Some (JNum (Fin q))) now = (q * 1000 \<le> of_int now)"
| "expires_at (Some (JNum NInf)) now = True"
| "expires_at _ now = False"

definition readRole :: "webenv \<Rightarrow> int \<Rightarrow> jstr \<Rightarrow> jstr option" where
  "readRole W now token = (case token_claims W token of
       None \<Rightarrow> None
     | Some decoded \<Rightarrow> (case fld decoded ''role'' of
           Some (JStr role) \<Rightarrow>
             if expires_at (fld decoded ''exp'') now then None
             else Some (gate_role role
               (case fld decoded ''operational_profile'' of Some (JStr p) \<Rightarrow> Some p | _ \<Rightarrow> None))
         | _ \<Rightarrow> None))"

definition readStaffSession :: "webenv \<Rightarrow> jstr \<Rightarrow> bool" where
  "readStaffSession W token = (case token_claims W token of
       None \<Rightarrow> False
     | Some decoded \<Rightarrow> fld decoded ''staff_session'' = Some (JBool True))"

section \<open>The gate\<close>

definition roleCanOpen :: "jstr \<Rightarrow> jstr \<Rightarrow> bool" where
  "roleCanOpen role pathname =
     (if below pathname ''/panels'' then is_role role managers
      else if starts_with pathname (js ''/super-admin'') then is_role role [''SUPER_ADMIN'']
      else if starts_with pathname (js ''/admin'') then
        (if is_role role [''BUSINESS_OWNER'', ''BUSINESS_ADMIN''] then True
         else if is_role role [''BUSINESS_MANAGER''] then
           \<not> list_ex (below pathname) [''/admin/roles'', ''/admin/settings'', ''/admin/branch-settings'']
         else if is_role role [''ACCOUNTANT''] then
           pathname = js ''/admin'' \<or> starts_with pathname (js ''/admin/reports'')
             \<or> starts_with pathname (js ''/admin/shifts'')
             \<or> starts_with pathname (js ''/admin/order-activity'')
             \<or> starts_with pathname (js ''/admin/inventory'')
         else False)
      else if starts_with pathname (js ''/waiter'') then is_role role (''WAITER'' # managers)
      else if starts_with pathname (js ''/cashier'') then is_role role (''CASHIER'' # managers)
      else True)"

definition page_cookie_domain :: "webenv \<Rightarrow> jstr option" where
  "page_cookie_domain W = (case getenv W ''AUTH_COOKIE_DOMAIN'' of
       None \<Rightarrow> None
     | Some s \<Rightarrow>
         let domain = js_trim s in
         if domain = [] \<or> contains domain (js ''://'') \<or> contains domain (js ''/'')
           \<or> contains domain (js '':'') \<or> list_ex is_space domain
         then None else Some domain)"

definition clearSessionCookies :: "webenv \<Rightarrow> page_response \<Rightarrow> page_response" where
  "clearSessionCookies W response = response\<lparr>pg_cleared := pg_cleared response @
     concat (map (\<lambda>name. (name, None) #
         (case page_cookie_domain W of None \<Rightarrow> [] | Some d \<Rightarrow> [(name, Some d)]))
       [ACCESS_TOKEN_COOKIE, REFRESH_TOKEN_COOKIE])\<rparr>"

definition page_next :: page_response where
  "page_next = \<lparr>pg_target = Serve, pg_cleared = []\<rparr>"

definition page_redirect :: "jstr \<Rightarrow> page_response" where
  "page_redirect target = \<lparr>pg_target = Redirect target None, pg_cleared = []\<rparr>"

definition loginRedirect :: "page_request \<Rightarrow> page_response" where
  "loginRedirect request = \<lparr>pg_target = Redirect
     (if starts_with (pr_path request) (js ''/super-admin'') then js ''/super-admin/login'' else js ''/login'')
     (Some (pr_path request @ pr_search request)), pg_cleared = []\<rparr>"

definition has_session :: "page_request \<Rightarrow> bool" where
  "has_session rq \<longleftrightarrow> page_cookie rq ACCESS_TOKEN_COOKIE \<noteq> None \<or> page_cookie rq REFRESH_TOKEN_COOKIE \<noteq> None"

definition cookie_text :: "page_request \<Rightarrow> jstr \<Rightarrow> jstr" where
  "cookie_text rq n = (case page_cookie rq n of None \<Rightarrow> [] | Some v \<Rightarrow> v)"

definition session_role :: "webenv \<Rightarrow> int \<Rightarrow> page_request \<Rightarrow> jstr option" where
  "session_role W now rq =
     (if has_session rq
      then first_of (readRole W now (cookie_text rq ACCESS_TOKEN_COOKIE))
             (readRole W now (cookie_text rq REFRESH_TOKEN_COOKIE))
      else None)"

definition staff_session :: "webenv \<Rightarrow> page_request \<Rightarrow> bool" where
  "staff_session W rq =
     list_ex (\<lambda>name. readStaffSession W (cookie_text rq name)) [ACCESS_TOKEN_COOKIE, REFRESH_TOKEN_COOKIE]"

definition staff_manager :: "webenv \<Rightarrow> int \<Rightarrow> page_request \<Rightarrow> bool" where
  "staff_manager W now rq \<longleftrightarrow> staff_session W rq
     \<and> (case session_role W now rq of None \<Rightarrow> False | Some r \<Rightarrow> is_role r managers)"

definition loginPage :: "jstr \<Rightarrow> bool" where
  "loginPage pathname \<longleftrightarrow> pathname = js ''/login'' \<or> pathname = js ''/super-admin/login''"

definition protectedPage :: "jstr \<Rightarrow> bool" where
  "protectedPage pathname = list_ex (below pathname) protectedRoots"

definition page_gate :: "webenv \<Rightarrow> int \<Rightarrow> page_request \<Rightarrow> page_response" where
  "page_gate W now request =
     (let pathname = pr_path request; role = session_role W now request in
      if loginPage pathname then
        (case (if staff_manager W now request then Some (js ''/panels'') else Option.bind role role_home) of
           Some home \<Rightarrow> page_redirect home
         | None \<Rightarrow> if has_session request then clearSessionCookies W page_next else page_next)
      else if \<not> protectedPage pathname then page_next
      else if staff_manager W now request \<and> below pathname ''/admin'' then page_redirect (js ''/panels'')
      else if \<not> has_session request then loginRedirect request
      else (case role of
          None \<Rightarrow> clearSessionCookies W (loginRedirect request)
        | Some r \<Rightarrow>
            if r = [] then clearSessionCookies W (loginRedirect request)
            else if \<not> roleCanOpen r pathname
            then page_redirect (case role_home r of Some home \<Rightarrow> home | None \<Rightarrow> js ''/login'')
            else page_next))"

section \<open>Areas do not overlap\<close>

lemma starts_with_take: "starts_with p a \<Longrightarrow> n \<le> length a \<Longrightarrow> take n p = take n a"
  by (auto simp: starts_with_def min_def dest: arg_cong [of _ a "take n"])

lemma starts_with_both:
  assumes "starts_with p (js a)" "starts_with p (js b)"
  shows "take (length b) (js a) = take (length a) (js b)"
proof -
  have "js a = take (length a) p" "js b = take (length b) p"
    using assms by (simp_all add: starts_with_def)
  then show ?thesis by (simp add: min.commute)
qed

lemma below_prefix: "below p r \<Longrightarrow> starts_with p (js r)"
  using starts_with_take [of p "js r @ [47]" "length r"] by (auto simp: below_def starts_with_def)

lemma areas_apart:
  assumes "below p a" and "take (length b) (js a) \<noteq> take (length a) (js b)"
  shows "\<not> starts_with p (js b)" "\<not> below p b"
  using starts_with_both [OF below_prefix [OF assms(1)]] assms(2) below_prefix by blast+

lemma below_self [simp]: "below (js r) r"
  by (simp add: below_def)

lemma is_role_js [simp]: "is_role (js a) rs \<longleftrightarrow> a \<in> set rs"
  by (auto simp: is_role_def)

section \<open>What a served page tells\<close>

lemma readRole_Some: "readRole W now token = Some r \<Longrightarrow>
    \<exists>c. token_claims W token = Some c \<and> \<not> expires_at (fld c ''exp'') now"
  by (auto simp: readRole_def split: option.splits json.splits if_splits)

lemma session_role_token: "session_role W now rq = Some r \<Longrightarrow>
    \<exists>token c. token \<in> {cookie_text rq ACCESS_TOKEN_COOKIE, cookie_text rq REFRESH_TOKEN_COOKIE}
      \<and> readRole W now token = Some r \<and> token_claims W token = Some c \<and> \<not> expires_at (fld c ''exp'') now"
proof -
  assume "session_role W now rq = Some r"
  then have "readRole W now (cookie_text rq ACCESS_TOKEN_COOKIE) = Some r
      \<or> readRole W now (cookie_text rq REFRESH_TOKEN_COOKIE) = Some r"
    by (simp add: session_role_def first_of_def split: if_splits option.splits)
  then show ?thesis
    using readRole_Some by blast
qed

lemma loginRedirect_target [simp]: "pg_target (loginRedirect rq) \<noteq> Serve"
  by (simp add: loginRedirect_def)

lemma cleared_target [simp]: "pg_target (clearSessionCookies W r) = pg_target r"
  by (simp add: clearSessionCookies_def)

lemma redirect_target [simp]: "pg_target (page_redirect t) = Redirect t None" "pg_target page_next = Serve"
  by (simp_all add: page_redirect_def page_next_def)

lemma served_role:
  assumes "pg_target (page_gate W now rq) = Serve" and "protectedPage (pr_path rq)" "\<not> loginPage (pr_path rq)"
  shows "\<exists>r. session_role W now rq = Some r \<and> roleCanOpen r (pr_path rq)
    \<and> \<not> (staff_manager W now rq \<and> below (pr_path rq) ''/admin'') \<and> pg_cleared (page_gate W now rq) = []"
  using assms by (auto simp: page_gate_def Let_def page_next_def split: if_splits option.splits)

definition area_roles :: "jstr \<Rightarrow> jstr \<Rightarrow> bool" where
  "area_roles path role \<longleftrightarrow>
     (below path ''/panels'' \<longrightarrow> is_role role managers)
     \<and> (below path ''/super-admin'' \<longrightarrow> role = js ''SUPER_ADMIN'')
     \<and> (below path ''/admin'' \<longrightarrow> is_role role (''ACCOUNTANT'' # managers))
     \<and> (below path ''/admin/settings'' \<or> below path ''/admin/branch-settings'' \<or> below path ''/admin/roles''
          \<longrightarrow> is_role role [''BUSINESS_OWNER'', ''BUSINESS_ADMIN''])
     \<and> (below path ''/waiter'' \<longrightarrow> is_role role (''WAITER'' # managers))
     \<and> (below path ''/cashier'' \<longrightarrow> is_role role (''CASHIER'' # managers))"

lemma area_facts:
  "below p ''/super-admin'' \<Longrightarrow> \<not> below p ''/panels''"
  "below p ''/admin'' \<Longrightarrow> \<not> below p ''/panels'' \<and> \<not> starts_with p (js ''/super-admin'')"
  "below p ''/waiter'' \<Longrightarrow> \<not> below p ''/panels'' \<and> \<not> starts_with p (js ''/super-admin'')
     \<and> \<not> starts_with p (js ''/admin'')"
  "below p ''/cashier'' \<Longrightarrow> \<not> below p ''/panels'' \<and> \<not> starts_with p (js ''/super-admin'')
     \<and> \<not> starts_with p (js ''/admin'') \<and> \<not> starts_with p (js ''/waiter'')"
  using areas_apart [of p _ "''/panels''"] areas_apart [of p _ "''/super-admin''"]
    areas_apart [of p _ "''/admin''"] areas_apart [of p _ "''/waiter''"]
  by (simp_all add: js_def)

lemma below_deeper: "below p (a @ ''/'' @ b) \<Longrightarrow> below p a"
  using starts_with_take [OF below_prefix, of p "a @ ''/'' @ b" "Suc (length a)"]
  by (auto simp: below_def starts_with_def js_def)

lemma below_admin_pages:
  "below p ''/admin/settings'' \<Longrightarrow> below p ''/admin''"
  "below p ''/admin/branch-settings'' \<Longrightarrow> below p ''/admin''"
  "below p ''/admin/roles'' \<Longrightarrow> below p ''/admin''"
  using below_deeper [of p "''/admin''"] by simp_all

lemma apart_from_accounting:
  assumes "below p s" and "s \<in> {''/admin/settings'', ''/admin/branch-settings'', ''/admin/roles''}"
  shows "p \<noteq> js ''/admin''" "\<not> starts_with p (js ''/admin/reports'')" "\<not> starts_with p (js ''/admin/shifts'')"
    "\<not> starts_with p (js ''/admin/order-activity'')" "\<not> starts_with p (js ''/admin/inventory'')"
proof -
  show "p \<noteq> js ''/admin''"
    using assms by (auto simp: below_def starts_with_def js_def)
  show "\<not> starts_with p (js ''/admin/reports'')"
    using assms areas_apart [OF assms(1), of "''/admin/reports''"] by (auto simp: js_def)
  show "\<not> starts_with p (js ''/admin/shifts'')"
    using assms areas_apart [OF assms(1), of "''/admin/shifts''"] by (auto simp: js_def)
  show "\<not> starts_with p (js ''/admin/order-activity'')"
    using assms areas_apart [OF assms(1), of "''/admin/order-activity''"] by (auto simp: js_def)
  show "\<not> starts_with p (js ''/admin/inventory'')"
    using assms areas_apart [OF assms(1), of "''/admin/inventory''"] by (auto simp: js_def)
qed

lemma roleCanOpen_settings:
  assumes "roleCanOpen r p" and "below p s" and "s \<in> {''/admin/settings'', ''/admin/branch-settings'', ''/admin/roles''}"
  shows "is_role r [''BUSINESS_OWNER'', ''BUSINESS_ADMIN'']"
proof -
  have "below p ''/admin''" using assms(2,3) below_admin_pages by auto
  moreover have "list_ex (below p) [''/admin/roles'', ''/admin/settings'', ''/admin/branch-settings'']"
    using assms(2,3) by auto
  ultimately show ?thesis
    using assms(1) apart_from_accounting [OF assms(2,3)] area_facts(2) [of p] below_prefix [of p "''/admin''"]
    by (simp add: roleCanOpen_def split: if_splits)
qed

lemma roleCanOpen_areas: "roleCanOpen r p \<Longrightarrow> area_roles p r"
  unfolding area_roles_def
proof (intro conjI impI)
  assume open_: "roleCanOpen r p"
  show "below p ''/panels'' \<Longrightarrow> is_role r managers"
    using open_ by (simp add: roleCanOpen_def)
  show "below p ''/super-admin'' \<Longrightarrow> r = js ''SUPER_ADMIN''"
    using open_ area_facts(1) [of p] below_prefix [of p] by (simp add: roleCanOpen_def is_role_def)
  show "below p ''/admin'' \<Longrightarrow> is_role r (''ACCOUNTANT'' # managers)"
    using open_ area_facts(2) [of p] below_prefix [of p]
    by (auto simp: roleCanOpen_def is_role_def managers_def split: if_splits)
  show "below p ''/admin/settings'' \<or> below p ''/admin/branch-settings'' \<or> below p ''/admin/roles''
      \<Longrightarrow> is_role r [''BUSINESS_OWNER'', ''BUSINESS_ADMIN'']"
    using roleCanOpen_settings [OF open_] by blast
  show "below p ''/waiter'' \<Longrightarrow> is_role r (''WAITER'' # managers)"
    using open_ area_facts(3) [of p] below_prefix [of p] by (simp add: roleCanOpen_def)
  show "below p ''/cashier'' \<Longrightarrow> is_role r (''CASHIER'' # managers)"
    using open_ area_facts(4) [of p] below_prefix [of p] by (simp add: roleCanOpen_def)
qed

text \<open>C5: A protected page is served only to a session one of whose tokens is unexpired and carries a role
  that the area of the page admits: the platform area only to the platform administrator, the admin area to
  managers and accountants, its settings and role pages to owners and administrators only, and so on. A
  manager in a staff session never gets an admin page. Serving a page clears no cookie.\<close>

theorem page_gate_sound:
  assumes "pg_target (page_gate W now rq) = Serve" and "protectedPage (pr_path rq)" "\<not> loginPage (pr_path rq)"
  shows "\<exists>token claims role. token \<in> {cookie_text rq ACCESS_TOKEN_COOKIE, cookie_text rq REFRESH_TOKEN_COOKIE}
    \<and> token_claims W token = Some claims \<and> \<not> expires_at (fld claims ''exp'') now
    \<and> readRole W now token = Some role \<and> area_roles (pr_path rq) role
    \<and> \<not> (staff_session W rq \<and> is_role role managers \<and> below (pr_path rq) ''/admin'')
    \<and> pg_cleared (page_gate W now rq) = []"
proof -
  obtain r where r: "session_role W now rq = Some r" "roleCanOpen r (pr_path rq)"
    "\<not> (staff_manager W now rq \<and> below (pr_path rq) ''/admin'')" "pg_cleared (page_gate W now rq) = []"
    using served_role [OF assms] by blast
  show ?thesis
    using session_role_token [OF r(1)] roleCanOpen_areas [OF r(2)] r(1,3,4) by (auto simp: staff_manager_def)
qed

section \<open>Following redirects\<close>

text \<open>
  What a browser requests next: the target with the login parameter as its query (\<open>query\<close> is how the
  URL serialiser writes it), with or without the expired cookies (a browser keeps them when the domain
  of the answer is not theirs). \<open>browse\<close> is \<open>None\<close> when it still is redirected after \<open>n\<close> requests.
\<close>

definition next_request :: "(jstr option \<Rightarrow> jstr) \<Rightarrow> bool \<Rightarrow> page_request \<Rightarrow> page_response \<Rightarrow> jstr \<Rightarrow> jstr option
    \<Rightarrow> page_request" where
  "next_request query honoured rq resp path returnTo = \<lparr>pr_path = path, pr_search = query returnTo,
     pr_cookies = (if honoured then filter (\<lambda>(n, v). n \<notin> fst ` set (pg_cleared resp)) (pr_cookies rq)
                   else pr_cookies rq)\<rparr>"

fun browse :: "nat \<Rightarrow> webenv \<Rightarrow> int \<Rightarrow> (jstr option \<Rightarrow> jstr) \<Rightarrow> bool \<Rightarrow> page_request
    \<Rightarrow> (page_request \<times> page_response) option" where
  "browse 0 W now query honoured rq = None"
| "browse (Suc n) W now query honoured rq =
     (let resp = page_gate W now rq in
      case pg_target resp of
        Serve \<Rightarrow> Some (rq, resp)
      | Redirect path returnTo \<Rightarrow> browse n W now query honoured (next_request query honoured rq resp path returnTo))"

lemma same_session:
  assumes "pr_cookies rq' = pr_cookies rq"
  shows "session_role W now rq' = session_role W now rq" "staff_manager W now rq' = staff_manager W now rq"
    "has_session rq' = has_session rq"
  using assms by (simp_all add: session_role_def staff_manager_def staff_session_def has_session_def
      cookie_text_def page_cookie_def cong: if_cong option.case_cong)

lemma next_request_simps [simp]:
  "pr_path (next_request q b rq resp p t) = p"
  "pg_cleared resp = [] \<Longrightarrow> pr_cookies (next_request q b rq resp p t) = pr_cookies rq"
  by (auto simp: next_request_def case_prod_unfold)

definition proper_home :: "jstr \<Rightarrow> jstr \<Rightarrow> bool" where
  "proper_home r h \<longleftrightarrow> protectedPage h \<and> \<not> loginPage h \<and> roleCanOpen r h \<and> r \<noteq> []"

lemma homes_proper: "list_all (\<lambda>(k, h). proper_home (js k) (js h)) roleHomes"
  unfolding roleHomes_def list.pred_inject prod.case
  by (intro conjI TrueI; simp add: proper_home_def protectedPage_def protectedRoots_def loginPage_def
      roleCanOpen_def managers_def; simp add: below_def starts_with_def js_def)

lemma role_home_cases: "role_home r = Some h \<Longrightarrow> proper_home r h"
  using homes_proper by (auto simp: role_home_def list_all_iff dest!: map_of_SomeD)

lemma manager_home: "is_role r managers \<Longrightarrow> role_home r = Some (js ''/admin'') \<and> r \<noteq> []"
  by (auto simp: is_role_def managers_def role_home_def roleHomes_def)

lemma panels_page: "protectedPage (js ''/panels'') \<and> \<not> loginPage (js ''/panels'') \<and> \<not> below (js ''/panels'') ''/admin''
    \<and> (is_role r managers \<longrightarrow> roleCanOpen r (js ''/panels''))"
  by (auto simp: protectedPage_def protectedRoots_def loginPage_def roleCanOpen_def below_def starts_with_def js_def)

lemma serve_panels: "staff_manager W now rq \<Longrightarrow> pr_path rq = js ''/panels'' \<Longrightarrow> page_gate W now rq = page_next"
  using panels_page
  by (auto simp: staff_manager_def page_gate_def Let_def session_role_def dest: manager_home
      split: option.splits if_splits)

lemma serve_home:
  assumes "session_role W now rq = Some r" "role_home r = Some (pr_path rq)" "\<not> staff_manager W now rq"
  shows "page_gate W now rq = page_next"
  using assms role_home_cases [OF assms(2)]
  by (auto simp: proper_home_def page_gate_def Let_def session_role_def split: option.splits if_splits)

lemma serve_login:
  assumes "loginPage (pr_path rq)" and "Option.bind (session_role W now rq) role_home = None"
  shows "pg_target (page_gate W now rq) = Serve"
  using assms manager_home
  by (auto simp: page_gate_def Let_def staff_manager_def split: option.splits if_splits)


text \<open>Where a first redirect can lead.\<close>

definition homeless :: "webenv \<Rightarrow> int \<Rightarrow> page_request \<Rightarrow> bool" where
  "homeless W now rq \<longleftrightarrow> Option.bind (session_role W now rq) role_home = None"

lemma loginRedirect_login: "\<exists>p t. pg_target (loginRedirect rq) = Redirect p (Some t) \<and> loginPage p"
  by (simp add: loginRedirect_def loginPage_def)

lemma homeless_login: "homeless W now rq \<Longrightarrow> loginPage (pr_path rq) \<Longrightarrow> pg_target (page_gate W now rq) = Serve"
  by (simp add: serve_login homeless_def)

lemma role_home_Nil [simp]: "role_home [] = None"
  by (simp add: role_home_def roleHomes_def)

lemma no_session_role [simp]: "\<not> has_session rq \<Longrightarrow> session_role W now rq = None"
  by (simp add: session_role_def)

lemma first_redirect:
  assumes "pg_target (page_gate W now rq) = Redirect p t"
  shows "(staff_manager W now rq \<and> p = js ''/panels'' \<and> pg_cleared (page_gate W now rq) = [])
    \<or> (\<exists>r. session_role W now rq = Some r \<and> role_home r = Some p \<and> pg_cleared (page_gate W now rq) = [])
    \<or> (homeless W now rq \<and> loginPage p)"
  using assms loginRedirect_login [of rq]
  by (auto simp: page_gate_def Let_def homeless_def page_redirect_def page_next_def loginPage_def
      split: if_splits option.splits)

lemma cleared_names: "pg_cleared (page_gate W now rq) \<noteq> [] \<Longrightarrow>
    {ACCESS_TOKEN_COOKIE, REFRESH_TOKEN_COOKIE} \<subseteq> fst ` set (pg_cleared (page_gate W now rq))"
  by (auto simp: page_gate_def Let_def clearSessionCookies_def page_redirect_def page_next_def loginRedirect_def
      split: if_splits option.splits)

lemma filtered_cookie:
  "n \<in> S \<Longrightarrow> map_of (filter (\<lambda>(k, v). k \<notin> S) cs) n = None"
  by (induction cs) auto

lemma homeless_next:
  assumes "homeless W now rq"
  shows "homeless W now (next_request query honoured rq (page_gate W now rq) p t)"
proof (cases "honoured \<and> pg_cleared (page_gate W now rq) \<noteq> []")
  case True
  then have "\<not> has_session (next_request query honoured rq (page_gate W now rq) p t)"
    using cleared_names [of W now rq]
    by (simp add: has_session_def page_cookie_def next_request_def filtered_cookie)
  then show ?thesis by (simp add: homeless_def session_role_def)
next
  case False
  then have "pr_cookies (next_request query honoured rq (page_gate W now rq) p t) = pr_cookies rq"
    by (auto simp: next_request_def case_prod_unfold)
  from same_session(1) [OF this] assms show ?thesis by (simp add: homeless_def)
qed

definition landing :: "webenv \<Rightarrow> int \<Rightarrow> page_request \<Rightarrow> jstr \<Rightarrow> bool" where
  "landing W now rq path \<longleftrightarrow> path = pr_path rq
     \<or> (staff_manager W now rq \<and> path = js ''/panels'')
     \<or> (\<exists>r. session_role W now rq = Some r \<and> role_home r = Some path)
     \<or> (homeless W now rq \<and> loginPage path)"

lemma admin_redirect: "staff_manager W now rq \<Longrightarrow> pr_path rq = js ''/admin'' \<Longrightarrow>
    page_gate W now rq = page_redirect (js ''/panels'')"
  by (simp add: page_gate_def loginPage_def protectedPage_def protectedRoots_def)

text \<open>C28: Redirects never loop. Whatever page is asked for and whatever the session is, also a retired role
  without a home or a token that cannot be read, at most two redirects lead to a page that is served, with
  the clock standing still and whether or not the browser drops the cookies it is told to. That page is the
  one asked for, the home of the session's role, the panels of a staff manager, or, for a session without
  a home, a login page.\<close>

theorem redirects_end:
  "\<exists>rq' resp. browse 3 W now query honoured rq = Some (rq', resp) \<and> pg_target resp = Serve
     \<and> landing W now rq (pr_path rq')"
proof -
  let ?g = "page_gate W now"
  let ?n = "\<lambda>r p t. next_request query honoured r (?g r) p t"
  have three: "(3::nat) = Suc (Suc (Suc 0))" by simp
  show ?thesis
  proof (cases "pg_target (?g rq)")
    case Serve
    then show ?thesis by (simp add: three landing_def)
  next
    case (Redirect p t)
    let ?m = "?n rq p t"
    from first_redirect [OF Redirect] consider
        (panels) "staff_manager W now rq" "p = js ''/panels''" "pg_cleared (?g rq) = []"
      | (home) r where "session_role W now rq = Some r" "role_home r = Some p" "pg_cleared (?g rq) = []"
      | (login) "homeless W now rq" "loginPage p" by blast
    then show ?thesis
    proof cases
      case panels
      then have "pr_cookies ?m = pr_cookies rq" by simp
      from same_session(2) [OF this] panels have "?g ?m = page_next" by (intro serve_panels) simp_all
      with Redirect panels show ?thesis by (simp add: three landing_def)
    next
      case home
      then have same: "pr_cookies ?m = pr_cookies rq" "pr_path ?m = p" by simp_all
      show ?thesis
      proof (cases "staff_manager W now rq")
        case False
        then have "?g ?m = page_next"
          using home same(2) same_session [OF same(1)] by (intro serve_home) simp_all
        with Redirect home show ?thesis by (auto simp: three landing_def)
      next
        case True
        then have "p = js ''/admin''" using home manager_home by (auto simp: staff_manager_def)
        then have "?g ?m = page_redirect (js ''/panels'')"
          using True same(2) same_session [OF same(1)] by (intro admin_redirect) simp_all
        moreover from this have "pr_cookies (?n ?m (js ''/panels'') None) = pr_cookies rq"
          using same(1) by (simp add: page_redirect_def)
        from same_session(2) [OF this] have "?g (?n ?m (js ''/panels'') None) = page_next"
          using True by (intro serve_panels) simp_all
        ultimately show ?thesis using Redirect home True by (auto simp: three landing_def)
      qed
    next
      case login
      then have "pg_target (?g ?m) = Serve" by (intro homeless_login) (simp_all add: homeless_next)
      with Redirect login show ?thesis by (simp add: three landing_def Let_def)
    qed
  qed
qed

section \<open>Example\<close>

text \<open>A waiter's token, whose claims the environment decodes.\<close>

definition demo_claims :: "string \<Rightarrow> webenv" where
  "demo_claims role = (demo_webenv [])\<lparr>json_of_base64 :=
     (\<lambda>_. Some (JObj [(js ''role'', JStr (js role)), (js ''exp'', JNum (Fin 2000))]))\<rparr>"

definition demo_page :: "string \<Rightarrow> page_request" where
  "demo_page path = \<lparr>pr_path = js path, pr_search = [],
     pr_cookies = [(ACCESS_TOKEN_COOKIE, js ''h.p.s'')]\<rparr>"

lemma demo_role: "role_home (js role) \<noteq> None \<Longrightarrow>
    session_role (demo_claims role) 1000 (demo_page path) = Some (js role)"
  by (simp add: session_role_def has_session_def page_cookie_def cookie_text_def demo_page_def readRole_def
      token_claims_def demo_claims_def demo_webenv_def first_of_def gate_role_def fld_def js_def)

lemma page_gate_sound_witness:
  "protectedPage (js ''/waiter/tables'') \<and> (\<exists>token role. readRole (demo_claims ''WAITER'') 1000 token = Some role
     \<and> area_roles (js ''/waiter/tables'') role)"
proof -
  let ?W = "demo_claims ''WAITER''" and ?q = "demo_page ''/waiter/tables''"
  have home: "role_home (js ''WAITER'') = Some (js ''/waiter/tables'')"
    by (simp add: role_home_def roleHomes_def)
  then have role: "session_role ?W 1000 ?q = Some (js ''WAITER'')"
    by (intro demo_role) simp
  then have "\<not> staff_manager ?W 1000 ?q"
    by (simp add: staff_manager_def managers_def)
  then have "page_gate ?W 1000 ?q = page_next"
    using role home by (intro serve_home) (simp_all add: demo_page_def)
  then have "pg_target (page_gate ?W 1000 ?q) = Serve" by simp
  moreover have "protectedPage (pr_path ?q)" "\<not> loginPage (pr_path ?q)"
    using role_home_cases [OF home] by (simp_all add: demo_page_def proper_home_def)
  ultimately have "\<exists>token role. readRole ?W 1000 token = Some role \<and> area_roles (pr_path ?q) role"
    using page_gate_sound [of ?W 1000 ?q] by blast
  with \<open>protectedPage (pr_path ?q)\<close> show ?thesis by (simp add: demo_page_def)
qed

end
