(* ===== verification/Navigation.thy ===== *)
theory Navigation
  imports Page_Access
begin

text \<open>
  What the signed-in user interface offers: the permission checks of \<open>apps/web/src/lib/permissions.ts\<close>
  and the link filter of \<open>lib/navigation-access.ts\<close>, and how the links agree with the page gate of
  \<open>Page_Access\<close>.
\<close>

section \<open>Permissions\<close>

record auth_context =
  ac_roleCode :: jstr
  ac_operationalProfile :: "jstr option"
  ac_isSuperAdmin :: bool
  ac_staffSession :: bool
  ac_permissions :: "jstr list"

datatype permission_mode = All | Any

definition hasPermission :: "auth_context option \<Rightarrow> jstr list \<Rightarrow> permission_mode \<Rightarrow> bool" where
  "hasPermission context required mode = (case context of
       None \<Rightarrow> False
     | Some c \<Rightarrow>
         if ac_isSuperAdmin c then True
         else if js ''*'' \<in> set (ac_permissions c) then True
         else if required = [] then True
         else (case mode of
             All \<Rightarrow> list_all (\<lambda>p. p \<in> set (ac_permissions c)) required
           | Any \<Rightarrow> list_ex (\<lambda>p. p \<in> set (ac_permissions c)) required))"

definition hasAnyPermission :: "auth_context option \<Rightarrow> jstr list \<Rightarrow> bool" where
  "hasAnyPermission context permissions = hasPermission context permissions Any"

definition hasAllPermissions :: "auth_context option \<Rightarrow> jstr list \<Rightarrow> bool" where
  "hasAllPermissions context permissions = hasPermission context permissions All"

lemma hasAll_hasAny: "hasAllPermissions c ps \<Longrightarrow> hasAnyPermission c ps"
  by (cases ps) (auto simp: hasAllPermissions_def hasAnyPermission_def hasPermission_def split: option.splits)

lemma hasAllPermissions_append:
  "hasAllPermissions c (ps @ qs) \<longleftrightarrow> hasAllPermissions c ps \<and> hasAllPermissions c qs"
  by (auto simp: hasAllPermissions_def hasPermission_def split: option.splits)

section \<open>Links\<close>

definition requirements :: "(string \<times> string) list" where
  "requirements = [
     (''/super-admin/system'', ''platform.system.read''),
     (''/super-admin/audit-logs'', ''platform.system.read''),
     (''/super-admin'', ''platform.businesses.manage''),
     (''/admin/branch-settings'', ''settings.manage''),
     (''/admin/settings'', ''settings.manage''),
     (''/admin/subscription'', ''settings.manage''),
     (''/admin/onboarding'', ''settings.manage''),
     (''/admin/audit-logs'', ''audit.read''),
     (''/admin/approvals'', ''orders.manage''),
     (''/admin/employees'', ''users.manage''),
     (''/admin/roles'', ''roles.read''),
     (''/admin/reports'', ''reports.read''),
     (''/admin/order-activity'', ''reports.read''),
     (''/admin/shifts'', ''reports.read''),
     (''/admin/inventory'', ''inventory.read''),
     (''/admin/qr-menu'', ''qr.read''),
     (''/admin/campaigns'', ''loyalty.manage''),
     (''/admin/notifications'', ''loyalty.manage''),
     (''/admin/loyalty'', ''loyalty.read''),
     (''/admin/hotel-rooms'', ''hotel_rooms.read''),
     (''/admin/printers'', ''printing.read''),
     (''/admin/products'', ''catalog.read''),
     (''/admin/categories'', ''catalog.read''),
     (''/admin/modifiers'', ''catalog.read''),
     (''/admin/tables'', ''tables.read''),
     (''/admin/orders'', ''orders.read''),
     (''/admin/live'', ''dashboard.read''),
     (''/admin'', ''dashboard.read'')]"

definition permissionForNavigation :: "jstr \<Rightarrow> jstr option" where
  "permissionForNavigation href =
     map_option (\<lambda>(prefix, permission). js permission) (List.find (\<lambda>(prefix, _). below href prefix) requirements)"

definition accounting_pages :: "string list" where
  "accounting_pages = [''/admin/reports'', ''/admin/inventory'', ''/admin/shifts'', ''/admin/order-activity'']"

definition nav_role :: "auth_context \<Rightarrow> jstr" where
  "nav_role c = (case ac_operationalProfile c of Some p \<Rightarrow> p | None \<Rightarrow> ac_roleCode c)"

definition canNavigate :: "auth_context option \<Rightarrow> jstr \<Rightarrow> bool" where
  "canNavigate context href = (case context of
       None \<Rightarrow> False
     | Some c \<Rightarrow>
        (let role = nav_role c in
         if ac_staffSession c \<and> below href ''/admin'' then False
         else if href = js ''/admin/panels'' then
           is_role role [''BUSINESS_OWNER'', ''BUSINESS_ADMIN'', ''BUSINESS_MANAGER'', ''MANAGEMENT'']
             \<and> hasPermission context [js ''orders.create'', js ''payments.manage''] Any
         else if starts_with href (js ''/super-admin'') \<and> role \<noteq> js ''SUPER_ADMIN'' then False
         else if starts_with href (js ''/cashier'') then
           is_role role [''BUSINESS_OWNER'', ''BUSINESS_ADMIN'', ''BUSINESS_MANAGER'', ''CASHIER'', ''MANAGEMENT'']
             \<and> hasPermission context [js ''payments.manage''] All
         else if starts_with href (js ''/waiter'') then
           is_role role [''BUSINESS_OWNER'', ''BUSINESS_ADMIN'', ''BUSINESS_MANAGER'', ''WAITER'', ''MANAGEMENT'']
             \<and> hasPermission context [js ''orders.create''] All
         else if starts_with href (js ''/admin'')
           \<and> \<not> is_role role [''BUSINESS_OWNER'', ''BUSINESS_ADMIN'', ''BUSINESS_MANAGER'', ''ACCOUNTANT'',
                 ''MANAGEMENT'', ''BACKOFFICE'']
         then False
         else if starts_with href (js ''/admin'') \<and> role = js ''ACCOUNTANT'' \<and> href \<noteq> js ''/admin''
           \<and> \<not> list_ex (below href) accounting_pages
         then False
         else (case permissionForNavigation href of
             None \<Rightarrow> True
           | Some requirement \<Rightarrow> hasPermission context [requirement] All)))"

section \<open>Links and the gate\<close>

text \<open>
  How the API describes a session: a built-in role has its own code as its profile, a custom role
  another code and one of four profiles (\<open>operational_profile\<close> of \<open>apps/api/app/rbac.py\<close>).
\<close>

definition api_identity :: "auth_context \<Rightarrow> bool" where
  "api_identity c \<longleftrightarrow> ac_operationalProfile c = Some (ac_roleCode c)
     \<or> (role_home (ac_roleCode c) = None
          \<and> ac_operationalProfile c \<in> Some ` js ` set (map fst profile_roles))"

definition session_gate_role :: "auth_context \<Rightarrow> jstr" where
  "session_gate_role c = gate_role (ac_roleCode c) (ac_operationalProfile c)"

lemma role_homes [simp]:
  "role_home (js ''SUPER_ADMIN'') = Some (js ''/super-admin'')" "role_home (js ''BUSINESS_OWNER'') = Some (js ''/admin'')"
  "role_home (js ''BUSINESS_ADMIN'') = Some (js ''/admin'')" "role_home (js ''BUSINESS_MANAGER'') = Some (js ''/admin'')"
  "role_home (js ''ACCOUNTANT'') = Some (js ''/admin/reports'')" "role_home (js ''CASHIER'') = Some (js ''/cashier'')"
  "role_home (js ''WAITER'') = Some (js ''/waiter/tables'')"
  "role_home (js ''MANAGEMENT'') = None" "role_home (js ''BACKOFFICE'') = None"
  by (simp_all add: role_home_def roleHomes_def)

lemma gate_of_nav:
  assumes "api_identity c"
  shows "role_home (nav_role c) \<noteq> None \<Longrightarrow> session_gate_role c = nav_role c"
    "nav_role c = js ''MANAGEMENT'' \<Longrightarrow> session_gate_role c = js ''BUSINESS_MANAGER''"
    "nav_role c = js ''BACKOFFICE'' \<Longrightarrow> session_gate_role c = js ''ACCOUNTANT''"
  using assms
  by (auto simp: api_identity_def nav_role_def session_gate_role_def gate_role_def profile_roles_def)


lemma more_area_facts:
  "below p ''/admin'' \<Longrightarrow> \<not> starts_with p (js ''/cashier'') \<and> \<not> starts_with p (js ''/waiter'')"
  "below p ''/waiter'' \<Longrightarrow> \<not> starts_with p (js ''/cashier'')"
  "below p ''/profile'' \<Longrightarrow> \<not> below p ''/panels'' \<and> \<not> starts_with p (js ''/super-admin'')
     \<and> \<not> starts_with p (js ''/admin'') \<and> \<not> starts_with p (js ''/waiter'') \<and> \<not> starts_with p (js ''/cashier'')"
  using areas_apart [of p _ "''/panels''"] areas_apart [of p _ "''/super-admin''"] areas_apart [of p _ "''/admin''"]
    areas_apart [of p _ "''/waiter''"] areas_apart [of p _ "''/cashier''"]
  by (simp_all add: js_def)

lemma not_panels_link: "below p a \<Longrightarrow> a \<in> {''/super-admin'', ''/waiter'', ''/cashier''} \<Longrightarrow> p \<noteq> js ''/admin/panels''"
  by (auto simp: below_def starts_with_def js_def)

lemma platform_link:
  assumes "canNavigate (Some c) href" "below href ''/super-admin''"
  shows "nav_role c = js ''SUPER_ADMIN''"
  using assms below_prefix [OF assms(2)] not_panels_link [OF assms(2)]
  by (simp add: canNavigate_def Let_def split: if_splits)

lemma cashier_link:
  assumes "canNavigate (Some c) href" "below href ''/cashier''"
  shows "is_role (nav_role c) [''BUSINESS_OWNER'', ''BUSINESS_ADMIN'', ''BUSINESS_MANAGER'', ''CASHIER'', ''MANAGEMENT'']"
  using assms below_prefix [OF assms(2)] not_panels_link [OF assms(2)] area_facts(4) [OF assms(2)]
  by (simp add: canNavigate_def Let_def split: if_splits)

lemma waiter_link:
  assumes "canNavigate (Some c) href" "below href ''/waiter''"
  shows "is_role (nav_role c) [''BUSINESS_OWNER'', ''BUSINESS_ADMIN'', ''BUSINESS_MANAGER'', ''WAITER'', ''MANAGEMENT'']"
  using assms below_prefix [OF assms(2)] not_panels_link [OF assms(2)] area_facts(3) [OF assms(2)]
    more_area_facts(2) [OF assms(2)]
  by (simp add: canNavigate_def Let_def split: if_splits)

lemma admin_link:
  assumes "canNavigate (Some c) href" "below href ''/admin''"
  shows "\<not> ac_staffSession c" "is_role (nav_role c) [''BUSINESS_OWNER'', ''BUSINESS_ADMIN'', ''BUSINESS_MANAGER'',
      ''ACCOUNTANT'', ''MANAGEMENT'', ''BACKOFFICE'']"
    "nav_role c = js ''ACCOUNTANT'' \<Longrightarrow> href = js ''/admin'' \<or> list_ex (below href) accounting_pages"
  using assms below_prefix [OF assms(2)] area_facts(2) [OF assms(2)] more_area_facts(1) [OF assms(2)]
  by (auto simp: canNavigate_def Let_def is_role_def split: if_splits)

lemma accounting_open: "list_ex (below p) accounting_pages \<Longrightarrow>
    starts_with p (js ''/admin/reports'') \<or> starts_with p (js ''/admin/shifts'')
      \<or> starts_with p (js ''/admin/order-activity'') \<or> starts_with p (js ''/admin/inventory'')"
  by (auto simp: accounting_pages_def dest: below_prefix)

definition settings_page :: "jstr \<Rightarrow> bool" where
  "settings_page p = list_ex (below p) [''/admin/roles'', ''/admin/settings'', ''/admin/branch-settings'']"

lemma roleCanOpen_admin:
  assumes "below p ''/admin''"
  shows "roleCanOpen (js ''BUSINESS_OWNER'') p" "roleCanOpen (js ''BUSINESS_ADMIN'') p"
    "\<not> settings_page p \<Longrightarrow> roleCanOpen (js ''BUSINESS_MANAGER'') p"
    "p = js ''/admin'' \<or> list_ex (below p) accounting_pages \<Longrightarrow> roleCanOpen (js ''ACCOUNTANT'') p"
  using assms below_prefix [OF assms] area_facts(2) [OF assms] accounting_open [of p]
  by (auto simp: roleCanOpen_def settings_page_def)

text \<open>C39: The links the interface shows lead somewhere. For a session as the API describes it, a link to a
  protected page outside the panels that \<open>canNavigate\<close> admits is a page the gate opens for the role of that
  session, and never an admin page of a staff session. Two kinds of links are excepted, the admin links of
  the office profile and, for managers, the role and settings pages: there the two sides disagree.\<close>

theorem links_open:
  assumes "api_identity c" and "canNavigate (Some c) href"
    and "protectedPage href" "\<not> below href ''/panels''"
    and "\<not> (below href ''/admin'' \<and> nav_role c = js ''BACKOFFICE'')"
    and "\<not> (settings_page href \<and> nav_role c \<in> {js ''BUSINESS_MANAGER'', js ''MANAGEMENT''})"
  shows "roleCanOpen (session_gate_role c) href \<and> \<not> (ac_staffSession c \<and> below href ''/admin'')"
proof -
  note gate = gate_of_nav [OF assms(1)]
  from assms(3,4) consider (super) "below href ''/super-admin''" | (admin) "below href ''/admin''"
    | (waiter) "below href ''/waiter''" | (cashier) "below href ''/cashier''" | (profile) "below href ''/profile''"
    by (auto simp: protectedPage_def protectedRoots_def)
  then show ?thesis
  proof cases
    case super
    have "\<not> below href ''/admin''" using areas_apart(2) [OF super, of "''/admin''"] by (simp add: js_def)
    moreover have "session_gate_role c = js ''SUPER_ADMIN''"
      using platform_link [OF assms(2) super] gate(1) by simp
    ultimately show ?thesis
      using area_facts(1) [OF super] below_prefix [OF super] by (simp add: roleCanOpen_def)
  next
    case admin
    with admin_link [OF assms(2) admin] gate assms(5,6) show ?thesis
      by (auto simp: is_role_def roleCanOpen_admin)
  next
    case waiter
    have "is_role (session_gate_role c) (''WAITER'' # managers)"
      using waiter_link [OF assms(2) waiter] gate by (auto simp: is_role_def managers_def)
    with area_facts(3) [OF waiter] below_prefix [OF waiter] below_prefix [of href "''/admin''"] show ?thesis
      by (auto simp: roleCanOpen_def)
  next
    case cashier
    have "is_role (session_gate_role c) (''CASHIER'' # managers)"
      using cashier_link [OF assms(2) cashier] gate by (auto simp: is_role_def managers_def)
    with area_facts(4) [OF cashier] below_prefix [OF cashier] below_prefix [of href "''/admin''"] show ?thesis
      by (auto simp: roleCanOpen_def)
  next
    case profile
    with more_area_facts(3) [OF profile] below_prefix [of href "''/admin''"] show ?thesis
      by (auto simp: roleCanOpen_def)
  qed
qed

definition demo_context :: "string \<Rightarrow> string \<Rightarrow> string \<Rightarrow> auth_context" where
  "demo_context code profile permission = \<lparr>ac_roleCode = js code, ac_operationalProfile = Some (js profile),
     ac_isSuperAdmin = False, ac_staffSession = False, ac_permissions = [js permission]\<rparr>"

lemma links_open_witness:
  "canNavigate (Some (demo_context ''WAITER'' ''WAITER'' ''orders.create'')) (js ''/waiter/tables'')
     \<and> roleCanOpen (session_gate_role (demo_context ''WAITER'' ''WAITER'' ''orders.create'')) (js ''/waiter/tables'')"
proof -
  let ?c = "demo_context ''WAITER'' ''WAITER'' ''orders.create''" and ?h = "js ''/waiter/tables''"
  have page: "below ?h ''/waiter''" by (simp add: below_def starts_with_def js_def)
  have nav: "canNavigate (Some ?c) ?h"
    using below_prefix [OF page] more_area_facts(2) [OF page] area_facts(3) [OF page]
    by (simp add: canNavigate_def Let_def demo_context_def nav_role_def hasPermission_def)
  moreover have "protectedPage ?h" using page by (simp add: protectedPage_def protectedRoots_def)
  moreover have "\<not> below ?h ''/admin''" "\<not> below ?h ''/panels''"
    using area_facts(3) [OF page] below_prefix [of ?h "''/admin''"] by blast+
  moreover have "api_identity ?c" "nav_role ?c = js ''WAITER''"
    by (simp_all add: api_identity_def demo_context_def nav_role_def)
  ultimately show ?thesis
    using links_open [of ?c ?h] by simp
qed

text \<open>The disagreement: a custom office role that may read the catalog is shown the products page,
  which the gate does not open for it.\<close>

lemma office_link_bounces:
  "canNavigate (Some (demo_context ''OFFICE_1'' ''BACKOFFICE'' ''catalog.read'')) (js ''/admin/products'')
     \<and> \<not> roleCanOpen (session_gate_role (demo_context ''OFFICE_1'' ''BACKOFFICE'' ''catalog.read'')) (js ''/admin/products'')"
proof -
  have "permissionForNavigation (js ''/admin/products'') = Some (js ''catalog.read'')"
    by (simp add: permissionForNavigation_def requirements_def below_def starts_with_def)
       (simp add: js_def)
  then have "canNavigate (Some (demo_context ''OFFICE_1'' ''BACKOFFICE'' ''catalog.read'')) (js ''/admin/products'')"
    by (simp add: canNavigate_def Let_def demo_context_def nav_role_def hasPermission_def is_role_def starts_with_def)
       (simp add: js_def)
  moreover have "session_gate_role (demo_context ''OFFICE_1'' ''BACKOFFICE'' ''catalog.read'') = js ''ACCOUNTANT''"
    by (simp add: session_gate_role_def demo_context_def gate_role_def profile_roles_def role_home_def roleHomes_def)
  moreover have "\<not> roleCanOpen (js ''ACCOUNTANT'') (js ''/admin/products'')"
    by (simp add: roleCanOpen_def managers_def below_def starts_with_def) (simp add: js_def)
  ultimately show ?thesis by simp
qed

end
