(* ===== verification/Normalizers.thy ===== *)
theory Normalizers
  imports Web_Responses
begin

text \<open>
  How the web application reads users, tenants and branches out of answers of the API:
  \<open>apps/web/src/lib/api/normalizers.ts\<close>. A value is a JSON value or absent. \<open>user_json\<close> and its like are what
  \<open>Response.json\<close> sends on, absent members left out.
\<close>

section \<open>Readers\<close>

fun readString :: "jobj option \<Rightarrow> string list \<Rightarrow> jstr option" where
  "readString r [] = None"
| "readString r (k # ks) = (case nonempty_string (opt_fld r k) of Some s \<Rightarrow> Some s | None \<Rightarrow> readString r ks)"

fun readNumber :: "jobj option \<Rightarrow> string list \<Rightarrow> jsnum option" where
  "readNumber r [] = None"
| "readNumber r (k # ks) = (case opt_fld r k of
       Some (JNum (Fin q)) \<Rightarrow> Some (Fin q)
     | _ \<Rightarrow> readNumber r ks)"

fun readNullableString :: "jobj option \<Rightarrow> string list \<Rightarrow> jstr option" where
  "readNullableString r [] = None"
| "readNullableString r (k # ks) =
     (if opt_fld r k = Some JNull then None
      else case nonempty_string (opt_fld r k) of Some s \<Rightarrow> Some s | None \<Rightarrow> readNullableString r ks)"

fun readBoolean :: "jobj option \<Rightarrow> bool \<Rightarrow> string list \<Rightarrow> bool" where
  "readBoolean r fallback [] = fallback"
| "readBoolean r fallback (k # ks) = (case opt_fld r k of Some (JBool b) \<Rightarrow> b | _ \<Rightarrow> readBoolean r fallback ks)"

section \<open>Users, tenants and branches\<close>

record auth_user =
  au_id :: jstr
  au_tenantId :: "jstr option"
  au_branchId :: "jstr option"
  au_username :: jstr
  au_email :: "jstr option"
  au_displayName :: jstr
  au_roleCode :: jstr
  au_staffSession :: bool
  au_operationalProfile :: "jstr option"
  au_isActive :: bool
  au_isSuperAdmin :: bool

record tenant_summary =
  te_id :: jstr
  te_name :: jstr
  te_slug :: jstr
  te_state :: "jstr option"
  te_isActive :: bool
  te_defaultCurrency :: "jstr option"
  te_themeMode :: "jstr option"

record branch_summary =
  br_id :: jstr
  br_tenantId :: "jstr option"
  br_name :: jstr
  br_slug :: jstr
  br_timezone :: "jstr option"
  br_isActive :: bool

record auth_info =
  ai_user :: auth_user
  ai_tenant :: "tenant_summary option"
  ai_branch :: "branch_summary option"
  ai_permissions :: "jstr list"

record login_result =
  lr_user :: auth_user
  lr_expiresIn :: jsnum

record accessible_branches =
  ab_branches :: "branch_summary list"
  ab_currentBranchId :: "jstr option"
  ab_canSwitch :: bool

definition user_of :: "jobj \<Rightarrow> jstr \<Rightarrow> jstr \<Rightarrow> jstr \<Rightarrow> auth_user" where
  "user_of r i username displayName =
     (let roleCode = (case first_of (readString (Some r) [''role_code'', ''roleCode''])
               (first_of (readString (Some r) [''role''])
                  (readString (asRecord (fld r ''role'')) [''code''])) of
             Some c \<Rightarrow> c | None \<Rightarrow> js ''UNKNOWN'')
      in \<lparr>au_id = i, au_tenantId = readNullableString (Some r) [''tenant_id'', ''tenantId''],
          au_branchId = readNullableString (Some r) [''branch_id'', ''branchId''],
          au_username = username, au_email = readNullableString (Some r) [''email''],
          au_displayName = displayName, au_roleCode = roleCode,
          au_staffSession = readBoolean (Some r) False [''staff_session'', ''staffSession''],
          au_operationalProfile = readString (Some r) [''operational_profile'', ''operationalProfile''],
          au_isActive = readBoolean (Some r) True [''is_active'', ''isActive''],
          au_isSuperAdmin = readBoolean (Some r) (roleCode = js ''SUPER_ADMIN'') [''is_super_admin'', ''isSuperAdmin'']\<rparr>)"

definition normalizeUser :: "json option \<Rightarrow> auth_user option" where
  "normalizeUser v =
     (let record = asRecord v in
      case (record, readString record [''id''], readString record [''username''],
            readString record [''display_name'', ''displayName'']) of
        (Some r, Some i, Some username, Some displayName) \<Rightarrow> Some (user_of r i username displayName)
      | _ \<Rightarrow> None)"

definition readThemeMode :: "jobj option \<Rightarrow> jstr option" where
  "readThemeMode r = (case readString r [''theme_mode'', ''themeMode''] of
       Some v \<Rightarrow> if v \<in> set (map js [''LIGHT'', ''DARK'', ''SYSTEM'']) then Some v else None
     | None \<Rightarrow> None)"

definition normalizeTenant :: "json option \<Rightarrow> tenant_summary option" where
  "normalizeTenant v =
     (let record = asRecord v in
      case (readString record [''id''], readString record [''name''], readString record [''slug'']) of
        (Some i, Some name, Some slug) \<Rightarrow> Some \<lparr>te_id = i, te_name = name, te_slug = slug,
           te_state = readString record [''state''],
           te_isActive = readBoolean record True [''is_active'', ''isActive''],
           te_defaultCurrency = readString record [''default_currency'', ''defaultCurrency''],
           te_themeMode = readThemeMode record\<rparr>
      | _ \<Rightarrow> None)"

definition normalizeBranch :: "json option \<Rightarrow> branch_summary option" where
  "normalizeBranch v =
     (let record = asRecord v in
      case (readString record [''id''], readString record [''name''], readString record [''slug'']) of
        (Some i, Some name, Some slug) \<Rightarrow> Some \<lparr>br_id = i,
           br_tenantId = readNullableString record [''tenant_id'', ''tenantId''], br_name = name, br_slug = slug,
           br_timezone = readString record [''timezone''],
           br_isActive = readBoolean record True [''is_active'', ''isActive'']\<rparr>
      | _ \<Rightarrow> None)"

text \<open>\<open>new Set\<close> keeps the first of equal elements.\<close>

definition unique :: "'a list \<Rightarrow> 'a list" where
  "unique xs = rev (remdups (rev xs))"

definition strings_of :: "json option \<Rightarrow> jstr list" where
  "strings_of v = (case v of
       Some (JArr items) \<Rightarrow> List.map_filter (\<lambda>item. case item of JStr s \<Rightarrow> Some s | _ \<Rightarrow> None) items
     | _ \<Rightarrow> [])"

definition normalizeAuthContext :: "json option \<Rightarrow> auth_info option" where
  "normalizeAuthContext v = (case asRecord v of
       None \<Rightarrow> None
     | Some r \<Rightarrow> (case normalizeUser (nullish (fld r ''user'') (Some (JObj r))) of
           None \<Rightarrow> None
         | Some user \<Rightarrow> Some \<lparr>ai_user = user, ai_tenant = normalizeTenant (fld r ''tenant''),
             ai_branch = normalizeBranch (fld r ''branch''),
             ai_permissions = unique (strings_of (fld r ''permissions''))\<rparr>))"

definition normalizeLoginResult :: "json option \<Rightarrow> login_result option" where
  "normalizeLoginResult v =
     (let record = asRecord v in
      case (normalizeUser (opt_fld record ''user''), readNumber record [''expires_in'', ''expiresIn'']) of
        (Some user, Some expiresIn) \<Rightarrow> Some \<lparr>lr_user = user, lr_expiresIn = expiresIn\<rparr>
      | _ \<Rightarrow> None)"

definition normalizeAccessibleBranches :: "json option \<Rightarrow> accessible_branches option" where
  "normalizeAccessibleBranches v = (case asRecord v of
       None \<Rightarrow> None
     | Some r \<Rightarrow> (case fld r ''branches'' of
           Some (JArr items) \<Rightarrow>
             (let branches = List.map_filter (\<lambda>item. normalizeBranch (Some item)) items in
              if length branches \<noteq> length items then None
              else Some \<lparr>ab_branches = branches,
                ab_currentBranchId = readNullableString (Some r) [''current_branch_id'', ''currentBranchId''],
                ab_canSwitch = readBoolean (Some r) False [''can_switch'', ''canSwitch'']\<rparr>)
         | _ \<Rightarrow> None))"

section \<open>What is sent on\<close>

definition user_json :: "auth_user \<Rightarrow> json" where
  "user_json u = JObj ([(js ''id'', JStr (au_id u)), (js ''tenantId'', null_or_str (au_tenantId u)),
     (js ''branchId'', null_or_str (au_branchId u)), (js ''username'', JStr (au_username u)),
     (js ''email'', null_or_str (au_email u)), (js ''displayName'', JStr (au_displayName u)),
     (js ''roleCode'', JStr (au_roleCode u))]
     @ (if au_staffSession u then [(js ''staffSession'', JBool True)] else [])
     @ opt_member ''operationalProfile'' (map_option JStr (au_operationalProfile u))
     @ [(js ''isActive'', JBool (au_isActive u)), (js ''isSuperAdmin'', JBool (au_isSuperAdmin u))])"

definition tenant_json :: "tenant_summary \<Rightarrow> json" where
  "tenant_json t = JObj ([(js ''id'', JStr (te_id t)), (js ''name'', JStr (te_name t)), (js ''slug'', JStr (te_slug t))]
     @ opt_member ''state'' (map_option JStr (te_state t)) @ [(js ''isActive'', JBool (te_isActive t))]
     @ opt_member ''defaultCurrency'' (map_option JStr (te_defaultCurrency t))
     @ opt_member ''themeMode'' (map_option JStr (te_themeMode t)))"

definition branch_json :: "branch_summary \<Rightarrow> json" where
  "branch_json b = JObj ([(js ''id'', JStr (br_id b))] @ opt_member ''tenantId'' (map_option JStr (br_tenantId b))
     @ [(js ''name'', JStr (br_name b)), (js ''slug'', JStr (br_slug b))]
     @ opt_member ''timezone'' (map_option JStr (br_timezone b)) @ [(js ''isActive'', JBool (br_isActive b))])"

definition info_json :: "auth_info \<Rightarrow> json" where
  "info_json c = JObj [(js ''user'', user_json (ai_user c)),
     (js ''tenant'', case ai_tenant c of None \<Rightarrow> JNull | Some t \<Rightarrow> tenant_json t),
     (js ''branch'', case ai_branch c of None \<Rightarrow> JNull | Some b \<Rightarrow> branch_json b),
     (js ''permissions'', JArr (map JStr (ai_permissions c)))]"

definition login_json :: "login_result \<Rightarrow> json" where
  "login_json r = JObj [(js ''user'', user_json (lr_user r)), (js ''expiresIn'', JNum (lr_expiresIn r))]"

definition branches_json :: "accessible_branches \<Rightarrow> json" where
  "branches_json a = JObj [(js ''branches'', JArr (map branch_json (ab_branches a))),
     (js ''currentBranchId'', null_or_str (ab_currentBranchId a)), (js ''canSwitch'', JBool (ab_canSwitch a))]"

section \<open>Normalized values are well formed\<close>

definition opt_nonempty :: "jstr option \<Rightarrow> bool" where
  "opt_nonempty s \<longleftrightarrow> s \<noteq> Some []"

definition user_wf :: "auth_user \<Rightarrow> bool" where
  "user_wf u \<longleftrightarrow> au_id u \<noteq> [] \<and> au_username u \<noteq> [] \<and> au_displayName u \<noteq> [] \<and> au_roleCode u \<noteq> []
     \<and> opt_nonempty (au_tenantId u) \<and> opt_nonempty (au_branchId u) \<and> opt_nonempty (au_email u)
     \<and> opt_nonempty (au_operationalProfile u)"

definition tenant_wf :: "tenant_summary \<Rightarrow> bool" where
  "tenant_wf t \<longleftrightarrow> te_id t \<noteq> [] \<and> te_name t \<noteq> [] \<and> te_slug t \<noteq> [] \<and> opt_nonempty (te_state t)
     \<and> opt_nonempty (te_defaultCurrency t) \<and> te_themeMode t \<in> {None} \<union> Some ` set (map js [''LIGHT'', ''DARK'', ''SYSTEM''])"

definition branch_wf :: "branch_summary \<Rightarrow> bool" where
  "branch_wf b \<longleftrightarrow> br_id b \<noteq> [] \<and> br_name b \<noteq> [] \<and> br_slug b \<noteq> [] \<and> opt_nonempty (br_tenantId b)
     \<and> opt_nonempty (br_timezone b)"

lemma nonempty_string_Some: "nonempty_string v = Some s \<Longrightarrow> s \<noteq> []"
  by (auto simp: nonempty_string_def split: option.splits json.splits if_splits)

lemma readString_nonempty: "readString r ks = Some s \<Longrightarrow> s \<noteq> []"
  by (induction ks) (auto split: option.splits dest: nonempty_string_Some)

lemma readString_wf [simp]: "opt_nonempty (readString r ks)"
  unfolding opt_nonempty_def using readString_nonempty by blast

lemma readNullableString_wf [simp]: "opt_nonempty (readNullableString r ks)"
  unfolding opt_nonempty_def
  by (induction ks) (auto split: option.splits if_splits dest: nonempty_string_Some)

lemma normalizeUser_wf: "normalizeUser v = Some u \<Longrightarrow> user_wf u"
  by (auto simp: normalizeUser_def Let_def user_of_def user_wf_def first_of_def split: option.splits
      dest: readString_nonempty simp del: readString.simps readNullableString.simps readBoolean.simps)

lemma normalizeTenant_wf: "normalizeTenant v = Some t \<Longrightarrow> tenant_wf t"
  by (auto simp: normalizeTenant_def Let_def tenant_wf_def readThemeMode_def split: option.splits if_splits
      dest: readString_nonempty simp del: readString.simps readBoolean.simps)

lemma normalizeBranch_wf: "normalizeBranch v = Some b \<Longrightarrow> branch_wf b"
  by (auto simp: normalizeBranch_def Let_def branch_wf_def split: option.splits
      dest: readString_nonempty simp del: readString.simps readNullableString.simps readBoolean.simps)


section \<open>Normalizing again changes nothing\<close>

lemma nonempty_string_simps [simp]:
  "nonempty_string None = None" "s \<noteq> [] \<Longrightarrow> nonempty_string (Some (JStr s)) = Some s"
  "nonempty_string (Some JNull) = None" "nonempty_string (Some (JBool b)) = None"
  by (simp_all add: nonempty_string_def)

lemma null_or_str_cases: "opt_nonempty s \<Longrightarrow> (s = None \<and> null_or_str s = JNull) \<or> (\<exists>t. s = Some t \<and> t \<noteq> [] \<and> null_or_str s = JStr t)"
  by (cases s) (auto simp: null_or_str_def opt_nonempty_def)

lemma opt_text_cases: "opt_nonempty s \<Longrightarrow> s = None \<or> (\<exists>t. s = Some t \<and> t \<noteq> [])"
  by (cases s) (auto simp: opt_nonempty_def)

lemma fld_if: "fld (if b then r else q) k = (if b then fld r k else fld q k)"
  by simp

lemmas fld_rules = fld_append fld_if

lemma readNullable_text: "opt_nonempty s \<Longrightarrow> fld r a = None \<Longrightarrow> fld r b = Some (null_or_str s) \<Longrightarrow>
    readNullableString (Some r) [a, b] = s"
  using null_or_str_cases [of s] by auto

lemma readNullable_plain: "opt_nonempty s \<Longrightarrow> fld r a = Some (null_or_str s) \<Longrightarrow> readNullableString (Some r) [a] = s"
  using null_or_str_cases [of s] by auto

lemma readString_text: "opt_nonempty s \<Longrightarrow> fld r a = None \<Longrightarrow> fld r b = map_option JStr s \<Longrightarrow>
    readString (Some r) [a, b] = s"
  using opt_text_cases [of s] by auto

lemma user_again:
  assumes "user_wf u"
  shows "normalizeUser (Some (user_json u)) = Some u"
proof -
  obtain r where r: "JObj r = user_json u" by (simp add: user_json_def)
  have f: "fld r ''id'' = Some (JStr (au_id u))" "fld r ''tenant_id'' = None" "fld r ''tenantId'' = Some (null_or_str (au_tenantId u))"
    "fld r ''branch_id'' = None" "fld r ''branchId'' = Some (null_or_str (au_branchId u))"
    "fld r ''username'' = Some (JStr (au_username u))" "fld r ''email'' = Some (null_or_str (au_email u))"
    "fld r ''display_name'' = None" "fld r ''displayName'' = Some (JStr (au_displayName u))"
    "fld r ''role_code'' = None" "fld r ''roleCode'' = Some (JStr (au_roleCode u))"
    "fld r ''staff_session'' = None" "fld r ''staffSession'' = (if au_staffSession u then Some (JBool True) else None)"
    "fld r ''operational_profile'' = None" "fld r ''operationalProfile'' = map_option JStr (au_operationalProfile u)"
    "fld r ''is_active'' = None" "fld r ''isActive'' = Some (JBool (au_isActive u))"
    "fld r ''is_super_admin'' = None" "fld r ''isSuperAdmin'' = Some (JBool (au_isSuperAdmin u))"
    using r by (simp_all add: user_json_def fld_rules)
  have wf: "au_id u \<noteq> []" "au_username u \<noteq> []" "au_displayName u \<noteq> []" "au_roleCode u \<noteq> []"
    "opt_nonempty (au_tenantId u)" "opt_nonempty (au_branchId u)" "opt_nonempty (au_email u)"
    "opt_nonempty (au_operationalProfile u)" using assms by (simp_all add: user_wf_def)
  have "user_of r (au_id u) (au_username u) (au_displayName u) = u"
    using wf f readNullable_text [OF wf(5) f(2,3)] readNullable_text [OF wf(6) f(4,5)]
      readNullable_plain [OF wf(7) f(7)] readString_text [OF wf(8) f(14,15)]
    by (simp add: user_of_def Let_def first_of_def del: readNullableString.simps)
  with f wf show ?thesis by (simp add: normalizeUser_def flip: r)
qed

lemma tenant_again:
  assumes "tenant_wf t"
  shows "normalizeTenant (Some (tenant_json t)) = Some t"
proof -
  obtain r where r: "JObj r = tenant_json t" by (simp add: tenant_json_def)
  have f: "fld r ''id'' = Some (JStr (te_id t))" "fld r ''name'' = Some (JStr (te_name t))"
    "fld r ''slug'' = Some (JStr (te_slug t))" "fld r ''state'' = map_option JStr (te_state t)"
    "fld r ''is_active'' = None" "fld r ''isActive'' = Some (JBool (te_isActive t))"
    "fld r ''default_currency'' = None" "fld r ''defaultCurrency'' = map_option JStr (te_defaultCurrency t)"
    "fld r ''theme_mode'' = None" "fld r ''themeMode'' = map_option JStr (te_themeMode t)"
    using r by (simp_all add: tenant_json_def fld_rules split: option.splits)
  have "readString (Some r) [''state''] = te_state t"
    using f assms opt_text_cases [of "te_state t"] by (auto simp: tenant_wf_def)
  moreover have "readString (Some r) [''default_currency'', ''defaultCurrency''] = te_defaultCurrency t"
    using f assms by (intro readString_text) (auto simp: tenant_wf_def)
  moreover have "readThemeMode (Some r) = te_themeMode t"
    using f assms by (auto simp: readThemeMode_def tenant_wf_def)
  ultimately show ?thesis
    using f assms by (simp add: normalizeTenant_def tenant_wf_def flip: r)
qed

lemma branch_again:
  assumes "branch_wf b"
  shows "normalizeBranch (Some (branch_json b)) = Some b"
proof -
  obtain r where r: "JObj r = branch_json b" by (simp add: branch_json_def)
  have f: "fld r ''id'' = Some (JStr (br_id b))" "fld r ''name'' = Some (JStr (br_name b))"
    "fld r ''slug'' = Some (JStr (br_slug b))" "fld r ''tenant_id'' = None"
    "fld r ''tenantId'' = map_option JStr (br_tenantId b)" "fld r ''timezone'' = map_option JStr (br_timezone b)"
    "fld r ''is_active'' = None" "fld r ''isActive'' = Some (JBool (br_isActive b))"
    using r by (simp_all add: branch_json_def fld_rules split: option.splits)
  have "readString (Some r) [''timezone''] = br_timezone b"
    using f assms opt_text_cases [of "br_timezone b"] by (auto simp: branch_wf_def)
  moreover have "readNullableString (Some r) [''tenant_id'', ''tenantId''] = br_tenantId b"
    using f assms opt_text_cases [of "br_tenantId b"] by (auto simp: branch_wf_def)
  ultimately show ?thesis
    using f assms by (simp add: normalizeBranch_def branch_wf_def flip: r)
qed

lemma unique_distinct: "distinct (unique xs)" "distinct xs \<Longrightarrow> unique xs = xs"
  by (simp_all add: unique_def distinct_remdups_id)

lemma strings_of_texts [simp]: "strings_of (Some (JArr (map JStr ss))) = ss"
  by (simp add: strings_of_def) (induction ss; simp add: map_filter_simps)

text \<open>Normalizing is idempotent, so the browser may normalize again what the web server has normalized and
  sent on: the text of a normalized context reads back as the very same context, and likewise a list of
  accessible branches. Normalized users have an id, a name and a role, and no permission twice.\<close>

theorem normalized_roundtrip:
  "(\<forall>v c. normalizeAuthContext v = Some c \<longrightarrow>
      normalizeAuthContext (Some (info_json c)) = Some c \<and> user_wf (ai_user c) \<and> distinct (ai_permissions c))
   \<and> (\<forall>v a. normalizeAccessibleBranches v = Some a \<longrightarrow> normalizeAccessibleBranches (Some (branches_json a)) = Some a)
   \<and> (\<forall>v r. normalizeLoginResult v = Some r \<longrightarrow> normalizeLoginResult (Some (login_json r)) = Some r)"
proof (intro conjI allI impI)
  fix v c
  assume n: "normalizeAuthContext v = Some c"
  then obtain r user where r: "asRecord v = Some r" "normalizeUser (nullish (fld r ''user'') (Some (JObj r))) = Some user"
    "c = \<lparr>ai_user = user, ai_tenant = normalizeTenant (fld r ''tenant''), ai_branch = normalizeBranch (fld r ''branch''),
      ai_permissions = unique (strings_of (fld r ''permissions''))\<rparr>"
    by (auto simp: normalizeAuthContext_def split: option.splits)
  show wf: "user_wf (ai_user c)" using r normalizeUser_wf by simp
  show d: "distinct (ai_permissions c)" using r by (simp add: unique_distinct)
  have none: "normalizeTenant (Some JNull) = None" "normalizeBranch (Some JNull) = None"
    by (simp_all add: normalizeTenant_def normalizeBranch_def asRecord_def opt_fld_def)
  have "normalizeTenant (Some (case ai_tenant c of None \<Rightarrow> JNull | Some t \<Rightarrow> tenant_json t)) = ai_tenant c"
    using r none by (auto simp: tenant_again normalizeTenant_wf split: option.splits)
  moreover have "normalizeBranch (Some (case ai_branch c of None \<Rightarrow> JNull | Some b \<Rightarrow> branch_json b)) = ai_branch c"
    using r none by (auto simp: branch_again normalizeBranch_wf split: option.splits)
  moreover have "nullish (Some (user_json u)) w = Some (user_json u)" for u w
    by (simp add: nullish_def user_json_def)
  ultimately show "normalizeAuthContext (Some (info_json c)) = Some c"
    using user_again [OF wf] d
    by (simp add: normalizeAuthContext_def info_json_def fld_rules unique_distinct)
next
  fix v a
  assume n: "normalizeAccessibleBranches v = Some a"
  then obtain r items where "a = \<lparr>ab_branches = List.map_filter (\<lambda>item. normalizeBranch (Some item)) items,
      ab_currentBranchId = readNullableString (Some r) [''current_branch_id'', ''currentBranchId''],
      ab_canSwitch = readBoolean (Some r) False [''can_switch'', ''canSwitch'']\<rparr>"
    by (auto simp: normalizeAccessibleBranches_def Let_def split: option.splits json.splits if_splits
        simp del: readNullableString.simps readBoolean.simps)
  then have wf: "\<forall>b\<in>set (ab_branches a). branch_wf b" "opt_nonempty (ab_currentBranchId a)"
    by (auto simp: map_filter_def normalizeBranch_wf simp del: readNullableString.simps)
  have bs: "List.map_filter (\<lambda>item. normalizeBranch (Some item)) (map branch_json bs) = bs"
    if "\<forall>b\<in>set bs. branch_wf b" for bs
    using that by (induction bs) (simp_all add: map_filter_simps branch_again)
  obtain q where q: "branches_json a = JObj q" by (simp add: branches_json_def)
  have f: "fld q ''branches'' = Some (JArr (map branch_json (ab_branches a)))" "fld q ''current_branch_id'' = None"
    "fld q ''currentBranchId'' = Some (null_or_str (ab_currentBranchId a))" "fld q ''can_switch'' = None"
    "fld q ''canSwitch'' = Some (JBool (ab_canSwitch a))"
    using q by (auto simp: branches_json_def fld_rules)
  show "normalizeAccessibleBranches (Some (branches_json a)) = Some a"
    using f bs [OF wf(1)] readNullable_text [OF wf(2) f(2,3)]
    by (simp add: normalizeAccessibleBranches_def q del: readNullableString.simps)
next
  fix v r
  assume n: "normalizeLoginResult v = Some r"
  then have wf: "user_wf (lr_user r)" and num: "\<exists>q. lr_expiresIn r = Fin q"
    by (auto simp: normalizeLoginResult_def Let_def normalizeUser_wf split: option.splits json.splits jsnum.splits)
  then show "normalizeLoginResult (Some (login_json r)) = Some r"
    using user_again [OF wf] by (auto simp: normalizeLoginResult_def login_json_def fld_rules)
qed

definition demo_user_answer :: json where
  "demo_user_answer = JObj [(js ''id'', JStr (js ''u1'')), (js ''username'', JStr (js ''ayse'')),
     (js ''display_name'', JStr (js ''Ayse'')), (js ''role_code'', JStr (js ''WAITER'')),
     (js ''permissions'', JArr [JStr (js ''orders.read''), JNull, JStr (js ''orders.read'')])]"

lemma normalized_roundtrip_witness:
  "\<exists>c. normalizeAuthContext (Some demo_user_answer) = Some c \<and> ai_permissions c = [js ''orders.read'']
     \<and> normalizeAuthContext (Some (info_json c)) = Some c"
proof -
  have "\<exists>c. normalizeAuthContext (Some demo_user_answer) = Some c \<and> ai_permissions c = [js ''orders.read'']"
    by (simp add: normalizeAuthContext_def demo_user_answer_def normalizeUser_def fld_rules nullish_def strings_of_def
        map_filter_simps unique_def)
  then show ?thesis using normalized_roundtrip by blast
qed

end
