(* ===== verification/Auth_Routes.thy ===== *)
theory Auth_Routes
  imports Normalizers Web_Security Web_Session
begin

text \<open>
  The authentication routes, \<open>apps/web/src/app/api/auth/*/route.ts\<close>: login, PIN login, panel login, switching
  the branch, refreshing, logging out, and the reads of the session and its branches. The schemas of the
  input are objects of the library zod: a schema is an argument, a function from a JSON value to the
  flattened errors or the parsed data.
\<close>

section \<open>Steps the routes share\<close>

type_synonym 'a zod_schema = "json \<Rightarrow> json + 'a"

definition declared_too_long :: "web_request \<Rightarrow> int \<Rightarrow> bool" where
  "declared_too_long request limit =
     (case parse_int (case hget (wq_headers request) ''content-length'' of Some s \<Rightarrow> s | None \<Rightarrow> js ''0'') of
        Some n \<Rightarrow> limit < n | None \<Rightarrow> False)"

text \<open>Length check, size check and \<open>JSON.parse\<close> of the body; \<open>Inl\<close> is the answer when one of them fails.\<close>

definition read_input :: "int \<Rightarrow> string \<Rightarrow> web_request \<Rightarrow> web_response + json" where
  "read_input limit tooLarge request =
     (if declared_too_long request limit \<or> limit < wq_bytes request
      then Inl (apiErrorResponse 413 ''payload_too_large'' tooLarge None)
      else case body_json (wq_body request) of
        None \<Rightarrow> Inl (apiErrorResponse 400 ''invalid_json'' ''Ge~cerli bir JSON g~ovdesi g~onderin.'' None)
      | Some v \<Rightarrow> Inr v)"

definition parsed_input :: "'a zod_schema \<Rightarrow> string \<Rightarrow> json \<Rightarrow> web_response + 'a" where
  "parsed_input schema message input = (case schema input of
       Inl details \<Rightarrow> Inl (apiErrorResponse 422 ''validation_error'' message (Some details))
     | Inr data \<Rightarrow> Inr data)"

definition validated :: "webenv \<Rightarrow> web_request \<Rightarrow> int \<Rightarrow> string \<Rightarrow> 'a zod_schema \<Rightarrow> string \<Rightarrow> web_response + 'a" where
  "validated W request limit tooLarge schema message = (case mutationOriginError W request of
       Some originError \<Rightarrow> Inl originError
     | None \<Rightarrow> (case read_input limit tooLarge request of
           Inl answer \<Rightarrow> Inl answer
         | Inr input \<Rightarrow> parsed_input schema message input))"

definition route_headers :: "webenv \<Rightarrow> web_request \<Rightarrow> ('z web_scheme, headers) io" where
  "route_headers W request =
     io_bind (case hget (wq_headers request) ''x-request-id'' of Some given \<Rightarrow> io_ret given | None \<Rightarrow> uuid_tick W)
       (\<lambda>requestId. io_ret ([(js ''accept'', js ''application/json''), (js ''content-type'', js ''application/json''),
          (js ''user-agent'', case hget (wq_headers request) ''user-agent'' of
             Some u \<Rightarrow> u | None \<Rightarrow> js ''Dixora Web BFF'')]
          @ clientAddressHeaders W (wq_headers request) @ [(js ''x-request-id'', requestId)]))"

definition post_backend :: "webenv \<Rightarrow> web_request \<Rightarrow> string \<Rightarrow> json \<Rightarrow> ('z web_scheme, web_response) io" where
  "post_backend W request path payload =
     io_bind (route_headers W request) (\<lambda>h.
       backendFetch W (js path) \<lparr>fi_method = js ''POST'', fi_headers = h, fi_body = JsonBody payload\<rparr> None)"

definition invalid_auth_response :: web_response where
  "invalid_auth_response = apiErrorResponse 502 ''invalid_auth_response''
     ''Kimlik sunucusundan ge~cersiz yan~it al~ind~i.'' None"

definition json_no_store :: "json \<Rightarrow> web_response" where
  "json_no_store v = response_json v 200 no_store"

definition guarded_route :: "('z web_scheme, web_response) io \<Rightarrow> ('z web_scheme, web_response) io" where
  "guarded_route m = io_catch m (\<lambda>e. io_ret (requestFailureResponse e))"

section \<open>Login\<close>

record login_input =
  li_business_slug :: "jstr option"
  li_identifier :: jstr
  li_password :: jstr
  li_branch_id :: "jstr option"
  li_remember_me :: bool

definition login_payload :: "login_input \<Rightarrow> jstr option \<Rightarrow> json" where
  "login_payload data existingTrustedDevice = JObj [
     (js ''business'', null_or_str (li_business_slug data)), (js ''username'', JStr (li_identifier data)),
     (js ''password'', JStr (li_password data)), (js ''branch_id'', null_or_str (li_branch_id data)),
     (js ''remember_me'', JBool (li_remember_me data)),
     (js ''enroll_trusted_device'', JBool (li_business_slug data \<noteq> None)),
     (js ''trusted_device_token'', null_or_str (case existingTrustedDevice of
        Some t \<Rightarrow> if t \<noteq> [] \<and> length t \<le> 200 then Some t else None | None \<Rightarrow> None))]"

definition parseTrustedDeviceCredential :: "json option \<Rightarrow> trusted_device option" where
  "parseTrustedDeviceCredential v = (case asRecord (opt_fld (asRecord v) ''trusted_device'') of
       None \<Rightarrow> None
     | Some record \<Rightarrow> (case (fld record ''token'', fld record ''expires_in'') of
           (Some (JStr token), Some (JNum (Fin q))) \<Rightarrow>
             if length token < 32 \<or> q \<le> 0 then None
             else Some \<lparr>td_token = token, td_expiresIn = Fin (of_int \<lfloor>q\<rfloor>)\<rparr>
         | _ \<Rightarrow> None))"

definition device_step :: "webenv \<Rightarrow> login_input \<Rightarrow> json \<Rightarrow> ('z web_scheme, unit) io" where
  "device_step W data body =
     (if li_business_slug data = None then io_ret ()
      else case parseTrustedDeviceCredential (Some body) of
        Some credential \<Rightarrow> setTrustedDeviceCookie W credential
      | None \<Rightarrow> clearTrustedDeviceCookie W)"

definition login_answer :: "webenv \<Rightarrow> login_input \<Rightarrow> web_response \<Rightarrow> ('z web_scheme, web_response) io" where
  "login_answer W data response =
     (if \<not> rs_ok response then io_ret (backendErrorResponse response)
      else case body_json (rs_body response) of
        None \<Rightarrow> io_ret invalid_auth_response
      | Some body \<Rightarrow> (case (parseAuthTokens (Some body), normalizeLoginResult (Some body)) of
            (Some tokens, Some result) \<Rightarrow>
              io_seq (setAuthCookies W tokens)
                (io_seq (device_step W data body) (io_ret (json_no_store (login_json result))))
          | _ \<Rightarrow> io_ret invalid_auth_response))"

definition login_POST :: "webenv \<Rightarrow> login_input zod_schema \<Rightarrow> web_request \<Rightarrow> ('z web_scheme, web_response) io" where
  "login_POST W schema request =
     (case validated W request (32 * 1024) ''Giri~s iste~gi izin verilen boyutu a~s~iyor.'' schema
             ''Giri~s bilgilerini kontrol edin.'' of
        Inl answer \<Rightarrow> io_ret answer
      | Inr data \<Rightarrow> guarded_route
          (io_bind (io_get (\<lambda>w. cookie w TRUSTED_DEVICE_COOKIE)) (\<lambda>device.
           io_bind (post_backend W request ''auth/login'' (login_payload data device)) (login_answer W data))))"

section \<open>PIN login\<close>

definition pin_answer :: "webenv \<Rightarrow> web_response \<Rightarrow> ('z web_scheme, web_response) io" where
  "pin_answer W response =
     (if \<not> rs_ok response
      then let outgoing = backendErrorResponse response in
        io_seq (if error_code outgoing \<in> Some ` set (map js [''trusted_device_invalid'', ''trusted_device_required''])
                then clearTrustedDeviceCookie W else io_ret ())
          (io_ret outgoing)
      else case body_json (rs_body response) of
        None \<Rightarrow> io_ret invalid_auth_response
      | Some body \<Rightarrow> (case (parseAuthTokens (Some body), normalizeLoginResult (Some body)) of
            (Some tokens, Some result) \<Rightarrow>
              io_seq (setAuthCookies W tokens) (io_ret (json_no_store (login_json result)))
          | _ \<Rightarrow> io_ret invalid_auth_response))"

definition pin_POST :: "webenv \<Rightarrow> jobj zod_schema \<Rightarrow> web_request \<Rightarrow> ('z web_scheme, web_response) io" where
  "pin_POST W schema request =
     (case validated W request (16 * 1024) ''PIN iste~gi izin verilen boyutu a~s~iyor.'' schema
             ''PIN giri~s bilgilerini kontrol edin.'' of
        Inl answer \<Rightarrow> io_ret answer
      | Inr data \<Rightarrow> guarded_route
          (io_bind (io_get (\<lambda>w. cookie w TRUSTED_DEVICE_COOKIE)) (\<lambda>deviceToken.
           io_bind (post_backend W request ''auth/pin-login''
               (JObj (AList.update (js ''device_token'') (null_or_str deviceToken) data))) (pin_answer W))))"

section \<open>Switching the branch\<close>

definition refresh_token_missing :: web_response where
  "refresh_token_missing = apiErrorResponse 401 ''refresh_token_missing''
     ''Oturum yenileme bilgisi bulunamad~i.'' None"

definition switch_answer :: "webenv \<Rightarrow> web_response \<Rightarrow> ('z web_scheme, web_response) io" where
  "switch_answer W response =
     (if \<not> rs_ok response
      then io_seq (clear_if W (rs_status response = 401)) (io_ret (backendErrorResponse response))
      else case body_json (rs_body response) of
        None \<Rightarrow> io_ret invalid_auth_response
      | Some body \<Rightarrow> (case (parseAuthTokens (Some body), normalizeAuthContext (opt_fld (asRecord (Some body)) ''user'')) of
            (Some tokens, Some context) \<Rightarrow>
              io_seq (setAuthCookies W tokens) (io_ret (json_no_store (info_json context)))
          | _ \<Rightarrow> io_ret invalid_auth_response))"

definition switch_POST :: "webenv \<Rightarrow> jstr zod_schema \<Rightarrow> web_request \<Rightarrow> ('z web_scheme, web_response) io" where
  "switch_POST W schema request =
     (case validated W request (4 * 1024) ''~Sube de~gi~stirme iste~gi izin verilen boyutu a~s~iyor.'' schema
             ''Ge~cerli bir ~sube se~cin.'' of
        Inl answer \<Rightarrow> io_ret answer
      | Inr branchId \<Rightarrow> io_bind (io_get readAuthCookies) (\<lambda>(accessToken, refreshToken).
          if \<not> truthy refreshToken
          then io_seq (clearAuthCookies W) (io_ret refresh_token_missing)
          else guarded_route
            (io_bind (post_backend W request ''auth/switch-branch''
               (JObj [(js ''refresh_token'', JStr (the refreshToken)), (js ''branch_id'', JStr branchId)]))
             (switch_answer W))))"

section \<open>Logging out\<close>

definition no_content :: web_response where
  "no_content = \<lparr>rs_status = 204, rs_headers = no_store, rs_body = NoBody\<rparr>"

definition logout_init :: "webenv \<Rightarrow> web_request \<Rightarrow> jstr option \<Rightarrow> jstr option \<Rightarrow> fetch_init" where
  "logout_init W request accessToken refreshToken = \<lparr>fi_method = js ''POST'',
     fi_headers = [(js ''accept'', js ''application/json''), (js ''content-type'', js ''application/json'')]
       @ clientAddressHeaders W (wq_headers request)
       @ (if truthy accessToken then [(js ''authorization'', js ''Bearer '' @ the accessToken)] else []),
     fi_body = JsonBody (JObj [(js ''refresh_token'', null_or_str refreshToken)])\<rparr>"

definition logout_POST :: "webenv \<Rightarrow> web_request \<Rightarrow> ('z web_scheme, web_response) io" where
  "logout_POST W request =
     (case mutationOriginError W request of
        Some originError \<Rightarrow>
          if hget (wq_headers request) ''sec-fetch-site'' = Some (js ''cross-site'') then io_ret originError
          else io_seq (clearAuthCookies W) (io_ret no_content)
      | None \<Rightarrow> io_bind (io_get readAuthCookies) (\<lambda>(accessToken, refreshToken).
          io_seq
            (io_finally
              (io_catch
                (if truthy accessToken \<or> truthy refreshToken
                 then io_bind (backendFetch W (js ''auth/logout'') (logout_init W request accessToken refreshToken) None)
                        (\<lambda>response. io_ret ())
                 else io_ret ())
                (\<lambda>e. io_ret ()))
              (clearAuthCookies W))
            (io_ret no_content)))"

section \<open>Refreshing\<close>

definition refresh_failed_answer :: "int \<Rightarrow> json option \<Rightarrow> jstr option \<Rightarrow> jstr option \<Rightarrow> web_response" where
  "refresh_failed_answer status body requestId retryAfter = backendErrorResponse
     \<lparr>rs_status = status,
      rs_headers = [(js ''content-type'', js ''application/json'')]
        @ (if truthy requestId then [(js ''x-request-id'', the requestId)] else [])
        @ (if truthy retryAfter then [(js ''retry-after'', the retryAfter)] else []),
      rs_body = JsonBody (case body of None \<Rightarrow> JObj [] | Some JNull \<Rightarrow> JObj [] | Some v \<Rightarrow> v)\<rparr>"

fun refresh_answer :: "webenv \<Rightarrow> refresh_outcome \<Rightarrow> ('z web_scheme, web_response) io" where
  "refresh_answer W (RefreshFailed status body requestId retryAfter) =
     io_seq (clear_if W (status = 401 \<or> status = 403))
       (io_ret (refresh_failed_answer status body requestId retryAfter))"
| "refresh_answer W (Refreshed tokens) =
     io_seq (setAuthCookies W tokens)
       (io_ret (json_no_store (JObj [(js ''refreshed'', JBool True), (js ''expiresIn'', JNum (at_expiresIn tokens))])))"

definition refresh_POST :: "webenv \<Rightarrow> web_request \<Rightarrow> ('z sweb_scheme, web_response) io" where
  "refresh_POST W request =
     (case mutationOriginError W request of
        Some originError \<Rightarrow> io_ret originError
      | None \<Rightarrow> io_bind (io_get readAuthCookies) (\<lambda>(accessToken, refreshToken).
          if \<not> truthy refreshToken
          then io_seq (clearAuthCookies W) (io_ret refresh_token_missing)
          else guarded_route (io_bind (refreshSession W (the refreshToken)) (refresh_answer W))))"

section \<open>Reading the session, and the panel\<close>

definition session_read :: "(json option \<Rightarrow> json option) \<Rightarrow> web_response \<Rightarrow> web_response \<Rightarrow> web_response" where
  "session_read reader refused response =
     (if \<not> rs_ok response then backendErrorResponse response
      else case body_json (rs_body response) of
        None \<Rightarrow> invalid_auth_response
      | Some body \<Rightarrow> (case reader (Some body) of None \<Rightarrow> refused | Some v \<Rightarrow> json_no_store v))"

definition get_init :: fetch_init where
  "get_init = \<lparr>fi_method = js ''GET'', fi_headers = [(js ''accept'', js ''application/json'')], fi_body = NoBody\<rparr>"

definition me_GET :: "webenv \<Rightarrow> ('z sweb_scheme, web_response) io" where
  "me_GET W = guarded_route (io_bind (authenticatedBackendFetch W (js ''auth/me'') get_init None)
     (\<lambda>response. io_ret (session_read (\<lambda>v. map_option info_json (normalizeAuthContext v)) invalid_auth_response response)))"

definition branches_GET :: "webenv \<Rightarrow> ('z sweb_scheme, web_response) io" where
  "branches_GET W = guarded_route (io_bind (authenticatedBackendFetch W (js ''auth/branches'') get_init None)
     (\<lambda>response. io_ret (session_read (\<lambda>v. map_option branches_json (normalizeAccessibleBranches v))
        (apiErrorResponse 502 ''invalid_auth_response'' ''~Sube bilgileri ge~cerli bi~cimde al~inamad~i.'' None) response)))"

text \<open>\<open>response.json()\<close> of the panel login is outside any inner \<open>try\<close>: a body that is no JSON ends as a failed
  request.\<close>

definition panel_answer :: "webenv \<Rightarrow> web_response \<Rightarrow> ('z web_scheme, web_response) io" where
  "panel_answer W response =
     (if \<not> rs_ok response then io_ret (backendErrorResponse response)
      else case body_json (rs_body response) of
        None \<Rightarrow> io_raise (Err (js ''Unexpected token''))
      | Some payload \<Rightarrow> (case (parseAuthTokens (Some payload), normalizeLoginResult (Some payload)) of
            (Some tokens, Some result) \<Rightarrow>
              io_seq (setAuthCookies W tokens) (io_ret (json_no_store (login_json result)))
          | _ \<Rightarrow> io_ret (apiErrorResponse 502 ''invalid_auth_response'' ''Giri~s yan~it~i do~grulanamad~i.'' None)))"

definition panel_POST :: "webenv \<Rightarrow> jobj zod_schema \<Rightarrow> web_request \<Rightarrow> ('z sweb_scheme, web_response) io" where
  "panel_POST W schema request =
     (case mutationOriginError W request of
        Some originError \<Rightarrow> io_ret originError
      | None \<Rightarrow>
          if 4096 < wq_bytes request
          then io_ret (apiErrorResponse 413 ''payload_too_large'' ''~Istek ~cok b~uy~uk.'' None)
          else (case body_json (wq_body request) of
              None \<Rightarrow> io_ret (apiErrorResponse 400 ''invalid_json'' ''Ge~cerli bir istek g~onderin.'' None)
            | Some input \<Rightarrow> (case schema input of
                Inl details \<Rightarrow> io_ret (apiErrorResponse 422 ''validation_error''
                  ''Kullan~ic~i ad~i ve 4~-12 haneli PIN girin.'' None)
              | Inr data \<Rightarrow> guarded_route
                  (io_bind (authenticatedBackendFetch W (js ''auth/panel-login'')
                     \<lparr>fi_method = js ''POST'',
                      fi_headers = (js ''content-type'', js ''application/json'')
                        # clientAddressHeaders W (wq_headers request),
                      fi_body = JsonBody (JObj data)\<rparr> None)
                   (panel_answer W)))))"


section \<open>Logging out always works\<close>

lemma origin_error_status: "mutationOriginError W rq = Some e \<Longrightarrow> rs_status e = 403"
  by (auto simp: mutationOriginError_def Let_def split: option.splits if_splits)

lemma backendFetch_answer:
  assumes "backendFetch W path init search w = (Ok resp, w')"
  shows "wb_answers w (length (wb_calls w)) = Answer resp"
  using assms
  by (auto simp: backendFetch_def io_catch_def io_bind_def io_lift_def io_raise_def web_fetch_def Let_def
      split: if_splits sum.splits reply.splits)

text \<open>Logging out cannot be refused by anything but the cross-site check. Unless the browser itself marks the
  request as cross-site, the answer is 204 and both session cookies are expired, whatever the API answers or
  whether it answers at all; it is told at most once, with the tokens of the session and nothing else. A
  cross-site request changes nothing.\<close>

theorem logout_always_clears:
  assumes "logout_POST W rq w = (r, w')"
  shows "if mutationOriginError W rq \<noteq> None \<and> hget (wq_headers rq) ''sec-fetch-site'' = Some (js ''cross-site'')
    then w' = w \<and> (\<exists>e. r = Ok e \<and> rs_status e = 403)
    else r = Ok no_content \<and> wb_set w' = wb_set w @ cleared_cookies W
      \<and> (\<exists>calls. wb_calls w' = wb_calls w @ calls \<and> length calls \<le> 1
          \<and> (\<forall>c\<in>set calls. mutationOriginError W rq = None
               \<and> bc_init c = logout_init W rq (cookie w ACCESS_TOKEN_COOKIE) (cookie w REFRESH_TOKEN_COOKIE)))"
proof (cases "mutationOriginError W rq")
  case (Some e)
  then show ?thesis
    using assms origin_error_status [OF Some]
    by (auto simp: logout_POST_def io_seq_def io_bind_def split: if_splits)
next
  case None
  let ?i = "logout_init W rq (cookie w ACCESS_TOKEN_COOKIE) (cookie w REFRESH_TOKEN_COOKIE)"
  obtain r1 w1 where f: "backendFetch W (js ''auth/logout'') ?i None w = (r1, w1)" by fastforce
  obtain cs where cs: "w1 = w\<lparr>wb_calls := wb_calls w @ cs\<rparr>" "length cs \<le> 1" "\<forall>c\<in>set cs. bc_init c = ?i" "r1 \<noteq> Stop"
    using backendFetch_run [OF f] by blast
  show ?thesis
    using assms None f cs
    by (cases r1; cases "truthy (cookie w ACCESS_TOKEN_COOKIE) \<or> truthy (cookie w REFRESH_TOKEN_COOKIE)")
      (auto simp: logout_POST_def io_defs readAuthCookies_def)
qed

section \<open>Logging in\<close>

lemma post_backend_run:
  assumes "post_backend W rq path payload w = (r, w')"
  shows "\<exists>t cs. w' = w\<lparr>wb_ticks := t, wb_calls := wb_calls w @ cs\<rparr> \<and> length cs \<le> 1
    \<and> (\<forall>c\<in>set cs. fi_body (bc_init c) = JsonBody payload \<and> fi_method (bc_init c) = js ''POST'')
    \<and> (\<forall>resp. r = Ok resp \<longrightarrow> wb_answers w (length (wb_calls w)) = Answer resp) \<and> r \<noteq> Stop"
proof -
  obtain h t where h: "route_headers W rq w = (Ok h, w\<lparr>wb_ticks := t\<rparr>)"
    by (cases "hget (wq_headers rq) ''x-request-id''")
      (auto simp: route_headers_def io_bind_def intro: that [of _ "wb_ticks w"])
  let ?i = "\<lparr>fi_method = js ''POST'', fi_headers = h, fi_body = JsonBody payload\<rparr>"
  have f: "backendFetch W (js path) ?i None (w\<lparr>wb_ticks := t\<rparr>) = (r, w')"
    using assms h by (simp add: post_backend_def io_bind_def split: res.splits prod.splits)
  obtain cs where "w' = w\<lparr>wb_ticks := t\<rparr>\<lparr>wb_calls := wb_calls w @ cs\<rparr>" "length cs \<le> 1" "\<forall>c\<in>set cs. bc_init c = ?i" "r \<noteq> Stop"
    using backendFetch_run [OF f] by auto
  with backendFetch_answer [of W "js path" ?i None "w\<lparr>wb_ticks := t\<rparr>"] f show ?thesis
    by (intro exI [of _ t] exI [of _ cs]) auto
qed

definition device_cookies :: "webenv \<Rightarrow> login_input \<Rightarrow> json \<Rightarrow> set_cookie list" where
  "device_cookies W data body = wb_set (snd (device_step W data body
     \<lparr>wb_answers = (\<lambda>_. Broken), wb_calls = [], wb_cookies = [], wb_set = [], wb_ticks = 0\<rparr>))"

lemma device_step_run: "device_step W data body w = (Ok (), w\<lparr>wb_set := wb_set w @ device_cookies W data body\<rparr>)"
  by (auto simp: device_step_def device_cookies_def setTrustedDeviceCookie_def clearTrustedDeviceCookie_def io_seq_def
      io_bind_def split: option.splits)

lemma device_cookies_names: "c \<in> set (device_cookies W data body) \<Longrightarrow> sc_name c = TRUSTED_DEVICE_COOKIE"
  by (auto simp: device_cookies_def device_step_def setTrustedDeviceCookie_def clearTrustedDeviceCookie_def io_seq_def
      io_bind_def expired_cookie_def split: option.splits if_splits)

text \<open>What a session is issued for: an answer of the API with tokens and a user.\<close>

definition session_granted :: "web_response \<Rightarrow> json \<Rightarrow> auth_tokens \<Rightarrow> login_result \<Rightarrow> bool" where
  "session_granted resp body tokens result \<longleftrightarrow> rs_ok resp \<and> body_json (rs_body resp) = Some body
     \<and> parseAuthTokens (Some body) = Some tokens \<and> normalizeLoginResult (Some body) = Some result"

lemma login_answer_run:
  "login_answer W data resp w = (Ok answer, w') \<Longrightarrow>
     w' = w \<or> (\<exists>body tokens result. session_granted resp body tokens result \<and> answer = json_no_store (login_json result)
       \<and> w' = w\<lparr>wb_set := wb_set w @ session_cookies W tokens @ device_cookies W data body\<rparr>)"
  by (auto simp: login_answer_def session_granted_def io_seq_def io_bind_def device_step_run
      split: option.splits if_splits)

lemma login_answer_ok: "\<exists>answer w'. login_answer W data resp w = (Ok answer, w')"
  by (auto simp: login_answer_def io_seq_def io_bind_def device_step_run split: option.splits)

lemma validated_data:
  "validated W rq limit m schema msg = Inr data \<Longrightarrow> mutationOriginError W rq = None \<and> wq_bytes rq \<le> limit
     \<and> (\<exists>input. wq_body rq = JsonBody input \<and> schema input = Inr data)"
  by (cases "wq_body rq")
    (auto simp: validated_def read_input_def parsed_input_def split: option.splits sum.splits if_splits)


section \<open>Examples\<close>

lemma logout_always_clears_witness:
  "\<exists>w'. logout_POST (demo_webenv []) (demo_request ''POST'' []) (demo_web (\<lambda>_. Broken) []) = (Ok no_content, w')
     \<and> wb_set w' = cleared_cookies (demo_webenv [])"
proof -
  obtain r w' where run: "logout_POST (demo_webenv []) (demo_request ''POST'' []) (demo_web (\<lambda>_. Broken) []) = (r, w')"
    by fastforce
  have "mutationOriginError (demo_webenv []) (demo_request ''POST'' []) = None"
    by (simp add: mutationOriginError_def demo_request_def)
  with logout_always_clears [OF run] run show ?thesis by (simp add: demo_web_def)
qed

text \<open>A login that the API grants, with a schema that accepts everything.\<close>

definition demo_login :: login_input where
  "demo_login = \<lparr>li_business_slug = None, li_identifier = js ''ayse'', li_password = js ''secret'', li_branch_id = None,
     li_remember_me = True\<rparr>"

definition demo_grant :: json where
  "demo_grant = JObj [(js ''access_token'', JStr (js ''a'')), (js ''refresh_token'', JStr (js ''r'')),
     (js ''expires_in'', JNum (Fin 900)), (js ''refresh_expires_in'', JNum (Fin 86400)), (js ''user'', demo_user_answer)]"

definition demo_login_request :: web_request where
  "demo_login_request = (demo_request ''POST'' [])\<lparr>wq_body := JsonBody (JObj []), wq_bytes := 2\<rparr>"


end
