(* ===== verification/Registration.thy ===== *)
theory Registration
  imports Auth_Routes
begin

text \<open>
  Signing up a business: \<open>apps/web/src/app/api/register/route.ts\<close> starts a registration and
  \<open>register/confirm/route.ts\<close> confirms it with the code from the mail. The schemas are written out; what
  belongs to the library zod stays an argument: its patterns for mail addresses and UUIDs and the flattened
  description of a failed parse.
\<close>

section \<open>Schemas\<close>

record zod_library =
  z_email :: "jstr \<Rightarrow> bool"
  z_uuid :: "jstr \<Rightarrow> bool"
  z_flatten :: "json \<Rightarrow> json"

text \<open>\<open>z.string().trim().min(l).max(h)\<close> and the other field types; \<open>None\<close> is a failed parse.\<close>

definition z_text :: "nat \<Rightarrow> nat \<Rightarrow> json option \<Rightarrow> jstr option" where
  "z_text low high v = (case v of
       Some (JStr s) \<Rightarrow> (let t = js_trim s in if low \<le> length t \<and> length t \<le> high then Some t else None)
     | _ \<Rightarrow> None)"

definition z_plain :: "nat \<Rightarrow> nat \<Rightarrow> json option \<Rightarrow> jstr option" where
  "z_plain low high v = (case v of
       Some (JStr s) \<Rightarrow> if low \<le> length s \<and> length s \<le> high then Some s else None
     | _ \<Rightarrow> None)"

definition z_default :: "jstr \<Rightarrow> (json option \<Rightarrow> jstr option) \<Rightarrow> json option \<Rightarrow> jstr option" where
  "z_default d parse v = (case v of None \<Rightarrow> Some d | Some x \<Rightarrow> parse (Some x))"

definition z_accept :: "(jstr \<Rightarrow> bool) \<Rightarrow> jstr option \<Rightarrow> jstr option" where
  "z_accept ok v = (case v of None \<Rightarrow> None | Some s \<Rightarrow> if ok s then Some s else None)"

definition z_flag :: "json option \<Rightarrow> bool option" where
  "z_flag v = (case v of None \<Rightarrow> Some False | Some (JBool b) \<Rightarrow> Some b | _ \<Rightarrow> None)"

definition phone_ok :: "jstr \<Rightarrow> bool" where
  "phone_ok s \<longleftrightarrow> 7 \<le> length s \<and> length s \<le> 32
     \<and> list_all (\<lambda>c. is_digit c \<or> c \<in> {43, 40, 41, 46, 45} \<or> is_space c) s"

definition BUSINESS_TYPES :: "string list" where
  "BUSINESS_TYPES = [''RESTAURANT'', ''CAFE'', ''BAR'', ''HOTEL'']"

record registration =
  rg_business_name :: jstr
  rg_business_type :: jstr
  rg_owner_name :: jstr
  rg_email :: jstr
  rg_phone :: jstr
  rg_password :: jstr
  rg_contract_version :: jstr
  rg_privacy_notice_version :: jstr
  rg_marketing_consent :: bool

definition registration_data :: "zod_library \<Rightarrow> json \<Rightarrow> registration option" where
  "registration_data Z input = (case input of
       JObj r \<Rightarrow>
         (case (z_text 2 140 (fld r ''business_name''),
                z_accept (\<lambda>s. s \<in> set (map js BUSINESS_TYPES)) (plain_string (fld r ''business_type'')),
                z_text 2 160 (fld r ''owner_name''), z_accept (z_email Z) (z_text 0 255 (fld r ''email''))) of
            (Some name, Some type, Some owner, Some email) \<Rightarrow>
              (case (z_accept phone_ok (map_option js_trim (plain_string (fld r ''phone''))),
                     z_plain 10 256 (fld r ''password''),
                     z_default (js ''unknown'') (z_text 1 40) (fld r ''contract_version''),
                     z_default (js ''unknown'') (z_text 1 40) (fld r ''privacy_notice_version''),
                     z_flag (fld r ''marketing_consent'')) of
                 (Some phone, Some password, Some contract, Some privacy, Some marketing) \<Rightarrow>
                   if fld r ''terms_accepted'' = Some (JBool True)
                      \<and> fld r ''privacy_notice_acknowledged'' = Some (JBool True)
                   then Some \<lparr>rg_business_name = name, rg_business_type = type, rg_owner_name = owner,
                     rg_email = email, rg_phone = phone, rg_password = password,
                     rg_contract_version = contract, rg_privacy_notice_version = privacy,
                     rg_marketing_consent = marketing\<rparr>
                   else None
               | _ \<Rightarrow> None)
          | _ \<Rightarrow> None)
     | _ \<Rightarrow> None)"

definition registration_json :: "registration \<Rightarrow> json" where
  "registration_json d = JObj [
     (js ''business_name'', JStr (rg_business_name d)), (js ''business_type'', JStr (rg_business_type d)),
     (js ''owner_name'', JStr (rg_owner_name d)), (js ''email'', JStr (rg_email d)),
     (js ''phone'', JStr (rg_phone d)), (js ''password'', JStr (rg_password d)),
     (js ''terms_accepted'', JBool True), (js ''contract_version'', JStr (rg_contract_version d)),
     (js ''privacy_notice_acknowledged'', JBool True),
     (js ''privacy_notice_version'', JStr (rg_privacy_notice_version d)),
     (js ''marketing_consent'', JBool (rg_marketing_consent d))]"

definition registrationSchema :: "zod_library \<Rightarrow> registration zod_schema" where
  "registrationSchema Z input = (case registration_data Z input of
       None \<Rightarrow> Inl (z_flatten Z input) | Some d \<Rightarrow> Inr d)"

definition confirmationSchema :: "zod_library \<Rightarrow> (jstr \<times> jstr) zod_schema" where
  "confirmationSchema Z input = (case input of
       JObj r \<Rightarrow> (case (z_accept (z_uuid Z) (plain_string (fld r ''verification_id'')), z_text 4 12 (fld r ''code'')) of
           (Some verification, Some code) \<Rightarrow> Inr (verification, code) | _ \<Rightarrow> Inl (z_flatten Z input))
     | _ \<Rightarrow> Inl (z_flatten Z input))"

section \<open>Routes\<close>

text \<open>The JSON values that are falsy.\<close>

definition json_falsy :: "json \<Rightarrow> bool" where
  "json_falsy v \<longleftrightarrow> v \<in> {JNull, JBool False, JNum (Fin 0), JStr []}"

definition registration_answer :: "web_response \<Rightarrow> web_response" where
  "registration_answer response =
     (if \<not> rs_ok response then backendErrorResponse response
      else case body_json (rs_body response) of
        None \<Rightarrow> apiErrorResponse 502 ''invalid_registration_response''
                 ''Kay~it sunucusundan ge~cersiz yan~it al~ind~i.'' None
      | Some body \<Rightarrow>
          if json_falsy body
          then apiErrorResponse 502 ''invalid_registration_response''
                 ''Kay~it sunucusundan ge~cersiz yan~it al~ind~i.'' None
          else response_json body 201 no_store)"

definition register_route :: "webenv \<Rightarrow> 'a zod_schema \<Rightarrow> string \<Rightarrow> string \<Rightarrow> ('a \<Rightarrow> json) \<Rightarrow> web_request
    \<Rightarrow> ('z web_scheme, web_response) io" where
  "register_route W schema message path encode rq =
     (case validated W rq (32 * 1024) ''Kay~it iste~gi izin verilen boyutu a~s~iyor.'' schema message of
        Inl answer \<Rightarrow> io_ret answer
      | Inr data \<Rightarrow> guarded_route (io_bind (post_backend W rq path (encode data))
          (\<lambda>response. io_ret (registration_answer response))))"

definition register_POST :: "webenv \<Rightarrow> zod_library \<Rightarrow> web_request \<Rightarrow> ('z web_scheme, web_response) io" where
  "register_POST W Z = register_route W (registrationSchema Z) ''Kay~it bilgilerini kontrol edin.''
     ''registrations/start'' registration_json"

definition confirm_POST :: "webenv \<Rightarrow> zod_library \<Rightarrow> web_request \<Rightarrow> ('z web_scheme, web_response) io" where
  "confirm_POST W Z = register_route W (confirmationSchema Z) ''Do~grulama kodunu kontrol edin.''
     ''registrations/confirm''
     (\<lambda>(verification, code). JObj [(js ''verification_id'', JStr verification), (js ''code'', JStr code)])"

section \<open>What a registration is\<close>

lemma z_text_iff: "z_text l h v = Some t \<longleftrightarrow> (\<exists>s. v = Some (JStr s) \<and> t = js_trim s \<and> l \<le> length t \<and> length t \<le> h)"
  by (auto simp: z_text_def Let_def split: option.splits json.splits)

lemma z_plain_iff: "z_plain l h v = Some t \<longleftrightarrow> v = Some (JStr t) \<and> l \<le> length t \<and> length t \<le> h"
  by (auto simp: z_plain_def split: option.splits json.splits)

lemma z_accept_iff: "z_accept ok v = Some t \<longleftrightarrow> v = Some t \<and> ok t"
  by (auto simp: z_accept_def split: option.splits)

text \<open>What the API may rely on in a registration.\<close>

definition registration_ok :: "zod_library \<Rightarrow> registration \<Rightarrow> bool" where
  "registration_ok Z d \<longleftrightarrow>
     length (rg_business_name d) \<in> {2..140} \<and> length (rg_owner_name d) \<in> {2..160}
     \<and> rg_business_type d \<in> set (map js BUSINESS_TYPES) \<and> z_email Z (rg_email d) \<and> length (rg_email d) \<le> 255
     \<and> phone_ok (rg_phone d) \<and> length (rg_password d) \<in> {10..256}
     \<and> length (rg_contract_version d) \<in> {1..40} \<and> length (rg_privacy_notice_version d) \<in> {1..40}"

text \<open>The two consents were given as the value true, and nothing else of the request is passed on.\<close>

definition consented :: "json \<Rightarrow> bool" where
  "consented input \<longleftrightarrow> (\<exists>r. input = JObj r \<and> fld r ''terms_accepted'' = Some (JBool True)
     \<and> fld r ''privacy_notice_acknowledged'' = Some (JBool True))"

lemma z_default_length:
  "z_default (js ''unknown'') (z_text 1 40) v = Some t \<Longrightarrow> length t \<in> {1..40}"
  by (auto simp: z_default_def z_text_iff split: option.splits)

lemma registration_data_ok:
  assumes "registration_data Z input = Some d"
  shows "registration_ok Z d" and "consented input"
proof -
  from assms obtain r where input: "input = JObj r" by (auto simp: registration_data_def split: json.splits)
  with assms have d: "z_text 2 140 (fld r ''business_name'') = Some (rg_business_name d)"
    "z_accept (\<lambda>s. s \<in> set (map js BUSINESS_TYPES)) (plain_string (fld r ''business_type'')) = Some (rg_business_type d)"
    "z_text 2 160 (fld r ''owner_name'') = Some (rg_owner_name d)"
    "z_accept (z_email Z) (z_text 0 255 (fld r ''email'')) = Some (rg_email d)"
    "z_accept phone_ok (map_option js_trim (plain_string (fld r ''phone''))) = Some (rg_phone d)"
    "z_plain 10 256 (fld r ''password'') = Some (rg_password d)"
    "z_default (js ''unknown'') (z_text 1 40) (fld r ''contract_version'') = Some (rg_contract_version d)"
    "z_default (js ''unknown'') (z_text 1 40) (fld r ''privacy_notice_version'') = Some (rg_privacy_notice_version d)"
    and c: "consented input"
    by (auto simp: registration_data_def consented_def split: option.splits if_splits)
  then show "registration_ok Z d"
    using z_default_length [OF d(7)] z_default_length [OF d(8)]
    by (auto simp: registration_ok_def z_text_iff z_plain_iff z_accept_iff)
  show "consented input" by (fact c)
qed

lemma validated_refusal: "validated W rq limit m schema msg = Inl answer \<Longrightarrow> rs_status answer \<in> {400, 403, 413, 422}"
  using origin_error_status [of W rq]
  by (auto simp: validated_def read_input_def parsed_input_def split: option.splits sum.splits if_splits)

lemma registration_answer_created:
  "rs_status (registration_answer resp) = 201 \<Longrightarrow> rs_ok resp"
  by (auto simp: registration_answer_def backendErrorResponse_def response_json_def Let_def rs_ok_def split: if_splits)

lemma post_backend_sent:
  assumes "post_backend W rq path payload w = (Ok resp, w')"
  shows "wb_calls w' \<noteq> wb_calls w"
proof -
  obtain h t where h: "route_headers W rq w = (Ok h, w\<lparr>wb_ticks := t\<rparr>)"
    by (cases "hget (wq_headers rq) ''x-request-id''")
      (auto simp: route_headers_def io_bind_def intro: that [of _ "wb_ticks w"])
  with assms show ?thesis
    by (auto simp: post_backend_def backendFetch_def io_catch_def io_bind_def io_lift_def io_raise_def web_fetch_def
        Let_def split: if_splits sum.splits reply.splits)
qed

lemma register_route_run:
  assumes "register_route W schema message path encode rq w = (r, w')"
  shows "\<exists>answer calls. r = Ok answer \<and> wb_calls w' = wb_calls w @ calls \<and> wb_set w' = wb_set w \<and> length calls \<le> 1
    \<and> (calls = [] \<or> (\<exists>input data. mutationOriginError W rq = None \<and> wq_bytes rq \<le> 32 * 1024
          \<and> wq_body rq = JsonBody input \<and> schema input = Inr data
          \<and> (\<forall>c\<in>set calls. fi_body (bc_init c) = JsonBody (encode data))))
    \<and> (rs_status answer = 201 \<longrightarrow> calls \<noteq> [] \<and> (\<exists>resp. rs_ok resp \<and> wb_answers w (length (wb_calls w)) = Answer resp
          \<and> answer = registration_answer resp))"
proof (cases "validated W rq (32 * 1024) ''Kay~it iste~gi izin verilen boyutu a~s~iyor.'' schema message")
  case (Inl answer)
  then show ?thesis using assms validated_refusal [OF Inl] by (auto simp: register_route_def)
next
  case (Inr data)
  obtain r1 w1 where f: "post_backend W rq path (encode data) w = (r1, w1)" by fastforce
  obtain t cs where cs: "w1 = w\<lparr>wb_ticks := t, wb_calls := wb_calls w @ cs\<rparr>" "length cs \<le> 1"
    "\<forall>c\<in>set cs. fi_body (bc_init c) = JsonBody (encode data)"
    "\<forall>resp. r1 = Ok resp \<longrightarrow> wb_answers w (length (wb_calls w)) = Answer resp" "r1 \<noteq> Stop"
    using post_backend_run [OF f] by blast
  note data = validated_data [OF Inr]
  show ?thesis
  proof (cases r1)
    case (Ok resp)
    then have "r = Ok (registration_answer resp)" "w' = w1"
      using assms Inr f by (auto simp: register_route_def guarded_route_def io_catch_def io_bind_def)
    moreover have "wb_answers w (length (wb_calls w)) = Answer resp" "cs \<noteq> []"
      using cs(1,4) Ok post_backend_sent f by fastforce+
    ultimately show ?thesis
      using cs data registration_answer_created [of resp]
      by (intro exI [of _ "registration_answer resp"] exI [of _ cs]) auto
  next
    case (Exn e)
    then have r: "r = Ok (requestFailureResponse e)" "w' = w1"
      using assms Inr f by (auto simp: register_route_def guarded_route_def io_catch_def io_bind_def io_ret_def)
    have "rs_status (requestFailureResponse e) \<noteq> 201" by (simp add: requestFailureResponse_def split: exn.splits)
    with r cs data show ?thesis by (auto intro!: exI [of _ cs])
  qed (use cs in simp)
qed

text \<open>C25: Registrations carry consent. A registration sends at most one call, only for a request of our own
  origin within the size limit, and the call then carries a registration whose fields are trimmed and
  within their bounds, with both consents, which the visitor gave as the value true, and no other member of
  the input. It sets no cookie and nothing the API does makes the handler throw; 201 is answered only when
  the API accepted that call.\<close>

theorem registration_carries_consent:
  assumes "register_POST W Z rq w = (r, w')"
  shows "\<exists>answer calls. r = Ok answer \<and> wb_calls w' = wb_calls w @ calls \<and> wb_set w' = wb_set w \<and> length calls \<le> 1
    \<and> (calls \<noteq> [] \<longrightarrow> (\<exists>input d. mutationOriginError W rq = None \<and> wq_bytes rq \<le> 32 * 1024
          \<and> wq_body rq = JsonBody input \<and> consented input \<and> registration_ok Z d
          \<and> (\<forall>c\<in>set calls. fi_body (bc_init c) = JsonBody (registration_json d))))
    \<and> (rs_status answer = 201 \<longrightarrow> calls \<noteq> [] \<and> (\<exists>resp. rs_ok resp
          \<and> wb_answers w (length (wb_calls w)) = Answer resp))"
proof -
  have schema: "registrationSchema Z input = Inr d \<Longrightarrow> registration_ok Z d \<and> consented input" for input d
    using registration_data_ok [of Z input d] by (auto simp: registrationSchema_def split: option.splits)
  from register_route_run [OF assms [unfolded register_POST_def]] show ?thesis
    using schema by (metis (no_types, lifting))
qed

section \<open>Example\<close>

definition demo_zod :: zod_library where
  "demo_zod = \<lparr>z_email = (\<lambda>s. 64 \<in> set s), z_uuid = (\<lambda>s. length s = 36), z_flatten = (\<lambda>v. JNull)\<rparr>"

definition demo_registration :: json where
  "demo_registration = JObj [
     (js ''business_name'', JStr (js ''Kafe'')), (js ''business_type'', JStr (js ''CAFE'')),
     (js ''owner_name'', JStr (js ''Ayse'')), (js ''email'', JStr (js ''a@b.tr'')),
     (js ''phone'', JStr (js ''+90 555 1234567'')), (js ''password'', JStr (js ''longenough1'')),
     (js ''terms_accepted'', JBool True), (js ''privacy_notice_acknowledged'', JBool True)]"

lemma registration_carries_consent_witness:
  "\<exists>answer w' c d. register_POST demo_backend demo_zod
      ((demo_request ''POST'' [])\<lparr>wq_body := JsonBody demo_registration, wq_bytes := 200\<rparr>)
      (demo_web (\<lambda>_. Answer \<lparr>rs_status = 201, rs_headers = [], rs_body = JsonBody (JObj [])\<rparr>) []) = (Ok answer, w')
    \<and> rs_status answer = 201 \<and> wb_calls w' = [c] \<and> registration_ok demo_zod d
    \<and> fi_body (bc_init c) = JsonBody (registration_json d)"
proof -
  let ?rq = "(demo_request ''POST'' [])\<lparr>wq_body := JsonBody demo_registration, wq_bytes := 200\<rparr>"
  let ?w = "demo_web (\<lambda>_. Answer \<lparr>rs_status = 201, rs_headers = [], rs_body = JsonBody (JObj [])\<rparr>) []"
  obtain r w' where run: "register_POST demo_backend demo_zod ?rq ?w = (r, w')" by fastforce
  obtain u where u: "buildBackendUrl demo_backend (js ''registrations/start'') None = Inr u"
    by (simp add: buildBackendUrl_def demo_backend_url Let_def js_def isUnsafeSegment_def encodeURIComponent_def)
  have zero: "parse_int (js ''0'') = Some 0"
    by (simp add: parse_int_def js_def is_space_def is_digit_def digits_value_def)
  have none: "hget (wq_headers (demo_request ''POST'' [])) k = None" for k by (simp add: demo_request_def)
  have "\<exists>d. registrationSchema demo_zod demo_registration = Inr d"
    by (simp add: registrationSchema_def registration_data_def demo_registration_def demo_zod_def z_text_def z_plain_def
        z_accept_def z_default_def z_flag_def plain_string_def BUSINESS_TYPES_def phone_ok_def js_trim_def js_def
        is_space_def is_digit_def fld_def)
  then obtain d where d: "registrationSchema demo_zod demo_registration = Inr d" by blast
  have input: "validated demo_backend ?rq 32768 m (registrationSchema demo_zod) n = Inr d" for m n
    by (simp add: validated_def mutationOriginError_def demo_request_def read_input_def
        declared_too_long_def zero parsed_input_def d)
  have "\<exists>answer. r = Ok answer \<and> rs_status answer = 201"
    using run u
    by (auto simp: register_POST_def register_route_def input guarded_route_def io_catch_def io_bind_def post_backend_def
        route_headers_def none backendFetch_def io_lift_def web_fetch_def demo_web_def registration_answer_def
        rs_ok_def json_falsy_def response_json_def)
  then obtain answer where a: "r = Ok answer" "rs_status answer = 201" by blast
  from registration_carries_consent [OF run] a obtain calls where
    "wb_calls w' = calls" "length calls \<le> 1" "calls \<noteq> []"
    "\<exists>d. registration_ok demo_zod d \<and> (\<forall>c\<in>set calls. fi_body (bc_init c) = JsonBody (registration_json d))"
    by (auto simp: demo_web_def)
  then obtain c d where "wb_calls w' = [c]" "registration_ok demo_zod d"
    "fi_body (bc_init c) = JsonBody (registration_json d)"
    by (cases calls) auto
  with run a show ?thesis by auto
qed

end
