(* ===== verification/Sign_In.thy ===== *)
theory Sign_In
  imports Navigation Registration Api_Client
begin

text \<open>
  Signing in: \<open>apps/web/src/components/auth/login-panel.tsx\<close> with the page \<open>app/login/page.tsx\<close>, the choice of an
  operation panel in \<open>operation-panels.tsx\<close>, and what \<open>operation-access.tsx\<close> shows of a panel. The handlers work on the
  fetches of the page and on what the page holds of the previous session. It ends with where a session that the
  login route grants lands, and that the page gate opens that page.
\<close>

section \<open>Texts\<close>

text \<open>\<open>toUpperCase\<close> of one unit, as far as its result can be part of an ASCII word.\<close>

definition upper_unit :: "nat \<Rightarrow> jstr" where
  "upper_unit c = (if 97 \<le> c \<and> c \<le> 122 then [c - 32]
     else case map_of [(305, ''I''), (383, ''S''), (223, ''SS''), (64256, ''FF''), (64257, ''FI''), (64258, ''FL''),
       (64259, ''FFI''), (64260, ''FFL''), (64261, ''ST''), (64262, ''ST'')] c of
         Some w \<Rightarrow> js w | None \<Rightarrow> [c])"

definition to_upper :: "jstr \<Rightarrow> jstr" where
  "to_upper s = concat (map upper_unit s)"

text \<open>\<open>String(v)\<close>.\<close>

fun js_text :: "(jsnum \<Rightarrow> jstr) \<Rightarrow> json \<Rightarrow> jstr" where
  "js_text str_of JNull = js ''null''"
| "js_text str_of (JBool b) = js (if b then ''true'' else ''false'')"
| "js_text str_of (JNum n) = str_of n"
| "js_text str_of (JStr s) = s"
| "js_text str_of (JArr vs) = join_with (js '','') (map (\<lambda>v. if v = JNull then [] else js_text str_of v) vs)"
| "js_text str_of (JObj m) = js ''[object Object]''"

text \<open>\<open>v?.k\<close> and \<open>v?.[0]\<close>.\<close>

fun member :: "string \<Rightarrow> json option \<Rightarrow> json option" where
  "member k (Some (JObj m)) = fld m k"
| "member k v = None"

fun item0 :: "json option \<Rightarrow> json option" where
  "item0 (Some (JArr (x # xs))) = Some x"
| "item0 (Some (JStr (c # cs))) = Some (JStr [c])"
| "item0 (Some (JObj m)) = fld m ''0''"
| "item0 v = None"

section \<open>Forms\<close>

record password_values =
  pv_business_slug :: jstr
  pv_remember_me :: bool
  pv_identifier :: jstr
  pv_password :: jstr

record pin_values =
  nv_business_slug :: jstr
  nv_branch_slug :: jstr
  nv_username :: jstr
  nv_pin :: jstr

definition passwordSchema :: "password_values \<Rightarrow> password_values option" where
  "passwordSchema v =
     (if 2 \<le> length (js_trim (pv_identifier v)) \<and> 6 \<le> length (pv_password v)
      then Some (v\<lparr>pv_business_slug := js_trim (pv_business_slug v), pv_identifier := js_trim (pv_identifier v)\<rparr>)
      else None)"

definition pinSchema :: "pin_values \<Rightarrow> pin_values option" where
  "pinSchema v =
     (if 2 \<le> length (js_trim (nv_business_slug v)) \<and> 2 \<le> length (js_trim (nv_branch_slug v))
         \<and> 2 \<le> length (js_trim (nv_username v)) \<and> 4 \<le> length (nv_pin v) \<and> length (nv_pin v) \<le> 12
         \<and> list_all is_digit (nv_pin v)
      then Some (v\<lparr>nv_business_slug := js_trim (nv_business_slug v), nv_branch_slug := js_trim (nv_branch_slug v),
             nv_username := js_trim (nv_username v)\<rparr>)
      else None)"

definition login_mode_pin :: "jstr option \<Rightarrow> bool" where
  "login_mode_pin mode \<longleftrightarrow> mode \<in> Some ` set (map js [''staff'', ''waiter'', ''pin''])"

section \<open>Where to go\<close>

definition RETIRED_ROLES :: "jstr set" where
  "RETIRED_ROLES = set (map js [''KITCHEN'', ''BAR''])"

definition role_word :: "(jsnum \<Rightarrow> jstr) \<Rightarrow> json option \<Rightarrow> jstr" where
  "role_word str_of v = to_upper (case v of None \<Rightarrow> [] | Some JNull \<Rightarrow> [] | Some x \<Rightarrow> js_text str_of x)"

definition targetForRole :: "(jsnum \<Rightarrow> jstr) \<Rightarrow> json option \<Rightarrow> jstr" where
  "targetForRole str_of v = (let role = role_word str_of v in
     if contains role (js ''SUPER_ADMIN'') then js ''/super-admin''
     else if contains role (js ''WAITER'') then js ''/waiter/tables''
     else if contains role (js ''CASHIER'') then js ''/cashier''
     else js ''/admin'')"

definition safeReturnTo :: "jstr option \<Rightarrow> jstr option" where
  "safeReturnTo v = (case v of
       Some s \<Rightarrow> if starts_with s (js ''/'') \<and> \<not> starts_with s (js ''//'') then Some s else None
     | None \<Rightarrow> None)"

section \<open>Handlers\<close>

record sign_in_panel =
  sp_superAdmin :: bool
  sp_returnTo :: "jstr option"

text \<open>\<open>Refused\<close>: a message and nothing else; \<open>Retired\<close>: signed out again; \<open>Entered\<close>: replaced by the page.\<close>

datatype sign_in_end = Refused jstr | Retired | Entered jstr

definition page_post :: "string \<Rightarrow> body \<Rightarrow> page \<Rightarrow> (client_error + web_response) \<times> page" where
  "page_post url b = page_fetch \<lparr>pc_url = js url, pc_method = js ''POST'',
     pc_headers = (if b = NoBody then [] else [(js ''content-type'', js ''application/json'')]), pc_body = b\<rparr> NoSignal"

fun thrown_message :: "client_error \<Rightarrow> jstr" where
  "thrown_message (ApiFailure e) = ae_message e"
| "thrown_message AbortFailure = js ''aborted''"
| "thrown_message (TypeFailure m) = m"
| "thrown_message (OtherFailure m) = m"

definition failure_message :: "(jsnum \<Rightarrow> jstr) \<Rightarrow> json option \<Rightarrow> jstr \<Rightarrow> jstr" where
  "failure_message str_of data fallback =
     (case nullish (member ''message'' (member ''error'' data)) (nullish (member ''detail'' data)
        (nullish (member ''message'' data) (Some (JStr fallback)))) of
        Some v \<Rightarrow> js_text str_of v | None \<Rightarrow> fallback)"

definition password_role :: "json option \<Rightarrow> json option" where
  "password_role data = (let user = member ''user'' data in
     nullish (member ''operationalProfile'' user) (nullish (member ''roleCode'' user) (nullish (member ''role'' user)
       (case item0 (member ''roles'' user) of Some (JStr s) \<Rightarrow> Some (JStr s) | r \<Rightarrow> member ''code'' r))))"

definition login_values :: "sign_in_panel \<Rightarrow> password_values \<Rightarrow> json" where
  "login_values P v = JObj [(js ''business_slug'', if sp_superAdmin P then JNull else JStr (pv_business_slug v)),
     (js ''remember_me'', JBool (pv_remember_me v)), (js ''identifier'', JStr (pv_identifier v)),
     (js ''password'', JStr (pv_password v))]"

definition onPasswordSubmit :: "(jsnum \<Rightarrow> jstr) \<Rightarrow> sign_in_panel \<Rightarrow> password_values \<Rightarrow> page \<Rightarrow> client_state
    \<Rightarrow> sign_in_end \<times> page \<times> client_state" where
  "onPasswordSubmit str_of P v pg s =
     (case page_post ''/api/auth/login'' (JsonBody (login_values P v)) pg of
        (Inl e, pg1) \<Rightarrow> (Refused (thrown_message e), pg1, s)
      | (Inr response, pg1) \<Rightarrow>
         (let data = body_json (rs_body response); role = password_role data in
          if \<not> rs_ok response then
            (Refused (failure_message str_of data (jt ''Giri~s bilgileri do~grulanamad~i.'')), pg1, s)
          else if role_word str_of role \<in> RETIRED_ROLES then
            (case page_post ''/api/auth/logout'' NoBody pg1 of
               (Inl e, pg2) \<Rightarrow> (Refused (thrown_message e), pg2, s)
             | (Inr r, pg2) \<Rightarrow> (Retired, pg2, s))
          else (Entered (case safeReturnTo (sp_returnTo P) of Some t \<Rightarrow> t
                  | None \<Rightarrow> if sp_superAdmin P then js ''/super-admin'' else targetForRole str_of role),
                pg1, forget_session s)))"

definition pin_role :: "json option \<Rightarrow> json option" where
  "pin_role data = (let user = member ''user'' data in
     nullish (member ''operationalProfile'' user) (nullish (member ''roleCode'' user) (member ''role'' user)))"

definition pin_management :: "(jsnum \<Rightarrow> jstr) \<Rightarrow> json option \<Rightarrow> bool" where
  "pin_management str_of profile \<longleftrightarrow> (case profile of None \<Rightarrow> js ''undefined'' | Some v \<Rightarrow> js_text str_of v)
     \<in> set (map js [''BUSINESS_OWNER'', ''BUSINESS_ADMIN'', ''BUSINESS_MANAGER'', ''MANAGEMENT''])"

definition pin_failure :: "(jsnum \<Rightarrow> jstr) \<Rightarrow> json option \<Rightarrow> jstr" where
  "pin_failure str_of data = (let code = member ''code'' (member ''error'' data) in
     if code = Some (JStr (js ''branch_forbidden'')) then
       jt ''Se~cilen ~sube bu ~cal~i~san~in yetkisinde de~gil. ~Cal~i~san~in atand~i~g~i ~subeyi kontrol edin.''
     else if code \<in> {Some (JStr (js ''trusted_device_required'')), Some (JStr (js ''trusted_device_invalid''))} then
       jt ''Bu cihaz hen~uz PIN giri~si i~cin yetkili de~gil. ~Once ~I~sletme giri~si sekmesinden parola ile bir kez giri~s yap~in.''
     else failure_message str_of data (jt ''PIN do~grulanamad~i.''))"

definition onPinSubmit :: "(jsnum \<Rightarrow> jstr) \<Rightarrow> sign_in_panel \<Rightarrow> pin_values \<Rightarrow> page \<Rightarrow> client_state
    \<Rightarrow> sign_in_end \<times> page \<times> client_state" where
  "onPinSubmit str_of P v pg s =
     (case page_post ''/api/auth/pin-login'' (JsonBody (JObj [(js ''business_slug'', JStr (nv_business_slug v)),
         (js ''branch_slug'', JStr (nv_branch_slug v)), (js ''username'', JStr (nv_username v)), (js ''pin'', JStr (nv_pin v))])) pg of
        (Inl e, pg1) \<Rightarrow> (Refused (thrown_message e), pg1, s)
      | (Inr response, pg1) \<Rightarrow>
         (let data = body_json (rs_body response); profile = pin_role data in
          if \<not> rs_ok response then (Refused (pin_failure str_of data), pg1, s)
          else (Entered (if pin_management str_of profile then js ''/panels''
                  else case safeReturnTo (sp_returnTo P) of Some t \<Rightarrow> t | None \<Rightarrow> targetForRole str_of profile),
                pg1, forget_session s)))"

section \<open>Operation panels\<close>

record panel_options =
  po_ready :: bool
  po_waiter :: bool
  po_cashier :: bool

record operation_panels =
  op_username :: jstr
  op_pin :: jstr
  op_verified :: bool
  op_changeAccount :: bool
  op_login_running :: bool
  op_select_running :: bool
  op_options :: "panel_options option"

datatype panel = WaiterPanel | CashierPanel

definition panel_name :: "panel \<Rightarrow> jstr" where
  "panel_name p = (case p of WaiterPanel \<Rightarrow> js ''waiter'' | CashierPanel \<Rightarrow> js ''cashier'')"

definition choosing :: "operation_panels \<Rightarrow> bool" where
  "choosing s = (case op_options s of None \<Rightarrow> False
     | Some options \<Rightarrow> \<not> op_changeAccount s \<and> (op_verified s \<or> po_ready options))"

datatype panel_event = OptionsFetched panel_options | UsernameTyped jstr | PinTyped jstr | LoginPressed
  | LoginAnswered "client_error + web_response" | PanelPressed panel | PanelAnswered panel bool | ChangePressed

datatype panel_effect = SendLogin json | SendSelect json | ForgetSession | GoTo jstr

definition pin_form_ok :: "operation_panels \<Rightarrow> bool" where
  "pin_form_ok s \<longleftrightarrow> op_username s \<noteq> [] \<and> 4 \<le> length (op_pin s) \<and> length (op_pin s) \<le> 12 \<and> list_all is_digit (op_pin s)"

fun panels_step :: "panel_event \<Rightarrow> operation_panels \<Rightarrow> operation_panels \<times> panel_effect list" where
  "panels_step (OptionsFetched options) s = (s\<lparr>op_options := Some options\<rparr>, [])"
| "panels_step (UsernameTyped v) s =
     (if choosing s \<or> op_options s = None \<or> op_login_running s then s else s\<lparr>op_username := v\<rparr>, [])"
| "panels_step (PinTyped v) s =
     (if choosing s \<or> op_options s = None \<or> op_login_running s then s else s\<lparr>op_pin := v\<rparr>, [])"
| "panels_step LoginPressed s =
     (if choosing s \<or> op_options s = None \<or> op_login_running s \<or> \<not> pin_form_ok s then (s, [])
      else (s\<lparr>op_login_running := True\<rparr>,
        [SendLogin (JObj [(js ''username'', JStr (js_trim (op_username s))), (js ''pin'', JStr (op_pin s))])]))"
| "panels_step (LoginAnswered answer) s =
     (if \<not> op_login_running s then (s, [])
      else case answer of
        Inr response \<Rightarrow> if rs_ok response \<and> body_json (rs_body response) \<noteq> None
          then (s\<lparr>op_login_running := False, op_pin := [], op_verified := True, op_changeAccount := False\<rparr>,
                [ForgetSession, GoTo (js ''/panels'')])
          else (s\<lparr>op_login_running := False, op_pin := []\<rparr>, [])
      | Inl e \<Rightarrow> (s\<lparr>op_login_running := False, op_pin := []\<rparr>, []))"
| "panels_step (PanelPressed p) s =
     (case op_options s of None \<Rightarrow> (s, [])
      | Some options \<Rightarrow>
          if \<not> choosing s \<or> op_select_running s \<or> \<not> (case p of WaiterPanel \<Rightarrow> po_waiter options | CashierPanel \<Rightarrow> po_cashier options)
          then (s, [])
          else (s\<lparr>op_select_running := True\<rparr>, [SendSelect (JObj [(js ''panel'', JStr (panel_name p))])]))"
| "panels_step (PanelAnswered p ok) s =
     (if \<not> op_select_running s then (s, [])
      else (s\<lparr>op_select_running := False\<rparr>, if ok
        then [GoTo (case p of CashierPanel \<Rightarrow> js ''/cashier'' | WaiterPanel \<Rightarrow> js ''/waiter/tables'')] else []))"
| "panels_step ChangePressed s =
     (if choosing s then s\<lparr>op_changeAccount := True, op_verified := False\<rparr> else s, [])"

text \<open>What \<open>OperationAccess\<close> shows: \<open>None\<close> while the access is unknown.\<close>

datatype access_mode = StaffMode | SupportMode | OperatorMode

datatype access_view = Verifying | AccessFailed | SupportView bool | Workspace bool

definition access_view :: "panel \<Rightarrow> (client_error + access_mode) option \<Rightarrow> access_view" where
  "access_view p access = (case access of
       None \<Rightarrow> Verifying
     | Some (Inl e) \<Rightarrow> AccessFailed
     | Some (Inr mode) \<Rightarrow>
         if p = CashierPanel \<and> mode = SupportMode then SupportView True
         else Workspace (mode \<in> {SupportMode, OperatorMode}))"

section \<open>A granted session lands where the gate lets it\<close>

text \<open>A role and the profile of its user go together: the profile leads to the home of the role.\<close>

definition role_fits :: "jstr \<Rightarrow> jstr option \<Rightarrow> bool" where
  "role_fits role profile \<longleftrightarrow> (case profile of
       None \<Rightarrow> role_home role \<noteq> None
     | Some p \<Rightarrow> (case map_of (map (\<lambda>(k, r). (js k, js r)) profile_roles) p of
           None \<Rightarrow> False
         | Some r \<Rightarrow> role_home role \<in> {None, role_home r}))"

lemma user_json_member: "member ''user'' (Some (login_json r)) = Some (user_json (lr_user r))"
  by (simp add: login_json_def)

lemma granted_role:
  "password_role (Some (login_json r)) = Some (JStr (case au_operationalProfile (lr_user r) of
     Some p \<Rightarrow> p | None \<Rightarrow> au_roleCode (lr_user r)))"
  by (simp add: password_role_def user_json_member user_json_def opt_member_def null_or_str_def nullish_def fld_append Let_def
      split: option.split)

lemma upper_words:
  "to_upper (js ''SUPER_ADMIN'') = js ''SUPER_ADMIN''" "to_upper (js ''BUSINESS_OWNER'') = js ''BUSINESS_OWNER''"
  "to_upper (js ''BUSINESS_ADMIN'') = js ''BUSINESS_ADMIN''" "to_upper (js ''BUSINESS_MANAGER'') = js ''BUSINESS_MANAGER''"
  "to_upper (js ''ACCOUNTANT'') = js ''ACCOUNTANT''" "to_upper (js ''CASHIER'') = js ''CASHIER''"
  "to_upper (js ''WAITER'') = js ''WAITER''" "to_upper (js ''MANAGEMENT'') = js ''MANAGEMENT''"
  "to_upper (js ''BACKOFFICE'') = js ''BACKOFFICE''"
  by (simp_all add: to_upper_def upper_unit_def js_def)

lemma targets:
  "targetForRole str_of (Some (JStr (js ''SUPER_ADMIN''))) = js ''/super-admin''"
  "targetForRole str_of (Some (JStr (js ''BUSINESS_OWNER''))) = js ''/admin''"
  "targetForRole str_of (Some (JStr (js ''BUSINESS_ADMIN''))) = js ''/admin''"
  "targetForRole str_of (Some (JStr (js ''BUSINESS_MANAGER''))) = js ''/admin''"
  "targetForRole str_of (Some (JStr (js ''ACCOUNTANT''))) = js ''/admin''"
  "targetForRole str_of (Some (JStr (js ''CASHIER''))) = js ''/cashier''"
  "targetForRole str_of (Some (JStr (js ''WAITER''))) = js ''/waiter/tables''"
  "targetForRole str_of (Some (JStr (js ''MANAGEMENT''))) = js ''/admin''"
  "targetForRole str_of (Some (JStr (js ''BACKOFFICE''))) = js ''/admin''"
  by (simp_all only: targetForRole_def role_word_def option.case json.case js_text.simps upper_words Let_def)
    (simp_all add: js_def starts_with_def contains.simps)

lemma homes:
  "role_home r = Some (js ''/super-admin'') \<Longrightarrow> r = js ''SUPER_ADMIN''"
  "role_home r = Some (js ''/admin'') \<Longrightarrow> r \<in> {js ''BUSINESS_OWNER'', js ''BUSINESS_ADMIN'', js ''BUSINESS_MANAGER''}"
  "role_home r = Some (js ''/admin/reports'') \<Longrightarrow> r = js ''ACCOUNTANT''"
  "role_home r = Some (js ''/cashier'') \<Longrightarrow> r = js ''CASHIER''"
  "role_home r = Some (js ''/waiter/tables'') \<Longrightarrow> r = js ''WAITER''"
  by (auto simp: role_home_def roleHomes_def split: if_splits)

lemma home_roles: "role_home r = Some h \<Longrightarrow> r \<in> set (map js [''SUPER_ADMIN'', ''BUSINESS_OWNER'', ''BUSINESS_ADMIN'',
    ''BUSINESS_MANAGER'', ''ACCOUNTANT'', ''CASHIER'', ''WAITER''])"
  by (auto simp: role_home_def roleHomes_def split: if_splits)

lemma open_areas:
  "roleCanOpen (js ''SUPER_ADMIN'') (js ''/super-admin'')" "roleCanOpen (js ''WAITER'') (js ''/waiter/tables'')"
  "roleCanOpen (js ''CASHIER'') (js ''/cashier'')" "roleCanOpen (js ''BUSINESS_OWNER'') (js ''/admin'')"
  "roleCanOpen (js ''BUSINESS_ADMIN'') (js ''/admin'')" "roleCanOpen (js ''BUSINESS_MANAGER'') (js ''/admin'')"
  "roleCanOpen (js ''ACCOUNTANT'') (js ''/admin'')"
  by (simp_all add: roleCanOpen_def below_def is_role_def managers_def starts_with_def js_def)

lemma fitting_role_admitted:
  assumes "role_fits role profile"
  shows "roleCanOpen (gate_role role profile) (targetForRole str_of (Some (JStr (case profile of Some p \<Rightarrow> p | None \<Rightarrow> role))))"
proof (cases profile)
  case None
  then obtain h where "role_home role = Some h" using assms by (auto simp: role_fits_def)
  then show ?thesis using None home_roles [of role h] open_areas by (auto simp: gate_role_def targets)
next
  case (Some p)
  then obtain r where r: "map_of (map (\<lambda>(k, r). (js k, js r)) profile_roles) p = Some r"
    "role_home role = None \<or> role_home role = role_home r"
    using assms by (auto simp: role_fits_def split: option.splits)
  then consider "p = js ''WAITER''" "r = js ''WAITER''" | "p = js ''CASHIER''" "r = js ''CASHIER''"
    | "p = js ''MANAGEMENT''" "r = js ''BUSINESS_MANAGER''" | "p = js ''BACKOFFICE''" "r = js ''ACCOUNTANT''"
    by (auto simp: profile_roles_def split: if_splits)
  then show ?thesis
    by cases (use r Some homes [of role] open_areas in \<open>auto simp: gate_role_def targets\<close>)
qed

lemma target_safe: "safeReturnTo v = Some t \<Longrightarrow> starts_with t (js ''/'') \<and> \<not> starts_with t (js ''//'')"
  by (auto simp: safeReturnTo_def split: option.splits if_splits)

lemma targetForRole_safe: "starts_with (targetForRole str_of v) (js ''/'') \<and> \<not> starts_with (targetForRole str_of v) (js ''//'')"
  by (simp add: targetForRole_def Let_def starts_with_def js_def)


section \<open>A waiter signs in\<close>

definition demo_granted :: login_result where
  "demo_granted = \<lparr>lr_user = \<lparr>au_id = js ''u'', au_tenantId = None, au_branchId = None, au_username = js ''w'',
       au_email = None, au_displayName = js ''W'', au_roleCode = js ''SHIFT_LEAD'', au_staffSession = False,
       au_operationalProfile = Some (js ''WAITER''), au_isActive = True, au_isSuperAdmin = False\<rparr>,
     lr_expiresIn = Fin 900\<rparr>"

lemma demo_granted_role [simp]: "au_roleCode (lr_user demo_granted) = js ''SHIFT_LEAD''"
  "au_operationalProfile (lr_user demo_granted) = Some (js ''WAITER'')"
  by (simp_all add: demo_granted_def)

definition demo_sign_in :: page where
  "demo_sign_in = demo_page (Answered \<lparr>rs_status = 200, rs_headers = [], rs_body = JsonBody (login_json demo_granted)\<rparr>)"

definition demo_panel :: sign_in_panel where
  "demo_panel = \<lparr>sp_superAdmin = False, sp_returnTo = None\<rparr>"

lemma demo_lead: "role_fits (js ''SHIFT_LEAD'') (Some (js ''WAITER''))"
  by (simp add: role_fits_def profile_roles_def role_home_def roleHomes_def)


section \<open>Where signing in goes wrong\<close>

text \<open>How a browser reads a reference without a scheme: tabs and line ends are dropped, and two slashes of either kind name
  another host.\<close>

definition names_other_host :: "jstr \<Rightarrow> bool" where
  "names_other_host s = (case filter (\<lambda>c. c \<notin> {9, 10, 13}) s of
       a # b # rest \<Rightarrow> a \<in> {47, 92} \<and> b \<in> {47, 92} | _ \<Rightarrow> False)"

lemma return_path_leaves_site:
  "safeReturnTo (Some (47 # 92 # js ''evil.example'')) = Some (47 # 92 # js ''evil.example'')"
  "names_other_host (47 # 92 # js ''evil.example'')"
  "safeReturnTo (Some (47 # 9 # 47 # js ''evil.example'')) = Some (47 # 9 # 47 # js ''evil.example'')"
  "names_other_host (47 # 9 # 47 # js ''evil.example'')"
  by (simp_all add: safeReturnTo_def starts_with_def names_other_host_def js_def)

text \<open>The PIN form enters with a role that has no page any more.\<close>

lemma retired_role_enters_by_pin:
  "\<exists>pg'. onPinSubmit str_of demo_panel v (demo_page (Answered \<lparr>rs_status = 200, rs_headers = [], rs_body = JsonBody
       (JObj [(js ''user'', JObj [(js ''roleCode'', JStr (js ''KITCHEN''))])])\<rparr>)) s
     = (Entered (js ''/admin''), pg', forget_session s)"
  by (simp add: onPinSubmit_def page_post_def page_fetch_def demo_page_def demo_panel_def rs_ok_def pin_role_def
      nullish_def safeReturnTo_def pin_management_def targetForRole_def role_word_def Let_def)
    (simp add: to_upper_def upper_unit_def js_def starts_with_def contains.simps)

end
