(* ===== verification/Live_Updates.thy ===== *)
theory Live_Updates
  imports Api_Client Bridge_Config
begin

text \<open>
  \<open>apps/web/src/components/providers/realtime-sync.tsx\<close>: the tickets with which a page opens its live connection, and the
  cached lists an event of the connection makes stale. The state is that of the component with the timers
  of the browser and the ticket requests under way; the connection itself is \<open>Live_Socket\<close>.
\<close>

section \<open>Where the connection is used and what its events touch\<close>

definition operationalRoots :: "string list" where
  "operationalRoots = [''/admin'', ''/waiter'', ''/cashier'']"

definition shouldEnableOperationalRealtime :: "jstr \<Rightarrow> bool" where
  "shouldEnableOperationalRealtime pathname =
     list_ex (\<lambda>r. pathname = js r \<or> starts_with pathname (js (r @ ''/''))) operationalRoots"

definition shouldRequestRealtimeTicketAfterClose :: "bool \<Rightarrow> jstr \<Rightarrow> bool" where
  "shouldRequestRealtimeTicketAfterClose enabled reason \<longleftrightarrow>
     enabled \<and> reason \<noteq> js ''component unmounted'' \<and> reason \<noteq> js ''stale connection''"

type_synonym query_key = "string list"

definition allOperationalKeys :: "query_key list" where
  "allOperationalKeys = [[''admin-operations''], [''dashboard''], [''orders''], [''tables''], [''waiter''], [''cashier''],
     [''kitchen''], [''inventory''], [''catalog''], [''qr''], [''qr-menu''], [''loyalty''], [''reports''], [''printing''],
     [''shifts'']]"

definition queryKeysForRealtimeEvent :: "jstr option \<Rightarrow> query_key list" where
  "queryKeysForRealtimeEvent t = (let type = (case t of None \<Rightarrow> [] | Some s \<Rightarrow> s) in
     if type = js ''connection.ready'' then allOperationalKeys
     else if starts_with type (js ''order.'') then
       [[''orders''], [''tables''], [''waiter''], [''cashier''], [''kitchen''], [''dashboard''],
        [''admin-operations'', ''orders''], [''admin-operations'', ''order''], [''admin-operations'', ''tables''],
        [''admin-operations'', ''dashboard'']]
     else if starts_with type (js ''kitchen.'') then
       [[''kitchen''], [''orders''], [''tables''], [''waiter''], [''dashboard''], [''admin-operations'', ''kitchen-tickets''],
        [''admin-operations'', ''orders''], [''admin-operations'', ''dashboard'']]
     else if starts_with type (js ''qr.'') then
       [[''qr''], [''qr-menu''], [''orders''], [''tables''], [''waiter''], [''cashier''], [''dashboard''],
        [''admin-operations'', ''qr-requests''], [''admin-operations'', ''orders''], [''admin-operations'', ''tables''],
        [''admin-operations'', ''dashboard'']]
     else if starts_with type (js ''inventory.'') then
       [[''inventory''], [''catalog''], [''dashboard''], [''admin-operations'', ''dashboard'']]
     else if starts_with type (js ''printing.'') then
       [[''printing''], [''admin-operations'', ''print-jobs''], [''admin-operations'', ''printer-devices'']]
     else allOperationalKeys)"

section \<open>The address\<close>

text \<open>A parsed URL; parsing and printing are the browser's.\<close>

record live_url =
  lu_protocol :: jstr
  lu_host :: jstr
  lu_pathname :: jstr
  lu_search :: "(jstr \<times> jstr) list"

record live_env =
  le_parse :: "jstr \<Rightarrow> live_url option"
  le_href :: "live_url \<Rightarrow> jstr"
  le_ws_url :: "jstr option"
  le_api_url :: "jstr option"

definition realtimeEndpoint :: "live_env \<Rightarrow> live_url option" where
  "realtimeEndpoint E =
     (if truthy (le_ws_url E) then le_parse E (or_else (le_ws_url E) [])
      else map_option (\<lambda>api. api\<lparr>
          lu_protocol := (if lu_protocol api = js ''https:'' then js ''wss:'' else js ''ws:''),
          lu_pathname := strip_slashes (lu_pathname api) @ js ''/ws''\<rparr>)
        (le_parse E (case le_api_url E of Some u \<Rightarrow> u | None \<Rightarrow> js ''/api/v1'')))"

definition ticket_url :: "live_env \<Rightarrow> jstr \<Rightarrow> jstr option" where
  "ticket_url E ticket = map_option (\<lambda>u. le_href E (u\<lparr>lu_search := param_set (js ''ticket'') ticket (lu_search u)\<rparr>))
     (realtimeEndpoint E)"

text \<open>The ticket in an answer, \<open>None\<close> where the code throws.\<close>

definition answered_ticket :: "client_error + web_response \<Rightarrow> jstr option" where
  "answered_ticket answer = (case answer of Inl e \<Rightarrow> None
     | Inr response \<Rightarrow> if \<not> rs_ok response then None
         else case body_json (rs_body response) of
           Some (JObj m) \<Rightarrow> (case fld m ''ticket'' of Some (JStr t) \<Rightarrow> if t = [] then None else Some t | _ \<Rightarrow> None)
         | _ \<Rightarrow> None)"

section \<open>The component\<close>

datatype sync_job = RequestTicket | AskAgain

text \<open>
  \<open>sy_ran\<close>: the values \<open>enabled\<close> and \<open>ticketRequestKey\<close> with which the effect last ran; a request is known by the
  generation it belongs to; \<open>sy_lost\<close>: the connection of the current address has closed and asked for a new one.
\<close>

record sync =
  sy_enabled :: bool
  sy_key :: nat
  sy_ran :: "(bool \<times> nat) option"
  sy_socketUrl :: "jstr option"
  sy_generation :: nat
  sy_retryTimer :: "nat option"
  sy_timers :: "(nat \<times> sync_job) list"
  sy_next :: nat
  sy_requests :: "nat list"
  sy_lost :: bool

definition mounted_sync :: "jstr \<Rightarrow> sync" where
  "mounted_sync pathname = \<lparr>sy_enabled = shouldEnableOperationalRealtime pathname, sy_key = 0, sy_ran = None,
     sy_socketUrl = None, sy_generation = 0, sy_retryTimer = None, sy_timers = [], sy_next = 0, sy_requests = [],
     sy_lost = False\<rparr>"

definition clear_retry :: "sync \<Rightarrow> sync" where
  "clear_retry s = (case sy_retryTimer s of None \<Rightarrow> s
     | Some t \<Rightarrow> s\<lparr>sy_timers := filter (\<lambda>(i, job). i \<noteq> t) (sy_timers s), sy_retryTimer := None\<rparr>)"

definition set_retry :: "sync_job \<Rightarrow> sync \<Rightarrow> sync" where
  "set_retry job s = s\<lparr>sy_retryTimer := Some (sy_next s), sy_timers := sy_timers s @ [(sy_next s, job)], sy_next := sy_next s + 1\<rparr>"

definition next_generation :: "sync \<Rightarrow> sync" where
  "next_generation s = s\<lparr>sy_generation := sy_generation s + 1\<rparr>"

definition requestTicket :: "sync \<Rightarrow> sync" where
  "requestTicket s = (let s1 = clear_retry (next_generation s) in
     s1\<lparr>sy_requests := sy_requests s1 @ [sy_generation s1]\<rparr>)"

definition ticket_arrives :: "live_env \<Rightarrow> nat \<Rightarrow> client_error + web_response \<Rightarrow> sync \<Rightarrow> sync" where
  "ticket_arrives E i answer s = (let s1 = s\<lparr>sy_requests := remove1 i (sy_requests s)\<rparr> in
     if sy_generation s \<noteq> i then s1
     else case (case answered_ticket answer of None \<Rightarrow> None | Some t \<Rightarrow> ticket_url E t) of
        Some u \<Rightarrow> s1\<lparr>sy_socketUrl := Some u, sy_lost := False\<rparr>
      | None \<Rightarrow> set_retry AskAgain (s1\<lparr>sy_socketUrl := None, sy_lost := False\<rparr>))"

definition reconnectForBranch :: "sync \<Rightarrow> sync" where
  "reconnectForBranch s = (let s1 = clear_retry (next_generation s) in
     s1\<lparr>sy_socketUrl := None, sy_lost := False, sy_key := sy_key s1 + 1\<rparr>)"

text \<open>The effect with the cleanup of its last run. The run of a disabled component clears the timer but keeps the reference.\<close>

definition sync_effect :: "sync \<Rightarrow> sync" where
  "sync_effect s =
     (if sy_ran s = Some (sy_enabled s, sy_key s) then s
      else let s1 = (case sy_ran s of Some (True, k) \<Rightarrow> clear_retry (next_generation s) | _ \<Rightarrow> s);
               s2 = s1\<lparr>sy_ran := Some (sy_enabled s1, sy_key s1)\<rparr>
           in if sy_enabled s2 then set_retry RequestTicket s2
              else (next_generation s2)\<lparr>sy_timers := sy_timers (clear_retry s2)\<rparr>)"

definition socket_closes :: "jstr \<Rightarrow> sync \<Rightarrow> sync" where
  "socket_closes reason s =
     (if sy_socketUrl s \<noteq> None \<and> shouldRequestRealtimeTicketAfterClose (sy_enabled s) reason
      then set_retry AskAgain (s\<lparr>sy_lost := True\<rparr>) else s)"

definition timer_fires :: "nat \<Rightarrow> sync \<Rightarrow> sync" where
  "timer_fires i s = (case map_of (sy_timers s) i of
       None \<Rightarrow> s
     | Some job \<Rightarrow> (let s1 = s\<lparr>sy_timers := filter (\<lambda>(j, job). j \<noteq> i) (sy_timers s)\<rparr> in
         case job of RequestTicket \<Rightarrow> requestTicket s1 | AskAgain \<Rightarrow> s1\<lparr>sy_key := sy_key s1 + 1\<rparr>))"

datatype sync_event = PathChanged jstr | EffectsRun | TimerFired nat | TicketAnswered nat "client_error + web_response"
  | BranchSwitched | CameOnline | SocketClosed jstr

fun sync_step :: "live_env \<Rightarrow> sync_event \<Rightarrow> sync \<Rightarrow> sync" where
  "sync_step E (PathChanged p) s = s\<lparr>sy_enabled := shouldEnableOperationalRealtime p\<rparr>"
| "sync_step E EffectsRun s = sync_effect s"
| "sync_step E (TimerFired i) s = timer_fires i s"
| "sync_step E (TicketAnswered i answer) s = (if i \<in> set (sy_requests s) then ticket_arrives E i answer s else s)"
| "sync_step E BranchSwitched s = reconnectForBranch s"
| "sync_step E CameOnline s = reconnectForBranch s"
| "sync_step E (SocketClosed reason) s = socket_closes reason s"

definition sync_run :: "live_env \<Rightarrow> sync_event list \<Rightarrow> sync \<Rightarrow> sync" where
  "sync_run E events s = foldl (\<lambda>s e. sync_step E e s) s events"

section \<open>A ticket belongs to the branch\<close>

definition requests_past :: "sync \<Rightarrow> bool" where
  "requests_past s \<longleftrightarrow> (\<forall>i\<in>set (sy_requests s). i \<le> sy_generation s)"

lemma clear_retry_simps [simp]:
  "sy_generation (clear_retry s) = sy_generation s" "sy_requests (clear_retry s) = sy_requests s"
  "sy_socketUrl (clear_retry s) = sy_socketUrl s" "sy_key (clear_retry s) = sy_key s" "sy_ran (clear_retry s) = sy_ran s"
  "sy_enabled (clear_retry s) = sy_enabled s" "sy_lost (clear_retry s) = sy_lost s" "sy_next (clear_retry s) = sy_next s"
  by (simp_all add: clear_retry_def split: option.split)

lemma set_retry_simps [simp]:
  "sy_generation (set_retry job s) = sy_generation s" "sy_requests (set_retry job s) = sy_requests s"
  "sy_socketUrl (set_retry job s) = sy_socketUrl s" "sy_key (set_retry job s) = sy_key s" "sy_ran (set_retry job s) = sy_ran s"
  "sy_enabled (set_retry job s) = sy_enabled s" "sy_lost (set_retry job s) = sy_lost s"
  "sy_timers (set_retry job s) = sy_timers s @ [(sy_next s, job)]"
  by (simp_all add: set_retry_def)

lemma next_generation_simps [simp]:
  "sy_generation (next_generation s) = sy_generation s + 1" "sy_requests (next_generation s) = sy_requests s"
  "sy_socketUrl (next_generation s) = sy_socketUrl s" "sy_key (next_generation s) = sy_key s"
  "sy_ran (next_generation s) = sy_ran s" "sy_enabled (next_generation s) = sy_enabled s" "sy_lost (next_generation s) = sy_lost s"
  "sy_timers (next_generation s) = sy_timers s" "sy_retryTimer (next_generation s) = sy_retryTimer s"
  by (simp_all add: next_generation_def)

lemmas sync_steps = requestTicket_def ticket_arrives_def reconnectForBranch_def sync_effect_def socket_closes_def timer_fires_def

lemma step_generation: "sy_generation s \<le> sy_generation (sync_step E e s)"
  by (cases e) (auto simp: sync_steps Let_def split: option.split sync_job.split prod.split bool.split)

lemma step_past: "requests_past s \<Longrightarrow> requests_past (sync_step E e s)"
  by (cases e) (auto simp: requests_past_def sync_steps Let_def le_SucI split: option.split sync_job.split prod.split bool.split
      dest: notin_set_remove1 [rotated])

lemma step_url:
  "sy_socketUrl (sync_step E e s) = Some u \<Longrightarrow> sy_socketUrl s = Some u
     \<or> (\<exists>answer t. e = TicketAnswered (sy_generation s) answer \<and> answered_ticket answer = Some t \<and> ticket_url E t = Some u)"
  by (cases e) (auto simp: sync_steps Let_def split: option.splits sync_job.splits prod.splits bool.splits if_splits)

lemma run_past: "requests_past s \<Longrightarrow> requests_past (sync_run E events s)"
  unfolding sync_run_def by (induction events arbitrary: s) (simp_all add: step_past)

lemma run_url:
  "sy_socketUrl (sync_run E events s) = Some u \<Longrightarrow> sy_socketUrl s = Some u
     \<or> (\<exists>i answer t. sy_generation s \<le> i \<and> TicketAnswered i answer \<in> set events \<and> answered_ticket answer = Some t
         \<and> ticket_url E t = Some u)"
proof (induction events arbitrary: s)
  case (Cons e events)
  then have "sy_socketUrl (sync_run E events (sync_step E e s)) = Some u" by (simp add: sync_run_def)
  from Cons.IH [OF this] show ?case
  proof
    assume "sy_socketUrl (sync_step E e s) = Some u"
    from step_url [OF this] show ?case by auto
  next
    assume "\<exists>i answer t. sy_generation (sync_step E e s) \<le> i \<and> TicketAnswered i answer \<in> set events
      \<and> answered_ticket answer = Some t \<and> ticket_url E t = Some u"
    then obtain i answer t where "sy_generation (sync_step E e s) \<le> i" "TicketAnswered i answer \<in> set (e # events)"
      "answered_ticket answer = Some t" "ticket_url E t = Some u" by auto
    moreover from this(1) have "sy_generation s \<le> i" using step_generation [of s E e] by simp
    ultimately show ?case by blast
  qed
qed (simp add: sync_run_def)

section \<open>The connection is always being restored\<close>

text \<open>While the component is enabled and its effect has run, a missing address or a lost connection has a timer or a request
  that will replace it.\<close>

definition restoring :: "sync \<Rightarrow> bool" where
  "restoring s \<longleftrightarrow> sy_timers s \<noteq> [] \<or> sy_generation s \<in> set (sy_requests s)"

definition sync_good :: "sync \<Rightarrow> bool" where
  "sync_good s \<longleftrightarrow> (sy_ran s = Some (True, sy_key s) \<and> (sy_socketUrl s = None \<or> sy_lost s) \<longrightarrow> restoring s)
     \<and> (\<forall>k. sy_ran s = Some (True, k) \<longrightarrow> k \<le> sy_key s)"

lemma sync_step_good: "sync_good s \<Longrightarrow> sync_good (sync_step E e s)"
  by (cases e) (auto simp: sync_good_def restoring_def sync_steps Let_def
      split: option.splits sync_job.splits prod.splits bool.splits if_splits)

lemma sync_run_good: "sync_good s \<Longrightarrow> sync_good (sync_run E events s)"
  unfolding sync_run_def by (induction events arbitrary: s) (simp_all add: sync_step_good)

lemma mounted_ok: "sync_good (mounted_sync p)" "requests_past (mounted_sync p)"
  by (simp_all add: sync_good_def mounted_sync_def requests_past_def)

lemma run_append: "sync_run E (es @ fs) s = sync_run E fs (sync_run E es s)"
  by (simp add: sync_run_def)

section \<open>What an event makes stale\<close>

definition covers :: "query_key \<Rightarrow> query_key \<Rightarrow> bool" where
  "covers general key \<longleftrightarrow> take (length general) key = general"

lemma event_keys_covered:
  "\<forall>key\<in>set (queryKeysForRealtimeEvent t). \<exists>general\<in>set allOperationalKeys. covers general key"
  by (simp add: queryKeysForRealtimeEvent_def allOperationalKeys_def covers_def Let_def)


section \<open>A switch of the branch\<close>

definition demo_live :: live_env where
  "demo_live = \<lparr>le_parse = (\<lambda>s. Some \<lparr>lu_protocol = js ''https:'', lu_host = js ''h'', lu_pathname = s, lu_search = []\<rparr>),
     le_href = (\<lambda>u. lu_protocol u @ lu_pathname u @ concat (map snd (lu_search u))), le_ws_url = None, le_api_url = None\<rparr>"

definition demo_ticket :: "string \<Rightarrow> client_error + web_response" where
  "demo_ticket t = Inr \<lparr>rs_status = 200, rs_headers = [], rs_body = JsonBody (JObj [(js ''ticket'', JStr (js t))])\<rparr>"

definition demo_switch :: "sync_event list" where
  "demo_switch = [EffectsRun, TicketAnswered 1 (demo_ticket ''old''), TimerFired 1, TicketAnswered 4 (demo_ticket ''new'')]"

lemma demo_live_url: "ticket_url demo_live (js t) = Some (js ''wss:/api/v1/ws'' @ js t)"
  by (simp add: ticket_url_def realtimeEndpoint_def demo_live_def strip_slashes_def js_def)

lemma demo_ticket_read: "answered_ticket (demo_ticket t) = (if t = [] then None else Some (js t))"
  by (simp add: answered_ticket_def demo_ticket_def rs_ok_def)

lemmas demo_sync = sync_run_def mounted_sync_def shouldEnableOperationalRealtime_def operationalRoots_def starts_with_def
  sync_steps Let_def clear_retry_def set_retry_def next_generation_def

lemma demo_before: "sync_run demo_live ([EffectsRun, TimerFired 0] @ [BranchSwitched]) (mounted_sync (js ''/cashier''))
    = \<lparr>sy_enabled = True, sy_key = 1, sy_ran = Some (True, 0), sy_socketUrl = None, sy_generation = 2, sy_retryTimer = None,
       sy_timers = [], sy_next = 1, sy_requests = [1], sy_lost = False\<rparr>"
  by (simp add: demo_sync js_def)

lemma demo_now: "sync_run demo_live demo_switch (sync_run demo_live ([EffectsRun, TimerFired 0] @ [BranchSwitched])
     (mounted_sync (js ''/cashier'')))
    = \<lparr>sy_enabled = True, sy_key = 1, sy_ran = Some (True, 1), sy_socketUrl = Some (js ''wss:/api/v1/wsnew''), sy_generation = 4,
       sy_retryTimer = None, sy_timers = [], sy_next = 2, sy_requests = [], sy_lost = False\<rparr>"
  unfolding demo_before by (simp add: demo_sync demo_switch_def demo_ticket_read demo_live_url) (simp add: js_def)


text \<open>Leaving the operational pages keeps the address of the connection, so that coming back offers its ticket again.\<close>

lemma old_ticket_offered_again:
  assumes "sy_socketUrl s = Some u"
  shows "sy_socketUrl (sync_run E [PathChanged (js ''/profile''), EffectsRun, PathChanged (js ''/cashier'')] s) = Some u"
    and "sy_enabled (sync_run E [PathChanged (js ''/profile''), EffectsRun, PathChanged (js ''/cashier'')] s)"
  using assms by (auto simp: demo_sync js_def split: option.split bool.split prod.split)

end
