(* ===== verification/Key_Ref.thy ===== *)
theory Key_Ref
  imports Js_Prelude
begin

text \<open>
  Several screens keep one idempotency key from the first attempt of a request until it succeeds: the guest's menu, the
  delivery dialog, the waiter's order screen. The contract of such a screen is a locale over its step function,
  and the lemmas about which requests share a key are proved here once.
\<close>

text \<open>The run of a screen over a sequence of events, with the log of what it sent and received.\<close>

fun trace_run :: "('e \<Rightarrow> 's \<Rightarrow> 's \<times> 'x list) \<Rightarrow> 'e list \<Rightarrow> 's \<Rightarrow> 's \<times> 'x list" where
  "trace_run step [] s = (s, [])"
| "trace_run step (e # events) s =
     (let (s1, out) = step e s; (s2, rest) = trace_run step events s1 in (s2, out @ rest))"

lemma trace_run_Cons: "trace_run step (e # events) s =
    (fst (trace_run step events (fst (step e s))), snd (step e s) @ snd (trace_run step events (fst (step e s))))"
  by (simp add: split_beta)

lemma trace_run_append: "trace_run step (es @ fs) s =
    (fst (trace_run step fs (fst (trace_run step es s))),
     snd (trace_run step es s) @ snd (trace_run step fs (fst (trace_run step es s))))"
  by (induction es arbitrary: s) (simp_all add: split_beta)

lemma trace_run_invariant:
  assumes "\<And>e s. P s \<Longrightarrow> P (fst (step e s))"
  shows "P s \<Longrightarrow> P (fst (trace_run step events s))"
  using assms by (induction events arbitrary: s) (simp_all add: split_beta)

text \<open>An invariant of the state and the log so far.\<close>

lemma trace_log_invariant:
  assumes "\<And>e s out. P s out \<Longrightarrow> P (fst (step e s)) (out @ snd (step e s))" and "P s []"
  shows "P (fst (trace_run step events s)) (snd (trace_run step events s))"
proof -
  have "P (fst (trace_run step events s)) (out @ snd (trace_run step events s))" if "P s out" for out
    using that
  proof (induction events arbitrary: s out)
    case (Cons e events)
    from Cons.IH [OF assms(1) [OF Cons.prems]] show ?case by (simp add: split_beta)
  qed simp
  from this [OF assms(2)] show ?thesis by simp
qed

text \<open>An entry of the log was made by a step from a state that the run has reached.\<close>

lemma trace_entry:
  "x \<in> set (snd (trace_run step events s)) \<Longrightarrow>
   \<exists>es e fs. events = es @ e # fs \<and> x \<in> set (snd (step e (fst (trace_run step es s))))"
proof (induction events arbitrary: s)
  case (Cons e events)
  then consider "x \<in> set (snd (step e s))" | "x \<in> set (snd (trace_run step events (fst (step e s))))"
    by (auto simp: trace_run_Cons simp del: trace_run.simps)
  then show ?case
  proof cases
    case 1
    then have "e # events = [] @ e # events \<and> x \<in> set (snd (step e (fst (trace_run step [] s))))" by simp
    then show ?thesis by blast
  next
    case 2
    from Cons.IH [OF this] obtain es f fs
      where "events = es @ f # fs" "x \<in> set (snd (step f (fst (trace_run step es (fst (step e s))))))" by blast
    then have "e # events = (e # es) @ f # fs \<and> x \<in> set (snd (step f (fst (trace_run step (e # es) s))))"
      by (simp add: split_beta)
    then show ?thesis by blast
  qed
qed simp

text \<open>What a screen keeps may be the key alone or the key with the request; \<open>tag\<close> is the random text in it. One step: it is silent and keeps or drops the key, it sends with the key or with a fresh one that becomes it, or it
  receives a success and drops the key.\<close>

definition keyed_step :: "('k \<Rightarrow> jstr) \<Rightarrow> ('x \<Rightarrow> 'k option) \<Rightarrow> ('x \<Rightarrow> bool) \<Rightarrow> jstr list \<Rightarrow> 'k option \<Rightarrow> 'x list \<Rightarrow> 'k option \<Rightarrow> bool" where
  "keyed_step tag request_key success fresh old out new \<longleftrightarrow>
     (list_all (\<lambda>x. request_key x = None \<and> \<not> success x) out \<and> new \<in> {old, None})
     \<or> (\<exists>x k. out = [x] \<and> \<not> success x \<and> request_key x = Some k \<and> new = Some k \<and> (old = Some k \<or> old = None \<and> tag k \<in> set fresh))
     \<or> (\<exists>x. out = [x] \<and> success x \<and> request_key x = None \<and> new = None)"

locale keyed_screen =
  fixes step :: "'e \<Rightarrow> 's \<Rightarrow> 's \<times> 'x list" and key_of :: "'s \<Rightarrow> 'k option" and tag :: "'k \<Rightarrow> jstr"
    and request_key :: "'x \<Rightarrow> 'k option" and success :: "'x \<Rightarrow> bool" and uuid :: "'e \<Rightarrow> jstr list"
  assumes keyed: "keyed_step tag request_key success (uuid e) (key_of s) (snd (step e s)) (key_of (fst (step e s)))"
begin

lemma step_cases:
  obtains (silent) "list_all (\<lambda>x. request_key x = None \<and> \<not> success x) (snd (step e s))"
      "key_of (fst (step e s)) \<in> {key_of s, None}"
  | (sends) x k where "snd (step e s) = [x]" "\<not> success x" "request_key x = Some k" "key_of (fst (step e s)) = Some k"
      "key_of s = Some k \<or> key_of s = None \<and> tag k \<in> set (uuid e)"
  | (succeeds) x where "snd (step e s) = [x]" "success x" "request_key x = None" "key_of (fst (step e s)) = None"
  using keyed [of e s] unfolding keyed_step_def by blast

lemma step_key: "key_of (fst (step e s)) = Some k \<Longrightarrow> key_of s = Some k \<or> tag k \<in> set (uuid e)"
  using step_cases [of e s] by (metis (no_types, lifting) insertE option.distinct(1) option.inject singletonD)

lemma sent_key:
  "x \<in> set (snd (trace_run step events s)) \<Longrightarrow> request_key x = Some k \<Longrightarrow>
   key_of s = Some k \<or> tag k \<in> set (concat (map uuid events))"
proof (induction events arbitrary: s)
  case (Cons e events)
  show ?case
  proof (cases "x \<in> set (snd (step e s))")
    case True
    then show ?thesis by (cases rule: step_cases [of e s]) (use Cons.prems(2) in \<open>auto simp: list_all_iff\<close>)
  next
    case False
    then have "x \<in> set (snd (trace_run step events (fst (step e s))))"
      using Cons.prems(1) by (simp add: trace_run_Cons del: trace_run.simps)
    from Cons.IH [OF this Cons.prems(2)] show ?thesis using step_key [of e s k] by auto
  qed
qed simp

lemma sent_after_success:
  "snd (trace_run step events s) = ys @ y # zs \<Longrightarrow> w \<in> set ys \<Longrightarrow> success w \<Longrightarrow> request_key y = Some k \<Longrightarrow>
   tag k \<in> set (concat (map uuid events))"
proof (induction events arbitrary: s ys)
  case (Cons e events)
  let ?out = "snd (step e s)" and ?rest = "snd (trace_run step events (fst (step e s)))"
  have log: "?out @ ?rest = ys @ y # zs" using Cons.prems(1) by (simp add: trace_run_Cons del: trace_run.simps)
  show ?case
  proof (cases rule: step_cases [of e s])
    case silent
    then have ok: "z \<in> set ?out \<Longrightarrow> request_key z = None \<and> \<not> success z" for z by (simp add: list_all_iff)
    from log consider us where "ys = ?out @ us" "?rest = us @ y # zs" | us where "?out = ys @ y # us"
      by (auto simp: append_eq_append_conv2 append_eq_Cons_conv Cons_eq_append_conv)
    then show ?thesis
    proof cases
      case 1
      then have "w \<in> set us" using ok Cons.prems(2,3) by auto
      from Cons.IH [OF 1(2) this Cons.prems(3,4)] show ?thesis by simp
    next
      case 2
      then show ?thesis using ok [of y] Cons.prems(4) by simp
    qed
  next
    case (sends x k')
    then obtain us where "ys = x # us" "?rest = us @ y # zs" using log Cons.prems(2) by (cases ys) auto
    then show ?thesis using Cons.IH [of "fst (step e s)" us] Cons.prems(2-4) sends(2) by auto
  next
    case (succeeds x)
    then obtain us where us: "ys = x # us" "?rest = us @ y # zs" using log Cons.prems(2) by (cases ys) auto
    have "y \<in> set ?rest" using us(2) by simp
    from sent_key [OF this Cons.prems(4)] show ?thesis using succeeds(4) by auto
  qed
qed simp

text \<open>After a success the next request has a key that no earlier one had.\<close>

lemma new_key_after_success:
  assumes "snd (trace_run step events s) = xs @ x # ys @ y # zs" and "w \<in> set ys" and "success w"
    and "request_key x = Some k" and "request_key y = Some k'"
    and "distinct (concat (map uuid events))" and "tag ` set_option (key_of s) \<inter> set (concat (map uuid events)) = {}"
  shows "tag k \<noteq> tag k'"
  using assms
proof (induction events arbitrary: s xs)
  case (Cons e events)
  let ?out = "snd (step e s)" and ?s = "fst (step e s)" and ?rest = "snd (trace_run step events (fst (step e s)))"
  have log: "?out @ ?rest = xs @ x # ys @ y # zs" using Cons.prems(1) by (simp add: trace_run_Cons del: trace_run.simps)
  have dist: "distinct (concat (map uuid events))" "set (uuid e) \<inter> set (concat (map uuid events)) = {}"
    using Cons.prems(6) by auto
  have later: "tag ` set_option (key_of ?s) \<inter> set (concat (map uuid events)) = {}"
    using step_key [of e s] Cons.prems(7) dist(2) by (auto simp: set_eq_iff)
  show ?case
  proof (cases "\<exists>us. ?rest = us @ x # ys @ y # zs")
    case True
    then show ?thesis using Cons.IH [OF _ Cons.prems(2-5) dist(1) later] by blast
  next
    case False
    have "x \<in> set ?out"
      using log False by (auto simp: append_eq_append_conv2 append_eq_Cons_conv Cons_eq_append_conv)
    then have out: "?out = [x]" "tag k \<notin> set (concat (map uuid events))"
      using Cons.prems(4,7) dist(2) by (cases rule: step_cases [of e s]; force simp: list_all_iff)+
    then have "?rest = ys @ y # zs" using log False by (cases xs) auto
    from sent_after_success [OF this Cons.prems(2,3,5)] show ?thesis using out(2) by auto
  qed
qed simp

end

text \<open>A screen that gives up its key only on success repeats the key until then.\<close>

locale keyed_until_success = keyed_screen +
  assumes kept: "key_of s = Some k \<Longrightarrow> list_all (\<lambda>x. \<not> success x) (snd (step e s)) \<Longrightarrow> key_of (fst (step e s)) = Some k"
begin

lemma key_until_success:
  "snd (trace_run step events s) = ys @ y # zs \<Longrightarrow> key_of s = Some k \<Longrightarrow> list_all (\<lambda>x. \<not> success x) ys \<Longrightarrow>
   request_key y = Some k' \<Longrightarrow> k' = k"
proof (induction events arbitrary: s ys)
  case (Cons e events)
  let ?out = "snd (step e s)" and ?rest = "snd (trace_run step events (fst (step e s)))"
  have log: "?out @ ?rest = ys @ y # zs" using Cons.prems(1) by (simp add: trace_run_Cons del: trace_run.simps)
  from log consider us where "ys = ?out @ us" "?rest = us @ y # zs" | us where "?out = ys @ y # us"
    by (auto simp: append_eq_append_conv2 append_eq_Cons_conv Cons_eq_append_conv)
  then show ?case
  proof cases
    case 1
    then have "key_of (fst (step e s)) = Some k" using kept [OF Cons.prems(2)] Cons.prems(3) by simp
    from Cons.IH [OF 1(2) this _ Cons.prems(4)] show ?thesis using Cons.prems(3) 1(1) by simp
  next
    case 2
    then have "y \<in> set ?out" by simp
    then show ?thesis
      by (cases rule: step_cases [of e s]) (use Cons.prems(2,4) in \<open>auto simp: list_all_iff\<close>)
  qed
qed simp

lemma same_key_meanwhile:
  assumes log: "snd (trace_run step events s) = xs @ x # ys @ y # zs"
    and keys: "request_key x = Some k" "request_key y = Some k'" and quiet: "list_all (\<lambda>w. \<not> success w) ys"
  shows "k = k'"
  using log
proof (induction events arbitrary: s xs)
  case (Cons e events)
  let ?out = "snd (step e s)" and ?rest = "snd (trace_run step events (fst (step e s)))"
  have log: "?out @ ?rest = xs @ x # ys @ y # zs" using Cons.prems by (simp add: trace_run_Cons del: trace_run.simps)
  show ?case
  proof (cases "\<exists>us. ?rest = us @ x # ys @ y # zs")
    case True
    then show ?thesis using Cons.IH by blast
  next
    case False
    have "x \<in> set ?out"
      using log False by (auto simp: append_eq_append_conv2 append_eq_Cons_conv Cons_eq_append_conv)
    then have out: "?out = [x]" "key_of (fst (step e s)) = Some k"
      using keys(1) by (cases rule: step_cases [of e s]; force simp: list_all_iff)+
    then have "?rest = ys @ y # zs" using log False by (cases xs) auto
    from key_until_success [OF this out(2) quiet keys(2)] show ?thesis by simp
  qed
qed simp

lemma same_key_iff:
  assumes log: "snd (trace_run step events s) = xs @ x # ys @ y # zs"
    and keys: "request_key x = Some k" "request_key y = Some k'"
    and dist: "distinct (concat (map uuid events))" "tag ` set_option (key_of s) \<inter> set (concat (map uuid events)) = {}"
  shows "(tag k = tag k' \<longleftrightarrow> list_all (\<lambda>w. \<not> success w) ys) \<and> (tag k = tag k' \<longleftrightarrow> k = k')"
proof -
  have "tag k = tag k' \<Longrightarrow> list_all (\<lambda>w. \<not> success w) ys"
    using new_key_after_success [OF log _ _ keys dist] by (auto simp: list_all_iff)
  moreover have "list_all (\<lambda>w. \<not> success w) ys \<Longrightarrow> k = k'"
    using same_key_meanwhile [OF log keys] .
  ultimately show ?thesis by blast
qed

end

end
