(* ===== verification/Guest_Menu.thy ===== *)
theory Guest_Menu
  imports Cart Ordering Key_Ref
begin

text \<open>
  The guest's menu, \<open>apps/web/src/components/qr/public-menu.tsx\<close> with \<open>product-drawer.tsx\<close>, \<open>cart-drawer.tsx\<close> and
  \<open>bill-request-drawer.tsx\<close>: choosing products, the cart, sending an order and asking for the bill. The state is that
  of the components with the cart store; an event is what the guest, the network or the cache does. What a
  drawer holds is lost when the page stops showing the menu.
\<close>

section \<open>Data\<close>

record guest_product =
  gp_id :: jstr
  gp_category :: jstr
  gp_name :: jstr
  gp_description :: "jstr option"
  gp_price :: jstr
  gp_groups :: "modifier_group list option"

definition guest_groups :: "guest_product \<Rightarrow> modifier_group list" where
  "guest_groups p = (case gp_groups p of None \<Rightarrow> [] | Some gs \<Rightarrow> gs)"

record guest_menu =
  mu_context_key :: jstr
  mu_session_token :: "jstr option"
  mu_order_mode :: jstr
  mu_active_order :: "jstr option"
  mu_products :: "guest_product list"

text \<open>\<open>lower\<close> is \<open>toLocaleLowerCase\<close> of the chosen language.\<close>

definition visible_products :: "(jstr \<Rightarrow> jstr) \<Rightarrow> jstr option \<Rightarrow> jstr \<Rightarrow> guest_menu option \<Rightarrow> guest_product list" where
  "visible_products lower categoryId search menu = (let needle = lower (js_trim search) in
     filter (\<lambda>p. (\<not> truthy categoryId \<or> categoryId = Some (gp_category p))
         \<and> (needle = [] \<or> contains (lower (gp_name p @ js '' '' @ (case gp_description p of None \<Rightarrow> [] | Some d \<Rightarrow> d))) needle))
       (case menu of None \<Rightarrow> [] | Some m \<Rightarrow> mu_products m))"

definition is_table_menu :: "jstr option \<Rightarrow> guest_menu \<Rightarrow> bool" where
  "is_table_menu table m \<longleftrightarrow> truthy table \<and> truthy (mu_session_token m)"

definition bill_already_requested :: "guest_menu \<Rightarrow> bool" where
  "bill_already_requested m \<longleftrightarrow> mu_active_order m \<in> {Some (js ''BILL_REQUESTED''), Some (js ''PAYMENT_PENDING'')}"

definition can_request_bill :: "guest_menu \<Rightarrow> bool" where
  "can_request_bill m \<longleftrightarrow> mu_active_order m \<noteq> None \<and> \<not> bill_already_requested m"

definition ordering_enabled :: "jstr option \<Rightarrow> guest_menu \<Rightarrow> bool" where
  "ordering_enabled table m \<longleftrightarrow> is_table_menu table m
     \<and> mu_order_mode m \<in> {js ''WAITER_APPROVAL'', js ''AUTOMATIC_ACCEPTANCE''}"

section \<open>The drawers\<close>

record product_drawer =
  dr_product :: guest_product
  dr_quantity :: int
  dr_note :: jstr
  dr_selected :: modifier_selection
  dr_error :: "modifier_group option"

definition fresh_drawer :: "guest_product \<Rightarrow> product_drawer" where
  "fresh_drawer p = \<lparr>dr_product = p, dr_quantity = 1, dr_note = [], dr_selected = Map.empty, dr_error = None\<rparr>"

definition toggleModifier :: "jstr \<Rightarrow> jstr \<Rightarrow> product_drawer \<Rightarrow> product_drawer" where
  "toggleModifier groupId modifierId d = (case List.find (\<lambda>g. mg_id g = groupId) (guest_groups (dr_product d)) of
       None \<Rightarrow> d\<lparr>dr_error := None\<rparr>
     | Some g \<Rightarrow> d\<lparr>dr_error := None, dr_selected := toggleModifierSelection (dr_selected d) g modifierId\<rparr>)"

definition chosen_modifiers :: "guest_product \<Rightarrow> modifier_selection \<Rightarrow> cart_modifier list" where
  "chosen_modifiers p selected = map (\<lambda>m. \<lparr>cm_modifierId = mo_id m, cm_name = mo_name m, cm_priceDelta = mo_price_delta m\<rparr>)
     (selectedModifierOptions (guest_groups p) selected)"

definition drawer_line :: "product_drawer \<Rightarrow> new_cart_line" where
  "drawer_line d = \<lparr>nl_productId = gp_id (dr_product d), nl_productName = gp_name (dr_product d),
     nl_quantity = Some (num_of_int (dr_quantity d)), nl_unitPrice = gp_price (dr_product d), nl_note = dr_note d,
     nl_modifiers = chosen_modifiers (dr_product d) (dr_selected d)\<rparr>"

datatype payment_preference = Cash | Card | RoomCharge

definition preference_name :: "payment_preference \<Rightarrow> jstr" where
  "preference_name p = (case p of Cash \<Rightarrow> js ''CASH'' | Card \<Rightarrow> js ''CARD'' | RoomCharge \<Rightarrow> js ''ROOM_CHARGE'')"

datatype bill_text = Room | Code | First | Last | Email | Verification

record bill_form =
  bf_preference :: payment_preference
  bf_texts :: "bill_text \<Rightarrow> jstr"
  bf_joinOpen :: bool
  bf_verificationId :: "jstr option"
  bf_membershipConsent :: bool
  bf_marketingConsent :: bool
  bf_enrolling :: bool
  bf_confirming :: bool

definition fresh_bill :: bill_form where
  "fresh_bill = \<lparr>bf_preference = Card, bf_texts = (\<lambda>_. []), bf_joinOpen = False, bf_verificationId = None,
     bf_membershipConsent = False, bf_marketingConsent = False, bf_enrolling = False, bf_confirming = False\<rparr>"

text \<open>\<open>/^[^@\s]+@[^@\s]+\.[^@\s]+$/\<close>.\<close>

definition mail_pattern :: "jstr \<Rightarrow> bool" where
  "mail_pattern s = (case split_on 64 s of
       [a, d] \<Rightarrow> a \<noteq> [] \<and> list_all (\<lambda>c. \<not> is_space c) s
         \<and> list_ex (\<lambda>i. 0 < i \<and> i + 1 < length d \<and> d ! i = 46) [0..<length d]
     | _ \<Rightarrow> False)"

definition bill_submittable :: "bill_form \<Rightarrow> bool" where
  "bill_submittable f \<longleftrightarrow> bf_preference f = RoomCharge \<longrightarrow> js_trim (bf_texts f Room) \<noteq> []"

definition text_or_null :: "jstr \<Rightarrow> json" where
  "text_or_null s = (if s = [] then JNull else JStr s)"

section \<open>The screen\<close>

text \<open>\<open>gs_sending\<close>: the context of the menu with which the order under way was sent.\<close>

record guest_screen =
  gs_menu :: "guest_menu option"
  gs_failed :: bool
  gs_cart :: cart_state
  gs_drawer :: "product_drawer option"
  gs_cartOpen :: bool
  gs_customerNote :: jstr
  gs_confirm :: bool
  gs_key :: "jstr option"
  gs_sending :: "jstr option"
  gs_submitted :: bool
  gs_billOpen :: bool
  gs_bill :: bill_form
  gs_billSending :: bool

definition fresh_guest :: "cart_state \<Rightarrow> guest_screen" where
  "fresh_guest cart = \<lparr>gs_menu = None, gs_failed = False, gs_cart = cart, gs_drawer = None, gs_cartOpen = False,
     gs_customerNote = [], gs_confirm = False, gs_key = None, gs_sending = None, gs_submitted = False, gs_billOpen = False,
     gs_bill = fresh_bill, gs_billSending = False\<rparr>"

definition shows_menu :: "guest_screen \<Rightarrow> bool" where
  "shows_menu s \<longleftrightarrow> gs_menu s \<noteq> None \<and> \<not> gs_failed s \<and> \<not> gs_submitted s"

text \<open>Another page replaces the menu: the drawers are unmounted.\<close>

definition leave_menu :: "guest_screen \<Rightarrow> guest_screen" where
  "leave_menu s = s\<lparr>gs_drawer := map_option (\<lambda>d. fresh_drawer (dr_product d)) (gs_drawer s), gs_customerNote := [],
     gs_confirm := False, gs_bill := fresh_bill\<rparr>"

definition item_json :: "cart_line \<Rightarrow> json" where
  "item_json l = JObj ([(js ''product_id'', JStr (cl_productId l)), (js ''quantity'', JNum (num_of_int (cl_quantity l)))]
     @ (if cl_note l = [] then [] else [(js ''note'', JStr (cl_note l))])
     @ (if cl_modifiers l = [] then [] else [(js ''modifiers'', JArr (map (\<lambda>m. JObj [(js ''modifier_id'',
         JStr (cm_modifierId m)), (js ''quantity'', JNum (Fin 1))]) (cl_modifiers l)))]))"

definition order_json :: "jstr \<Rightarrow> jstr \<Rightarrow> jstr \<Rightarrow> cart_line list \<Rightarrow> jstr \<Rightarrow> json" where
  "order_json table session key ls note = JObj [(js ''table_token'', JStr table), (js ''session_token'', JStr session),
     (js ''idempotency_key'', JStr key), (js ''items'', JArr (map item_json ls)),
     (js ''customer_note'', text_or_null (js_trim note))]"

definition bill_json :: "(jstr \<Rightarrow> jstr) \<Rightarrow> jstr \<Rightarrow> jstr \<Rightarrow> bill_form \<Rightarrow> json" where
  "bill_json upper table session f = JObj [(js ''table_token'', JStr table), (js ''session_token'', JStr session),
     (js ''payment_preference'', JStr (preference_name (bf_preference f))),
     (js ''room_reference'', if bf_preference f = RoomCharge then JStr (js_trim (bf_texts f Room)) else JNull),
     (js ''membership_code'', text_or_null (upper (js_trim (bf_texts f Code))))]"

definition enrollment_json :: "bill_form \<Rightarrow> json" where
  "enrollment_json f = JObj [(js ''first_name'', JStr (js_trim (bf_texts f First))),
     (js ''last_name'', JStr (js_trim (bf_texts f Last))), (js ''email'', JStr (js_trim (bf_texts f Email))),
     (js ''birth_date'', JNull), (js ''consent_accepted'', JBool True),
     (js ''marketing_email_consent'', JBool (bf_marketingConsent f))]"

datatype guest_entry = OrderSent json | OrderAnswered bool | BillSent json | EnrollmentSent json | CodeSent json

datatype guest_event = MenuArrived guest_menu | MenuFailed | MenuLoading | ProductChosen guest_product | ProductClosed
  | ModifierPressed jstr jstr | QuantityPressed bool | ProductNote jstr | AddPressed jstr
  | LinePressed jstr int | LineRemoved jstr | CartToggled bool | OrderNote jstr | ConfirmToggled bool | SendPressed jstr
  | SendAnswered bool | BackPressed
  | BillToggled bool | PreferencePressed payment_preference | BillTyped bill_text jstr | JoinPressed | ConsentPressed bool
  | MarketingPressed bool | EnrollPressed | EnrollAnswered "jstr option" | CodePressed | CodeAnswered "jstr option"
  | BillPressed | BillAnswered bool

definition submitRequest :: "jstr option \<Rightarrow> jstr \<Rightarrow> guest_screen \<Rightarrow> guest_screen \<times> guest_entry list" where
  "submitRequest table uuid s = (case (table, gs_menu s) of
       (Some t, Some m) \<Rightarrow>
         (case mu_session_token m of
            Some session \<Rightarrow>
              if t = [] \<or> session = [] \<or> cs_lines (gs_cart s) = [] then (s, [])
              else let key = (case gs_key s of Some k \<Rightarrow> k | None \<Rightarrow> uuid) in
                (s\<lparr>gs_key := Some key, gs_sending := Some (mu_context_key m)\<rparr>,
                 [OrderSent (order_json t session key (cs_lines (gs_cart s)) (gs_customerNote s))])
          | None \<Rightarrow> (s, []))
     | _ \<Rightarrow> (s, []))"

definition request_accepted :: "jstr option \<Rightarrow> guest_screen \<Rightarrow> guest_screen" where
  "request_accepted table s = leave_menu (s\<lparr>gs_cart := setContext (gs_sending s) table (clear_cart (gs_cart s)),
     gs_key := None, gs_sending := None, gs_cartOpen := False, gs_submitted := True\<rparr>)"

definition addToCart :: "jstr option \<Rightarrow> jstr \<Rightarrow> guest_screen \<Rightarrow> guest_screen" where
  "addToCart table uuid s = (case (gs_drawer s, gs_menu s) of
       (Some d, Some m) \<Rightarrow>
         if \<not> ordering_enabled table m then s
         else (case invalidModifierGroup (guest_groups (dr_product d)) (dr_selected d) of
             Some g \<Rightarrow> s\<lparr>gs_drawer := Some (d\<lparr>dr_error := Some g\<rparr>)\<rparr>
           | None \<Rightarrow> s\<lparr>gs_cart := addLine uuid (drawer_line d) (gs_cart s), gs_drawer := None\<rparr>)
     | _ \<Rightarrow> s)"

definition press_line :: "jstr \<Rightarrow> int \<Rightarrow> guest_screen \<Rightarrow> guest_screen" where
  "press_line lineId delta s = (case List.find (\<lambda>l. cl_lineId l = lineId) (cs_lines (gs_cart s)) of
       None \<Rightarrow> s
     | Some l \<Rightarrow> s\<lparr>gs_cart := setQuantity lineId (num_of_int (cl_quantity l + delta)) (gs_cart s)\<rparr>)"

text \<open>The bill drawer: typing, joining the loyalty programme with a code by mail, and asking for the bill.\<close>

definition can_enroll :: "bill_form \<Rightarrow> bool" where
  "can_enroll f \<longleftrightarrow> bf_joinOpen f \<and> bf_verificationId f = None \<and> js_trim (bf_texts f First) \<noteq> [] \<and> js_trim (bf_texts f Last) \<noteq> []
     \<and> mail_pattern (js_trim (bf_texts f Email)) \<and> bf_membershipConsent f \<and> \<not> bf_enrolling f"

definition can_confirm :: "bill_form \<Rightarrow> bool" where
  "can_confirm f \<longleftrightarrow> bf_joinOpen f \<and> bf_verificationId f \<noteq> None \<and> 4 \<le> length (bf_texts f Verification)
     \<and> bf_membershipConsent f \<and> \<not> bf_confirming f"

definition type_bill :: "(jstr \<Rightarrow> jstr) \<Rightarrow> bill_text \<Rightarrow> jstr \<Rightarrow> bill_form \<Rightarrow> bill_form" where
  "type_bill upper w v f = f\<lparr>bf_texts := (bf_texts f)(w := (case w of Code \<Rightarrow> upper v
     | Verification \<Rightarrow> filter is_digit v | _ \<Rightarrow> v))\<rparr>"

fun bill_step :: "(jstr \<Rightarrow> jstr) \<Rightarrow> guest_event \<Rightarrow> bill_form \<Rightarrow> bill_form \<times> guest_entry list" where
  "bill_step upper (PreferencePressed p) f = (f\<lparr>bf_preference := p\<rparr>, [])"
| "bill_step upper (BillTyped w v) f = (type_bill upper w v f, [])"
| "bill_step upper JoinPressed f = (f\<lparr>bf_joinOpen := \<not> bf_joinOpen f\<rparr>, [])"
| "bill_step upper (ConsentPressed b) f = (if bf_verificationId f = None then f\<lparr>bf_membershipConsent := b\<rparr> else f, [])"
| "bill_step upper (MarketingPressed b) f = (if bf_verificationId f = None then f\<lparr>bf_marketingConsent := b\<rparr> else f, [])"
| "bill_step upper EnrollPressed f =
     (if can_enroll f then (f\<lparr>bf_enrolling := True\<rparr>, [EnrollmentSent (enrollment_json f)]) else (f, []))"
| "bill_step upper (EnrollAnswered answer) f = (if \<not> bf_enrolling f then (f, [])
     else (case answer of None \<Rightarrow> f\<lparr>bf_enrolling := False\<rparr>
       | Some v \<Rightarrow> f\<lparr>bf_enrolling := False, bf_verificationId := Some v\<rparr>, []))"
| "bill_step upper CodePressed f =
     (if can_confirm f then (f\<lparr>bf_confirming := True\<rparr>, [CodeSent (JObj [(js ''verification_id'',
        JStr (case bf_verificationId f of Some v \<Rightarrow> v | None \<Rightarrow> [])), (js ''code'', JStr (js_trim (bf_texts f Verification)))])])
      else (f, []))"
| "bill_step upper (CodeAnswered answer) f = (if \<not> bf_confirming f then (f, [])
     else (case answer of None \<Rightarrow> f\<lparr>bf_confirming := False\<rparr>
       | Some code \<Rightarrow> f\<lparr>bf_confirming := False, bf_joinOpen := False,
           bf_texts := (bf_texts f)(Code := code, Verification := [])\<rparr>, []))"
| "bill_step upper e f = (f, [])"

definition on_bill :: "(jstr \<Rightarrow> jstr) \<Rightarrow> guest_event \<Rightarrow> guest_screen \<Rightarrow> guest_screen \<times> guest_entry list" where
  "on_bill upper e s = (let (f, out) = bill_step upper e (gs_bill s) in (s\<lparr>gs_bill := f\<rparr>, out))"

definition requestBill :: "(jstr \<Rightarrow> jstr) \<Rightarrow> jstr option \<Rightarrow> guest_screen \<Rightarrow> guest_screen \<times> guest_entry list" where
  "requestBill upper table s =
     (if gs_billSending s \<or> \<not> bill_submittable (gs_bill s) then (s, [])
      else case (table, gs_menu s) of
        (Some t, Some m) \<Rightarrow>
          (case mu_session_token m of
             Some session \<Rightarrow>
               if t = [] \<or> session = [] \<or> mu_active_order m = None then (s\<lparr>gs_billOpen := False\<rparr>, [])
               else (s\<lparr>gs_billSending := True\<rparr>, [BillSent (bill_json upper t session (gs_bill s))])
           | None \<Rightarrow> (s\<lparr>gs_billOpen := False\<rparr>, []))
      | _ \<Rightarrow> (s\<lparr>gs_billOpen := False\<rparr>, []))"

fun guest_step :: "(jstr \<Rightarrow> jstr) \<Rightarrow> jstr option \<Rightarrow> guest_event \<Rightarrow> guest_screen \<Rightarrow> guest_screen \<times> guest_entry list" where
  "guest_step upper t (MenuArrived m) s = (s\<lparr>gs_menu := Some m, gs_failed := False,
     gs_cart := setContext (Some (mu_context_key m)) t (gs_cart s)\<rparr>, [])"
| "guest_step upper t MenuFailed s = (leave_menu (s\<lparr>gs_failed := True\<rparr>), [])"
| "guest_step upper t MenuLoading s = (leave_menu (s\<lparr>gs_menu := None, gs_failed := False\<rparr>), [])"
| "guest_step upper t (ProductChosen p) s = (if shows_menu s then s\<lparr>gs_drawer := Some (fresh_drawer p)\<rparr> else s, [])"
| "guest_step upper t ProductClosed s = (if shows_menu s then s\<lparr>gs_drawer := None\<rparr> else s, [])"
| "guest_step upper t (ModifierPressed g m) s =
     (if shows_menu s then s\<lparr>gs_drawer := map_option (toggleModifier g m) (gs_drawer s)\<rparr> else s, [])"
| "guest_step upper t (QuantityPressed up) s = (if shows_menu s then s\<lparr>gs_drawer := map_option (\<lambda>d. d\<lparr>dr_quantity :=
     (if up then min 99 (dr_quantity d + 1) else max 1 (dr_quantity d - 1))\<rparr>) (gs_drawer s)\<rparr> else s, [])"
| "guest_step upper t (ProductNote v) s =
     (if shows_menu s then s\<lparr>gs_drawer := map_option (\<lambda>d. d\<lparr>dr_note := v\<rparr>) (gs_drawer s)\<rparr> else s, [])"
| "guest_step upper t (AddPressed uuid) s = (if shows_menu s then addToCart t uuid s else s, [])"
| "guest_step upper t (LinePressed i delta) s =
     (if shows_menu s \<and> delta \<in> {- 1, 1} then press_line i delta s else s, [])"
| "guest_step upper t (LineRemoved i) s = (if shows_menu s then s\<lparr>gs_cart := removeLine i (gs_cart s)\<rparr> else s, [])"
| "guest_step upper t (CartToggled b) s = (if shows_menu s then s\<lparr>gs_cartOpen := b\<rparr> else s, [])"
| "guest_step upper t (OrderNote v) s = (if shows_menu s then s\<lparr>gs_customerNote := v\<rparr> else s, [])"
| "guest_step upper t (ConfirmToggled b) s = (case gs_menu s of
       Some m \<Rightarrow> if shows_menu s \<and> (\<not> b \<or> ordering_enabled t m \<and> cs_lines (gs_cart s) \<noteq> [] \<and> gs_sending s = None)
         then s\<lparr>gs_confirm := b\<rparr> else s
     | None \<Rightarrow> s, [])"
| "guest_step upper t (SendPressed uuid) s =
     (if shows_menu s \<and> gs_confirm s \<and> gs_sending s = None then submitRequest t uuid s else (s, []))"
| "guest_step upper t (SendAnswered ok) s =
     (if gs_sending s = None then (s, [])
      else (if ok then request_accepted t s else s\<lparr>gs_sending := None\<rparr>, [OrderAnswered ok]))"
| "guest_step upper t BackPressed s = (if gs_menu s = None \<or> gs_failed s then s else s\<lparr>gs_submitted := False\<rparr>, [])"
| "guest_step upper t (BillToggled b) s = (case gs_menu s of
       Some m \<Rightarrow> if shows_menu s \<and> (\<not> b \<or> is_table_menu t m \<and> can_request_bill m) then s\<lparr>gs_billOpen := b\<rparr> else s
     | None \<Rightarrow> s, [])"
| "guest_step upper t BillPressed s = (if shows_menu s \<and> gs_billOpen s then requestBill upper t s else (s, []))"
| "guest_step upper t (BillAnswered ok) s =
     (if gs_billSending s then s\<lparr>gs_billSending := False, gs_billOpen := False\<rparr> else s, [])"
| "guest_step upper t (EnrollAnswered answer) s = (if shows_menu s then on_bill upper (EnrollAnswered answer) s else (s, []))"
| "guest_step upper t (CodeAnswered answer) s = (if shows_menu s then on_bill upper (CodeAnswered answer) s else (s, []))"
| "guest_step upper t e s = (if shows_menu s \<and> gs_billOpen s then on_bill upper e s else (s, []))"

section \<open>The key of an order\<close>

definition payload_key :: "json \<Rightarrow> jstr option" where
  "payload_key p = (case p of JObj m \<Rightarrow> (case fld m ''idempotency_key'' of Some (JStr k) \<Rightarrow> Some k | _ \<Rightarrow> None) | _ \<Rightarrow> None)"

fun order_key :: "guest_entry \<Rightarrow> jstr option" where
  "order_key (OrderSent p) = payload_key p"
| "order_key x = None"

fun key_event :: "guest_event \<Rightarrow> jstr list" where
  "key_event (SendPressed uuid) = [uuid]"
| "key_event e = []"

lemma order_json_key [simp]: "payload_key (order_json t session k ls note) = Some k"
  by (simp add: payload_key_def order_json_def)

lemma bill_step_quiet: "list_all (\<lambda>x. order_key x = None \<and> x \<noteq> OrderAnswered True) (snd (bill_step upper e f))"
  by (induction upper e f rule: bill_step.induct) simp_all

lemma on_bill_simps [simp]: "gs_key (fst (on_bill upper e s)) = gs_key s" "gs_cart (fst (on_bill upper e s)) = gs_cart s"
  "gs_drawer (fst (on_bill upper e s)) = gs_drawer s" "snd (on_bill upper e s) = snd (bill_step upper e (gs_bill s))"
  by (simp_all add: on_bill_def split_beta)

lemma leave_menu_simps [simp]: "gs_key (leave_menu s) = gs_key s" "gs_cart (leave_menu s) = gs_cart s"
  "gs_drawer (leave_menu s) = map_option (\<lambda>d. fresh_drawer (dr_product d)) (gs_drawer s)"
  by (simp_all add: leave_menu_def)

lemma kept_simps [simp]: "gs_key (addToCart t u s) = gs_key s" "gs_key (press_line i d s) = gs_key s"
  "gs_key (fst (requestBill upper t s)) = gs_key s" "gs_cart (fst (requestBill upper t s)) = gs_cart s"
  "gs_drawer (fst (requestBill upper t s)) = gs_drawer s" "gs_drawer (press_line i d s) = gs_drawer s"
  "gs_cart (fst (submitRequest t u s)) = gs_cart s" "gs_drawer (fst (submitRequest t u s)) = gs_drawer s"
  by (simp_all add: addToCart_def press_line_def requestBill_def submitRequest_def Let_def split: option.split)

lemma requestBill_out: "list_all (\<lambda>x. order_key x = None \<and> x \<noteq> OrderAnswered True) (snd (requestBill upper t s))"
  by (simp add: requestBill_def split: option.split)

lemma guest_keyed:
  "keyed_step id order_key (\<lambda>x. x = OrderAnswered True) (key_event e) (gs_key s) (snd (guest_step upper t e s))
     (gs_key (fst (guest_step upper t e s)))"
proof (cases e)
  case (SendPressed uuid)
  then show ?thesis by (auto simp: keyed_step_def submitRequest_def Let_def split: option.split)
next
  case (SendAnswered ok)
  then show ?thesis by (cases ok) (auto simp: keyed_step_def request_accepted_def)
next
  case BillPressed
  then show ?thesis using requestBill_out [of upper t s] by (auto simp: keyed_step_def)
next
  case (ConfirmToggled b)
  then show ?thesis by (auto simp: keyed_step_def split: option.split)
next
  case (BillToggled b)
  then show ?thesis by (auto simp: keyed_step_def split: option.split)
qed (use bill_step_quiet [of upper e "gs_bill s"] in \<open>auto simp: keyed_step_def\<close>)

interpretation guest_key: keyed_until_success "guest_step upper t" gs_key id order_key "\<lambda>x. x = OrderAnswered True" key_event
  for upper t
proof unfold_locales
  show "keyed_step id order_key (\<lambda>x. x = OrderAnswered True) (key_event e) (gs_key s) (snd (guest_step upper t e s))
     (gs_key (fst (guest_step upper t e s)))" for e s by (rule guest_keyed)
  show "gs_key (fst (guest_step upper t e s)) = Some k"
    if "gs_key s = Some k" "list_all (\<lambda>x. x \<noteq> OrderAnswered True) (snd (guest_step upper t e s))" for s k e
    using that by (cases e) (auto simp: submitRequest_def request_accepted_def Let_def split: option.split if_splits)
qed

section \<open>The cart holds what was chosen\<close>

text \<open>A line of a product with options that its groups allow.\<close>

definition line_from :: "guest_product \<Rightarrow> cart_line \<Rightarrow> bool" where
  "line_from p l \<longleftrightarrow> cl_productId l = gp_id p \<and> cl_unitPrice l = gp_price p
     \<and> (\<exists>selected. invalidModifierGroup (guest_groups p) selected = None \<and> cl_modifiers l = chosen_modifiers p selected)"

definition line_sound :: "guest_product set \<Rightarrow> cart_line \<Rightarrow> bool" where
  "line_sound ps l \<longleftrightarrow> 1 \<le> cl_quantity l \<and> cl_quantity l \<le> 99 \<and> (\<exists>p\<in>ps. line_from p l)"

definition guest_ok :: "guest_product set \<Rightarrow> guest_screen \<Rightarrow> bool" where
  "guest_ok ps s \<longleftrightarrow> (\<forall>l\<in>set (cs_lines (gs_cart s)). line_sound ps l) \<and> (\<forall>d. gs_drawer s = Some d \<longrightarrow> dr_product d \<in> ps)"

fun chosen_product :: "guest_event \<Rightarrow> guest_product set" where
  "chosen_product (ProductChosen p) = {p}"
| "chosen_product e = {}"

lemma line_sound_quantity: "line_sound ps l \<Longrightarrow> line_sound ps (l\<lparr>cl_quantity := normalizeQuantity q\<rparr>)"
  using normalizeQuantity_bounds [of q] by (simp add: line_sound_def line_from_def)

lemma line_sound_mono: "line_sound ps l \<Longrightarrow> ps \<subseteq> qs \<Longrightarrow> line_sound qs l"
  by (auto simp: line_sound_def)

lemma guest_ok_mono: "guest_ok ps s \<Longrightarrow> ps \<subseteq> qs \<Longrightarrow> guest_ok qs s"
  by (auto simp: guest_ok_def intro: line_sound_mono)

lemma setQuantity_sound: "\<forall>l\<in>set (cs_lines c). line_sound ps l \<Longrightarrow> \<forall>l\<in>set (cs_lines (setQuantity i q c)). line_sound ps l"
  by (auto simp: setQuantity_def line_sound_quantity)

lemma setContext_sound: "\<forall>l\<in>set (cs_lines c). line_sound ps l \<Longrightarrow> \<forall>l\<in>set (cs_lines (setContext b t c)). line_sound ps l"
  by (auto simp: setContext_def)

lemma removeLine_sound: "\<forall>l\<in>set (cs_lines c). line_sound ps l \<Longrightarrow> \<forall>l\<in>set (cs_lines (removeLine i c)). line_sound ps l"
  by (auto simp: removeLine_def)

lemma toggled_product [simp]: "dr_product (toggleModifier g m d) = dr_product d"
  by (simp add: toggleModifier_def split: option.split)

lemma add_ok: "guest_ok ps s \<Longrightarrow> guest_ok ps (addToCart t u s)"
proof (cases "gs_drawer s")
  case (Some d)
  assume ok: "guest_ok ps s"
  have "line_sound ps (new_line u (drawer_line d))" if "invalidModifierGroup (guest_groups (dr_product d)) (dr_selected d) = None"
  proof -
    have "dr_product d \<in> ps" using ok Some by (simp add: guest_ok_def)
    moreover have "line_from (dr_product d) (new_line u (drawer_line d))"
      using that by (auto simp: line_from_def new_line_def drawer_line_def)
    ultimately show ?thesis
      using normalizeQuantity_bounds [of "num_of_int (dr_quantity d)"]
      unfolding line_sound_def by (auto simp: new_line_def drawer_line_def)
  qed
  with ok Some show ?thesis by (auto simp: guest_ok_def addToCart_def addLine_def split: option.splits)
qed (simp add: addToCart_def)

lemma step_guest_ok: "guest_ok ps s \<Longrightarrow> guest_ok (chosen_product e \<union> ps) (fst (guest_step upper t e s))"
proof (cases e)
  case (AddPressed u)
  assume "guest_ok ps s"
  with AddPressed add_ok show ?thesis by simp
next
  case (ProductChosen p)
  assume "guest_ok ps s"
  then have "guest_ok (insert p ps) s" by (rule guest_ok_mono) auto
  with ProductChosen show ?thesis by (auto simp: guest_ok_def fresh_drawer_def)
next
  case (LinePressed i delta)
  assume "guest_ok ps s"
  with LinePressed setQuantity_sound show ?thesis by (auto simp: guest_ok_def press_line_def split: option.splits)
next
  case (SendAnswered ok)
  assume "guest_ok ps s"
  with SendAnswered show ?thesis
    by (auto simp: guest_ok_def request_accepted_def clear_cart_def empty_cart_def setContext_def fresh_drawer_def)
next
  case (ConfirmToggled b)
  assume "guest_ok ps s"
  with ConfirmToggled show ?thesis by (auto simp: guest_ok_def split: option.split)
next
  case (BillToggled b)
  assume "guest_ok ps s"
  with BillToggled show ?thesis by (auto simp: guest_ok_def split: option.split)
qed (auto simp: guest_ok_def fresh_drawer_def intro: setContext_sound [rule_format] removeLine_sound [rule_format])

lemma run_guest_ok:
  "guest_ok ps s \<Longrightarrow> guest_ok (\<Union> (chosen_product ` set events) \<union> ps) (fst (trace_run (guest_step upper t) events s))"
proof (induction events arbitrary: ps s)
  case (Cons e events)
  from Cons.IH [OF step_guest_ok [OF Cons.prems]] show ?case by (simp add: split_beta Un_assoc Un_left_commute)
qed simp


section \<open>A guest at a table\<close>

definition demo_cake :: guest_product where
  "demo_cake = \<lparr>gp_id = js ''cake'', gp_category = js ''c'', gp_name = js ''Cake'', gp_description = None, gp_price = js ''5.00'',
     gp_groups = None\<rparr>"

definition demo_guest_menu :: guest_menu where
  "demo_guest_menu = \<lparr>mu_context_key = js ''b'', mu_session_token = Some (js ''s''), mu_order_mode = js ''WAITER_APPROVAL'',
     mu_active_order = None, mu_products = [demo_cake]\<rparr>"

definition demo_choice :: "string \<Rightarrow> guest_event list" where
  "demo_choice i = [ProductChosen demo_cake, AddPressed (js i)]"

definition demo_guest :: "guest_event list" where
  "demo_guest = MenuArrived demo_guest_menu # demo_choice ''a'' @ [ConfirmToggled True, SendPressed (js ''k'')]"

definition demo_cake_line :: "string \<Rightarrow> cart_line" where
  "demo_cake_line i = \<lparr>cl_lineId = js i, cl_productId = js ''cake'', cl_productName = js ''Cake'', cl_quantity = 1,
     cl_unitPrice = js ''5.00'', cl_note = [], cl_modifiers = []\<rparr>"

lemma demo_menu_simps [simp]: "mu_session_token demo_guest_menu = Some (js ''s'')" "mu_context_key demo_guest_menu = js ''b''"
  "ordering_enabled (Some (js ''t'')) demo_guest_menu" "guest_groups demo_cake = []"
  by (simp_all add: demo_guest_menu_def ordering_enabled_def is_table_menu_def guest_groups_def demo_cake_def)

lemma demo_new_line: "new_line (js i) (drawer_line (fresh_drawer demo_cake)) = demo_cake_line i"
  by (simp add: new_line_def drawer_line_def fresh_drawer_def chosen_modifiers_def selectedModifierOptions_def demo_cake_line_def
      js_trim_def) (simp add: demo_cake_def)

lemmas demo_guest_run = demo_guest_def demo_choice_def fresh_guest_def empty_cart_def shows_menu_def addToCart_def addLine_def
  setContext_def submitRequest_def request_accepted_def clear_cart_def leave_menu_def

lemma demo_drawer [simp]: "dr_product (fresh_drawer p) = p" "dr_selected (fresh_drawer p) = Map.empty"
  by (simp_all add: fresh_drawer_def)

lemma demo_confirmed: "\<exists>s. trace_run (guest_step upper (Some (js ''t'')))
      (MenuArrived demo_guest_menu # demo_choice ''a'' @ [ConfirmToggled True]) (fresh_guest empty_cart) = (s, [])
    \<and> cs_lines (gs_cart s) = [demo_cake_line ''a''] \<and> gs_customerNote s = []
    \<and> snd (guest_step upper (Some (js ''t'')) (SendPressed (js ''k'')) s)
        = [OrderSent (order_json (js ''t'') (js ''s'') (js ''k'') [demo_cake_line ''a''] [])]"
  by (simp add: demo_guest_run demo_new_line Let_def)


section \<open>What a guest can lose\<close>

text \<open>A line that is added while the order is under way disappears with the accepted one.\<close>

lemma guest_line_lost:
  "\<exists>s. trace_run (guest_step upper (Some (js ''t''))) (demo_guest @ demo_choice ''b'' @ [SendAnswered True]) (fresh_guest empty_cart)
     = (s, [OrderSent (order_json (js ''t'') (js ''s'') (js ''k'') [demo_cake_line ''a''] []), OrderAnswered True])
     \<and> cs_lines (gs_cart s) = []"
  by (simp add: demo_guest_run demo_new_line Let_def)

text \<open>After a failed attempt another cart is sent under the key of the first.\<close>

lemma guest_changed_cart_same_key:
  "\<exists>s. trace_run (guest_step upper (Some (js ''t''))) (demo_guest @ [SendAnswered False] @ demo_choice ''b'' @ [SendPressed (js ''l'')])
       (fresh_guest empty_cart)
     = (s, [OrderSent (order_json (js ''t'') (js ''s'') (js ''k'') [demo_cake_line ''a''] []), OrderAnswered False,
         OrderSent (order_json (js ''t'') (js ''s'') (js ''k'') [demo_cake_line ''a'', demo_cake_line ''b''] [])])"
  by (simp add: demo_guest_run demo_new_line Let_def)

text \<open>The bill drawer closes when the request for the bill fails.\<close>

lemma failed_bill_closes: "gs_billSending s \<Longrightarrow> \<not> gs_billOpen (fst (guest_step upper t (BillAnswered False) s))"
  by simp

text \<open>A request for the bill that charges a room names it, and an enrolment has the guest's consent.\<close>

lemma bill_requests_complete:
  assumes "BillSent p \<in> set (snd (guest_step upper t e s))"
  shows "\<exists>token session. t = Some token \<and> p = bill_json upper token session (gs_bill s)
    \<and> (bf_preference (gs_bill s) = RoomCharge \<longrightarrow> js_trim (bf_texts (gs_bill s) Room) \<noteq> [])"
proof -
  have none: "BillSent p \<notin> set (snd (bill_step upper e f))" for f
    by (induction upper e f rule: bill_step.induct) simp_all
  show ?thesis
    using assms none [of "gs_bill s"]
    by (cases e) (auto simp: requestBill_def bill_submittable_def submitRequest_def Let_def split: option.splits if_splits)
qed

lemma enrolment_has_consent:
  "EnrollmentSent p \<in> set (snd (bill_step upper e f)) \<Longrightarrow> bf_membershipConsent f \<and> mail_pattern (js_trim (bf_texts f Email))
     \<and> p = enrollment_json f"
  by (induction upper e f rule: bill_step.induct) (auto simp: can_enroll_def split: if_splits)

end
