(* ===== verification/Delivery.thy ===== *)
theory Delivery
  imports Cart Bill_Lines Ordering Key_Ref Sign_In
begin

text \<open>
  Delivery orders: the dialog that takes an order by telephone (\<open>components/delivery/new-delivery-order-dialog.tsx\<close> with
  the options dialog \<open>components/cashier/cashier-modifier-dialog.tsx\<close>), and the inbox that moves orders along
  (\<open>delivery-inbox.tsx\<close>, \<open>delivery-api.ts\<close>), all under \<open>apps/web/src\<close>.
\<close>

section \<open>Lines\<close>

record delivery_product =
  vp_id :: jstr
  vp_category :: jstr
  vp_name :: jstr
  vp_selling_price :: amount
  vp_is_available :: bool

record delivery_line =
  vl_id :: jstr
  vl_product :: delivery_product
  vl_quantity :: int
  vl_modifiers :: "modifier_option list"

text \<open>The default order of \<open>sort()\<close> on strings.\<close>

fun unit_cmp :: "jstr \<Rightarrow> jstr \<Rightarrow> int" where
  "unit_cmp [] [] = 0"
| "unit_cmp [] (b # bs) = - 1"
| "unit_cmp (a # as) [] = 1"
| "unit_cmp (a # as) (b # bs) = (if a < b then - 1 else if b < a then 1 else unit_cmp as bs)"

definition delivery_line_id :: "jstr \<Rightarrow> modifier_option list \<Rightarrow> jstr" where
  "delivery_line_id productId modifiers = join_with (js '':'') (productId # sort_cmp unit_cmp (map mo_id modifiers))"

definition price_text :: "(jsnum \<Rightarrow> jstr) \<Rightarrow> amount \<Rightarrow> jstr" where
  "price_text str_of a = (case a of AText s \<Rightarrow> s | ANumber n \<Rightarrow> str_of n)"

definition lineUnitTotal :: "(jsnum \<Rightarrow> jstr) \<Rightarrow> delivery_line \<Rightarrow> int" where
  "lineUnitTotal str_of l = foldl (\<lambda>sum m. sum + decimalToMinor (mo_price_delta m) 2)
     (decimalToMinor (price_text str_of (vp_selling_price (vl_product l))) 2) (vl_modifiers l)"

definition delivery_total :: "(jsnum \<Rightarrow> jstr) \<Rightarrow> delivery_line list \<Rightarrow> int" where
  "delivery_total str_of ls = foldl (\<lambda>sum l. sum + lineUnitTotal str_of l * vl_quantity l) 0 ls"

definition offered_products :: "(jstr \<Rightarrow> jstr) \<Rightarrow> jstr \<Rightarrow> jstr \<Rightarrow> delivery_product list \<Rightarrow> delivery_product list" where
  "offered_products lower_tr category search products = (let needle = lower_tr search in
     filter (\<lambda>p. (category = js ''all'' \<or> vp_category p = category) \<and> (needle = [] \<or> contains (lower_tr (vp_name p)) needle))
       (filter vp_is_available products))"

definition addProduct :: "delivery_product \<Rightarrow> modifier_option list \<Rightarrow> delivery_line list \<Rightarrow> delivery_line list" where
  "addProduct product modifiers current = (let i = delivery_line_id (vp_id product) modifiers in
     if list_ex (\<lambda>l. vl_id l = i) current
     then map (\<lambda>l. if vl_id l = i then l\<lparr>vl_quantity := vl_quantity l + 1\<rparr> else l) current
     else current @ [\<lparr>vl_id = i, vl_product = product, vl_quantity = 1, vl_modifiers = modifiers\<rparr>])"

definition changeQuantity :: "jstr \<Rightarrow> int \<Rightarrow> delivery_line list \<Rightarrow> delivery_line list" where
  "changeQuantity i delta current = filter (\<lambda>l. 0 < vl_quantity l)
     (map (\<lambda>l. if vl_id l = i then l\<lparr>vl_quantity := vl_quantity l + delta\<rparr> else l) current)"

section \<open>The dialog\<close>

datatype delivery_text = CustomerName | CustomerPhone | AddressLine | District | City | Neighbourhood | AddressNote | OrderRemark

datatype delivery_payment = CashOnDelivery | CardOnDelivery | Online | MealCard

definition payment_name :: "delivery_payment \<Rightarrow> jstr" where
  "payment_name p = (case p of CashOnDelivery \<Rightarrow> js ''CASH_ON_DELIVERY'' | CardOnDelivery \<Rightarrow> js ''CARD_ON_DELIVERY''
     | Online \<Rightarrow> js ''ONLINE'' | MealCard \<Rightarrow> js ''MEAL_CARD'')"

text \<open>What is entered; \<open>df_own\<close> is the channel \<open>OWN_DELIVERY\<close>, otherwise it is \<open>TAKEAWAY\<close>.\<close>

record delivery_form =
  df_own :: bool
  df_texts :: "delivery_text \<Rightarrow> jstr"
  df_payment :: delivery_payment
  df_lines :: "delivery_line list"

definition fresh_form :: delivery_form where
  "fresh_form = \<lparr>df_own = False, df_texts = (\<lambda>_. []), df_payment = CashOnDelivery, df_lines = []\<rparr>"

definition needsAddress :: "delivery_form \<Rightarrow> bool" where
  "needsAddress f = df_own f"

definition canSubmit :: "delivery_form \<Rightarrow> bool" where
  "canSubmit f \<longleftrightarrow> df_lines f \<noteq> [] \<and> (needsAddress f \<longrightarrow> js_trim (df_texts f AddressLine) \<noteq> []
     \<and> 2 \<le> length (js_trim (df_texts f City)) \<and> 2 \<le> length (js_trim (df_texts f District)))"

definition trimmed_or_null :: "jstr \<Rightarrow> json" where
  "trimmed_or_null s = (if js_trim s = [] then JNull else JStr (js_trim s))"

definition delivery_item :: "delivery_line \<Rightarrow> json" where
  "delivery_item l = JObj ([(js ''product_id'', JStr (vp_id (vl_product l))), (js ''quantity'', JStr (int_text (vl_quantity l)))]
     @ (if vl_modifiers l = [] then [] else [(js ''modifiers'', JArr (map (\<lambda>m. JObj [(js ''modifier_id'', JStr (mo_id m)),
         (js ''quantity'', JNum (Fin 1))]) (vl_modifiers l)))]))"

definition delivery_body :: "delivery_form \<Rightarrow> jobj" where
  "delivery_body f = (let own = (\<lambda>w. if df_own f then trimmed_or_null (df_texts f w) else JNull) in
     [(js ''channel'', JStr (js (if df_own f then ''OWN_DELIVERY'' else ''TAKEAWAY''))),
      (js ''items'', JArr (map delivery_item (df_lines f))),
      (js ''customer_name'', trimmed_or_null (df_texts f CustomerName)),
      (js ''customer_phone'', trimmed_or_null (df_texts f CustomerPhone)),
      (js ''address_line'', own AddressLine), (js ''city'', own City), (js ''district'', own District),
      (js ''neighbourhood'', own Neighbourhood), (js ''address_note'', own AddressNote),
      (js ''customer_note'', trimmed_or_null (df_texts f OrderRemark)), (js ''payment_method'', JStr (payment_name (df_payment f))),
      (js ''payment_status'', JStr (js ''UNPAID'')), (js ''auto_accept'', JBool True)])"

record delivery_dialog =
  dv_open :: bool
  dv_form :: delivery_form
  dv_pending :: "(jstr \<times> jobj) option"
  dv_running :: bool
  dv_error :: bool
  dv_detail :: bool
  dv_modifierProduct :: "(delivery_product \<times> modifier_group list) option"
  dv_selected :: modifier_selection

definition fresh_delivery :: delivery_dialog where
  "fresh_delivery = \<lparr>dv_open = False, dv_form = fresh_form, dv_pending = None, dv_running = False, dv_error = False,
     dv_detail = False, dv_modifierProduct = None, dv_selected = Map.empty\<rparr>"

definition reset_delivery :: "delivery_dialog \<Rightarrow> delivery_dialog" where
  "reset_delivery s = s\<lparr>dv_form := fresh_form, dv_pending := None, dv_modifierProduct := None, dv_selected := Map.empty\<rparr>"

definition put_product :: "delivery_product \<Rightarrow> modifier_option list \<Rightarrow> delivery_dialog \<Rightarrow> delivery_dialog" where
  "put_product p ms s = s\<lparr>dv_form := (dv_form s)\<lparr>df_lines := addProduct p ms (df_lines (dv_form s))\<rparr>\<rparr>"

definition detail_comes :: "(delivery_product \<times> modifier_group list) option \<Rightarrow> delivery_dialog \<Rightarrow> delivery_dialog" where
  "detail_comes answer s = (let s1 = s\<lparr>dv_detail := False\<rparr> in case answer of
       None \<Rightarrow> s1
     | Some (p, gs) \<Rightarrow> if gs = [] then put_product p [] s1 else s1\<lparr>dv_modifierProduct := Some (p, gs), dv_selected := Map.empty\<rparr>)"

text \<open>The options dialog confirms the active chosen options; the order dialog looks them up again by id.\<close>

definition confirm_modifiers :: "delivery_dialog \<Rightarrow> delivery_dialog" where
  "confirm_modifiers s = (case dv_modifierProduct s of
       None \<Rightarrow> s
     | Some (p, gs) \<Rightarrow>
         if invalidModifierGroup gs (dv_selected s) \<noteq> None then s
         else (let ids = set (map mo_id (selectedModifierOptions gs (dv_selected s))) in
           (put_product p (concat (map (\<lambda>g. filter (\<lambda>m. mo_id m \<in> ids) (mg_modifiers g)) gs)) s)
             \<lparr>dv_modifierProduct := None, dv_selected := Map.empty\<rparr>))"

datatype delivery_entry = OrderPosted jstr jobj | OrderEnded bool

definition create_order :: "jstr \<Rightarrow> delivery_dialog \<Rightarrow> delivery_dialog \<times> delivery_entry list" where
  "create_order uuid s =
     (let (key, body) = (case dv_pending s of Some intent \<Rightarrow> intent | None \<Rightarrow> (js ''manual-'' @ uuid, delivery_body (dv_form s))) in
      (s\<lparr>dv_pending := Some (key, body), dv_running := True, dv_error := False\<rparr>, [OrderPosted key body]))"

datatype delivery_event = DeliveryOpened | DialogChanged bool | CancelPressed | ChannelPressed bool
  | TextTyped delivery_text jstr | PaymentPressed delivery_payment | DeliveryProductPressed | DetailCame "(delivery_product \<times> modifier_group list) option"
  | OptionToggled modifier_group jstr | OptionsConfirmed | OptionsClosed | LineChanged jstr bool
  | CreatePressed jstr | RetryPressed jstr | CreateAnswered bool

fun delivery_step :: "delivery_event \<Rightarrow> delivery_dialog \<Rightarrow> delivery_dialog \<times> delivery_entry list" where
  "delivery_step DeliveryOpened s = (s\<lparr>dv_open := True\<rparr>, [])"
| "delivery_step (DialogChanged next) s =
     (if dv_running s then s
      else if \<not> next \<and> dv_pending s = None then reset_delivery (s\<lparr>dv_open := next\<rparr>) else s\<lparr>dv_open := next\<rparr>, [])"
| "delivery_step CancelPressed s = (s\<lparr>dv_open := False\<rparr>, [])"
| "delivery_step (ChannelPressed own) s = (if dv_open s then s\<lparr>dv_form := (dv_form s)\<lparr>df_own := own\<rparr>\<rparr> else s, [])"
| "delivery_step (TextTyped w v) s =
     (if dv_open s then s\<lparr>dv_form := (dv_form s)\<lparr>df_texts := (df_texts (dv_form s))(w := v)\<rparr>\<rparr> else s, [])"
| "delivery_step (PaymentPressed p) s = (if dv_open s then s\<lparr>dv_form := (dv_form s)\<lparr>df_payment := p\<rparr>\<rparr> else s, [])"
| "delivery_step DeliveryProductPressed s = (if dv_open s \<and> \<not> dv_detail s then s\<lparr>dv_detail := True\<rparr> else s, [])"
| "delivery_step (DetailCame answer) s = (if dv_detail s then detail_comes answer s else s, [])"
| "delivery_step (OptionToggled g m) s = (case dv_modifierProduct s of None \<Rightarrow> s
     | Some (p, gs) \<Rightarrow> if g \<in> set gs then s\<lparr>dv_selected := toggleModifierSelection (dv_selected s) g m\<rparr> else s, [])"
| "delivery_step OptionsConfirmed s = (confirm_modifiers s, [])"
| "delivery_step OptionsClosed s = (s\<lparr>dv_modifierProduct := None, dv_selected := Map.empty\<rparr>, [])"
| "delivery_step (LineChanged i up) s = (if dv_open s
     then s\<lparr>dv_form := (dv_form s)\<lparr>df_lines := changeQuantity i (if up then 1 else - 1) (df_lines (dv_form s))\<rparr>\<rparr> else s, [])"
| "delivery_step (CreatePressed uuid) s =
     (if dv_open s \<and> canSubmit (dv_form s) \<and> \<not> dv_running s then create_order uuid s else (s, []))"
| "delivery_step (RetryPressed uuid) s =
     (if dv_open s \<and> dv_error s \<and> \<not> dv_running s then create_order uuid s else (s, []))"
| "delivery_step (CreateAnswered ok) s =
     (if \<not> dv_running s then (s, [])
      else (if ok then reset_delivery (s\<lparr>dv_running := False, dv_open := False\<rparr>) else s\<lparr>dv_running := False, dv_error := True\<rparr>,
            [OrderEnded ok]))"

section \<open>The inbox\<close>

datatype delivery_status = NewOrder | AcceptedOrder | Preparing | ReadyOrder | Dispatched | Delivered | CancelledOrder | Rejected

definition nextStatus :: "bool \<Rightarrow> delivery_status \<Rightarrow> delivery_status option" where
  "nextStatus takeaway status = (case status of
       AcceptedOrder \<Rightarrow> Some ReadyOrder
     | Preparing \<Rightarrow> Some ReadyOrder
     | ReadyOrder \<Rightarrow> Some (if takeaway then Delivered else Dispatched)
     | Dispatched \<Rightarrow> Some Delivered
     | _ \<Rightarrow> None)"

definition elapsedMinutes :: "int \<Rightarrow> int \<Rightarrow> int" where
  "elapsedMinutes created now = max 0 ((now - created) div 60000)"

datatype urgency_band = NormalUrgency | WarningUrgency | LateUrgency

definition delivery_urgency :: "int \<Rightarrow> urgency_band" where
  "delivery_urgency minutes = (if 25 \<le> minutes then LateUrgency else if 12 \<le> minutes then WarningUrgency else NormalUrgency)"

record inbox_order =
  io_id :: jstr
  io_order_id :: jstr
  io_takeaway :: bool
  io_status :: delivery_status

record inbox =
  ib_accepting :: "inbox_order option"
  ib_rejecting :: "inbox_order option"
  ib_promised :: "jsnum option"
  ib_reason :: jstr
  ib_accept_running :: bool
  ib_reject_running :: bool
  ib_status_running :: bool

definition fresh_inbox :: inbox where
  "fresh_inbox = \<lparr>ib_accepting = None, ib_rejecting = None, ib_promised = Some (Fin 20), ib_reason = [],
     ib_accept_running = False, ib_reject_running = False, ib_status_running = False\<rparr>"

datatype inbox_event = AcceptOpened inbox_order | RejectOpened inbox_order | AcceptDismissed | RejectDismissed
  | PromisedPressed int | PromisedTyped jstr | ReasonEntered jstr | AcceptPressed | RejectPressed | AdvancePressed inbox_order
  | AcceptEnded bool | RejectEnded bool | StatusEnded

datatype inbox_entry = AcceptSent jstr "jsnum option" | RejectSent jstr jstr | StatusSent jstr delivery_status

fun inbox_step :: "(rat \<Rightarrow> jsnum) \<Rightarrow> inbox_event \<Rightarrow> inbox \<Rightarrow> inbox \<times> inbox_entry list" where
  "inbox_step rnd (AcceptOpened o') s =
     (if io_status o' = NewOrder then s\<lparr>ib_promised := Some (Fin 20), ib_accepting := Some o'\<rparr> else s, [])"
| "inbox_step rnd (RejectOpened o') s =
     (if io_status o' = NewOrder then s\<lparr>ib_reason := [], ib_rejecting := Some o'\<rparr> else s, [])"
| "inbox_step rnd AcceptDismissed s = (s\<lparr>ib_accepting := None\<rparr>, [])"
| "inbox_step rnd RejectDismissed s = (s\<lparr>ib_rejecting := None\<rparr>, [])"
| "inbox_step rnd (PromisedPressed m) s = (if ib_accepting s = None \<or> m \<notin> {10, 15, 20, 30} then s
     else s\<lparr>ib_promised := Some (num_of_int m)\<rparr>, [])"
| "inbox_step rnd (PromisedTyped v) s = (if ib_accepting s = None then s
     else s\<lparr>ib_promised := (let ds = filter is_digit v in if ds = [] then None else Some (rnd (of_nat (digits_value ds))))\<rparr>, [])"
| "inbox_step rnd (ReasonEntered v) s = (if ib_rejecting s = None then s else s\<lparr>ib_reason := v\<rparr>, [])"
| "inbox_step rnd AcceptPressed s = (case ib_accepting s of
       Some o' \<Rightarrow> if ib_accept_running s then (s, []) else (s\<lparr>ib_accept_running := True\<rparr>, [AcceptSent (io_id o') (ib_promised s)])
     | None \<Rightarrow> (s, []))"
| "inbox_step rnd RejectPressed s = (case ib_rejecting s of
       Some o' \<Rightarrow> if ib_reject_running s \<or> length (js_trim (ib_reason s)) < 2 then (s, [])
         else (s\<lparr>ib_reject_running := True\<rparr>, [RejectSent (io_id o') (js_trim (ib_reason s))])
     | None \<Rightarrow> (s, []))"
| "inbox_step rnd (AdvancePressed o') s = (case nextStatus (io_takeaway o') (io_status o') of
       Some status \<Rightarrow> if ib_status_running s then (s, []) else (s\<lparr>ib_status_running := True\<rparr>, [StatusSent (io_id o') status])
     | None \<Rightarrow> (s, []))"
| "inbox_step rnd (AcceptEnded ok) s =
     (if ok then s\<lparr>ib_accept_running := False, ib_accepting := None\<rparr> else s\<lparr>ib_accept_running := False\<rparr>, [])"
| "inbox_step rnd (RejectEnded ok) s =
     (if ok then s\<lparr>ib_reject_running := False, ib_rejecting := None, ib_reason := []\<rparr> else s\<lparr>ib_reject_running := False\<rparr>, [])"
| "inbox_step rnd StatusEnded s = (s\<lparr>ib_status_running := False\<rparr>, [])"

text \<open>The slip of the courier: the second print of an order is a reprint.\<close>

definition courier_job :: "(jsnum \<Rightarrow> jstr) \<Rightarrow> jstr \<Rightarrow> jstr \<Rightarrow> json option list \<Rightarrow> json" where
  "courier_job str_of orderId uuid payloads =
     (let again = list_ex (\<lambda>p. role_word str_of (member ''type'' p) = js ''COURIER'') payloads in
      JObj [(js ''order_id'', JStr orderId),
        (js ''payload'', JObj [(js ''type'', JStr (js ''COURIER'')), (js ''order_id'', JStr orderId)]),
        (js ''kind'', JStr (js (if again then ''REPRINT'' else ''ORIGINAL''))),
        (js ''idempotency_key'', JStr (if again then js ''courier-reprint:'' @ orderId @ js '':'' @ uuid
           else js ''courier-original:'' @ orderId))])"

section \<open>An order is made once, as it was entered\<close>

fun posted :: "delivery_entry \<Rightarrow> (jstr \<times> jobj) option" where
  "posted (OrderPosted key body) = Some (key, body)"
| "posted (OrderEnded ok) = None"

fun fresh_intent :: "delivery_event \<Rightarrow> jstr list" where
  "fresh_intent (CreatePressed uuid) = [js ''manual-'' @ uuid]"
| "fresh_intent (RetryPressed uuid) = [js ''manual-'' @ uuid]"
| "fresh_intent e = []"

lemma put_product_simps [simp]: "dv_pending (put_product p ms s) = dv_pending s" "dv_error (put_product p ms s) = dv_error s"
  "dv_running (put_product p ms s) = dv_running s"
  by (simp_all add: put_product_def)

lemma detail_simps [simp]: "dv_pending (detail_comes a s) = dv_pending s" "dv_error (detail_comes a s) = dv_error s"
  by (simp_all add: detail_comes_def Let_def split: option.split)

lemma confirm_simps [simp]: "dv_pending (confirm_modifiers s) = dv_pending s" "dv_error (confirm_modifiers s) = dv_error s"
  by (simp_all add: confirm_modifiers_def Let_def split: option.split)

lemma create_order_cases:
  obtains key body where "create_order uuid s = (s\<lparr>dv_pending := Some (key, body), dv_running := True, dv_error := False\<rparr>, [OrderPosted key body])"
    "dv_pending s = Some (key, body) \<or> dv_pending s = None \<and> key = js ''manual-'' @ uuid \<and> body = delivery_body (dv_form s)"
  by (cases "dv_pending s") (auto simp: create_order_def)

interpretation delivery_key: keyed_until_success delivery_step dv_pending fst posted "\<lambda>x. x = OrderEnded True" fresh_intent
proof unfold_locales
  show "keyed_step fst posted (\<lambda>x. x = OrderEnded True) (fresh_intent e) (dv_pending s) (snd (delivery_step e s))
     (dv_pending (fst (delivery_step e s)))" for e s
  proof (cases e)
    case (CreatePressed uuid)
    then show ?thesis by (cases rule: create_order_cases [of uuid s]) (auto simp: keyed_step_def)
  next
    case (RetryPressed uuid)
    then show ?thesis by (cases rule: create_order_cases [of uuid s]) (auto simp: keyed_step_def)
  next
    case (CreateAnswered ok)
    then show ?thesis by (cases ok) (auto simp: keyed_step_def reset_delivery_def)
  next
    case (OptionToggled g m)
    then show ?thesis by (auto simp: keyed_step_def split: option.split)
  qed (auto simp: keyed_step_def reset_delivery_def)
  show "dv_pending (fst (delivery_step e s)) = Some k"
    if "dv_pending s = Some k" "list_all (\<lambda>x. x \<noteq> OrderEnded True) (snd (delivery_step e s))" for s k e
    using that by (cases e; cases k) (auto simp: create_order_def reset_delivery_def split: option.split if_splits)
qed

text \<open>The kept order was entered completely, and there is one whenever a retry is offered.\<close>

definition delivery_ok :: "delivery_dialog \<Rightarrow> bool" where
  "delivery_ok s \<longleftrightarrow> (\<forall>k b. dv_pending s = Some (k, b) \<longrightarrow> (\<exists>f. canSubmit f \<and> b = delivery_body f))
     \<and> (dv_error s \<longrightarrow> dv_pending s \<noteq> None) \<and> (dv_running s \<longrightarrow> dv_pending s \<noteq> None \<and> \<not> dv_error s)"

lemma create_ok: "delivery_ok s \<Longrightarrow> canSubmit (dv_form s) \<or> dv_pending s \<noteq> None \<Longrightarrow> delivery_ok (fst (create_order uuid s))"
  by (cases rule: create_order_cases [of uuid s]) (auto simp: delivery_ok_def)

lemma step_delivery_ok: "delivery_ok s \<Longrightarrow> delivery_ok (fst (delivery_step e s))"
proof (cases e)
  case (CreatePressed uuid)
  assume "delivery_ok s"
  with CreatePressed create_ok show ?thesis by simp
next
  case (RetryPressed uuid)
  assume ok: "delivery_ok s"
  show ?thesis
  proof (cases "dv_open s \<and> dv_error s \<and> \<not> dv_running s")
    case True
    then have "dv_pending s \<noteq> None" using ok by (simp add: delivery_ok_def)
    with True RetryPressed ok create_ok show ?thesis by simp
  next
    case False
    with RetryPressed ok show ?thesis by auto
  qed
next
  case (OptionToggled g m)
  assume "delivery_ok s"
  with OptionToggled show ?thesis by (auto simp: delivery_ok_def split: option.split)
qed (auto simp: delivery_ok_def reset_delivery_def detail_comes_def confirm_modifiers_def Let_def put_product_def split: option.splits if_splits)

lemma posted_complete:
  assumes "delivery_ok s" and "OrderPosted k b \<in> set (snd (delivery_step e s))"
  shows "\<exists>f. canSubmit f \<and> b = delivery_body f"
proof -
  have "dv_pending (fst (delivery_step e s)) = Some (k, b)"
    using assms(2) by (cases e) (auto simp: create_order_def split: if_splits option.splits)
  then show ?thesis using step_delivery_ok [OF assms(1), of e] by (auto simp: delivery_ok_def)
qed

text \<open>C16: A telephone order is made once and as it was complete. Every order the dialog sends was, when it was first sent,
  an order with items and, for a delivery, with street, city and district. Whatever is edited, closed and retried,
  two requests carry the same key exactly when no success lies between them, and then they are the same order.\<close>

theorem delivery_order_once:
  assumes "trace_run delivery_step events fresh_delivery = (s, entries)" and "distinct (concat (map fresh_intent events))"
  shows "(OrderPosted k b \<in> set entries \<longrightarrow> (\<exists>f. canSubmit f \<and> b = delivery_body f))
    \<and> (entries = xs @ OrderPosted k b # ys @ OrderPosted k' b' # zs \<longrightarrow>
        (k = k' \<longleftrightarrow> OrderEnded True \<notin> set ys) \<and> (k = k' \<longrightarrow> b = b'))"
proof (intro conjI impI)
  assume "OrderPosted k b \<in> set entries"
  then have "OrderPosted k b \<in> set (snd (trace_run delivery_step events fresh_delivery))" using assms(1) by simp
  from trace_entry [OF this] obtain es e fs
    where "OrderPosted k b \<in> set (snd (delivery_step e (fst (trace_run delivery_step es fresh_delivery))))" by blast
  moreover have "delivery_ok (fst (trace_run delivery_step es fresh_delivery))"
    by (rule trace_run_invariant) (auto simp: step_delivery_ok, simp add: delivery_ok_def fresh_delivery_def)
  ultimately show "\<exists>f. canSubmit f \<and> b = delivery_body f" using posted_complete by blast
next
  have none: "dv_pending fresh_delivery = None" by (simp add: fresh_delivery_def)
  assume "entries = xs @ OrderPosted k b # ys @ OrderPosted k' b' # zs"
  then have "snd (trace_run delivery_step events fresh_delivery) = xs @ OrderPosted k b # ys @ OrderPosted k' b' # zs"
    using assms(1) by simp
  from delivery_key.same_key_iff [OF this _ _ assms(2)] none
  have "(k = k' \<longleftrightarrow> list_all (\<lambda>w. w \<noteq> OrderEnded True) ys) \<and> (k = k' \<longleftrightarrow> (k, b) = (k', b'))" by auto
  then show "k = k' \<longleftrightarrow> OrderEnded True \<notin> set ys" "k = k' \<Longrightarrow> b = b'" by (auto simp: list_all_iff)
qed

section \<open>Two callers\<close>

definition demo_soup :: delivery_product where
  "demo_soup = \<lparr>vp_id = js ''soup'', vp_category = js ''c'', vp_name = js ''Soup'', vp_selling_price = AText (js ''4.00''),
     vp_is_available = True\<rparr>"

definition demo_stew :: delivery_product where
  "demo_stew = demo_soup\<lparr>vp_id := js ''stew''\<rparr>"

definition ordered :: "delivery_product \<Rightarrow> delivery_form" where
  "ordered p = fresh_form\<lparr>df_lines := [\<lparr>vl_id = vp_id p, vl_product = p, vl_quantity = 1, vl_modifiers = []\<rparr>]\<rparr>"

definition demo_call :: "delivery_event list" where
  "demo_call = [DeliveryOpened, DeliveryProductPressed, DetailCame (Some (demo_soup, [])), CreatePressed (js ''1'')]"

definition demo_next_call :: "delivery_event list" where
  "demo_next_call = [CreateAnswered False, CancelPressed, DeliveryOpened, LineChanged (js ''soup'') False,
     DeliveryProductPressed, DetailCame (Some (demo_stew, [])), CreatePressed (js ''2''), CreateAnswered True]"

lemmas demo_delivery = demo_call_def demo_next_call_def fresh_delivery_def detail_comes_def put_product_def addProduct_def
  delivery_line_id_def create_order_def canSubmit_def needsAddress_def reset_delivery_def changeQuantity_def fresh_form_def
  ordered_def sort_cmp_def

lemma demo_ids [simp]: "vp_id demo_soup = js ''soup''" "vp_id demo_stew = js ''stew''"
  by (simp_all add: demo_soup_def demo_stew_def)

lemma demo_called: "\<exists>s. trace_run delivery_step demo_call fresh_delivery = (s, [OrderPosted (js ''manual-1'') (delivery_body (ordered demo_soup))])"
  by (simp add: demo_delivery Let_def) (simp add: js_def)

theorem delivery_order_once_witness:
  "\<exists>s entries. trace_run delivery_step demo_call fresh_delivery = (s, entries)
     \<and> OrderPosted (js ''manual-1'') (delivery_body (ordered demo_soup)) \<in> set entries
     \<and> (\<exists>f. canSubmit f \<and> delivery_body (ordered demo_soup) = delivery_body f)"
proof -
  obtain s where run: "trace_run delivery_step demo_call fresh_delivery = (s, [OrderPosted (js ''manual-1'') (delivery_body (ordered demo_soup))])"
    using demo_called by blast
  have "distinct (concat (map fresh_intent demo_call))" by (simp add: demo_call_def)
  from delivery_order_once [OF run this, of "js ''manual-1''" "delivery_body (ordered demo_soup)"] run show ?thesis by auto
qed

text \<open>An order that failed is kept whatever the failure was. When the next caller's order is entered in its place, it is the
  first one that is sent, and its success clears the form.\<close>

lemma next_caller_gets_first_order:
  "\<exists>s. trace_run delivery_step (demo_call @ demo_next_call) fresh_delivery
     = (s, [OrderPosted (js ''manual-1'') (delivery_body (ordered demo_soup)), OrderEnded False,
         OrderPosted (js ''manual-1'') (delivery_body (ordered demo_soup)), OrderEnded True])
     \<and> df_lines (dv_form s) = []"
  "df_lines (dv_form (fst (trace_run delivery_step (demo_call @ take 6 demo_next_call) fresh_delivery))) = df_lines (ordered demo_stew)"
  by (simp_all add: demo_delivery Let_def) (simp_all add: js_def)

section \<open>Moving an order along\<close>

text \<open>The inbox only moves an order to the next status, and every order that is moved along is delivered in at most three
  moves.\<close>

lemma inbox_moves:
  assumes "StatusSent i status \<in> set (snd (inbox_step rnd e s))"
  shows "\<exists>o'. e = AdvancePressed o' \<and> i = io_id o' \<and> nextStatus (io_takeaway o') (io_status o') = Some status"
  using assms by (cases e) (auto split: option.splits if_splits)

fun move_along :: "nat \<Rightarrow> bool \<Rightarrow> delivery_status \<Rightarrow> delivery_status" where
  "move_along 0 takeaway status = status"
| "move_along (Suc n) takeaway status = (case nextStatus takeaway status of None \<Rightarrow> status | Some next \<Rightarrow> move_along n takeaway next)"

lemma delivered_in_three: "nextStatus takeaway status \<noteq> None \<Longrightarrow> move_along 3 takeaway status = Delivered"
  by (cases status) (simp_all add: nextStatus_def numeral_3_eq_3)

lemma rejection_has_reason: "RejectSent i why \<in> set (snd (inbox_step rnd e s)) \<Longrightarrow> 2 \<le> length why"
  by (cases e) (auto split: option.splits if_splits)

end
