(* ===== verification/System_Status.thy ===== *)
theory System_Status
  imports Auth_Routes
begin

text \<open>
  The system status page of the platform, \<open>apps/web/src/app/super-admin/system/status/route.ts\<close>: who may read it, the
  four probes it makes and what it reports of them. The URL parser for Redis, the clock and the events of the socket are
  given by \<open>probe_env\<close>. The probes run side by side; the calls to the API are numbered in the order in which they
  start, and as only the probe of the print bridges reads the session, running them one after the other in this
  order is no loss.
\<close>

section \<open>Data\<close>

datatype health_state = Healthy | Degraded | Offline | Unknown

definition state_name :: "health_state \<Rightarrow> jstr" where
  "state_name s = (case s of Healthy \<Rightarrow> js ''healthy'' | Degraded \<Rightarrow> js ''degraded'' | Offline \<Rightarrow> js ''offline''
     | Unknown \<Rightarrow> js ''unknown'')"

record service_health =
  sh_id :: jstr
  sh_name :: jstr
  sh_state :: health_state
  sh_summary :: jstr
  sh_detail :: jstr
  sh_latencyMs :: "int option"
  sh_observedAt :: jstr
  sh_endpointLabel :: jstr
  sh_metadata :: "jobj option"

record redis_url =
  ru_protocol :: jstr
  ru_hostname :: jstr
  ru_port :: jstr
  ru_username :: jstr
  ru_password :: jstr

datatype socket_event = SocketConnected | SocketData jstr | SocketTimeout | SocketError | SocketEnd | CallerAborted

datatype probe_clock = ApiClock | PostgresClock | RedisClock | BridgeClock

text \<open>\<open>pe_clock\<close> holds the readings of \<open>performance.now\<close> around a probe, \<open>pe_aborted\<close> says that the request was aborted before the probe of Redis started, and \<open>pe_socket\<close> is what
  happens on its socket.\<close>

record probe_env =
  pe_web :: webenv
  pe_checkedAt :: jstr
  pe_clock :: "probe_clock \<Rightarrow> rat \<times> rat"
  pe_redis_url :: "jstr \<Rightarrow> redis_url option"
  pe_aborted :: bool
  pe_socket :: "socket_event list"

text \<open>\<open>Math.max(0, Math.round(end - start))\<close>.\<close>

definition latency :: "probe_env \<Rightarrow> probe_clock \<Rightarrow> int" where
  "latency E c = (let (start, stop) = pe_clock E c in max 0 \<lfloor>stop - start + 1 / 2\<rfloor>)"

definition service :: "probe_env \<Rightarrow> string \<Rightarrow> string \<Rightarrow> health_state \<Rightarrow> jstr \<Rightarrow> jstr \<Rightarrow> int option \<Rightarrow> jstr \<Rightarrow> jobj option \<Rightarrow> service_health" where
  "service E i name state summary detail ms label metadata = \<lparr>sh_id = js i, sh_name = js name, sh_state = state,
     sh_summary = summary, sh_detail = detail, sh_latencyMs = ms, sh_observedAt = pe_checkedAt E, sh_endpointLabel = label,
     sh_metadata = metadata\<rparr>"

definition unknownService :: "probe_env \<Rightarrow> string \<Rightarrow> string \<Rightarrow> string \<Rightarrow> string \<Rightarrow> service_health" where
  "unknownService E i name detail label =
     service E i name Unknown (jt ''Prob yap~iland~ir~ilmad~i'') (jt detail) None (js label) None"

section \<open>Who may read\<close>

definition strings_of :: "json option \<Rightarrow> jstr list" where
  "strings_of v = (case v of Some (JArr vs) \<Rightarrow> concat (map (\<lambda>x. case x of JStr s \<Rightarrow> [s] | _ \<Rightarrow> []) vs) | _ \<Rightarrow> [])"

definition may_read_health :: "json option \<Rightarrow> bool" where
  "may_read_health body = (let record = asRecord body; permissions = strings_of (opt_fld record ''permissions'') in
     opt_fld record ''is_super_admin'' = Some (JBool True)
     \<or> js ''*'' \<in> set permissions \<or> js ''platform.system.read'' \<in> set permissions)"

definition authorizePlatformHealthRead :: "webenv \<Rightarrow> ('z sweb_scheme, web_response option) io" where
  "authorizePlatformHealthRead W =
     io_bind (authenticatedBackendFetch W (js ''auth/me'') get_init None) (\<lambda>response.
       io_ret (if \<not> rs_ok response then Some (backendErrorResponse response)
         else if \<not> may_read_health (body_json (rs_body response))
         then Some (apiErrorResponse 403 ''permission_denied''
            ''Sistem sa~gl~ik verilerini g~or~unt~uleme yetkiniz bulunmuyor.'' None)
         else None))"

section \<open>The API and its database\<close>

text \<open>\<open>replace(/\/api\/v\d+\/?$/i, "/")\<close> on the segments of a path.\<close>

definition version_segment :: "jstr \<Rightarrow> bool" where
  "version_segment s \<longleftrightarrow> (case s of [] \<Rightarrow> False | c # ds \<Rightarrow> c \<in> {118, 86} \<and> ds \<noteq> [] \<and> list_all is_digit ds)"

definition api_segment :: "jstr \<Rightarrow> bool" where
  "api_segment s \<longleftrightarrow> to_lower s = js ''api''"

definition strip_version :: "jstr list \<Rightarrow> jstr list" where
  "strip_version path = (let ps = (if path \<noteq> [] \<and> last path = [] then butlast path else path) in
     case rev ps of
       v # a # rest \<Rightarrow> if version_segment v \<and> api_segment a then rev rest @ [[]] else path
     | _ \<Rightarrow> path)"

definition buildPlatformEndpoint :: "webenv \<Rightarrow> string \<Rightarrow> url option" where
  "buildPlatformEndpoint W path =
     (let configured = first_of (getenv W ''BACKEND_API_URL'') (first_of (getenv W ''DIXORA_API_URL'')
          (first_of (getenv W ''NEXT_PUBLIC_API_URL'')
            (if getenv W ''NODE_ENV'' = Some (js ''production'') then None else Some (js ''http://127.0.0.1:8000/api/v1/'')))) in
      if \<not> truthy configured then None
      else case parse_url W (the configured) of
          None \<Rightarrow> None
        | Some u \<Rightarrow>
            let apiUrl = ensureTrailingSlash (u\<lparr>u_search := [], u_path := strip_version (u_path u)\<rparr>) in
            Some (apiUrl\<lparr>u_path := resolve_path (u_path apiUrl) (js path)\<rparr>))"

definition fetchProbe :: "url \<Rightarrow> ('z web_scheme, jstr + web_response) io" where
  "fetchProbe target = io_try (web_fetch target get_init) (\<lambda>response. io_ret (Inr response))
     (\<lambda>e. io_ret (Inl (if e = aborted then jt ''Sa~gl~ik probu zaman a~s~im~ina u~grad~i.''
        else jt ''Sa~gl~ik endpointine ba~glant~i kurulamad~i.'')))"

definition api_healthy :: "web_response \<Rightarrow> bool" where
  "api_healthy response \<longleftrightarrow> rs_ok response
     \<and> opt_fld (asRecord (body_json (rs_body response))) ''status'' \<in> {Some (JStr (js ''ok'')), Some (JStr (js ''healthy''))}"

definition api_report :: "probe_env \<Rightarrow> jstr + web_response \<Rightarrow> service_health" where
  "api_report E probe = (case probe of
       Inl e \<Rightarrow> service E ''api'' ''Dixora API'' Offline (jt ''API yan~it vermiyor'') e (Some (latency E ApiClock))
         (js ''GET /health'') None
     | Inr response \<Rightarrow>
         let payload = asRecord (body_json (rs_body response)); healthy = api_healthy response in
         service E ''api'' ''Dixora API'' (if healthy then Healthy else Degraded)
           (jt (if healthy then ''API eri~silebilir'' else ''API beklenmeyen yan~it verdi''))
           (if healthy then jt ''Uygulama liveness kontrol~u ba~sar~il~i.''
            else jt ''Sa~gl~ik endpointi HTTP '' @ int_text (rs_status response) @ jt '' d~ond~urd~u.'')
           (Some (latency E ApiClock)) (js ''GET /health'')
           (Some [(js ''service'', JStr (case opt_fld payload ''service'' of Some (JStr s) \<Rightarrow> s | _ \<Rightarrow> js ''dixora-api'')),
              (js ''httpStatus'', JNum (num_of_int (rs_status response)))]))"

definition probeApi :: "probe_env \<Rightarrow> ('z web_scheme, service_health) io" where
  "probeApi E = (case buildPlatformEndpoint (pe_web E) ''health'' of
       None \<Rightarrow> io_ret (unknownService E ''api'' ''Dixora API'' ''API sa~gl~ik adresi yap~iland~ir~ilmam~i~s.'' ''GET /health'')
     | Some target \<Rightarrow> io_bind (fetchProbe target) (\<lambda>probe. io_ret (api_report E probe)))"

definition database_ready :: "web_response \<Rightarrow> bool" where
  "database_ready response \<longleftrightarrow> opt_fld (asRecord (body_json (rs_body response))) ''database'' = Some (JBool True)"

definition postgresql_report :: "probe_env \<Rightarrow> jstr + web_response \<Rightarrow> service_health" where
  "postgresql_report E probe = (case probe of
       Inl e \<Rightarrow> service E ''postgresql'' ''PostgreSQL'' Offline (jt ''Veritaban~i do~grulanamad~i'') e
         (Some (latency E PostgresClock)) (js ''GET /ready'') None
     | Inr response \<Rightarrow>
         let ready = database_ready response in
         service E ''postgresql'' ''PostgreSQL'' (if ready then Healthy else Degraded)
           (jt (if ready then ''Ba~glant~i haz~ir'' else ''Ba~glant~i haz~ir de~gil''))
           (jt (if ready then ''API veritaban~i pingini ba~sar~iyla tamamlad~i.''
              else ''Readiness kontrol~u veritaban~i ba~glant~is~in~i do~grulayamad~i.''))
           (Some (latency E PostgresClock)) (js ''GET /ready'')
           (Some [(js ''database'', JBool ready), (js ''httpStatus'', JNum (num_of_int (rs_status response)))]))"

definition probePostgresql :: "probe_env \<Rightarrow> ('z web_scheme, service_health) io" where
  "probePostgresql E = (case buildPlatformEndpoint (pe_web E) ''ready'' of
       None \<Rightarrow> io_ret (unknownService E ''postgresql'' ''PostgreSQL'' ''API readiness adresi yap~iland~ir~ilmam~i~s.'' ''GET /ready'')
     | Some target \<Rightarrow> io_bind (fetchProbe target) (\<lambda>probe. io_ret (postgresql_report E probe)))"

section \<open>Redis\<close>

text \<open>What the runtime writes for a string: UTF-8, with the replacement character for a lone surrogate.\<close>

fun wire_points :: "jstr \<Rightarrow> nat list" where
  "wire_points [] = []"
| "wire_points (c # cs) =
     (if 0xD800 \<le> c \<and> c \<le> 0xDBFF
      then (case cs of
              d # ds \<Rightarrow> if 0xDC00 \<le> d \<and> d \<le> 0xDFFF
                then (0x10000 + (c - 0xD800) * 0x400 + (d - 0xDC00)) # wire_points ds else 0xFFFD # wire_points cs
            | [] \<Rightarrow> [0xFFFD])
      else if 0xDC00 \<le> c \<and> c \<le> 0xDFFF then 0xFFFD # wire_points cs
      else c # wire_points cs)"

definition wire_bytes :: "jstr \<Rightarrow> nat list" where
  "wire_bytes s = concat (map utf8 (wire_points s))"

text \<open>\<open>decodeURIComponent\<close>; \<open>None\<close> when it throws.\<close>

definition hex_value :: "nat \<Rightarrow> nat option" where
  "hex_value c = (if is_digit c then Some (c - 48) else if 65 \<le> c \<and> c \<le> 70 then Some (c - 55)
     else if 97 \<le> c \<and> c \<le> 102 then Some (c - 87) else None)"

definition percent_byte :: "jstr \<Rightarrow> (nat \<times> jstr) option" where
  "percent_byte s = (case s of
       c # a # b # r \<Rightarrow> if c \<noteq> 37 then None else (case (hex_value a, hex_value b) of
           (Some x, Some y) \<Rightarrow> Some (16 * x + y, r) | _ \<Rightarrow> None)
     | _ \<Rightarrow> None)"

fun continuation_bytes :: "nat \<Rightarrow> nat \<Rightarrow> jstr \<Rightarrow> (nat \<times> jstr) option" where
  "continuation_bytes 0 p s = Some (p, s)"
| "continuation_bytes (Suc n) p s = (case percent_byte s of
       Some (b, r) \<Rightarrow> if 128 \<le> b \<and> b < 192 then continuation_bytes n (64 * p + (b - 128)) r else None
     | None \<Rightarrow> None)"

definition valid_point :: "nat \<Rightarrow> (nat \<times> jstr) option \<Rightarrow> (nat \<times> jstr) option" where
  "valid_point least x = (case x of
       Some (p, r) \<Rightarrow> if least \<le> p \<and> p \<le> 0x10FFFF \<and> \<not> (0xD800 \<le> p \<and> p \<le> 0xDFFF) then Some (p, r) else None
     | None \<Rightarrow> None)"

definition percent_point :: "jstr \<Rightarrow> (nat \<times> jstr) option" where
  "percent_point s = (case percent_byte s of
       None \<Rightarrow> None
     | Some (b, r) \<Rightarrow>
         if b < 0x80 then Some (b, r)
         else if 0xC0 \<le> b \<and> b < 0xE0 then valid_point 0x80 (continuation_bytes 1 (b - 0xC0) r)
         else if 0xE0 \<le> b \<and> b < 0xF0 then valid_point 0x800 (continuation_bytes 2 (b - 0xE0) r)
         else if 0xF0 \<le> b \<and> b < 0xF8 then valid_point 0x10000 (continuation_bytes 3 (b - 0xF0) r)
         else None)"

lemma percent_byte_shorter: "percent_byte s = Some (b, r) \<Longrightarrow> length r < length s"
  by (auto simp: percent_byte_def split: list.splits if_splits option.splits)

lemma continuation_shorter: "continuation_bytes n p s = Some (q, r) \<Longrightarrow> length r \<le> length s"
  by (induction n p s rule: continuation_bytes.induct)
    (fastforce dest: percent_byte_shorter split: option.splits prod.splits if_splits)+

lemma percent_point_shorter: "percent_point s = Some (p, r) \<Longrightarrow> length r < length s"
  by (fastforce simp: percent_point_def valid_point_def dest: percent_byte_shorter continuation_shorter
      split: option.splits prod.splits if_splits)

definition utf16 :: "nat \<Rightarrow> jstr" where
  "utf16 p = (if p < 0x10000 then [p] else [0xD800 + (p - 0x10000) div 0x400, 0xDC00 + (p - 0x10000) mod 0x400])"

function decodeURIComponent :: "jstr \<Rightarrow> jstr option" where
  "decodeURIComponent s = (case s of
       [] \<Rightarrow> Some []
     | c # cs \<Rightarrow>
         if c \<noteq> 37 then map_option ((#) c) (decodeURIComponent cs)
         else (case percent_point s of None \<Rightarrow> None | Some (p, r) \<Rightarrow> map_option ((@) (utf16 p)) (decodeURIComponent r)))"
  by pat_completeness auto

termination by (relation "measure length") (auto dest: percent_point_shorter)

declare decodeURIComponent.simps [simp del]

definition bulk_string :: "jstr \<Rightarrow> jstr" where
  "bulk_string part = 36 # nat_digits (length (wire_bytes part)) @ [13, 10] @ part @ [13, 10]"

definition encodeRedisCommand :: "jstr list \<Rightarrow> jstr" where
  "encodeRedisCommand parts = 42 # nat_digits (length parts) @ [13, 10] @ concat (map bulk_string parts)"

record redis_result =
  rr_ok :: bool
  rr_reachable :: bool
  rr_message :: jstr

record redis_probe =
  rp_received :: jstr
  rp_written :: "jstr list"
  rp_result :: "redis_result option"
  rp_uncaught :: bool

definition fresh_probe :: redis_probe where
  "fresh_probe = \<lparr>rp_received = [], rp_written = [], rp_result = None, rp_uncaught = False\<rparr>"

definition finish :: "bool \<Rightarrow> bool \<Rightarrow> string \<Rightarrow> redis_probe \<Rightarrow> redis_probe" where
  "finish ok reachable message s = s\<lparr>rp_result := Some \<lparr>rr_ok = ok, rr_reachable = reachable, rr_message = jt message\<rparr>\<rparr>"

text \<open>The handler of \<open>connect\<close> runs outside the promise: what it throws is an uncaught exception of the process.\<close>

definition on_connect :: "redis_url \<Rightarrow> redis_probe \<Rightarrow> redis_probe" where
  "on_connect target s =
     (case (decodeURIComponent (or_else (Some (ru_username target)) (js ''default'')), decodeURIComponent (ru_password target)) of
        (Some username, Some password) \<Rightarrow> s\<lparr>rp_written := rp_written s
          @ (if password = [] then [] else [encodeRedisCommand [js ''AUTH'', username, password]])
          @ [encodeRedisCommand [js ''PING'']]\<rparr>
      | _ \<Rightarrow> s\<lparr>rp_uncaught := True\<rparr>)"

definition on_data :: "jstr \<Rightarrow> redis_probe \<Rightarrow> redis_probe" where
  "on_data chunk s = (let s' = s\<lparr>rp_received := rp_received s @ chunk\<rparr> in
     if contains (rp_received s') (js ''+PONG'') then finish True True ''Redis PING yan~it~i al~ind~i.'' s'
     else if contains (rp_received s') (js ''-'') then finish False True
       ''Redis eri~silebilir ancak kimlik do~grulama veya PING iste~gini reddetti.'' s'
     else s')"

definition socket_step :: "redis_url \<Rightarrow> socket_event \<Rightarrow> redis_probe \<Rightarrow> redis_probe" where
  "socket_step target ev s =
     (if rp_result s \<noteq> None then s
      else case ev of
        SocketConnected \<Rightarrow> on_connect target s
      | SocketData chunk \<Rightarrow> on_data chunk s
      | SocketTimeout \<Rightarrow> finish False False ''Redis PING probu zaman a~s~im~ina u~grad~i.'' s
      | SocketError \<Rightarrow> finish False False ''Redis ba~glant~is~i kurulamad~i.'' s
      | SocketEnd \<Rightarrow> finish False True ''Redis ba~glant~is~i PONG yan~it~i vermeden kapand~i.'' s
      | CallerAborted \<Rightarrow> finish False False ''Redis probu istemci taraf~indan iptal edildi.'' s)"

definition redis_run :: "redis_url \<Rightarrow> socket_event list \<Rightarrow> redis_probe \<Rightarrow> redis_probe" where
  "redis_run target events s = fold (socket_step target) events s"

definition redisPing :: "probe_env \<Rightarrow> redis_url \<Rightarrow> redis_result option" where
  "redisPing E target =
     (if pe_aborted E
      then rp_result (finish False False ''Redis probu istemci taraf~indan iptal edildi.'' fresh_probe)
      else rp_result (redis_run target (pe_socket E) fresh_probe))"

definition configured_redis :: "webenv \<Rightarrow> jstr" where
  "configured_redis W = (case first_of (getenv W ''DIXORA_REDIS_URL'') (getenv W ''REDIS_URL'') of
       Some u \<Rightarrow> u
     | None \<Rightarrow> if getenv W ''NODE_ENV'' = Some (js ''production'') then js ''redis://redis:6379/0'' else js ''redis://127.0.0.1:6379/0'')"

definition redis_report :: "probe_env \<Rightarrow> redis_url \<Rightarrow> redis_result \<Rightarrow> service_health" where
  "redis_report E target result =
     (let label = js ''PING '' @ ru_hostname target @ js '':'' @ or_else (Some (ru_port target)) (js ''6379'');
          ms = Some (latency E RedisClock) in
      if rr_ok result
      then service E ''redis'' ''Redis'' Healthy (jt ''PING yan~it~i al~ind~i'')
        (jt ''Redis ba~glant~is~i web BFF d~u~g~um~unden do~gruland~i.'') ms label None
      else service E ''redis'' ''Redis'' (if rr_reachable result then Degraded else Offline)
        (jt (if rr_reachable result then ''Redis probu reddedildi'' else ''Redis yan~it vermiyor''))
        (rr_message result) ms label None)"

text \<open>\<open>None\<close>: the promise never settles.\<close>

definition probeRedis :: "probe_env \<Rightarrow> service_health option" where
  "probeRedis E = (case pe_redis_url E (configured_redis (pe_web E)) of
       None \<Rightarrow> Some (unknownService E ''redis'' ''Redis'' ''Redis prob adresi ge~cersiz.'' ''PING Redis'')
     | Some target \<Rightarrow>
         if ru_protocol target \<noteq> js ''redis:''
         then Some (unknownService E ''redis'' ''Redis'' ''Bu adapter yaln~iz redis:// PING probunu destekliyor.'' ''PING Redis'')
         else map_option (redis_report E target) (redisPing E target))"

section \<open>The print bridges\<close>

definition readCount :: "json option \<Rightarrow> int option" where
  "readCount v = (case v of Some (JNum n) \<Rightarrow> if is_safe_integer n \<and> 0 \<le> int_of_num n then Some (int_of_num n) else None | _ \<Rightarrow> None)"

definition bridge_state :: "int \<Rightarrow> int \<Rightarrow> health_state" where
  "bridge_state total_count online = (if total_count = 0 then Unknown else if online = total_count then Healthy
     else if 0 < online then Degraded else Offline)"

definition bridge_service :: "probe_env \<Rightarrow> health_state \<Rightarrow> jstr \<Rightarrow> jstr \<Rightarrow> jobj option \<Rightarrow> service_health" where
  "bridge_service E state summary detail metadata = service E ''print-bridge'' ''Print Bridge'' state summary detail
     (Some (latency E BridgeClock)) (js ''GET /printing/platform/bridges/summary'') metadata"

definition bridge_counts :: "probe_env \<Rightarrow> int \<Rightarrow> int \<Rightarrow> int \<Rightarrow> service_health" where
  "bridge_counts E total_count online offline =
     (let state = bridge_state total_count online in
      bridge_service E state
        (jt (if total_count = 0 then ''Yap~iland~ir~ilmad~i''
          else case state of Healthy \<Rightarrow> ''T~um yerel bridge'ler ~cevrimi~ci''
            | Degraded \<Rightarrow> ''Yerel bridge'lerin bir b~ol~um~u ~cevrimi~ci'' | _ \<Rightarrow> ''Kay~itl~i yerel bridge ~cevrimd~i~s~i''))
        (if total_count = 0 then jt ''Hen~uz hi~cbir i~sletme Print Bridge ba~glamad~i.''
         else int_text online @ jt '' ~cevrimi~ci, '' @ int_text offline @ jt '' ~cevrimd~i~s~i yerel bridge bildirildi.'')
        (Some [(js ''totalBridges'', JNum (num_of_int total_count)), (js ''onlineBridges'', JNum (num_of_int online)),
           (js ''offlineBridges'', JNum (num_of_int offline))]))"

definition bridge_report :: "probe_env \<Rightarrow> web_response \<Rightarrow> service_health" where
  "bridge_report E response =
     (if \<not> rs_ok response
      then bridge_service E Unknown (jt ''Heartbeat ~ozeti do~grulanamad~i'')
        (jt ''Bridge ~ozeti HTTP '' @ int_text (rs_status response) @ jt '' d~ond~urd~u.'') None
      else let payload = asRecord (body_json (rs_body response)) in
        case (readCount (opt_fld payload ''total_bridges''), readCount (opt_fld payload ''online_bridges''),
              readCount (opt_fld payload ''offline_bridges'')) of
          (Some total_count, Some online, Some offline) \<Rightarrow> bridge_counts E total_count online offline
        | _ \<Rightarrow> bridge_service E Unknown (jt ''Heartbeat ~ozeti ge~cersiz'')
            (jt ''API, Print Bridge adetlerini beklenen bi~cimde d~ond~urmedi.'') None)"

definition probePrintBridge :: "probe_env \<Rightarrow> ('z sweb_scheme, service_health) io" where
  "probePrintBridge E =
     io_try (authenticatedBackendFetch (pe_web E) (js ''printing/platform/bridges/summary'') get_init None)
       (\<lambda>response. io_ret (bridge_report E response))
       (\<lambda>e. io_ret (bridge_service E Unknown (jt ''Heartbeat ~ozeti al~inamad~i'')
          (jt ''Yerel Print Bridge kay~itlar~i API ~uzerinden okunamad~i.'') None))"

section \<open>The snapshot\<close>

definition service_json :: "service_health \<Rightarrow> json" where
  "service_json s = JObj ([(js ''id'', JStr (sh_id s)), (js ''name'', JStr (sh_name s)), (js ''state'', JStr (state_name (sh_state s))),
     (js ''summary'', JStr (sh_summary s)), (js ''detail'', JStr (sh_detail s)),
     (js ''latencyMs'', case sh_latencyMs s of None \<Rightarrow> JNull | Some ms \<Rightarrow> JNum (num_of_int ms)),
     (js ''observedAt'', JStr (sh_observedAt s)), (js ''endpointLabel'', JStr (sh_endpointLabel s))]
     @ opt_member ''metadata'' (map_option JObj (sh_metadata s)))"

definition limitations :: "string list" where
  "limitations = [''PostgreSQL durumu API /ready yan~it~indaki ba~glant~i pinginden t~uretilir.'',
     ''Redis durumu web sunucusundan g~onderilen salt-okunur PING probudur.'',
     ''Print Bridge durumu merkezi bir container probu de~gildir; i~sletmelerin kendi yerel agent'lar~indan gelen heartbeat ~ozetidir.'']"

definition snapshot_json :: "probe_env \<Rightarrow> service_health list \<Rightarrow> json" where
  "snapshot_json E services = JObj [(js ''checkedAt'', JStr (pe_checkedAt E)), (js ''services'', JArr (map service_json services)),
     (js ''adapter'', JObj [(js ''source'', JStr (js ''live-probes'')), (js ''limitations'', JArr (map (\<lambda>s. JStr (jt s)) limitations))])]"

definition await_redis :: "probe_env \<Rightarrow> ('w, service_health) io" where
  "await_redis E = (\<lambda>w. (case probeRedis E of Some s \<Rightarrow> Ok s | None \<Rightarrow> Stop, w))"

definition status_probes :: "probe_env \<Rightarrow> ('z sweb_scheme, web_response) io" where
  "status_probes E =
     io_bind (probeApi E) (\<lambda>api. io_bind (probePostgresql E) (\<lambda>postgresql. io_bind (probePrintBridge E) (\<lambda>printBridge.
       io_bind (await_redis E) (\<lambda>redis.
         io_ret (response_json (snapshot_json E [api, postgresql, redis, printBridge]) 200 no_store)))))"

definition status_GET :: "probe_env \<Rightarrow> ('z sweb_scheme, web_response) io" where
  "status_GET E = guarded_route
     (io_bind (authorizePlatformHealthRead (pe_web E)) (\<lambda>denied. case denied of
        Some answer \<Rightarrow> io_ret answer
      | None \<Rightarrow> status_probes E))"

section \<open>Decoding what was encoded\<close>

lemma hex_value_digit: "n < 16 \<Longrightarrow> hex_value (hex_digit n) = Some n"
  by (auto simp: hex_value_def hex_digit_def is_digit_def)

lemma percent_byte_percent: "b < 256 \<Longrightarrow> percent_byte (percent b @ r) = Some (b, r)"
proof -
  assume "b < 256"
  then have "b div 16 < 16" by auto
  then show ?thesis by (simp add: percent_byte_def percent_def hex_value_digit)
qed

lemma continuation_percent: "b < 64 \<Longrightarrow>
  continuation_bytes (Suc n) p (percent (128 + b) @ r) = continuation_bytes n (64 * p + b) r"
  by (simp add: percent_byte_percent)

text \<open>A code point of a string without lone surrogates.\<close>

definition scalar :: "nat \<Rightarrow> bool" where
  "scalar p \<longleftrightarrow> p \<le> 0x10FFFF \<and> \<not> (0xD800 \<le> p \<and> p \<le> 0xDFFF)"

lemma sextets: "64 * (64 * (p div 4096) + p div 64 mod 64) + p mod 64 = p"
  "64 * (64 * (64 * (p div 262144) + p div 4096 mod 64) + p div 64 mod 64) + p mod 64 = p" for p :: nat
proof -
  have "p div 4096 = p div 64 div 64" "p div 262144 = p div 64 div 64 div 64" by (simp_all add: div_mult2_eq [symmetric])
  then show "64 * (64 * (p div 4096) + p div 64 mod 64) + p mod 64 = p"
    "64 * (64 * (64 * (p div 262144) + p div 4096 mod 64) + p div 64 mod 64) + p mod 64 = p"
    by (simp_all only: mult_div_mod_eq)
qed

lemma sextets_sum: "4096 * (p div 4096) + 64 * (p div 64 mod 64) + p mod 64 = p"
  "262144 * (p div 262144) + 4096 * (p div 4096 mod 64) + 64 * (p div 64 mod 64) + p mod 64 = p" for p :: nat
  using sextets [of p] by simp_all

lemma percent_point_utf8:
  assumes "scalar p"
  shows "percent_point (concat (map percent (utf8 p)) @ r) = Some (p, r)"
proof -
  have mod64: "n mod 64 < 64" for n :: nat by simp
  note steps = percent_point_def percent_byte_percent continuation_percent [OF mod64] valid_point_def utf8_def numeral_2_eq_2
    numeral_3_eq_3 One_nat_def sextets sextets_sum
  consider "p < 0x80" | "0x80 \<le> p" "p < 0x800" | "0x800 \<le> p" "p < 0x10000" | "0x10000 \<le> p" by linarith
  then show ?thesis
  proof cases
    case 1
    then show ?thesis by (simp add: steps)
  next
    case 2
    then have "p div 64 < 32" by auto
    with 2 show ?thesis using assms by (simp add: steps scalar_def del: continuation_bytes.simps(2)) 
  next
    case 3
    then have "p div 4096 < 16" by auto
    with 3 show ?thesis using assms by (simp add: steps scalar_def del: continuation_bytes.simps(2)) 
  next
    case 4
    have "p div 262144 < 8" using assms by (auto simp: scalar_def)
    with 4 show ?thesis using assms by (simp add: steps scalar_def del: continuation_bytes.simps(2)) 
  qed
qed

lemma decode_plain: "c \<noteq> 37 \<Longrightarrow> decodeURIComponent (c # cs) = map_option ((#) c) (decodeURIComponent cs)"
  by (subst decodeURIComponent.simps) simp

lemma decode_percent: "percent_point (37 # cs) = Some (p, r) \<Longrightarrow>
  decodeURIComponent (37 # cs) = map_option ((@) (utf16 p)) (decodeURIComponent r)"
  by (subst decodeURIComponent.simps) simp

lemma decode_point:
  assumes "scalar p"
  shows "decodeURIComponent (encode_point p @ r) = map_option ((@) (utf16 p)) (decodeURIComponent r)"
proof (cases "unreserved p")
  case True
  then have "p \<noteq> 37" "p < 65536" by (auto simp: unreserved_def is_digit_def)
  moreover from this have "utf16 p = [p]" by (simp add: utf16_def)
  moreover have "(@) [p] = (#) p" by auto
  ultimately show ?thesis using True by (simp add: encode_point_def decode_plain)
next
  case False
  obtain b where b: "concat (map percent (utf8 p)) = 37 # b" by (cases "utf8 p") (auto simp: percent_def utf8_def split: if_splits)
  have "percent_point (37 # b @ r) = Some (p, r)" using percent_point_utf8 [OF assms, of r] unfolding b by simp
  with False b decode_percent show ?thesis by (simp add: encode_point_def)
qed

lemma decode_encoded: "list_all scalar ps \<Longrightarrow> decodeURIComponent (encoded ps) = Some (concat (map utf16 ps))"
  by (induction ps) (simp_all add: decodeURIComponent.simps [of "[]"] decode_point)

lemma surrogate_pair:
  assumes "55296 \<le> c" "56320 \<le> d" "d \<le> 57343"
  shows "utf16 (9216 + ((c - 55296) * 1024 + d)) = [c, d]"
proof -
  have "(c - 55296) * 1024 + d - 56320 = (d - 56320) + (c - 55296) * 1024" using assms by simp
  then have "((c - 55296) * 1024 + d - 56320) div 1024 = c - 55296" "((c - 55296) * 1024 + d - 56320) mod 1024 = d - 56320"
    using assms by (simp_all only: div_mult_self1 mod_mult_self1) auto
  with assms show ?thesis by (simp add: utf16_def)
qed

lemma code_points_scalar:
  "code_points s = Some ps \<Longrightarrow> \<forall>c\<in>set s. c < 65536 \<Longrightarrow> list_all scalar ps \<and> concat (map utf16 ps) = s"
proof (induction s arbitrary: ps rule: code_points.induct)
  case (2 c cs)
  then show ?case
    by (auto split: if_splits list.splits option.splits simp: scalar_def surrogate_pair) (simp_all add: utf16_def)
qed simp

lemma decode_encode:
  assumes "encodeURIComponent s = Inr t" and "\<forall>c\<in>set s. c < 65536"
  shows "decodeURIComponent t = Some s"
proof -
  obtain ps where "code_points s = Some ps" "t = encoded ps"
    using assms(1) by (auto simp: encodeURIComponent_def encoded_def throw_def split: option.splits)
  with code_points_scalar assms(2) decode_encoded show ?thesis by metis
qed

section \<open>Commands as Redis reads them\<close>

text \<open>The server's side of the protocol RESP, on bytes: an array of bulk strings.\<close>

definition resp_number :: "nat \<Rightarrow> nat list \<Rightarrow> (nat \<times> nat list) option" where
  "resp_number tag bs = (case bs of
       [] \<Rightarrow> None
     | b # r \<Rightarrow> let ds = takeWhile is_digit r; t = dropWhile is_digit r in
         if b = tag \<and> ds \<noteq> [] \<and> take 2 t = [13, 10] then Some (digits_value ds, drop 2 t) else None)"

fun resp_bulks :: "nat \<Rightarrow> nat list \<Rightarrow> (nat list list \<times> nat list) option" where
  "resp_bulks 0 bs = Some ([], bs)"
| "resp_bulks (Suc n) bs = (case resp_number 36 bs of
       None \<Rightarrow> None
     | Some (k, r) \<Rightarrow> if k \<le> length r \<and> take 2 (drop k r) = [13, 10]
         then map_option (\<lambda>(parts, rest). (take k r # parts, rest)) (resp_bulks n (drop (k + 2) r)) else None)"

definition resp_command :: "nat list \<Rightarrow> (nat list list \<times> nat list) option" where
  "resp_command bs = (case resp_number 42 bs of None \<Rightarrow> None | Some (n, r) \<Rightarrow> resp_bulks n r)"

text \<open>The commands in a stream that holds at most \<open>n\<close> of them.\<close>

fun resp_stream :: "nat \<Rightarrow> nat list \<Rightarrow> nat list list list option" where
  "resp_stream 0 bs = (if bs = [] then Some [] else None)"
| "resp_stream (Suc n) bs = (if bs = [] then Some [] else case resp_command bs of
       None \<Rightarrow> None | Some (c, r) \<Rightarrow> map_option ((#) c) (resp_stream n r))"

lemma resp_number_text: "resp_number tag (tag # nat_digits n @ 13 # 10 # r) = Some (n, r)"
proof -
  have "list_all is_digit (nat_digits n)" using nat_digits_are_digits by (simp add: list_all_iff)
  then have "takeWhile is_digit (nat_digits n @ 13 # 10 # r) = nat_digits n"
    "dropWhile is_digit (nat_digits n @ 13 # 10 # r) = 13 # 10 # r"
    by (simp_all add: takeWhile_append2 dropWhile_append2 list_all_iff is_digit_def)
  then show ?thesis by (simp add: resp_number_def Let_def)
qed

lemma wire_points_append:
  "(case b of [] \<Rightarrow> True | d # _ \<Rightarrow> d < 0xDC00) \<Longrightarrow> wire_points (a @ b) = wire_points a @ wire_points b"
proof (induction a rule: wire_points.induct)
  case (2 c cs)
  show ?case
  proof (cases cs)
    case Nil
    with 2 show ?thesis by (cases b) simp_all
  next
    case (Cons d ds)
    with 2 show ?thesis by (simp del: wire_points.simps) (simp add: wire_points.simps(2) [of c] del: wire_points.simps)
  qed
qed simp

lemma wire_append: "d < 0x80 \<Longrightarrow> wire_bytes (a @ d # b) = wire_bytes a @ d # wire_bytes b"
  by (simp add: wire_bytes_def wire_points_append utf8_def)

lemma wire_ascii_append: "list_all (\<lambda>c. c < 0x80) a \<Longrightarrow> wire_bytes (a @ b) = a @ wire_bytes b"
  by (induction a) (simp_all add: wire_bytes_def utf8_def)

lemma wire_ascii_simps [simp]: "c < 0x80 \<Longrightarrow> wire_bytes (c # s) = c # wire_bytes s" "wire_bytes [] = []"
  by (simp_all add: wire_bytes_def utf8_def)

lemma digits_ascii: "list_all (\<lambda>c. c < 0x80) (nat_digits n)"
  using nat_digits_are_digits [of n] by (auto simp: list_all_iff is_digit_def)

lemma wire_bulk: "wire_bytes (bulk_string part @ rest)
    = 36 # nat_digits (length (wire_bytes part)) @ 13 # 10 # wire_bytes part @ 13 # 10 # wire_bytes rest"
  by (simp add: bulk_string_def wire_ascii_append [OF digits_ascii] wire_append)

lemma resp_bulks_wire:
  "resp_bulks (length parts) (wire_bytes (concat (map bulk_string parts)) @ rest) = Some (map wire_bytes parts, rest)"
  by (induction parts) (simp_all add: wire_bulk resp_number_text)

lemma resp_command_wire: "resp_command (wire_bytes (encodeRedisCommand parts) @ rest) = Some (map wire_bytes parts, rest)"
  by (simp add: encodeRedisCommand_def resp_command_def wire_ascii_append [OF digits_ascii] resp_number_text resp_bulks_wire)

lemma command_nonempty: "wire_bytes (encodeRedisCommand parts) \<noteq> []"
  by (simp add: encodeRedisCommand_def)

lemma resp_stream_wire:
  "length commands \<le> n \<Longrightarrow> resp_stream n (concat (map (\<lambda>c. wire_bytes (encodeRedisCommand c)) commands))
     = Some (map (map wire_bytes) commands)"
proof (induction commands arbitrary: n)
  case (Cons c cs)
  then obtain m where "n = Suc m" "length cs \<le> m" by (cases n) auto
  with Cons.IH show ?case using command_nonempty by (simp add: resp_command_wire)
qed (case_tac n; simp)

text \<open>C20: The probe sends Redis the commands it means and nothing else. Whatever characters the password and the user name in
  the configured address encode (line ends and surrogate pairs included), what the probe writes when it is connected is
  read by the server as exactly one authentication with these two and one ping.\<close>

theorem redis_login_exact:
  assumes "encodeURIComponent user = Inr (ru_username target)" and "encodeURIComponent secret = Inr (ru_password target)"
    and "user \<noteq> []" and "secret \<noteq> []" and "\<forall>c\<in>set user \<union> set secret. c < 65536"
  shows "resp_stream 2 (concat (map wire_bytes (rp_written (on_connect target fresh_probe))))
    = Some [[wire_bytes (js ''AUTH''), wire_bytes user, wire_bytes secret], [wire_bytes (js ''PING'')]]"
proof -
  have "ru_username target \<noteq> []"
    using assms(1,3) by (auto simp: encodeURIComponent_def throw_def encoded_def [symmetric] split: option.splits dest: code_points_Nil)
  then have "decodeURIComponent (or_else (Some (ru_username target)) (js ''default'')) = Some user"
    "decodeURIComponent (ru_password target) = Some secret"
    using decode_encode [OF assms(1)] decode_encode [OF assms(2)] assms(5) by (simp_all add: or_else_def)
  then have "rp_written (on_connect target fresh_probe)
      = map encodeRedisCommand [[js ''AUTH'', user, secret], [js ''PING'']]"
    using assms(4) by (simp add: on_connect_def fresh_probe_def)
  then show ?thesis
    using resp_stream_wire [of "[[js ''AUTH'', user, secret], [js ''PING'']]" 2] by (simp add: comp_def)
qed

section \<open>What the answers of Redis mean\<close>

lemma redis_run_settled: "rp_result s \<noteq> None \<Longrightarrow> redis_run target events s = s"
  by (induction events arbitrary: s) (auto simp: redis_run_def socket_step_def)

lemma redis_run_Cons: "redis_run target (e # es) s = redis_run target es (socket_step target e s)"
  by (simp add: redis_run_def)

lemma on_connect_simps [simp]: "rp_result (on_connect target s) = rp_result s" "rp_received (on_connect target s) = rp_received s"
  by (simp_all add: on_connect_def split: option.split)

lemma finish_simps [simp]: "rp_result (finish a b m s) = Some \<lparr>rr_ok = a, rr_reachable = b, rr_message = jt m\<rparr>"
  by (simp add: finish_def)

text \<open>The chunks of a reply, read until it is decided.\<close>

lemma contains_prefix: "contains s p \<Longrightarrow> contains (s @ t) p"
proof (induction s)
  case Nil
  then have "p = []" by (simp add: contains_Nil)
  then show ?case by (cases t) (simp_all add: contains_Nil contains_Cons starts_with_def)
next
  case (Cons a s)
  have "starts_with (u @ t) p" if "starts_with u p" for u
  proof -
    have "u = p @ drop (length p) u" using that unfolding starts_with_def by (metis append_take_drop_id)
    then have "u @ t = p @ drop (length p) u @ t" by simp
    then show ?thesis unfolding starts_with_def by (metis append_eq_conv_conj)
  qed
  from this [of "a # s"] Cons show ?case by (auto simp: contains_Cons)
qed

lemma contains_minus: "contains s (js ''-'') \<longleftrightarrow> 45 \<in> set s"
proof -
  have "js ''-'' = [45]" by (simp add: js_def)
  then show ?thesis by (simp add: contains_unit)
qed

lemma chunks_pong:
  assumes "45 \<notin> set (rp_received s @ concat chunks)" and "contains (rp_received s @ concat chunks) (js ''+PONG'')"
    and "rp_result s = None" and "\<not> contains (rp_received s) (js ''+PONG'')"
  shows "\<exists>m. rp_result (redis_run target (map SocketData chunks @ rest) s) = Some \<lparr>rr_ok = True, rr_reachable = True, rr_message = m\<rparr>"
  using assms
proof (induction chunks arbitrary: s)
  case (Cons c cs)
  show ?case
  proof (cases "contains (rp_received s @ c) (js ''+PONG'')")
    case True
    with Cons.prems(3) show ?thesis by (simp add: redis_run_Cons socket_step_def on_data_def Let_def redis_run_settled)
  next
    case False
    with Cons.IH [of "s\<lparr>rp_received := rp_received s @ c\<rparr>"] Cons.prems show ?thesis
      by (simp add: redis_run_Cons socket_step_def on_data_def Let_def contains_minus)
  qed
qed simp

lemma chunks_refused:
  assumes "45 \<in> set (rp_received s @ concat chunks)" and "\<not> contains (rp_received s @ concat chunks) (js ''+PONG'')"
    and "rp_result s = None" and "45 \<notin> set (rp_received s)"
  shows "\<exists>m. rp_result (redis_run target (map SocketData chunks @ rest) s) = Some \<lparr>rr_ok = False, rr_reachable = True, rr_message = m\<rparr>"
  using assms
proof (induction chunks arbitrary: s)
  case (Cons c cs)
  have "\<not> contains (rp_received s @ c) (js ''+PONG'')" using Cons.prems(2) contains_prefix [of "rp_received s @ c"] by auto
  moreover note Cons.IH [of "s\<lparr>rp_received := rp_received s @ c\<rparr>"] Cons.prems
  ultimately show ?case
    by (cases "45 \<in> set c") (simp_all add: redis_run_Cons socket_step_def on_data_def Let_def contains_minus redis_run_settled)
qed simp

text \<open>How the reply of Redis is cut into chunks does not matter as long as it is not mixed. A reply with a pong and without a
  minus sign is reported as healthy, one with a minus sign and without a pong as refused, whatever comes later on
  the socket.\<close>

theorem redis_reply_read:
  assumes "\<not> pe_aborted E" and "pe_socket E = SocketConnected # map SocketData chunks @ rest"
  shows "(45 \<notin> set (concat chunks) \<and> contains (concat chunks) (js ''+PONG'') \<longrightarrow>
        map_option (\<lambda>r. sh_state (redis_report E target r)) (redisPing E target) = Some Healthy)
    \<and> (45 \<in> set (concat chunks) \<and> \<not> contains (concat chunks) (js ''+PONG'') \<longrightarrow>
        map_option (\<lambda>r. sh_state (redis_report E target r)) (redisPing E target) = Some Degraded)"
proof (intro conjI impI)
  let ?s = "on_connect target fresh_probe"
  have fresh: "rp_result ?s = None" "rp_received ?s = []" by (simp_all add: fresh_probe_def)
  have run: "redisPing E target = rp_result (redis_run target (map SocketData chunks @ rest) ?s)"
    using assms by (simp add: redisPing_def redis_run_Cons socket_step_def fresh_probe_def)
  have no_pong: "\<not> contains [] (js ''+PONG'')" by (simp add: contains_Cons contains_Nil starts_with_def js_def)
  { assume "45 \<notin> set (concat chunks) \<and> contains (concat chunks) (js ''+PONG'')"
    then obtain m where "redisPing E target = Some \<lparr>rr_ok = True, rr_reachable = True, rr_message = m\<rparr>"
      using chunks_pong [of ?s chunks target rest] fresh no_pong unfolding run by auto
    then show "map_option (\<lambda>r. sh_state (redis_report E target r)) (redisPing E target) = Some Healthy"
      by (simp add: redis_report_def service_def Let_def) }
  { assume "45 \<in> set (concat chunks) \<and> \<not> contains (concat chunks) (js ''+PONG'')"
    then obtain m where "redisPing E target = Some \<lparr>rr_ok = False, rr_reachable = True, rr_message = m\<rparr>"
      using chunks_refused [of ?s chunks target rest] fresh unfolding run by auto
    then show "map_option (\<lambda>r. sh_state (redis_report E target r)) (redisPing E target) = Some Degraded"
      by (simp add: redis_report_def service_def Let_def) }
qed

text \<open>A server without a password answers the authentication with an error and the ping with a pong. Whether that counts as
  healthy depends on how the two arrive.\<close>

lemma mixed_reply_depends_on_chunks:
  defines "refused \<equiv> js ''-ERR''" and "pong \<equiv> js ''+PONG''"
  shows "map_option rr_ok (rp_result (redis_run target [SocketConnected, SocketData (refused @ pong)] fresh_probe)) = Some True"
    and "map_option rr_ok (rp_result (redis_run target [SocketConnected, SocketData refused, SocketData pong] fresh_probe)) = Some False"
  unfolding refused_def pong_def
  by (simp_all add: redis_run_Cons socket_step_def on_data_def Let_def fresh_probe_def contains_minus redis_run_settled)
    (simp_all add: contains_Cons contains_Nil starts_with_def js_def redis_run_def)

text \<open>A password with a malformed escape makes the handler of \<open>connect\<close> throw: nothing is written, and the exception is
  caught by nobody.\<close>

lemma malformed_password_uncaught:
  assumes "ru_password target = js ''%zz''"
  shows "rp_uncaught (on_connect target s) \<and> rp_written (on_connect target s) = rp_written s"
proof -
  have "decodeURIComponent (js ''%zz'') = None"
    by (subst decodeURIComponent.simps) (simp add: js_def percent_point_def percent_byte_def hex_value_def is_digit_def)
  then show ?thesis by (simp add: on_connect_def assms split: option.split)
qed

text \<open>A server that sends anything else, a little at a time, is waited for without end.\<close>

lemma trickle_never_settles: "rp_result (redis_run target (SocketConnected # replicate n (SocketData (js ''x''))) fresh_probe) = None"
proof -
  have "rp_result (redis_run target (replicate n (SocketData (js ''x''))) s) = None"
    if "rp_result s = None" "set (rp_received s) \<subseteq> {120}" for s
    using that
  proof (induction n arbitrary: s)
    case (Suc n)
    have *: "set (rp_received s @ js ''x'') \<subseteq> {120}" using Suc.prems(2) by (simp add: js_def)
    have "\<not> contains t (js ''+PONG'')" if "set t \<subseteq> {120}" for t
      using that by (induction t) (auto simp: contains_Cons contains_Nil starts_with_def js_def)
    then have "\<not> contains (rp_received s @ js ''x'') (js ''+PONG'')" "45 \<notin> set (rp_received s @ js ''x'')" using * by auto
    then show ?case using Suc.IH [of "s\<lparr>rp_received := rp_received s @ js ''x''\<rparr>"] Suc.prems(1) *
      by (simp add: redis_run_Cons socket_step_def on_data_def Let_def contains_minus)
  qed (simp add: redis_run_def)
  then show ?thesis by (simp add: redis_run_Cons socket_step_def) (simp add: fresh_probe_def)
qed

section \<open>Only those who may\<close>

text \<open>No refresh that is remembered as failed was a success.\<close>

definition flights_failed :: "'z sweb_scheme \<Rightarrow> bool" where
  "flights_failed w \<longleftrightarrow> (\<forall>t status b i a. map_of (wb_flights w) t = Some (Inr (RefreshFailed status b i a)) \<longrightarrow>
     \<not> (200 \<le> status \<and> status \<le> 299))"

text \<open>An answer that one of the calls between two worlds received.\<close>

definition answered :: "'z web_scheme \<Rightarrow> 'z web_scheme \<Rightarrow> web_response \<Rightarrow> bool" where
  "answered w w' response \<longleftrightarrow> (\<exists>n. length (wb_calls w) \<le> n \<and> n < length (wb_calls w') \<and> wb_answers w n = Answer response)"

lemma backendFetch_answered:
  assumes "backendFetch W path init search w = (r, w')"
  shows "wb_answers w' = wb_answers w \<and> length (wb_calls w) \<le> length (wb_calls w') \<and> web.more w' = web.more w
    \<and> (\<forall>resp. r = Ok resp \<longrightarrow> answered w w' resp)"
  using assms unfolding answered_def
  by (auto simp: backendFetch_def io_catch_def io_bind_def io_lift_def io_raise_def web_fetch_def Let_def
      split: if_splits sum.splits reply.splits)

lemma answered_widen: "answered w1 w2 r \<Longrightarrow> length (wb_calls w) \<le> length (wb_calls w1) \<Longrightarrow>
  length (wb_calls w2) \<le> length (wb_calls w') \<Longrightarrow> wb_answers w1 = wb_answers w \<Longrightarrow> answered w w' r"
  unfolding answered_def by (metis le_trans less_le_trans)

lemma refreshSession_answered:
  assumes "refreshSession W token w = (r, w')" and "flights_failed w"
  shows "wb_answers w' = wb_answers w \<and> length (wb_calls w) \<le> length (wb_calls w') \<and> r \<noteq> Stop
    \<and> (\<forall>status b i a. r = Ok (RefreshFailed status b i a) \<longrightarrow> \<not> (200 \<le> status \<and> status \<le> 299))"
proof (cases "map_of (wb_flights w) token")
  case None
  obtain r1 w1 where f: "backendFetch W (js ''auth/refresh'') (refresh_init token) None w = (r1, w1)" by fastforce
  have "r1 \<noteq> Stop" using backendFetch_run [OF f] by blast
  moreover have "refresh_outcome_of response = RefreshFailed status b i a \<Longrightarrow> \<not> (200 \<le> status \<and> status \<le> 299)"
    for response status b i a
    by (auto simp: refresh_outcome_of_def Let_def rs_ok_def split: if_splits option.splits)
  ultimately show ?thesis
    using assms None f backendFetch_answered [OF f]
    by (cases r1) (auto simp: refreshSession_def performRefresh_def land_def io_try_def io_bind_def io_seq_def io_upd_def
        io_get_def io_raise_def)
next
  case (Some x)
  moreover have "x = Inr (RefreshFailed status b i a) \<Longrightarrow> \<not> (200 \<le> status \<and> status \<le> 299)" for status b i a
    using assms(2) Some unfolding flights_failed_def by blast
  ultimately show ?thesis using assms(1) by (cases x) (auto simp: refreshSession_def io_lift_def)
qed

lemma authenticated_answered:
  assumes "authenticatedBackendFetch W path init search w = (r, w')" and "flights_failed w"
  shows "wb_answers w' = wb_answers w \<and> r \<noteq> Stop \<and> (\<forall>resp. r = Ok resp \<and> rs_ok resp \<longrightarrow> answered w w' resp)"
proof -
  let ?a = "cookie w ACCESS_TOKEN_COOKIE" and ?t = "cookie w REFRESH_TOKEN_COOKIE"
  obtain r1 w1 where f: "backendFetch W path (withBearerToken init ?a) search w = (r1, w1)" by fastforce
  note first = backendFetch_answered [OF f] and stop = backendFetch_run [OF f]
  note unfold = authenticatedBackendFetch_def io_bind_def io_get_def readAuthCookies_def io_seq_def
  show ?thesis
  proof (cases "\<exists>first rt. r1 = Ok first \<and> rs_status first = 401 \<and> ?t = Some rt \<and> rt \<noteq> []")
    case False
    then show ?thesis using assms f first stop
      by (cases r1; cases ?t) (auto simp: unfold answered_def split: if_splits)
  next
    case True
    then obtain first rt where r1: "r1 = Ok first" "rs_status first = 401" and rt: "?t = Some rt" "rt \<noteq> []" by blast
    obtain r2 w2 where g: "refreshSession W rt w1 = (r2, w2)" by fastforce
    have "flights_failed w1" using assms(2) first by (cases w; cases w1) (simp add: flights_failed_def)
    note second = refreshSession_answered [OF g this]
    have run: "(r, w') = (case r2 of Ok out \<Rightarrow> after_refresh W path init search out w2
        | Exn e \<Rightarrow> (Exn e, w2) | Stop \<Rightarrow> (Stop, w2))"
      using assms f r1 rt g by (simp add: unfold)
    show ?thesis
    proof (cases "\<exists>tokens. r2 = Ok (Refreshed tokens)")
      case True
      then obtain tokens where t: "r2 = Ok (Refreshed tokens)" by blast
      let ?v = "w2\<lparr>wb_set := wb_set w2 @ session_cookies W tokens\<rparr>"
      obtain r3 w3 where h: "backendFetch W path (withBearerToken init (Some (at_accessToken tokens))) search ?v = (r3, w3)"
        by fastforce
      have "r3 \<noteq> Stop" using backendFetch_run [OF h] by blast
      then have same: "wb_answers w' = wb_answers w3" "wb_calls w' = wb_calls w3" "r = r3"
        using run t h by (cases r3; simp add: retry_refreshed_def io_seq_def io_bind_def)+
      have third: "wb_answers w3 = wb_answers ?v" "\<And>resp. r3 = Ok resp \<Longrightarrow> answered ?v w3 resp"
        using backendFetch_answered [OF h] by blast+
      have start: "length (wb_calls w) \<le> length (wb_calls ?v)" "wb_answers ?v = wb_answers w"
        using first second by simp_all
      have "answered w w' resp" if "r = Ok resp" for resp
        using answered_widen [OF third(2) start(1) _ start(2), of resp w'] that same by simp
      with same third start \<open>r3 \<noteq> Stop\<close> show ?thesis by simp
    next
      case False
      then consider status b i a where "r2 = Ok (RefreshFailed status b i a)" | e where "r2 = Exn e" | "r2 = Stop"
        by (cases r2; metis refresh_outcome.exhaust)
      then show ?thesis
        using run second first by cases (auto simp: io_seq_def io_bind_def refreshFailureResponse_def rs_ok_def Let_def)
    qed
  qed
qed

text \<open>How far the calls of a part of the handler go.\<close>

lemma authenticated_calls:
  "authenticatedBackendFetch W path init search w = (r, w') \<Longrightarrow> \<exists>cs. wb_calls w' = wb_calls w @ cs \<and> length cs \<le> 3"
  by (drule authenticated_run) (auto simp: session_result_def)

text \<open>Programs that always end.\<close>

definition ends :: "('w, 'a) io \<Rightarrow> bool" where
  "ends m \<longleftrightarrow> (\<forall>w. fst (m w) \<noteq> Stop)"

lemma ends_try:
  assumes "ends m" and "\<And>x. ends (k x)" and "\<And>e. ends (h e)"
  shows "ends (io_try m k h)"
proof -
  have "fst (io_try m k h w) \<noteq> Stop" for w
  proof (cases "m w")
    case (Pair r w')
    then have "r \<noteq> Stop" using assms(1) unfolding ends_def by (metis fst_conv)
    then show ?thesis using Pair assms(2,3) by (cases r) (simp_all add: io_try_def ends_def)
  qed
  then show ?thesis by (simp add: ends_def)
qed

lemma ends_simps [simp]: "ends (io_ret x)" "ends (io_raise e)" "ends (io_upd f)" "ends (io_get g)" "ends (io_lift r)"
  by (simp_all add: ends_def io_defs split: sum.split)

lemma ends_bind: "ends m \<Longrightarrow> (\<And>x. ends (k x)) \<Longrightarrow> ends (io_bind m k)"
  unfolding io_bind_try by (rule ends_try) simp_all

lemma ends_seq: "ends m \<Longrightarrow> ends k \<Longrightarrow> ends (io_seq m k)"
  unfolding io_seq_def by (rule ends_bind)

lemmas ends_rules = ends_bind ends_try ends_seq

lemma ends_backend: "ends (backendFetch W path init search)"
  unfolding ends_def by (metis backendFetch_run prod.collapse)

lemma ends_authenticated: "ends (authenticatedBackendFetch W path init search)"
proof -
  have "ends (refreshSession W t)" for t unfolding ends_def by (metis refreshSession_run prod.collapse)
  moreover have "ends (setAuthCookies W tokens)" "ends (clear_if W b)" for tokens b by (simp_all add: ends_def)
  moreover have "ends (after_refresh W path init search out)" for out
    by (cases out) (auto simp: retry_refreshed_def intro!: ends_rules ends_backend calculation)
  ultimately show ?thesis
    unfolding authenticatedBackendFetch_def by (auto intro!: ends_rules ends_backend split: prod.split)
qed

lemma authorize_run:
  assumes "authorizePlatformHealthRead W w = (r, w')" and "flights_failed w"
  shows "wb_answers w' = wb_answers w \<and> r \<noteq> Stop \<and> (\<exists>cs. wb_calls w' = wb_calls w @ cs \<and> length cs \<le> 3)
    \<and> (\<forall>answer. r = Ok (Some answer) \<longrightarrow> \<not> rs_ok answer)
    \<and> (r = Ok None \<longrightarrow> (\<exists>answer. answered w w' answer \<and> rs_ok answer \<and> may_read_health (body_json (rs_body answer))))"
proof -
  obtain r1 w1 where f: "authenticatedBackendFetch W (js ''auth/me'') get_init None w = (r1, w1)" by fastforce
  have "w' = w1" using assms f by (cases r1) (auto simp: authorizePlatformHealthRead_def io_bind_def io_ret_def)
  moreover have "\<not> rs_ok (backendErrorResponse response)" if "\<not> rs_ok response" for response
    using that by (simp add: backendErrorResponse_def response_json_def Let_def rs_ok_def)
  moreover have "\<not> rs_ok (apiErrorResponse 403 c m d)" for c m d by (simp add: rs_ok_def)
  ultimately show ?thesis
    using assms(1) f authenticated_answered [OF f assms(2)] authenticated_calls [OF f]
    by (cases r1) (auto simp: authorizePlatformHealthRead_def io_bind_def io_ret_def split: if_splits)
qed

lemma fetchProbe_run: "fetchProbe u w = (r, w') \<Longrightarrow> (\<exists>x. r = Ok x) \<and> (\<exists>cs. wb_calls w' = wb_calls w @ cs \<and> length cs \<le> 1)"
  by (auto simp: fetchProbe_def io_try_def web_fetch_def io_ret_def Let_def split: reply.splits)

lemma probeApi_run: "probeApi E w = (r, w') \<Longrightarrow> (\<exists>x. r = Ok x \<and> sh_id x = js ''api'')
    \<and> (\<exists>cs. wb_calls w' = wb_calls w @ cs \<and> length cs \<le> 1)"
  using fetchProbe_run [of _ w]
  by (fastforce simp: probeApi_def io_bind_def io_ret_def unknownService_def service_def api_report_def Let_def
      split: option.splits prod.splits res.splits sum.splits)

lemma probePostgresql_run: "probePostgresql E w = (r, w') \<Longrightarrow> (\<exists>x. r = Ok x \<and> sh_id x = js ''postgresql'')
    \<and> (\<exists>cs. wb_calls w' = wb_calls w @ cs \<and> length cs \<le> 1)"
  using fetchProbe_run [of _ w]
  by (fastforce simp: probePostgresql_def io_bind_def io_ret_def unknownService_def service_def postgresql_report_def Let_def
      split: option.splits prod.splits res.splits sum.splits)

lemma bridge_service_id [simp]: "sh_id (bridge_service E st a b c) = js ''print-bridge''"
  by (simp add: bridge_service_def service_def)

lemma bridge_report_id [simp]: "sh_id (bridge_report E response) = js ''print-bridge''"
  by (simp add: bridge_report_def bridge_counts_def Let_def split: option.split)

lemma probePrintBridge_run:
  assumes "probePrintBridge E w = (r, w')"
  shows "(\<exists>x. r = Ok x \<and> sh_id x = js ''print-bridge'') \<and> (\<exists>cs. wb_calls w' = wb_calls w @ cs \<and> length cs \<le> 3)"
proof -
  obtain r1 w1 where f: "authenticatedBackendFetch (pe_web E) (js ''printing/platform/bridges/summary'') get_init None w = (r1, w1)"
    by fastforce
  then have "r1 \<noteq> Stop" using ends_authenticated unfolding ends_def by (metis fst_conv)
  with assms f authenticated_calls [OF f] show ?thesis by (cases r1) (auto simp: probePrintBridge_def io_try_def io_ret_def)
qed

lemma probeRedis_id: "probeRedis E = Some x \<Longrightarrow> sh_id x = js ''redis''"
  by (auto simp: probeRedis_def unknownService_def service_def redis_report_def Let_def split: option.splits if_splits)

lemma status_probes_run:
  assumes "status_probes E w = (r, w')"
  shows "(\<exists>cs. wb_calls w' = wb_calls w @ cs \<and> length cs \<le> 5)
    \<and> (case probeRedis E of None \<Rightarrow> r = Stop
        | Some redis \<Rightarrow> \<exists>resp services. r = Ok resp \<and> rs_status resp = 200 \<and> rs_body resp = JsonBody (snapshot_json E services)
            \<and> map sh_id services = map js [''api'', ''postgresql'', ''redis'', ''print-bridge''] \<and> services ! 2 = redis)"
proof -
  obtain r1 w1 where a: "probeApi E w = (r1, w1)" by fastforce
  obtain r2 w2 where p: "probePostgresql E w1 = (r2, w2)" by fastforce
  obtain r3 w3 where b: "probePrintBridge E w2 = (r3, w3)" by fastforce
  obtain x1 c1 where x1: "r1 = Ok x1" "sh_id x1 = js ''api''" "wb_calls w1 = wb_calls w @ c1" "length c1 \<le> 1"
    using probeApi_run [OF a] by blast
  obtain x2 c2 where x2: "r2 = Ok x2" "sh_id x2 = js ''postgresql''" "wb_calls w2 = wb_calls w1 @ c2" "length c2 \<le> 1"
    using probePostgresql_run [OF p] by blast
  obtain x3 c3 where x3: "r3 = Ok x3" "sh_id x3 = js ''print-bridge''" "wb_calls w3 = wb_calls w2 @ c3" "length c3 \<le> 3"
    using probePrintBridge_run [OF b] by blast
  have calls: "wb_calls w3 = wb_calls w @ (c1 @ c2 @ c3)" "length (c1 @ c2 @ c3) \<le> 5" using x1 x2 x3 by simp_all
  have run: "(r, w') = (case probeRedis E of None \<Rightarrow> (Stop, w3)
      | Some x \<Rightarrow> (Ok (response_json (snapshot_json E [x1, x2, x, x3]) 200 no_store), w3))"
    using assms a p b x1(1) x2(1) x3(1)
    by (simp add: status_probes_def io_bind_def await_redis_def io_ret_def split: option.splits)
  show ?thesis
  proof (cases "probeRedis E")
    case None
    with run calls show ?thesis by auto
  next
    case (Some x)
    moreover have "map sh_id [x1, x2, x, x3] = map js [''api'', ''postgresql'', ''redis'', ''print-bridge'']"
      using x1(2) x2(2) x3(2) probeRedis_id [OF Some] by simp
    ultimately show ?thesis
      using run calls by (auto simp: response_json_def intro!: exI [of _ "[x1, x2, x, x3]"] exI [of _ "c1 @ c2 @ c3"])
  qed
qed


section \<open>A platform\<close>

definition demo_redis :: redis_url where
  "demo_redis = \<lparr>ru_protocol = js ''redis:'', ru_hostname = js ''redis'', ru_port = js ''6379'', ru_username = js ''u'',
     ru_password = js ''a%0D%0Ab''\<rparr>"

definition demo_probe :: "socket_event list \<Rightarrow> probe_env" where
  "demo_probe events = \<lparr>pe_web = demo_backend, pe_checkedAt = js ''now'', pe_clock = (\<lambda>_. (0, 12)),
     pe_redis_url = (\<lambda>_. Some demo_redis), pe_aborted = False, pe_socket = events\<rparr>"

lemma demo_secret: "encodeURIComponent [97, 13, 10, 98] = Inr (js ''a%0D%0Ab'')" "encodeURIComponent (js ''u'') = Inr (js ''u'')"
  by (simp_all add: encodeURIComponent_def encode_point_def unreserved_def is_digit_def percent_def hex_digit_def utf8_def js_def)

text \<open>A line end in the password starts no command of its own.\<close>

lemma redis_login_exact_witness:
  "resp_stream 2 (concat (map wire_bytes (rp_written (on_connect demo_redis fresh_probe))))
    = Some [[wire_bytes (js ''AUTH''), wire_bytes (js ''u''), [97, 13, 10, 98]], [wire_bytes (js ''PING'')]]"
proof -
  have "ru_username demo_redis = js ''u''" "ru_password demo_redis = js ''a%0D%0Ab''" by (simp_all add: demo_redis_def)
  with redis_login_exact [of "js ''u''" demo_redis "[97, 13, 10, 98]"] demo_secret show ?thesis by (simp add: js_def)
qed

lemma redis_reply_read_witness:
  "map_option (\<lambda>r. sh_state (redis_report (demo_probe (SocketConnected # map SocketData [js ''+PO'', js ''NG''] @ [SocketEnd])) demo_redis r))
     (redisPing (demo_probe (SocketConnected # map SocketData [js ''+PO'', js ''NG''] @ [SocketEnd])) demo_redis) = Some Healthy"
proof -
  let ?chunks = "[js ''+PO'', js ''NG'']"
  let ?E = "demo_probe (SocketConnected # map SocketData ?chunks @ [SocketEnd])"
  have "\<not> pe_aborted ?E" "pe_socket ?E = SocketConnected # map SocketData ?chunks @ [SocketEnd]"
    by (simp_all add: demo_probe_def)
  moreover have "45 \<notin> set (concat ?chunks)" "contains (concat ?chunks) (js ''+PONG'')"
    by (simp_all add: js_def contains_Cons starts_with_def)
  ultimately show ?thesis using redis_reply_read [of ?E ?chunks "[SocketEnd]" demo_redis] by blast
qed


text \<open>A super administrator gets the snapshot, also when nothing else answers.\<close>

lemma snapshot_for_super_admin:
  "\<exists>resp w'. status_GET (demo_probe [SocketTimeout]) (demo_sweb (\<lambda>n. if n = 0 then
       plain_answer 200 (JsonBody (JObj [(js ''is_super_admin'', JBool True)])) else Broken) []) = (Ok resp, w') \<and> rs_status resp = 200"
proof -
  let ?w = "demo_sweb (\<lambda>n. if n = 0 then plain_answer 200 (JsonBody (JObj [(js ''is_super_admin'', JBool True)])) else Broken) []"
  have "\<exists>u. buildBackendUrl demo_backend (js ''auth/me'') None = Inr u"
    by (simp add: buildBackendUrl_def demo_backend_url Let_def js_def isUnsafeSegment_def encodeURIComponent_def)
  then obtain u where u: "buildBackendUrl demo_backend (js ''auth/me'') None = Inr u" by blast
  obtain w1 where me: "authorizePlatformHealthRead demo_backend ?w = (Ok None, w1)"
    by (simp add: authorizePlatformHealthRead_def authenticatedBackendFetch_def backendFetch_def io_defs readAuthCookies_def
      cookie_def demo_sweb_def web_fetch_def plain_answer_def may_read_health_def rs_ok_def u opt_fld_def Let_def)
  obtain r w' where g: "status_probes (demo_probe [SocketTimeout]) w1 = (r, w')" by fastforce
  obtain redis where "probeRedis (demo_probe [SocketTimeout]) = Some redis"
    by (simp add: probeRedis_def demo_probe_def demo_redis_def redisPing_def redis_run_def socket_step_def fresh_probe_def)
  with status_probes_run [OF g] obtain resp where "r = Ok resp" "rs_status resp = 200" by auto
  with me g show ?thesis by (simp add: status_GET_def guarded_route_def io_catch_def io_bind_def) (simp add: demo_probe_def)
qed

end
