(* ===== verification/Inventory.thy ===== *)
theory Inventory
  imports Till Key_Ref
begin

text \<open>
  The inventory screen, \<open>apps/web/src/components/inventory/inventory-management.tsx\<close>: stock cards, stock movements,
  transfers between branches and recipes, with the four dialogs that change them. The parameters are those of the
  runtime: \<open>rnd\<close> rounds to a double, \<open>str_of\<close> is \<open>String\<close> of a number, \<open>lower\<close> and \<open>compare\<close> are the Turkish
  \<open>toLocaleLowerCase\<close> and \<open>localeCompare\<close>.
\<close>

section \<open>Data\<close>

record stock_response =
  sr_id :: jstr
  sr_name :: jstr
  sr_sku :: "jstr option"
  sr_unit :: jstr
  sr_current_stock :: "amount option"
  sr_minimum_stock :: amount

record stock_item =
  si_id :: jstr
  si_name :: jstr
  si_sku :: "jstr option"
  si_unit :: jstr
  si_current :: amount
  si_minimum :: amount

definition stock_item_of :: "stock_response \<Rightarrow> stock_item" where
  "stock_item_of r = \<lparr>si_id = sr_id r, si_name = sr_name r, si_sku = sr_sku r, si_unit = sr_unit r,
     si_current = (case sr_current_stock r of None \<Rightarrow> ANumber (Fin 0) | Some a \<Rightarrow> a), si_minimum = sr_minimum_stock r\<rparr>"

record recipe_part =
  rp_item :: jstr
  rp_name :: jstr
  rp_quantity :: amount
  rp_unit :: jstr

record stock_recipe =
  rc_id :: jstr
  rc_product_id :: jstr
  rc_product_name :: jstr
  rc_yield :: amount
  rc_parts :: "recipe_part list"

record catalog_product =
  cp_id :: jstr
  cp_name :: jstr
  cp_active :: "bool option"

datatype cell_status = NormalStock | LowStock | OutOfStock

record stock_cell =
  ce_branch :: jstr
  ce_item :: jstr
  ce_status :: cell_status

record overview_item =
  ov_name :: jstr
  ov_sku :: "jstr option"
  ov_category :: "jstr option"
  ov_cells :: "stock_cell list"

text \<open>\<open>unwrap\<close>: a list, or the \<open>items\<close> of an object.\<close>

definition unwrap :: "json \<Rightarrow> json list" where
  "unwrap v = (case v of
       JArr vs \<Rightarrow> vs
     | JObj r \<Rightarrow> (case fld r ''items'' of Some (JArr vs) \<Rightarrow> vs | _ \<Rightarrow> [])
     | _ \<Rightarrow> [])"

definition normalizeDecimal :: "jstr \<Rightarrow> jstr" where
  "normalizeDecimal v = (let t = js_trim v in
     case index_of 44 t of None \<Rightarrow> t | Some i \<Rightarrow> t[i := 46])"

definition compatibleRecipeUnits :: "jstr \<Rightarrow> jstr list option" where
  "compatibleRecipeUnits u = map_of
     [(js ''piece'', [js ''piece'']), (js ''gram'', [js ''gram'', js ''kilogram'']), (js ''kilogram'', [js ''gram'', js ''kilogram'']),
      (js ''milliliter'', [js ''milliliter'', js ''liter'']), (js ''liter'', [js ''milliliter'', js ''liter''])] u"

definition defaultRecipeUnit :: "jstr \<Rightarrow> jstr" where
  "defaultRecipeUnit u = (if u = js ''kilogram'' then js ''gram'' else if u = js ''liter'' then js ''milliliter'' else u)"

section \<open>The lists\<close>

definition is_low :: "(rat \<Rightarrow> jsnum) \<Rightarrow> stock_item \<Rightarrow> bool" where
  "is_low rnd i \<longleftrightarrow> num_le (to_number rnd (si_current i)) (to_number rnd (si_minimum i))"

definition is_healthy :: "(rat \<Rightarrow> jsnum) \<Rightarrow> stock_item \<Rightarrow> bool" where
  "is_healthy rnd i \<longleftrightarrow> num_less (to_number rnd (si_minimum i)) (to_number rnd (si_current i))"

datatype stock_filter = AllStock | LowOnly | HealthyOnly

definition status_rank :: "(rat \<Rightarrow> jsnum) \<Rightarrow> stock_item \<Rightarrow> int" where
  "status_rank rnd i = (if num_le (to_number rnd (si_current i)) (Fin 0) then 0 else if is_low rnd i then 1 else 2)"

definition shelf_cmp :: "(rat \<Rightarrow> jsnum) \<Rightarrow> (jstr \<Rightarrow> jstr \<Rightarrow> int) \<Rightarrow> stock_item \<Rightarrow> stock_item \<Rightarrow> int" where
  "shelf_cmp rnd compare l r = (let d = status_rank rnd l - status_rank rnd r in if d \<noteq> 0 then d else compare (si_name l) (si_name r))"

definition filteredItems ::
  "(rat \<Rightarrow> jsnum) \<Rightarrow> (jstr \<Rightarrow> jstr) \<Rightarrow> (jstr \<Rightarrow> jstr \<Rightarrow> int) \<Rightarrow> jstr \<Rightarrow> stock_filter \<Rightarrow> stock_item list \<Rightarrow> stock_item list" where
  "filteredItems rnd lower compare search f items = sort_cmp (shelf_cmp rnd compare)
     (filter (\<lambda>i. contains (lower (si_name i @ js '' '' @ (case si_sku i of None \<Rightarrow> [] | Some s \<Rightarrow> s))) (lower search)
        \<and> (case f of AllStock \<Rightarrow> True | LowOnly \<Rightarrow> is_low rnd i | HealthyOnly \<Rightarrow> is_healthy rnd i)) items)"

definition overview_rows ::
  "(jstr \<Rightarrow> jstr) \<Rightarrow> jstr \<Rightarrow> jstr \<Rightarrow> jstr \<Rightarrow> stock_filter \<Rightarrow> overview_item list \<Rightarrow> overview_item list" where
  "overview_rows lower search branch category f items = (let term = lower (js_trim search) in
     filter (\<lambda>i. (term = [] \<or> contains (lower (ov_name i @ js '' '' @ (case ov_sku i of None \<Rightarrow> [] | Some s \<Rightarrow> s) @ js '' ''
           @ (case ov_category i of None \<Rightarrow> [] | Some c \<Rightarrow> c))) term)
       \<and> (category = js ''all'' \<or> ov_category i = Some category)
       \<and> (let critical = list_ex (\<lambda>c. (branch = js ''all'' \<or> ce_branch c = branch) \<and> ce_status c \<noteq> NormalStock) (ov_cells i) in
          case f of AllStock \<Rightarrow> True | LowOnly \<Rightarrow> critical | HealthyOnly \<Rightarrow> \<not> critical)) items)"

section \<open>The dialogs\<close>

datatype movement_type = Purchase | Waste | Adjustment | ReturnedStock | CountCorrection

definition movement_name :: "movement_type \<Rightarrow> jstr" where
  "movement_name t = (case t of Purchase \<Rightarrow> js ''PURCHASE'' | Waste \<Rightarrow> js ''WASTE'' | Adjustment \<Rightarrow> js ''ADJUSTMENT''
     | ReturnedStock \<Rightarrow> js ''RETURN'' | CountCorrection \<Rightarrow> js ''COUNT_CORRECTION'')"

fun num_abs :: "jsnum \<Rightarrow> jsnum" where
  "num_abs (Fin q) = Fin \<bar>q\<bar>"
| "num_abs NInf = PInf"
| "num_abs n = n"

fun num_neg :: "jsnum \<Rightarrow> jsnum" where
  "num_neg (Fin q) = Fin (- q)"
| "num_neg PInf = NInf"
| "num_neg NInf = PInf"
| "num_neg NaN = NaN"

text \<open>\<open>JSON.stringify\<close> writes a number that is not finite as \<open>null\<close>.\<close>

definition num_json :: "jsnum \<Rightarrow> json" where
  "num_json n = (if is_finite n then JNum n else JNull)"

definition quantity_delta :: "(rat \<Rightarrow> jsnum) \<Rightarrow> movement_type \<Rightarrow> jstr \<Rightarrow> jsnum" where
  "quantity_delta rnd t quantity = (let n = str_number rnd quantity in
     case t of Waste \<Rightarrow> num_neg (num_abs n) | Purchase \<Rightarrow> num_abs n | ReturnedStock \<Rightarrow> num_abs n | _ \<Rightarrow> n)"

record item_draft =
  id_name :: jstr
  id_sku :: jstr
  id_category :: jstr
  id_unit :: jstr
  id_minimum :: jstr
  id_target :: jstr
  id_opening :: jstr

definition fresh_item :: item_draft where
  "fresh_item = \<lparr>id_name = [], id_sku = [], id_category = [], id_unit = js ''piece'', id_minimum = js ''0'', id_target = js ''0'',
     id_opening = js ''0''\<rparr>"

record ingredient_draft =
  dr_key :: jstr
  dr_item :: jstr
  dr_quantity :: jstr
  dr_unit :: jstr
  dr_fallback_unit :: "jstr option"

definition new_draft :: "jstr \<Rightarrow> stock_item option \<Rightarrow> ingredient_draft" where
  "new_draft uuid i = \<lparr>dr_key = uuid, dr_item = (case i of None \<Rightarrow> [] | Some x \<Rightarrow> si_id x), dr_quantity = [],
     dr_unit = defaultRecipeUnit (case i of None \<Rightarrow> js ''piece'' | Some x \<Rightarrow> si_unit x), dr_fallback_unit = None\<rparr>"

datatype recipe_error = NoProduct | BadYield | NoParts | MissingItem | RepeatedItem | BadQuantity | SaveFailed jstr

record inventory_screen =
  iv_items :: "stock_item list"
  iv_overview :: "overview_item list"
  iv_products :: "catalog_product list"
  iv_recipes :: "stock_recipe list"
  iv_moveOpen :: bool
  iv_selectedItem :: jstr
  iv_type :: movement_type
  iv_quantity :: jstr
  iv_reason :: jstr
  iv_moving :: bool
  iv_transferOpen :: bool
  iv_source :: jstr
  iv_target :: jstr
  iv_transferQuantity :: jstr
  iv_transferReason :: jstr
  iv_transferring :: bool
  iv_itemOpen :: bool
  iv_draft :: item_draft
  iv_creating :: bool
  iv_recipeOpen :: bool
  iv_editing :: "stock_recipe option"
  iv_product :: jstr
  iv_yield :: jstr
  iv_parts :: "ingredient_draft list"
  iv_formError :: "recipe_error option"
  iv_saving :: bool

definition fresh_inventory :: inventory_screen where
  "fresh_inventory = \<lparr>iv_items = [], iv_overview = [], iv_products = [], iv_recipes = [], iv_moveOpen = False, iv_selectedItem = [],
     iv_type = Adjustment, iv_quantity = [], iv_reason = [], iv_moving = False, iv_transferOpen = False, iv_source = [],
     iv_target = [], iv_transferQuantity = [], iv_transferReason = [], iv_transferring = False, iv_itemOpen = False,
     iv_draft = fresh_item, iv_creating = False, iv_recipeOpen = False, iv_editing = None, iv_product = [], iv_yield = js ''1'',
     iv_parts = [], iv_formError = None, iv_saving = False\<rparr>"

text \<open>Where stock can go: the cells of the same item in the other branches.\<close>

definition transferOptions :: "overview_item list \<Rightarrow> (overview_item \<times> stock_cell) list" where
  "transferOptions items = concat (map (\<lambda>i. map (\<lambda>c. (i, c)) (ov_cells i)) items)"

definition selectedTransferSource :: "inventory_screen \<Rightarrow> (overview_item \<times> stock_cell) option" where
  "selectedTransferSource s = List.find (\<lambda>(i, c). ce_item c = iv_source s) (transferOptions (iv_overview s))"

definition compatibleTransferTargets :: "inventory_screen \<Rightarrow> stock_cell list" where
  "compatibleTransferTargets s = (case selectedTransferSource s of
       None \<Rightarrow> [] | Some (i, c) \<Rightarrow> filter (\<lambda>t. ce_branch t \<noteq> ce_branch c) (ov_cells i))"

definition creatableProducts :: "inventory_screen \<Rightarrow> catalog_product list" where
  "creatableProducts s = filter (\<lambda>p. cp_active p \<noteq> Some False \<and> cp_id p \<notin> rc_product_id ` set (iv_recipes s)) (iv_products s)"

definition openCreateRecipe :: "jstr \<Rightarrow> inventory_screen \<Rightarrow> inventory_screen" where
  "openCreateRecipe uuid s = (case creatableProducts s of
       [] \<Rightarrow> s
     | p # _ \<Rightarrow> s\<lparr>iv_editing := None, iv_product := cp_id p, iv_yield := js ''1'',
         iv_parts := [new_draft uuid (case iv_items s of [] \<Rightarrow> None | i # _ \<Rightarrow> Some i)], iv_formError := None, iv_recipeOpen := True\<rparr>)"

definition edit_draft :: "(jsnum \<Rightarrow> jstr) \<Rightarrow> jstr \<times> recipe_part \<Rightarrow> ingredient_draft" where
  "edit_draft str_of = (\<lambda>(uuid, p). \<lparr>dr_key = uuid, dr_item = rp_item p,
     dr_quantity = (case rp_quantity p of AText t \<Rightarrow> t | ANumber n \<Rightarrow> str_of n), dr_unit = rp_unit p, dr_fallback_unit = Some (rp_unit p)\<rparr>)"

definition openEditRecipe :: "(jsnum \<Rightarrow> jstr) \<Rightarrow> jstr list \<Rightarrow> stock_recipe \<Rightarrow> inventory_screen \<Rightarrow> inventory_screen" where
  "openEditRecipe str_of uuids r s = s\<lparr>iv_editing := Some r, iv_product := rc_product_id r,
     iv_yield := (case rc_yield r of AText t \<Rightarrow> t | ANumber n \<Rightarrow> str_of n),
     iv_parts := (if rc_parts r \<noteq> [] then map (edit_draft str_of) (zip uuids (rc_parts r))
       else map (\<lambda>u. new_draft u (case iv_items s of [] \<Rightarrow> None | i # _ \<Rightarrow> Some i)) (take 1 uuids)),
     iv_formError := None, iv_recipeOpen := True\<rparr>"

definition update_part :: "jstr \<Rightarrow> (ingredient_draft \<Rightarrow> ingredient_draft) \<Rightarrow> inventory_screen \<Rightarrow> inventory_screen" where
  "update_part key f s = s\<lparr>iv_parts := map (\<lambda>d. if dr_key d = key then f d else d) (iv_parts s), iv_formError := None\<rparr>"

definition addRecipeIngredient :: "jstr \<Rightarrow> inventory_screen \<Rightarrow> inventory_screen" where
  "addRecipeIngredient uuid s = s\<lparr>iv_parts := iv_parts s
     @ [new_draft uuid (List.find (\<lambda>i. si_id i \<notin> dr_item ` set (iv_parts s)) (iv_items s))], iv_formError := None\<rparr>"

definition removeRecipeIngredient :: "jstr \<Rightarrow> inventory_screen \<Rightarrow> inventory_screen" where
  "removeRecipeIngredient key s = s\<lparr>iv_parts := filter (\<lambda>d. dr_key d \<noteq> key) (iv_parts s), iv_formError := None\<rparr>"

text \<open>\<open>Number.isFinite(Number(v)) && Number(v) > 0\<close>.\<close>

definition positive_decimal :: "(rat \<Rightarrow> jsnum) \<Rightarrow> jstr \<Rightarrow> bool" where
  "positive_decimal rnd v \<longleftrightarrow> is_finite (str_number rnd v) \<and> num_less (Fin 0) (str_number rnd v)"

definition recipe_problem :: "(rat \<Rightarrow> jsnum) \<Rightarrow> inventory_screen \<Rightarrow> recipe_error option" where
  "recipe_problem rnd s = (let ids = map dr_item (iv_parts s) in
     if iv_product s = [] then Some NoProduct
     else if \<not> positive_decimal rnd (normalizeDecimal (iv_yield s)) then Some BadYield
     else if iv_parts s = [] then Some NoParts
     else if [] \<in> set ids then Some MissingItem
     else if \<not> distinct ids then Some RepeatedItem
     else if list_ex (\<lambda>d. \<not> positive_decimal rnd (normalizeDecimal (dr_quantity d))) (iv_parts s) then Some BadQuantity
     else None)"

record recipe_payload =
  py_product :: jstr
  py_yield :: jstr
  py_items :: "(jstr \<times> jstr \<times> jstr) list"

definition recipe_payload :: "inventory_screen \<Rightarrow> recipe_payload" where
  "recipe_payload s = \<lparr>py_product = iv_product s, py_yield = normalizeDecimal (iv_yield s),
     py_items = map (\<lambda>d. (dr_item d, normalizeDecimal (dr_quantity d), dr_unit d)) (iv_parts s)\<rparr>"

datatype inventory_entry = MovementSent json | TransferSent json | ItemSent json | RecipeSent recipe_payload
  | MovementEnded bool | TransferEnded bool | ItemEnded bool | RecipeEnded bool

definition submitRecipe :: "(rat \<Rightarrow> jsnum) \<Rightarrow> inventory_screen \<Rightarrow> inventory_screen \<times> inventory_entry list" where
  "submitRecipe rnd s = (case recipe_problem rnd s of
       Some e \<Rightarrow> (s\<lparr>iv_formError := Some e\<rparr>, [])
     | None \<Rightarrow> (s\<lparr>iv_formError := None, iv_saving := True\<rparr>, [RecipeSent (recipe_payload s)]))"

definition movement_json :: "(rat \<Rightarrow> jsnum) \<Rightarrow> jstr \<Rightarrow> inventory_screen \<Rightarrow> json" where
  "movement_json rnd uuid s = JObj [(js ''inventory_item_id'', JStr (iv_selectedItem s)), (js ''type'', JStr (movement_name (iv_type s))),
     (js ''quantity_delta'', num_json (quantity_delta rnd (iv_type s) (iv_quantity s))), (js ''reason'', JStr (iv_reason s)),
     (js ''idempotency_key'', JStr uuid)]"

definition transfer_json :: "jstr \<Rightarrow> stock_cell \<Rightarrow> stock_cell \<Rightarrow> inventory_screen \<Rightarrow> json" where
  "transfer_json uuid source target s = JObj [(js ''source_branch_id'', JStr (ce_branch source)),
     (js ''target_branch_id'', JStr (ce_branch target)), (js ''source_inventory_item_id'', JStr (ce_item source)),
     (js ''target_inventory_item_id'', JStr (ce_item target)), (js ''quantity'', JStr (normalizeDecimal (iv_transferQuantity s))),
     (js ''reason'', JStr (js_trim (iv_transferReason s))), (js ''idempotency_key'', JStr uuid)]"

definition null_if_empty :: "jstr \<Rightarrow> json" where
  "null_if_empty s = (if s = [] then JNull else JStr s)"

definition item_json :: "item_draft \<Rightarrow> json" where
  "item_json d = JObj [(js ''name'', JStr (js_trim (id_name d))), (js ''sku'', null_if_empty (js_trim (id_sku d))),
     (js ''category'', null_if_empty (js_trim (id_category d))), (js ''unit'', JStr (id_unit d)),
     (js ''minimum_stock'', JStr (normalizeDecimal (id_minimum d))), (js ''target_stock'', JStr (normalizeDecimal (id_target d))),
     (js ''opening_quantity'', JStr (normalizeDecimal (id_opening d)))]"

text \<open>The buttons of the dialogs.\<close>

definition can_move :: "inventory_screen \<Rightarrow> bool" where
  "can_move s \<longleftrightarrow> iv_moveOpen s \<and> iv_selectedItem s \<noteq> [] \<and> iv_quantity s \<noteq> [] \<and> js_trim (iv_reason s) \<noteq> [] \<and> \<not> iv_moving s"

definition can_transfer :: "(rat \<Rightarrow> jsnum) \<Rightarrow> inventory_screen \<Rightarrow> bool" where
  "can_transfer rnd s \<longleftrightarrow> iv_transferOpen s \<and> iv_target s \<noteq> []
     \<and> \<not> num_le (str_number rnd (normalizeDecimal (iv_transferQuantity s))) (Fin 0)
     \<and> 3 \<le> length (js_trim (iv_transferReason s)) \<and> \<not> iv_transferring s"

definition stock_decimal :: "(rat \<Rightarrow> jsnum) \<Rightarrow> jstr \<Rightarrow> bool" where
  "stock_decimal rnd v \<longleftrightarrow> is_finite (str_number rnd (normalizeDecimal v)) \<and> \<not> num_less (str_number rnd (normalizeDecimal v)) (Fin 0)"

definition can_create :: "(rat \<Rightarrow> jsnum) \<Rightarrow> inventory_screen \<Rightarrow> bool" where
  "can_create rnd s \<longleftrightarrow> iv_itemOpen s \<and> \<not> iv_creating s \<and> js_trim (id_name (iv_draft s)) \<noteq> []
     \<and> stock_decimal rnd (id_minimum (iv_draft s)) \<and> stock_decimal rnd (id_opening (iv_draft s)) \<and> stock_decimal rnd (id_target (iv_draft s))"

definition send_transfer :: "jstr \<Rightarrow> inventory_screen \<Rightarrow> inventory_screen \<times> inventory_entry list" where
  "send_transfer uuid s = (case selectedTransferSource s of
       None \<Rightarrow> (s, [TransferEnded False])
     | Some (i, source) \<Rightarrow> (case List.find (\<lambda>c. ce_item c = iv_target s) (compatibleTransferTargets s) of
         None \<Rightarrow> (s, [TransferEnded False])
       | Some target \<Rightarrow> (s\<lparr>iv_transferring := True\<rparr>, [TransferSent (transfer_json uuid source target s)])))"

definition part_units :: "ingredient_draft \<Rightarrow> inventory_screen \<Rightarrow> jstr list" where
  "part_units d s =
     (let u = (case List.find (\<lambda>i. si_id i = dr_item d) (iv_items s) of Some i \<Rightarrow> si_unit i
          | None \<Rightarrow> (case dr_fallback_unit d of Some f \<Rightarrow> f | None \<Rightarrow> js ''piece'')) in
      case compatibleRecipeUnits u of Some us \<Rightarrow> us | None \<Rightarrow> [dr_unit d])"

definition choose_card :: "jstr \<Rightarrow> stock_item \<Rightarrow> inventory_screen \<Rightarrow> inventory_screen" where
  "choose_card key i s = update_part key (\<lambda>d. d\<lparr>dr_item := si_id i, dr_unit := defaultRecipeUnit (si_unit i)\<rparr>) s"

text \<open>What a browser lets through a field of type \<open>number\<close>.\<close>

definition html_number :: "(rat \<Rightarrow> jsnum) \<Rightarrow> jstr \<Rightarrow> bool" where
  "html_number rnd v \<longleftrightarrow> v = [] \<or> js_trim v = v \<and> 44 \<notin> set v \<and> is_finite (str_number rnd v)"

section \<open>The screen\<close>

datatype inventory_event = StockArrived "stock_response list" | OverviewArrived "overview_item list" | ProductsArrived "catalog_product list"
  | RecipesArrived "stock_recipe list"
  | CorrectPressed jstr | MoveDismissed | MoveItem jstr | MoveType movement_type | MoveQuantity jstr | MoveReason jstr
  | MovePressed jstr | MoveAnswered bool
  | TransferOpened | TransferDismissed | SourceChosen jstr | TargetChosen jstr | TransferQuantityTyped jstr | TransferReasonTyped jstr
  | TransferPressed jstr | TransferAnswered bool
  | ItemOpened | ItemDismissed | ItemTyped item_draft | ItemSubmitted | ItemAnswered bool
  | RecipeCreateOpened jstr | RecipeEditOpened "jstr list" stock_recipe | RecipeClosed | RecipeCancelled | RecipeProduct jstr | YieldTyped jstr
  | PartAdded jstr | PartRemoved jstr | PartCard jstr stock_item | PartQuantity jstr jstr | PartUnit jstr jstr | RecipeSubmitted
  | RecipeAnswered "jstr option"


fun inventory_step ::
  "(rat \<Rightarrow> jsnum) \<Rightarrow> (jsnum \<Rightarrow> jstr) \<Rightarrow> bool \<Rightarrow> inventory_event \<Rightarrow> inventory_screen \<Rightarrow> inventory_screen \<times> inventory_entry list" where
  "inventory_step rnd str_of canManage (StockArrived rs) s = (s\<lparr>iv_items := map stock_item_of rs\<rparr>, [])"
| "inventory_step rnd str_of canManage (OverviewArrived os) s = (s\<lparr>iv_overview := os\<rparr>, [])"
| "inventory_step rnd str_of canManage (ProductsArrived ps) s = (s\<lparr>iv_products := ps\<rparr>, [])"
| "inventory_step rnd str_of canManage (RecipesArrived rs) s = (s\<lparr>iv_recipes := rs\<rparr>, [])"
| "inventory_step rnd str_of canManage (CorrectPressed i) s =
     (if canManage \<and> i \<in> si_id ` set (iv_items s) then s\<lparr>iv_selectedItem := i, iv_moveOpen := True\<rparr> else s, [])"
| "inventory_step rnd str_of canManage MoveDismissed s = (s\<lparr>iv_moveOpen := False\<rparr>, [])"
| "inventory_step rnd str_of canManage (MoveItem i) s =
     (if iv_moveOpen s \<and> i \<in> si_id ` set (iv_items s) then s\<lparr>iv_selectedItem := i\<rparr> else s, [])"
| "inventory_step rnd str_of canManage (MoveType t) s = (if iv_moveOpen s then s\<lparr>iv_type := t\<rparr> else s, [])"
| "inventory_step rnd str_of canManage (MoveQuantity v) s = (if iv_moveOpen s then s\<lparr>iv_quantity := v\<rparr> else s, [])"
| "inventory_step rnd str_of canManage (MoveReason v) s = (if iv_moveOpen s then s\<lparr>iv_reason := v\<rparr> else s, [])"
| "inventory_step rnd str_of canManage (MovePressed uuid) s =
     (if can_move s then (s\<lparr>iv_moving := True\<rparr>, [MovementSent (movement_json rnd uuid s)]) else (s, []))"
| "inventory_step rnd str_of canManage (MoveAnswered ok) s = (if \<not> iv_moving s then (s, [])
     else (if ok then s\<lparr>iv_moving := False, iv_moveOpen := False, iv_quantity := [], iv_reason := []\<rparr> else s\<lparr>iv_moving := False\<rparr>,
       [MovementEnded ok]))"
| "inventory_step rnd str_of canManage TransferOpened s =
     (if canManage \<and> 2 \<le> length (transferOptions (iv_overview s)) then s\<lparr>iv_transferOpen := True\<rparr> else s, [])"
| "inventory_step rnd str_of canManage TransferDismissed s = (s\<lparr>iv_transferOpen := False\<rparr>, [])"
| "inventory_step rnd str_of canManage (SourceChosen i) s =
     (if iv_transferOpen s \<and> list_ex (\<lambda>(x, c). ce_item c = i) (transferOptions (iv_overview s))
      then s\<lparr>iv_source := i, iv_target := []\<rparr> else s, [])"
| "inventory_step rnd str_of canManage (TargetChosen i) s =
     (if iv_transferOpen s \<and> list_ex (\<lambda>c. ce_item c = i) (compatibleTransferTargets s) then s\<lparr>iv_target := i\<rparr> else s, [])"
| "inventory_step rnd str_of canManage (TransferQuantityTyped v) s =
     (if iv_transferOpen s \<and> html_number rnd v then s\<lparr>iv_transferQuantity := v\<rparr> else s, [])"
| "inventory_step rnd str_of canManage (TransferReasonTyped v) s = (if iv_transferOpen s then s\<lparr>iv_transferReason := v\<rparr> else s, [])"
| "inventory_step rnd str_of canManage (TransferPressed uuid) s = (if can_transfer rnd s then send_transfer uuid s else (s, []))"
| "inventory_step rnd str_of canManage (TransferAnswered ok) s = (if \<not> iv_transferring s then (s, [])
     else (if ok then s\<lparr>iv_transferring := False, iv_transferOpen := False, iv_source := [], iv_target := [],
         iv_transferQuantity := [], iv_transferReason := []\<rparr> else s\<lparr>iv_transferring := False\<rparr>, [TransferEnded ok]))"
| "inventory_step rnd str_of canManage ItemOpened s = (if canManage then s\<lparr>iv_itemOpen := True\<rparr> else s, [])"
| "inventory_step rnd str_of canManage ItemDismissed s = (if iv_creating s then s else s\<lparr>iv_itemOpen := False\<rparr>, [])"
| "inventory_step rnd str_of canManage (ItemTyped d) s = (if iv_itemOpen s then s\<lparr>iv_draft := d\<rparr> else s, [])"
| "inventory_step rnd str_of canManage ItemSubmitted s =
     (if can_create rnd s then (s\<lparr>iv_creating := True\<rparr>, [ItemSent (item_json (iv_draft s))]) else (s, []))"
| "inventory_step rnd str_of canManage (ItemAnswered ok) s = (if \<not> iv_creating s then (s, [])
     else (if ok then s\<lparr>iv_creating := False, iv_itemOpen := False, iv_draft := fresh_item\<rparr> else s\<lparr>iv_creating := False\<rparr>, [ItemEnded ok]))"
| "inventory_step rnd str_of canManage (RecipeCreateOpened uuid) s = (if canManage then openCreateRecipe uuid s else s, [])"
| "inventory_step rnd str_of canManage (RecipeEditOpened uuids r) s =
     (if canManage \<and> r \<in> set (iv_recipes s) \<and> \<not> (iv_items s = [] \<and> rc_parts r = []) \<and> length uuids = max 1 (length (rc_parts r))
      then openEditRecipe str_of uuids r s else s, [])"
| "inventory_step rnd str_of canManage RecipeClosed s =
     (if iv_saving s then s else s\<lparr>iv_recipeOpen := False, iv_editing := None, iv_formError := None\<rparr>, [])"
| "inventory_step rnd str_of canManage RecipeCancelled s = (if iv_saving s then s else s\<lparr>iv_recipeOpen := False\<rparr>, [])"
| "inventory_step rnd str_of canManage (RecipeProduct p) s =
     (if iv_recipeOpen s \<and> iv_editing s = None \<and> p \<in> cp_id ` set (creatableProducts s) then s\<lparr>iv_product := p, iv_formError := None\<rparr> else s, [])"
| "inventory_step rnd str_of canManage (YieldTyped v) s = (if iv_recipeOpen s then s\<lparr>iv_yield := v, iv_formError := None\<rparr> else s, [])"
| "inventory_step rnd str_of canManage (PartAdded uuid) s =
     (if iv_recipeOpen s \<and> \<not> list_all (\<lambda>i. si_id i \<in> dr_item ` set (iv_parts s)) (iv_items s) then addRecipeIngredient uuid s else s, [])"
| "inventory_step rnd str_of canManage (PartRemoved key) s =
     (if iv_recipeOpen s \<and> length (iv_parts s) \<noteq> 1 then removeRecipeIngredient key s else s, [])"
| "inventory_step rnd str_of canManage (PartCard key i) s =
     (if iv_recipeOpen s \<and> i \<in> set (iv_items s) \<and> si_id i \<notin> dr_item ` {d \<in> set (iv_parts s). dr_key d \<noteq> key} then choose_card key i s else s, [])"
| "inventory_step rnd str_of canManage (PartQuantity key v) s =
     (if iv_recipeOpen s then update_part key (\<lambda>d. d\<lparr>dr_quantity := v\<rparr>) s else s, [])"
| "inventory_step rnd str_of canManage (PartUnit key u) s =
     (if iv_recipeOpen s then update_part key (\<lambda>d. if u \<in> set (part_units d s) then d\<lparr>dr_unit := u\<rparr> else d) s else s, [])"
| "inventory_step rnd str_of canManage RecipeSubmitted s =
     (if iv_recipeOpen s \<and> \<not> iv_saving s then submitRecipe rnd s else (s, []))"
| "inventory_step rnd str_of canManage (RecipeAnswered failure) s = (if \<not> iv_saving s then (s, [])
     else case failure of
       None \<Rightarrow> (s\<lparr>iv_saving := False, iv_recipeOpen := False, iv_editing := None, iv_formError := None\<rparr>, [RecipeEnded True])
     | Some m \<Rightarrow> (s\<lparr>iv_saving := False, iv_formError := Some (SaveFailed m)\<rparr>, [RecipeEnded False]))"

section \<open>What the screen sends\<close>

definition signed_as :: "movement_type \<Rightarrow> jsnum \<Rightarrow> bool" where
  "signed_as t d \<longleftrightarrow> (case t of Waste \<Rightarrow> \<not> num_less (Fin 0) d | Purchase \<Rightarrow> \<not> num_less d (Fin 0)
     | ReturnedStock \<Rightarrow> \<not> num_less d (Fin 0) | _ \<Rightarrow> True)"

fun request_ok :: "(rat \<Rightarrow> jsnum) \<Rightarrow> inventory_entry \<Rightarrow> bool" where
  "request_ok rnd (MovementSent b) = (\<exists>uuid s. b = movement_json rnd uuid s \<and> iv_selectedItem s \<noteq> [] \<and> js_trim (iv_reason s) \<noteq> []
     \<and> signed_as (iv_type s) (quantity_delta rnd (iv_type s) (iv_quantity s)))"
| "request_ok rnd (TransferSent b) = (\<exists>uuid (i :: overview_item) source target s. b = transfer_json uuid source target s
     \<and> {source, target} \<subseteq> set (ov_cells i) \<and> ce_branch source \<noteq> ce_branch target
     \<and> positive_decimal rnd (normalizeDecimal (iv_transferQuantity s)) \<and> 3 \<le> length (js_trim (iv_transferReason s)))"
| "request_ok rnd (ItemSent b) = (\<exists>d. b = item_json d \<and> js_trim (id_name d) \<noteq> [] \<and> stock_decimal rnd (id_minimum d)
     \<and> stock_decimal rnd (id_opening d) \<and> stock_decimal rnd (id_target d))"
| "request_ok rnd (RecipeSent p) = (py_product p \<noteq> [] \<and> positive_decimal rnd (py_yield p) \<and> py_items p \<noteq> []
     \<and> distinct (map fst (py_items p)) \<and> (\<forall>(i, q, u)\<in>set (py_items p). i \<noteq> [] \<and> positive_decimal rnd q))"
| "request_ok rnd x = True"

fun is_request :: "inventory_entry \<Rightarrow> bool" where
  "is_request (MovementEnded ok) = False"
| "is_request (TransferEnded ok) = False"
| "is_request (ItemEnded ok) = False"
| "is_request (RecipeEnded ok) = False"
| "is_request x = True"

definition inventory_ok :: "(rat \<Rightarrow> jsnum) \<Rightarrow> bool \<Rightarrow> inventory_screen \<Rightarrow> bool" where
  "inventory_ok rnd canManage s \<longleftrightarrow> (iv_moveOpen s \<or> iv_transferOpen s \<or> iv_itemOpen s \<or> iv_recipeOpen s \<longrightarrow> canManage)
     \<and> html_number rnd (iv_transferQuantity s) \<and> (\<forall>r. iv_editing s = Some r \<longrightarrow> iv_product s = rc_product_id r)"

lemma delta_signed: "signed_as t (quantity_delta rnd t q)"
  by (cases t; cases "str_number rnd q") (simp_all add: signed_as_def quantity_delta_def)

lemma index_of_None: "index_of c s = None \<longleftrightarrow> c \<notin> set s"
  by (induction s) auto

lemma html_number_normal: "html_number rnd v \<Longrightarrow> normalizeDecimal v = v"
proof -
  assume "html_number rnd v"
  then have "js_trim v = v" "index_of 44 v = None" by (auto simp: html_number_def js_trim_def index_of_None)
  then show ?thesis by (simp add: normalizeDecimal_def)
qed

lemma html_positive:
  assumes "html_number rnd v" and "\<not> num_le (str_number rnd (normalizeDecimal v)) (Fin 0)"
  shows "positive_decimal rnd (normalizeDecimal v)"
proof -
  have "is_finite (str_number rnd v)" using assms by (auto simp: html_number_def normalizeDecimal_def js_trim_def str_number_def)
  then show ?thesis
    using assms(2) unfolding html_number_normal [OF assms(1)] by (cases "str_number rnd v") (auto simp: positive_decimal_def)
qed

lemma opened_recipe_simps [simp]:
  "iv_moveOpen (openCreateRecipe u s) = iv_moveOpen s" "iv_transferOpen (openCreateRecipe u s) = iv_transferOpen s"
  "iv_itemOpen (openCreateRecipe u s) = iv_itemOpen s" "iv_transferQuantity (openCreateRecipe u s) = iv_transferQuantity s"
  by (simp_all add: openCreateRecipe_def split: list.split)

lemma step_inventory_ok: "inventory_ok rnd m s \<Longrightarrow> inventory_ok rnd m (fst (inventory_step rnd str_of m e s))"
  by (cases e) (auto simp: inventory_ok_def openEditRecipe_def update_part_def choose_card_def addRecipeIngredient_def openCreateRecipe_def
      removeRecipeIngredient_def send_transfer_def submitRecipe_def html_number_def split: option.split list.split)

lemma find_in: "List.find P xs = Some x \<Longrightarrow> x \<in> set xs \<and> P x"
  by (auto simp: find_Some_iff)

lemma transfer_cells:
  assumes "selectedTransferSource s = Some (i, source)" and "List.find P (compatibleTransferTargets s) = Some target"
  shows "{source, target} \<subseteq> set (ov_cells i) \<and> ce_branch source \<noteq> ce_branch target"
proof -
  have "(i, source) \<in> set (transferOptions (iv_overview s))" using find_in [OF assms(1) [unfolded selectedTransferSource_def]] by simp
  then have "source \<in> set (ov_cells i)" by (auto simp: transferOptions_def)
  moreover have "target \<in> set (compatibleTransferTargets s)" using find_in [OF assms(2)] by blast
  then have "target \<in> set (ov_cells i)" "ce_branch target \<noteq> ce_branch source"
    using assms(1) by (simp_all add: compatibleTransferTargets_def)
  ultimately show ?thesis by simp
qed

lemma transfer_ok:
  assumes "x \<in> set (snd (send_transfer uuid s))" and "html_number rnd (iv_transferQuantity s)" and "can_transfer rnd s"
  shows "request_ok rnd x"
proof (cases "x = TransferEnded False")
  case False
  then obtain i source target where "selectedTransferSource s = Some (i, source)"
    "List.find (\<lambda>c. ce_item c = iv_target s) (compatibleTransferTargets s) = Some target"
    "x = TransferSent (transfer_json uuid source target s)"
    using assms(1) by (auto simp: send_transfer_def split: option.splits)
  note target = this
  have "positive_decimal rnd (normalizeDecimal (iv_transferQuantity s))" "3 \<le> length (js_trim (iv_transferReason s))"
    using html_positive [OF assms(2)] assms(3) by (simp_all add: can_transfer_def)
  with transfer_cells [OF target(1,2)] target(3) show ?thesis by (simp del: insert_subset) metis
qed simp

lemma recipe_ok: "recipe_problem rnd s = None \<Longrightarrow> request_ok rnd (RecipeSent (recipe_payload s))"
  by (auto simp: recipe_problem_def recipe_payload_def Let_def comp_def list_ex_iff image_iff split: if_splits)

lemma step_requests_ok:
  assumes "inventory_ok rnd m s" and "x \<in> set (snd (inventory_step rnd str_of m e s))"
  shows "request_ok rnd x \<and> (is_request x \<longrightarrow> m)"
proof (cases e)
  case (TransferPressed uuid)
  with assms transfer_ok show ?thesis by (auto simp: inventory_ok_def can_transfer_def split: if_splits)
next
  case RecipeSubmitted
  with assms recipe_ok show ?thesis by (auto simp: submitRecipe_def inventory_ok_def split: if_splits option.splits)
next
  case (MovePressed uuid)
  with assms have "can_move s" "x = MovementSent (movement_json rnd uuid s)" by (auto split: if_splits)
  moreover from this have "request_ok rnd (MovementSent (movement_json rnd uuid s))"
    using delta_signed unfolding request_ok.simps can_move_def by blast
  ultimately show ?thesis using assms(1) by (auto simp: can_move_def inventory_ok_def simp del: request_ok.simps)
next
  case ItemSubmitted
  with assms have "can_create rnd s" "x = ItemSent (item_json (iv_draft s))" by (auto split: if_splits)
  moreover from this have "request_ok rnd (ItemSent (item_json (iv_draft s)))"
    unfolding request_ok.simps can_create_def by blast
  ultimately show ?thesis using assms(1) by (auto simp: can_create_def inventory_ok_def simp del: request_ok.simps)
qed (use assms in \<open>auto split: if_splits option.splits\<close>)


section \<open>The order of the list\<close>

lemma insert_shelf:
  "sorted (map (status_rank rnd) ys) \<Longrightarrow> sorted (map (status_rank rnd) (insert_cmp (shelf_cmp rnd compare) x ys))"
proof (induction ys)
  case (Cons y ys)
  have "set (insert_cmp (shelf_cmp rnd compare) x ys) = insert x (set ys)"
    using arg_cong [OF mset_insert_cmp, of set_mset "shelf_cmp rnd compare" x ys] by simp
  moreover have "0 < shelf_cmp rnd compare x y \<Longrightarrow> status_rank rnd y \<le> status_rank rnd x"
    "\<not> 0 < shelf_cmp rnd compare x y \<Longrightarrow> status_rank rnd x \<le> status_rank rnd y"
    by (auto simp: shelf_cmp_def Let_def split: if_splits)
  ultimately show ?case using Cons by (auto dest: order_trans)
qed simp

text \<open>What is used up comes first, then what is low, whatever the names are; and every card is low or healthy when its
  amounts are numbers.\<close>

lemma shelf_order: "sorted (map (status_rank rnd) (filteredItems rnd lower compare search f items))"
proof -
  have "sorted (map (status_rank rnd) (sort_cmp (shelf_cmp rnd compare) xs))" for xs
    by (induction xs) (simp_all add: sort_cmp_def insert_shelf)
  then show ?thesis by (simp add: filteredItems_def)
qed

lemma low_or_healthy:
  assumes "to_number rnd (si_current i) \<noteq> NaN" and "to_number rnd (si_minimum i) \<noteq> NaN"
  shows "is_low rnd i \<longleftrightarrow> \<not> is_healthy rnd i"
  using assms by (cases "to_number rnd (si_current i)"; cases "to_number rnd (si_minimum i)") (auto simp: is_low_def is_healthy_def)

section \<open>A delivery that is entered\<close>

definition demo_stock :: stock_response where
  "demo_stock = \<lparr>sr_id = js ''flour'', sr_name = js ''Flour'', sr_sku = None, sr_unit = js ''kilogram'', sr_current_stock = None,
     sr_minimum_stock = ANumber (Fin 1)\<rparr>"

definition demo_movement :: "jstr \<Rightarrow> inventory_event list" where
  "demo_movement uuid = [StockArrived [demo_stock], CorrectPressed (js ''flour''), MoveType Purchase, MoveQuantity (js ''3''),
     MoveReason (js ''r''), MovePressed uuid]"

lemmas demo_inventory = demo_movement_def fresh_inventory_def stock_item_of_def demo_stock_def can_move_def js_trim_def

definition demo_moved :: "jstr \<Rightarrow> (rat \<Rightarrow> jsnum) \<Rightarrow> json" where
  "demo_moved uuid rnd = JObj [(js ''inventory_item_id'', JStr (js ''flour'')), (js ''type'', JStr (js ''PURCHASE'')),
     (js ''quantity_delta'', num_json (num_abs (str_number rnd (js ''3'')))), (js ''reason'', JStr (js ''r'')), (js ''idempotency_key'', JStr uuid)]"

lemma demo_moves:
  "\<exists>s. trace_run (inventory_step rnd str_of True) (demo_movement u) fresh_inventory = (s, [MovementSent (demo_moved u rnd)])"
  by (simp add: demo_inventory) (simp add: movement_json_def demo_moved_def movement_name_def quantity_delta_def js_def is_space_def)


text \<open>Every attempt draws a key of its own: a movement whose answer was lost is booked again by the retry.\<close>

lemma movement_retry_new_key:
  "\<exists>s. trace_run (inventory_step rnd str_of True) (demo_movement u @ [MoveAnswered False, MovePressed v]) fresh_inventory
     = (s, [MovementSent (demo_moved u rnd), MovementEnded False, MovementSent (demo_moved v rnd)])"
  by (simp add: demo_inventory) (simp add: movement_json_def demo_moved_def movement_name_def quantity_delta_def js_def is_space_def)

text \<open>The quantity of a movement is the only amount whose comma is not read as a decimal point: it is sent as null.\<close>

lemma comma_movement_null: "num_json (quantity_delta rnd t (js ''1,5'')) = JNull"
proof -
  have "str_number rnd (js ''1,5'') = NaN"
    by (simp add: str_number_def js_def js_trim_def is_space_def Let_def to_lower_def lower_unit_def signed_decimal_def
        unsigned_decimal_def starts_with_def is_digit_def exponent_part_def)
  then show ?thesis by (cases t) (simp_all add: quantity_delta_def num_json_def)
qed

end
