(* ===== verification/Recipe_Copy.thy ===== *)
theory Recipe_Copy
  imports Inventory
begin

text \<open>
  Fetching a recipe from another branch, \<open>apps/web/src/components/inventory/recipe-copy-dialog.tsx\<close>. The copy is a
  sequence of requests that the handler awaits one after the other: a new stock card for every ingredient that has
  none, then the copy itself; \<open>copy_plan\<close> is the state of that handler between two answers, with what its closure
  has captured. \<open>cd_waiting\<close> are the requests for recipes that have not been answered. \<open>same_name\<close> says that two names are equal for \<open>localeCompare\<close> with base sensitivity.
\<close>

definition CREATE_NEW :: jstr where
  "CREATE_NEW = js ''__create_new__''"

definition unit_dimension :: "jstr \<Rightarrow> jstr option" where
  "unit_dimension u = map_of [(js ''piece'', js ''count''), (js ''gram'', js ''mass''), (js ''kilogram'', js ''mass''),
     (js ''milliliter'', js ''volume''), (js ''liter'', js ''volume'')] u"

record copy_plan =
  pl_recipe :: stock_recipe
  pl_source :: jstr
  pl_branch :: jstr
  pl_target :: jstr
  pl_mappings :: "jstr \<rightharpoonup> jstr"
  pl_todo :: "recipe_part list"
  pl_done :: "(jstr \<times> jstr) list"

record copy_dialog =
  cd_branch :: "jstr option"
  cd_products :: "catalog_product list"
  cd_items :: "stock_item list"
  cd_open :: bool
  cd_source :: jstr
  cd_recipes :: "stock_recipe list"
  cd_recipeId :: jstr
  cd_target :: jstr
  cd_mappings :: "jstr \<rightharpoonup> jstr"
  cd_loading :: bool
  cd_error :: bool
  cd_request :: nat
  cd_waiting :: "nat list"
  cd_plan :: "copy_plan option"

definition fresh_copy :: copy_dialog where
  "fresh_copy = \<lparr>cd_branch = None, cd_products = [], cd_items = [], cd_open = False, cd_source = [], cd_recipes = [], cd_recipeId = [],
     cd_target = [], cd_mappings = Map.empty, cd_loading = False, cd_error = False, cd_request = 0, cd_waiting = [], cd_plan = None\<rparr>"

definition cd_recipe :: "copy_dialog \<Rightarrow> stock_recipe option" where
  "cd_recipe s = List.find (\<lambda>r. rc_id r = cd_recipeId s) (cd_recipes s)"

definition resetDialog :: "copy_dialog \<Rightarrow> copy_dialog" where
  "resetDialog s = s\<lparr>cd_request := Suc (cd_request s), cd_source := [], cd_recipes := [], cd_recipeId := [], cd_target := [],
     cd_mappings := Map.empty, cd_error := False, cd_loading := False\<rparr>"

definition card_match :: "(jstr \<Rightarrow> jstr \<Rightarrow> bool) \<Rightarrow> stock_item list \<Rightarrow> recipe_part \<Rightarrow> jstr" where
  "card_match same_name items p =
     (case List.find (\<lambda>i. unit_dimension (si_unit i) = unit_dimension (rp_unit p) \<and> same_name (si_name i) (rp_name p)) items of
        None \<Rightarrow> CREATE_NEW | Some i \<Rightarrow> si_id i)"

definition selectRecipe :: "(jstr \<Rightarrow> jstr \<Rightarrow> bool) \<Rightarrow> jstr \<Rightarrow> stock_recipe list \<Rightarrow> copy_dialog \<Rightarrow> copy_dialog" where
  "selectRecipe same_name nextId available s = (let s1 = s\<lparr>cd_recipeId := nextId\<rparr> in
     case List.find (\<lambda>r. rc_id r = nextId) available of
       None \<Rightarrow> s1\<lparr>cd_target := [], cd_mappings := Map.empty\<rparr>
     | Some r \<Rightarrow> s1\<lparr>cd_target := (case List.find (\<lambda>p. cp_active p \<noteq> Some False \<and> same_name (cp_name p) (rc_product_name r))
              (cd_products s) of None \<Rightarrow> [] | Some p \<Rightarrow> cp_id p),
         cd_mappings := map_of (rev (map (\<lambda>p. (rp_item p, card_match same_name (cd_items s) p)) (rc_parts r)))\<rparr>)"

datatype copy_entry = LoadSent nat jstr | LoadEnded nat "stock_recipe list option" | CardSent recipe_part | CardEnded "jstr option"
  | CopySent copy_plan | CopyEnded bool

definition selectSourceBranch :: "(jstr \<Rightarrow> jstr \<Rightarrow> bool) \<Rightarrow> jstr \<Rightarrow> copy_dialog \<Rightarrow> copy_dialog \<times> copy_entry list" where
  "selectSourceBranch same_name branch s =
     (let n = Suc (cd_request s);
          s1 = (selectRecipe same_name [] [] (s\<lparr>cd_request := n, cd_source := branch, cd_recipes := []\<rparr>))\<lparr>cd_error := False\<rparr> in
      if branch = [] then (s1\<lparr>cd_loading := False\<rparr>, []) else (s1\<lparr>cd_loading := True, cd_waiting := n # cd_waiting s\<rparr>, [LoadSent n branch]))"

definition recipes_arrive :: "(jstr \<Rightarrow> jstr \<Rightarrow> bool) \<Rightarrow> nat \<Rightarrow> stock_recipe list option \<Rightarrow> copy_dialog \<Rightarrow> copy_dialog" where
  "recipes_arrive same_name n answer s =
     (if cd_request s \<noteq> n then s
      else case answer of
        None \<Rightarrow> s\<lparr>cd_error := True, cd_loading := False\<rparr>
      | Some values \<Rightarrow> (selectRecipe same_name (case values of [] \<Rightarrow> [] | r # _ \<Rightarrow> rc_id r) values (s\<lparr>cd_recipes := values\<rparr>))
          \<lparr>cd_loading := False\<rparr>)"

definition mappingReady :: "copy_dialog \<Rightarrow> bool" where
  "mappingReady s = (case cd_recipe s of
       None \<Rightarrow> False
     | Some r \<Rightarrow> list_all (\<lambda>p. truthy (cd_mappings s (rp_item p))) (rc_parts r))"

text \<open>The handler runs until it awaits an answer: of a new card, or of the copy when nothing is left to do.\<close>

fun advance :: "recipe_part list \<Rightarrow> copy_plan \<Rightarrow> copy_plan \<times> copy_entry" where
  "advance [] pl = (pl\<lparr>pl_todo := []\<rparr>, CopySent (pl\<lparr>pl_todo := []\<rparr>))"
| "advance (p # ps) pl = (case pl_mappings pl (rp_item p) of
       Some t \<Rightarrow> if t = CREATE_NEW then (pl\<lparr>pl_todo := p # ps\<rparr>, CardSent p)
         else advance ps (pl\<lparr>pl_done := pl_done pl @ [(rp_item p, t)]\<rparr>)
     | None \<Rightarrow> advance ps (pl\<lparr>pl_done := pl_done pl @ [(rp_item p, [])]\<rparr>))"

definition run_plan :: "copy_plan \<Rightarrow> copy_dialog \<Rightarrow> copy_dialog \<times> copy_entry list" where
  "run_plan pl s = (let (pl', x) = advance (pl_todo pl) pl in (s\<lparr>cd_plan := Some pl'\<rparr>, [x]))"

definition copyRecipe :: "copy_dialog \<Rightarrow> copy_dialog \<times> copy_entry list" where
  "copyRecipe s = (case (cd_recipe s, cd_branch s) of
       (Some r, Some branch) \<Rightarrow>
         if branch = [] \<or> cd_target s = [] \<or> \<not> mappingReady s then (s, [])
         else run_plan \<lparr>pl_recipe = r, pl_source = cd_source s, pl_branch = branch, pl_target = cd_target s, pl_mappings = cd_mappings s,
             pl_todo = rc_parts r, pl_done = []\<rparr> (s\<lparr>cd_error := False\<rparr>)
     | _ \<Rightarrow> (s, []))"

text \<open>What is sent for a new card, and for the copy.\<close>

definition card_json :: "recipe_part \<Rightarrow> json" where
  "card_json p = JObj [(js ''name'', JStr (rp_name p)), (js ''unit'', JStr (rp_unit p)), (js ''minimum_stock'', JStr (js ''0'')),
     (js ''target_stock'', JStr (js ''0'')), (js ''opening_quantity'', JStr (js ''0''))]"

definition copy_json :: "copy_plan \<Rightarrow> json" where
  "copy_json pl = JObj [(js ''source_branch_id'', JStr (pl_source pl)), (js ''target_branch_id'', JStr (pl_branch pl)),
     (js ''source_product_id'', JStr (rc_product_id (pl_recipe pl))), (js ''target_product_id'', JStr (pl_target pl)),
     (js ''ingredient_mappings'', JArr (map (\<lambda>(i, t). JObj [(js ''source_inventory_item_id'', JStr i),
        (js ''target_inventory_item_id'', JStr t)]) (pl_done pl)))]"

datatype copy_event = PropsArrived "jstr option" "catalog_product list" "stock_item list" | CopyOpened | CopyClosed | SourceBranch jstr
  | RecipesAnswered nat "stock_recipe list option" | RecipePicked jstr | TargetPicked jstr | MappingPicked jstr jstr
  | CopyPressed | CardAnswered "jstr option" | CopyAnswered bool

fun copy_step :: "(jstr \<Rightarrow> jstr \<Rightarrow> bool) \<Rightarrow> copy_event \<Rightarrow> copy_dialog \<Rightarrow> copy_dialog \<times> copy_entry list" where
  "copy_step same_name (PropsArrived branch products items) s =
     (s\<lparr>cd_branch := branch, cd_products := products, cd_items := items\<rparr>, [])"
| "copy_step same_name CopyOpened s = (s\<lparr>cd_open := True\<rparr>, [])"
| "copy_step same_name CopyClosed s = (if cd_plan s \<noteq> None then s else (resetDialog s)\<lparr>cd_open := False\<rparr>, [])"
| "copy_step same_name (SourceBranch b) s =
     (if cd_open s \<and> Some b \<noteq> cd_branch s then selectSourceBranch same_name b s else (s, []))"
| "copy_step same_name (RecipesAnswered n answer) s = (if n \<notin> set (cd_waiting s) then (s, [])
     else (recipes_arrive same_name n answer (s\<lparr>cd_waiting := remove1 n (cd_waiting s)\<rparr>), [LoadEnded n answer]))"
| "copy_step same_name (RecipePicked i) s =
     (if cd_open s \<and> cd_source s \<noteq> [] \<and> \<not> cd_loading s then selectRecipe same_name i (cd_recipes s) s else s, [])"
| "copy_step same_name (TargetPicked i) s =
     (if cd_open s \<and> cd_recipe s \<noteq> None \<and> list_ex (\<lambda>p. cp_id p = i \<and> cp_active p \<noteq> Some False) (cd_products s)
      then s\<lparr>cd_target := i\<rparr> else s, [])"
| "copy_step same_name (MappingPicked ingredient t) s =
     (if cd_open s \<and> cd_recipe s \<noteq> None then s\<lparr>cd_mappings := (cd_mappings s)(ingredient \<mapsto> t)\<rparr> else s, [])"
| "copy_step same_name CopyPressed s =
     (if cd_open s \<and> cd_plan s = None \<and> cd_target s \<noteq> [] \<and> mappingReady s then copyRecipe s else (s, []))"
| "copy_step same_name (CardAnswered answer) s = (case cd_plan s of
       Some pl \<Rightarrow> (case pl_todo pl of
           p # ps \<Rightarrow> (case answer of
               None \<Rightarrow> (s\<lparr>cd_plan := None, cd_error := True\<rparr>, [CardEnded None])
             | Some i \<Rightarrow> (let (s', out) = run_plan (pl\<lparr>pl_todo := ps, pl_done := pl_done pl @ [(rp_item p, i)]\<rparr>) s in
                 (s', CardEnded (Some i) # out)))
         | [] \<Rightarrow> (s, []))
     | None \<Rightarrow> (s, []))"
| "copy_step same_name (CopyAnswered ok) s = (case cd_plan s of
       Some pl \<Rightarrow> if pl_todo pl \<noteq> [] then (s, [])
         else (if ok then (resetDialog s)\<lparr>cd_open := False, cd_plan := None\<rparr> else s\<lparr>cd_plan := None, cd_error := True\<rparr>, [CopyEnded ok])
     | None \<Rightarrow> (s, []))"

section \<open>A copy is complete\<close>

text \<open>The recipes that were answered for a branch.\<close>

definition loaded_for :: "copy_entry list \<Rightarrow> jstr \<Rightarrow> stock_recipe list \<Rightarrow> bool" where
  "loaded_for out branch rs \<longleftrightarrow> (\<exists>n. LoadSent n branch \<in> set out \<and> LoadEnded n (Some rs) \<in> set out)"

text \<open>Where the card of an ingredient comes from: it was chosen, or the answer to a request for a new one.\<close>

definition card_from :: "copy_entry list \<Rightarrow> copy_plan \<Rightarrow> jstr \<times> jstr \<Rightarrow> bool" where
  "card_from out pl m \<longleftrightarrow> (pl_mappings pl (fst m) = Some (snd m) \<and> snd m \<noteq> [] \<and> snd m \<noteq> CREATE_NEW)
     \<or> (pl_mappings pl (fst m) = Some CREATE_NEW \<and> CardEnded (Some (snd m)) \<in> set out)"

definition plan_ok :: "copy_entry list \<Rightarrow> copy_plan \<Rightarrow> bool" where
  "plan_ok out pl \<longleftrightarrow> (\<exists>rs. loaded_for out (pl_source pl) rs \<and> pl_recipe pl \<in> set rs) \<and> pl_target pl \<noteq> [] \<and> pl_branch pl \<noteq> []
     \<and> map fst (pl_done pl) @ map rp_item (pl_todo pl) = map rp_item (rc_parts (pl_recipe pl))
     \<and> list_all (card_from out pl) (pl_done pl) \<and> list_all (\<lambda>p. truthy (pl_mappings pl (rp_item p))) (rc_parts (pl_recipe pl))
     \<and> (case pl_todo pl of [] \<Rightarrow> True | p # _ \<Rightarrow> pl_mappings pl (rp_item p) = Some CREATE_NEW)"

definition loads_ok :: "copy_dialog \<Rightarrow> copy_entry list \<Rightarrow> bool" where
  "loads_ok s out \<longleftrightarrow> (cd_recipes s \<noteq> [] \<longrightarrow> loaded_for out (cd_source s) (cd_recipes s))
     \<and> (\<forall>n\<in>set (cd_waiting s). \<exists>b. LoadSent n b \<in> set out)
     \<and> (\<forall>n b. LoadSent n b \<in> set out \<longrightarrow> n \<le> cd_request s \<and> (n = cd_request s \<longrightarrow> b = cd_source s))"

definition plans_ok :: "copy_dialog \<Rightarrow> copy_entry list \<Rightarrow> bool" where
  "plans_ok s out \<longleftrightarrow> (\<forall>pl. cd_plan s = Some pl \<longrightarrow> plan_ok out pl)
     \<and> (\<forall>pl. CopySent pl \<in> set out \<longrightarrow> plan_ok out pl \<and> pl_todo pl = [])"

lemma loaded_for_mono: "loaded_for out b rs \<Longrightarrow> set out \<subseteq> set out' \<Longrightarrow> loaded_for out' b rs"
  by (auto simp: loaded_for_def)

lemma card_from_mono: "card_from out pl m \<Longrightarrow> set out \<subseteq> set out' \<Longrightarrow> card_from out' pl m"
  by (auto simp: card_from_def)

lemma plan_ok_mono: "plan_ok out pl \<Longrightarrow> set out \<subseteq> set out' \<Longrightarrow> plan_ok out' pl"
  unfolding plan_ok_def by (auto simp: list_all_iff intro: card_from_mono loaded_for_mono split: list.splits)

text \<open>Everything of a plan but the ingredient that is next.\<close>

definition plan_going :: "copy_entry list \<Rightarrow> recipe_part list \<Rightarrow> copy_plan \<Rightarrow> bool" where
  "plan_going out todo pl \<longleftrightarrow> (\<exists>rs. loaded_for out (pl_source pl) rs \<and> pl_recipe pl \<in> set rs) \<and> pl_target pl \<noteq> [] \<and> pl_branch pl \<noteq> []
     \<and> map fst (pl_done pl) @ map rp_item todo = map rp_item (rc_parts (pl_recipe pl))
     \<and> list_all (card_from out pl) (pl_done pl) \<and> list_all (\<lambda>p. truthy (pl_mappings pl (rp_item p))) (rc_parts (pl_recipe pl))"

lemma plan_ok_going: "plan_ok out pl \<Longrightarrow> plan_going out (pl_todo pl) pl"
  by (simp add: plan_ok_def plan_going_def)

lemma card_from_done [simp]: "card_from out (pl\<lparr>pl_done := d\<rparr>) = card_from out pl" "card_from out (pl\<lparr>pl_todo := t\<rparr>) = card_from out pl"
  by (simp_all add: card_from_def fun_eq_iff)

lemma going_mapped:
  assumes "plan_going out (p # ps) pl"
  shows "truthy (pl_mappings pl (rp_item p))"
proof -
  have "rp_item p \<in> set (map rp_item (rc_parts (pl_recipe pl)))"
    using assms unfolding plan_going_def by (metis in_set_conv_decomp list.simps(9))
  with assms show ?thesis by (auto simp: plan_going_def list_all_iff)
qed

lemma advance_ok:
  "plan_going out todo pl \<Longrightarrow> plan_ok out (fst (advance todo pl))
    \<and> (snd (advance todo pl) = CopySent (fst (advance todo pl)) \<and> pl_todo (fst (advance todo pl)) = []
        \<or> (\<exists>p. snd (advance todo pl) = CardSent p))"
proof (induction todo pl rule: advance.induct)
  case (1 pl)
  then show ?case by (simp add: plan_ok_def plan_going_def)
next
  case (2 p ps pl)
  from going_mapped [OF "2.prems"] obtain t where t: "pl_mappings pl (rp_item p) = Some t" "t \<noteq> []" by (auto simp: truthy_def split: option.splits)
  show ?case
  proof (cases "t = CREATE_NEW")
    case True
    with t "2.prems" show ?thesis by (simp add: plan_ok_def plan_going_def)
  next
    case False
    then have "plan_going out ps (pl\<lparr>pl_done := pl_done pl @ [(rp_item p, t)]\<rparr>)"
      using t "2.prems" by (simp add: plan_going_def) (simp add: card_from_def)
    with "2.IH" (2) [OF t(1) False] False t show ?thesis by simp
  qed
qed

lemma selectRecipe_simps [simp]:
  "cd_recipes (selectRecipe same_name i rs s) = cd_recipes s" "cd_source (selectRecipe same_name i rs s) = cd_source s"
  "cd_request (selectRecipe same_name i rs s) = cd_request s" "cd_waiting (selectRecipe same_name i rs s) = cd_waiting s"
  "cd_plan (selectRecipe same_name i rs s) = cd_plan s"
  by (simp_all add: selectRecipe_def Let_def split: option.split)

lemma resetDialog_simps [simp]:
  "cd_recipes (resetDialog s) = []" "cd_request (resetDialog s) = Suc (cd_request s)" "cd_waiting (resetDialog s) = cd_waiting s"
  "cd_plan (resetDialog s) = cd_plan s"
  by (simp_all add: resetDialog_def)

lemma loads_ok_quiet:
  assumes ok: "loads_ok s out" and recipes: "cd_recipes s' \<in> {[], cd_recipes s}"
    and same: "cd_source s' = cd_source s \<and> cd_request s' = cd_request s \<or> cd_request s' = Suc (cd_request s) \<and> cd_recipes s' = []"
    and waiting: "set (cd_waiting s') \<subseteq> set (cd_waiting s)" and new: "\<And>n b. LoadSent n b \<notin> set new"
  shows "loads_ok s' (out @ new)"
  unfolding loads_ok_def
proof (intro conjI impI allI ballI)
  show "loaded_for (out @ new) (cd_source s') (cd_recipes s')" if "cd_recipes s' \<noteq> []"
    using that ok recipes same loaded_for_mono [of out _ _ "out @ new"] by (auto simp: loads_ok_def)
  show "\<exists>b. LoadSent n b \<in> set (out @ new)" if "n \<in> set (cd_waiting s')" for n
    using that ok waiting by (auto simp: loads_ok_def)
  show "n \<le> cd_request s'" "n = cd_request s' \<Longrightarrow> b = cd_source s'" if "LoadSent n b \<in> set (out @ new)" for n b
  proof -
    have "LoadSent n b \<in> set out" using that new by auto
    then have "n \<le> cd_request s" "n = cd_request s \<Longrightarrow> b = cd_source s" using ok unfolding loads_ok_def by blast+
    then show "n \<le> cd_request s'" "n = cd_request s' \<Longrightarrow> b = cd_source s'" using same by auto
  qed
qed

lemma loads_ok_source:
  assumes ok: "loads_ok s out" and s': "cd_recipes s' = []" "cd_source s' = b" "cd_request s' = Suc (cd_request s)"
    "cd_waiting s' = Suc (cd_request s) # cd_waiting s"
  shows "loads_ok s' (out @ [LoadSent (Suc (cd_request s)) b])"
proof -
  have "LoadSent n c \<in> set out \<Longrightarrow> n \<le> cd_request s" for n c using ok unfolding loads_ok_def by blast
  then show ?thesis using ok s' by (fastforce simp: loads_ok_def)
qed

lemma loads_ok_arrived:
  assumes ok: "loads_ok s out" and n: "n \<in> set (cd_waiting s)" "n = cd_request s"
    and s': "cd_recipes s' = values" "cd_source s' = cd_source s" "cd_request s' = cd_request s" "set (cd_waiting s') \<subseteq> set (cd_waiting s)"
  shows "loads_ok s' (out @ [LoadEnded n (Some values)])"
proof -
  obtain b where b: "LoadSent n b \<in> set out" using ok n(1) unfolding loads_ok_def by blast
  then have "b = cd_source s" using ok n(2) unfolding loads_ok_def by blast
  with b have "loaded_for (out @ [LoadEnded n (Some values)]) (cd_source s) values" by (auto simp: loaded_for_def)
  then show ?thesis using ok s' by (auto simp: loads_ok_def)
qed

lemma plans_ok_quiet:
  assumes ok: "plans_ok s out" and plan: "cd_plan s' \<in> {None, cd_plan s}" and new: "\<And>pl. CopySent pl \<notin> set new"
  shows "plans_ok s' (out @ new)"
proof -
  have mono: "plan_ok out pl \<Longrightarrow> plan_ok (out @ new) pl" for pl by (rule plan_ok_mono) auto
  with assms show ?thesis by (auto simp: plans_ok_def)
qed

lemma run_plan_ok:
  assumes ok: "plans_ok s out" and going: "plan_going (out @ new) (pl_todo pl) pl" and new: "\<And>pl. CopySent pl \<notin> set new"
  shows "plans_ok (fst (run_plan pl s')) (out @ new @ snd (run_plan pl s'))"
proof -
  obtain pl' x where adv: "advance (pl_todo pl) pl = (pl', x)" by fastforce
  have good: "plan_ok (out @ new) pl'" "x = CopySent pl' \<and> pl_todo pl' = [] \<or> (\<exists>p. x = CardSent p)"
    using advance_ok [OF going] adv by auto
  have "plan_ok (out @ new @ [x]) pl'" by (rule plan_ok_mono [OF good(1)]) auto
  moreover have "plan_ok out q \<Longrightarrow> plan_ok (out @ new @ [x]) q" for q by (rule plan_ok_mono) auto
  ultimately show ?thesis using ok new good(2) adv by (auto simp: plans_ok_def run_plan_def)
qed

lemma run_plan_simps [simp]:
  "cd_recipes (fst (run_plan pl s)) = cd_recipes s" "cd_source (fst (run_plan pl s)) = cd_source s"
  "cd_request (fst (run_plan pl s)) = cd_request s" "cd_waiting (fst (run_plan pl s)) = cd_waiting s"
  by (simp_all add: run_plan_def split_beta)

lemma run_plan_no_load: "LoadSent n b \<notin> set (snd (run_plan pl s))"
proof -
  have "snd (advance ps q) \<noteq> LoadSent n b" for ps q by (induction ps q rule: advance.induct) (auto split: option.split)
  then show ?thesis by (auto simp: run_plan_def split_beta dest: sym)
qed

lemma copyRecipe_ok:
  assumes "loads_ok s out" and "plans_ok s out"
  shows "loads_ok (fst (copyRecipe s)) (out @ snd (copyRecipe s)) \<and> plans_ok (fst (copyRecipe s)) (out @ snd (copyRecipe s))"
proof (cases "snd (copyRecipe s) = []")
  case True
  then have "fst (copyRecipe s) = s"
    by (auto simp: copyRecipe_def run_plan_def split_beta split: option.splits if_splits)
  with True assms show ?thesis by simp
next
  case False
  then obtain r branch where rb: "cd_recipe s = Some r" "branch \<noteq> []" "cd_target s \<noteq> []" "mappingReady s"
    and run: "copyRecipe s = run_plan \<lparr>pl_recipe = r, pl_source = cd_source s, pl_branch = branch, pl_target = cd_target s,
        pl_mappings = cd_mappings s, pl_todo = rc_parts r, pl_done = []\<rparr> (s\<lparr>cd_error := False\<rparr>)" (is "_ = run_plan ?pl ?s")
    by (auto simp: copyRecipe_def split: option.splits if_splits)
  have "r \<in> set (cd_recipes s)" using rb(1) by (auto simp: cd_recipe_def find_Some_iff)
  moreover from this have "loaded_for out (cd_source s) (cd_recipes s)" using assms(1) by (auto simp: loads_ok_def)
  ultimately have "plan_going (out @ []) (pl_todo ?pl) ?pl"
    using rb by (auto simp: plan_going_def mappingReady_def)
  from run_plan_ok [OF assms(2) this, of ?s] have "plans_ok (fst (run_plan ?pl ?s)) (out @ snd (run_plan ?pl ?s))" by simp
  moreover have "loads_ok (fst (run_plan ?pl ?s)) (out @ snd (run_plan ?pl ?s))"
    by (rule loads_ok_quiet [OF assms(1)]) (simp_all add: run_plan_no_load)
  ultimately show ?thesis unfolding run by simp
qed

lemma card_answer_ok:
  fixes i :: jstr
  assumes "loads_ok s out" and "plans_ok s out" and pl: "cd_plan s = Some pl" "pl_todo pl = p # ps"
  defines "after \<equiv> pl\<lparr>pl_todo := ps, pl_done := pl_done pl @ [(rp_item p, i)]\<rparr>"
  shows "loads_ok (fst (run_plan after s)) (out @ CardEnded (Some i) # snd (run_plan after s))
    \<and> plans_ok (fst (run_plan after s)) (out @ CardEnded (Some i) # snd (run_plan after s))"
proof -
  let ?new = "[CardEnded (Some i)]"
  have old: "plan_ok out pl" using assms(2) pl by (auto simp: plans_ok_def)
  then have "plan_ok (out @ ?new) pl" by (rule plan_ok_mono) auto
  from plan_ok_going [OF this] have "plan_going (out @ ?new) (p # ps) pl" using pl by simp
  moreover have "card_from (out @ ?new) pl (rp_item p, i)" using old pl by (simp add: plan_ok_def card_from_def)
  ultimately have "plan_going (out @ ?new) (pl_todo after) after" by (simp add: plan_going_def after_def)
  from run_plan_ok [OF assms(2) this, of s] have "plans_ok (fst (run_plan after s)) (out @ CardEnded (Some i) # snd (run_plan after s))" by simp
  moreover have "loads_ok (fst (run_plan after s)) (out @ CardEnded (Some i) # snd (run_plan after s))"
    by (rule loads_ok_quiet [OF assms(1)]) (simp_all add: run_plan_no_load)
  ultimately show ?thesis by simp
qed

lemma copy_step_ok:
  assumes "loads_ok s out \<and> plans_ok s out"
  shows "loads_ok (fst (copy_step same_name e s)) (out @ snd (copy_step same_name e s))
    \<and> plans_ok (fst (copy_step same_name e s)) (out @ snd (copy_step same_name e s))"
proof (cases e)
  case (SourceBranch b)
  show ?thesis
  proof (cases "cd_open s \<and> Some b \<noteq> cd_branch s \<and> b \<noteq> []")
    case True
    let ?s = "fst (copy_step same_name e s)"
    have "snd (copy_step same_name e s) = [LoadSent (Suc (cd_request s)) b]"
      using True SourceBranch by (simp add: selectSourceBranch_def Let_def)
    moreover have "loads_ok ?s (out @ [LoadSent (Suc (cd_request s)) b])"
      using assms True SourceBranch by (intro loads_ok_source [of s]) (simp_all add: selectSourceBranch_def Let_def)
    moreover have "plans_ok ?s (out @ [LoadSent (Suc (cd_request s)) b])"
      using assms True SourceBranch by (intro plans_ok_quiet [of s]) (simp_all add: selectSourceBranch_def Let_def)
    ultimately show ?thesis by simp
  next
    case False
    then show ?thesis
      using assms SourceBranch
      by (auto simp: selectSourceBranch_def Let_def intro!: loads_ok_quiet [of s _ _ "[]", simplified] plans_ok_quiet [of s _ _ "[]", simplified])
  qed
next
  case (RecipesAnswered n answer)
  show ?thesis
  proof (cases "n \<in> set (cd_waiting s) \<and> n = cd_request s \<and> answer \<noteq> None")
    case True
    then obtain rs where v: "answer = Some rs" by blast
    have "set (remove1 n (cd_waiting s)) \<subseteq> set (cd_waiting s)" by (rule set_remove1_subset)
    with True v assms RecipesAnswered show ?thesis
      by (auto simp: recipes_arrive_def intro!: loads_ok_arrived [of s] plans_ok_quiet [of s])
  next
    case False
    have "set (remove1 n (cd_waiting s)) \<subseteq> set (cd_waiting s)" by (rule set_remove1_subset)
    with False assms RecipesAnswered show ?thesis
      by (cases answer) (auto simp: recipes_arrive_def intro!: loads_ok_quiet [of s] plans_ok_quiet [of s])
  qed
next
  case CopyPressed
  with assms copyRecipe_ok show ?thesis by auto
next
  case (CardAnswered answer)
  show ?thesis
  proof (cases "\<exists>pl p ps i. cd_plan s = Some pl \<and> pl_todo pl = p # ps \<and> answer = Some i")
    case True
    then obtain pl p ps i where pl: "cd_plan s = Some pl" "pl_todo pl = p # ps" "answer = Some i" by blast
    with assms CardAnswered card_answer_ok [OF _ _ pl(1,2), of out i] show ?thesis by (simp add: split_beta)
  next
    case False
    with assms CardAnswered show ?thesis
      by (auto split: option.splits list.splits intro!: loads_ok_quiet [of s] plans_ok_quiet [of s])
  qed
next
  case (CopyAnswered ok)
  with assms show ?thesis
    by (auto split: option.splits intro!: loads_ok_quiet [of s] plans_ok_quiet [of s])
qed (use assms in \<open>auto intro!: loads_ok_quiet [of s _ _ "[]", simplified] plans_ok_quiet [of s _ _ "[]", simplified]\<close>)


section \<open>A recipe with a new ingredient\<close>

definition demo_part :: recipe_part where
  "demo_part = \<lparr>rp_item = js ''m'', rp_name = js ''Mint'', rp_quantity = ANumber (Fin 1), rp_unit = js ''gram''\<rparr>"

definition demo_recipe :: stock_recipe where
  "demo_recipe = \<lparr>rc_id = js ''r'', rc_product_id = js ''tea'', rc_product_name = js ''Tea'', rc_yield = ANumber (Fin 1), rc_parts = [demo_part]\<rparr>"

definition demo_tea_here :: catalog_product where
  "demo_tea_here = \<lparr>cp_id = js ''t'', cp_name = js ''Tea'', cp_active = None\<rparr>"

definition demo_fetch :: "copy_event list" where
  "demo_fetch = [PropsArrived (Some (js ''here'')) [demo_tea_here] [], CopyOpened, SourceBranch (js ''there''),
     RecipesAnswered 1 (Some [demo_recipe]), CopyPressed, CardAnswered (Some (js ''new''))]"

definition demo_plan :: copy_plan where
  "demo_plan = \<lparr>pl_recipe = demo_recipe, pl_source = js ''there'', pl_branch = js ''here'', pl_target = js ''t'',
     pl_mappings = [js ''m'' \<mapsto> CREATE_NEW], pl_todo = [], pl_done = [(js ''m'', js ''new'')]\<rparr>"

lemmas demo_copy = demo_fetch_def fresh_copy_def selectSourceBranch_def selectRecipe_def recipes_arrive_def mappingReady_def cd_recipe_def
  copyRecipe_def run_plan_def card_match_def demo_recipe_def demo_part_def demo_tea_here_def demo_plan_def resetDialog_def

lemma demo_fetched: "\<exists>s. trace_run (copy_step (=)) demo_fetch fresh_copy = (s, [LoadSent 1 (js ''there''),
    LoadEnded 1 (Some [demo_recipe]), CardSent demo_part, CardEnded (Some (js ''new'')), CopySent demo_plan])"
  by (simp add: demo_copy Let_def CREATE_NEW_def)


text \<open>The cards that were created are forgotten when the copy itself fails: the next attempt creates them again.\<close>

lemma copy_retry_creates_twice:
  "\<exists>s. trace_run (copy_step (=)) (demo_fetch @ [CopyAnswered False, CopyPressed]) fresh_copy = (s, [LoadSent 1 (js ''there''),
    LoadEnded 1 (Some [demo_recipe]), CardSent demo_part, CardEnded (Some (js ''new'')), CopySent demo_plan, CopyEnded False,
    CardSent demo_part])"
  by (simp add: demo_copy Let_def CREATE_NEW_def)

end
