(* ===== verification/Spec2Isabelle.thy ===== *)
theory Spec2Isabelle
  imports Agent_Runtime Refresh_Flights Live_Socket Waiter_Order Sign_In Live_Updates Guest_Menu Delivery System_Status Recipe_Copy
begin

text \<open>
  Dixora is a point-of-sale system for restaurants. Two programs of it are written in TypeScript: the print
  bridge (\<open>apps/print-bridge\<close>), an agent on the till that claims print jobs from the API and prints them,
  and the web application (\<open>apps/web\<close>), a Next.js server and user interface in front of the same API. The API
  itself is Python. This development models the bridge, the server side of the web application, the layer
  through which its pages talk to the server, and the screens on which orders, payments and stock are handled, as
  state machines without their display.

  \<^bold>\<open>How programs are modelled.\<close> \<open>Js_Prelude\<close> has JavaScript strings as lists of UTF-16 code units, numbers
  (\<open>jsnum\<close>: rationals, infinities, NaN), JSON values, exceptions, and effectful code as functions on an explicit
  world that end normally, throw, or stop because the process dies. \<open>Host\<close> is the world of the bridge: files,
  network, subprocesses, CUPS and the clock, each with a plan of how its next calls go, so that a theorem
  that holds for every plan holds for every failure and every crash between two effects. \<open>Web_Host\<close> is the
  world of a web request: its cookies, the cookies it sets, and the calls to the API, whose answers are a
  function of the number of the call. What is not code of the repository (the file system, \<open>fetch\<close>, URL parsing,
  SHA-256, the decoding of a token) is a field of \<open>env\<close> or \<open>webenv\<close>, an argument of every definition.

  \<^bold>\<open>The bridge.\<close>
  \<^item> \<open>Print_Types\<close>: the records of \<open>packages/shared-types\<close>.
  \<^item> \<open>Print_Protocol\<close> (\<open>protocol.ts\<close>): parsing of claimed jobs, \<open>parseClaimedJobs\<close> and its readers; parsed jobs are
    well formed, jobs in wire form parse to themselves, a malformed claim is reported under its own id.
  \<^item> \<open>Bridge_Config\<close> (\<open>config.ts\<close>, \<open>packages/config\<close>), \<open>Bridge_State\<close> (\<open>state.ts\<close>, \<open>health-server.ts\<close>),
    \<open>Bridge_Api\<close> (\<open>api-client.ts\<close>): configuration within its bounds, readiness as a function of the history,
    requests whose idempotency keys separate jobs, attempts and transitions.
  \<^item> \<open>Print_Journal\<close> (\<open>journal.ts\<close>): the write-ahead journal. Its state is \<open>jworld\<close>; \<open>load\<close>, \<open>persist\<close>,
    \<open>recordDispatching\<close>, \<open>recordPrinted\<close>, \<open>markAcknowledged\<close> and \<open>trimToLimit\<close> are the methods of the class. Writing
    is atomic under crashes, loading inverts writing, an unreadable journal blocks the bridge.
  \<^item> \<open>Receipt_Text\<close> (\<open>receipt-text.ts\<close>), \<open>Cups_Job\<close> (\<open>cups-job.ts\<close>, on 8-bit words), \<open>Printers\<close> (the Windows, macOS
    and mock transports and \<open>process-exec.ts\<close>): rendered lines fit the paper and lose no text of an ordered
    item, IPP answers are read right, a successful print has run the spooler as often as promised.
  \<^item> \<open>Interfaces\<close>: the contracts between them as locales. \<open>duplicate_guard\<close> is what a store of print attempts
    promises (interpreted by the journal), \<open>pending_guard\<close> what its client keeps (interpreted by the job loop),
    \<open>printer_transport\<close> what the loop relies on when it prints (interpreted by the transports).
  \<^item> \<open>Print_Bridge\<close> (\<open>bridge.ts\<close>): \<open>process\<close>, \<open>recoverJournal\<close>, \<open>poll\<close>, \<open>run\<close> and sequences of process lifetimes. The
    main theorem is \<open>no_silent_duplicate\<close>: between two prints of one attempt the API has accepted a report of it.
  \<^item> \<open>Agent_Runtime\<close> (\<open>agent-runtime.ts\<close>, \<open>runtime-lock.ts\<close>, \<open>credentials.ts\<close>, \<open>enroll.ts\<close>, \<open>index.ts\<close>).

  \<^bold>\<open>The web application.\<close>
  \<^item> \<open>Web_Responses\<close> (\<open>lib/api/errors.ts\<close>, \<open>lib/server/responses.ts\<close>), \<open>Web_Security\<close> (\<open>request-security.ts\<close>,
    \<open>client-address.ts\<close>, \<open>backend-route-policy.ts\<close>), \<open>Web_Cookies\<close> (\<open>auth-cookies.ts\<close>, \<open>loyalty-cookie.ts\<close>) and
    \<open>Web_Backend\<close> (\<open>backend.ts\<close>): answers, the origin check, the address of the client, cookies, and URLs that stay
    below the directory of the API.
  \<^item> \<open>Web_Session\<close> (\<open>auth-session.ts\<close>): a request that is answered with 401 is repeated once with refreshed tokens.
    \<open>Refresh_Flights\<close> is the map of running refreshes under any interleaving, a state machine that implements
    a set of tokens each refreshed by one request.
  \<^item> \<open>Normalizers\<close> (\<open>lib/api/normalizers.ts\<close>) and \<open>Auth_Routes\<close> (\<open>app/api/auth/*/route.ts\<close>): users, tenants and branches
    read out of answers, and login, PIN and panel login, branch switching, refreshing and logging out; the
    schemas of the library zod are arguments. A session is issued only for an answer that grants one.
    \<open>Registration\<close> (\<open>app/api/register/**/route.ts\<close>): nothing is registered without valid data and both consents.
  \<^item> \<open>Backend_Route\<close> (\<open>app/api/backend/[...path]/route.ts\<close>) composes them into the route behind which the API lies.
  \<^item> \<open>Page_Access\<close> (\<open>proxy.ts\<close>): which pages a session may open and where redirects lead; \<open>browse\<close> follows
    redirects with fuel, and three requests are enough. \<open>Navigation\<close> (\<open>permissions.ts\<close>, \<open>navigation-access.ts\<close>): the
    links the interface shows against the pages the gate opens.
  \<^item> \<open>Cart\<close> (\<open>stores/cart-store.ts\<close>, money of \<open>components/qr/qr-utils.ts\<close>): the cart as a finite map.
    \<open>Bill_Lines\<close> (\<open>components/printing\<close>): grouping equal lines of a bill without losing an amount, and the key of a
    bill. \<open>Ordering\<close>: modifier selection, the current order of a table, commands with an uncertain outcome.
  \<^item> \<open>Api_Client\<close> (\<open>lib/api/client.ts\<close>, \<open>ApiError\<close>, \<open>hooks/use-auth.ts\<close> and its siblings): the requests of a page, whose
    paths and errors fit those of the route and of the API behind it.
  \<^item> \<open>Live_Socket\<close> (\<open>hooks/use-websocket.ts\<close>): the reconnecting connection as a step function over events of React, the
    browser, the network and the page. \<open>ws_run\<close> is the set of reachable states in which neither \<open>reconnect\<close> nor
    \<open>close\<close> has raced a render; the lemmas \<open>connection_leaks_in_window\<close> and \<open>close_after_reconnect_undone\<close> show what
    happens in the other ones.
  \<^item> \<open>System_Status\<close> (\<open>app/super-admin/system/status/route.ts\<close>): the health of the platform. Who may read it, the
    probes of the API and of the bridges as effects on the world, the dialogue with Redis as a step function over
    the events of a socket, read by a server that is specified by its own side of the protocol.

  \<^bold>\<open>The screens.\<close> A screen is a record of its React state, a datatype of the events that can reach it (what the user
  does, answers, timers) and a step function that gives the next state and what it sends; a control that is
  disabled or not rendered makes its event a step that changes nothing. \<open>trace_run\<close> of \<open>Item_Transfer\<close> runs such a
  function over any sequence of events, so answers arrive in any order or never; its lemmas \<open>trace_run_invariant\<close>,
  \<open>trace_entry\<close> and \<open>trace_log_invariant\<close> carry the proofs about all of them.
  \<^item> \<open>Till\<close> (\<open>components/cashier/cashier-workspace.tsx\<close>): balances and payment amounts in rounded double
    arithmetic, merge candidates. \<open>Till_Commands\<close>: the state of the till, its mutations with guards, requests and
    effects. \<open>Command_Log\<close> is the locale of a screen that retries commands under the key of their intent; the till
    interprets it, and \<open>payments_sent_once\<close> rests on it. \<open>Item_Transfer\<close> (\<open>cashier-item-transfer-dialog.tsx\<close>): the
    dialog that moves items to another table.
  \<^item> \<open>Waiter_Order\<close> (\<open>components/waiter/order-builder.tsx\<close>): the draft of a table, the product dialog, submissions.
  \<^item> \<open>Key_Ref\<close> is the locale of a screen that keeps one key until a request succeeds (\<open>keyed_screen\<close>, extended by
    \<open>keyed_until_success\<close>). \<open>Guest_Menu\<close> (\<open>components/qr/public-menu.tsx\<close>, \<open>product-drawer.tsx\<close>, \<open>cart-drawer.tsx\<close>,
    \<open>bill-request-drawer.tsx\<close>) and \<open>Delivery\<close> (\<open>components/delivery/*\<close>, \<open>cashier-modifier-dialog.tsx\<close>) interpret it.
  \<^item> \<open>Sign_In\<close> (\<open>components/auth/*\<close>, \<open>app/login/page.tsx\<close>): the forms and where they lead. \<open>Live_Updates\<close>
    (\<open>components/providers/realtime-sync.tsx\<close>): tickets of live connections over branch switches and retries.
  \<^item> \<open>Inventory\<close> (\<open>components/inventory/inventory-management.tsx\<close>): movements, transfers, stock cards, recipes.
    \<open>Recipe_Copy\<close> (\<open>recipe-copy-dialog.tsx\<close>): a copy as the sequence of its requests.

  \<^bold>\<open>Bounds and termination.\<close> The loops of the bridge consume the plans of \<open>Host\<close> and stop when a plan ends; plans are
  finite and of any length, so a theorem about all plans speaks about every prefix of a run. Loops that may
  run forever for some input (\<open>chop_loop\<close>) are \<open>partial_function (option)\<close>, with the inputs for which they
  end characterised.

  \<^bold>\<open>Limits of the model.\<close> Log output; members of \<open>Object.prototype\<close> as keys; \<open>toLowerCase\<close> and \<open>toUpperCase\<close> only as
  far as they can matter in a comparison with ASCII text, and comparing or changing case by the rules of a language
  is a parameter; integers of the environment are not rounded to doubles, and \<open>exp * 1000\<close> is exact; heartbeats
  interleave with the job loop at its rounds; the probes of the status page run one after another; the PowerShell
  script of the Windows transport is an opaque text; sockets of the health server; what a browser makes of a
  cookie. Clocks, URL parsers, generators of UUIDs and the events of sockets are parameters.

  \<^bold>\<open>Not modelled.\<close> The display of the React components, toasts and the invalidation of cached queries where no guard
  depends on it; the remaining screens of the administration (printers, products, tables, employees, businesses)
  and small stores (theme, cookie consent); the formatting of dates and amounts, which is the runtime's; the desktop
  shell of the bridge, which starts \<open>Agent_Runtime\<close> in a window; the Python API, seen through its answers.
\<close>

end
